(* ===== verification/PyText.thy ===== *)
theory PyText
  imports Prelude
begin

text \<open>
  Python's \<open>str\<close> as the code uses it. A string is the list of its UTF-8 bytes; ASCII
  characters are single bytes, so white space, letter case, digits and the literals of the
  source are exact for ASCII text, and a character beyond ASCII is a run of bytes above 127
  that no predicate here classifies (it is neither a space, a digit, nor a cased letter).
  \<open>len\<close> counts code points, that is the bytes that are not UTF-8 continuation bytes.
  The second half parses and prints integers and decimals the way \<open>int(...)\<close>,
  \<open>Decimal(...)\<close>, \<open>str(...)\<close> and \<open>quantize\<close> do.
\<close>

section \<open>Characters and white space\<close>

abbreviation code :: "char \<Rightarrow> nat" where
  "code c \<equiv> of_char c"

definition py_space :: "char \<Rightarrow> bool" where
  "py_space c = (9 \<le> code c \<and> code c \<le> 13 \<or> 28 \<le> code c \<and> code c \<le> 32)"

definition is_dig :: "char \<Rightarrow> bool" where
  "is_dig c = (48 \<le> code c \<and> code c \<le> 57)"

definition dig_val :: "char \<Rightarrow> nat" where
  "dig_val c = code c - 48"

definition lower_char :: "char \<Rightarrow> char" where
  "lower_char c = (if 65 \<le> code c \<and> code c \<le> 90 then char_of (code c + 32) else c)"

definition upper_char :: "char \<Rightarrow> char" where
  "upper_char c = (if 97 \<le> code c \<and> code c \<le> 122 then char_of (code c - 32) else c)"

definition lower :: "string \<Rightarrow> string" where
  "lower s = map lower_char s"

definition upper :: "string \<Rightarrow> string" where
  "upper s = map upper_char s"

definition lstrip :: "string \<Rightarrow> string" where
  "lstrip s = dropWhile py_space s"

definition rstrip :: "string \<Rightarrow> string" where
  "rstrip s = rev (dropWhile py_space (rev s))"

definition strip :: "string \<Rightarrow> string" where
  "strip s = rstrip (lstrip s)"

definition py_len :: "string \<Rightarrow> nat" where
  "py_len s = length (filter (\<lambda>c. \<not> (128 \<le> code c \<and> code c \<le> 191)) s)"

definition str_isdigit :: "string \<Rightarrow> bool" where
  "str_isdigit s = (s \<noteq> [] \<and> list_all is_dig s)"

lemma hd_dropWhile_space: "dropWhile py_space s \<noteq> [] \<Longrightarrow> \<not> py_space (hd (dropWhile py_space s))"
  by (induction s) auto

text \<open>\<open>s.split()\<close> without arguments: the maximal runs of non-space characters.\<close>

function py_split :: "string \<Rightarrow> string list" where
  "py_split s =
     (let t = dropWhile py_space s
      in if t = [] then []
         else takeWhile (\<lambda>c. \<not> py_space c) t # py_split (dropWhile (\<lambda>c. \<not> py_space c) t))"
  by pat_completeness auto
termination
proof (relation "measure length", simp)
  fix s :: string and t
  assume t: "t = dropWhile py_space s" and ne: "t \<noteq> []"
  then obtain c r where cr: "t = c # r" by (metis list.exhaust)
  have "\<not> py_space c"
    using hd_dropWhile_space [of s] t cr by (metis list.distinct(1) list.sel(1))
  then have "length (dropWhile (\<lambda>c. \<not> py_space c) t) < length t"
    using cr length_dropWhile_le [of "\<lambda>c. \<not> py_space c" r] by simp
  moreover have "length t \<le> length s"
    using t length_dropWhile_le [of py_space s] by simp
  ultimately show "(dropWhile (\<lambda>c. \<not> py_space c) t, s) \<in> measure length" by simp
qed

declare py_split.simps [simp del]

definition str_join :: "string \<Rightarrow> string list \<Rightarrow> string" where
  "str_join sep ws =
     (case ws of [] \<Rightarrow> [] | w # rest \<Rightarrow> w @ concat (map (\<lambda>x. sep @ x) rest))"

lemma str_join_Cons:
  "str_join sep (w # ws) = w @ (if ws = [] then [] else sep @ str_join sep ws)"
  by (cases ws) (simp_all add: str_join_def)

definition startswith :: "string \<Rightarrow> string \<Rightarrow> bool" where
  "startswith s p = (take (length p) s = p)"

text \<open>The newline character of the message templates.\<close>

definition nl :: string where
  "nl = [CHR 0x0A]"

section \<open>Facts about case and white space\<close>

lemma of_char_bound: "code c < 256"
  by simp

lemma code_char_of [simp]: "n < 256 \<Longrightarrow> code (char_of n) = n"
  by simp

lemma code_lower_char:
  "code (lower_char c) = (if 65 \<le> code c \<and> code c \<le> 90 then code c + 32 else code c)"
  by (simp add: lower_char_def)

lemma lower_char_idem [simp]: "lower_char (lower_char c) = lower_char c"
  by (simp add: lower_char_def [of "lower_char c"] code_lower_char) (simp add: lower_char_def)

lemma lower_idem [simp]: "lower (lower s) = lower s"
  by (simp add: lower_def o_def)

lemma lower_append: "lower (a @ b) = lower a @ lower b"
  by (simp add: lower_def)

lemma lower_eq_Nil [simp]: "lower s = [] \<longleftrightarrow> s = []"
  by (simp add: lower_def)

lemma space_lower_char [simp]: "py_space (lower_char c) = py_space c"
  by (simp add: py_space_def code_lower_char)

lemma dropWhile_lower: "dropWhile py_space (map lower_char s) = map lower_char (dropWhile py_space s)"
  by (induction s) auto

lemma lstrip_lower: "lstrip (lower s) = lower (lstrip s)"
  by (simp add: lstrip_def lower_def dropWhile_lower)

lemma rstrip_lower: "rstrip (lower s) = lower (rstrip s)"
  by (simp add: rstrip_def lower_def rev_map dropWhile_lower)

lemma strip_lower: "strip (lower s) = lower (strip s)"
  by (simp add: strip_def lstrip_lower rstrip_lower)

lemma rstrip_idem [simp]: "rstrip (rstrip s) = rstrip s"
  by (simp add: rstrip_def)

lemma lstrip_rstrip_head:
  "lstrip s = s \<Longrightarrow> lstrip (rstrip s) = rstrip s"
proof (cases "rstrip s")
  case (Cons c r)
  assume s: "lstrip s = s"
  have "\<exists>t. s = rstrip s @ t"
    by (metis rstrip_def rev_append rev_rev_ident takeWhile_dropWhile_id)
  with Cons have "s \<noteq> [] \<and> hd s = c" by auto
  moreover from this s have "\<not> py_space c"
    by (metis hd_dropWhile_space lstrip_def)
  ultimately show ?thesis using Cons by (simp add: lstrip_def)
qed (simp add: lstrip_def)

lemma lstrip_idem [simp]: "lstrip (lstrip s) = lstrip s"
  by (simp add: lstrip_def)

lemma strip_idem [simp]: "strip (strip s) = strip s"
  by (simp add: strip_def lstrip_rstrip_head)

lemma py_len_le: "py_len s \<le> length s"
  by (simp add: py_len_def)

end
