(* ===== verification/PyNumber.thy ===== *)
theory PyNumber
  imports PyText
begin

text \<open>
  Numbers as Python reads and prints them: \<open>int(s)\<close>, \<open>str(n)\<close>, \<open>Decimal(s)\<close>,
  \<open>Decimal.quantize\<close> to two places with \<open>ROUND_HALF_UP\<close> under the default context
  (28 digits), and the format specifications \<open>.2f\<close> and \<open>,.2f\<close> on an amount of money.
  Money is an \<open>int\<close> number of cents, the value of a \<open>Decimal\<close> with two places.
\<close>

section \<open>Integers\<close>

text \<open>
  A digit string of \<open>int(...)\<close>: digits with single underscores between them. The flag says
  that a digit must come next (at the start and after an underscore).
\<close>

fun us_digits :: "bool \<Rightarrow> string \<Rightarrow> nat list option" where
  "us_digits need [] = (if need then None else Some [])"
| "us_digits need (c # s) =
     (if is_dig c then map_option ((#) (dig_val c)) (us_digits False s)
      else if c = CHR ''_'' \<and> \<not> need then us_digits True s
      else None)"

definition digits_val :: "nat list \<Rightarrow> nat" where
  "digits_val ds = foldl (\<lambda>a d. a * 10 + d) 0 ds"

definition split_sign :: "string \<Rightarrow> bool \<times> string" where
  "split_sign t =
     (case t of [] \<Rightarrow> (False, [])
      | c # r \<Rightarrow> if c = CHR ''-'' then (True, r)
                 else if c = CHR ''+'' then (False, r) else (False, t))"

text \<open>The interpreter refuses integers of more than 4300 digits.\<close>

definition max_int_digits :: nat where
  "max_int_digits = 4300"

definition py_int :: "string \<Rightarrow> int option" where
  "py_int s =
     (let (neg, body) = split_sign (strip s)
      in case us_digits True body of
           None \<Rightarrow> None
         | Some ds \<Rightarrow>
             if max_int_digits < length ds then None
             else Some (if neg then - int (digits_val ds) else int (digits_val ds)))"

definition dig_char :: "nat \<Rightarrow> char" where
  "dig_char d = char_of (48 + d)"

fun str_nat :: "nat \<Rightarrow> string" where
  "str_nat n = (if n < 10 then [dig_char n] else str_nat (n div 10) @ [dig_char (n mod 10)])"

declare str_nat.simps [simp del]

definition str_int :: "int \<Rightarrow> string" where
  "str_int n = (if n < 0 then CHR ''-'' # str_nat (nat (- n)) else str_nat (nat n))"

section \<open>Printing and reading integers\<close>

lemma code_dig_char [simp]: "d < 10 \<Longrightarrow> code (dig_char d) = 48 + d"
  by (simp add: dig_char_def)

lemma is_dig_dig_char [simp]: "d < 10 \<Longrightarrow> is_dig (dig_char d)"
  by (simp add: is_dig_def)

lemma dig_val_dig_char [simp]: "d < 10 \<Longrightarrow> dig_val (dig_char d) = d"
  by (simp add: dig_val_def)

lemma str_nat_ne [simp]: "str_nat n \<noteq> []"
  by (subst str_nat.simps) simp

lemma str_nat_digits: "list_all is_dig (str_nat n)"
proof (induction n rule: str_nat.induct)
  case (1 n)
  then show ?case by (cases "n < 10") (simp_all add: str_nat.simps [of n])
qed

lemma us_digits_all: "list_all is_dig s \<Longrightarrow> s \<noteq> [] \<or> \<not> need \<Longrightarrow> us_digits need s = Some (map dig_val s)"
  by (induction s arbitrary: need) auto

lemma digits_val_snoc [simp]: "digits_val (ds @ [d]) = digits_val ds * 10 + d"
  by (simp add: digits_val_def)

lemma digits_val_Nil [simp]: "digits_val [] = 0"
  by (simp add: digits_val_def)

lemma digits_val_append: "digits_val (xs @ ys) = digits_val xs * 10 ^ length ys + digits_val ys"
proof (induction ys rule: rev_induct)
  case (snoc y ys)
  then show ?case
    by (simp add: algebra_simps flip: append_assoc)
qed simp

lemma digits_val_str_nat [simp]: "digits_val (map dig_val (str_nat n)) = n"
proof (induction n rule: str_nat.induct)
  case (1 n)
  show ?case
  proof (cases "n < 10")
    case True
    then show ?thesis by (simp add: str_nat.simps [of n] digits_val_def)
  next
    case False
    with 1 show ?thesis by (simp add: str_nat.simps [of n])
  qed
qed

lemma length_str_nat_le: "n < 10 ^ k \<Longrightarrow> 0 < k \<Longrightarrow> length (str_nat n) \<le> k"
proof (induction n arbitrary: k rule: str_nat.induct)
  case (1 n)
  show ?case
  proof (cases "n < 10")
    case True
    with 1 show ?thesis by (simp add: str_nat.simps [of n])
  next
    case False
    obtain j where k: "k = Suc j" using "1.prems"(2) by (cases k) simp_all
    with False "1.prems"(1) have "j \<noteq> 0" by (cases j) simp_all
    with k have j: "k = Suc j" "0 < j" by simp_all
    then have "n div 10 < 10 ^ j" using "1.prems"(1) by (simp add: less_mult_imp_div_less mult.commute)
    then show ?thesis using False j "1.IH" [of j] by (simp add: str_nat.simps [of n])
  qed
qed

lemma length_str_nat_ge: "10 ^ k \<le> n \<Longrightarrow> k < length (str_nat n)"
proof (induction n arbitrary: k rule: str_nat.induct)
  case (1 n)
  show ?case
  proof (cases k)
    case 0
    then show ?thesis by simp
  next
    case (Suc j)
    then have le: "10 * 10 ^ j \<le> n" using "1.prems" by simp
    then have "10 ^ j \<le> n div 10"
      by (simp add: less_eq_div_iff_mult_less_eq mult.commute)
    moreover from le have "\<not> n < 10" using one_le_power [of "10 :: nat" j] by linarith
    ultimately have "\<not> n < 10" and "10 ^ j \<le> n div 10" by simp_all
    then show ?thesis using Suc "1.IH" [of j] by (simp add: str_nat.simps [of n])
  qed
qed

lemma digit_not_space: "is_dig c \<Longrightarrow> \<not> py_space c"
  by (auto simp: is_dig_def py_space_def)

lemma strip_digits:
  assumes "list_all is_dig s" shows "strip s = s"
proof -
  have "dropWhile py_space s = s"
    using assms by (cases s) (auto simp: digit_not_space)
  moreover have "dropWhile py_space (rev s) = rev s"
    using assms by (cases s rule: rev_cases) (auto simp: digit_not_space)
  ultimately show ?thesis by (simp add: strip_def lstrip_def rstrip_def)
qed

lemma strip_ends:
  assumes "s \<noteq> []" "\<not> py_space (hd s)" "\<not> py_space (last s)"
  shows "strip s = s"
proof -
  have "dropWhile py_space s = s"
    using assms by (cases s) auto
  moreover have "dropWhile py_space (rev s) = rev s"
    using assms by (cases s rule: rev_cases) auto
  ultimately show ?thesis by (simp add: strip_def lstrip_def rstrip_def)
qed

lemma last_str_nat: "is_dig (last (str_nat n))"
  using str_nat_digits [of n] str_nat_ne [of n] by (metis last_in_set list_all_iff)

lemma hd_str_nat: "is_dig (hd (str_nat n))"
  using str_nat_digits [of n] str_nat_ne [of n] by (metis hd_in_set list_all_iff)

lemma split_sign_digits: "is_dig (hd s) \<Longrightarrow> s \<noteq> [] \<Longrightarrow> split_sign s = (False, s)"
  by (cases s) (auto simp: split_sign_def is_dig_def)

theorem py_int_str_int:
  assumes "\<bar>n\<bar> < 10 ^ max_int_digits"
  shows "py_int (str_int n) = Some n"
proof -
  let ?m = "nat \<bar>n\<bar>"
  have "?m < 10 ^ max_int_digits" using assms by (simp add: nat_less_iff)
  then have len: "length (str_nat ?m) \<le> max_int_digits"
    by (rule length_str_nat_le) (simp add: max_int_digits_def)
  have ds: "us_digits True (str_nat ?m) = Some (map dig_val (str_nat ?m))"
    by (rule us_digits_all) (simp_all add: str_nat_digits)
  show ?thesis
  proof (cases "n < 0")
    case True
    have "strip (CHR ''-'' # str_nat ?m) = CHR ''-'' # str_nat ?m"
      by (rule strip_ends) (simp_all add: py_space_def digit_not_space [OF last_str_nat, unfolded py_space_def])
    with True ds len show ?thesis
      by (simp add: py_int_def str_int_def split_sign_def)
  next
    case False
    have "strip (str_nat ?m) = str_nat ?m" by (rule strip_digits) (rule str_nat_digits)
    with False ds len show ?thesis
      by (simp add: py_int_def str_int_def split_sign_digits hd_str_nat)
  qed
qed

end
