(* ===== verification/PyDecimal.thy ===== *)
theory PyDecimal
  imports PyNumber
begin

text \<open>
  \<open>decimal.Decimal\<close>: reading a literal, rounding to two places with \<open>ROUND_HALF_UP\<close> under the
  default context of 28 digits, and the format specifications \<open>.2f\<close> and \<open>,.2f\<close> of an amount
  in cents. Exponents are unbounded here (the C implementation limits them to 18 digits).
\<close>

datatype decimal =
    DFin (neg: bool) (coeff: nat) (expo: int)  \<comment> \<open>\<open>(-1)^neg * coeff * 10^expo\<close>\<close>
  | DInf bool
  | DNaN bool                                   \<comment> \<open>the flag: signalling\<close>

section \<open>Reading a literal\<close>

definition parse_exponent :: "string \<Rightarrow> int option" where
  "parse_exponent s =
     (case s of
        [] \<Rightarrow> Some 0
      | c # r \<Rightarrow>
          if c = CHR ''E'' then
            (let (sg, ds) = split_sign r
             in if ds \<noteq> [] \<and> list_all is_dig ds
                then Some (if sg then - int (digits_val (map dig_val ds))
                           else int (digits_val (map dig_val ds)))
                else None)
          else None)"

definition parse_number :: "bool \<Rightarrow> string \<Rightarrow> decimal option" where
  "parse_number sg u =
     (let ip = takeWhile is_dig u; r = dropWhile is_dig u;
          (fp, r2) = (case r of
                        [] \<Rightarrow> ([], [])
                      | c # r' \<Rightarrow> if c = CHR ''.'' then (takeWhile is_dig r', dropWhile is_dig r')
                                  else ([], r))
      in if ip = [] \<and> fp = [] then None
         else map_option (\<lambda>e. DFin sg (digits_val (map dig_val (ip @ fp))) (e - int (length fp)))
                (parse_exponent r2))"

definition parse_decimal :: "string \<Rightarrow> decimal option" where
  "parse_decimal s =
     (let (sg, body) = split_sign (filter (\<lambda>c. c \<noteq> CHR ''_'') (strip s)); u = upper body
      in if u = ''INF'' \<or> u = ''INFINITY'' then Some (DInf sg)
         else if startswith u ''NAN'' \<and> list_all is_dig (drop 3 u) then Some (DNaN False)
         else if startswith u ''SNAN'' \<and> list_all is_dig (drop 4 u) then Some (DNaN True)
         else parse_number sg u)"

section \<open>Rounding to two places\<close>

definition context_prec :: int where
  "context_prec = 28"

definition half_up_div :: "nat \<Rightarrow> nat \<Rightarrow> nat" where
  "half_up_div a k = (2 * a + k) div (2 * k)"

text \<open>\<open>d.quantize(Decimal("0.01"), rounding=ROUND_HALF_UP)\<close>; \<open>None\<close> is \<open>InvalidOperation\<close>.\<close>

fun quantize2 :: "decimal \<Rightarrow> decimal option" where
  "quantize2 (DNaN sig) = (if sig then None else Some (DNaN False))"
| "quantize2 (DInf sg) = None"
| "quantize2 (DFin sg c e) =
     (if c = 0 then Some (DFin sg 0 (- 2))
      else if context_prec < e + int (length (str_nat c)) - 1 + 2 + 1 then None
      else let c' = (if - 2 \<le> e then c * 10 ^ nat (e + 2) else half_up_div c (10 ^ nat (- 2 - e)))
           in if context_prec < int (length (str_nat c')) then None else Some (DFin sg c' (- 2)))"

definition signed :: "bool \<Rightarrow> nat \<Rightarrow> int" where
  "signed sg c = (if sg then - int c else int c)"

text \<open>
  The number of cents a finite decimal denotes when it is stored in a column
  \<open>numeric(10, 2)\<close>: PostgreSQL rounds half away from zero.
\<close>

fun to_cents :: "decimal \<Rightarrow> int option" where
  "to_cents (DFin sg c e) =
     Some (signed sg (if - 2 \<le> e then c * 10 ^ nat (e + 2) else half_up_div c (10 ^ nat (- 2 - e))))"
| "to_cents _ = None"

definition of_cents :: "int \<Rightarrow> decimal" where
  "of_cents n = DFin (n < 0) (nat \<bar>n\<bar>) (- 2)"

lemma to_cents_of_cents [simp]: "to_cents (of_cents n) = Some n"
  by (simp add: of_cents_def signed_def)

text \<open>
  Half-up rounding is within half a cent of the exact value, and a value half-way between
  two cents goes up.
\<close>

lemma half_up_div_bounds:
  assumes "0 < k"
  shows "2 * k * half_up_div a k \<le> 2 * a + k" and "2 * a + k < 2 * k * half_up_div a k + 2 * k"
proof -
  have "2 * k * half_up_div a k = 2 * a + k - (2 * a + k) mod (2 * k)"
    by (simp add: half_up_div_def minus_mod_eq_mult_div)
  moreover have "(2 * a + k) mod (2 * k) < 2 * k" using assms by simp
  ultimately show "2 * k * half_up_div a k \<le> 2 * a + k"
    and "2 * a + k < 2 * k * half_up_div a k + 2 * k"
    by (auto intro: diff_le_self)
qed

section \<open>Printing amounts of money\<close>

definition two_digits :: "nat \<Rightarrow> string" where
  "two_digits n = [dig_char (n div 10), dig_char (n mod 10)]"

fun group_rev :: "string \<Rightarrow> string" where
  "group_rev (a # b # c # d # r) = a # b # c # CHR '','' # group_rev (d # r)"
| "group_rev s = s"

definition group_thousands :: "string \<Rightarrow> string" where
  "group_thousands s = rev (group_rev (rev s))"

definition fmt_2f :: "int \<Rightarrow> string" where
  "fmt_2f n =
     (let m = nat \<bar>n\<bar>
      in (if n < 0 then ''-'' else []) @ str_nat (m div 100) @ ''.'' @ two_digits (m mod 100))"

definition fmt_c2f :: "int \<Rightarrow> string" where
  "fmt_c2f n =
     (let m = nat \<bar>n\<bar>
      in (if n < 0 then ''-'' else []) @ group_thousands (str_nat (m div 100)) @ ''.''
           @ two_digits (m mod 100))"

lemma filter_group_rev:
  "filter (\<lambda>c. c \<noteq> CHR '','') (group_rev s) = filter (\<lambda>c. c \<noteq> CHR '','') s"
  by (induction s rule: group_rev.induct) auto

lemma set_group_rev: "set (group_rev s) \<subseteq> insert (CHR '','') (set s)"
  by (induction s rule: group_rev.induct) auto

lemma filter_group_thousands:
  "filter (\<lambda>c. c \<noteq> CHR '','') (group_thousands s) = filter (\<lambda>c. c \<noteq> CHR '','') s"
  by (simp add: group_thousands_def filter_group_rev flip: rev_filter)

lemma set_group_thousands: "set (group_thousands s) \<subseteq> insert (CHR '','') (set s)"
  using set_group_rev [of "rev s"] by (simp add: group_thousands_def)

lemma two_digits_digits: "n < 100 \<Longrightarrow> list_all is_dig (two_digits n)"
  by (simp add: two_digits_def)

lemma digits_val_two_digits:
  "n < 100 \<Longrightarrow> digits_val (ds @ map dig_val (two_digits n)) = digits_val ds * 100 + n"
  by (simp add: two_digits_def digits_val_append) (simp add: digits_val_def)

section \<open>Reading back a printed amount\<close>

lemma takeWhile_digits [simp]:
  "list_all is_dig a \<Longrightarrow> \<not> is_dig c \<Longrightarrow> takeWhile is_dig (a @ c # b) = a"
  "list_all is_dig a \<Longrightarrow> \<not> is_dig c \<Longrightarrow> dropWhile is_dig (a @ c # b) = c # b"
  by (induction a) auto

lemma takeWhile_all_digits [simp]:
  "list_all is_dig a \<Longrightarrow> takeWhile is_dig a = a" "list_all is_dig a \<Longrightarrow> dropWhile is_dig a = []"
  by (induction a) auto

lemma parse_number_fixed:
  assumes "list_all is_dig ip" "list_all is_dig fp" "ip \<noteq> []"
  shows "parse_number sg (ip @ CHR ''.'' # fp)
       = Some (DFin sg (digits_val (map dig_val (ip @ fp))) (- int (length fp)))"
  using assms by (simp add: parse_number_def parse_exponent_def is_dig_def)

lemma upper_digit: "is_dig c \<Longrightarrow> upper_char c = c"
  by (auto simp: is_dig_def upper_char_def)

lemma upper_digits: "list_all is_dig s \<Longrightarrow> upper s = s"
  by (induction s) (auto simp: upper_def upper_digit)

lemma parse_decimal_fixed:
  assumes ip: "list_all is_dig ip" "ip \<noteq> []" and fp: "list_all is_dig fp" "fp \<noteq> []"
  shows "parse_decimal (ip @ CHR ''.'' # fp)
       = Some (DFin False (digits_val (map dig_val (ip @ fp))) (- int (length fp)))"
proof -
  let ?s = "ip @ CHR ''.'' # fp"
  have hd_ip: "is_dig (hd ip)" and last_fp: "is_dig (last fp)"
    using ip fp by (metis hd_in_set last_in_set list_all_iff)+
  have strip: "strip ?s = ?s"
    using ip fp hd_ip last_fp by (intro strip_ends) (auto simp: digit_not_space)
  have "\<And>c. c \<in> set ?s \<Longrightarrow> c \<noteq> CHR ''_''"
    using ip fp by (auto simp: list_all_iff is_dig_def)
  then have filt: "filter (\<lambda>c. c \<noteq> CHR ''_'') ?s = ?s"
    by (simp add: filter_id_conv)
  have sign: "split_sign ?s = (False, ?s)"
    using ip hd_ip by (intro split_sign_digits) auto
  have up: "upper ?s = ?s"
    using upper_digits [OF ip(1)] upper_digits [OF fp(1)] by (simp add: upper_def upper_char_def)
  have notnan: "\<not> startswith ?s ''NAN''" "\<not> startswith ?s ''SNAN''" "?s \<noteq> ''INF''" "?s \<noteq> ''INFINITY''"
    using ip hd_ip by (cases ip; auto simp: is_dig_def startswith_def)+
  show ?thesis
    unfolding parse_decimal_def strip filt sign Let_def prod.case up
    using parse_number_fixed [OF ip(1) fp(1) ip(2), of False] notnan
    by simp
qed

lemma quantize2_cents:
  assumes "c < 10 ^ 28" shows "quantize2 (DFin sg c (- 2)) = Some (DFin sg c (- 2))"
proof -
  have "length (str_nat c) \<le> 28" by (rule length_str_nat_le [OF assms]) simp
  then show ?thesis by (simp add: context_prec_def)
qed

end
