(* ===== verification/Models.thy ===== *)
theory Models
  imports PyDecimal
begin

text \<open>
  \<open>app/fsm/models.py\<close>: the states of a conversation, the message keys, the product matches
  and resolutions, the session with its context, the inbound webhook payload and the result of
  one step. Enumerations keep the source's members under a prefix (\<open>S_\<close>, \<open>MK_\<close>, \<open>I_\<close>)
  because several enumerations share member names. Amounts of money are numbers of cents;
  a timestamp is a number of microseconds. \<open>JNum\<close> is a finite floating number, \<open>JNonFinite\<close> one
  of \<open>NaN\<close>, \<open>Infinity\<close> and \<open>-Infinity\<close> of Python's JSON; a JSON value keeps a timestamp as \<open>JTime\<close> rather
  than as the ISO-8601 text it is printed as.
\<close>

type_synonym uuid = "128 word"

section \<open>JSON values\<close>

datatype json =
    JNull
  | JBool bool
  | JInt int
  | JNum rat
  | JNonFinite string
  | JStr string
  | JTime time
  | JArr "json list"
  | JObj "(string \<times> json) list"

type_synonym dict = "(string \<times> json) list"

section \<open>Enumerations\<close>

datatype session_state =
    S_IDLE
  | S_START_ADD_PRODUCT
  | S_ADD_PRODUCT_NAME
  | S_ADD_PRODUCT_PRICE
  | S_ADD_PRODUCT_QTY
  | S_CONFIRM_ADD_PRODUCT
  | S_RECORD_SALE_PRODUCT
  | S_RECORD_SALE_PRODUCT_SELECTION
  | S_RECORD_SALE_QTY
  | S_CONFIRM_SALE
  | S_CHECK_STOCK_PRODUCT
  | S_CHECK_STOCK_PRODUCT_SELECTION
  | S_REPORT_PENDING
  | S_ANALYTICS_PRODUCT_SELECTION

fun state_value :: "session_state \<Rightarrow> string" where
  "state_value S_IDLE = ''IDLE''"
| "state_value S_START_ADD_PRODUCT = ''START_ADD_PRODUCT''"
| "state_value S_ADD_PRODUCT_NAME = ''ADD_PRODUCT_NAME''"
| "state_value S_ADD_PRODUCT_PRICE = ''ADD_PRODUCT_PRICE''"
| "state_value S_ADD_PRODUCT_QTY = ''ADD_PRODUCT_QTY''"
| "state_value S_CONFIRM_ADD_PRODUCT = ''CONFIRM_ADD_PRODUCT''"
| "state_value S_RECORD_SALE_PRODUCT = ''RECORD_SALE_PRODUCT''"
| "state_value S_RECORD_SALE_PRODUCT_SELECTION = ''RECORD_SALE_PRODUCT_SELECTION''"
| "state_value S_RECORD_SALE_QTY = ''RECORD_SALE_QTY''"
| "state_value S_CONFIRM_SALE = ''CONFIRM_SALE''"
| "state_value S_CHECK_STOCK_PRODUCT = ''CHECK_STOCK_PRODUCT''"
| "state_value S_CHECK_STOCK_PRODUCT_SELECTION = ''CHECK_STOCK_PRODUCT_SELECTION''"
| "state_value S_REPORT_PENDING = ''REPORT_PENDING''"
| "state_value S_ANALYTICS_PRODUCT_SELECTION = ''ANALYTICS_PRODUCT_SELECTION''"

definition all_states :: "session_state list" where
  "all_states =
     [S_IDLE, S_START_ADD_PRODUCT, S_ADD_PRODUCT_NAME, S_ADD_PRODUCT_PRICE, S_ADD_PRODUCT_QTY,
      S_CONFIRM_ADD_PRODUCT, S_RECORD_SALE_PRODUCT, S_RECORD_SALE_PRODUCT_SELECTION,
      S_RECORD_SALE_QTY, S_CONFIRM_SALE, S_CHECK_STOCK_PRODUCT, S_CHECK_STOCK_PRODUCT_SELECTION,
      S_REPORT_PENDING, S_ANALYTICS_PRODUCT_SELECTION]"

text \<open>The constructor call \<open>SessionState(value)\<close>; \<open>None\<close> is its \<open>ValueError\<close>.\<close>

definition state_of_value :: "string \<Rightarrow> session_state option" where
  "state_of_value v = find (\<lambda>s. state_value s = v) all_states"

datatype message_key =
    MK_FLOW_CANCELLED
  | MK_TOO_MANY_INVALID
  | MK_UNKNOWN_INTENT
  | MK_START_SALE
  | MK_START_STOCK_CHECK
  | MK_REPORT_GENERATING
  | MK_START_ADD_PRODUCT
  | MK_ASK_PRICE
  | MK_ASK_STOCK_QUANTITY
  | MK_CONFIRM_PRODUCT
  | MK_PRODUCT_CANCELLED
  | MK_PRODUCT_ADDED
  | MK_ASK_SALE_QUANTITY
  | MK_ASK_QUANTITY
  | MK_PRODUCT_NOT_FOUND
  | MK_PRODUCT_CHOICES
  | MK_CONFIRM_SALE
  | MK_SALE_CANCELLED
  | MK_SALE_RECORDED
  | MK_STOCK_NOT_FOUND
  | MK_STOCK_REMAINING
  | MK_PRODUCT_NAME_INVALID
  | MK_PRICE_INVALID
  | MK_PRICE_NON_POSITIVE
  | MK_QUANTITY_INVALID
  | MK_QUANTITY_NEGATIVE
  | MK_CONFIRMATION_INVALID
  | MK_UNKNOWN_ERROR
  | MK_INVALID_CHOICE
  | MK_QUANTITY_TOO_LOW
  | MK_SESSION_CONTEXT_LOST
  | MK_SHOP_NOT_FOUND
  | MK_INSUFFICIENT_STOCK
  | MK_LOW_STOCK_ALERT
  | MK_ANALYTICS_SALES_SUMMARY
  | MK_ANALYTICS_SALES_SUMMARY_EMPTY
  | MK_ANALYTICS_STOCK_LEVEL
  | MK_ANALYTICS_STOCK_LEVEL_LOW
  | MK_ANALYTICS_TOP_PRODUCTS
  | MK_ANALYTICS_TOP_PRODUCTS_EMPTY
  | MK_ANALYTICS_LOW_STOCK_ITEMS
  | MK_ANALYTICS_LOW_STOCK_ITEMS_EMPTY
  | MK_ANALYTICS_SALES_TREND
  | MK_ANALYTICS_SALES_TREND_EMPTY
  | MK_ANALYTICS_SLOW_MOVING_ITEMS
  | MK_ANALYTICS_SLOW_MOVING_ITEMS_EMPTY
  | MK_ANALYTICS_PRODUCT_PRICE
  | MK_ANALYTICS_INVALID_PROPOSAL
  | MK_ANALYTICS_PROVIDER_UNAVAILABLE
  | MK_ANALYTICS_DOMAIN_ERROR
  | MK_ANALYTICS_INFRASTRUCTURE_ERROR
  | MK_ANALYTICS_DAILY_LIMIT
  | MK_ANALYTICS_TEMPORARILY_UNAVAILABLE

datatype intent = I_UNKNOWN | I_ADD_PRODUCT | I_RECORD_SALE | I_GENERATE_REPORT | I_CHECK_STOCK

datatype resolution_status = RS_NOT_FOUND | RS_EXACT_MATCH | RS_AMBIGUOUS

section \<open>Products and resolutions\<close>

record scored_match =
  sm_id :: uuid
  sm_shop_id :: uuid
  sm_name :: string
  sm_sku :: string
  sm_price :: int
  similarity_score :: rat

record product_resolution =
  pr_status :: resolution_status
  pr_product :: "scored_match option"
  pr_candidates :: "scored_match list"

section \<open>The session\<close>

record prior_call =
  pc_tool_name :: string
  pc_arguments :: dict
  pc_timestamp :: time

record pending_call =
  pd_tool_name :: string
  pd_arguments :: dict
  pd_candidates :: "scored_match list"

record session_context =
  shop_id :: "uuid option"
  product_id :: "uuid option"
  product_name :: "string option"
  product_price :: "int option"
  product_qty :: "int option"
  flow_started_at :: "time option"
  history :: "session_state list"
  error_count :: int
  last_activity :: "time option"
  product_candidates :: "scored_match list"
  last_analytics_call :: "prior_call option"
  pending_analytics_call :: "pending_call option"

definition empty_context :: session_context where
  "empty_context =
     \<lparr>shop_id = None, product_id = None, product_name = None, product_price = None,
      product_qty = None, flow_started_at = None, history = [], error_count = 0,
      last_activity = None, product_candidates = [], last_analytics_call = None,
      pending_analytics_call = None\<rparr>"

record user_session =
  phone :: string
  sstate :: session_state
  ctx :: session_context

datatype update_session_result = UR_SUCCESS | UR_STATE_MISMATCH | UR_CORRUPTED_DATA

text \<open>\<open>UpdateSessionResult(raw)\<close>; \<open>None\<close> is its \<open>ValueError\<close>.\<close>

definition update_session_result_of :: "int \<Rightarrow> update_session_result option" where
  "update_session_result_of n =
     (if n = 1 then Some UR_SUCCESS
      else if n = 0 then Some UR_STATE_MISMATCH
      else if n = - 1 then Some UR_CORRUPTED_DATA else None)"

section \<open>The inbound message\<close>

text \<open>A WhatsApp message after validation; \<open>text\<close> is required by the schema.\<close>

record wa_message =
  wa_from :: string
  wa_id :: string
  wa_type :: string
  wa_body :: string

type_synonym wa_value = "wa_message list"
type_synonym wa_change = wa_value
type_synonym wa_entry = "wa_change list"

record whatsapp_webhook =
  wa_object :: string
  wa_entries :: "wa_entry list"

record webhook_response =
  wr_status :: string
  wr_message :: string

definition default_webhook_response :: webhook_response where
  "default_webhook_response = \<lparr>wr_status = ''success'', wr_message = ''accepted''\<rparr>"

record inbound_payload =
  sender :: string
  message_text :: string
  message_id :: string
  correlation_id :: "string option"

text \<open>
  \<open>entry[0].changes[0].value.messages[0]\<close>: an empty list at any level is the
  \<open>IndexError\<close> the code turns into \<open>None\<close>.
\<close>

definition from_whatsapp_webhook ::
  "whatsapp_webhook \<Rightarrow> string option \<Rightarrow> inbound_payload option" where
  "from_whatsapp_webhook w cid =
     (case wa_entries w of
        [] \<Rightarrow> None
      | changes # _ \<Rightarrow>
          (case changes of
             [] \<Rightarrow> None
           | messages # _ \<Rightarrow>
               (case messages of
                  [] \<Rightarrow> None
                | m # _ \<Rightarrow>
                    Some \<lparr>sender = wa_from m, message_text = wa_body m, message_id = wa_id m,
                          correlation_id = cid\<rparr>)))"

record report_payload =
  rp_shop_id :: uuid
  rp_recipient :: string
  rp_date :: "int option"  \<comment> \<open>a proleptic Gregorian ordinal\<close>

section \<open>The result of a step\<close>

datatype pval =
    PStr string
  | PInt int
  | PMoney int
  | PCands "scored_match list"

type_synonym params = "(string \<times> pval) list"

record fsm_result =
  previous_state :: session_state
  new_state :: session_state
  res_ctx :: session_context
  message_key :: message_key
  message_params :: params

section \<open>Enumeration values\<close>

lemma state_of_value_state_value [simp]: "state_of_value (state_value s) = Some s"
  by (cases s) (simp_all add: state_of_value_def all_states_def)

lemma state_value_inj [simp]: "state_value a = state_value b \<longleftrightarrow> a = b"
  by (metis option.inject state_of_value_state_value)

lemma all_states_complete: "s \<in> set all_states"
  by (cases s) (simp_all add: all_states_def)

end
