(* ===== verification/Errors.thy ===== *)
theory Errors
  imports Models
begin

text \<open>
  The exceptions of \<open>app/utils/errors.py\<close> together with those of the libraries the code
  lets through, their messages, and the HTTP answers of
  \<open>app/core/exception_handlers.py\<close>. An \<open>InvalidInputError\<close> carries its text, the optional
  message key and the message parameters; the engine answers it, every other exception leaves
  the conversation task.
\<close>

datatype exc =
    InvalidInputError string "message_key option" params
  | CorruptedSessionError string                 \<comment> \<open>session id\<close>
  | SessionStateMismatchError string             \<comment> \<open>session id\<close>
  | ResourceNotFoundException string string      \<comment> \<open>entity name, identifier\<close>
  | ResourceAlreadyExistsException string string string
  | ResourceConflictException string
  | InsufficientStockException string int int    \<comment> \<open>product id, requested, available\<close>
  | IntegrityError                               \<comment> \<open>a constraint of the schema\<close>
  | DataError                                    \<comment> \<open>a value outside its column's type\<close>
  | DecimalInvalidOperation
  | ValidationError string                       \<comment> \<open>pydantic\<close>
  | ValueError string
  | KeyError string
  | TypeError string
  | RuntimeError string
  | OverflowError string
  | MessageDeliveryError string
  | ResponseError string                         \<comment> \<open>Redis refuses a command or a script fails\<close>
  | OperationalError string                      \<comment> \<open>the broker does not take a task\<close>
  | MissingGreenlet                              \<comment> \<open>an expired attribute read outside an await\<close>
  | CeleryIgnore

type_synonym 'a res = "exc + 'a"

fun exc_message :: "exc \<Rightarrow> string" where
  "exc_message (InvalidInputError m _ _) = m"
| "exc_message (CorruptedSessionError sid) = ''Session '' @ sid @ '' was corrupted''"
| "exc_message (SessionStateMismatchError sid) = ''Session '' @ sid @ '' changed before save''"
| "exc_message (ResourceNotFoundException en ident) =
     en @ '' with identifier '' @ [CHR 0x27] @ ident @ [CHR 0x27] @ '' was not found.''"
| "exc_message (ResourceAlreadyExistsException en fn v) =
     en @ '' with '' @ fn @ '' '' @ [CHR 0x27] @ v @ [CHR 0x27] @ '' already exists.''"
| "exc_message (ResourceConflictException m) = m"
| "exc_message (InsufficientStockException p req av) =
     ''Cannot deduct '' @ str_int req @ '' units. Only '' @ str_int av @ '' units available.''"
| "exc_message (ValidationError m) = m"
| "exc_message (ValueError m) = m"
| "exc_message (KeyError m) = m"
| "exc_message (TypeError m) = m"
| "exc_message (RuntimeError m) = m"
| "exc_message (OverflowError m) = m"
| "exc_message (MessageDeliveryError m) = m"
| "exc_message (ResponseError m) = m"
| "exc_message (OperationalError m) = m"
| "exc_message IntegrityError = ''IntegrityError''"
| "exc_message DataError = ''DataError''"
| "exc_message DecimalInvalidOperation = ''InvalidOperation''"
| "exc_message MissingGreenlet = ''greenlet_spawn has not been called''"
| "exc_message CeleryIgnore = ''Ignore''"

fun is_invalid_input :: "exc \<Rightarrow> bool" where
  "is_invalid_input (InvalidInputError _ _ _) = True"
| "is_invalid_input _ = False"

section \<open>HTTP answers\<close>

record http_error =
  he_status :: int
  he_error_type :: string
  he_message :: string
  he_meta :: "(string \<times> string) list"

text \<open>\<open>None\<close>: no handler is registered, the server answers 500.\<close>

fun exception_handler :: "exc \<Rightarrow> http_error option" where
  "exception_handler (ResourceNotFoundException en ident) =
     Some \<lparr>he_status = 404, he_error_type = ''RESOURCE_NOT_FOUND'',
           he_message = exc_message (ResourceNotFoundException en ident),
           he_meta = [(''entity'', en), (''id'', ident)]\<rparr>"
| "exception_handler (InsufficientStockException p req av) =
     Some \<lparr>he_status = 422, he_error_type = ''INSUFFICIENT_STOCK'',
           he_message = exc_message (InsufficientStockException p req av), he_meta = []\<rparr>"
| "exception_handler (ResourceAlreadyExistsException en fn v) =
     Some \<lparr>he_status = 409, he_error_type = ''DUPLICATE_RESOURCE'',
           he_message = exc_message (ResourceAlreadyExistsException en fn v),
           he_meta = [(''entity'', en), (''conflict_field'', fn), (''conflict_value'', v)]\<rparr>"
| "exception_handler (ResourceConflictException m) =
     Some \<lparr>he_status = 409, he_error_type = ''RESOURCE_CONFLICT'', he_message = m, he_meta = []\<rparr>"
| "exception_handler _ = None"

end
