(* ===== verification/Database.thy ===== *)
theory Database
  imports Errors
begin

text \<open>
  The relational store: the tables of \<open>app/models/{shop,product,inventory,sales}.py\<close> as lists of
  rows in insertion order, the column types and the constraints of the schema
  (\<open>alembic/versions\<close>, with \<open>8a9f1d7c7c4b\<close> for the business constraints), and the transaction
  of \<open>app/core/database.py\<close>.

  A \<open>world\<close> holds the committed database, the database as the open transaction sees it, the
  tasks handed to Celery and a counter that makes the values drawn from the random generators
  distinct arguments of the generators. A statement computes the table contents it asks for;
  it is rejected with \<open>DataError\<close> when a value leaves its column's type and with
  \<open>IntegrityError\<close> when a constraint of the schema fails, and changes nothing then.
  Money is a number of cents. The columns \<open>updated_at\<close> and \<open>last_updated\<close>, which no code
  reads, are left out.
\<close>

section \<open>Rows\<close>

record shop_row =
  sh_id :: uuid
  sh_phone :: string
  sh_name :: "string option"
  sh_locale :: string
  sh_created :: time

record product_row =
  p_id :: uuid
  p_shop_id :: uuid
  p_name :: string
  p_sku :: string
  p_price :: int
  p_created :: time

record inventory_row =
  i_id :: uuid
  i_product_id :: uuid
  i_quantity :: int
  i_threshold :: int

record sale_row =
  s_id :: uuid
  s_shop_id :: uuid
  s_product_id :: uuid
  s_quantity :: int
  s_unit_price :: int
  s_recorded_by :: string
  s_created :: time

text \<open>The computed columns \<open>name_lower\<close> and \<open>total\<close>.\<close>

definition p_name_lower :: "product_row \<Rightarrow> string" where
  "p_name_lower p = lower (p_name p)"

definition s_total :: "sale_row \<Rightarrow> int" where
  "s_total s = s_quantity s * s_unit_price s"

record db =
  shops :: "shop_row list"
  products :: "product_row list"
  inventory :: "inventory_row list"
  sales :: "sale_row list"

definition empty_db :: db where
  "empty_db = \<lparr>shops = [], products = [], inventory = [], sales = []\<rparr>"

section \<open>Column types and constraints\<close>

definition int32 :: "int \<Rightarrow> bool" where
  "int32 n \<longleftrightarrow> - (2 ^ 31) \<le> n \<and> n < 2 ^ 31"

text \<open>\<open>Numeric(precision=10, scale=2)\<close>, in cents.\<close>

definition numeric_10_2 :: "int \<Rightarrow> bool" where
  "numeric_10_2 c \<longleftrightarrow> \<bar>c\<bar> < 10 ^ 10"

definition varchar :: "nat \<Rightarrow> string \<Rightarrow> bool" where
  "varchar n s \<longleftrightarrow> py_len s \<le> n"

definition shop_types :: "shop_row \<Rightarrow> bool" where
  "shop_types r \<longleftrightarrow> varchar 20 (sh_phone r) \<and> varchar 10 (sh_locale r)"

definition product_types :: "product_row \<Rightarrow> bool" where
  "product_types r \<longleftrightarrow> varchar 50 (p_sku r) \<and> numeric_10_2 (p_price r)"

definition inventory_types :: "inventory_row \<Rightarrow> bool" where
  "inventory_types r \<longleftrightarrow> int32 (i_quantity r) \<and> int32 (i_threshold r)"

definition sale_types :: "sale_row \<Rightarrow> bool" where
  "sale_types r \<longleftrightarrow>
     int32 (s_quantity r) \<and> numeric_10_2 (s_unit_price r) \<and> numeric_10_2 (s_total r) \<and>
     varchar 20 (s_recorded_by r)"

definition types_ok :: "db \<Rightarrow> bool" where
  "types_ok d \<longleftrightarrow>
     list_all shop_types (shops d) \<and> list_all product_types (products d) \<and>
     list_all inventory_types (inventory d) \<and> list_all sale_types (sales d)"

definition shop_constraints :: "db \<Rightarrow> bool" where
  "shop_constraints d \<longleftrightarrow>
     distinct (map sh_id (shops d)) \<and> distinct (map sh_phone (shops d)) \<and>
     list_all (\<lambda>s. sh_locale s \<in> {''en'', ''sw''}) (shops d)"

definition product_constraints :: "db \<Rightarrow> bool" where
  "product_constraints d \<longleftrightarrow>
     distinct (map p_id (products d)) \<and> distinct (map p_sku (products d)) \<and>
     list_all (\<lambda>p. p_shop_id p \<in> set (map sh_id (shops d)) \<and> 0 \<le> p_price p) (products d)"

definition inventory_constraints :: "db \<Rightarrow> bool" where
  "inventory_constraints d \<longleftrightarrow>
     distinct (map i_id (inventory d)) \<and> distinct (map i_product_id (inventory d)) \<and>
     list_all (\<lambda>i. i_product_id i \<in> set (map p_id (products d)) \<and> 0 \<le> i_quantity i \<and>
                   0 \<le> i_threshold i \<and> i_threshold i \<le> 1000) (inventory d)"

definition sale_constraints :: "db \<Rightarrow> bool" where
  "sale_constraints d \<longleftrightarrow>
     distinct (map s_id (sales d)) \<and>
     list_all (\<lambda>s. s_shop_id s \<in> set (map sh_id (shops d)) \<and>
                   s_product_id s \<in> set (map p_id (products d)) \<and> 0 < s_quantity s) (sales d)"

definition constraints :: "db \<Rightarrow> bool" where
  "constraints d \<longleftrightarrow>
     shop_constraints d \<and> product_constraints d \<and> inventory_constraints d \<and> sale_constraints d"

definition db_ok :: "db \<Rightarrow> bool" where
  "db_ok d \<longleftrightarrow> types_ok d \<and> constraints d"

section \<open>The world and its transaction\<close>

text \<open>The messages handed to Celery, by task.\<close>

datatype task =
    ConversationTask inbound_payload
  | ReportTask report_payload
  | LowStockAlert string string int  \<comment> \<open>phone, product id, remaining stock\<close>

record world =
  durable :: db
  work :: db
  ticks :: nat
  tasks :: "task list"

type_synonym 'a op = "world \<Rightarrow> 'a res \<times> world"

definition commit :: "world \<Rightarrow> world" where
  "commit w = w\<lparr>durable := work w\<rparr>"

definition rollback :: "world \<Rightarrow> world" where
  "rollback w = w\<lparr>work := durable w\<rparr>"

text \<open>One statement that sets the tables to \<open>d\<close>.\<close>

definition execute :: "db \<Rightarrow> unit op" where
  "execute d w =
     (if \<not> types_ok d then (Inl DataError, w)
      else if \<not> constraints d then (Inl IntegrityError, w)
      else (Inr (), w\<lparr>work := d\<rparr>))"

text \<open>
  \<open>async with get_worker_db() as db\<close>: the transaction is committed when the block returns and
  rolled back when it raises.
\<close>

definition get_worker_db :: "'a op \<Rightarrow> 'a op" where
  "get_worker_db block w =
     (case block w of
        (Inr x, w') \<Rightarrow> (Inr x, commit w')
      | (Inl e, w') \<Rightarrow> (Inl e, rollback w'))"

text \<open>
  \<open>get_db()\<close> of the HTTP routes: the session is closed, hence rolled back, at the end of the
  request, whether it raises or not; only what the service commits itself lasts.
\<close>

definition get_db :: "'a op \<Rightarrow> 'a op" where
  "get_db block w = (case block w of (r, w') \<Rightarrow> (r, rollback w'))"

text \<open>\<open>async with db.begin_nested()\<close>: a savepoint, restored when the block raises.\<close>

definition begin_nested :: "'a op \<Rightarrow> 'a op" where
  "begin_nested block w =
     (case block w of
        (Inr x, w') \<Rightarrow> (Inr x, w')
      | (Inl e, w') \<Rightarrow> (Inl e, w'\<lparr>work := work w\<rparr>))"

text \<open>\<open>except IntegrityError\<close>: the handler runs on the state the failed statement left.\<close>

definition except_integrity :: "'a res \<times> world \<Rightarrow> 'a op \<Rightarrow> 'a res \<times> world" where
  "except_integrity m handler =
     (case m of
        (Inl e, w) \<Rightarrow> if e = IntegrityError then handler w else (Inl e, w)
      | (Inr x, w) \<Rightarrow> (Inr x, w))"

definition enqueue :: "task \<Rightarrow> world \<Rightarrow> world" where
  "enqueue t w = w\<lparr>tasks := tasks w @ [t]\<rparr>"

section \<open>The settings and the services outside the program\<close>

text \<open>
  \<open>app/core/config.py\<close>: the settings the code below depends on, and the functions that stand
  for what the code calls outside itself: the clock, read once for a message, PostgreSQL's
  \<open>gen_random_uuid\<close>, Python's \<open>random.choices\<close> and \<open>pg_trgm\<close>'s \<open>similarity\<close>.
\<close>

record settings =
  session_ttl_seconds :: int
  dedup_ttl_seconds :: int
  max_fsm_errors :: int
  product_match_threshold :: rat
  confident_match_threshold :: rat
  groq_api_key :: "string option"
  openrouter_api_key :: "string option"
  analytics_enabled :: bool
  analytics_follow_up_ttl_seconds :: int
  whatsapp_app_secret :: "string option"
  whatsapp_verify_token :: "string option"

definition default_settings :: settings where
  "default_settings =
     \<lparr>session_ttl_seconds = 1800, dedup_ttl_seconds = 60, max_fsm_errors = 3,
      product_match_threshold = 11 / 20, confident_match_threshold = 3 / 4,
      groq_api_key = None, openrouter_api_key = None, analytics_enabled = True,
      analytics_follow_up_ttl_seconds = 600, whatsapp_app_secret = None,
      whatsapp_verify_token = None\<rparr>"

record db_env =
  cfg :: settings
  now :: time
  gen_random_uuid :: "nat \<Rightarrow> uuid"
  random_choices :: "nat \<Rightarrow> string"
  similarity :: "string \<Rightarrow> string \<Rightarrow> rat"

definition next_uuid :: "'z db_env_scheme \<Rightarrow> world \<Rightarrow> uuid \<times> world" where
  "next_uuid E w = (gen_random_uuid E (ticks w), w\<lparr>ticks := Suc (ticks w)\<rparr>)"

definition next_suffix :: "'z db_env_scheme \<Rightarrow> world \<Rightarrow> string \<times> world" where
  "next_suffix E w = (random_choices E (ticks w), w\<lparr>ticks := Suc (ticks w)\<rparr>)"

section \<open>Statements that change a table\<close>

definition insert_shop :: "shop_row \<Rightarrow> unit op" where
  "insert_shop r w = execute ((work w)\<lparr>shops := shops (work w) @ [r]\<rparr>) w"

definition update_shop :: "shop_row \<Rightarrow> unit op" where
  "update_shop r w =
     execute ((work w)\<lparr>shops := map (\<lambda>s. if sh_id s = sh_id r then r else s) (shops (work w))\<rparr>) w"

definition insert_product :: "product_row \<Rightarrow> unit op" where
  "insert_product r w = execute ((work w)\<lparr>products := products (work w) @ [r]\<rparr>) w"

definition update_product_row :: "product_row \<Rightarrow> unit op" where
  "update_product_row r w =
     execute ((work w)\<lparr>products :=
       map (\<lambda>p. if p_id p = p_id r then r else p) (products (work w))\<rparr>) w"

definition delete_product_row :: "uuid \<Rightarrow> unit op" where
  "delete_product_row pid w =
     execute ((work w)\<lparr>products := filter (\<lambda>p. p_id p \<noteq> pid) (products (work w))\<rparr>) w"

definition insert_inventory :: "inventory_row \<Rightarrow> unit op" where
  "insert_inventory r w = execute ((work w)\<lparr>inventory := inventory (work w) @ [r]\<rparr>) w"

definition update_inventory :: "inventory_row \<Rightarrow> unit op" where
  "update_inventory r w =
     execute ((work w)\<lparr>inventory :=
       map (\<lambda>i. if i_product_id i = i_product_id r then r else i) (inventory (work w))\<rparr>) w"

definition insert_sale :: "sale_row \<Rightarrow> unit op" where
  "insert_sale r w = execute ((work w)\<lparr>sales := sales (work w) @ [r]\<rparr>) w"

section \<open>Look-ups\<close>

definition shop_by_phone :: "string \<Rightarrow> db \<Rightarrow> shop_row option" where
  "shop_by_phone ph d = find (\<lambda>s. sh_phone s = ph) (shops d)"

definition product_by_id :: "uuid \<Rightarrow> db \<Rightarrow> product_row option" where
  "product_by_id pid d = find (\<lambda>p. p_id p = pid) (products d)"

definition get_by_product_id :: "uuid \<Rightarrow> db \<Rightarrow> inventory_row option" where
  "get_by_product_id pid d = find (\<lambda>i. i_product_id i = pid) (inventory d)"

lemmas statement_defs = insert_shop_def update_shop_def insert_product_def update_product_row_def
  delete_product_row_def insert_inventory_def update_inventory_def insert_sale_def

section \<open>What a statement guarantees\<close>

definition world_ok :: "world \<Rightarrow> bool" where
  "world_ok w \<longleftrightarrow> db_ok (durable w) \<and> db_ok (work w)"

lemma execute_ok [simp]: "world_ok w \<Longrightarrow> world_ok (snd (execute d w))"
  by (auto simp: execute_def world_ok_def db_ok_def)

lemma statements_ok [simp]:
  assumes "world_ok w"
  shows "world_ok (snd (insert_shop sh w))" "world_ok (snd (update_shop sh w))"
    "world_ok (snd (insert_product p w))" "world_ok (snd (update_product_row p w))"
    "world_ok (snd (delete_product_row pid w))" "world_ok (snd (insert_inventory i w))"
    "world_ok (snd (update_inventory i w))" "world_ok (snd (insert_sale s w))"
  using assms by (simp_all add: statement_defs)

lemma and_then_ok:
  "\<lbrakk>world_ok (snd m); \<And>x w. m = (Inr x, w) \<Longrightarrow> world_ok w \<Longrightarrow> world_ok (snd (k x w))\<rbrakk> \<Longrightarrow>
   world_ok (snd (and_then m k))"
  by (cases m) (auto simp: and_then_def split: sum.splits)

lemma except_integrity_ok:
  "\<lbrakk>world_ok (snd m); \<And>w. m = (Inl IntegrityError, w) \<Longrightarrow> world_ok w \<Longrightarrow> world_ok (snd (h w))\<rbrakk> \<Longrightarrow>
   world_ok (snd (except_integrity m h))"
  by (cases m) (auto simp: except_integrity_def split: sum.splits)

lemma except_integrity_simps [simp]:
  "except_integrity (Inr x, w) h = (Inr x, w)"
  "except_integrity (Inl IntegrityError, w) h = h w"
  "e \<noteq> IntegrityError \<Longrightarrow> except_integrity (Inl e, w) h = (Inl e, w)"
  by (simp_all add: except_integrity_def)

lemma commit_ok [simp]: "world_ok w \<Longrightarrow> world_ok (commit w)"
  by (simp add: world_ok_def commit_def)

lemma rollback_ok [simp]: "world_ok w \<Longrightarrow> world_ok (rollback w)"
  by (simp add: world_ok_def rollback_def)

lemma enqueue_simps [simp]:
  "work (enqueue t w) = work w" "durable (enqueue t w) = durable w"
  "ticks (enqueue t w) = ticks w" "tasks (enqueue t w) = tasks w @ [t]"
  "world_ok (enqueue t w) = world_ok w"
  by (simp_all add: enqueue_def world_ok_def)

lemma commit_simps [simp]:
  "work (commit w) = work w" "durable (commit w) = work w"
  "tasks (commit w) = tasks w" "ticks (commit w) = ticks w"
  by (simp_all add: commit_def)

lemma rollback_simps [simp]:
  "work (rollback w) = durable w" "durable (rollback w) = durable w"
  "tasks (rollback w) = tasks w" "ticks (rollback w) = ticks w"
  by (simp_all add: rollback_def)

lemma next_simps [simp]:
  "work (snd (next_uuid E w)) = work w" "durable (snd (next_uuid E w)) = durable w"
  "tasks (snd (next_uuid E w)) = tasks w" "work (snd (next_suffix E w)) = work w"
  "durable (snd (next_suffix E w)) = durable w" "tasks (snd (next_suffix E w)) = tasks w"
  by (simp_all add: next_uuid_def next_suffix_def)

lemma next_ok [simp]:
  "world_ok w \<Longrightarrow> world_ok (snd (next_uuid E w))"
  "world_ok w \<Longrightarrow> world_ok (snd (next_suffix E w))"
  by (simp_all add: next_uuid_def next_suffix_def world_ok_def)

lemma get_worker_db_ok [simp]:
  "world_ok (snd (block w)) \<Longrightarrow> world_ok (snd (get_worker_db block w))"
  by (auto simp: get_worker_db_def split: prod.splits sum.splits)

lemma get_db_ok [simp]: "world_ok (snd (block w)) \<Longrightarrow> world_ok (snd (get_db block w))"
  by (auto simp: get_db_def split: prod.splits)

lemma begin_nested_ok [simp]:
  "world_ok w \<Longrightarrow> world_ok (snd (block w)) \<Longrightarrow> world_ok (snd (begin_nested block w))"
  by (auto simp: begin_nested_def world_ok_def split: prod.splits sum.splits)

lemma execute_cases:
  assumes "execute d w = (r, w')"
  obtains "r = Inr ()" "db_ok d" "w' = w\<lparr>work := d\<rparr>"
    | "r = Inl DataError" "\<not> types_ok d" "w' = w"
    | "r = Inl IntegrityError" "types_ok d" "\<not> constraints d" "w' = w"
  using assms by (auto simp: execute_def db_ok_def split: if_splits)

lemma execute_accepts: "db_ok d \<Longrightarrow> execute d w = (Inr (), w\<lparr>work := d\<rparr>)"
  by (simp add: execute_def db_ok_def)

lemma execute_frame:
  "execute d w = (r, w') \<Longrightarrow> durable w' = durable w \<and> tasks w' = tasks w \<and> ticks w' = ticks w"
  by (auto simp: execute_def split: if_splits)

lemma look_ups:
  "shop_by_phone ph d = Some s \<Longrightarrow> s \<in> set (shops d) \<and> sh_phone s = ph"
  "product_by_id pid d = Some p \<Longrightarrow> p \<in> set (products d) \<and> p_id p = pid"
  "get_by_product_id pid d = Some i \<Longrightarrow> i \<in> set (inventory d) \<and> i_product_id i = pid"
  by (auto simp: shop_by_phone_def product_by_id_def get_by_product_id_def dest: find_Some_mem)

lemma inventory_row_ok:
  assumes "db_ok d" "get_by_product_id pid d = Some i"
  shows "0 \<le> i_quantity i" "i_quantity i < 2 ^ 31" "0 \<le> i_threshold i" "i_threshold i \<le> 1000"
proof -
  from assms(2) have "i \<in> set (inventory d)" using look_ups(3) by blast
  with assms(1) show "0 \<le> i_quantity i" "i_quantity i < 2 ^ 31" "0 \<le> i_threshold i"
    "i_threshold i \<le> 1000"
    by (auto simp: db_ok_def types_ok_def constraints_def inventory_constraints_def
        inventory_types_def int32_def list_all_iff)
qed

text \<open>A change of one stock row keeps the schema when the new quantity fits.\<close>

lemma db_ok_inventory:
  "db_ok d \<Longrightarrow> db_ok (d\<lparr>inventory := rows\<rparr>) \<longleftrightarrow>
     list_all inventory_types rows \<and> inventory_constraints (d\<lparr>inventory := rows\<rparr>)"
  by (auto simp: db_ok_def types_ok_def constraints_def shop_constraints_def
      product_constraints_def sale_constraints_def)

lemma db_ok_sales:
  "db_ok d \<Longrightarrow> db_ok (d\<lparr>sales := rows\<rparr>) \<longleftrightarrow>
     list_all sale_types rows \<and> sale_constraints (d\<lparr>sales := rows\<rparr>)"
  by (auto simp: db_ok_def types_ok_def constraints_def shop_constraints_def
      product_constraints_def inventory_constraints_def)

lemma db_ok_update_inventory:
  assumes "db_ok d" "get_by_product_id pid d = Some i" "0 \<le> q" "q < 2 ^ 31"
  shows "db_ok (d\<lparr>inventory :=
    map (\<lambda>j. if i_product_id j = pid then i\<lparr>i_quantity := q\<rparr> else j) (inventory d)\<rparr>)"
proof -
  let ?f = "\<lambda>j. if i_product_id j = pid then i\<lparr>i_quantity := q\<rparr> else j"
  have i: "i \<in> set (inventory d)" "i_product_id i = pid" using assms(2) look_ups(3) by blast+
  have dist: "distinct (map i_product_id (inventory d))"
    using assms(1) by (simp add: db_ok_def constraints_def inventory_constraints_def)
  have keys: "map i_product_id (map ?f (inventory d)) = map i_product_id (inventory d)"
    using i by auto
  have uniq: "j = i" if "j \<in> set (inventory d)" "i_product_id j = pid" for j
    using dist i that by (auto simp: distinct_map dest: inj_onD)
  then have "map i_id (map ?f (inventory d)) = map i_id (inventory d)" by auto
  moreover have "list_all inventory_types (map ?f (inventory d))"
    using assms i
    by (auto simp: list_all_iff db_ok_def types_ok_def inventory_types_def int32_def)
  moreover have "\<forall>j \<in> set (inventory d). i_product_id j \<in> set (map p_id (products d)) \<and>
      0 \<le> i_quantity j \<and> 0 \<le> i_threshold j \<and> i_threshold j \<le> 1000"
      "distinct (map i_id (inventory d))"
    using assms(1) by (auto simp: list_all_iff db_ok_def constraints_def inventory_constraints_def)
  then have "list_all (\<lambda>i. i_product_id i \<in> set (map p_id (products d)) \<and> 0 \<le> i_quantity i \<and>
                   0 \<le> i_threshold i \<and> i_threshold i \<le> 1000) (map ?f (inventory d))"
    using i assms(3) by (auto simp: list_all_iff)
  moreover have "db_ok (d\<lparr>inventory := rows\<rparr>)"
    if "map i_product_id rows = map i_product_id (inventory d)"
      "map i_id rows = map i_id (inventory d)" "list_all inventory_types rows"
      "list_all (\<lambda>i. i_product_id i \<in> set (map p_id (products d)) \<and> 0 \<le> i_quantity i \<and>
                   0 \<le> i_threshold i \<and> i_threshold i \<le> 1000) rows" for rows
    using that dist \<open>distinct (map i_id (inventory d))\<close>
    by (simp add: db_ok_inventory [OF assms(1)] inventory_constraints_def)
  ultimately show ?thesis using keys by blast
qed

end
