(* ===== verification/Shops.thy ===== *)
theory Shops
  imports Database
begin

text \<open>
  \<open>app/services/shop_service.py\<close> and \<open>FSMPrimitives.get_shop_id\<close>: a shop is created by the
  API, by a change of locale for an unknown phone, or by the first message of a phone.
\<close>

datatype shop_locale = ENGLISH | SWAHILI

fun locale_value :: "shop_locale \<Rightarrow> string" where
  "locale_value ENGLISH = ''en''"
| "locale_value SWAHILI = ''sw''"

record create_shop_data =
  cs_name :: string
  cs_phone :: string
  cs_locale :: shop_locale

definition new_shop ::
  "'z db_env_scheme \<Rightarrow> string \<Rightarrow> string \<Rightarrow> string \<Rightarrow> world \<Rightarrow> shop_row \<times> world" where
  "new_shop E ph nm loc w =
     (let (u, w') = next_uuid E w in
      (\<lparr>sh_id = u, sh_phone = ph, sh_name = Some nm, sh_locale = loc, sh_created = now E\<rparr>, w'))"

definition create_shop :: "'z db_env_scheme \<Rightarrow> create_shop_data \<Rightarrow> shop_row op" where
  "create_shop E data w =
     (let (shop, w0) = new_shop E (cs_phone data) (cs_name data) (locale_value (cs_locale data)) w in
      except_integrity (and_then (insert_shop shop w0) (\<lambda>_ w1. (Inr shop, commit w1)))
        (\<lambda>w1. (Inl (ResourceAlreadyExistsException ''Shop'' ''phone'' (cs_phone data)), rollback w1)))"

definition update_locale :: "'z db_env_scheme \<Rightarrow> string \<Rightarrow> shop_locale \<Rightarrow> shop_row op" where
  "update_locale E ph loc w =
     (case shop_by_phone ph (work w) of
        Some shop \<Rightarrow>
          (let shop' = shop\<lparr>sh_locale := locale_value loc\<rparr> in
           and_then (update_shop shop' w) (\<lambda>_ w1. (Inr shop', commit w1)))
      | None \<Rightarrow>
          (let (shop, w0) = new_shop E ph ''SokoFlow Demo Shop'' (locale_value loc) w in
           and_then (insert_shop shop w0) (\<lambda>_ w1. (Inr shop, commit w1))))"

text \<open>The id of the sender's shop, which is created and committed when there is none.\<close>

definition get_shop_id :: "'z db_env_scheme \<Rightarrow> string \<Rightarrow> uuid op" where
  "get_shop_id E ph w =
     (case shop_by_phone ph (work w) of
        Some shop \<Rightarrow> (Inr (sh_id shop), w)
      | None \<Rightarrow>
          (let (shop, w0) = new_shop E ph ''SokoFlow Demo Shop'' ''en'' w in
           and_then (insert_shop shop w0) (\<lambda>_ w1. (Inr (sh_id shop), commit w1))))"

section \<open>Properties\<close>

lemma new_shop_world [simp]:
  "world_ok w \<Longrightarrow> world_ok (snd (new_shop E ph nm loc w))"
  "work (snd (new_shop E ph nm loc w)) = work w"
  "durable (snd (new_shop E ph nm loc w)) = durable w"
  "tasks (snd (new_shop E ph nm loc w)) = tasks w"
  by (simp_all add: new_shop_def next_uuid_def world_ok_def)

lemma new_shop_row [simp]:
  "sh_phone (fst (new_shop E ph nm loc w)) = ph" "sh_locale (fst (new_shop E ph nm loc w)) = loc"
  "sh_id (fst (new_shop E ph nm loc w)) = gen_random_uuid E (ticks w)"
  by (simp_all add: new_shop_def next_uuid_def)

lemma shop_ops_ok [simp]:
  assumes "world_ok w"
  shows "world_ok (snd (create_shop E data w))" "world_ok (snd (update_locale E ph loc w))"
    "world_ok (snd (get_shop_id E ph w))"
proof -
  have new: "world_ok (snd (new_shop E a b c w))" for a b c using assms by simp
  obtain shop w0 where "new_shop E (cs_phone data) (cs_name data)
      (locale_value (cs_locale data)) w = (shop, w0)" by fastforce
  moreover from this have "world_ok w0" using new by (metis snd_conv)
  ultimately show "world_ok (snd (create_shop E data w))"
    by (auto simp: create_shop_def intro!: and_then_ok except_integrity_ok)
  show "world_ok (snd (update_locale E ph loc w))"
  proof (cases "shop_by_phone ph (work w)")
    case None
    obtain shop w0 where s: "new_shop E ph ''SokoFlow Demo Shop'' (locale_value loc) w = (shop, w0)"
      by fastforce
    then have "world_ok w0" using new by (metis snd_conv)
    with s None show ?thesis by (auto simp: update_locale_def intro!: and_then_ok)
  next
    case (Some s)
    with assms show ?thesis by (auto simp: update_locale_def Let_def intro!: and_then_ok)
  qed
  show "world_ok (snd (get_shop_id E ph w))"
  proof (cases "shop_by_phone ph (work w)")
    case None
    obtain shop w0 where s: "new_shop E ph ''SokoFlow Demo Shop'' ''en'' w = (shop, w0)"
      by fastforce
    then have "world_ok w0" using new by (metis snd_conv)
    with s None show ?thesis by (auto simp: get_shop_id_def intro!: and_then_ok)
  qed (use assms in \<open>simp add: get_shop_id_def\<close>)
qed

lemma get_shop_id_known:
  "shop_by_phone ph (work w) = Some s \<Longrightarrow> get_shop_id E ph w = (Inr (sh_id s), w)"
  by (simp add: get_shop_id_def)

lemma find_append_new:
  "find P xs = None \<Longrightarrow> find P (xs @ [x]) = (if P x then Some x else None)"
  by (induction xs) (auto split: if_splits)

text \<open>Asking again answers the same shop: the first request creates it, no later one does.\<close>

lemma get_shop_id_again:
  assumes "get_shop_id E ph w = (Inr u, w')"
  shows "get_shop_id E' ph w' = (Inr u, w')"
proof (cases "shop_by_phone ph (work w)")
  case None
  obtain shop w0 where s: "new_shop E ph ''SokoFlow Demo Shop'' ''en'' w = (shop, w0)" by fastforce
  then have row: "sh_phone shop = ph" "work w0 = work w"
    using new_shop_row(1) new_shop_world(2) by (metis fst_conv, metis snd_conv)
  from assms None s obtain w1 where i: "insert_shop shop w0 = (Inr (), w1)" "w' = commit w1"
      "u = sh_id shop"
    by (auto simp: get_shop_id_def and_then_Inr_iff)
  then have "work w' = (work w)\<lparr>shops := shops (work w) @ [shop]\<rparr>"
    using row by (auto simp: insert_shop_def elim!: execute_cases)
  then have "shop_by_phone ph (work w') = Some shop"
    using None row find_append_new [of "\<lambda>s. sh_phone s = ph" "shops (work w)" shop]
    by (simp add: shop_by_phone_def)
  then show ?thesis using i by (simp add: get_shop_id_def)
next
  case (Some s)
  with assms show ?thesis by (auto simp: get_shop_id_def)
qed

text \<open>Only the table of shops changes.\<close>

lemma get_shop_id_frame:
  assumes "get_shop_id E ph w = (r, w')"
  shows "products (work w') = products (work w)" "inventory (work w') = inventory (work w)"
    "sales (work w') = sales (work w)" "tasks w' = tasks w"
    "\<exists>ss. shops (work w') = shops (work w) @ ss"
proof -
  obtain shop w0 where s: "new_shop E ph ''SokoFlow Demo Shop'' ''en'' w = (shop, w0)" by fastforce
  then have w0: "work w0 = work w" "tasks w0 = tasks w"
    using new_shop_world(2,4) by (metis snd_conv)+
  have "products (work w') = products (work w) \<and> inventory (work w') = inventory (work w) \<and>
    sales (work w') = sales (work w) \<and> tasks w' = tasks w \<and>
    (\<exists>ss. shops (work w') = shops (work w) @ ss)"
    using assms s w0
    by (auto simp: get_shop_id_def and_then_def insert_shop_def execute_def
        split: option.splits prod.splits sum.splits if_splits)
  then show "products (work w') = products (work w)" "inventory (work w') = inventory (work w)"
    "sales (work w') = sales (work w)" "tasks w' = tasks w"
    "\<exists>ss. shops (work w') = shops (work w) @ ss" by auto
qed

end
