(* ===== verification/Parsers.thy ===== *)
theory Parsers
  imports Errors
begin

text \<open>
  \<open>app/fsm/fsm_utils.py\<close>: what a user may type for a product name, a price, a quantity and a
  confirmation. Each parser returns the value or the exception it raises. \<open>parse_price\<close> has one
  branch more than its \<open>except\<close> clause: \<open>Decimal("NAN")\<close> survives \<open>quantize\<close>, and the
  comparison \<open>price <= 0\<close> outside the \<open>try\<close> then raises \<open>InvalidOperation\<close>.
\<close>

definition TRUE_VALUES :: "string list" where
  "TRUE_VALUES = [''yes'', ''y'', ''ndio'', ''1'']"

definition FALSE_VALUES :: "string list" where
  "FALSE_VALUES = [''no'', ''n'', ''zii'', ''2'']"

definition parse_product_name :: "string \<Rightarrow> string res" where
  "parse_product_name raw =
     (let cleaned = strip raw; n = py_len cleaned
      in if n < 2 \<or> 100 < n
         then Inl (InvalidInputError ''Product name must be between 2 and 100 characters.''
                     (Some MK_PRODUCT_NAME_INVALID) [])
         else Inr cleaned)"

text \<open>\<open>re.sub(r"^(KES|KSH)\.?\s*", "", s)\<close>\<close>

definition drop_currency :: "string \<Rightarrow> string" where
  "drop_currency s =
     (if startswith s ''KES'' \<or> startswith s ''KSH''
      then (let r = drop 3 s
            in dropWhile py_space (if startswith r ''.'' then drop 1 r else r))
      else s)"

text \<open>
  \<open>re.sub(r"/=$", "", s)\<close>: the marker at the very end, or before a final newline.
\<close>

definition drop_shilling_mark :: "string \<Rightarrow> string" where
  "drop_shilling_mark s =
     (let n = length s
      in if 2 \<le> n \<and> drop (n - 2) s = ''/='' then take (n - 2) s
         else if 3 \<le> n \<and> drop (n - 3) s = ''/='' @ nl then take (n - 3) s @ nl
         else s)"

definition clean_price :: "string \<Rightarrow> string" where
  "clean_price raw =
     strip (filter (\<lambda>c. c \<noteq> CHR '','') (drop_shilling_mark (drop_currency (upper (strip raw)))))"

definition price_invalid :: exc where
  "price_invalid =
     InvalidInputError
       (''Please enter a valid price, e.g. '' @ [CHR 0x27] @ ''150'' @ [CHR 0x27] @ '', '' @
        [CHR 0x27] @ ''KES 150'' @ [CHR 0x27] @ '', or '' @ [CHR 0x27] @ ''150/='' @ [CHR 0x27] @ ''.'')
       (Some MK_PRICE_INVALID) []"

definition parse_price :: "string \<Rightarrow> int res" where
  "parse_price raw =
     (case Option.bind (parse_decimal (clean_price raw)) quantize2 of
        None \<Rightarrow> Inl price_invalid
      | Some (DNaN _) \<Rightarrow> Inl DecimalInvalidOperation
      | Some (DInf _) \<Rightarrow> Inl price_invalid
      | Some (DFin sg c _) \<Rightarrow>
          if signed sg c \<le> 0
          then Inl (InvalidInputError ''Price must be greater than 0''
                      (Some MK_PRICE_NON_POSITIVE) [])
          else Inr (signed sg c))"

definition parse_quantity :: "string \<Rightarrow> int res" where
  "parse_quantity raw =
     (case py_int (strip raw) of
        None \<Rightarrow> Inl (InvalidInputError ''Please enter a whole number, e.g. 0, 1, or 25.''
                       (Some MK_QUANTITY_INVALID) [])
      | Some q \<Rightarrow>
          if q < 0 then Inl (InvalidInputError ''Quantity cannot be negative.''
                               (Some MK_QUANTITY_NEGATIVE) [])
          else Inr q)"

definition parse_confirmation :: "string \<Rightarrow> bool res" where
  "parse_confirmation raw =
     (let cleaned = lower (strip raw)
      in if cleaned \<in> set TRUE_VALUES then Inr True
         else if cleaned \<in> set FALSE_VALUES then Inr False
         else Inl (InvalidInputError ''Please reply with Yes/Y/Ndio/1 or No/N/Zii/2.''
                     (Some MK_CONFIRMATION_INVALID) []))"

section \<open>What the parsers accept\<close>

lemma parse_product_name_Inr:
  "parse_product_name raw = Inr s \<Longrightarrow> s = strip raw \<and> 2 \<le> py_len s \<and> py_len s \<le> 100"
  by (auto simp: parse_product_name_def Let_def split: if_splits)

lemma parse_product_name_nonempty: "parse_product_name raw = Inr s \<Longrightarrow> s \<noteq> []"
  using parse_product_name_Inr [of raw s] by (auto simp: py_len_def)

lemma str_nat_28: "length (str_nat c) \<le> 28 \<Longrightarrow> c < 10 ^ 28"
  using length_str_nat_ge [of 28 c] by linarith

lemma quantize2_two_places:
  assumes "quantize2 d = Some d'"
  shows "(\<exists>sg c. d' = DFin sg c (- 2) \<and> c < 10 ^ 28) \<or> d' = DNaN False"
proof (cases d)
  case (DFin sg c e)
  show ?thesis
  proof (cases "c = 0")
    case False
    define c' where "c' = (if - 2 \<le> e then c * 10 ^ nat (e + 2) else half_up_div c (10 ^ nat (- 2 - e)))"
    have "d' = DFin sg c' (- 2)" and "length (str_nat c') \<le> 28"
      using assms DFin False by (auto simp: Let_def context_prec_def c'_def [symmetric] split: if_splits)
    then show ?thesis using str_nat_28 by blast
  qed (use assms DFin in auto)
qed (use assms in \<open>auto split: if_splits\<close>)

lemma parse_price_pos: "parse_price raw = Inr p \<Longrightarrow> 0 < p \<and> p < 10 ^ 28"
  using quantize2_two_places
  by (fastforce simp: parse_price_def signed_def bind_eq_Some_conv
      split: option.splits decimal.splits if_splits)

lemma parse_quantity_nonneg: "parse_quantity raw = Inr q \<Longrightarrow> 0 \<le> q"
  by (auto simp: parse_quantity_def split: option.splits if_splits)

lemma parser_errors [simp]:
  "parse_product_name raw = Inl e \<Longrightarrow> is_invalid_input e"
  "parse_quantity raw = Inl e \<Longrightarrow> is_invalid_input e"
  "parse_confirmation raw = Inl e \<Longrightarrow> is_invalid_input e"
  by (auto simp: parse_product_name_def parse_quantity_def parse_confirmation_def Let_def
      split: if_splits option.splits)

lemma parse_price_errors:
  "parse_price raw = Inl e \<Longrightarrow> is_invalid_input e \<or> e = DecimalInvalidOperation"
  by (auto simp: parse_price_def price_invalid_def split: option.splits decimal.splits if_splits)

text \<open>Surrounding white space and the case of the letters never matter for a confirmation.\<close>

lemma parse_confirmation_strip: "parse_confirmation (strip raw) = parse_confirmation raw"
  by (simp add: parse_confirmation_def)

lemma parse_confirmation_lower: "parse_confirmation (lower raw) = parse_confirmation raw"
  by (simp add: parse_confirmation_def strip_lower)

section \<open>Prices in the format the assistant prints\<close>

lemma upper_append: "upper (a @ b) = upper a @ upper b"
  by (simp add: upper_def)

lemma not_space_in: "\<forall>c \<in> set s. \<not> py_space c \<Longrightarrow> strip s = s"
  using strip_ends [of s] by (cases "s = []") (simp_all add: strip_def lstrip_def rstrip_def)

lemma grouped_amount_chars:
  assumes "0 < n" "c \<in> set (fmt_c2f n)"
  shows "is_dig c \<or> c = CHR '','' \<or> c = CHR ''.''"
proof -
  have "\<not> n < 0" using assms by simp
  moreover have "\<forall>d \<in> set (group_thousands (str_nat m)). is_dig d \<or> d = CHR '',''" for m
    using set_group_thousands [of "str_nat m"] str_nat_digits [of m] by (auto simp: list_all_iff)
  moreover have "\<forall>d \<in> set (two_digits (m mod 100)). is_dig d" for m
    using two_digits_digits [of "m mod 100"] by (simp add: list_all_iff)
  ultimately show ?thesis using assms(2) by (auto simp: fmt_c2f_def Let_def)
qed

lemma clean_price_printed:
  assumes n: "0 < n"
  shows "clean_price (''KES '' @ fmt_c2f n)
       = str_nat (nat n div 100) @ CHR ''.'' # two_digits (nat n mod 100)"
proof -
  let ?a = "fmt_c2f n"
  have chars: "\<And>c. c \<in> set ?a \<Longrightarrow> is_dig c \<or> c = CHR '','' \<or> c = CHR ''.''"
    by (rule grouped_amount_chars [OF n])
  have ns: "\<And>c. c \<in> set ?a \<Longrightarrow> \<not> py_space c"
    using chars digit_not_space by (fastforce simp: py_space_def)
  have ne: "?a \<noteq> []" by (simp add: fmt_c2f_def Let_def)
  have "strip (''KES '' @ ?a) = ''KES '' @ ?a"
    using ne ns [of "last ?a"] by (intro strip_ends) (simp_all add: py_space_def)
  moreover have "upper_char c = c" if "c \<in> set ?a" for c
    using chars [OF that] by (auto simp: upper_char_def is_dig_def)
  then have "upper ?a = ?a" by (simp add: upper_def map_idI)
  then have "upper (''KES '' @ ?a) = ''KES '' @ ?a"
    by (simp add: upper_append) (simp add: upper_def upper_char_def)
  moreover have "dropWhile py_space ?a = ?a"
    using ne ns by (cases ?a) auto
  then have "drop_currency (''KES '' @ ?a) = ?a"
    by (simp add: drop_currency_def startswith_def py_space_def)
  moreover have "drop_shilling_mark ?a = ?a"
  proof -
    have "CHR ''='' \<notin> set ?a" using chars [of "CHR ''=''"] by (auto simp: is_dig_def)
    then have "CHR ''='' \<notin> set (drop k ?a)" for k using in_set_dropD by metis
    then have "drop k ?a \<noteq> ''/='' @ r" for k r
      by (metis append_Cons list.set_intros)
    from this [of _ "[]"] this [of _ nl]
    have "drop k ?a \<noteq> ''/=''" "drop k ?a \<noteq> ''/='' @ nl" for k by simp_all
    then show ?thesis by (simp add: drop_shilling_mark_def Let_def)
  qed
  moreover have "filter (\<lambda>c. c \<noteq> CHR '','') ?a
      = str_nat (nat n div 100) @ CHR ''.'' # two_digits (nat n mod 100)" (is "_ = ?b")
  proof -
    have "filter (\<lambda>c. c \<noteq> CHR '','') (str_nat m) = str_nat m" for m
      using str_nat_digits [of m] by (auto simp: filter_id_conv list_all_iff is_dig_def)
    moreover have "filter (\<lambda>c. c \<noteq> CHR '','') (two_digits (m mod 100)) = two_digits (m mod 100)" for m
      using two_digits_digits [of "m mod 100"] by (auto simp: filter_id_conv list_all_iff is_dig_def)
    ultimately show ?thesis using n by (simp add: fmt_c2f_def Let_def filter_group_thousands)
  qed
  moreover have "\<not> py_space (CHR ''.'')" by (simp add: py_space_def)
  then have "strip ?b = ?b"
    using str_nat_digits [of "nat n div 100"] two_digits_digits [of "nat n mod 100"]
    by (intro not_space_in) (auto simp: list_all_iff digit_not_space)
  ultimately show ?thesis by (simp add: clean_price_def)
qed

theorem parse_price_printed:
  assumes n: "0 < n" "n < 10 ^ 28"
  shows "parse_price (''KES '' @ fmt_c2f n) = Inr n"
proof -
  have ip: "list_all is_dig (str_nat (nat n div 100))" "str_nat (nat n div 100) \<noteq> []"
    by (simp_all add: str_nat_digits)
  have fp: "list_all is_dig (two_digits (nat n mod 100))" "two_digits (nat n mod 100) \<noteq> []"
    by (simp add: two_digits_digits) (simp add: two_digits_def)
  have len: "length (two_digits (nat n mod 100)) = 2" by (simp add: two_digits_def)
  have val: "digits_val (map dig_val (str_nat (nat n div 100)) @ map dig_val (two_digits (nat n mod 100))) = nat n"
    by (simp add: digits_val_two_digits)
  have "parse_decimal (clean_price (''KES '' @ fmt_c2f n)) = Some (DFin False (nat n) (- 2))"
    using parse_decimal_fixed [OF ip fp] by (simp only: clean_price_printed [OF n(1)] len val map_append) simp
  moreover have "nat n < 10 ^ 28" using n by (simp add: nat_less_iff)
  ultimately show ?thesis
    using n by (simp add: parse_price_def quantize2_cents signed_def del: quantize2.simps)
qed

end
