(* ===== verification/Primitives.thy ===== *)
theory Primitives
  imports Shops Parsers
begin

text \<open>
  \<open>app/fsm/primitives.py\<close>: the operations every conversation flow is built from. A step works on
  the session, which Python mutates, and the world; a step that raises keeps the mutations made
  before the raise.
\<close>

text \<open>
  \<open>injected\<close>: the flow was built with a database session, as the conversation task does;
  \<open>broker\<close>: whether the broker takes a task.
\<close>

record fsm_env = db_env +
  injected :: bool
  broker :: "task \<Rightarrow> bool"

type_synonym conv = "user_session \<times> world"
type_synonym 'a step = "conv \<Rightarrow> 'a res \<times> conv"

definition upd_ctx :: "(session_context \<Rightarrow> session_context) \<Rightarrow> user_session \<Rightarrow> user_session" where
  "upd_ctx f s = s\<lparr>ctx := f (ctx s)\<rparr>"

definition on_db :: "'a op \<Rightarrow> 'a step" where
  "on_db f = (\<lambda>(s, w). case f w of (r, w') \<Rightarrow> (r, (s, w')))"

definition transition :: "'z fsm_env_scheme \<Rightarrow> session_state \<Rightarrow> user_session \<Rightarrow> user_session" where
  "transition E new s =
     (let s1 = (if sstate s \<noteq> new
                then s\<lparr>sstate := new, ctx := (ctx s)\<lparr>history := history (ctx s) @ [sstate s]\<rparr>\<rparr>
                else s)
      in upd_ctx (\<lambda>c. c\<lparr>last_activity := Some (now E)\<rparr>) s1)"

definition clear_context_preserving_history :: "'z fsm_env_scheme \<Rightarrow> user_session \<Rightarrow> user_session" where
  "clear_context_preserving_history E s =
     s\<lparr>ctx := empty_context\<lparr>shop_id := shop_id (ctx s), history := history (ctx s),
                            last_activity := Some (now E)\<rparr>\<rparr>"

definition build_result ::
  "session_state \<Rightarrow> user_session \<Rightarrow> message_key \<Rightarrow> params \<Rightarrow> fsm_result" where
  "build_result prev s key ps =
     \<lparr>previous_state = prev, new_state = sstate s, res_ctx = ctx s, message_key = key,
      message_params = ps\<rparr>"

definition invalid_choice :: "string \<Rightarrow> exc" where
  "invalid_choice m = InvalidInputError m (Some MK_INVALID_CHOICE) []"

definition choice_lost :: exc where
  "choice_lost = InvalidInputError
     (''Session lost choice context. Please start again by typing '' @ [CHR 0x27] @ ''sale'' @
      [CHR 0x27] @ ''.'') (Some MK_SESSION_CONTEXT_LOST) []"

definition resolve_product_choice :: "user_session \<Rightarrow> string \<Rightarrow> scored_match res" where
  "resolve_product_choice s message =
     (let candidates = product_candidates (ctx s) in
      if candidates = [] then Inl choice_lost
      else case py_int (strip message) of
             None \<Rightarrow> Inl (invalid_choice ''Choice must be a number'')
           | Some choice \<Rightarrow>
               if choice < 1 \<or> choice > int (length candidates)
               then Inl (invalid_choice ''Invalid Choice'')
               else Inr (candidates ! nat (choice - 1)))"

text \<open>
  \<open>_get_db_session\<close>: with an injected session the caller owns the transaction; otherwise the
  block runs in a transaction of its own.
\<close>

definition get_db_session :: "'z fsm_env_scheme \<Rightarrow> 'a step \<Rightarrow> 'a step" where
  "get_db_session E block st =
     (case block st of
        (r, (s', w')) \<Rightarrow>
          (r, (s', if injected E then w' else if is_ok r then commit w' else rollback w')))"

definition shop_of :: "'z fsm_env_scheme \<Rightarrow> uuid step" where
  "shop_of E = (\<lambda>(s, w). on_db (get_shop_id E (phone s)) (s, w))"

text \<open>\<open>task.delay(...)\<close> and \<open>task.apply_async(...)\<close>.\<close>

definition delay :: "'z fsm_env_scheme \<Rightarrow> task \<Rightarrow> unit op" where
  "delay E t w =
     (if broker E t then (Inr (), enqueue t w)
      else (Inl (OperationalError ''broker unreachable''), w))"

declare transition_def [step_defs] clear_context_preserving_history_def [step_defs]
  build_result_def [step_defs] upd_ctx_def [step_defs] on_db_def [step_defs] shop_of_def [step_defs]

section \<open>Properties\<close>

lemma transition_simps [simp]:
  "sstate (transition E new s) = new"
  "phone (transition E new s) = phone s"
  "history (ctx (transition E new s)) =
     (if sstate s = new then history (ctx s) else history (ctx s) @ [sstate s])"
  "shop_id (ctx (transition E new s)) = shop_id (ctx s)"
  "product_id (ctx (transition E new s)) = product_id (ctx s)"
  "product_name (ctx (transition E new s)) = product_name (ctx s)"
  "product_price (ctx (transition E new s)) = product_price (ctx s)"
  "product_qty (ctx (transition E new s)) = product_qty (ctx s)"
  "error_count (ctx (transition E new s)) = error_count (ctx s)"
  "product_candidates (ctx (transition E new s)) = product_candidates (ctx s)"
  "pending_analytics_call (ctx (transition E new s)) = pending_analytics_call (ctx s)"
  "last_analytics_call (ctx (transition E new s)) = last_analytics_call (ctx s)"
  "last_activity (ctx (transition E new s)) = Some (now E)"
  by (auto simp: transition_def upd_ctx_def Let_def)

lemma clear_simps [simp]:
  "sstate (clear_context_preserving_history E s) = sstate s"
  "phone (clear_context_preserving_history E s) = phone s"
  "history (ctx (clear_context_preserving_history E s)) = history (ctx s)"
  "shop_id (ctx (clear_context_preserving_history E s)) = shop_id (ctx s)"
  "product_id (ctx (clear_context_preserving_history E s)) = None"
  "product_name (ctx (clear_context_preserving_history E s)) = None"
  "product_price (ctx (clear_context_preserving_history E s)) = None"
  "product_qty (ctx (clear_context_preserving_history E s)) = None"
  "error_count (ctx (clear_context_preserving_history E s)) = 0"
  "product_candidates (ctx (clear_context_preserving_history E s)) = []"
  "pending_analytics_call (ctx (clear_context_preserving_history E s)) = None"
  "last_analytics_call (ctx (clear_context_preserving_history E s)) = None"
  by (simp_all add: clear_context_preserving_history_def empty_context_def)

lemma upd_ctx_simps [simp]:
  "sstate (upd_ctx f s) = sstate s" "phone (upd_ctx f s) = phone s" "ctx (upd_ctx f s) = f (ctx s)"
  by (simp_all add: upd_ctx_def)

lemma resolve_product_choice_Inr:
  "resolve_product_choice s m = Inr p \<Longrightarrow> p \<in> set (product_candidates (ctx s))"
  by (auto simp: resolve_product_choice_def Let_def split: option.splits if_splits)

lemma resolve_product_choice_errors:
  "resolve_product_choice s m = Inl e \<Longrightarrow> is_invalid_input e"
  by (auto simp: resolve_product_choice_def Let_def choice_lost_def invalid_choice_def
      split: option.splits if_splits)

text \<open>The number shown beside a candidate chooses it.\<close>

lemma resolve_product_choice_number:
  assumes "i < length (product_candidates (ctx s))"
    "length (product_candidates (ctx s)) < 10 ^ max_int_digits"
  shows "resolve_product_choice s (str_int (int i + 1)) = Inr (product_candidates (ctx s) ! i)"
proof -
  have "strip (str_int (int i + 1)) = str_int (int i + 1)"
    unfolding str_int_def using strip_digits [OF str_nat_digits] by simp
  moreover have "int i + 1 < 10 ^ max_int_digits" using assms
    by (metis Suc_leI add.commute of_nat_Suc of_nat_less_iff of_nat_numeral of_nat_power order.strict_trans1)
  then have "py_int (str_int (int i + 1)) = Some (int i + 1)" by (intro py_int_str_int) simp
  ultimately show ?thesis using assms by (auto simp: resolve_product_choice_def Let_def)
qed

lemma get_db_session_result [simp]:
  "fst (get_db_session E block st) = fst (block st)"
  "fst (snd (get_db_session E block st)) = fst (snd (block st))"
  by (auto simp: get_db_session_def split: prod.splits)

lemma get_db_session_injected: "injected E \<Longrightarrow> get_db_session E block st = block st"
  by (cases "block st") (auto simp: get_db_session_def split: prod.splits)

end
