(* ===== verification/PyUuid.thy ===== *)
theory PyUuid
  imports Models
begin

text \<open>
  UUIDs as text: \<open>str(uuid)\<close> is the lower-case hyphenated form, and the parser of the schemas
  accepts the hyphenated form, the 32 digits alone, the braced form and the URN, in either case.
  The round trip below is what lets a session or a task payload carry a UUID as a string.
\<close>

definition hex_char :: "nat \<Rightarrow> char" where
  "hex_char d = (if d < 10 then char_of (48 + d) else char_of (87 + d))"

definition hex_val :: "char \<Rightarrow> nat option" where
  "hex_val c =
     (if 48 \<le> code c \<and> code c \<le> 57 then Some (code c - 48)
      else if 97 \<le> code c \<and> code c \<le> 102 then Some (code c - 87)
      else if 65 \<le> code c \<and> code c \<le> 70 then Some (code c - 55) else None)"

fun hex_digits :: "nat \<Rightarrow> nat \<Rightarrow> string" where
  "hex_digits 0 n = []"
| "hex_digits (Suc k) n = hex_digits k (n div 16) @ [hex_char (n mod 16)]"

fun hex_number :: "nat \<Rightarrow> string \<Rightarrow> nat option" where
  "hex_number acc [] = Some acc"
| "hex_number acc (c # cs) =
     (case hex_val c of None \<Rightarrow> None | Some d \<Rightarrow> hex_number (acc * 16 + d) cs)"

definition hyphenate :: "string \<Rightarrow> string" where
  "hyphenate h =
     take 8 h @ ''-'' @ take 4 (drop 8 h) @ ''-'' @ take 4 (drop 12 h) @ ''-'' @
     take 4 (drop 16 h) @ ''-'' @ drop 20 h"

definition uuid_str :: "uuid \<Rightarrow> string" where
  "uuid_str u = hyphenate (hex_digits 32 (unat u))"

text \<open>The digits of a hyphenated text, when its hyphens are where they belong.\<close>

definition unhyphenate :: "string \<Rightarrow> string option" where
  "unhyphenate s =
     (if length s = 36 \<and> s ! 8 = CHR ''-'' \<and> s ! 13 = CHR ''-'' \<and> s ! 18 = CHR ''-'' \<and>
         s ! 23 = CHR ''-''
      then Some (take 8 s @ take 4 (drop 9 s) @ take 4 (drop 14 s) @ take 4 (drop 19 s) @ drop 24 s)
      else None)"

definition uuid_of_digits :: "string \<Rightarrow> uuid option" where
  "uuid_of_digits h =
     (if length h = 32 then map_option word_of_nat (hex_number 0 h) else None)"

definition parse_uuid :: "string \<Rightarrow> uuid option" where
  "parse_uuid s =
     (let s1 = (if startswith s ''urn:uuid:'' then drop 9 s
                else if length s = 38 \<and> hd s = CHR ''{'' \<and> last s = CHR ''}'' then butlast (tl s)
                else s)
      in if length s1 = 36 then Option.bind (unhyphenate s1) uuid_of_digits
         else if s1 = s then uuid_of_digits s1 else None)"

section \<open>Round trip\<close>

lemma length_hex_digits [simp]: "length (hex_digits k n) = k"
  by (induction k arbitrary: n) auto

lemma code_hex_char: "d < 16 \<Longrightarrow> code (hex_char d) = (if d < 10 then 48 + d else 87 + d)"
  by (simp add: hex_char_def)

lemma hex_val_char [simp]: "d < 16 \<Longrightarrow> hex_val (hex_char d) = Some d"
  by (auto simp: hex_val_def code_hex_char)

lemma hex_number_append:
  "hex_number acc (xs @ ys) =
     (case hex_number acc xs of None \<Rightarrow> None | Some a \<Rightarrow> hex_number a ys)"
  by (induction acc xs rule: hex_number.induct) (auto split: option.splits)

lemma hex_number_digits: "n < 16 ^ k \<Longrightarrow> hex_number acc (hex_digits k n) = Some (acc * 16 ^ k + n)"
proof (induction k arbitrary: n)
  case (Suc k)
  then have "n div 16 < 16 ^ k" by (simp add: less_mult_imp_div_less mult.commute)
  with Suc.IH [of "n div 16"] show ?case by (simp add: hex_number_append algebra_simps)
qed simp

lemma hex_digits_not_dash: "c \<in> set (hex_digits k n) \<Longrightarrow> c \<noteq> CHR ''-'' \<and> c \<noteq> CHR ''u'' \<and> c \<noteq> CHR ''{''"
proof (induction k arbitrary: n)
  case (Suc k)
  then show ?case
  proof (cases "c = hex_char (n mod 16)")
    case True
    then have "code c = (if n mod 16 < 10 then 48 + n mod 16 else 87 + n mod 16)"
      by (simp add: code_hex_char)
    then show ?thesis by (auto split: if_splits)
  qed auto
qed simp

lemma length_hyphenate: "length h = 32 \<Longrightarrow> length (hyphenate h) = 36"
  by (simp add: hyphenate_def)

lemma unhyphenate_hyphenate:
  assumes "length h = 32"
  shows "unhyphenate (hyphenate h) = Some h"
proof -
  have e: "h = take 8 h @ take 4 (drop 8 h) @ take 4 (drop 12 h) @ take 4 (drop 16 h) @ drop 20 h"
    by (simp add: append_take_drop_id [symmetric] take_drop [symmetric] add.commute
        flip: take_add append_assoc)
  define a b c d f where "a = take 8 h" and "b = take 4 (drop 8 h)" and "c = take 4 (drop 12 h)"
    and "d = take 4 (drop 16 h)" and "f = drop 20 h"
  have l: "length a = 8" "length b = 4" "length c = 4" "length d = 4" "length f = 12"
    using assms by (simp_all add: a_def b_def c_def d_def f_def)
  have h: "hyphenate h = a @ ''-'' @ b @ ''-'' @ c @ ''-'' @ d @ ''-'' @ f"
    by (simp add: hyphenate_def a_def b_def c_def d_def f_def)
  have "unhyphenate (a @ ''-'' @ b @ ''-'' @ c @ ''-'' @ d @ ''-'' @ f) = Some (a @ b @ c @ d @ f)"
    using l by (simp add: unhyphenate_def nth_append numeral_eq_Suc)
  then show ?thesis using e by (simp add: h a_def b_def c_def d_def f_def)
qed

lemma hd_uuid_str: "startswith (uuid_str u) ''urn:uuid:'' = False"
proof -
  have "hd (hex_digits 32 (unat u)) \<in> set (hex_digits 32 (unat u))"
    by (metis hd_in_set length_hex_digits list.size(3) zero_neq_numeral)
  then have "hd (hex_digits 32 (unat u)) \<noteq> CHR ''u''" using hex_digits_not_dash by blast
  moreover have "hd (uuid_str u) = hd (hex_digits 32 (unat u))"
    using length_hex_digits [of 32 "unat u"]
    by (cases "hex_digits 32 (unat u)") (simp_all add: uuid_str_def hyphenate_def del: hex_digits.simps)
  ultimately show ?thesis by (cases "uuid_str u") (auto simp: startswith_def)
qed

theorem parse_uuid_str [simp]: "parse_uuid (uuid_str u) = Some u"
proof -
  have "unat u < 16 ^ 32" using unsigned_less [of u] by simp
  then have "hex_number 0 (hex_digits 32 (unat u)) = Some (unat u)"
    using hex_number_digits [of "unat u" 32 0] by simp
  then have "uuid_of_digits (hex_digits 32 (unat u)) = Some u"
    by (simp add: uuid_of_digits_def del: hex_digits.simps)
  moreover have "length (uuid_str u) = 36"
    by (simp add: uuid_str_def length_hyphenate del: hex_digits.simps)
  moreover have "unhyphenate (uuid_str u) = Some (hex_digits 32 (unat u))"
    unfolding uuid_str_def by (rule unhyphenate_hyphenate) simp
  ultimately show ?thesis by (simp add: parse_uuid_def hd_uuid_str)
qed

lemma uuid_str_inj [simp]: "uuid_str u = uuid_str v \<longleftrightarrow> u = v"
  by (metis option.inject parse_uuid_str)

end
