(* ===== verification/Inventory.thy ===== *)
theory Inventory
  imports Database PyUuid
begin

text \<open>
  \<open>app/services/inventory_service.py\<close> and \<open>app/repositories/inventory_repo.py\<close>: stock is
  added by an upsert, deducted under a row lock, and a deduction tells whether it took the
  product into low stock. The contract of a stock ledger is stated as a locale, from which the
  absence of overselling over any sequence of deductions follows.
\<close>

record stock_deduction_result =
  remaining_stock :: int
  entered_low_stock :: bool

section \<open>Operations\<close>

definition is_insufficient_stock :: "int \<Rightarrow> int \<Rightarrow> bool" where
  "is_insufficient_stock quantity_to_deduct current_quantity =
     (quantity_to_deduct > current_quantity)"

definition should_send_low_stock_alert :: "bool \<Rightarrow> bool \<Rightarrow> bool" where
  "should_send_low_stock_alert old_is_low new_is_low = ((old_is_low, new_is_low) = (False, True))"

definition stock_not_found :: "uuid \<Rightarrow> exc" where
  "stock_not_found pid = ResourceNotFoundException ''Inventory Product'' (uuid_str pid)"

text \<open>
  \<open>_finalize_inventory\<close>: \<open>dirty\<close> is the row the caller has changed in the session, written by
  the commit or the flush; the refresh reads the row back.
\<close>

definition finalize_inventory :: "uuid \<Rightarrow> inventory_row option \<Rightarrow> bool \<Rightarrow> inventory_row op" where
  "finalize_inventory pid dirty do_commit w =
     (let fail = (\<lambda>e w. (Inl e, if do_commit then rollback w else w)) in
      case (case dirty of None \<Rightarrow> (Inr (), w) | Some r \<Rightarrow> update_inventory r w) of
        (Inl e, w1) \<Rightarrow> fail e w1
      | (Inr _, w1) \<Rightarrow>
          (let w2 = (if do_commit then commit w1 else w1) in
           case get_by_product_id pid (work w2) of
             None \<Rightarrow> fail (RuntimeError ''Could not refresh instance'') w2
           | Some i \<Rightarrow> (Inr i, w2)))"

text \<open>
  \<open>app/sql/inventory/add_stock.sql\<close>: the proposed row is checked before the conflict on
  \<open>product_id\<close> turns the insert into an update; a new row takes the default threshold 5.
\<close>

definition add_stock_row :: "'z db_env_scheme \<Rightarrow> uuid \<Rightarrow> int \<Rightarrow> inventory_row op" where
  "add_stock_row E pid q w =
     (if \<not> int32 q then (Inl DataError, w)
      else if q < 0 then (Inl IntegrityError, w)
      else case get_by_product_id pid (work w) of
             Some i \<Rightarrow>
               (let i' = i\<lparr>i_quantity := i_quantity i + q\<rparr> in
                and_then (update_inventory i' w) (\<lambda>_ w1. (Inr i', w1)))
           | None \<Rightarrow>
               (let (u, w0) = next_uuid E w;
                    i' = \<lparr>i_id = u, i_product_id = pid, i_quantity = q, i_threshold = 5\<rparr> in
                and_then (insert_inventory i' w0) (\<lambda>_ w1. (Inr i', w1))))"

definition add_stock :: "'z db_env_scheme \<Rightarrow> uuid \<Rightarrow> int \<Rightarrow> bool \<Rightarrow> inventory_row op" where
  "add_stock E pid q do_commit w =
     and_then (add_stock_row E pid q w) (\<lambda>_ w1. finalize_inventory pid None do_commit w1)"

definition deduct_stock :: "uuid \<Rightarrow> int \<Rightarrow> bool \<Rightarrow> stock_deduction_result op" where
  "deduct_stock pid q do_commit w =
     (case get_by_product_id pid (work w) of
        None \<Rightarrow> (Inl (stock_not_found pid), w)
      | Some i \<Rightarrow>
          if is_insufficient_stock q (i_quantity i)
          then (Inl (InsufficientStockException (uuid_str pid) q (i_quantity i)), w)
          else
            (let old_is_low = (i_quantity i \<le> i_threshold i) in
             and_then (finalize_inventory pid (Some (i\<lparr>i_quantity := i_quantity i - q\<rparr>)) do_commit w)
               (\<lambda>j w1.
                  (let new_is_low = (i_quantity j \<le> i_threshold j) in
                   (Inr \<lparr>remaining_stock = i_quantity j,
                         entered_low_stock = should_send_low_stock_alert old_is_low new_is_low\<rparr>,
                    w1)))))"

definition get_stock :: "uuid \<Rightarrow> inventory_row op" where
  "get_stock pid w =
     (case get_by_product_id pid (work w) of
        None \<Rightarrow> (Inl (stock_not_found pid), w)
      | Some i \<Rightarrow> (Inr i, w))"

definition update_threshold :: "uuid \<Rightarrow> int \<Rightarrow> bool \<Rightarrow> inventory_row op" where
  "update_threshold pid threshold do_commit w =
     and_then (get_stock pid w)
       (\<lambda>i w1. finalize_inventory pid (Some (i\<lparr>i_threshold := threshold\<rparr>)) do_commit w1)"

section \<open>The schema holds after every operation\<close>

lemma finalize_ok [simp]:
  assumes "world_ok w"
  shows "world_ok (snd (finalize_inventory pid dirty c w))"
proof -
  have "world_ok (snd (case dirty of None \<Rightarrow> (Inr (), w) | Some r \<Rightarrow> update_inventory r w))"
    using assms by (simp split: option.split)
  then show ?thesis
    by (auto simp: finalize_inventory_def Let_def split: option.split prod.split sum.split)
qed

lemma add_stock_row_ok [simp]:
  assumes "world_ok w" shows "world_ok (snd (add_stock_row E pid q w))"
proof -
  obtain u w0 where u: "next_uuid E w = (u, w0)" by fastforce
  then have "world_ok w0" using next_ok(1) [OF assms, of E] by simp
  with u assms show ?thesis
    by (auto simp: add_stock_row_def Let_def split: option.split intro!: and_then_ok)
qed

lemma inventory_ops_ok [simp]:
  assumes "world_ok w"
  shows "world_ok (snd (add_stock E pid q c w))" "world_ok (snd (deduct_stock pid q c w))"
    "world_ok (snd (get_stock pid w))" "world_ok (snd (update_threshold pid th c w))"
  using assms
  by (auto simp: add_stock_def deduct_stock_def update_threshold_def get_stock_def Let_def
      split: option.split intro!: and_then_ok)

section \<open>Stock levels\<close>

definition stock :: "world \<Rightarrow> uuid \<Rightarrow> int option" where
  "stock w pid = map_option i_quantity (get_by_product_id pid (work w))"

lemma stock_nonneg: "world_ok w \<Longrightarrow> stock w pid = Some n \<Longrightarrow> 0 \<le> n \<and> n < 2 ^ 31"
  using inventory_row_ok by (fastforce simp: stock_def world_ok_def)

lemma find_map_update:
  "find (\<lambda>i. i_product_id i = pid) xs = Some i \<Longrightarrow> i_product_id r = pid \<Longrightarrow>
   find (\<lambda>i. i_product_id i = pid) (map (\<lambda>i. if i_product_id i = pid then r else i) xs) = Some r"
  by (induction xs) (auto split: if_splits)

lemma find_map_update_other:
  "k \<noteq> pid \<Longrightarrow> i_product_id r = pid \<Longrightarrow>
   find (\<lambda>i. i_product_id i = k) (map (\<lambda>i. if i_product_id i = pid then r else i) xs) =
   find (\<lambda>i. i_product_id i = k) xs"
  by (induction xs) auto

lemma get_by_product_id_update:
  assumes "get_by_product_id pid d = Some i" "i_product_id r = pid"
  shows "get_by_product_id k (d\<lparr>inventory :=
           map (\<lambda>i. if i_product_id i = i_product_id r then r else i) (inventory d)\<rparr>)
    = (if k = pid then Some r else get_by_product_id k d)"
  using assms find_map_update [of pid "inventory d" i r]
    find_map_update_other [of k pid r "inventory d"]
  by (simp add: get_by_product_id_def)

lemma deduct_succeeds:
  assumes "world_ok w" "get_by_product_id pid (work w) = Some i" "0 \<le> q" "q \<le> i_quantity i"
  defines "i' \<equiv> i\<lparr>i_quantity := i_quantity i - q\<rparr>"
  defines "d' \<equiv> (work w)\<lparr>inventory :=
    map (\<lambda>j. if i_product_id j = pid then i' else j) (inventory (work w))\<rparr>"
  shows "deduct_stock pid q c w =
    (Inr \<lparr>remaining_stock = i_quantity i - q,
          entered_low_stock = (i_threshold i < i_quantity i \<and> i_quantity i - q \<le> i_threshold i)\<rparr>,
     (if c then commit (w\<lparr>work := d'\<rparr>) else w\<lparr>work := d'\<rparr>))"
proof -
  have ok: "db_ok (work w)" using assms(1) by (simp add: world_ok_def)
  have pid: "i_product_id i = pid" using assms(2) look_ups(3) by blast
  have "i_quantity i < 2 ^ 31" using inventory_row_ok [OF ok assms(2)] by simp
  then have "db_ok d'"
    unfolding d'_def i'_def using db_ok_update_inventory [OF ok assms(2), of "i_quantity i - q"] assms
    by simp
  then have upd: "update_inventory i' w = (Inr (), w\<lparr>work := d'\<rparr>)"
    unfolding update_inventory_def i'_def d'_def by (simp add: pid execute_accepts)
  have "get_by_product_id pid d' = Some i'"
    using get_by_product_id_update [OF assms(2), of i' pid] pid by (simp add: d'_def i'_def)
  with upd assms show ?thesis
    by (auto simp: deduct_stock_def finalize_inventory_def is_insufficient_stock_def Let_def
        should_send_low_stock_alert_def)
qed

lemma deduct_fails:
  assumes "world_ok w" "0 \<le> q" "deduct_stock pid q c w = (Inl e, w')"
  shows "w' = w \<and>
    (stock w pid = None \<and> e = stock_not_found pid \<or>
     (\<exists>n. stock w pid = Some n \<and> n < q \<and> e = InsufficientStockException (uuid_str pid) q n))"
proof (cases "get_by_product_id pid (work w)")
  case None
  with assms(3) show ?thesis by (simp add: deduct_stock_def stock_def)
next
  case (Some i)
  show ?thesis
  proof (cases "q \<le> i_quantity i")
    case True
    with deduct_succeeds [OF assms(1) Some assms(2)] assms(3) show ?thesis by simp
  next
    case False
    with Some assms(3) show ?thesis
      by (auto simp: deduct_stock_def stock_def is_insufficient_stock_def)
  qed
qed

lemma stock_after_deduct:
  assumes "world_ok w" "0 \<le> q" "deduct_stock pid q c w = (Inr x, w')"
  shows "\<exists>n. stock w pid = Some n \<and> q \<le> n \<and> remaining_stock x = n - q \<and>
    stock w' = (stock w)(pid \<mapsto> n - q)"
proof -
  from assms(3) obtain i where i: "get_by_product_id pid (work w) = Some i" "q \<le> i_quantity i"
    by (auto simp: deduct_stock_def is_insufficient_stock_def split: option.splits if_splits)
  have pid: "i_product_id i = pid" using i(1) look_ups(3) by blast
  note res = deduct_succeeds [OF assms(1) i(1) assms(2) i(2), of c]
  have "stock w' k = ((stock w)(pid \<mapsto> i_quantity i - q)) k" for k
    using res assms(3) get_by_product_id_update [OF i(1), of "i\<lparr>i_quantity := i_quantity i - q\<rparr>" k]
    by (auto simp: stock_def pid)
  then have "stock w' = (stock w)(pid \<mapsto> i_quantity i - q)" by blast
  with res assms(3) i show ?thesis by (auto simp: stock_def)
qed

section \<open>The contract of a stock ledger\<close>

locale stock_ledger =
  fixes good :: "'s \<Rightarrow> bool"
    and level :: "'s \<Rightarrow> 'k \<Rightarrow> int option"
    and take_out :: "'k \<Rightarrow> int \<Rightarrow> 's \<Rightarrow> ('e + 'r) \<times> 's"
  assumes good_step: "\<lbrakk>good s; take_out k q s = (r, s')\<rbrakk> \<Longrightarrow> good s'"
    and level_nonneg: "\<lbrakk>good s; level s k = Some n\<rbrakk> \<Longrightarrow> 0 \<le> n"
    and granted: "\<lbrakk>good s; 0 < q; take_out k q s = (Inr x, s')\<rbrakk> \<Longrightarrow>
      \<exists>n. level s k = Some n \<and> q \<le> n \<and> level s' = (level s)(k \<mapsto> n - q)"
    and refused: "\<lbrakk>good s; 0 < q; take_out k q s = (Inl e, s')\<rbrakk> \<Longrightarrow> level s' = level s"
begin

text \<open>A sequence of requests; the granted ones are returned.\<close>

fun serve :: "('k \<times> int) list \<Rightarrow> 's \<Rightarrow> ('k \<times> int) list \<times> 's" where
  "serve [] s = ([], s)"
| "serve ((k, q) # rs) s =
     (case take_out k q s of
        (Inl e, s') \<Rightarrow> serve rs s'
      | (Inr x, s') \<Rightarrow> (let (gs, t) = serve rs s' in ((k, q) # gs, t)))"

definition units_of :: "'k \<Rightarrow> ('k \<times> int) list \<Rightarrow> int" where
  "units_of k rs = sum_list (map snd (filter (\<lambda>r. fst r = k) rs))"

lemma serve_levels:
  assumes "good s" "\<forall>r \<in> set rs. 0 < snd r" "serve rs s = (gs, t)"
  shows "good t \<and> level t k = map_option (\<lambda>n. n - units_of k gs) (level s k) \<and>
    (\<forall>r \<in> set gs. 0 < snd r \<and> level s (fst r) \<noteq> None)"
  using assms
proof (induction rs s arbitrary: gs t rule: serve.induct)
  case (1 s)
  then show ?case by (simp add: units_of_def option.map_ident)
next
  case (2 k0 q rs s)
  have q: "0 < q" using "2.prems" by simp
  obtain r s' where step: "take_out k0 q s = (r, s')" by fastforce
  have good': "good s'" using good_step [OF "2.prems"(1) step] .
  show ?case
  proof (cases r)
    case (Inl e)
    then have "level s' = level s" using refused "2.prems"(1) q step by blast
    with "2.IH"(1) [OF step [symmetric] Inl good'] "2.prems" step Inl show ?thesis by simp
  next
    case (Inr x)
    then obtain n where n: "level s k0 = Some n" "level s' = (level s)(k0 \<mapsto> n - q)"
      using granted "2.prems"(1) q step by blast
    obtain gs' where gs: "serve rs s' = (gs', t)" "gs = (k0, q) # gs'"
      using "2.prems" step Inr by (auto split: prod.splits)
    note IH = "2.IH"(2) [OF step [symmetric] Inr good' _ gs(1)]
    have IH': "good t \<and> level t k = map_option (\<lambda>n. n - units_of k gs') (level s' k) \<and>
        (\<forall>r \<in> set gs'. 0 < snd r \<and> level s' (fst r) \<noteq> None)"
      using IH "2.prems" by simp
    then show ?thesis
      using n gs q by (cases "k = k0") (auto simp: units_of_def split: if_splits)
  qed
qed

text \<open>No sequence of requests is granted more than there was.\<close>

lemma no_oversell:
  assumes "good s" "\<forall>r \<in> set rs. 0 < snd r" "serve rs s = (gs, t)" "level s k = Some n"
  shows "units_of k gs \<le> n" "level t k = Some (n - units_of k gs)"
proof -
  show l: "level t k = Some (n - units_of k gs)" using serve_levels [OF assms(1-3), of k] assms(4) by simp
  show "units_of k gs \<le> n" using level_nonneg [OF _ l] serve_levels [OF assms(1-3), of k] by simp
qed

end

interpretation shelf: stock_ledger world_ok stock "\<lambda>pid q. deduct_stock pid q c" for c
proof unfold_locales
  show "\<And>s k q r s'. world_ok s \<Longrightarrow> deduct_stock k q c s = (r, s') \<Longrightarrow> world_ok s'"
    using inventory_ops_ok(2) by (metis snd_conv)
  show "\<And>s k n. world_ok s \<Longrightarrow> stock s k = Some n \<Longrightarrow> 0 \<le> n" using stock_nonneg by blast
  show "\<And>s q k x s'. world_ok s \<Longrightarrow> 0 < q \<Longrightarrow> deduct_stock k q c s = (Inr x, s') \<Longrightarrow>
      \<exists>n. stock s k = Some n \<and> q \<le> n \<and> stock s' = (stock s)(k \<mapsto> n - q)"
    using stock_after_deduct by (metis less_imp_le)
  show "\<And>s q k e s'. world_ok s \<Longrightarrow> 0 < q \<Longrightarrow> deduct_stock k q c s = (Inl e, s') \<Longrightarrow> stock s' = stock s"
    using deduct_fails by (metis less_imp_le)
qed

end
