(* ===== verification/Products.thy ===== *)
theory Products
  imports Database PyUuid "HOL-Library.Char_ord" "HOL-Library.List_Lexorder"
begin

text \<open>
  \<open>app/services/product_service.py\<close>, \<open>app/repositories/product_repo.py\<close> and the product schemas:
  creation with a generated SKU, update, deletion, listing and the resolution of a product
  name by trigram similarity. \<open>similarity\<close> is the parameter \<open>db_env\<close> carries for \<open>pg_trgm\<close>.
\<close>

section \<open>Schemas\<close>

record product_create =
  cp_name :: string
  cp_price :: int
  cp_shop_id :: uuid

definition ProductCreate :: "string \<Rightarrow> int \<Rightarrow> uuid \<Rightarrow> product_create res" where
  "ProductCreate nm pr sid =
     (if pr \<le> 0 then Inl (ValidationError ''The price must be a positive number'')
      else Inr \<lparr>cp_name = nm, cp_price = pr, cp_shop_id = sid\<rparr>)"

text \<open>A field of a partial update: absent, \<open>null\<close> or set.\<close>

datatype 'a field = Unset | SetNull | SetTo 'a

record product_update =
  up_name :: "string field"
  up_price :: "int field"

definition ProductUpdate :: "string field \<Rightarrow> int field \<Rightarrow> product_update res" where
  "ProductUpdate nm pr =
     (case nm of
        SetNull \<Rightarrow> Inl (ValidationError ''Name cannot be null'')
      | SetTo [] \<Rightarrow> Inl (ValidationError ''String should have at least 1 character'')
      | _ \<Rightarrow> Inr \<lparr>up_name = nm, up_price = pr\<rparr>)"

section \<open>Operations\<close>

text \<open>\<open>word[0].upper()\<close>: the bytes of the first character of a word.\<close>

definition first_char :: "string \<Rightarrow> string" where
  "first_char w =
     (case w of [] \<Rightarrow> [] | c # cs \<Rightarrow> c # takeWhile (\<lambda>b. 128 \<le> code b \<and> code b < 192) cs)"

definition generate_sku :: "string \<Rightarrow> string \<Rightarrow> string" where
  "generate_sku nm suffix = concat (map (\<lambda>w. upper (first_char w)) (py_split nm)) @ ''-'' @ suffix"

definition product_not_found :: "uuid \<Rightarrow> exc" where
  "product_not_found pid = ResourceNotFoundException ''Product'' (uuid_str pid)"

definition create_product :: "'z db_env_scheme \<Rightarrow> product_create \<Rightarrow> product_row op" where
  "create_product E data w =
     (let (suffix, w0) = next_suffix E w;
          (u, w1) = next_uuid E w0;
          row = \<lparr>p_id = u, p_shop_id = cp_shop_id data, p_name = cp_name data,
                 p_sku = generate_sku (cp_name data) suffix, p_price = cp_price data,
                 p_created = now E\<rparr> in
      except_integrity (and_then (insert_product row w1) (\<lambda>_ w2. (Inr row, commit w2)))
        (\<lambda>w2. (Inl (ResourceAlreadyExistsException ''Product'' ''SKU'' (p_sku row)), rollback w2)))"

definition get_product :: "uuid \<Rightarrow> product_row op" where
  "get_product pid w =
     (case product_by_id pid (work w) of
        None \<Rightarrow> (Inl (product_not_found pid), w)
      | Some p \<Rightarrow> (Inr p, w))"

text \<open>\<open>app/sql/products/list_by_shop.sql\<close>: latest first, ties by descending id.\<close>

definition list_products :: "uuid \<Rightarrow> product_row list op" where
  "list_products sid w =
     (Inr (sort_key (\<lambda>p. - p_created p)
             (sort_key (\<lambda>p. - uint (p_id p))
                (filter (\<lambda>p. p_shop_id p = sid) (products (work w))))), w)"

text \<open>
  The update writes the row at the commit. A \<open>null\<close> price violates the column, and so does a
  negative one. The handler of the \<open>IntegrityError\<close> then reads \<open>product.sku\<close>, which the
  rollback has expired: reading it outside an await raises \<open>MissingGreenlet\<close>.
\<close>

definition update_product :: "uuid \<Rightarrow> product_update \<Rightarrow> product_row op" where
  "update_product pid data w =
     and_then (get_product pid w)
       (\<lambda>p w0.
          (let p1 = (case up_name data of SetTo nm \<Rightarrow> p\<lparr>p_name := nm\<rparr> | _ \<Rightarrow> p);
               p2 = (case up_price data of SetTo pr \<Rightarrow> p1\<lparr>p_price := pr\<rparr> | _ \<Rightarrow> p1) in
           except_integrity
             (and_then (if up_price data = SetNull then (Inl IntegrityError, w0)
                        else update_product_row p2 w0)
                (\<lambda>_ w1. (Inr p2, commit w1)))
             (\<lambda>w1. (Inl MissingGreenlet, rollback w1))))"

definition delete_product :: "uuid \<Rightarrow> unit op" where
  "delete_product pid w =
     and_then (get_product pid w)
       (\<lambda>p w0.
          except_integrity (and_then (delete_product_row pid w0) (\<lambda>_ w1. (Inr (), commit w1)))
            (\<lambda>w1. (Inl (ResourceConflictException
               ''Product cannot be deleted because related inventory or sales records exist.''),
             rollback w1)))"

section \<open>Fuzzy search\<close>

definition to_match :: "rat \<Rightarrow> product_row \<Rightarrow> scored_match" where
  "to_match score p =
     \<lparr>sm_id = p_id p, sm_shop_id = p_shop_id p, sm_name = p_name p, sm_sku = p_sku p,
      sm_price = p_price p, similarity_score = score\<rparr>"

text \<open>
  \<open>app/sql/products/find_products_by_fuzzy_search.sql\<close>; rows of equal score, whose order SQL
  leaves open, come in table order. The schema of a match bounds the score by 0 and 1.
\<close>

definition get_products_by_fuzzy_name ::
  "'z db_env_scheme \<Rightarrow> uuid \<Rightarrow> string \<Rightarrow> nat \<Rightarrow> scored_match list op" where
  "get_products_by_fuzzy_name E sid query lmt w =
     (let term = lower (strip query);
          score = (\<lambda>p. similarity E (p_name_lower p) term);
          rows = filter (\<lambda>p. p_shop_id p = sid \<and> product_match_threshold (cfg E) \<le> score p)
                   (products (work w));
          best = take lmt (sort_key (\<lambda>p. - score p) rows) in
      if list_all (\<lambda>p. 0 \<le> score p \<and> score p \<le> 1) best
      then (Inr (map (\<lambda>p. to_match (score p) p) best), w)
      else (Inl (ValidationError ''similarity_score''), w))"

definition find_products_by_fuzzy_name ::
  "'z db_env_scheme \<Rightarrow> uuid \<Rightarrow> string \<Rightarrow> nat \<Rightarrow> product_resolution op" where
  "find_products_by_fuzzy_name E sid query lmt w =
     and_then (get_products_by_fuzzy_name E sid query lmt w)
       (\<lambda>results w1.
          (case results of
             [] \<Rightarrow> (Inr \<lparr>pr_status = RS_NOT_FOUND, pr_product = None, pr_candidates = []\<rparr>, w1)
           | best # _ \<Rightarrow>
               if confident_match_threshold (cfg E) \<le> similarity_score best
               then (Inr \<lparr>pr_status = RS_EXACT_MATCH, pr_product = Some best, pr_candidates = []\<rparr>, w1)
               else (Inr \<lparr>pr_status = RS_AMBIGUOUS, pr_product = None, pr_candidates = results\<rparr>, w1)))"

text \<open>The default limit of the callers in the conversation flows.\<close>

definition default_match_limit :: nat where
  "default_match_limit = 3"

section \<open>Properties\<close>

lemma product_ops_ok [simp]:
  assumes "world_ok w"
  shows "world_ok (snd (create_product E data w))" "world_ok (snd (get_product pid w))"
    "world_ok (snd (update_product pid upd w))" "world_ok (snd (delete_product pid w))"
proof -
  show "world_ok (snd (get_product pid w))"
    using assms by (simp add: get_product_def split: option.split)
  then show "world_ok (snd (update_product pid upd w))" "world_ok (snd (delete_product pid w))"
    by (auto simp: update_product_def delete_product_def Let_def
        intro!: and_then_ok except_integrity_ok)
  obtain suffix w0 u w1 where s: "next_suffix E w = (suffix, w0)" "next_uuid E w0 = (u, w1)"
    by (meson surj_pair)
  then have "world_ok w1" using assms next_ok by (metis snd_conv)
  with s show "world_ok (snd (create_product E data w))"
    by (auto simp: create_product_def Let_def intro!: and_then_ok except_integrity_ok)
qed

lemma fuzzy_frame [simp]:
  "snd (get_products_by_fuzzy_name E sid q lmt w) = w"
  "snd (find_products_by_fuzzy_name E sid q lmt w) = w"
  by (auto simp: get_products_by_fuzzy_name_def find_products_by_fuzzy_name_def Let_def and_then_def
      split: list.split)

lemma fuzzy_matches:
  assumes "get_products_by_fuzzy_name E sid q lmt w = (Inr ms, w')" "m \<in> set ms"
  shows "sm_shop_id m = sid" "product_match_threshold (cfg E) \<le> similarity_score m"
    "\<exists>p \<in> set (products (work w)). m = to_match (similarity_score m) p"
proof -
  from assms obtain p score where p: "p \<in> set (products (work w))" "m = to_match score p"
      "p_shop_id p = sid" "product_match_threshold (cfg E) \<le> score"
    by (auto simp: get_products_by_fuzzy_name_def Let_def dest!: in_set_takeD split: if_splits)
  then show "sm_shop_id m = sid" "product_match_threshold (cfg E) \<le> similarity_score m"
    "\<exists>p \<in> set (products (work w)). m = to_match (similarity_score m) p"
    by (auto simp: to_match_def)
qed

lemma fuzzy_best_first:
  assumes "get_products_by_fuzzy_name E sid q lmt w = (Inr (best # rest), w')"
  shows "\<forall>m \<in> set rest. similarity_score m \<le> similarity_score best"
proof -
  define score where "score p = similarity E (p_name_lower p) (lower (strip q))" for p
  define rows where "rows = filter (\<lambda>p. p_shop_id p = sid \<and> product_match_threshold (cfg E) \<le> score p)
    (products (work w))"
  have e: "map (\<lambda>p. to_match (score p) p) (take lmt (sort_key (\<lambda>p. - score p) rows)) = best # rest"
    using assms by (auto simp: get_products_by_fuzzy_name_def Let_def score_def rows_def split: if_splits)
  have "sorted (map (\<lambda>p. - score p) (take lmt (sort_key (\<lambda>p. - score p) rows)))"
    by (metis sorted_sort_key sorted_wrt_take take_map)
  moreover have "map (\<lambda>m. - similarity_score m) (best # rest) =
      map (\<lambda>p. - score p) (take lmt (sort_key (\<lambda>p. - score p) rows))"
    unfolding e [symmetric] by (simp add: to_match_def)
  ultimately have "sorted (map (\<lambda>m. - similarity_score m) (best # rest))" by simp
  then show ?thesis by auto
qed

text \<open>What a resolution says: an exact match beats the confidence threshold and all the others.\<close>

lemma resolution_cases:
  assumes "find_products_by_fuzzy_name E sid q lmt w = (Inr r, w')"
  obtains "pr_status r = RS_NOT_FOUND" "pr_product r = None" "pr_candidates r = []"
    | p where "pr_status r = RS_EXACT_MATCH" "pr_product r = Some p" "pr_candidates r = []"
        "confident_match_threshold (cfg E) \<le> similarity_score p" "sm_shop_id p = sid"
        "\<exists>row \<in> set (products (work w)). p = to_match (similarity_score p) row"
    | "pr_status r = RS_AMBIGUOUS" "pr_product r = None" "pr_candidates r \<noteq> []"
        "length (pr_candidates r) \<le> lmt"
        "\<forall>m \<in> set (pr_candidates r). sm_shop_id m = sid \<and>
           similarity_score m < confident_match_threshold (cfg E) \<and>
           (\<exists>row \<in> set (products (work w)). m = to_match (similarity_score m) row)"
proof -
  obtain ms where ms: "get_products_by_fuzzy_name E sid q lmt w = (Inr ms, w)"
    using assms fuzzy_frame(1) [of E sid q lmt w]
    by (cases "get_products_by_fuzzy_name E sid q lmt w")
       (auto simp: find_products_by_fuzzy_name_def and_then_def split: sum.splits)
  note facts = fuzzy_matches [OF ms]
  show ?thesis
  proof (cases ms)
    case Nil
    with assms ms show ?thesis by (intro that(1)) (auto simp: find_products_by_fuzzy_name_def)
  next
    case (Cons best rest)
    note bf = fuzzy_best_first [OF ms [unfolded Cons]]
    show ?thesis
    proof (cases "confident_match_threshold (cfg E) \<le> similarity_score best")
      case True
      then show ?thesis
        using assms ms Cons facts [of best]
        by (intro that(2) [of best]) (auto simp: find_products_by_fuzzy_name_def)
    next
      case False
      have "length ms \<le> lmt"
        using ms by (auto simp: get_products_by_fuzzy_name_def Let_def split: if_splits)
      moreover have "pr_candidates r = ms" "pr_status r = RS_AMBIGUOUS" "pr_product r = None"
        using assms ms Cons False by (auto simp: find_products_by_fuzzy_name_def)
      moreover have "similarity_score m < confident_match_threshold (cfg E)" if "m \<in> set ms" for m
        using that False bf Cons by fastforce
      ultimately show ?thesis using facts Cons by (intro that(3)) auto
    qed
  qed
qed

text \<open>A negative price in an update is not answered as a conflict of the SKU.\<close>

lemma update_negative_price:
  assumes "world_ok w" "product_by_id pid (work w) = Some p" "up_name upd = Unset"
    "up_price upd = SetTo pr" "- (10 ^ 10) < pr" "pr < 0"
  shows "update_product pid upd w = (Inl MissingGreenlet, rollback w)"
proof -
  have p: "p \<in> set (products (work w))" "p_id p = pid" using assms(2) look_ups(2) by blast+
  let ?d = "(work w)\<lparr>products := map (\<lambda>q. if p_id q = pid then p\<lparr>p_price := pr\<rparr> else q)
     (products (work w))\<rparr>"
  have "p\<lparr>p_price := pr\<rparr> \<in> set (products ?d)" using p by force
  then have "\<not> product_constraints ?d"
    using assms(6) unfolding product_constraints_def list_all_iff by fastforce
  moreover have "types_ok ?d"
    using assms(1,5,6) p
    by (auto simp: world_ok_def db_ok_def types_ok_def list_all_iff product_types_def numeric_10_2_def)
  ultimately have "update_product_row (p\<lparr>p_price := pr\<rparr>) w = (Inl IntegrityError, w)"
    using p by (simp add: update_product_row_def execute_def constraints_def)
  with assms(2-4) show ?thesis by (simp add: update_product_def get_product_def)
qed

end
