(* ===== verification/AddProduct.thy ===== *)
theory AddProduct
  imports Primitives Inventory Products
begin

text \<open>
  \<open>app/fsm/flows/add_product.py\<close>: the steps that collect a name, a price and a quantity and then
  create the product and its first stock. The creation commits before the stock is added, and
  the stock commits by itself.
\<close>

definition lost_details :: exc where
  "lost_details = InvalidInputError
     (''I lost some product details. Type '' @ [CHR 0x27] @ ''add product'' @ [CHR 0x27] @
      '' to start again.'') (Some MK_SESSION_CONTEXT_LOST) []"

definition handle_name :: "'z fsm_env_scheme \<Rightarrow> string \<Rightarrow> fsm_result step" where
  "handle_name E msg = (\<lambda>(s, w).
     (case parse_product_name msg of
        Inl e \<Rightarrow> (Inl e, (s, w))
      | Inr nm \<Rightarrow>
          (let s1 = transition E S_ADD_PRODUCT_PRICE (upd_ctx (\<lambda>c. c\<lparr>product_name := Some nm\<rparr>) s) in
           (Inr (build_result (sstate s) s1 MK_ASK_PRICE []), (s1, w)))))"

definition handle_price :: "'z fsm_env_scheme \<Rightarrow> string \<Rightarrow> fsm_result step" where
  "handle_price E msg = (\<lambda>(s, w).
     (case parse_price msg of
        Inl e \<Rightarrow> (Inl e, (s, w))
      | Inr pr \<Rightarrow>
          (let s1 = transition E S_ADD_PRODUCT_QTY (upd_ctx (\<lambda>c. c\<lparr>product_price := Some pr\<rparr>) s) in
           (Inr (build_result (sstate s) s1 MK_ASK_STOCK_QUANTITY []), (s1, w)))))"

definition handle_qty :: "'z fsm_env_scheme \<Rightarrow> string \<Rightarrow> fsm_result step" where
  "handle_qty E msg = (\<lambda>(s, w).
     (case (product_name (ctx s), product_price (ctx s)) of
        (Some nm, Some pr) \<Rightarrow>
          (case parse_quantity msg of
             Inl e \<Rightarrow> (Inl e, (s, w))
           | Inr q \<Rightarrow>
               (let s1 = transition E S_CONFIRM_ADD_PRODUCT (upd_ctx (\<lambda>c. c\<lparr>product_qty := Some q\<rparr>) s) in
                (Inr (build_result (sstate s) s1 MK_CONFIRM_PRODUCT
                   [(''product_name'', PStr nm), (''price'', PMoney pr), (''quantity'', PInt q)]),
                 (s1, w))))
      | _ \<Rightarrow> (Inl lost_details, (s, w))))"

text \<open>The sender's shop, unless the session knows it already.\<close>

definition session_shop :: "'z fsm_env_scheme \<Rightarrow> uuid step" where
  "session_shop E = (\<lambda>(s, w).
     (case shop_id (ctx s) of
        Some sid \<Rightarrow> (Inr sid, (s, w))
      | None \<Rightarrow>
          and_then (shop_of E (s, w))
            (\<lambda>sid (s1, w1). (Inr sid, (upd_ctx (\<lambda>c. c\<lparr>shop_id := Some sid\<rparr>) s1, w1)))))"

definition create_with_stock :: "'z fsm_env_scheme \<Rightarrow> uuid \<Rightarrow> unit step" where
  "create_with_stock E sid = (\<lambda>(s, w).
     (case (product_name (ctx s), product_price (ctx s)) of
        (Some nm, Some pr) \<Rightarrow>
          (case ProductCreate nm pr sid of
             Inl e \<Rightarrow> (Inl e, (s, w))
           | Inr payload \<Rightarrow>
               and_then (on_db (create_product E payload) (s, w))
                 (\<lambda>p (s1, w1).
                    (case product_qty (ctx s1) of
                       Some q \<Rightarrow>
                         if q > 0
                         then and_then (on_db (add_stock E (p_id p) q True) (s1, w1))
                                (\<lambda>_ st2. (Inr (), st2))
                         else (Inr (), (s1, w1))
                     | None \<Rightarrow> (Inr (), (s1, w1)))))
      | _ \<Rightarrow> (Inl lost_details, (s, w))))"

definition persist_product_db :: "'z fsm_env_scheme \<Rightarrow> unit step" where
  "persist_product_db E =
     get_db_session E (\<lambda>st. and_then (session_shop E st) (create_with_stock E))"

definition handle_confirm :: "'z fsm_env_scheme \<Rightarrow> string \<Rightarrow> fsm_result step" where
  "handle_confirm E msg = (\<lambda>(s, w).
     (case parse_confirmation msg of
        Inl e \<Rightarrow> (Inl e, (s, w))
      | Inr False \<Rightarrow>
          (let s1 = clear_context_preserving_history E (transition E S_IDLE s) in
           (Inr (build_result (sstate s) s1 MK_PRODUCT_CANCELLED []), (s1, w)))
      | Inr True \<Rightarrow>
          (case (product_name (ctx s), product_price (ctx s), product_qty (ctx s)) of
             (Some nm, Some pr, Some q) \<Rightarrow>
               and_then (persist_product_db E (s, w))
                 (\<lambda>_ (s1, w1).
                    (let s2 = clear_context_preserving_history E (transition E S_IDLE s1) in
                     (Inr (build_result (sstate s) s2 MK_PRODUCT_ADDED
                        [(''product_name'', PStr nm), (''price'', PMoney pr), (''quantity'', PInt q)]),
                      (s2, w1))))
           | _ \<Rightarrow> (Inl lost_details, (s, w)))))"

declare handle_name_def [step_defs] handle_price_def [step_defs] handle_qty_def [step_defs]
  handle_confirm_def [step_defs] persist_product_db_def [step_defs] create_with_stock_def [step_defs]
  session_shop_def [step_defs]

end
