(* ===== verification/Sales.thy ===== *)
theory Sales
  imports Inventory Products
begin

text \<open>
  \<open>app/services/sales_service.py\<close> and \<open>app/repositories/sales_repo.py\<close> with the queries under
  \<open>app/sql/sales\<close>: a sale is recorded in a savepoint together with the deduction of its stock,
  and the sales of a half-open interval of time are summed up, ranked and joined with the stock.
  Where a query fixes no order the rows come in table order.
\<close>

section \<open>Recording a sale\<close>

record sale_result =
  sr_sale :: sale_row
  sr_remaining :: int
  sr_entered_low :: bool

definition record_sale ::
  "'z db_env_scheme \<Rightarrow> uuid \<Rightarrow> uuid \<Rightarrow> int \<Rightarrow> string \<Rightarrow> sale_result op" where
  "record_sale E sid pid q recorded_by =
     begin_nested (\<lambda>w.
       case product_by_id pid (work w) of
         None \<Rightarrow> (Inl (product_not_found pid), w)
       | Some p \<Rightarrow>
           if p_shop_id p \<noteq> sid
           then (Inl (ResourceConflictException ''Product does not belong to the specified shop.''), w)
           else
             and_then (deduct_stock pid q False w)
               (\<lambda>st w1.
                  (let (u, w2) = next_uuid E w1;
                       sale = \<lparr>s_id = u, s_shop_id = sid, s_product_id = pid, s_quantity = q,
                               s_unit_price = p_price p, s_recorded_by = recorded_by,
                               s_created = now E\<rparr> in
                   and_then (insert_sale sale w2)
                     (\<lambda>_ w3. (Inr \<lparr>sr_sale = sale, sr_remaining = remaining_stock st,
                                   sr_entered_low = entered_low_stock st\<rparr>, w3)))))"

definition default_recorder :: string where
  "default_recorder = ''System''"

section \<open>Queries\<close>

record revenue_summary =
  rs_revenue :: int
  rs_count :: nat

record top_by_units =
  tu_product_id :: uuid
  tu_name :: string
  tu_units :: int

record top_by_revenue =
  tr_product_id :: uuid
  tr_name :: string
  tr_revenue :: int

record low_stock_row =
  ls_id :: uuid
  ls_name :: string
  ls_quantity :: int
  ls_threshold :: int

record slow_row =
  sl_product_id :: uuid
  sl_name :: string
  sl_units :: int
  sl_stock :: int
  sl_price :: int

definition sales_between :: "uuid \<Rightarrow> time \<Rightarrow> time \<Rightarrow> db \<Rightarrow> sale_row list" where
  "sales_between sid t0 t1 d =
     filter (\<lambda>s. s_shop_id s = sid \<and> t0 \<le> s_created s \<and> s_created s < t1) (sales d)"

definition get_total_revenue_and_count :: "uuid \<Rightarrow> time \<Rightarrow> time \<Rightarrow> db \<Rightarrow> revenue_summary" where
  "get_total_revenue_and_count sid t0 t1 d =
     (let ss = sales_between sid t0 t1 d in
      \<lparr>rs_revenue = sum_list (map s_total ss), rs_count = length ss\<rparr>)"

definition get_products_with_low_stock :: "uuid \<Rightarrow> db \<Rightarrow> low_stock_row list" where
  "get_products_with_low_stock sid d =
     [\<lparr>ls_id = p_id p, ls_name = p_name p, ls_quantity = i_quantity i, ls_threshold = i_threshold i\<rparr>.
        p \<leftarrow> products d, p_shop_id p = sid, i \<leftarrow> inventory d, i_product_id i = p_id p,
        i_quantity i \<le> i_threshold i]"

text \<open>
  The sold products with the sum of a measure over their sales; \<open>DENSE_RANK() = 1\<close> keeps those
  whose sum is the largest.
\<close>

definition measure_sums :: "(sale_row \<Rightarrow> int) \<Rightarrow> sale_row list \<Rightarrow> db \<Rightarrow> (product_row \<times> int) list" where
  "measure_sums f ss d =
     [(p, sum_list (map f [s. s \<leftarrow> ss, s_product_id s = p_id p])).
        p \<leftarrow> products d, p_id p \<in> set (map s_product_id ss)]"

definition first_ranked :: "(product_row \<times> int) list \<Rightarrow> (product_row \<times> int) list" where
  "first_ranked ms = filter (\<lambda>m. \<forall>m' \<in> set ms. snd m' \<le> snd m) ms"

definition get_top_moving_products ::
  "uuid \<Rightarrow> time \<Rightarrow> time \<Rightarrow> db \<Rightarrow> top_by_units list \<times> top_by_revenue list" where
  "get_top_moving_products sid t0 t1 d =
     (let ss = sales_between sid t0 t1 d in
      (map (\<lambda>(p, n). \<lparr>tu_product_id = p_id p, tu_name = p_name p, tu_units = n\<rparr>)
         (first_ranked (measure_sums s_quantity ss d)),
       map (\<lambda>(p, n). \<lparr>tr_product_id = p_id p, tr_name = p_name p, tr_revenue = n\<rparr>)
         (first_ranked (measure_sums s_total ss d))))"

definition get_slow_moving_products ::
  "uuid \<Rightarrow> time \<Rightarrow> time \<Rightarrow> int \<Rightarrow> nat \<Rightarrow> db \<Rightarrow> slow_row list" where
  "get_slow_moving_products sid t0 t1 max_sales_count lmt d =
     (let ss = sales_between sid t0 t1 d;
          rows = [\<lparr>sl_product_id = p_id p, sl_name = p_name p,
                   sl_units = sum_list (map s_quantity [s. s \<leftarrow> ss, s_product_id s = p_id p]),
                   sl_stock = (case get_by_product_id (p_id p) d of
                                 None \<Rightarrow> 0 | Some i \<Rightarrow> i_quantity i),
                   sl_price = p_price p\<rparr>. p \<leftarrow> products d, p_shop_id p = sid]
      in take lmt (sort_key sl_units (sort_key sl_name
           (filter (\<lambda>r. sl_units r \<le> max_sales_count) rows))))"

section \<open>Days of the shop\<close>

text \<open>
  Nairobi is three hours ahead of UTC without daylight saving since 1960. A date is its
  proleptic ordinal; 719163 is 1970-01-01. A date whose day bounds leave Python's range of
  dates raises \<open>OverflowError\<close>.
\<close>

datatype date_input = DateOnly int | NaiveDateTime int | AwareDateTime time

definition day_length :: time where "day_length = seconds 86400"
definition nairobi_offset :: time where "nairobi_offset = seconds 10800"
definition epoch_ordinal :: int where "epoch_ordinal = 719163"
definition max_ordinal :: int where "max_ordinal = 3652059"

definition nairobi_date :: "time \<Rightarrow> int" where
  "nairobi_date t = (t + nairobi_offset) div day_length + epoch_ordinal"

definition day_start :: "int \<Rightarrow> time" where
  "day_start d = (d - epoch_ordinal) * day_length - nairobi_offset"

definition normalized_date :: "date_input \<Rightarrow> int" where
  "normalized_date di =
     (case di of DateOnly d \<Rightarrow> d | NaiveDateTime d \<Rightarrow> d | AwareDateTime t \<Rightarrow> nairobi_date t)"

definition local_day_bounds_to_utc :: "date_input \<Rightarrow> (time \<times> time) res" where
  "local_day_bounds_to_utc di =
     (let d = normalized_date di in
      if d \<le> 1 \<or> max_ordinal \<le> d then Inl (OverflowError ''date value out of range'')
      else Inr (day_start d, day_start (d + 1)))"

section \<open>The daily summary\<close>

record daily_summary =
  ds_total_revenue :: int
  ds_transaction_count :: nat
  ds_top_by_units :: "top_by_units list"
  ds_top_by_revenue :: "top_by_revenue list"
  ds_low_stock :: "low_stock_row list"

definition total_revenue_and_count_of_day :: "date_input \<Rightarrow> uuid \<Rightarrow> db \<Rightarrow> revenue_summary res" where
  "total_revenue_and_count_of_day di sid d =
     (case local_day_bounds_to_utc di of
        Inl e \<Rightarrow> Inl e
      | Inr (t0, t1) \<Rightarrow> Inr (get_total_revenue_and_count sid t0 t1 d))"

definition get_daily_summary :: "uuid \<Rightarrow> date_input \<Rightarrow> db \<Rightarrow> daily_summary res" where
  "get_daily_summary sid di d =
     (case local_day_bounds_to_utc di of
        Inl e \<Rightarrow> Inl e
      | Inr (t0, t1) \<Rightarrow>
          (case total_revenue_and_count_of_day di sid d of
             Inl e \<Rightarrow> Inl e
           | Inr rs \<Rightarrow>
               (let (units, revenue) = get_top_moving_products sid t0 t1 d in
                Inr \<lparr>ds_total_revenue = rs_revenue rs, ds_transaction_count = rs_count rs,
                     ds_top_by_units = units, ds_top_by_revenue = revenue,
                     ds_low_stock = get_products_with_low_stock sid d\<rparr>)))"

section \<open>Recording a sale, on every branch\<close>

text \<open>The units of a product that the table of sales records.\<close>

definition units_sold :: "world \<Rightarrow> uuid \<Rightarrow> int" where
  "units_sold w pid = sum_list (map s_quantity (filter (\<lambda>s. s_product_id s = pid) (sales (work w))))"

lemma begin_nested_Inl: "begin_nested b w = (Inl e, w') \<Longrightarrow> work w' = work w"
  by (auto simp: begin_nested_def split: prod.splits sum.splits)

lemma record_sale_ok [simp]:
  assumes "world_ok w" shows "world_ok (snd (record_sale E sid pid q who w))"
  unfolding record_sale_def
proof (rule begin_nested_ok [OF assms])
  have "world_ok (snd (let (u, w2) = next_uuid E w1;
      sale = \<lparr>s_id = u, s_shop_id = sid, s_product_id = pid, s_quantity = q,
              s_unit_price = pr, s_recorded_by = who, s_created = now E\<rparr> in
      and_then (insert_sale sale w2)
        (\<lambda>_ w3. (Inr \<lparr>sr_sale = sale, sr_remaining = n, sr_entered_low = l\<rparr>, w3))))"
    if "world_ok w1" for w1 pr n l
  proof -
    obtain u w2 where u: "next_uuid E w1 = (u, w2)" by fastforce
    then have "world_ok w2" using that next_ok(1) by (metis snd_conv)
    with u show ?thesis by (auto simp: Let_def intro!: and_then_ok)
  qed
  with assms show "world_ok (snd (case product_by_id pid (work w) of
       None \<Rightarrow> (Inl (product_not_found pid), w)
     | Some p \<Rightarrow>
         if p_shop_id p \<noteq> sid
         then (Inl (ResourceConflictException ''Product does not belong to the specified shop.''), w)
         else
           and_then (deduct_stock pid q False w)
             (\<lambda>st w1.
                (let (u, w2) = next_uuid E w1;
                     sale = \<lparr>s_id = u, s_shop_id = sid, s_product_id = pid, s_quantity = q,
                             s_unit_price = p_price p, s_recorded_by = who, s_created = now E\<rparr> in
                 and_then (insert_sale sale w2)
                   (\<lambda>_ w3. (Inr \<lparr>sr_sale = sale, sr_remaining = remaining_stock st,
                                 sr_entered_low = entered_low_stock st\<rparr>, w3))))))"
    by (auto split: option.split intro!: and_then_ok)
qed

lemma record_sale_Inl: "record_sale E sid pid q who w = (Inl e, w') \<Longrightarrow> work w' = work w"
  unfolding record_sale_def by (rule begin_nested_Inl)

lemma record_sale_Inr:
  assumes "world_ok w" "0 \<le> q" "record_sale E sid pid q who w = (Inr r, w')"
  obtains p i where "product_by_id pid (work w) = Some p" "p_shop_id p = sid"
    "get_by_product_id pid (work w) = Some i" "q \<le> i_quantity i"
    "s_product_id (sr_sale r) = pid" "s_shop_id (sr_sale r) = sid" "s_quantity (sr_sale r) = q"
    "s_unit_price (sr_sale r) = p_price p" "s_recorded_by (sr_sale r) = who"
    "s_created (sr_sale r) = now E"
    "sr_remaining r = i_quantity i - q"
    "sr_entered_low r \<longleftrightarrow> i_threshold i < i_quantity i \<and> i_quantity i - q \<le> i_threshold i"
    "work w' = (work w)\<lparr>inventory := map (\<lambda>j. if i_product_id j = pid
        then i\<lparr>i_quantity := i_quantity i - q\<rparr> else j) (inventory (work w)),
      sales := sales (work w) @ [sr_sale r]\<rparr>"
    "durable w' = durable w" "tasks w' = tasks w"
proof -
  from assms(3) obtain p where p: "product_by_id pid (work w) = Some p" "p_shop_id p = sid"
    by (auto simp: record_sale_def begin_nested_def split: option.splits prod.splits sum.splits if_splits)
  from assms(3) p obtain st w1 where d: "deduct_stock pid q False w = (Inr st, w1)"
    by (auto simp: record_sale_def begin_nested_def and_then_def
        split: prod.splits sum.splits if_splits)
  then obtain i where i: "get_by_product_id pid (work w) = Some i" "q \<le> i_quantity i"
    by (auto simp: deduct_stock_def is_insufficient_stock_def split: option.splits if_splits)
  note ds = deduct_succeeds [OF assms(1) i(1) assms(2) i(2), of False]
  obtain u w2 where u: "next_uuid E w1 = (u, w2)" by fastforce
  then have w2: "work w2 = work w1" "durable w2 = durable w1" "tasks w2 = tasks w1"
    using next_simps(1-3) by (metis snd_conv)+
  let ?sale = "\<lparr>s_id = u, s_shop_id = sid, s_product_id = pid, s_quantity = q,
                s_unit_price = p_price p, s_recorded_by = who, s_created = now E\<rparr>"
  have r: "insert_sale ?sale w2 = (Inr (), w')" "sr_sale r = ?sale"
      "sr_remaining r = remaining_stock st" "sr_entered_low r = entered_low_stock st"
    using assms(3) p d u
    by (auto simp: record_sale_def begin_nested_def and_then_def Let_def
        split: prod.splits sum.splits)
  then have "w' = w2\<lparr>work := (work w2)\<lparr>sales := sales (work w2) @ [?sale]\<rparr>\<rparr>"
    by (auto simp: insert_sale_def elim!: execute_cases)
  with ds d w2 r show thesis
    by (intro that [OF p i]) auto
qed

text \<open>Every way a sale is refused.\<close>

lemma record_sale_errors:
  assumes "world_ok w" "0 \<le> q" "record_sale E sid pid q who w = (Inl e, w')"
  shows "e \<in> {product_not_found pid, stock_not_found pid, DataError, IntegrityError,
      ResourceConflictException ''Product does not belong to the specified shop.''} \<or>
    (\<exists>n. stock w pid = Some n \<and> n < q \<and> e = InsufficientStockException (uuid_str pid) q n)"
proof (cases "product_by_id pid (work w)")
  case None
  with assms(3) show ?thesis by (auto simp: record_sale_def begin_nested_def)
next
  case (Some p)
  show ?thesis
  proof (cases "p_shop_id p = sid \<and> is_ok (fst (deduct_stock pid q False w))")
    case True
    then obtain st w1 where "deduct_stock pid q False w = (Inr st, w1)"
      by (metis eq_fst_iff is_ok_iff)
    with True Some assms(3) show ?thesis
      by (auto simp: record_sale_def begin_nested_def and_then_def Let_def insert_sale_def
          execute_def split: prod.splits sum.splits if_splits)
  next
    case False
    show ?thesis
    proof (cases "p_shop_id p = sid")
      case True
      with False obtain e' w1 where d: "deduct_stock pid q False w = (Inl e', w1)"
        by (metis is_ok_simps(1) old.sum.exhaust prod.collapse)
      with True Some assms(3) have "e = e'" by (auto simp: record_sale_def begin_nested_def)
      with deduct_fails [OF assms(1,2) d] show ?thesis by auto
    qed (use Some assms(3) in \<open>auto simp: record_sale_def begin_nested_def\<close>)
  qed
qed

lemma stock_sales_update:
  assumes "get_by_product_id pid d = Some i"
  shows "get_by_product_id k (d\<lparr>inventory := map (\<lambda>j. if i_product_id j = pid
      then i\<lparr>i_quantity := n\<rparr> else j) (inventory d), sales := ss\<rparr>)
    = (if k = pid then Some (i\<lparr>i_quantity := n\<rparr>) else get_by_product_id k d)"
proof -
  have "i_product_id i = pid" using assms look_ups(3) by blast
  then show ?thesis
    using get_by_product_id_update [OF assms, of "i\<lparr>i_quantity := n\<rparr>" k]
    by (simp add: get_by_product_id_def)
qed

lemma record_sale_levels:
  assumes "world_ok w" "0 < q" "record_sale E sid pid q who w = (Inr r, w')"
  shows "\<exists>n. stock w pid = Some n \<and> q \<le> n \<and> stock w' = (stock w)(pid \<mapsto> n - q) \<and>
    units_sold w' = (units_sold w)(pid := units_sold w pid + q)"
proof -
  have "0 \<le> q" using assms(2) by simp
  obtain i where
    i: "get_by_product_id pid (work w) = Some i" "q \<le> i_quantity i" and
    w': "work w' = (work w)\<lparr>inventory := map (\<lambda>j. if i_product_id j = pid
        then i\<lparr>i_quantity := i_quantity i - q\<rparr> else j) (inventory (work w)),
      sales := sales (work w) @ [sr_sale r]\<rparr>" and
    s: "s_product_id (sr_sale r) = pid" "s_quantity (sr_sale r) = q"
    by (rule record_sale_Inr [OF assms(1) \<open>0 \<le> q\<close> assms(3)]) (rule that, assumption+)
  have "stock w' k = ((stock w)(pid \<mapsto> i_quantity i - q)) k" for k
    by (simp add: stock_def w' stock_sales_update [OF i(1)])
  then have "stock w' = (stock w)(pid \<mapsto> i_quantity i - q)" by (rule ext)
  moreover have "units_sold w' k = ((units_sold w)(pid := units_sold w pid + q)) k" for k
    using s by (simp add: units_sold_def w')
  then have "units_sold w' = (units_sold w)(pid := units_sold w pid + q)" by (rule ext)
  moreover note i
  ultimately show ?thesis by (intro exI [of _ "i_quantity i"]) (simp add: stock_def)
qed

interpretation till: stock_ledger world_ok stock "\<lambda>pid q. record_sale E sid pid q who" for E sid who
proof unfold_locales
  show "\<And>s k q r s'. world_ok s \<Longrightarrow> record_sale E sid k q who s = (r, s') \<Longrightarrow> world_ok s'"
    using record_sale_ok by (metis snd_conv)
  show "\<And>s k n. world_ok s \<Longrightarrow> stock s k = Some n \<Longrightarrow> 0 \<le> n" using stock_nonneg by blast
  show "\<And>s q k x s'. world_ok s \<Longrightarrow> 0 < q \<Longrightarrow> record_sale E sid k q who s = (Inr x, s') \<Longrightarrow>
      \<exists>n. stock s k = Some n \<and> q \<le> n \<and> stock s' = (stock s)(k \<mapsto> n - q)"
    using record_sale_levels by blast
  show "\<And>s q k e s'. world_ok s \<Longrightarrow> 0 < q \<Longrightarrow> record_sale E sid k q who s = (Inl e, s') \<Longrightarrow>
      stock s' = stock s"
    using record_sale_Inl by (metis stock_def ext)
qed

section \<open>A sequence of sale requests\<close>

text \<open>Requests for units of products, each served after the other; the recorded ones.\<close>

fun sell_all ::
  "'z db_env_scheme \<Rightarrow> uuid \<Rightarrow> string \<Rightarrow> (uuid \<times> int) list \<Rightarrow> world \<Rightarrow> (uuid \<times> int) list \<times> world" where
  "sell_all E sid who [] w = ([], w)"
| "sell_all E sid who ((pid, q) # rs) w =
     (case record_sale E sid pid q who w of
        (Inl e, w') \<Rightarrow> sell_all E sid who rs w'
      | (Inr x, w') \<Rightarrow> (let (gs, t) = sell_all E sid who rs w' in ((pid, q) # gs, t)))"

definition units_granted :: "uuid \<Rightarrow> (uuid \<times> int) list \<Rightarrow> int" where
  "units_granted pid rs = sum_list (map snd (filter (\<lambda>r. fst r = pid) rs))"

lemma sell_all_serve:
  "stock_ledger.serve (\<lambda>pid q. record_sale E sid pid q who) rs w = sell_all E sid who rs w"
proof (induction rs arbitrary: w)
  case (Cons r rs)
  then show ?case
    by (cases r) (simp add: till.serve.simps split: prod.split sum.split)
qed (simp add: till.serve.simps)

lemma units_of_granted: "till.units_of pid gs = units_granted pid gs"
  by (simp add: till.units_of_def units_granted_def)

lemmas sell_all_levels = till.no_oversell [unfolded sell_all_serve units_of_granted]

lemma sell_all_sold:
  assumes "world_ok w" "\<forall>r \<in> set rs. 0 < snd r" "sell_all E sid who rs w = (gs, w')"
  shows "units_sold w' pid = units_sold w pid + units_granted pid gs"
  using assms
proof (induction E sid who rs w arbitrary: gs w' rule: sell_all.induct)
  case (1 E sid who w)
  then show ?case by (simp add: units_granted_def)
next
  case (2 E sid who k q rs w)
  obtain r w1 where step: "record_sale E sid k q who w = (r, w1)" by fastforce
  have w1: "world_ok w1" using record_sale_ok [OF "2.prems"(1), of E sid k q who] step by simp
  show ?case
  proof (cases r)
    case (Inl e)
    then have "work w1 = work w" using record_sale_Inl step by blast
    with "2.IH"(1) [OF step [symmetric] Inl w1] "2.prems" step Inl show ?thesis
      by (simp add: units_sold_def)
  next
    case (Inr x)
    have "0 < q" using "2.prems" by simp
    from record_sale_levels [OF "2.prems"(1) this step [unfolded Inr]]
    have sold: "units_sold w1 = (units_sold w)(k := units_sold w k + q)" by blast
    obtain gs' where gs: "sell_all E sid who rs w1 = (gs', w')" "gs = (k, q) # gs'"
      using "2.prems" step Inr by (auto split: prod.splits)
    from "2.IH"(2) [OF step [symmetric] Inr w1 _ gs(1)] "2.prems" sold gs show ?thesis
      by (simp add: units_granted_def)
  qed
qed

section \<open>Days and sums\<close>

lemma div_eq_interval:
  assumes "0 < (b :: int)"
  shows "x div b = k \<longleftrightarrow> k * b \<le> x \<and> x < (k + 1) * b"
proof
  assume "x div b = k"
  then have "x = k * b + x mod b" by (metis div_mult_mod_eq)
  with pos_mod_bound [OF assms, of x] pos_mod_sign [OF assms, of x]
  show "k * b \<le> x \<and> x < (k + 1) * b" by (simp add: distrib_right)
next
  assume "k * b \<le> x \<and> x < (k + 1) * b"
  then show "x div b = k"
    by (intro int_div_pos_eq [of x b k "x - k * b"]) (auto simp: algebra_simps)
qed

lemma day_of_instant: "nairobi_date t = d \<longleftrightarrow> day_start d \<le> t \<and> t < day_start (d + 1)"
proof -
  have "0 < day_length" by (simp add: day_length_def)
  from div_eq_interval [OF this, of "t + nairobi_offset" "d - epoch_ordinal"] show ?thesis
    by (auto simp: nairobi_date_def day_start_def algebra_simps)
qed

lemma day_start_mono: "d \<le> d' \<Longrightarrow> day_start d \<le> day_start d'"
  by (simp add: day_start_def day_length_def)

lemma filter_split_sum:
  assumes "\<And>x. x \<in> set xs \<Longrightarrow> P x = (Q x \<or> R x)" "\<And>x. \<not> (Q x \<and> R x)"
  shows "sum_list (map f (filter P xs)) = sum_list (map f (filter Q xs)) + (sum_list (map f (filter R xs)) :: int)"
    "length (filter P xs) = length (filter Q xs) + length (filter R xs)"
  using assms by (induction xs) auto

text \<open>Sums over adjacent intervals add up: no sale is counted twice or lost between them.\<close>

lemma revenue_adjacent:
  assumes "t0 \<le> t1" "t1 \<le> t2"
  shows "rs_revenue (get_total_revenue_and_count sid t0 t2 d) =
      rs_revenue (get_total_revenue_and_count sid t0 t1 d) +
      rs_revenue (get_total_revenue_and_count sid t1 t2 d)"
    "rs_count (get_total_revenue_and_count sid t0 t2 d) =
      rs_count (get_total_revenue_and_count sid t0 t1 d) +
      rs_count (get_total_revenue_and_count sid t1 t2 d)"
  using assms
  by (auto simp: get_total_revenue_and_count_def sales_between_def Let_def intro!: filter_split_sum)

lemma first_ranked_nonempty:
  assumes "ms \<noteq> []" shows "first_ranked ms \<noteq> []"
proof -
  from assms obtain m where "m \<in> set ms" "snd m = Max (snd ` set ms)"
    by (metis (no_types, lifting) Max_in finite_imageI finite_set imageE image_is_empty set_empty)
  then have "m \<in> set (first_ranked ms)" by (simp add: first_ranked_def)
  then show ?thesis by auto
qed

lemma first_ranked_equal:
  "m \<in> set (first_ranked ms) \<Longrightarrow> m' \<in> set (first_ranked ms) \<Longrightarrow> snd m = snd m'"
  by (auto simp: first_ranked_def intro: antisym)

lemma low_stock_row_iff:
  "r \<in> set (get_products_with_low_stock sid d) \<longleftrightarrow>
     (\<exists>p \<in> set (products d). \<exists>i \<in> set (inventory d). p_shop_id p = sid \<and> i_product_id i = p_id p \<and>
        i_quantity i \<le> i_threshold i \<and>
        r = \<lparr>ls_id = p_id p, ls_name = p_name p, ls_quantity = i_quantity i,
             ls_threshold = i_threshold i\<rparr>)"
  by (fastforce simp: get_products_with_low_stock_def split: if_splits)

end
