(* ===== verification/RecordSale.thy ===== *)
theory RecordSale
  imports Primitives Sales
begin

text \<open>
  \<open>app/fsm/flows/record_sale.py\<close>: the steps that resolve a product, ask for a quantity that the
  stock covers, and record the sale. The low-stock alert is handed to the broker inside the
  step, before the conversation task commits.
\<close>

text \<open>The product chosen for the sale, copied into the session.\<close>

definition choose_product :: "scored_match \<Rightarrow> user_session \<Rightarrow> user_session" where
  "choose_product p =
     upd_ctx (\<lambda>c. c\<lparr>product_id := Some (sm_id p), product_name := Some (sm_name p),
                    product_price := Some (sm_price p)\<rparr>)"

definition sale_resolution ::
  "'z fsm_env_scheme \<Rightarrow> session_state \<Rightarrow> product_resolution \<Rightarrow> fsm_result step" where
  "sale_resolution E prev matches = (\<lambda>(s, w).
     (case pr_status matches of
        RS_EXACT_MATCH \<Rightarrow>
          (case pr_product matches of
             None \<Rightarrow> (Inl (CorruptedSessionError (phone s)), (s, w))
           | Some p \<Rightarrow>
               (let s1 = transition E S_RECORD_SALE_QTY (choose_product p s) in
                (Inr (build_result prev s1 MK_ASK_SALE_QUANTITY []), (s1, w))))
      | RS_AMBIGUOUS \<Rightarrow>
          (let s1 = transition E S_RECORD_SALE_PRODUCT_SELECTION
                      (upd_ctx (\<lambda>c. c\<lparr>product_candidates := pr_candidates matches\<rparr>) s) in
           (Inr (build_result prev s1 MK_PRODUCT_CHOICES
              [(''candidates'', PCands (pr_candidates matches))]), (s1, w)))
      | RS_NOT_FOUND \<Rightarrow> (Inr (build_result prev s MK_PRODUCT_NOT_FOUND []), (s, w))))"

definition handle_sale_product_name :: "'z fsm_env_scheme \<Rightarrow> string \<Rightarrow> fsm_result step" where
  "handle_sale_product_name E msg = (\<lambda>(s, w).
     and_then
       (get_db_session E (\<lambda>st.
          and_then (shop_of E st)
            (\<lambda>sid (s1, w1).
               on_db (find_products_by_fuzzy_name E sid msg default_match_limit)
                 (upd_ctx (\<lambda>c. c\<lparr>shop_id := Some sid\<rparr>) s1, w1))) (s, w))
       (sale_resolution E (sstate s)))"

definition handle_sale_product_selection :: "'z fsm_env_scheme \<Rightarrow> string \<Rightarrow> fsm_result step" where
  "handle_sale_product_selection E msg = (\<lambda>(s, w).
     (case resolve_product_choice s msg of
        Inl e \<Rightarrow> (Inl e, (s, w))
      | Inr p \<Rightarrow>
          (let s1 = transition E S_RECORD_SALE_QTY (choose_product p s);
               s2 = upd_ctx (\<lambda>c. c\<lparr>product_candidates := []\<rparr>) s1 in
           (Inr (build_result (sstate s) s2 MK_ASK_QUANTITY []), (s2, w)))))"

definition quantity_too_low :: exc where
  "quantity_too_low =
     InvalidInputError ''Please enter a quantity greater than 0.'' (Some MK_QUANTITY_TOO_LOW) []"

text \<open>
  The text of the error, which shows the inventory object itself, is never sent: the message is
  rendered from the key and the parameters.
\<close>

definition insufficient_stock :: "int \<Rightarrow> string \<Rightarrow> exc" where
  "insufficient_stock available nm =
     InvalidInputError ''Insufficient stock!'' (Some MK_INSUFFICIENT_STOCK)
       [(''available'', PInt available), (''product_name'', PStr nm)]"

definition handle_sale_product_qty :: "'z fsm_env_scheme \<Rightarrow> string \<Rightarrow> fsm_result step" where
  "handle_sale_product_qty E msg = (\<lambda>(s, w).
     (case parse_quantity msg of
        Inl e \<Rightarrow> (Inl e, (s, w))
      | Inr q \<Rightarrow>
          if q \<le> 0 then (Inl quantity_too_low, (s, w))
          else
            (case (product_id (ctx s), product_name (ctx s), product_price (ctx s)) of
               (Some pid, Some nm, Some pr) \<Rightarrow>
                 if nm = [] then (Inl (CorruptedSessionError (phone s)), (s, w))
                 else
                   and_then (get_db_session E (on_db (get_stock pid)) (s, w))
                     (\<lambda>available_stock (s1, w1).
                        if q > i_quantity available_stock
                        then (Inl (insufficient_stock (i_quantity available_stock) nm), (s1, w1))
                        else
                          (let s2 = transition E S_CONFIRM_SALE
                                      (upd_ctx (\<lambda>c. c\<lparr>product_qty := Some q\<rparr>) s1) in
                           (Inr (build_result (sstate s) s2 MK_CONFIRM_SALE
                              [(''product_name'', PStr nm), (''quantity'', PInt q),
                               (''total'', PMoney (pr * q))]), (s2, w1))))
             | _ \<Rightarrow> (Inl (CorruptedSessionError (phone s)), (s, w)))))"

definition persist_sale_db_with_session :: "'z fsm_env_scheme \<Rightarrow> sale_result step" where
  "persist_sale_db_with_session E = (\<lambda>(s, w).
     (case (shop_id (ctx s), product_id (ctx s), product_qty (ctx s)) of
        (Some sid, Some pid, Some q) \<Rightarrow> on_db (record_sale E sid pid q default_recorder) (s, w)
      | _ \<Rightarrow> (Inl (CorruptedSessionError (phone s)), (s, w))))"

definition record_sale_transaction :: "'z fsm_env_scheme \<Rightarrow> sale_result step" where
  "record_sale_transaction E = get_db_session E (persist_sale_db_with_session E)"

text \<open>The exceptions the confirmation turns into an answer.\<close>

fun sale_error_caught :: "exc \<Rightarrow> bool" where
  "sale_error_caught (InvalidInputError _ _ _) = True"
| "sale_error_caught (ResourceConflictException _) = True"
| "sale_error_caught (ResourceNotFoundException _ _) = True"
| "sale_error_caught _ = False"

definition handle_confirm_sale_product :: "'z fsm_env_scheme \<Rightarrow> string \<Rightarrow> fsm_result step" where
  "handle_confirm_sale_product E msg = (\<lambda>(s, w).
     (case parse_confirmation msg of
        Inl e \<Rightarrow> (Inl e, (s, w))
      | Inr False \<Rightarrow>
          (let s1 = clear_context_preserving_history E (transition E S_IDLE s) in
           (Inr (build_result (sstate s) s1 MK_SALE_CANCELLED []), (s1, w)))
      | Inr True \<Rightarrow>
          (case (product_id (ctx s), product_name (ctx s), product_qty (ctx s)) of
             (Some pid, Some nm, Some units) \<Rightarrow>
               if nm = [] then (Inl (CorruptedSessionError (phone s)), (s, w))
               else
                 (case record_sale_transaction E (s, w) of
                    (Inl e, st) \<Rightarrow>
                      (if sale_error_caught e
                       then (Inl (InvalidInputError (exc_message e) None []), st) else (Inl e, st))
                  | (Inr sale, (s1, w1)) \<Rightarrow>
                      (let s2 = clear_context_preserving_history E (transition E S_IDLE s1) in
                       and_then
                         (if sr_entered_low sale
                          then on_db (delay E (LowStockAlert (phone s2) (uuid_str pid)
                                                 (sr_remaining sale))) (s2, w1)
                          else (Inr (), (s2, w1)))
                         (\<lambda>_ (s3, w3).
                            (Inr (build_result (sstate s) s3 MK_SALE_RECORDED
                               [(''product_name'', PStr nm), (''quantity'', PInt units),
                                (''remaining_stock'', PInt (sr_remaining sale))]), (s3, w3)))))
           | _ \<Rightarrow> (Inl (CorruptedSessionError (phone s)), (s, w)))))"

declare choose_product_def [step_defs] sale_resolution_def [step_defs]
  handle_sale_product_name_def [step_defs] handle_sale_product_selection_def [step_defs]
  handle_sale_product_qty_def [step_defs] persist_sale_db_with_session_def [step_defs]
  record_sale_transaction_def [step_defs] handle_confirm_sale_product_def [step_defs]

end
