(* ===== verification/StockLookup.thy ===== *)
theory StockLookup
  imports Primitives Sales
begin

text \<open>
  \<open>app/fsm/flows/stock_lookup.py\<close> and \<open>app/fsm/flows/generate_report.py\<close>: the stock of a product,
  found by name or chosen from the candidates, and the request for the daily report.
\<close>

section \<open>Stock of a product\<close>

definition get_inventory :: "scored_match \<Rightarrow> (int \<times> string) step" where
  "get_inventory p st =
     and_then (on_db (get_stock (sm_id p)) st) (\<lambda>i st1. (Inr (i_quantity i, sm_name p), st1))"

definition stock_resolution ::
  "'z fsm_env_scheme \<Rightarrow> session_state \<Rightarrow> product_resolution \<Rightarrow> fsm_result step" where
  "stock_resolution E prev matches = (\<lambda>(s, w).
     (case pr_status matches of
        RS_NOT_FOUND \<Rightarrow>
          (let s1 = upd_ctx (\<lambda>c. c\<lparr>product_candidates := []\<rparr>) s in
           (Inr (build_result prev s1 MK_STOCK_NOT_FOUND []), (s1, w)))
      | RS_AMBIGUOUS \<Rightarrow>
          if pr_candidates matches = [] then (Inl (CorruptedSessionError (phone s)), (s, w))
          else
            (let s1 = transition E S_CHECK_STOCK_PRODUCT_SELECTION
                        (upd_ctx (\<lambda>c. c\<lparr>product_candidates := pr_candidates matches\<rparr>) s) in
             (Inr (build_result prev s1 MK_PRODUCT_CHOICES
                [(''candidates'', PCands (pr_candidates matches))]), (s1, w)))
      | RS_EXACT_MATCH \<Rightarrow>
          (case pr_product matches of
             None \<Rightarrow> (Inl (CorruptedSessionError (phone s)), (s, w))
           | Some p \<Rightarrow>
               and_then (get_inventory p (s, w))
                 (\<lambda>(q, nm) (s1, w1).
                    (let s2 = clear_context_preserving_history E (transition E S_IDLE s1) in
                     (Inr (build_result prev s2 MK_STOCK_REMAINING
                        [(''product_name'', PStr nm), (''quantity'', PInt q)]), (s2, w1)))))))"

definition handle_stock_name :: "'z fsm_env_scheme \<Rightarrow> string \<Rightarrow> fsm_result step" where
  "handle_stock_name E msg = (\<lambda>(s, w).
     (case parse_product_name msg of
        Inl e \<Rightarrow> (Inl e, (s, w))
      | Inr nm \<Rightarrow>
          get_db_session E (\<lambda>st.
            and_then (shop_of E st)
              (\<lambda>sid (s1, w1).
                 and_then
                   (on_db (find_products_by_fuzzy_name E sid nm default_match_limit)
                      (upd_ctx (\<lambda>c. c\<lparr>shop_id := Some sid\<rparr>) s1, w1))
                   (stock_resolution E (sstate s)))) (s, w)))"

definition handle_stock_product_selection :: "'z fsm_env_scheme \<Rightarrow> string \<Rightarrow> fsm_result step" where
  "handle_stock_product_selection E msg = (\<lambda>(s, w).
     (case resolve_product_choice s msg of
        Inl e \<Rightarrow> (Inl e, (s, w))
      | Inr p \<Rightarrow>
          (let s1 = upd_ctx (\<lambda>c. c\<lparr>product_id := Some (sm_id p), product_name := Some (sm_name p),
                                     product_price := Some (sm_price p)\<rparr>) s in
           and_then (get_db_session E (get_inventory p) (s1, w))
             (\<lambda>(q, nm) (s2, w2).
                (let s3 = clear_context_preserving_history E (transition E S_IDLE s2) in
                 (Inr (build_result (sstate s) s3 MK_STOCK_REMAINING
                    [(''product_name'', PStr nm), (''quantity'', PInt q)]), (s3, w2)))))))"

section \<open>The daily report\<close>

definition handle_daily_report :: "'z fsm_env_scheme \<Rightarrow> string \<Rightarrow> unit step" where
  "handle_daily_report E msg = (\<lambda>(s, w).
     and_then
       (case shop_id (ctx s) of
          Some sid \<Rightarrow> (Inr sid, (s, w))
        | None \<Rightarrow>
            get_db_session E (\<lambda>st.
              and_then (shop_of E st)
                (\<lambda>sid (s1, w1). (Inr sid, (upd_ctx (\<lambda>c. c\<lparr>shop_id := Some sid\<rparr>) s1, w1)))) (s, w))
       (\<lambda>sid (s1, w1).
          on_db (delay E (ReportTask \<lparr>rp_shop_id = sid, rp_recipient = phone s, rp_date = None\<rparr>))
            (s1, w1)))"

declare get_inventory_def [step_defs] stock_resolution_def [step_defs]
  handle_stock_name_def [step_defs] handle_stock_product_selection_def [step_defs]
  handle_daily_report_def [step_defs]

end
