(* ===== verification/SessionCodec.thy ===== *)
theory SessionCodec
  imports Errors PyUuid
begin

text \<open>
  \<open>encode_session\<close> and \<open>decode_session\<close> of \<open>app/fsm/fsm_utils.py\<close>: the JSON form of a session
  as the schemas of \<open>app/fsm/models.py\<close> print and validate it. A field with a default may be
  missing, an unknown field is ignored, a UUID is a string, a price a decimal string. Type
  coercions other than these (a number given as a string) count as validation errors.
\<close>

section \<open>Reading fields\<close>

definition required :: "string \<Rightarrow> (json \<Rightarrow> 'a option) \<Rightarrow> dict \<Rightarrow> 'a option" where
  "required k f d = (case map_of d k of None \<Rightarrow> None | Some j \<Rightarrow> f j)"

definition defaulted :: "string \<Rightarrow> 'a \<Rightarrow> (json \<Rightarrow> 'a option) \<Rightarrow> dict \<Rightarrow> 'a option" where
  "defaulted k x f d = (case map_of d k of None \<Rightarrow> Some x | Some j \<Rightarrow> f j)"

definition nullable :: "(json \<Rightarrow> 'a option) \<Rightarrow> json \<Rightarrow> 'a option option" where
  "nullable f j = (if j = JNull then Some None else map_option Some (f j))"

fun dec_obj :: "json \<Rightarrow> dict option" where
  "dec_obj (JObj d) = Some d"
| "dec_obj _ = None"

fun dec_str :: "json \<Rightarrow> string option" where
  "dec_str (JStr s) = Some s"
| "dec_str _ = None"

fun dec_uuid :: "json \<Rightarrow> uuid option" where
  "dec_uuid (JStr s) = parse_uuid s"
| "dec_uuid _ = None"

fun dec_money :: "json \<Rightarrow> int option" where
  "dec_money (JStr s) = Option.bind (parse_decimal s) to_cents"
| "dec_money (JInt n) = Some (n * 100)"
| "dec_money _ = None"

fun dec_int :: "json \<Rightarrow> int option" where
  "dec_int (JInt n) = Some n"
| "dec_int _ = None"

fun dec_num :: "json \<Rightarrow> rat option" where
  "dec_num (JNum r) = Some r"
| "dec_num (JInt n) = Some (of_int n)"
| "dec_num _ = None"

fun dec_time :: "json \<Rightarrow> time option" where
  "dec_time (JTime t) = Some t"
| "dec_time _ = None"

fun dec_list :: "(json \<Rightarrow> 'a option) \<Rightarrow> json \<Rightarrow> 'a list option" where
  "dec_list f (JArr js) = those (map f js)"
| "dec_list f _ = None"

definition enc_opt :: "('a \<Rightarrow> json) \<Rightarrow> 'a option \<Rightarrow> json" where
  "enc_opt f o' = (case o' of None \<Rightarrow> JNull | Some x \<Rightarrow> f x)"

definition enc_uuid :: "uuid \<Rightarrow> json" where
  "enc_uuid u = JStr (uuid_str u)"

definition enc_money :: "int \<Rightarrow> json" where
  "enc_money n = JStr (fmt_2f n)"

section \<open>The session\<close>

definition enc_match :: "scored_match \<Rightarrow> json" where
  "enc_match m =
     JObj [(''id'', enc_uuid (sm_id m)), (''shop_id'', enc_uuid (sm_shop_id m)),
           (''name'', JStr (sm_name m)), (''sku'', JStr (sm_sku m)),
           (''price'', enc_money (sm_price m)), (''similarity_score'', JNum (similarity_score m))]"

definition dec_match :: "json \<Rightarrow> scored_match option" where
  "dec_match j =
     (case dec_obj j of None \<Rightarrow> None | Some d \<Rightarrow>
     (case required ''id'' dec_uuid d of None \<Rightarrow> None | Some i \<Rightarrow>
     (case required ''shop_id'' dec_uuid d of None \<Rightarrow> None | Some s \<Rightarrow>
     (case required ''name'' dec_str d of None \<Rightarrow> None | Some n \<Rightarrow>
     (case required ''sku'' dec_str d of None \<Rightarrow> None | Some k \<Rightarrow>
     (case required ''price'' dec_money d of None \<Rightarrow> None | Some p \<Rightarrow>
     (case required ''similarity_score'' dec_num d of None \<Rightarrow> None | Some r \<Rightarrow>
        if 0 \<le> r \<and> r \<le> 1
        then Some \<lparr>sm_id = i, sm_shop_id = s, sm_name = n, sm_sku = k, sm_price = p,
                   similarity_score = r\<rparr>
        else None)))))))"

definition enc_prior :: "prior_call \<Rightarrow> json" where
  "enc_prior c =
     JObj [(''tool_name'', JStr (pc_tool_name c)), (''arguments'', JObj (pc_arguments c)),
           (''timestamp'', JTime (pc_timestamp c))]"

text \<open>A missing timestamp takes the time of the decoding, \<open>t0\<close>.\<close>

definition dec_prior :: "time \<Rightarrow> json \<Rightarrow> prior_call option" where
  "dec_prior t0 j =
     (case dec_obj j of None \<Rightarrow> None | Some d \<Rightarrow>
     (case required ''tool_name'' dec_str d of None \<Rightarrow> None | Some n \<Rightarrow>
     (case defaulted ''arguments'' [] dec_obj d of None \<Rightarrow> None | Some a \<Rightarrow>
     (case defaulted ''timestamp'' t0 dec_time d of None \<Rightarrow> None | Some t \<Rightarrow>
        Some \<lparr>pc_tool_name = n, pc_arguments = a, pc_timestamp = t\<rparr>))))"

definition enc_pending :: "pending_call \<Rightarrow> json" where
  "enc_pending c =
     JObj [(''tool_name'', JStr (pd_tool_name c)), (''arguments'', JObj (pd_arguments c)),
           (''candidates'', JArr (map enc_match (pd_candidates c)))]"

definition dec_pending :: "json \<Rightarrow> pending_call option" where
  "dec_pending j =
     (case dec_obj j of None \<Rightarrow> None | Some d \<Rightarrow>
     (case required ''tool_name'' dec_str d of None \<Rightarrow> None | Some n \<Rightarrow>
     (case defaulted ''arguments'' [] dec_obj d of None \<Rightarrow> None | Some a \<Rightarrow>
     (case defaulted ''candidates'' [] (dec_list dec_match) d of None \<Rightarrow> None | Some cs \<Rightarrow>
        Some \<lparr>pd_tool_name = n, pd_arguments = a, pd_candidates = cs\<rparr>))))"

definition enc_state :: "session_state \<Rightarrow> json" where
  "enc_state s = JStr (state_value s)"

definition dec_state :: "json \<Rightarrow> session_state option" where
  "dec_state j = Option.bind (dec_str j) state_of_value"

definition enc_context :: "session_context \<Rightarrow> json" where
  "enc_context c =
     JObj [(''shop_id'', enc_opt enc_uuid (shop_id c)),
           (''product_id'', enc_opt enc_uuid (product_id c)),
           (''product_name'', enc_opt JStr (product_name c)),
           (''product_price'', enc_opt enc_money (product_price c)),
           (''product_qty'', enc_opt JInt (product_qty c)),
           (''flow_started_at'', enc_opt JTime (flow_started_at c)),
           (''history'', JArr (map enc_state (history c))),
           (''error_count'', JInt (error_count c)),
           (''last_activity'', enc_opt JTime (last_activity c)),
           (''product_candidates'', JArr (map enc_match (product_candidates c))),
           (''last_analytics_call'', enc_opt enc_prior (last_analytics_call c)),
           (''pending_analytics_call'', enc_opt enc_pending (pending_analytics_call c))]"

definition dec_context :: "time \<Rightarrow> json \<Rightarrow> session_context option" where
  "dec_context t0 j =
     (case dec_obj j of None \<Rightarrow> None | Some d \<Rightarrow>
     (case defaulted ''shop_id'' None (nullable dec_uuid) d of None \<Rightarrow> None | Some sid \<Rightarrow>
     (case defaulted ''product_id'' None (nullable dec_uuid) d of None \<Rightarrow> None | Some pid \<Rightarrow>
     (case defaulted ''product_name'' None (nullable dec_str) d of None \<Rightarrow> None | Some pn \<Rightarrow>
     (case defaulted ''product_price'' None (nullable dec_money) d of None \<Rightarrow> None | Some pp \<Rightarrow>
     (case defaulted ''product_qty'' None (nullable dec_int) d of None \<Rightarrow> None | Some pq \<Rightarrow>
     (case defaulted ''flow_started_at'' None (nullable dec_time) d of None \<Rightarrow> None | Some fs \<Rightarrow>
     (case defaulted ''history'' [] (dec_list dec_state) d of None \<Rightarrow> None | Some h \<Rightarrow>
     (case defaulted ''error_count'' 0 dec_int d of None \<Rightarrow> None | Some ec \<Rightarrow>
     (case defaulted ''last_activity'' None (nullable dec_time) d of None \<Rightarrow> None | Some la \<Rightarrow>
     (case defaulted ''product_candidates'' [] (dec_list dec_match) d of None \<Rightarrow> None | Some cs \<Rightarrow>
     (case defaulted ''last_analytics_call'' None (nullable (dec_prior t0)) d of
        None \<Rightarrow> None | Some lc \<Rightarrow>
     (case defaulted ''pending_analytics_call'' None (nullable dec_pending) d of
        None \<Rightarrow> None | Some pc \<Rightarrow>
        Some \<lparr>shop_id = sid, product_id = pid, product_name = pn, product_price = pp,
              product_qty = pq, flow_started_at = fs, history = h, error_count = ec,
              last_activity = la, product_candidates = cs, last_analytics_call = lc,
              pending_analytics_call = pc\<rparr>)))))))))))))"

definition encode_session :: "user_session \<Rightarrow> json" where
  "encode_session s =
     JObj [(''phone'', JStr (phone s)), (''state'', enc_state (sstate s)),
           (''context'', enc_context (ctx s))]"

text \<open>\<open>None\<close> is pydantic's \<open>ValidationError\<close>.\<close>

definition decode_session :: "time \<Rightarrow> json \<Rightarrow> user_session option" where
  "decode_session t0 j =
     (case dec_obj j of None \<Rightarrow> None | Some d \<Rightarrow>
     (case required ''phone'' dec_str d of None \<Rightarrow> None | Some ph \<Rightarrow>
     (case required ''state'' dec_state d of None \<Rightarrow> None | Some st \<Rightarrow>
     (case required ''context'' (dec_context t0) d of None \<Rightarrow> None | Some c \<Rightarrow>
        Some \<lparr>phone = ph, sstate = st, ctx = c\<rparr>))))"

section \<open>Round trip\<close>

definition match_ok :: "scored_match \<Rightarrow> bool" where
  "match_ok m \<longleftrightarrow> 0 \<le> sm_price m \<and> 0 \<le> similarity_score m \<and> similarity_score m \<le> 1"

text \<open>Arguments without \<open>NaN\<close> and infinities, which the session's JSON prints as \<open>null\<close>.\<close>

fun finite_json :: "json \<Rightarrow> bool" and finite_items :: "json list \<Rightarrow> bool"
  and finite_members :: "dict \<Rightarrow> bool" where
  "finite_json (JNonFinite _) = False"
| "finite_json (JArr js) = finite_items js"
| "finite_json (JObj d) = finite_members d"
| "finite_json _ = True"
| "finite_items [] = True"
| "finite_items (j # js) = (finite_json j \<and> finite_items js)"
| "finite_members [] = True"
| "finite_members ((_, j) # d) = (finite_json j \<and> finite_members d)"

definition prior_ok :: "prior_call \<Rightarrow> bool" where
  "prior_ok c \<longleftrightarrow> finite_members (pc_arguments c)"

definition pending_ok :: "pending_call \<Rightarrow> bool" where
  "pending_ok c \<longleftrightarrow> list_all match_ok (pd_candidates c) \<and> finite_members (pd_arguments c)"

text \<open>The sessions that survive the round trip: amounts and scores are in range.\<close>

definition encodable :: "user_session \<Rightarrow> bool" where
  "encodable s \<longleftrightarrow>
     (case product_price (ctx s) of None \<Rightarrow> True | Some p \<Rightarrow> 0 \<le> p) \<and>
     list_all match_ok (product_candidates (ctx s)) \<and>
     (case last_analytics_call (ctx s) of None \<Rightarrow> True | Some c \<Rightarrow> prior_ok c) \<and>
     (case pending_analytics_call (ctx s) of None \<Rightarrow> True | Some c \<Rightarrow> pending_ok c)"

locale codec =
  fixes enc :: "'a \<Rightarrow> 'b" and dec :: "'b \<Rightarrow> 'a option" and valid :: "'a \<Rightarrow> bool"
  assumes dec_enc: "valid x \<Longrightarrow> dec (enc x) = Some x"
begin

lemma enc_inj: "valid x \<Longrightarrow> valid y \<Longrightarrow> enc x = enc y \<Longrightarrow> x = y"
  by (metis dec_enc option.inject)

lemma those_dec: "list_all valid xs \<Longrightarrow> those (map dec (map enc xs)) = Some xs"
  by (induction xs) (auto simp: dec_enc)

end

lemma dec_money_enc:
  assumes "0 \<le> n" shows "dec_money (enc_money n) = Some n"
proof -
  let ?m = "nat n"
  have "parse_decimal (str_nat (?m div 100) @ CHR ''.'' # two_digits (?m mod 100))
      = Some (DFin False ?m (- 2))"
    using parse_decimal_fixed [of "str_nat (?m div 100)" "two_digits (?m mod 100)"]
      str_nat_digits two_digits_digits digits_val_two_digits
    by (simp add: digits_val_append two_digits_def del: str_nat.simps)
  with assms show ?thesis by (simp add: enc_money_def fmt_2f_def signed_def Let_def)
qed

interpretation money: codec enc_money dec_money "\<lambda>n. 0 \<le> n"
  by unfold_locales (rule dec_money_enc)

interpretation uuid: codec enc_uuid dec_uuid "\<lambda>_. True"
  by unfold_locales (simp add: enc_uuid_def)

lemma field_simps_json:
  "required k f ((k, j) # d) = f j"
  "k \<noteq> k' \<Longrightarrow> required k f ((k', j) # d) = required k f d"
  "defaulted k x f ((k, j) # d) = f j"
  "k \<noteq> k' \<Longrightarrow> defaulted k x f ((k', j) # d) = defaulted k x f d"
  by (simp_all add: required_def defaulted_def)

interpretation product_match: codec enc_match dec_match match_ok
  by unfold_locales
     (simp add: enc_match_def dec_match_def match_ok_def field_simps_json uuid.dec_enc money.dec_enc)

interpretation state: codec enc_state dec_state "\<lambda>_. True"
  by unfold_locales (simp add: enc_state_def dec_state_def)

interpretation prior: codec enc_prior "dec_prior t0" prior_ok for t0
  by unfold_locales (simp add: enc_prior_def dec_prior_def field_simps_json)

interpretation pending: codec enc_pending dec_pending pending_ok
  by unfold_locales
     (simp add: enc_pending_def dec_pending_def pending_ok_def field_simps_json
        product_match.those_dec del: map_map)

lemma nullable_enc_opt:
  assumes "case x of None \<Rightarrow> True | Some y \<Rightarrow> f (e y) = Some y \<and> e y \<noteq> JNull"
  shows "nullable f (enc_opt e x) = Some x"
  using assms by (auto simp: nullable_def enc_opt_def split: option.splits)

lemma enc_not_null: "enc_uuid u \<noteq> JNull" "enc_money n \<noteq> JNull" "enc_prior p \<noteq> JNull"
  "enc_pending c \<noteq> JNull"
  by (simp_all add: enc_uuid_def enc_money_def enc_prior_def enc_pending_def)

lemma dec_context_enc:
  assumes "encodable s" shows "dec_context t0 (enc_context (ctx s)) = Some (ctx s)"
proof -
  have "those (map dec_state (map enc_state (history (ctx s)))) = Some (history (ctx s))"
    by (rule state.those_dec) (simp add: list_all_iff)
  moreover have "those (map dec_match (map enc_match (product_candidates (ctx s))))
      = Some (product_candidates (ctx s))"
    using assms by (intro product_match.those_dec) (simp add: encodable_def)
  moreover have "nullable dec_uuid (enc_opt enc_uuid u) = Some u" for u
    by (rule nullable_enc_opt) (simp add: uuid.dec_enc enc_not_null split: option.split)
  moreover have "nullable dec_str (enc_opt JStr u) = Some u"
    "nullable dec_int (enc_opt JInt n) = Some n" "nullable dec_time (enc_opt JTime t) = Some t" for u n t
    by (rule nullable_enc_opt, simp split: option.split)+
  moreover have "nullable dec_money (enc_opt enc_money (product_price (ctx s))) = Some (product_price (ctx s))"
    using assms
    by (intro nullable_enc_opt) (simp add: encodable_def dec_money_enc enc_not_null split: option.splits)
  moreover have "nullable (dec_prior t0) (enc_opt enc_prior (last_analytics_call (ctx s)))
      = Some (last_analytics_call (ctx s))"
    using assms
    by (intro nullable_enc_opt) (simp add: encodable_def prior.dec_enc enc_not_null split: option.splits)
  moreover have "nullable dec_pending (enc_opt enc_pending (pending_analytics_call (ctx s)))
      = Some (pending_analytics_call (ctx s))"
    using assms
    by (intro nullable_enc_opt) (simp add: encodable_def pending.dec_enc enc_not_null split: option.splits)
  ultimately show ?thesis
    by (simp add: dec_context_def enc_context_def field_simps_json del: map_map)
qed

interpretation session: codec encode_session "decode_session t0" encodable for t0
  by unfold_locales
     (simp add: encode_session_def decode_session_def field_simps_json dec_context_enc state.dec_enc)

end
