(* ===== verification/FlowContract.thy ===== *)
theory FlowContract
  imports AddProduct RecordSale StockLookup SessionCodec
begin

text \<open>
  What every step of a conversation guarantees. \<open>session_inv\<close> says which details of the flow a
  session carries in each state: the guards of the flows that raise \<open>CorruptedSessionError\<close> or
  answer that details were lost never fire on such a session. \<open>step_ok\<close> is the contract of a
  handler; the handlers of the three product flows are shown to meet it.
\<close>

section \<open>The invariant of a session\<close>

definition product_known :: "session_context \<Rightarrow> bool" where
  "product_known c \<longleftrightarrow>
     shop_id c \<noteq> None \<and> product_id c \<noteq> None \<and> product_name c \<noteq> None \<and>
     product_name c \<noteq> Some [] \<and> product_price c \<noteq> None"

definition price_known :: "session_context \<Rightarrow> bool" where
  "price_known c \<longleftrightarrow> (\<exists>p. product_price c = Some p \<and> 0 < p)"

definition fields_ok :: "session_state \<Rightarrow> session_context \<Rightarrow> bool" where
  "fields_ok st c =
     (case st of
        S_START_ADD_PRODUCT \<Rightarrow> False
      | S_REPORT_PENDING \<Rightarrow> False
      | S_ADD_PRODUCT_PRICE \<Rightarrow> product_name c \<noteq> None
      | S_ADD_PRODUCT_QTY \<Rightarrow> product_name c \<noteq> None \<and> price_known c
      | S_CONFIRM_ADD_PRODUCT \<Rightarrow>
          product_name c \<noteq> None \<and> price_known c \<and> (\<exists>q. product_qty c = Some q \<and> 0 \<le> q)
      | S_RECORD_SALE_PRODUCT_SELECTION \<Rightarrow>
          shop_id c \<noteq> None \<and> product_candidates c \<noteq> [] \<and>
          list_all (\<lambda>m. sm_name m \<noteq> []) (product_candidates c)
      | S_RECORD_SALE_QTY \<Rightarrow> product_known c
      | S_CONFIRM_SALE \<Rightarrow> product_known c \<and> (\<exists>q. product_qty c = Some q \<and> 0 < q)
      | S_CHECK_STOCK_PRODUCT_SELECTION \<Rightarrow> product_candidates c \<noteq> []
      | S_ANALYTICS_PRODUCT_SELECTION \<Rightarrow>
          pending_analytics_call c \<noteq> None \<and> product_candidates c \<noteq> []
      | _ \<Rightarrow> True)"

definition session_inv :: "user_session \<Rightarrow> bool" where
  "session_inv s \<longleftrightarrow> fields_ok (sstate s) (ctx s) \<and> encodable s \<and> 0 \<le> error_count (ctx s)"

text \<open>\<open>pg_trgm\<close>: an empty text has no trigrams, hence similarity 0 to every text.\<close>

definition trigram_law :: "'z db_env_scheme \<Rightarrow> bool" where
  "trigram_law E \<longleftrightarrow>
     (\<forall>q. similarity E [] q = 0) \<and> 0 < product_match_threshold (cfg E)"

section \<open>The contract of a handler\<close>

fun is_corrupted :: "exc \<Rightarrow> bool" where
  "is_corrupted (CorruptedSessionError _) = True"
| "is_corrupted _ = False"

definition service_error :: "exc \<Rightarrow> bool" where
  "service_error e \<longleftrightarrow> \<not> is_invalid_input e \<and> \<not> is_corrupted e"

definition step_ok :: "user_session \<Rightarrow> fsm_result res \<times> conv \<Rightarrow> bool" where
  "step_ok s out =
     (case out of (r, (s', w')) \<Rightarrow>
        world_ok w' \<and> phone s' = phone s \<and>
        (case r of
           Inr x \<Rightarrow> session_inv s' \<and> new_state x = sstate s' \<and> previous_state x = sstate s \<and>
                    (\<exists>h. history (ctx s') = history (ctx s) @ h)
         | Inl e \<Rightarrow> \<not> is_corrupted e \<and>
                    (is_invalid_input e \<longrightarrow> session_inv s' \<and> sstate s' = sstate s \<and>
                       history (ctx s') = history (ctx s) \<and>
                       error_count (ctx s') = error_count (ctx s))))"

lemma step_ok_Inr:
  "\<lbrakk>world_ok w'; phone s' = phone s; session_inv s'; new_state x = sstate s';
    previous_state x = sstate s; \<exists>h. history (ctx s') = history (ctx s) @ h\<rbrakk> \<Longrightarrow>
   step_ok s (Inr x, (s', w'))"
  by (simp add: step_ok_def)

lemma step_ok_service_error:
  "\<lbrakk>world_ok w'; phone s' = phone s; service_error e\<rbrakk> \<Longrightarrow> step_ok s (Inl e, (s', w'))"
  by (simp add: step_ok_def service_error_def)

lemma step_ok_refused:
  "\<lbrakk>world_ok w'; session_inv s; is_invalid_input e\<rbrakk> \<Longrightarrow> step_ok s (Inl e, (s, w'))"
  by (cases e) (simp_all add: step_ok_def)

section \<open>The exceptions of the services\<close>

lemma service_errors [simp]:
  "service_error IntegrityError" "service_error DataError" "service_error (ValidationError m)"
  "service_error (stock_not_found pid)" "service_error (product_not_found pid)"
  "service_error (ResourceNotFoundException a b)" "service_error (RuntimeError m)"
  "service_error (ResourceAlreadyExistsException a b c)" "service_error (ResourceConflictException m)"
  "service_error (InsufficientStockException p q n)" "service_error (OperationalError m)"
  "service_error DecimalInvalidOperation"
  by (simp_all add: service_error_def stock_not_found_def product_not_found_def)

lemma execute_errors: "execute d w = (Inl e, w') \<Longrightarrow> service_error e"
  by (auto simp: execute_def split: if_splits)

lemma get_shop_id_errors: "get_shop_id E ph w = (Inl e, w') \<Longrightarrow> service_error e"
  by (auto simp: get_shop_id_def and_then_Inl_iff insert_shop_def
      split: option.splits prod.splits dest: execute_errors)

lemma get_stock_errors: "get_stock pid w = (Inl e, w') \<Longrightarrow> service_error e"
  by (auto simp: get_stock_def split: option.splits)

lemma find_products_errors:
  assumes "find_products_by_fuzzy_name E sid q l w = (Inl e, w')"
  shows "service_error e"
proof -
  have "get_products_by_fuzzy_name E sid q l w = (Inl e', w1) \<Longrightarrow> service_error e'" for e' w1
    by (auto simp: get_products_by_fuzzy_name_def Let_def split: if_splits)
  moreover have "get_products_by_fuzzy_name E sid q l w = (Inl e, w')"
  proof (cases "get_products_by_fuzzy_name E sid q l w")
    case (Pair r w1)
    with assms show ?thesis
      by (cases r) (auto simp: find_products_by_fuzzy_name_def split: list.splits if_splits)
  qed
  ultimately show ?thesis by blast
qed

lemma finalize_errors: "finalize_inventory pid dty c w = (Inl e, w') \<Longrightarrow> service_error e"
  by (auto simp: finalize_inventory_def Let_def update_inventory_def dest: execute_errors
      split: option.splits prod.splits sum.splits if_splits)

lemma add_stock_errors: "add_stock E pid q c w = (Inl e, w') \<Longrightarrow> service_error e"
  by (auto simp: add_stock_def add_stock_row_def and_then_Inl_iff Let_def insert_inventory_def
      update_inventory_def dest: execute_errors finalize_errors
      split: option.splits prod.splits if_splits)

lemma create_product_errors: "create_product E p w = (Inl e, w') \<Longrightarrow> service_error e"
  by (auto simp: create_product_def except_integrity_def and_then_def Let_def insert_product_def
      dest: execute_errors split: prod.splits sum.splits if_splits)

lemma record_sale_service_errors:
  "record_sale E sid pid q who w = (Inl e, w') \<Longrightarrow> service_error e"
  by (auto simp: record_sale_def begin_nested_def and_then_def Let_def insert_sale_def deduct_stock_def
      dest: execute_errors finalize_errors split: prod.splits sum.splits option.splits if_splits)

lemma delay_errors: "delay E t w = (Inl e, w') \<Longrightarrow> service_error e"
  by (auto simp: delay_def split: if_splits)

lemma delay_ok: "delay E t w = (r, w') \<Longrightarrow> world_ok w \<Longrightarrow> world_ok w'"
  by (auto simp: delay_def split: if_splits)

lemma op_world_ok:
  "get_shop_id E ph w = (r1, w') \<Longrightarrow> world_ok w \<Longrightarrow> world_ok w'"
  "get_stock pid w = (r2, w') \<Longrightarrow> world_ok w \<Longrightarrow> world_ok w'"
  "create_product E p w = (r3, w') \<Longrightarrow> world_ok w \<Longrightarrow> world_ok w'"
  "add_stock E pid q c w = (r4, w') \<Longrightarrow> world_ok w \<Longrightarrow> world_ok w'"
  "record_sale E sid pid q who w = (r5, w') \<Longrightarrow> world_ok w \<Longrightarrow> world_ok w'"
  "find_products_by_fuzzy_name E sid nm l w = (r6, w') \<Longrightarrow> world_ok w \<Longrightarrow> world_ok w'"
  using shop_ops_ok(3) inventory_ops_ok(1,3) product_ops_ok(1) record_sale_ok fuzzy_frame(2)
  by (metis snd_conv)+

section \<open>What a fuzzy match brings into a session\<close>

definition good_match :: "scored_match \<Rightarrow> bool" where
  "good_match m \<longleftrightarrow> match_ok m \<and> sm_name m \<noteq> []"

lemma score_range:
  assumes "get_products_by_fuzzy_name E sid q l w = (Inr ms, w')" "m \<in> set ms"
  shows "0 \<le> similarity_score m" "similarity_score m \<le> 1"
  using assms by (auto simp: get_products_by_fuzzy_name_def Let_def to_match_def list_all_iff split: if_splits)

lemma fuzzy_good:
  assumes "get_products_by_fuzzy_name E sid q l w = (Inr ms, w')" "m \<in> set ms" "world_ok w"
    "trigram_law E"
  shows "good_match m"
proof -
  from assms(1,2) obtain p where p: "p \<in> set (products (work w))"
      "m = to_match (similarity E (p_name_lower p) (lower (strip q))) p"
      "product_match_threshold (cfg E) \<le> similarity E (p_name_lower p) (lower (strip q))"
    by (auto simp: get_products_by_fuzzy_name_def Let_def dest!: in_set_takeD split: if_splits)
  have "p_name p \<noteq> []"
    using p(3) assms(4) by (auto simp: trigram_law_def p_name_lower_def lower_def)
  moreover have "0 \<le> p_price p"
    using p(1) assms(3)
    by (auto simp: world_ok_def db_ok_def constraints_def product_constraints_def list_all_iff)
  ultimately show ?thesis
    using score_range [OF assms(1,2)] p(2) by (simp add: good_match_def match_ok_def to_match_def)
qed

lemma resolution_good:
  assumes "find_products_by_fuzzy_name E sid q l w = (Inr r, w')" "world_ok w" "trigram_law E"
  shows "case pr_status r of
      RS_EXACT_MATCH \<Rightarrow> \<exists>p. pr_product r = Some p \<and> good_match p
    | RS_AMBIGUOUS \<Rightarrow> pr_candidates r \<noteq> [] \<and> list_all good_match (pr_candidates r)
    | RS_NOT_FOUND \<Rightarrow> True"
proof -
  obtain ms where ms: "get_products_by_fuzzy_name E sid q l w = (Inr ms, w)"
    using assms(1) fuzzy_frame(1) [of E sid q l w]
    by (cases "get_products_by_fuzzy_name E sid q l w")
       (auto simp: find_products_by_fuzzy_name_def and_then_def split: sum.splits)
  then have "list_all good_match ms" using fuzzy_good [OF ms _ assms(2,3)] by (simp add: list_all_iff)
  with ms assms(1) show ?thesis
    by (auto simp: find_products_by_fuzzy_name_def split: list.splits if_splits)
qed

end
