(* ===== verification/FlowSteps.thy ===== *)
theory FlowSteps
  imports FlowContract
begin

text \<open>
  The handlers of the add-product, record-sale and stock flows and the daily report meet the
  contract of \<open>FlowContract\<close>, each in the state the engine calls it in.
\<close>

section \<open>Sessions built from sessions\<close>

lemma encodable_steps [simp]:
  "encodable (transition E st s) = encodable s"
  "encodable (clear_context_preserving_history E s)"
  by (simp_all add: encodable_def)

lemma session_inv_cleared:
  "session_inv (clear_context_preserving_history E (transition E S_IDLE s))"
  by (simp add: session_inv_def fields_ok_def)

lemma session_inv_parts:
  "session_inv s \<Longrightarrow> encodable s" "session_inv s \<Longrightarrow> 0 \<le> error_count (ctx s)"
  "session_inv s \<Longrightarrow> fields_ok (sstate s) (ctx s)"
  by (simp_all add: session_inv_def)

lemma step_ok_to_idle:
  assumes "world_ok w'" "phone s1 = phone s" "history (ctx s1) = history (ctx s)"
  shows "step_ok s (Inr (build_result (sstate s)
      (clear_context_preserving_history E (transition E S_IDLE s1)) k ps),
    (clear_context_preserving_history E (transition E S_IDLE s1), w'))"
  using assms by (intro step_ok_Inr) (auto simp: session_inv_cleared build_result_def)

section \<open>Adding a product\<close>

lemma handle_name_ok:
  assumes "session_inv s" "world_ok w"
  shows "step_ok s (handle_name E msg (s, w))"
proof (cases "parse_product_name msg")
  case (Inl e)
  with assms parser_errors show ?thesis
    by (auto simp: handle_name_def intro!: step_ok_refused)
next
  case (Inr nm)
  with assms show ?thesis
    by (auto simp: handle_name_def Let_def build_result_def session_inv_def fields_ok_def
        encodable_def intro!: step_ok_Inr)
qed

lemma handle_price_ok:
  assumes "session_inv s" "world_ok w" "sstate s = S_ADD_PRODUCT_PRICE"
  shows "step_ok s (handle_price E msg (s, w))"
proof (cases "parse_price msg")
  case (Inl e)
  then have "is_invalid_input e \<or> service_error e"
    using parse_price_errors [of msg e] by (auto simp: service_error_def)
  with Inl assms show ?thesis
    by (auto simp: handle_price_def intro: step_ok_refused step_ok_service_error)
next
  case (Inr pr)
  then have "0 < pr" using parse_price_pos by blast
  with Inr assms show ?thesis
    by (auto simp: handle_price_def Let_def build_result_def session_inv_def fields_ok_def
        encodable_def price_known_def intro!: step_ok_Inr)
qed

lemma handle_qty_ok:
  assumes "session_inv s" "world_ok w" "sstate s = S_ADD_PRODUCT_QTY"
  shows "step_ok s (handle_qty E msg (s, w))"
proof -
  from assms(1,3) obtain nm pr where f: "product_name (ctx s) = Some nm"
      "product_price (ctx s) = Some pr" "0 < pr"
    by (auto simp: session_inv_def fields_ok_def price_known_def)
  show ?thesis
  proof (cases "parse_quantity msg")
    case (Inl e)
    with assms f parser_errors show ?thesis
      by (auto simp: handle_qty_def intro!: step_ok_refused)
  next
    case (Inr q)
    then have "0 \<le> q" by (rule parse_quantity_nonneg)
    with Inr assms f show ?thesis
      by (auto simp: handle_qty_def Let_def build_result_def session_inv_def fields_ok_def
          encodable_def price_known_def intro!: step_ok_Inr)
  qed
qed

text \<open>
  The outcome of writing the product: it leaves the session apart from the shop, and what it
  raises is never an answer to the user.
\<close>

lemma get_db_session_cases:
  assumes "get_db_session E block st = (r, (s', w'))"
  obtains w1 where "block st = (r, (s', w1))" "world_ok w1 \<Longrightarrow> world_ok w'"
  using assms by (auto simp: get_db_session_def split: prod.splits if_splits)

lemma session_shop_cases:
  assumes "session_shop E (s, w) = (r, (s', w'))" "world_ok w"
  obtains sid where "r = Inr sid" "s' = s \<or> s' = upd_ctx (\<lambda>c. c\<lparr>shop_id := Some sid\<rparr>) s" "world_ok w'"
    | e where "r = Inl e" "service_error e" "s' = s" "world_ok w'"
  using assms op_world_ok(1) [of E "phone s" w]
  by (auto simp: session_shop_def shop_of_def on_db_def and_then_def dest: get_shop_id_errors
      split: option.splits prod.splits sum.splits)

lemma create_with_stock_outcome:
  assumes "create_with_stock E sid (s, w) = (r, (s', w'))" "world_ok w"
    "product_name (ctx s) = Some nm" "product_price (ctx s) = Some pr" "0 < pr"
  shows "world_ok w' \<and> s' = s \<and> (\<forall>e. r = Inl e \<longrightarrow> service_error e)"
proof -
  obtain payload where p: "ProductCreate nm pr sid = Inr payload"
    using assms(5) by (simp add: ProductCreate_def)
  obtain rc wc where c: "create_product E payload w = (rc, wc)" by fastforce
  then have wc: "world_ok wc" using op_world_ok(3) assms(2) by blast
  show ?thesis
  proof (cases rc)
    case (Inl e)
    with assms p c wc create_product_errors [of E payload w e wc] show ?thesis
      by (auto simp: create_with_stock_def on_db_def)
  next
    case (Inr p')
    obtain ra wa where a: "add_stock E (p_id p') (the (product_qty (ctx s))) True wc = (ra, wa)"
      by fastforce
    then have wa: "world_ok wa" using op_world_ok(4) wc by blast
    show ?thesis
      using assms p c wc Inr a wa add_stock_errors [of E "p_id p'" _ True wc]
      by (cases ra; auto simp: create_with_stock_def on_db_def split: option.splits if_splits)
  qed
qed

lemma persist_product_outcome:
  assumes "persist_product_db E (s, w) = (r, (s', w'))" "world_ok w"
    "product_name (ctx s) = Some nm" "product_price (ctx s) = Some pr" "0 < pr"
  shows "world_ok w' \<and> phone s' = phone s \<and> history (ctx s') = history (ctx s) \<and>
    (\<forall>e. r = Inl e \<longrightarrow> service_error e)"
proof -
  from assms(1) obtain w1 where
    b: "and_then (session_shop E (s, w)) (create_with_stock E) = (r, (s', w1))"
      and w1: "world_ok w1 \<Longrightarrow> world_ok w'"
    unfolding persist_product_db_def by (elim get_db_session_cases) blast
  obtain r0 s0 w0 where s0: "session_shop E (s, w) = (r0, (s0, w0))" by (metis surj_pair)
  show ?thesis
    using s0 assms(2)
  proof (cases rule: session_shop_cases)
    case (1 sid)
    then have "product_name (ctx s0) = Some nm" "product_price (ctx s0) = Some pr"
        "phone s0 = phone s" "history (ctx s0) = history (ctx s)"
      using assms by auto
    with b s0 1 w1 create_with_stock_outcome [of E sid s0 w0 r s' w1 nm pr] assms(5)
    show ?thesis by auto
  next
    case (2 e)
    with b s0 w1 show ?thesis by auto
  qed
qed

lemma handle_confirm_ok:
  assumes "session_inv s" "world_ok w" "sstate s = S_CONFIRM_ADD_PRODUCT"
  shows "step_ok s (handle_confirm E msg (s, w))"
proof -
  from assms(1,3) obtain nm pr q where f: "product_name (ctx s) = Some nm"
      "product_price (ctx s) = Some pr" "0 < pr" "product_qty (ctx s) = Some q"
    by (auto simp: session_inv_def fields_ok_def price_known_def)
  show ?thesis
  proof (cases "parse_confirmation msg")
    case (Inl e)
    with assms parser_errors show ?thesis
      by (auto simp: handle_confirm_def intro!: step_ok_refused)
  next
    case (Inr b)
    show ?thesis
    proof (cases b)
      case False
      with Inr assms(2) show ?thesis
        by (auto simp: handle_confirm_def Let_def intro!: step_ok_to_idle)
    next
      case True
      obtain r s1 w1 where p: "persist_product_db E (s, w) = (r, (s1, w1))" by (metis surj_pair)
      note o = persist_product_outcome [OF p assms(2) f(1,2,3)]
      show ?thesis
      proof (cases r)
        case (Inl e)
        with Inr True f p o show ?thesis
          by (auto simp: handle_confirm_def intro!: step_ok_service_error)
      next
        case (Inr u)
        with \<open>parse_confirmation msg = Inr b\<close> True f p o show ?thesis
          by (auto simp: handle_confirm_def Let_def intro!: step_ok_to_idle)
      qed
    qed
  qed
qed

section \<open>Recording a sale\<close>

text \<open>The block that finds the shop and resolves a product name, used by both name handlers.\<close>

lemma shop_then_match:
  assumes "and_then (shop_of E (s, w))
      (\<lambda>sid (s1, w1). on_db (find_products_by_fuzzy_name E sid q l)
         (upd_ctx (\<lambda>c. c\<lparr>shop_id := Some sid\<rparr>) s1, w1)) = (r, (s', w'))"
    "world_ok w" "trigram_law E"
  obtains (error) e where "r = Inl e" "service_error e" "phone s' = phone s" "world_ok w'"
    | (found) sid m where "r = Inr m" "s' = upd_ctx (\<lambda>c. c\<lparr>shop_id := Some sid\<rparr>) s" "world_ok w'"
        "case pr_status m of
           RS_EXACT_MATCH \<Rightarrow> \<exists>p. pr_product m = Some p \<and> good_match p
         | RS_AMBIGUOUS \<Rightarrow> pr_candidates m \<noteq> [] \<and> list_all good_match (pr_candidates m)
         | RS_NOT_FOUND \<Rightarrow> True"
proof -
  obtain r1 w1 where g: "get_shop_id E (phone s) w = (r1, w1)" by fastforce
  then have w1: "world_ok w1" using op_world_ok(1) assms(2) by blast
  show thesis
  proof (cases r1)
    case (Inl e)
    with assms(1) g w1 get_shop_id_errors [of E "phone s" w e w1] show thesis
      by (intro error [of e]) (auto simp: shop_of_def on_db_def)
  next
    case (Inr sid)
    obtain r2 w2 where f: "find_products_by_fuzzy_name E sid q l w1 = (r2, w2)" by fastforce
    then have w2: "world_ok w2" using op_world_ok(6) w1 by blast
    have out: "r = r2" "s' = upd_ctx (\<lambda>c. c\<lparr>shop_id := Some sid\<rparr>) s" "w' = w2"
      using assms(1) g Inr f by (auto simp: shop_of_def on_db_def)
    show thesis
    proof (cases r2)
      case (Inl e)
      with f have "service_error e" using find_products_errors by blast
      with out w2 Inl show thesis by (intro error) auto
    next
      case (Inr m)
      with f have "find_products_by_fuzzy_name E sid q l w1 = (Inr m, w2)" by simp
      from resolution_good [OF this w1 assms(3)] out w2 Inr show thesis
        by (intro found [of m sid]) simp_all
    qed
  qed
qed

lemma good_match_parts: "good_match m \<Longrightarrow> 0 \<le> sm_price m \<and> sm_name m \<noteq> [] \<and> match_ok m"
  by (simp add: good_match_def match_ok_def)

lemma list_all_good:
  "list_all good_match ms \<Longrightarrow> list_all match_ok ms \<and> list_all (\<lambda>m. sm_name m \<noteq> []) ms"
  by (auto simp: list_all_iff good_match_def)

lemma handle_sale_product_name_ok:
  assumes "session_inv s" "world_ok w" "trigram_law E" "sstate s = S_RECORD_SALE_PRODUCT"
  shows "step_ok s (handle_sale_product_name E msg (s, w))"
proof -
  let ?blk = "\<lambda>st. and_then (shop_of E st)
      (\<lambda>sid (s1, w1). on_db (find_products_by_fuzzy_name E sid msg default_match_limit)
         (upd_ctx (\<lambda>c. c\<lparr>shop_id := Some sid\<rparr>) s1, w1))"
  obtain r s1 w2 where d: "get_db_session E ?blk (s, w) = (r, (s1, w2))" by (rule prod_cases3)
  then obtain w1 where b: "?blk (s, w) = (r, (s1, w1))" and w2: "world_ok w1 \<Longrightarrow> world_ok w2"
    by (elim get_db_session_cases) blast
  show ?thesis
    using b assms(2,3)
  proof (cases rule: shop_then_match)
    case (error e)
    with d w2 show ?thesis
      by (auto simp: handle_sale_product_name_def intro!: step_ok_service_error)
  next
    case (found sid m)
    have e: "encodable s" and c: "0 \<le> error_count (ctx s)" using assms(1) session_inv_parts by blast+
    have "step_ok s (sale_resolution E (sstate s) m (s1, w2))"
    proof (cases "pr_status m")
      case RS_NOT_FOUND
      with found w2 e c assms(4) show ?thesis
        by (auto simp: sale_resolution_def build_result_def session_inv_def fields_ok_def
            encodable_def intro!: step_ok_Inr)
    next
      case RS_EXACT_MATCH
      with found obtain p where "pr_product m = Some p" "good_match p" by auto
      with RS_EXACT_MATCH found w2 e c assms(4) good_match_parts [of p] show ?thesis
        by (auto simp: sale_resolution_def choose_product_def Let_def build_result_def
            session_inv_def fields_ok_def product_known_def encodable_def intro!: step_ok_Inr)
    next
      case RS_AMBIGUOUS
      with found w2 e c assms(4) list_all_good [of "pr_candidates m"] show ?thesis
        by (auto simp: sale_resolution_def Let_def build_result_def session_inv_def fields_ok_def
            encodable_def intro!: step_ok_Inr)
    qed
    with d found show ?thesis by (simp add: handle_sale_product_name_def)
  qed
qed

lemma handle_sale_product_selection_ok:
  assumes "session_inv s" "world_ok w" "sstate s = S_RECORD_SALE_PRODUCT_SELECTION"
  shows "step_ok s (handle_sale_product_selection E msg (s, w))"
proof (cases "resolve_product_choice s msg")
  case (Inl e)
  with assms resolve_product_choice_errors show ?thesis
    by (auto simp: handle_sale_product_selection_def intro!: step_ok_refused)
next
  case (Inr p)
  then have "p \<in> set (product_candidates (ctx s))" by (rule resolve_product_choice_Inr)
  with assms have "sm_name p \<noteq> []" "0 \<le> sm_price p" "shop_id (ctx s) \<noteq> None"
    by (auto simp: session_inv_def fields_ok_def encodable_def list_all_iff match_ok_def)
  with Inr assms show ?thesis
    by (auto simp: handle_sale_product_selection_def choose_product_def Let_def build_result_def
        session_inv_def fields_ok_def product_known_def encodable_def intro!: step_ok_Inr)
qed

lemma handle_sale_product_qty_ok:
  assumes "session_inv s" "world_ok w" "sstate s = S_RECORD_SALE_QTY"
  shows "step_ok s (handle_sale_product_qty E msg (s, w))"
proof -
  from assms(1,3) obtain sid pid nm pr where f: "shop_id (ctx s) = Some sid"
      "product_id (ctx s) = Some pid" "product_name (ctx s) = Some nm" "nm \<noteq> []"
      "product_price (ctx s) = Some pr"
    by (auto simp: session_inv_def fields_ok_def product_known_def)
  show ?thesis
  proof (cases "parse_quantity msg")
    case (Inl e)
    with assms parser_errors show ?thesis
      by (auto simp: handle_sale_product_qty_def intro!: step_ok_refused)
  next
    case (Inr q)
    show ?thesis
    proof (cases "q \<le> 0")
      case True
      with Inr assms show ?thesis
        by (auto simp: handle_sale_product_qty_def quantity_too_low_def intro!: step_ok_refused)
    next
      case False
      obtain r s1 w2 where d: "get_db_session E (on_db (get_stock pid)) (s, w) = (r, (s1, w2))"
        by (metis surj_pair)
      then obtain w1 where b: "on_db (get_stock pid) (s, w) = (r, (s1, w1))"
          and w2: "world_ok w1 \<Longrightarrow> world_ok w2"
        by (elim get_db_session_cases) blast
      have w2': "world_ok w2" "s1 = s"
        using b w2 assms(2) by (auto simp: on_db_def get_stock_def split: option.splits)
      show ?thesis
      proof (cases r)
        case (Inl e)
        with b have "service_error e" by (auto simp: on_db_def dest: get_stock_errors split: prod.splits)
        with Inl Inr False f d w2' show ?thesis
          by (auto simp: handle_sale_product_qty_def intro!: step_ok_service_error)
      next
        case (Inr i)
        show ?thesis
        proof (cases "q > i_quantity i")
          case True
          with Inr \<open>parse_quantity msg = Inr q\<close> False f d w2' assms(1) show ?thesis
            by (auto simp: handle_sale_product_qty_def insufficient_stock_def intro!: step_ok_refused)
        next
          case enough: False
          with Inr \<open>parse_quantity msg = Inr q\<close> False f d w2' assms show ?thesis
            by (auto simp: handle_sale_product_qty_def Let_def build_result_def session_inv_def
                fields_ok_def product_known_def encodable_def intro!: step_ok_Inr)
        qed
      qed
    qed
  qed
qed

lemma record_sale_transaction_cases:
  assumes "record_sale_transaction E (s, w) = (r, (s', w'))" "world_ok w"
    "shop_id (ctx s) = Some sid" "product_id (ctx s) = Some pid" "product_qty (ctx s) = Some q"
  shows "s' = s \<and> world_ok w' \<and> (\<forall>e. r = Inl e \<longrightarrow> service_error e)"
proof -
  from assms(1) obtain w1 where b: "persist_sale_db_with_session E (s, w) = (r, (s', w1))"
      and w1: "world_ok w1 \<Longrightarrow> world_ok w'"
    unfolding record_sale_transaction_def by (elim get_db_session_cases) blast
  obtain r0 w0 where rs: "record_sale E sid pid q default_recorder w = (r0, w0)" by fastforce
  then have "world_ok w0" using op_world_ok(5) assms(2) by blast
  with b rs assms(3-5) w1 record_sale_service_errors [of E sid pid q default_recorder w _ w0]
  show ?thesis by (auto simp: persist_sale_db_with_session_def on_db_def)
qed

lemma handle_confirm_sale_product_ok:
  assumes "session_inv s" "world_ok w" "sstate s = S_CONFIRM_SALE"
  shows "step_ok s (handle_confirm_sale_product E msg (s, w))"
proof -
  from assms(1,3) obtain sid pid nm q where f: "shop_id (ctx s) = Some sid"
      "product_id (ctx s) = Some pid" "product_name (ctx s) = Some nm" "nm \<noteq> []"
      "product_qty (ctx s) = Some q"
    by (auto simp: session_inv_def fields_ok_def product_known_def)
  show ?thesis
  proof (cases "parse_confirmation msg")
    case (Inl e)
    with assms parser_errors show ?thesis
      by (auto simp: handle_confirm_sale_product_def intro!: step_ok_refused)
  next
    case (Inr b)
    show ?thesis
    proof (cases b)
      case False
      with Inr assms(2) show ?thesis
        by (auto simp: handle_confirm_sale_product_def Let_def intro!: step_ok_to_idle)
    next
      case True
      obtain r s1 w1 where t: "record_sale_transaction E (s, w) = (r, (s1, w1))"
        by (rule prod_cases3)
      note o = record_sale_transaction_cases [OF t assms(2) f(1,2,5)]
      show ?thesis
      proof (cases r)
        case (Inl e)
        show ?thesis
        proof (cases "sale_error_caught e")
          case c: True
          have "step_ok s (Inl (InvalidInputError (exc_message e) None []), (s, w1))"
            using o assms(1) by (intro step_ok_refused) auto
          with c Inl Inr True f t o show ?thesis by (simp add: handle_confirm_sale_product_def)
        next
          case c: False
          with Inl Inr True f t o show ?thesis
            by (auto simp: handle_confirm_sale_product_def intro!: step_ok_service_error)
        qed
      next
        case s1: (Inr sale)
        let ?s2 = "clear_context_preserving_history E (transition E S_IDLE s1)"
        let ?t = "LowStockAlert (phone ?s2) (uuid_str pid) (sr_remaining sale)"
        obtain rd wd where d: "delay E ?t w1 = (rd, wd)" by fastforce
        then have wd: "world_ok wd" using delay_ok o by blast
        show ?thesis
        proof (cases "sr_entered_low sale")
          case low: True
          show ?thesis
          proof (cases rd)
            case (Inl e)
            with d have "service_error e" using delay_errors by blast
            with Inl low s1 Inr True f t o d wd show ?thesis
              by (auto simp: handle_confirm_sale_product_def Let_def on_db_def
                  intro!: step_ok_service_error)
          next
            case (Inr u)
            with low s1 \<open>parse_confirmation msg = Inr b\<close> True f t o d wd show ?thesis
              by (auto simp: handle_confirm_sale_product_def Let_def on_db_def intro!: step_ok_to_idle)
          qed
        next
          case low: False
          with s1 \<open>parse_confirmation msg = Inr b\<close> True f t o show ?thesis
            by (auto simp: handle_confirm_sale_product_def Let_def intro!: step_ok_to_idle)
        qed
      qed
    qed
  qed
qed

section \<open>Looking up stock\<close>

lemma get_inventory_cases:
  assumes "get_inventory p (s, w) = (r, (s', w'))" "world_ok w"
  shows "s' = s \<and> world_ok w' \<and> (\<forall>e. r = Inl e \<longrightarrow> service_error e)"
  using assms
  by (auto simp: get_inventory_def on_db_def get_stock_def split: option.splits)

lemma stock_exact_ok:
  assumes "world_ok w" "phone s1 = phone s" "history (ctx s1) = history (ctx s)"
  shows "step_ok s (and_then (get_inventory p (s1, w))
     (\<lambda>(q, nm) (s1, w1).
        (let s2 = clear_context_preserving_history E (transition E S_IDLE s1) in
         (Inr (build_result (sstate s) s2 MK_STOCK_REMAINING
            [(''product_name'', PStr nm), (''quantity'', PInt q)]), (s2, w1)))))"
proof -
  obtain r s2 w2 where g: "get_inventory p (s1, w) = (r, (s2, w2))" by (rule prod_cases3)
  note o = get_inventory_cases [OF g assms(1)]
  show ?thesis
  proof (cases r)
    case (Inl e)
    with g o assms show ?thesis by (auto intro!: step_ok_service_error)
  next
    case (Inr x)
    with g o assms show ?thesis by (auto simp: Let_def split: prod.split intro!: step_ok_to_idle)
  qed
qed

lemma step_ok_transaction:
  assumes "step_ok s (block st)" shows "step_ok s (get_db_session E block st)"
proof -
  obtain r s' w' where b: "block st = (r, (s', w'))" by (rule prod_cases3)
  with assms show ?thesis by (auto simp: get_db_session_def step_ok_def)
qed

lemma handle_stock_name_ok:
  assumes "session_inv s" "world_ok w" "trigram_law E" "sstate s = S_CHECK_STOCK_PRODUCT"
  shows "step_ok s (handle_stock_name E msg (s, w))"
proof (cases "parse_product_name msg")
  case (Inl e)
  with assms parser_errors show ?thesis
    by (auto simp: handle_stock_name_def intro!: step_ok_refused)
next
  case (Inr nm)
  let ?find = "\<lambda>sid (s1, w1). on_db (find_products_by_fuzzy_name E sid nm default_match_limit)
         (upd_ctx (\<lambda>c. c\<lparr>shop_id := Some sid\<rparr>) s1, w1)"
  let ?blk = "\<lambda>st. and_then (shop_of E st)
      (\<lambda>sid (s1, w1). and_then (?find sid (s1, w1)) (stock_resolution E (sstate s)))"
  obtain r s1 w1 where b: "and_then (shop_of E (s, w)) ?find = (r, (s1, w1))" by (rule prod_cases3)
  have assoc: "?blk (s, w) = and_then (and_then (shop_of E (s, w)) ?find) (stock_resolution E (sstate s))"
    by (auto simp: and_then_def split: prod.split sum.split)
  have e: "encodable s" and c: "0 \<le> error_count (ctx s)" using assms(1) session_inv_parts by blast+
  have "step_ok s (?blk (s, w))"
    using b assms(2,3)
  proof (cases rule: shop_then_match)
    case (error e)
    with b show ?thesis unfolding assoc by (auto intro!: step_ok_service_error)
  next
    case (found sid m)
    have "step_ok s (stock_resolution E (sstate s) m (s1, w1))"
    proof (cases "pr_status m")
      case RS_NOT_FOUND
      with found e c assms(4) show ?thesis
        by (auto simp: stock_resolution_def Let_def build_result_def session_inv_def fields_ok_def
            encodable_def intro!: step_ok_Inr)
    next
      case RS_EXACT_MATCH
      with found obtain p where p: "pr_product m = Some p" by auto
      from RS_EXACT_MATCH p found show ?thesis
        by (simp add: stock_resolution_def stock_exact_ok)
    next
      case RS_AMBIGUOUS
      with found e c assms(4) list_all_good [of "pr_candidates m"] show ?thesis
        by (auto simp: stock_resolution_def Let_def build_result_def session_inv_def fields_ok_def
            encodable_def intro!: step_ok_Inr)
    qed
    with b found show ?thesis unfolding assoc by simp
  qed
  with Inr show ?thesis by (auto simp: handle_stock_name_def intro: step_ok_transaction)
qed

lemma handle_stock_product_selection_ok:
  assumes "session_inv s" "world_ok w" "sstate s = S_CHECK_STOCK_PRODUCT_SELECTION"
  shows "step_ok s (handle_stock_product_selection E msg (s, w))"
proof (cases "resolve_product_choice s msg")
  case (Inl e)
  with assms resolve_product_choice_errors show ?thesis
    by (auto simp: handle_stock_product_selection_def intro!: step_ok_refused)
next
  case (Inr p)
  let ?s1 = "upd_ctx (\<lambda>c. c\<lparr>product_id := Some (sm_id p), product_name := Some (sm_name p),
                             product_price := Some (sm_price p)\<rparr>) s"
  obtain r s2 w2 where d: "get_db_session E (get_inventory p) (?s1, w) = (r, (s2, w2))"
    by (rule prod_cases3)
  then obtain w1 where b: "get_inventory p (?s1, w) = (r, (s2, w1))" and w2: "world_ok w1 \<Longrightarrow> world_ok w2"
    by (elim get_db_session_cases) blast
  note o = get_inventory_cases [OF b assms(2)]
  show ?thesis
  proof (cases r)
    case (Inl e)
    with Inr d o w2 show ?thesis
      by (auto simp: handle_stock_product_selection_def Let_def intro!: step_ok_service_error)
  next
    case (Inr x)
    with \<open>resolve_product_choice s msg = Inr p\<close> d o w2 show ?thesis
      by (auto simp: handle_stock_product_selection_def Let_def split: prod.split
          intro!: step_ok_to_idle)
  qed
qed

section \<open>Asking for the report\<close>

lemma handle_daily_report_outcome:
  assumes "handle_daily_report E msg (s, w) = (r, (s', w'))" "world_ok w"
  shows "world_ok w' \<and> phone s' = phone s \<and> (\<exists>i. s' = upd_ctx (\<lambda>c. c\<lparr>shop_id := i\<rparr>) s) \<and>
    (\<forall>e. r = Inl e \<longrightarrow> service_error e)"
proof -
  have "s = upd_ctx (\<lambda>c. c\<lparr>shop_id := shop_id (ctx s)\<rparr>) s" by (simp add: upd_ctx_def)
  then have keep: "\<exists>i. s = upd_ctx (\<lambda>c. c\<lparr>shop_id := i\<rparr>) s" by blast
  have fin: "world_ok w2 \<and> (\<forall>e. r2 = Inl e \<longrightarrow> service_error e)"
    if "delay E t w1 = (r2, w2)" "world_ok w1" for t w1 r2 w2
    using that delay_ok delay_errors by blast
  show ?thesis
  proof (cases "shop_id (ctx s)")
    case (Some sid)
    with assms fin keep show ?thesis
      by (auto simp: handle_daily_report_def on_db_def split: prod.splits)
  next
    case None
    obtain r1 w1 where g: "get_shop_id E (phone s) w = (r1, w1)" by fastforce
    then have w1: "world_ok w1" using op_world_ok(1) assms(2) by blast
    then have w2: "world_ok (if injected E then w1 else if b then commit w1 else rollback w1)" for b
      by simp
    show ?thesis
    proof (cases r1)
      case (Inl e)
      with None assms g w2 [of False] keep get_shop_id_errors [of E "phone s" w e w1] show ?thesis
        by (auto simp: handle_daily_report_def get_db_session_def shop_of_def on_db_def)
    next
      case (Inr sid)
      with None assms g w2 [of True] Inr fin show ?thesis
        by (cases "injected E")
           (auto simp: handle_daily_report_def get_db_session_def shop_of_def on_db_def
             split: prod.splits)
    qed
  qed
qed

end
