(* ===== verification/Calendar.thy ===== *)
theory Calendar
  imports Sales
begin

text \<open>
  Python's proleptic Gregorian calendar as the reporting periods use it: a date is its ordinal
  (1 is 0001-01-01), \<open>date(y, m, d)\<close>, \<open>.year\<close>, \<open>.month\<close> and \<open>.weekday()\<close> are functions of
  it, and ISO texts are read and printed. The months partition the days, which is what makes
  calendar periods contiguous.
\<close>

definition is_leap :: "int \<Rightarrow> bool" where
  "is_leap y \<longleftrightarrow> y mod 4 = 0 \<and> (y mod 100 \<noteq> 0 \<or> y mod 400 = 0)"

definition days_before_year :: "int \<Rightarrow> int" where
  "days_before_year y = (y - 1) * 365 + (y - 1) div 4 - (y - 1) div 100 + (y - 1) div 400"

definition days_before_month :: "bool \<Rightarrow> int \<Rightarrow> int" where
  "days_before_month leap m =
     (let l = (if leap then 1 else 0) in
      if m \<le> 1 then 0 else if m = 2 then 31 else if m = 3 then 59 + l else if m = 4 then 90 + l
      else if m = 5 then 120 + l else if m = 6 then 151 + l else if m = 7 then 181 + l
      else if m = 8 then 212 + l else if m = 9 then 243 + l else if m = 10 then 273 + l
      else if m = 11 then 304 + l else if m = 12 then 334 + l else 365 + l)"

text \<open>\<open>date(y, m, d).toordinal()\<close>.\<close>

definition ordinal :: "int \<Rightarrow> int \<Rightarrow> int \<Rightarrow> int" where
  "ordinal y m d = days_before_year y + days_before_month (is_leap y) m + d"

definition days_in_month :: "int \<Rightarrow> int \<Rightarrow> int" where
  "days_in_month y m = days_before_month (is_leap y) (m + 1) - days_before_month (is_leap y) m"

definition valid_date :: "int \<Rightarrow> int \<Rightarrow> int \<Rightarrow> bool" where
  "valid_date y m d \<longleftrightarrow>
     1 \<le> y \<and> y \<le> 9999 \<and> 1 \<le> m \<and> m \<le> 12 \<and> 1 \<le> d \<and> d \<le> days_in_month y m"

text \<open>The year of an ordinal, by cycles of 400, 100, 4 and 1 years.\<close>

definition year_of :: "int \<Rightarrow> int" where
  "year_of n =
     (let n0 = n - 1; n400 = n0 div 146097; r = n0 mod 146097;
          n100 = min 3 (r div 36524); r100 = r - n100 * 36524;
          n4 = r100 div 1461; r4 = r100 mod 1461;
          n1 = min 3 (r4 div 365)
      in n400 * 400 + n100 * 100 + n4 * 4 + n1 + 1)"

definition month_of :: "int \<Rightarrow> int" where
  "month_of n =
     (let y = year_of n; k = n - days_before_year y; b = days_before_month (is_leap y) in
      if k \<le> b 2 then 1 else if k \<le> b 3 then 2 else if k \<le> b 4 then 3 else if k \<le> b 5 then 4
      else if k \<le> b 6 then 5 else if k \<le> b 7 then 6 else if k \<le> b 8 then 7 else if k \<le> b 9 then 8
      else if k \<le> b 10 then 9 else if k \<le> b 11 then 10 else if k \<le> b 12 then 11 else 12)"

definition day_of :: "int \<Rightarrow> int" where
  "day_of n = n - ordinal (year_of n) (month_of n) 0"

text \<open>Monday is 0.\<close>

definition weekday :: "int \<Rightarrow> int" where
  "weekday n = (n + 6) mod 7"

definition month_start :: "int \<Rightarrow> int \<Rightarrow> int" where
  "month_start y m = ordinal y m 1"

definition next_month_start :: "int \<Rightarrow> int \<Rightarrow> int" where
  "next_month_start y m = (if m = 12 then ordinal (y + 1) 1 1 else ordinal y (m + 1) 1)"

definition year_start :: "int \<Rightarrow> int" where
  "year_start y = ordinal y 1 1"

section \<open>Years and months partition the days\<close>

lemma year_split:
  fixes a b c e :: int
  assumes "0 \<le> b" "b \<le> 3" "0 \<le> c" "c \<le> 24" "0 \<le> e" "e \<le> 3"
  shows "days_before_year (400 * a + 100 * b + 4 * c + e + 1) =
      146097 * a + 36524 * b + 1461 * c + 365 * e"
    "is_leap (400 * a + 100 * b + 4 * c + e + 1) \<longleftrightarrow> e = 3 \<and> (c \<noteq> 24 \<or> b = 3)"
proof -
  have d: "(400 * a + 100 * b + 4 * c + e) div 4 = 100 * a + 25 * b + c"
    "(400 * a + 100 * b + 4 * c + e) div 100 = 4 * a + b"
    "(400 * a + 100 * b + 4 * c + e) div 400 = a"
    using assms by (simp_all add: div_eq_interval)
  show "days_before_year (400 * a + 100 * b + 4 * c + e + 1) =
      146097 * a + 36524 * b + 1461 * c + 365 * e"
    using d by (simp add: days_before_year_def)
  let ?y = "400 * a + 100 * b + 4 * c + e + 1"
  have full: "x mod k = 0 \<longleftrightarrow> x = k" if "0 < x" "x \<le> k" for x k :: int
    using that by (cases "x = k") (auto simp: mod_pos_pos_trivial)
  have "?y mod 4 = (e + 1) mod 4"
    using mod_mult_self2 [of "e + 1" 4 "100 * a + 25 * b + c"] by (simp add: algebra_simps)
  moreover have "?y mod 100 = (4 * c + e + 1) mod 100"
    using mod_mult_self2 [of "4 * c + e + 1" 100 "4 * a + b"] by (simp add: algebra_simps)
  moreover have "?y mod 400 = (100 * b + 4 * c + e + 1) mod 400"
    using mod_mult_self2 [of "100 * b + 4 * c + e + 1" 400 a] by (simp add: algebra_simps)
  ultimately show "is_leap ?y \<longleftrightarrow> e = 3 \<and> (c \<noteq> 24 \<or> b = 3)"
    using assms full [of "e + 1" 4] full [of "4 * c + e + 1" 100] full [of "100 * b + 4 * c + e + 1" 400]
    unfolding is_leap_def by auto
qed

lemma year_decompose:
  obtains a b c e :: int where "y = 400 * a + 100 * b + 4 * c + e + 1"
    "0 \<le> b" "b \<le> 3" "0 \<le> c" "c \<le> 24" "0 \<le> e" "e \<le> 3"
proof -
  define a r where "a = (y - 1) div 400" and "r = (y - 1) mod 400"
  define b s where "b = r div 100" and "s = r mod 100"
  define c e where "c = s div 4" and "e = s mod 4"
  have "y - 1 = 400 * a + r" "r = 100 * b + s" "s = 4 * c + e"
    by (simp_all add: a_def r_def b_def s_def c_def e_def)
  then have "y = 400 * a + 100 * b + 4 * c + e + 1" by simp
  moreover have "0 \<le> r" "r < 400" "0 \<le> s" "s < 100" by (simp_all add: r_def s_def)
  then have "0 \<le> b" "b \<le> 3" "0 \<le> c" "c \<le> 24" "0 \<le> e" "e \<le> 3"
    unfolding b_def c_def e_def by presburger+
  ultimately show thesis using that by blast
qed

lemma year_length:
  "days_before_year (y + 1) = days_before_year y + (if is_leap y then 366 else 365)"
proof -
  obtain a b c e :: int where y: "y = 400 * a + 100 * b + 4 * c + e + 1"
    and r: "0 \<le> b" "b \<le> 3" "0 \<le> c" "c \<le> 24" "0 \<le> e" "e \<le> 3"
    by (rule year_decompose)
  note ys = year_split [OF r, of a, folded y]
  consider "e < 3" | "e = 3" "c < 24" | "e = 3" "c = 24" "b < 3" | "e = 3" "c = 24" "b = 3"
    using r by linarith
  then show ?thesis
  proof cases
    case 1
    have "y + 1 = 400 * a + 100 * b + 4 * c + (e + 1) + 1" using y by simp
    then show ?thesis using 1 r ys year_split(1) [of b c "e + 1" a] by simp
  next
    case 2
    have "y + 1 = 400 * a + 100 * b + 4 * (c + 1) + 0 + 1" using y 2 by simp
    then show ?thesis using 2 r ys year_split(1) [of b "c + 1" 0 a] by simp
  next
    case 3
    have "y + 1 = 400 * a + 100 * (b + 1) + 4 * 0 + 0 + 1" using y 3 by simp
    then show ?thesis using 3 r ys year_split(1) [of "b + 1" 0 0 a] by simp
  next
    case 4
    have "y + 1 = 400 * (a + 1) + 100 * 0 + 4 * 0 + 0 + 1" using y 4 by simp
    then show ?thesis using 4 r ys year_split(1) [of 0 0 0 "a + 1"] by simp
  qed
qed

lemma days_before_year_mono: "y \<le> y' \<Longrightarrow> days_before_year y \<le> days_before_year y'"
proof (induction "nat (y' - y)" arbitrary: y')
  case (Suc k)
  then have "days_before_year y \<le> days_before_year (y' - 1)" by simp
  also have "\<dots> \<le> days_before_year y'" using year_length [of "y' - 1"] by (simp split: if_splits)
  finally show ?case .
qed simp

lemma capped_div:
  fixes x k :: int
  assumes "0 \<le> x" "x \<le> 4 * k" "0 < k"
  defines "q \<equiv> min 3 (x div k)"
  shows "0 \<le> q" "q \<le> 3" "k * q \<le> x" "x < k * q + k \<or> q = 3 \<and> x \<le> k * q + k"
proof -
  define d where "d = x div k"
  have d: "k * d \<le> x" "x < k * d + k"
    using div_eq_interval [OF assms(3), of x d] by (simp_all add: d_def algebra_simps)
  have d0: "0 \<le> d" using assms by (simp add: d_def pos_imp_zdiv_nonneg_iff)
  have q: "q = min 3 d" by (simp add: q_def d_def)
  show "0 \<le> q" "q \<le> 3" using d0 q by auto
  have "k * q \<le> x \<and> (x < k * q + k \<or> q = 3 \<and> x \<le> k * q + k)"
  proof (cases "d \<le> 3")
    case True
    then show ?thesis using d q by simp
  next
    case False
    then have "k * 4 \<le> k * d" using assms(3) by (intro mult_left_mono) auto
    with d(1) have "k * 4 \<le> x" by linarith
    moreover have "q = 3" using False q by simp
    ultimately show ?thesis using d assms(2,3) by simp
  qed
  then show "k * q \<le> x" "x < k * q + k \<or> q = 3 \<and> x \<le> k * q + k" by blast+
qed

lemma year_of_span: "days_before_year (year_of n) < n \<and> n \<le> days_before_year (year_of n + 1)"
proof -
  define n0 a r where "n0 = n - 1" and "a = n0 div 146097" and "r = n0 mod 146097"
  define b where "b = min 3 (r div 36524)"
  define s where "s = r - b * 36524"
  define c t where "c = s div 1461" and "t = s mod 1461"
  define e where "e = min 3 (t div 365)"
  have r: "0 \<le> r" "r < 146097" by (simp_all add: r_def)
  have b: "0 \<le> b" "b \<le> 3" and s: "0 \<le> s" "s < 36524 \<or> b = 3 \<and> s \<le> 36524"
    using capped_div [of r 36524] r by (auto simp: b_def s_def)
  then have "s \<le> 36524" by auto
  then have c: "0 \<le> c" "c \<le> 24"
    using zdiv_mono1 [of s 36524 1461] s(1) by (simp_all add: c_def pos_imp_zdiv_nonneg_iff)
  have t: "0 \<le> t" "t < 1461" by (simp_all add: t_def)
  have e: "0 \<le> e" "e \<le> 3" and te: "365 * e \<le> t" "t < 365 * e + 365 \<or> e = 3 \<and> t \<le> 365 * e + 365"
    using capped_div [of t 365] t by (auto simp: e_def)
  have y: "year_of n = 400 * a + 100 * b + 4 * c + e + 1"
    by (simp add: year_of_def Let_def n0_def a_def r_def b_def s_def c_def t_def e_def algebra_simps)
  have n: "n = 146097 * a + 36524 * b + 1461 * c + t + 1"
  proof -
    have "n0 = 146097 * a + r" "r = 36524 * b + s" "s = 1461 * c + t"
      by (simp_all add: a_def r_def s_def c_def t_def)
    then show ?thesis by (simp add: n0_def)
  qed
  note ys = year_split [OF b c e, of a, folded y]
  have "t \<le> 365 * e + (if is_leap (year_of n) then 365 else 364)"
  proof (cases "e = 3 \<and> t = 365 * e + 365")
    case True
    then have t1460: "t = 1460" by simp
    have "c \<noteq> 24 \<or> b = 3"
    proof (rule ccontr)
      assume "\<not> (c \<noteq> 24 \<or> b = 3)"
      then have "s < 36524" "c = 24" using s by auto
      moreover have "s = 1461 * c + t" by (simp add: c_def t_def)
      ultimately show False using t1460 by simp
    qed
    with True ys(2) show ?thesis by simp
  qed (use te in auto)
  with ys(1) year_length [of "year_of n"] n te show ?thesis by (auto split: if_splits)
qed

lemma year_of_unique:
  assumes "days_before_year y < n" "n \<le> days_before_year (y + 1)" shows "year_of n = y"
proof (rule ccontr)
  assume "year_of n \<noteq> y"
  then consider "year_of n + 1 \<le> y" | "y + 1 \<le> year_of n" by linarith
  then show False
    using assms year_of_span [of n] days_before_year_mono by cases fastforce+
qed

lemma month_span_year:
  assumes "1 \<le> m" "m \<le> 12"
  shows "days_before_year y < month_start y m" "next_month_start y m \<le> days_before_year (y + 1) + 1"
  using assms year_length [of y]
  by (auto simp: month_start_def next_month_start_def ordinal_def days_before_month_def Let_def)

lemma month_of_range: "1 \<le> month_of n \<and> month_of n \<le> 12"
  by (auto simp: month_of_def Let_def)

lemma month_of_span:
  "month_start (year_of n) (month_of n) \<le> n \<and> n < next_month_start (year_of n) (month_of n)"
  using year_of_span [of n] year_length [of "year_of n"]
  by (simp add: month_of_def month_start_def next_month_start_def ordinal_def days_before_month_def
      Let_def split: if_splits)

lemma month_of_unique:
  assumes "1 \<le> m" "m \<le> 12" "month_start y m \<le> n" "n < next_month_start y m"
  shows "year_of n = y \<and> month_of n = m"
proof -
  have y: "year_of n = y" using assms month_span_year [OF assms(1,2), of y]
    by (intro year_of_unique) auto
  have "m = 1 \<or> m = 2 \<or> m = 3 \<or> m = 4 \<or> m = 5 \<or> m = 6 \<or> m = 7 \<or> m = 8 \<or> m = 9 \<or> m = 10 \<or>
      m = 11 \<or> m = 12" using assms(1,2) by presburger
  with assms(3,4) y year_length [of y] show ?thesis
    by (auto simp: month_of_def month_start_def next_month_start_def ordinal_def
        days_before_month_def Let_def split: if_splits)
qed

text \<open>The ordinal and the fields of a date determine each other.\<close>

theorem ordinal_fields: "ordinal (year_of n) (month_of n) (day_of n) = n"
  by (simp add: day_of_def ordinal_def)

theorem fields_ordinal:
  assumes "valid_date y m d"
  shows "year_of (ordinal y m d) = y \<and> month_of (ordinal y m d) = m \<and> day_of (ordinal y m d) = d"
proof -
  from assms have r: "1 \<le> m" "m \<le> 12" "1 \<le> d" "d \<le> days_in_month y m"
    by (simp_all add: valid_date_def)
  have "month_start y m \<le> ordinal y m d" using r by (simp add: month_start_def ordinal_def)
  moreover have "ordinal y m d < next_month_start y m"
    using r year_length [of y]
    by (auto simp: next_month_start_def ordinal_def days_in_month_def days_before_month_def Let_def
        split: if_splits)
  ultimately have "year_of (ordinal y m d) = y \<and> month_of (ordinal y m d) = m"
    by (rule month_of_unique [OF r(1,2)])
  then show ?thesis by (simp add: day_of_def) (simp add: ordinal_def)
qed

section \<open>ISO dates\<close>

definition pad :: "nat \<Rightarrow> int \<Rightarrow> string" where
  "pad k n = (let s = str_nat (nat n) in replicate (k - length s) (CHR ''0'') @ s)"

definition iso_date :: "int \<Rightarrow> string" where
  "iso_date n = pad 4 (year_of n) @ ''-'' @ pad 2 (month_of n) @ ''-'' @ pad 2 (day_of n)"

definition parse_digits :: "string \<Rightarrow> int option" where
  "parse_digits s = (if list_all is_dig s then Some (int (digits_val (map dig_val s))) else None)"

text \<open>The form \<open>YYYY-MM-DD\<close>; other forms that the schemas accept are not modelled.\<close>

definition parse_iso_date :: "string \<Rightarrow> int option" where
  "parse_iso_date s =
     (if length s = 10 \<and> s ! 4 = CHR ''-'' \<and> s ! 7 = CHR ''-''
      then case (parse_digits (take 4 s), parse_digits (take 2 (drop 5 s)), parse_digits (drop 8 s)) of
             (Some y, Some m, Some d) \<Rightarrow> if valid_date y m d then Some (ordinal y m d) else None
           | _ \<Rightarrow> None
      else None)"

lemma digits_val_zeros: "digits_val (map dig_val (replicate k (CHR ''0'') @ s)) = digits_val (map dig_val s)"
proof (induction k)
  case (Suc k)
  then show ?case
    using digits_val_append [of "[dig_val (CHR ''0'')]" "map dig_val (replicate k (CHR ''0'') @ s)"]
    by (simp add: digits_val_def dig_val_def)
qed simp

lemma pad_props:
  assumes "0 \<le> n" "n < 10 ^ k" "0 < k"
  shows "length (pad k n) = k" "parse_digits (pad k n) = Some n"
proof -
  have "length (str_nat (nat n)) \<le> k"
    using assms by (intro length_str_nat_le) (auto simp: nat_less_iff)
  then show "length (pad k n) = k" by (simp add: pad_def Let_def)
  have "list_all is_dig (replicate j (CHR ''0''))" for j by (induction j) (auto simp: is_dig_def)
  then have "list_all is_dig (pad k n)"
    using str_nat_digits by (simp add: pad_def Let_def)
  then show "parse_digits (pad k n) = Some n"
    using assms digits_val_zeros by (simp add: parse_digits_def pad_def Let_def)
qed

theorem parse_iso_date_print:
  assumes "1 \<le> n" "n \<le> max_ordinal"
  shows "parse_iso_date (iso_date n) = Some n"
proof -
  let ?y = "year_of n" and ?m = "month_of n" and ?d = "day_of n"
  have y: "1 \<le> ?y"
  proof (rule ccontr)
    assume "\<not> 1 \<le> ?y"
    then have "?y + 1 \<le> 1" by simp
    from days_before_year_mono [OF this] year_of_span [of n] assms(1) show False
      by (simp add: days_before_year_def)
  qed
  have y': "?y \<le> 9999"
  proof (rule ccontr)
    assume "\<not> ?y \<le> 9999"
    then have "10000 \<le> ?y" by simp
    from days_before_year_mono [OF this] year_of_span [of n] assms(2) show False
      by (simp add: days_before_year_def max_ordinal_def)
  qed
  have d: "1 \<le> ?d" "?d \<le> days_in_month ?y ?m"
    using month_of_span [of n] month_of_range [of n] year_length [of ?y]
    by (auto simp: day_of_def month_start_def next_month_start_def ordinal_def days_in_month_def
        days_before_month_def Let_def split: if_splits)
  then have v: "valid_date ?y ?m ?d" using y y' month_of_range by (simp add: valid_date_def)
  have d31: "?d < 100"
    using d(2) month_of_range [of n]
    by (auto simp: days_in_month_def days_before_month_def Let_def split: if_splits)
  note p = pad_props [of ?y 4] pad_props [of ?m 2] pad_props [of ?d 2]
  have l: "length (pad 4 ?y) = 4" "length (pad 2 ?m) = 2" "length (pad 2 ?d) = 2"
    using p y y' d d31 month_of_range [of n] by auto
  have v3: "parse_digits (pad 4 ?y) = Some ?y" "parse_digits (pad 2 ?m) = Some ?m"
    "parse_digits (pad 2 ?d) = Some ?d"
    using p y y' d d31 month_of_range [of n] by auto
  have "parse_iso_date (A @ ''-'' @ B @ ''-'' @ C) = Some n"
    if "length A = 4" "length B = 2" "length C = 2" "parse_digits A = Some ?y"
      "parse_digits B = Some ?m" "parse_digits C = Some ?d" for A B C
    using that v ordinal_fields [of n]
    by (simp add: parse_iso_date_def nth_append numeral_eq_Suc)
  then show ?thesis unfolding iso_date_def using l v3 by blast
qed

end
