(* ===== verification/AiErrors.thy ===== *)
theory AiErrors
  imports Errors PyUuid
begin

text \<open>
  \<open>app/ai/errors.py\<close> and \<open>app/ai/retry.py\<close>: the errors of the analytics layer, which of them a
  second model call may repair, and the feedback for that call. \<open>OtherError\<close> carries an
  exception of the rest of the program or of a library.
\<close>

datatype ai_error =
    ToolNotFoundError string
  | SchemaValidationError string "string list"     \<comment> \<open>message, messages of the field errors\<close>
  | InvalidDateRangeError string
  | ProductNotFoundError string
  | ProductResolutionFailedError string string
  | ProductAmbiguousError string "scored_match list"
  | UnsupportedOperationError string
  | InfrastructureError string
  | LLMProviderTimeoutError string
  | LLMProviderUnavailableError string
  | LLMProviderAPIError string "int option"
  | LLMResponseFormatError string
  | OtherError exc

definition quoted :: "string \<Rightarrow> string" where
  "quoted s = [CHR 0x27] @ s @ [CHR 0x27]"

fun ai_message :: "ai_error \<Rightarrow> string" where
  "ai_message (ToolNotFoundError t) =
     ''Tool '' @ quoted t @ '' is not registered in the AI tool surface.''"
| "ai_message (SchemaValidationError m es) = m"
| "ai_message (InvalidDateRangeError m) = m"
| "ai_message (ProductNotFoundError p) =
     ''Product with ID '' @ quoted p @ '' was not found for this shop.''"
| "ai_message (ProductResolutionFailedError t r) =
     ''Could not resolve product '' @ quoted t @ '': '' @ r"
| "ai_message (ProductAmbiguousError t cs) =
     ''Product '' @ quoted t @ '' is ambiguous with '' @ str_int (int (length cs)) @ '' candidates.''"
| "ai_message (UnsupportedOperationError p) =
     ''Operation '' @ quoted p @ '' is not supported by the AI tool surface.''"
| "ai_message (InfrastructureError m) = m"
| "ai_message (LLMProviderTimeoutError m) = m"
| "ai_message (LLMProviderUnavailableError m) = m"
| "ai_message (LLMProviderAPIError m c) = m"
| "ai_message (LLMResponseFormatError m) = m"
| "ai_message (OtherError e) = exc_message e"

text \<open>\<open>type(exc).__name__\<close>\<close>

fun exc_type_name :: "exc \<Rightarrow> string" where
  "exc_type_name (InvalidInputError _ _ _) = ''InvalidInputError''"
| "exc_type_name (CorruptedSessionError _) = ''CorruptedSessionError''"
| "exc_type_name (SessionStateMismatchError _) = ''SessionStateMismatchError''"
| "exc_type_name (ResourceNotFoundException _ _) = ''ResourceNotFoundException''"
| "exc_type_name (ResourceAlreadyExistsException _ _ _) = ''ResourceAlreadyExistsException''"
| "exc_type_name (ResourceConflictException _) = ''ResourceConflictException''"
| "exc_type_name (InsufficientStockException _ _ _) = ''InsufficientStockException''"
| "exc_type_name IntegrityError = ''IntegrityError''"
| "exc_type_name DataError = ''DBAPIError''"
| "exc_type_name DecimalInvalidOperation = ''InvalidOperation''"
| "exc_type_name (ValidationError _) = ''ValidationError''"
| "exc_type_name (ValueError _) = ''ValueError''"
| "exc_type_name (KeyError _) = ''KeyError''"
| "exc_type_name (TypeError _) = ''TypeError''"
| "exc_type_name (RuntimeError _) = ''RuntimeError''"
| "exc_type_name (OverflowError _) = ''OverflowError''"
| "exc_type_name (MessageDeliveryError _) = ''MessageDeliveryError''"
| "exc_type_name (ResponseError _) = ''ResponseError''"
| "exc_type_name (OperationalError _) = ''OperationalError''"
| "exc_type_name MissingGreenlet = ''MissingGreenlet''"
| "exc_type_name CeleryIgnore = ''Ignore''"

fun ai_type_name :: "ai_error \<Rightarrow> string" where
  "ai_type_name (ToolNotFoundError _) = ''ToolNotFoundError''"
| "ai_type_name (SchemaValidationError _ _) = ''SchemaValidationError''"
| "ai_type_name (InvalidDateRangeError _) = ''InvalidDateRangeError''"
| "ai_type_name (ProductNotFoundError _) = ''ProductNotFoundError''"
| "ai_type_name (ProductResolutionFailedError _ _) = ''ProductResolutionFailedError''"
| "ai_type_name (ProductAmbiguousError _ _) = ''ProductAmbiguousError''"
| "ai_type_name (UnsupportedOperationError _) = ''UnsupportedOperationError''"
| "ai_type_name (InfrastructureError _) = ''InfrastructureError''"
| "ai_type_name (LLMProviderTimeoutError _) = ''LLMProviderTimeoutError''"
| "ai_type_name (LLMProviderUnavailableError _) = ''LLMProviderUnavailableError''"
| "ai_type_name (LLMProviderAPIError _ _) = ''LLMProviderAPIError''"
| "ai_type_name (LLMResponseFormatError _) = ''LLMResponseFormatError''"
| "ai_type_name (OtherError e) = exc_type_name e"

fun is_domain_error :: "ai_error \<Rightarrow> bool" where
  "is_domain_error (InvalidDateRangeError _) = True"
| "is_domain_error (ProductNotFoundError _) = True"
| "is_domain_error (ProductResolutionFailedError _ _) = True"
| "is_domain_error (ProductAmbiguousError _ _) = True"
| "is_domain_error (UnsupportedOperationError _) = True"
| "is_domain_error _ = False"

section \<open>The retry policy\<close>

fun is_llm_retryable_error :: "ai_error \<Rightarrow> bool" where
  "is_llm_retryable_error (ToolNotFoundError _) = True"
| "is_llm_retryable_error (SchemaValidationError _ _) = True"
| "is_llm_retryable_error _ = False"

definition MAX_RETRIES :: nat where
  "MAX_RETRIES = 1"

definition can_retry :: "nat \<Rightarrow> ai_error \<Rightarrow> bool" where
  "can_retry current_attempt e =
     (if current_attempt \<ge> MAX_RETRIES then False else is_llm_retryable_error e)"

fun format_llm_feedback :: "ai_error \<Rightarrow> string" where
  "format_llm_feedback (ToolNotFoundError t) =
     ''Tool Call Error: Tool '' @ quoted t @ '' does not exist. '' @
     ''Please select a valid tool from the registered tool definitions.''"
| "format_llm_feedback (SchemaValidationError m es) =
     ''Tool Argument Error: The arguments provided were invalid: '' @ m @ ''. '' @
     ''Details: '' @ (if es = [] then m else str_join ''; '' es) @
     ''. Please adjust your call according to the tool'' @ [CHR 0x27] @ ''s JSON schema.''"
| "format_llm_feedback e = ''Tool Execution Error: '' @ ai_message e"

lemma retryable_not_domain: "is_llm_retryable_error e \<Longrightarrow> \<not> is_domain_error e"
  by (cases e) simp_all

lemma can_retry_once: "can_retry n e \<longleftrightarrow> n = 0 \<and> is_llm_retryable_error e"
  by (auto simp: can_retry_def MAX_RETRIES_def)

end
