(* ===== verification/Periods.thy ===== *)
theory Periods
  imports Calendar AiErrors
begin

text \<open>
  \<open>app/ai/contracts/period.py\<close> and \<open>app/ai/handlers/utils.py\<close>: a reporting period is a calendar
  unit around today or a range of dates; it is turned into a half-open interval of UTC instants,
  and so is the period before it.
\<close>

datatype period_type = PT_RELATIVE | PT_DATE_RANGE

datatype relative_period = RP_DAY | RP_WEEK | RP_MONTH | RP_YEAR

record date_range =
  dr_start :: int
  dr_end :: int

record reporting_period =
  rp_type :: period_type
  rp_relative :: "relative_period option"
  rp_range :: "date_range option"

section \<open>Boundaries\<close>

definition out_of_range :: ai_error where
  "out_of_range = OtherError (OverflowError ''date value out of range'')"

text \<open>\<open>date(year, 1, 1)\<close> and \<open>date(year, month, 1)\<close> of a year after 9999.\<close>

definition year_out_of_range :: "int \<Rightarrow> ai_error" where
  "year_out_of_range y = OtherError (ValueError (''year '' @ str_int y @ '' is out of range''))"

text \<open>
  The local midnights that bound the unit around \<open>anchor\<close>, as ordinals. \<open>weekday\<close> days before
  the anchor, or seven days after the start of the week, may lie outside Python's dates.
\<close>

definition resolve_relative_local_boundaries :: "relative_period \<Rightarrow> int \<Rightarrow> ai_error + int \<times> int" where
  "resolve_relative_local_boundaries rel anchor =
     (case rel of
        RP_DAY \<Rightarrow>
          if max_ordinal < anchor + 1 then Inl out_of_range else Inr (anchor, anchor + 1)
      | RP_WEEK \<Rightarrow>
          (let week_start = anchor - weekday anchor in
           if week_start < 1 \<or> max_ordinal < week_start + 7 then Inl out_of_range
           else Inr (week_start, week_start + 7))
      | RP_MONTH \<Rightarrow>
          (let y = year_of anchor; m = month_of anchor in
           if m = 12 \<and> y = 9999 then Inl (year_out_of_range (y + 1))
           else Inr (month_start y m, next_month_start y m))
      | RP_YEAR \<Rightarrow>
          (let y = year_of anchor in
           if y = 9999 then Inl (year_out_of_range (y + 1))
           else Inr (year_start y, year_start (y + 1))))"

text \<open>\<open>astimezone(UTC)\<close> of the two local midnights: the first day of year 1 has none.\<close>

definition to_utc :: "int \<times> int \<Rightarrow> ai_error + time \<times> time" where
  "to_utc b = (if fst b \<le> 1 \<or> snd b \<le> 1 then Inl out_of_range else Inr (day_start (fst b), day_start (snd b)))"

definition resolve_period_boundaries :: "reporting_period \<Rightarrow> time \<Rightarrow> ai_error + time \<times> time" where
  "resolve_period_boundaries p t =
     (let today = nairobi_date t in
      case rp_type p of
        PT_RELATIVE \<Rightarrow>
          (case rp_relative p of
             None \<Rightarrow> Inl (OtherError (ValueError ''Missing relative period specification.''))
           | Some rel \<Rightarrow>
               (case resolve_relative_local_boundaries rel today of
                  Inl e \<Rightarrow> Inl e
                | Inr b \<Rightarrow> to_utc b))
      | PT_DATE_RANGE \<Rightarrow>
          (case rp_range p of
             None \<Rightarrow> Inl (InvalidDateRangeError ''Missing date_range specification.'')
           | Some dr \<Rightarrow>
               if max_ordinal < dr_end dr + 1 then Inl out_of_range
               else to_utc (dr_start dr, dr_end dr + 1)))"

text \<open>The instant Python's first datetime denotes in UTC.\<close>

definition min_instant :: time where
  "min_instant = (1 - epoch_ordinal) * day_length"

definition resolve_previous_period_boundaries :: "reporting_period \<Rightarrow> time \<Rightarrow> ai_error + time \<times> time" where
  "resolve_previous_period_boundaries p t =
     (case rp_type p of
        PT_RELATIVE \<Rightarrow>
          (case rp_relative p of
             None \<Rightarrow> Inl (OtherError (ValueError ''Missing relative period specification.''))
           | Some rel \<Rightarrow>
               (case resolve_relative_local_boundaries rel (nairobi_date t) of
                  Inl e \<Rightarrow> Inl e
                | Inr (current_start, _) \<Rightarrow>
                    if current_start - 1 < 1 then Inl out_of_range
                    else
                      (case resolve_relative_local_boundaries rel (current_start - 1) of
                         Inl e \<Rightarrow> Inl e
                       | Inr b \<Rightarrow> to_utc b)))
      | PT_DATE_RANGE \<Rightarrow>
          (case resolve_period_boundaries p t of
             Inl e \<Rightarrow> Inl e
           | Inr (curr_start, curr_end) \<Rightarrow>
               (let duration = curr_end - curr_start; prev_end = curr_start;
                    prev_start = prev_end - duration in
                if prev_start < min_instant then Inl out_of_range else Inr (prev_start, prev_end))))"

section \<open>A unit contains its anchor, and the unit before it is adjacent\<close>

lemma weekday_range: "0 \<le> weekday n \<and> weekday n < 7"
  by (simp add: weekday_def)

lemma relative_contains:
  assumes "resolve_relative_local_boundaries rel n = Inr (a, b)"
  shows "a \<le> n \<and> n < b"
proof (cases rel)
  case RP_DAY
  with assms show ?thesis by (auto simp: resolve_relative_local_boundaries_def split: if_splits)
next
  case RP_WEEK
  with assms weekday_range [of n] show ?thesis
    by (auto simp: resolve_relative_local_boundaries_def Let_def split: if_splits)
next
  case RP_MONTH
  with assms month_of_span [of n] show ?thesis
    by (auto simp: resolve_relative_local_boundaries_def Let_def split: if_splits)
next
  case RP_YEAR
  with assms year_of_span [of n] show ?thesis
    by (auto simp: resolve_relative_local_boundaries_def Let_def year_start_def ordinal_def
        days_before_month_def split: if_splits)
qed

text \<open>The unit around any day of a unit is that unit: units never overlap partly.\<close>

lemma weekday_same_week:
  assumes "n - weekday n \<le> m" "m < n - weekday n + 7"
  shows "m - weekday m = n - weekday n"
proof -
  have "weekday (n - weekday n) = 0"
  proof -
    have "(n - weekday n + 6) mod 7 = ((n + 6) - (n + 6) mod 7) mod 7"
      by (simp add: weekday_def algebra_simps)
    also have "\<dots> = 0" by (metis minus_mod_eq_mult_div mod_mult_self1_is_0)
    finally show ?thesis by (simp add: weekday_def)
  qed
  then obtain k where k: "n - weekday n + 6 = 7 * k"
    unfolding weekday_def by (metis dvdE mod_0_imp_dvd)
  have "(m + 6) div 7 = k" using k assms by (simp add: div_eq_interval)
  then have "(m + 6) mod 7 = m + 6 - 7 * k" by (metis minus_mult_div_eq_mod)
  then show ?thesis using k by (simp add: weekday_def)
qed

lemma relative_same_unit:
  assumes "resolve_relative_local_boundaries rel n = Inr (a, b)" "a \<le> m" "m < b"
  shows "resolve_relative_local_boundaries rel m = Inr (a, b)"
proof (cases rel)
  case RP_DAY
  with assms show ?thesis by (auto simp: resolve_relative_local_boundaries_def split: if_splits)
next
  case RP_WEEK
  with assms have "n - weekday n \<le> m" "m < n - weekday n + 7"
    by (auto simp: resolve_relative_local_boundaries_def Let_def split: if_splits)
  from weekday_same_week [OF this] RP_WEEK assms show ?thesis
    by (simp add: resolve_relative_local_boundaries_def Let_def)
next
  case RP_MONTH
  with assms have "month_start (year_of n) (month_of n) \<le> m" "m < next_month_start (year_of n) (month_of n)"
    by (auto simp: resolve_relative_local_boundaries_def Let_def split: if_splits)
  with month_of_unique [of "month_of n" "year_of n" m] month_of_range [of n] RP_MONTH assms
  show ?thesis by (simp add: resolve_relative_local_boundaries_def Let_def)
next
  case RP_YEAR
  with assms have "days_before_year (year_of n) < m" "m \<le> days_before_year (year_of n + 1)"
    by (auto simp: resolve_relative_local_boundaries_def Let_def year_start_def ordinal_def
        days_before_month_def split: if_splits)
  from year_of_unique [OF this] RP_YEAR assms show ?thesis
    by (simp add: resolve_relative_local_boundaries_def Let_def)
qed

text \<open>The last day before a unit ends its own unit: the previous unit is adjacent.\<close>

lemma relative_previous_adjacent:
  assumes "resolve_relative_local_boundaries rel n = Inr (a, b)"
    "resolve_relative_local_boundaries rel (a - 1) = Inr (c, d)"
  shows "d = a \<and> c < a"
proof -
  have c: "c \<le> a - 1" "a - 1 < d" using relative_contains [OF assms(2)] by simp_all
  have "d \<le> a"
  proof (rule ccontr)
    assume "\<not> d \<le> a"
    with c have "c \<le> a" "a < d" by auto
    from relative_same_unit [OF assms(2) this] have "resolve_relative_local_boundaries rel a = Inr (c, d)" .
    moreover have "a \<le> n" "n < b" using relative_contains [OF assms(1)] by auto
    then have "resolve_relative_local_boundaries rel a = Inr (a, b)"
      using relative_same_unit [OF assms(1), of a] by simp
    ultimately show False using c by simp
  qed
  with c show ?thesis by simp
qed

lemma period_contains_now:
  assumes "rp_type p = PT_RELATIVE" "resolve_period_boundaries p t = Inr (t0, t1)"
  shows "t0 \<le> t \<and> t < t1"
proof -
  from assms obtain rel a b where rel: "resolve_relative_local_boundaries rel (nairobi_date t) = Inr (a, b)"
      "t0 = day_start a" "t1 = day_start b"
    by (auto simp: resolve_period_boundaries_def to_utc_def Let_def
        split: option.splits sum.splits if_splits)
  have d: "day_start (nairobi_date t) \<le> t" "t < day_start (nairobi_date t + 1)"
    using day_of_instant [of t "nairobi_date t"] by auto
  have "a \<le> nairobi_date t" "nairobi_date t + 1 \<le> b" using relative_contains [OF rel(1)] by auto
  then have "day_start a \<le> day_start (nairobi_date t)" "day_start (nairobi_date t + 1) \<le> day_start b"
    by (auto intro: day_start_mono)
  with d rel show ?thesis by linarith
qed

lemma previous_period_adjacent:
  assumes "resolve_period_boundaries p t = Inr (t0, t1)"
    "resolve_previous_period_boundaries p t = Inr (u0, u1)"
    "rp_type p = PT_DATE_RANGE \<Longrightarrow> \<forall>dr. rp_range p = Some dr \<longrightarrow> dr_start dr < dr_end dr"
  shows "u1 = t0 \<and> u0 < u1"
proof (cases "rp_type p")
  case PT_RELATIVE
  with assms(1,2) obtain rel a b c d where
    "resolve_relative_local_boundaries rel (nairobi_date t) = Inr (a, b)" "t0 = day_start a"
    "resolve_relative_local_boundaries rel (a - 1) = Inr (c, d)" "u0 = day_start c" "u1 = day_start d"
    by (auto simp: resolve_period_boundaries_def resolve_previous_period_boundaries_def to_utc_def
        Let_def split: option.splits sum.splits prod.splits if_splits)
  with relative_previous_adjacent show ?thesis
    by (fastforce simp: day_start_def day_length_def)
next
  case PT_DATE_RANGE
  with assms obtain dr where dr: "rp_range p = Some dr" "dr_start dr < dr_end dr"
      "t0 = day_start (dr_start dr)" "t1 = day_start (dr_end dr + 1)"
    by (auto simp: resolve_period_boundaries_def to_utc_def Let_def split: option.splits if_splits)
  then have "t0 < t1" by (simp add: day_start_def day_length_def)
  with assms(1,2) PT_DATE_RANGE show ?thesis
    by (auto simp: resolve_previous_period_boundaries_def Let_def split: if_splits)
qed

end
