(* ===== verification/Tools.thy ===== *)
theory Tools
  imports Periods
begin

text \<open>
  \<open>app/ai/contracts/tools.py\<close> and \<open>app/ai/validator.py\<close>: the input and output contracts of the
  seven analytics tools and the validation of the arguments a model proposes. A validation
  either succeeds, fails (pydantic's \<open>ValidationError\<close>, collected over all fields) or lets an
  \<open>InvalidDateRangeError\<close> through at once, because that is no \<open>ValueError\<close>. The coercions of
  pydantic's lax mode are modelled for integers; a date is an ISO date.
\<close>

section \<open>Contracts\<close>

datatype ranking_dimension = RD_UNITS | RD_REVENUE

datatype tool_input =
    GetSalesSummaryInput reporting_period
  | GetTopProductsInput reporting_period "ranking_dimension option" "int option"
  | GetStockLevelInput "uuid option" "string option"
  | GetLowStockItemsInput
  | GetSalesTrendInput reporting_period "reporting_period option"
  | GetSlowMovingItemsInput reporting_period int "int option"
  | GetProductPriceInput "uuid option" "string option"

record top_item =
  ti_product_id :: uuid
  ti_name :: string
  ti_units_sold :: "int option"
  ti_revenue :: "int option"

record low_item =
  li_product_id :: uuid
  li_name :: string
  li_stock :: int
  li_threshold :: int

datatype tool_output =
    GetSalesSummaryOutput int nat                      \<comment> \<open>total revenue, transactions\<close>
  | GetTopProductsOutput "top_item list option" "top_item list option"
  | GetStockLevelOutput uuid string int int int bool   \<comment> \<open>quantity, threshold, price, low?\<close>
  | GetLowStockItemsOutput "low_item list" nat
  | GetSalesTrendOutput int int rat nat nat rat
      \<comment> \<open>revenue now, before, change in percent; transactions now, before, change\<close>
  | GetSlowMovingItemsOutput "slow_row list" nat
  | GetProductPriceOutput uuid string int string

datatype input_model =
    IM_SalesSummary | IM_TopProducts | IM_StockLevel | IM_LowStockItems | IM_SalesTrend
  | IM_SlowMovingItems | IM_ProductPrice

fun model_name :: "input_model \<Rightarrow> string" where
  "model_name IM_SalesSummary = ''GetSalesSummaryInput''"
| "model_name IM_TopProducts = ''GetTopProductsInput''"
| "model_name IM_StockLevel = ''GetStockLevelInput''"
| "model_name IM_LowStockItems = ''GetLowStockItemsInput''"
| "model_name IM_SalesTrend = ''GetSalesTrendInput''"
| "model_name IM_SlowMovingItems = ''GetSlowMovingItemsInput''"
| "model_name IM_ProductPrice = ''GetProductPriceInput''"

section \<open>Validation of fields\<close>

datatype 'a vres = VOk 'a | VErr | VRaise ai_error

fun v_pair :: "'a vres \<Rightarrow> 'b vres \<Rightarrow> ('a \<times> 'b) vres" where
  "v_pair (VRaise e) r = VRaise e"
| "v_pair (VOk x) r = (case r of VOk y \<Rightarrow> VOk (x, y) | VErr \<Rightarrow> VErr | VRaise e \<Rightarrow> VRaise e)"
| "v_pair VErr r = (case r of VRaise e \<Rightarrow> VRaise e | _ \<Rightarrow> VErr)"

fun v_then :: "'a vres \<Rightarrow> ('a \<Rightarrow> 'b vres) \<Rightarrow> 'b vres" where
  "v_then (VOk x) f = f x"
| "v_then VErr f = VErr"
| "v_then (VRaise e) f = VRaise e"

definition v_required :: "string \<Rightarrow> (json \<Rightarrow> 'a vres) \<Rightarrow> dict \<Rightarrow> 'a vres" where
  "v_required k f d = (case map_of d k of None \<Rightarrow> VErr | Some j \<Rightarrow> f j)"

definition v_default :: "string \<Rightarrow> 'a \<Rightarrow> (json \<Rightarrow> 'a vres) \<Rightarrow> dict \<Rightarrow> 'a vres" where
  "v_default k x f d = (case map_of d k of None \<Rightarrow> VOk x | Some j \<Rightarrow> f j)"

definition v_nullable :: "(json \<Rightarrow> 'a vres) \<Rightarrow> json \<Rightarrow> 'a option vres" where
  "v_nullable f j = (if j = JNull then VOk None else v_then (f j) (\<lambda>x. VOk (Some x)))"

definition v_optional :: "string \<Rightarrow> (json \<Rightarrow> 'a vres) \<Rightarrow> dict \<Rightarrow> 'a option vres" where
  "v_optional k f d = v_default k None (v_nullable f) d"

text \<open>\<open>extra="forbid"\<close>\<close>

definition v_forbid_extra :: "string list \<Rightarrow> dict \<Rightarrow> 'a vres \<Rightarrow> 'a vres" where
  "v_forbid_extra ks d r =
     (if list_all (\<lambda>kv. fst kv \<in> set ks) d then r
      else case r of VRaise e \<Rightarrow> VRaise e | _ \<Rightarrow> VErr)"

definition v_of_option :: "'a option \<Rightarrow> 'a vres" where
  "v_of_option x = (case x of None \<Rightarrow> VErr | Some y \<Rightarrow> VOk y)"

fun v_enum :: "(string \<times> 'a) list \<Rightarrow> json \<Rightarrow> 'a vres" where
  "v_enum table (JStr s) = v_of_option (map_of table s)"
| "v_enum table _ = VErr"

fun v_int :: "json \<Rightarrow> int vres" where
  "v_int (JInt n) = VOk n"
| "v_int (JBool b) = VOk (if b then 1 else 0)"
| "v_int (JNum r) = (if of_int \<lfloor>r\<rfloor> = r then VOk \<lfloor>r\<rfloor> else VErr)"
| "v_int (JStr s) = v_of_option (py_int s)"
| "v_int _ = VErr"

definition v_int_where :: "(int \<Rightarrow> bool) \<Rightarrow> json \<Rightarrow> int vres" where
  "v_int_where P j = v_then (v_int j) (\<lambda>n. if P n then VOk n else VErr)"

fun v_str :: "json \<Rightarrow> string vres" where
  "v_str (JStr s) = VOk s"
| "v_str _ = VErr"

fun v_uuid :: "json \<Rightarrow> uuid vres" where
  "v_uuid (JStr s) = v_of_option (parse_uuid s)"
| "v_uuid _ = VErr"

fun v_date :: "json \<Rightarrow> int vres" where
  "v_date (JStr s) = v_of_option (parse_iso_date s)"
| "v_date _ = VErr"

section \<open>Validation of periods\<close>

fun validate_date_range :: "json \<Rightarrow> date_range vres" where
  "validate_date_range (JObj d) =
     v_then (v_forbid_extra [''start_date'', ''end_date''] d
               (v_pair (v_required ''start_date'' v_date d) (v_required ''end_date'' v_date d)))
       (\<lambda>(a, b).
          if a \<ge> b
          then VRaise (InvalidDateRangeError
                 (''Start date ('' @ iso_date a @ '') must be before end date ('' @ iso_date b @ '').''))
          else VOk \<lparr>dr_start = a, dr_end = b\<rparr>)"
| "validate_date_range _ = VErr"

definition period_types :: "(string \<times> period_type) list" where
  "period_types = [(''relative'', PT_RELATIVE), (''date_range'', PT_DATE_RANGE)]"

definition relative_periods :: "(string \<times> relative_period) list" where
  "relative_periods =
     [(''day'', RP_DAY), (''week'', RP_WEEK), (''month'', RP_MONTH), (''year'', RP_YEAR)]"

definition validate_period_structure :: "reporting_period \<Rightarrow> reporting_period vres" where
  "validate_period_structure p =
     (case rp_type p of
        PT_RELATIVE \<Rightarrow>
          if rp_relative p = None then VErr else if rp_range p \<noteq> None then VErr else VOk p
      | PT_DATE_RANGE \<Rightarrow>
          if rp_range p = None then VErr else if rp_relative p \<noteq> None then VErr else VOk p)"

fun validate_period :: "json \<Rightarrow> reporting_period vres" where
  "validate_period (JObj d) =
     v_then
       (v_forbid_extra [''period_type'', ''relative_period'', ''date_range''] d
          (v_pair (v_required ''period_type'' (v_enum period_types) d)
             (v_pair (v_optional ''relative_period'' (v_enum relative_periods) d)
                (v_optional ''date_range'' validate_date_range d))))
       (\<lambda>(t, r, dr). validate_period_structure \<lparr>rp_type = t, rp_relative = r, rp_range = dr\<rparr>)"
| "validate_period _ = VErr"

section \<open>Validation of tool arguments\<close>

definition ranking_dimensions :: "(string \<times> ranking_dimension) list" where
  "ranking_dimensions = [(''units'', RD_UNITS), (''revenue'', RD_REVENUE)]"

text \<open>An identifier is present: a UUID, or a name that is not blank.\<close>

definition identifier_present :: "uuid option \<Rightarrow> string option \<Rightarrow> bool" where
  "identifier_present pid nm \<longleftrightarrow>
     pid \<noteq> None \<or> (case nm of None \<Rightarrow> False | Some n \<Rightarrow> n \<noteq> [] \<and> strip n \<noteq> [])"

definition validate_identifier ::
  "(uuid option \<Rightarrow> string option \<Rightarrow> tool_input) \<Rightarrow> dict \<Rightarrow> tool_input vres" where
  "validate_identifier mk d =
     v_then (v_forbid_extra [''product_id'', ''product_name''] d
               (v_pair (v_optional ''product_id'' v_uuid d) (v_optional ''product_name'' v_str d)))
       (\<lambda>(pid, nm). if identifier_present pid nm then VOk (mk pid nm) else VErr)"

definition validate_sales_summary :: "dict \<Rightarrow> tool_input vres" where
  "validate_sales_summary d =
     v_then (v_forbid_extra [''period''] d (v_required ''period'' validate_period d))
       (\<lambda>p. VOk (GetSalesSummaryInput p))"

definition validate_top_products :: "dict \<Rightarrow> tool_input vres" where
  "validate_top_products d =
     v_then (v_forbid_extra [''period'', ''ranking_dimension'', ''limit''] d
               (v_pair (v_required ''period'' validate_period d)
                  (v_pair (v_optional ''ranking_dimension'' (v_enum ranking_dimensions) d)
                     (v_optional ''limit'' (v_int_where (\<lambda>n. n > 0)) d))))
       (\<lambda>(p, r, l). VOk (GetTopProductsInput p r l))"

definition validate_low_stock_items :: "dict \<Rightarrow> tool_input vres" where
  "validate_low_stock_items d = v_forbid_extra [] d (VOk GetLowStockItemsInput)"

definition validate_sales_trend :: "dict \<Rightarrow> tool_input vres" where
  "validate_sales_trend d =
     v_then (v_forbid_extra [''period'', ''comparison_period''] d
               (v_pair (v_required ''period'' validate_period d)
                  (v_optional ''comparison_period'' validate_period d)))
       (\<lambda>(p, c). VOk (GetSalesTrendInput p c))"

definition validate_slow_moving_items :: "dict \<Rightarrow> tool_input vres" where
  "validate_slow_moving_items d =
     v_then (v_forbid_extra [''period'', ''max_sales_count'', ''limit''] d
               (v_pair (v_required ''period'' validate_period d)
                  (v_pair (v_default ''max_sales_count'' 0 (v_int_where (\<lambda>n. n \<ge> 0)) d)
                     (v_optional ''limit'' (v_int_where (\<lambda>n. n > 0)) d))))
       (\<lambda>(p, m, l). VOk (GetSlowMovingItemsInput p m l))"

fun model_validate :: "input_model \<Rightarrow> dict \<Rightarrow> tool_input vres" where
  "model_validate IM_SalesSummary d = validate_sales_summary d"
| "model_validate IM_TopProducts d = validate_top_products d"
| "model_validate IM_StockLevel d = validate_identifier GetStockLevelInput d"
| "model_validate IM_LowStockItems d = validate_low_stock_items d"
| "model_validate IM_SalesTrend d = validate_sales_trend d"
| "model_validate IM_SlowMovingItems d = validate_slow_moving_items d"
| "model_validate IM_ProductPrice d = validate_identifier GetProductPriceInput d"

lemmas validate_input_defs = validate_sales_summary_def validate_top_products_def
  validate_low_stock_items_def validate_sales_trend_def validate_slow_moving_items_def
  validate_identifier_def

text \<open>
  The texts pydantic writes for a failed validation, the whole report and the messages of the
  single errors, are parameters.
\<close>

record pydantic =
  report :: "input_model \<Rightarrow> dict \<Rightarrow> string"
  error_messages :: "input_model \<Rightarrow> dict \<Rightarrow> string list"

definition shop_id_prohibited :: ai_error where
  "shop_id_prohibited = SchemaValidationError
     (''Argument '' @ quoted ''shop_id'' @ '' is prohibited in AI tool calls. '' @
      ''Shop scope is trusted backend context.'') []"

text \<open>The arguments are a dictionary by the contract of a normalized tool call.\<close>

definition validate_schema :: "pydantic \<Rightarrow> input_model \<Rightarrow> dict \<Rightarrow> ai_error + tool_input" where
  "validate_schema P m raw_args =
     (if ''shop_id'' \<in> set (map fst raw_args) then Inl shop_id_prohibited
      else case model_validate m raw_args of
             VOk x \<Rightarrow> Inr x
           | VRaise e \<Rightarrow> Inl e
           | VErr \<Rightarrow> Inl (SchemaValidationError
                        (''Schema validation failed for '' @ model_name m @ '': '' @ report P m raw_args)
                        (error_messages P m raw_args)))"

section \<open>The validated arguments, printed\<close>

definition opt_field :: "string \<Rightarrow> json option \<Rightarrow> dict" where
  "opt_field k j = (case j of None \<Rightarrow> [] | Some v \<Rightarrow> [(k, v)])"

fun dump_relative :: "relative_period \<Rightarrow> json" where
  "dump_relative RP_DAY = JStr ''day''"
| "dump_relative RP_WEEK = JStr ''week''"
| "dump_relative RP_MONTH = JStr ''month''"
| "dump_relative RP_YEAR = JStr ''year''"

fun dump_dimension :: "ranking_dimension \<Rightarrow> json" where
  "dump_dimension RD_UNITS = JStr ''units''"
| "dump_dimension RD_REVENUE = JStr ''revenue''"

definition dump_range :: "date_range \<Rightarrow> json" where
  "dump_range dr =
     JObj [(''start_date'', JStr (iso_date (dr_start dr))), (''end_date'', JStr (iso_date (dr_end dr)))]"

definition dump_period :: "reporting_period \<Rightarrow> json" where
  "dump_period p =
     JObj ((''period_type'', JStr (case rp_type p of PT_RELATIVE \<Rightarrow> ''relative'' | PT_DATE_RANGE \<Rightarrow> ''date_range''))
       # opt_field ''relative_period'' (map_option dump_relative (rp_relative p))
       @ opt_field ''date_range'' (map_option dump_range (rp_range p)))"

text \<open>\<open>model_dump(mode="json", exclude_none=True)\<close>\<close>

fun model_dump :: "tool_input \<Rightarrow> dict" where
  "model_dump (GetSalesSummaryInput p) = [(''period'', dump_period p)]"
| "model_dump (GetTopProductsInput p r l) =
     (''period'', dump_period p) # opt_field ''ranking_dimension'' (map_option dump_dimension r)
       @ opt_field ''limit'' (map_option JInt l)"
| "model_dump (GetStockLevelInput pid nm) =
     opt_field ''product_id'' (map_option (\<lambda>u. JStr (uuid_str u)) pid)
       @ opt_field ''product_name'' (map_option JStr nm)"
| "model_dump GetLowStockItemsInput = []"
| "model_dump (GetSalesTrendInput p c) =
     (''period'', dump_period p) # opt_field ''comparison_period'' (map_option dump_period c)"
| "model_dump (GetSlowMovingItemsInput p m l) =
     (''period'', dump_period p) # (''max_sales_count'', JInt m) # opt_field ''limit'' (map_option JInt l)"
| "model_dump (GetProductPriceInput pid nm) =
     opt_field ''product_id'' (map_option (\<lambda>u. JStr (uuid_str u)) pid)
       @ opt_field ''product_name'' (map_option JStr nm)"

fun model_of :: "tool_input \<Rightarrow> input_model" where
  "model_of (GetSalesSummaryInput p) = IM_SalesSummary"
| "model_of (GetTopProductsInput p r l) = IM_TopProducts"
| "model_of (GetStockLevelInput pid nm) = IM_StockLevel"
| "model_of GetLowStockItemsInput = IM_LowStockItems"
| "model_of (GetSalesTrendInput p c) = IM_SalesTrend"
| "model_of (GetSlowMovingItemsInput p m l) = IM_SlowMovingItems"
| "model_of (GetProductPriceInput pid nm) = IM_ProductPrice"

section \<open>What validation accepts\<close>

definition range_ok :: "date_range \<Rightarrow> bool" where
  "range_ok dr \<longleftrightarrow> 1 \<le> dr_start dr \<and> dr_start dr < dr_end dr \<and> dr_end dr \<le> max_ordinal"

definition period_ok :: "reporting_period \<Rightarrow> bool" where
  "period_ok p =
     (case rp_type p of
        PT_RELATIVE \<Rightarrow> rp_relative p \<noteq> None \<and> rp_range p = None
      | PT_DATE_RANGE \<Rightarrow>
          rp_relative p = None \<and> (case rp_range p of None \<Rightarrow> False | Some dr \<Rightarrow> range_ok dr))"

definition limit_ok :: "int option \<Rightarrow> bool" where
  "limit_ok l = (case l of None \<Rightarrow> True | Some n \<Rightarrow> 0 < n)"

fun input_ok :: "tool_input \<Rightarrow> bool" where
  "input_ok (GetSalesSummaryInput p) = period_ok p"
| "input_ok (GetTopProductsInput p r l) = (period_ok p \<and> limit_ok l)"
| "input_ok (GetStockLevelInput pid nm) = identifier_present pid nm"
| "input_ok GetLowStockItemsInput = True"
| "input_ok (GetSalesTrendInput p c) = (period_ok p \<and> (case c of None \<Rightarrow> True | Some q \<Rightarrow> period_ok q))"
| "input_ok (GetSlowMovingItemsInput p m l) = (period_ok p \<and> 0 \<le> m \<and> limit_ok l)"
| "input_ok (GetProductPriceInput pid nm) = identifier_present pid nm"

lemma v_pair_OK: "v_pair a b = VOk z \<longleftrightarrow> (\<exists>x y. a = VOk x \<and> b = VOk y \<and> z = (x, y))"
  by (cases a; cases b) auto

lemma v_then_OK: "v_then r f = VOk z \<longleftrightarrow> (\<exists>x. r = VOk x \<and> f x = VOk z)"
  by (cases r) auto

lemma v_forbid_extra_OK:
  "v_forbid_extra ks d r = VOk x \<longleftrightarrow> list_all (\<lambda>kv. fst kv \<in> set ks) d \<and> r = VOk x"
  by (auto simp: v_forbid_extra_def split: vres.splits)

lemma v_optional_OK:
  "v_optional k f d = VOk x \<Longrightarrow> x = None \<or> (\<exists>j y. map_of d k = Some j \<and> f j = VOk y \<and> x = Some y)"
  by (auto simp: v_optional_def v_default_def v_nullable_def v_then_OK split: option.splits if_splits)

lemma v_pair_Raise: "v_pair a b = VRaise e \<Longrightarrow> a = VRaise e \<or> b = VRaise e"
  by (cases a; cases b) auto

lemma v_then_Raise: "v_then r f = VRaise e \<Longrightarrow> r = VRaise e \<or> (\<exists>x. r = VOk x \<and> f x = VRaise e)"
  by (cases r) auto

lemma v_forbid_extra_Raise: "v_forbid_extra ks d r = VRaise e \<Longrightarrow> r = VRaise e"
  by (auto simp: v_forbid_extra_def split: vres.splits if_splits)

lemma v_optional_Raise:
  "v_optional k f d = VRaise e \<Longrightarrow> \<exists>j. f j = VRaise e"
  by (auto simp: v_optional_def v_default_def v_nullable_def dest!: v_then_Raise split: option.splits if_splits)

lemma v_required_Raise: "v_required k f d = VRaise e \<Longrightarrow> \<exists>j. f j = VRaise e"
  by (auto simp: v_required_def split: option.splits)

lemma v_default_Raise: "v_default k x f d = VRaise e \<Longrightarrow> \<exists>j. f j = VRaise e"
  by (auto simp: v_default_def split: option.splits)

lemma scalars_never_raise:
  "v_enum t j \<noteq> VRaise e" "v_int j \<noteq> VRaise e" "v_int_where P j \<noteq> VRaise e" "v_str j \<noteq> VRaise e"
  "v_uuid j \<noteq> VRaise e" "v_date j \<noteq> VRaise e"
proof -
  show "v_enum t j \<noteq> VRaise e" "v_uuid j \<noteq> VRaise e" "v_date j \<noteq> VRaise e" "v_str j \<noteq> VRaise e"
    by (cases j; simp add: v_of_option_def split: option.split)+
  show i: "v_int j \<noteq> VRaise e" by (cases j) (simp_all add: v_of_option_def split: option.split)
  then show "v_int_where P j \<noteq> VRaise e" by (auto simp: v_int_where_def dest!: v_then_Raise split: if_splits)
qed

lemmas raise_elims = v_forbid_extra_Raise v_pair_Raise v_then_Raise v_optional_Raise v_required_Raise
  v_default_Raise

lemma validate_date_range_Raise:
  "validate_date_range j = VRaise e \<Longrightarrow> \<exists>m. e = InvalidDateRangeError m"
  by (cases j) (auto dest!: raise_elims simp: scalars_never_raise split: if_splits prod.splits)

lemma validate_period_Raise:
  "validate_period j = VRaise e \<Longrightarrow> \<exists>m. e = InvalidDateRangeError m"
  by (cases j)
     (auto dest!: raise_elims simp: scalars_never_raise validate_period_structure_def
        split: if_splits prod.splits period_type.splits dest: validate_date_range_Raise)

lemma model_validate_Raise:
  assumes "model_validate m d = VRaise e"
  shows "\<exists>msg. e = InvalidDateRangeError msg"
  using assms
  by (cases m)
     (auto simp: validate_input_defs scalars_never_raise dest!: raise_elims
        split: prod.splits if_splits dest: validate_period_Raise)

lemma ordinal_bounds:
  assumes "valid_date y m d" shows "1 \<le> ordinal y m d \<and> ordinal y m d \<le> max_ordinal"
proof -
  have "year_of (ordinal y m d) = y" using fields_ordinal [OF assms] by blast
  then have s: "days_before_year y < ordinal y m d" "ordinal y m d \<le> days_before_year (y + 1)"
    using year_of_span [of "ordinal y m d"] by simp_all
  have "1 \<le> y" "y + 1 \<le> 10000" using assms by (simp_all add: valid_date_def)
  with days_before_year_mono [of 1 y] days_before_year_mono [of "y + 1" 10000]
  have "days_before_year 1 \<le> days_before_year y" "days_before_year (y + 1) \<le> days_before_year 10000"
    by blast+
  moreover have "days_before_year 1 = 0" "days_before_year 10000 = max_ordinal"
    by (simp_all add: days_before_year_def max_ordinal_def)
  ultimately show ?thesis using s by linarith
qed

lemma v_date_OK: "v_date j = VOk n \<Longrightarrow> 1 \<le> n \<and> n \<le> max_ordinal"
  using ordinal_bounds
  by (cases j) (auto simp: v_of_option_def parse_iso_date_def split: option.splits if_splits)

lemma validate_date_range_OK: "validate_date_range j = VOk dr \<Longrightarrow> range_ok dr"
  by (cases j)
     (auto simp: v_then_OK v_forbid_extra_OK v_pair_OK v_required_def range_ok_def
        dest: v_date_OK split: if_splits option.splits)

lemma validate_period_OK: "validate_period j = VOk p \<Longrightarrow> period_ok p"
proof (cases j)
  case (JObj d)
  assume "validate_period j = VOk p"
  with JObj obtain t r dr where
    p: "validate_period_structure \<lparr>rp_type = t, rp_relative = r, rp_range = dr\<rparr> = VOk p"
      "v_optional ''date_range'' validate_date_range d = VOk dr"
    by (auto simp: v_then_OK v_forbid_extra_OK v_pair_OK)
  from v_optional_OK [OF p(2)] have "dr = None \<or> (\<exists>x. dr = Some x \<and> range_ok x)"
    using validate_date_range_OK by blast
  with p(1) show ?thesis
    by (auto simp: validate_period_structure_def period_ok_def split: period_type.splits if_splits)
qed auto

lemma v_int_where_OK: "v_int_where P j = VOk n \<Longrightarrow> P n"
  by (auto simp: v_int_where_def v_then_OK split: if_splits)

lemma model_validate_OK:
  assumes "model_validate m d = VOk x"
  shows "input_ok x \<and> model_of x = m"
proof -
  have lim: "limit_ok l" if "v_optional k (v_int_where (\<lambda>n. n > 0)) d = VOk l" for k l
    using v_optional_OK [OF that] by (auto simp: limit_ok_def dest: v_int_where_OK)
  have req: "period_ok p" if "v_required k validate_period d = VOk p" for k p
    using that validate_period_OK by (auto simp: v_required_def split: option.splits)
  have opt: "case c of None \<Rightarrow> True | Some q \<Rightarrow> period_ok q"
    if "v_optional k validate_period d = VOk c" for k c
    using v_optional_OK [OF that] validate_period_OK by auto
  have mx: "0 \<le> n" if "v_default k 0 (v_int_where (\<lambda>n. n \<ge> 0)) d = VOk n" for k n
    using that v_int_where_OK [of "\<lambda>n. 0 \<le> n"] by (auto simp: v_default_def split: option.splits)
  show ?thesis
    using assms lim req opt mx
    by (cases m)
       (auto simp: v_then_OK v_forbid_extra_OK v_pair_OK validate_input_defs split: if_splits)
qed

section \<open>Printed arguments validate again\<close>

lemma v_date_print: "1 \<le> n \<Longrightarrow> n \<le> max_ordinal \<Longrightarrow> v_date (JStr (iso_date n)) = VOk n"
  by (simp add: parse_iso_date_print v_of_option_def)

lemma validate_dump_range: "range_ok dr \<Longrightarrow> validate_date_range (dump_range dr) = VOk dr"
  by (simp add: dump_range_def v_forbid_extra_def v_required_def range_ok_def v_date_print
      del: v_date.simps)

lemma v_optional_some: "map_of d k = Some j \<Longrightarrow> f j = VOk x \<Longrightarrow> j \<noteq> JNull \<Longrightarrow> v_optional k f d = VOk (Some x)"
  by (simp add: v_optional_def v_default_def v_nullable_def)

lemma v_optional_none: "map_of d k = None \<Longrightarrow> v_optional k f d = VOk None"
  by (simp add: v_optional_def v_default_def)

lemma validate_dump_period:
  assumes "period_ok p" shows "validate_period (dump_period p) = VOk p"
proof (cases "rp_type p")
  case PT_RELATIVE
  with assms obtain r where r: "rp_relative p = Some r" "rp_range p = None"
    by (auto simp: period_ok_def)
  with PT_RELATIVE show ?thesis
    by (cases r; cases p)
       (simp_all add: dump_period_def opt_field_def v_forbid_extra_def v_required_def v_optional_def
          v_default_def v_nullable_def v_of_option_def period_types_def relative_periods_def
          validate_period_structure_def)
next
  case PT_DATE_RANGE
  with assms obtain dr where dr: "rp_relative p = None" "rp_range p = Some dr" "range_ok dr"
    by (auto simp: period_ok_def split: option.splits)
  have "dump_range dr \<noteq> JNull" by (simp add: dump_range_def)
  with PT_DATE_RANGE dr validate_dump_range [OF dr(3)] show ?thesis
    by (cases p)
       (simp add: dump_period_def opt_field_def v_forbid_extra_def v_required_def v_optional_def
          v_default_def v_nullable_def v_of_option_def period_types_def validate_period_structure_def
          del: validate_date_range.simps)
qed

lemma dump_not_null: "dump_period p \<noteq> JNull" "dump_relative r \<noteq> JNull" "dump_dimension x \<noteq> JNull"
  by (simp add: dump_period_def, cases r, simp_all, cases x, simp_all)

theorem model_validate_dump:
  assumes "input_ok x"
  shows "model_validate (model_of x) (model_dump x) = VOk x"
proof -
  note v = v_forbid_extra_def v_required_def v_optional_def v_default_def v_nullable_def
    opt_field_def v_int_where_def limit_ok_def validate_dump_period dump_not_null
    v_of_option_def ranking_dimensions_def validate_input_defs
  show ?thesis
  proof (cases x)
    case (GetTopProductsInput p r l)
    then show ?thesis
      using assms
      by (cases r; cases l; (cases "the r")?)
         (simp_all add: v del: validate_period.simps)
  next
    case (GetStockLevelInput pid nm)
    then show ?thesis
      using assms by (cases pid; cases nm) (simp_all add: v identifier_present_def)
  next
    case (GetProductPriceInput pid nm)
    then show ?thesis
      using assms by (cases pid; cases nm) (simp_all add: v identifier_present_def)
  qed (use assms in \<open>auto simp: v simp del: validate_period.simps split: option.splits\<close>)
qed

text \<open>What \<open>validate_schema\<close> lets pass and what it raises.\<close>

lemma validate_schema_Inr:
  "validate_schema P m raw = Inr x \<Longrightarrow> input_ok x \<and> model_of x = m \<and> ''shop_id'' \<notin> set (map fst raw)"
  using model_validate_OK by (auto simp: validate_schema_def split: if_splits vres.splits)

lemma validate_schema_Inl:
  "validate_schema P m raw = Inl e \<Longrightarrow>
     (\<exists>msg es. e = SchemaValidationError msg es) \<or> (\<exists>msg. e = InvalidDateRangeError msg)"
  using model_validate_Raise
  by (auto simp: validate_schema_def shop_id_prohibited_def split: if_splits vres.splits)

end
