(* ===== verification/PyFloat.thy ===== *)
theory PyFloat
  imports PyDecimal "HOL-Library.Log_Nat"
begin

text \<open>
  Python's floating numbers as the rationals they denote: \<open>round_sig b n r\<close> is \<open>r\<close> rounded to
  \<open>n\<close> significant digits in base \<open>b\<close>, ties to even, which is the nearest double for \<open>b = 2\<close>,
  \<open>n = 53\<close> and the quotient of \<open>decimal\<close>'s default context for \<open>b = 10\<close>, \<open>n = 28\<close>. Overflow,
  subnormal numbers and the sign of zero are left out: no amount of the program comes near them.
\<close>

definition round_half_even :: "rat \<Rightarrow> int" where
  "round_half_even r =
     (let f = \<lfloor>r\<rfloor>; d = r - of_int f in
      if d < 1 / 2 then f else if 1 / 2 < d then f + 1 else if even f then f else f + 1)"

text \<open>The exponent \<open>e\<close> with \<open>b ^ e \<le> r < b ^ (e + 1)\<close>.\<close>

definition rat_exponent :: "nat \<Rightarrow> rat \<Rightarrow> int" where
  "rat_exponent b r =
     (if 1 \<le> r then int (floorlog b (nat \<lfloor>r\<rfloor>)) - 1
      else - int (floorlog b (nat (\<lceil>1 / r\<rceil> - 1))))"

definition rat_scale :: "nat \<Rightarrow> int \<Rightarrow> rat" where
  "rat_scale b k = (if 0 \<le> k then of_nat (b ^ nat k) else 1 / of_nat (b ^ nat (- k)))"

definition round_sig :: "nat \<Rightarrow> nat \<Rightarrow> rat \<Rightarrow> rat" where
  "round_sig b n r =
     (if r = 0 then 0
      else let k = rat_exponent b \<bar>r\<bar> - (int n - 1) in
           of_int (round_half_even (r / rat_scale b k)) * rat_scale b k)"

definition to_float :: "rat \<Rightarrow> rat" where
  "to_float r = round_sig 2 53 r"

definition decimal_quotient :: "rat \<Rightarrow> rat \<Rightarrow> rat" where
  "decimal_quotient a b = round_sig 10 28 (a / b)"

text \<open>\<open>round(x, 2)\<close>: the decimal nearest to the double, read back as a double.\<close>

definition round_2 :: "rat \<Rightarrow> rat" where
  "round_2 x = to_float (of_int (round_half_even (x * 100)) / 100)"

text \<open>\<open>f"{x:.1f}"\<close> of the exact value of the double.\<close>

definition fmt_1f :: "rat \<Rightarrow> string" where
  "fmt_1f x =
     (let n = round_half_even (x * 10); m = nat \<bar>n\<bar>
      in (if x < 0 then ''-'' else []) @ str_nat (m div 10) @ ''.'' @ [dig_char (m mod 10)])"

section \<open>Rounding is to a nearest number\<close>

lemma round_half_even_near: "\<bar>of_int (round_half_even r) - r\<bar> \<le> 1 / 2"
proof -
  have f: "of_int \<lfloor>r\<rfloor> \<le> r" "r < of_int \<lfloor>r\<rfloor> + 1" by linarith+
  consider "r - of_int \<lfloor>r\<rfloor> < 1 / 2" | "1 / 2 < r - of_int \<lfloor>r\<rfloor>" | "r - of_int \<lfloor>r\<rfloor> = 1 / 2"
    by linarith
  then show ?thesis using f by cases (auto simp: round_half_even_def Let_def abs_le_iff)
qed

lemma round_half_even_int [simp]: "round_half_even (of_int n) = n"
  by (simp add: round_half_even_def)

lemma round_half_even_mono: "x \<le> y \<Longrightarrow> round_half_even x \<le> round_half_even y"
proof -
  assume le: "x \<le> y"
  show ?thesis
  proof (cases "\<lfloor>x\<rfloor> = \<lfloor>y\<rfloor>")
    case True with le show ?thesis by (auto simp: round_half_even_def Let_def)
  next
    case False
    with floor_mono [OF le] have "\<lfloor>x\<rfloor> + 1 \<le> \<lfloor>y\<rfloor>" by simp
    moreover have "round_half_even x \<le> \<lfloor>x\<rfloor> + 1" "\<lfloor>y\<rfloor> \<le> round_half_even y"
      by (simp_all add: round_half_even_def Let_def)
    ultimately show ?thesis by simp
  qed
qed

lemma round_sig_zero [simp]: "round_sig b n 0 = 0"
  by (simp add: round_sig_def)

lemma to_float_zero [simp]: "to_float 0 = 0"
  by (simp add: to_float_def)

lemma rat_scale_pos: "0 < b \<Longrightarrow> 0 < rat_scale b k"
  by (simp add: rat_scale_def)

lemma round_half_even_sign: "0 \<le> x \<Longrightarrow> 0 \<le> round_half_even x" "x \<le> 0 \<Longrightarrow> round_half_even x \<le> 0"
  using round_half_even_mono [of 0 x] round_half_even_mono [of x 0] round_half_even_int [of 0]
  by simp_all

lemma round_sig_sign:
  assumes "0 < (b :: nat)"
  shows "0 \<le> r \<Longrightarrow> 0 \<le> round_sig b n r" "r \<le> 0 \<Longrightarrow> round_sig b n r \<le> 0"
proof -
  note p = rat_scale_pos [OF assms]
  show "0 \<le> round_sig b n r" if "0 \<le> r"
    unfolding round_sig_def Let_def
    using that p by (auto intro!: mult_nonneg_nonneg round_half_even_sign(1) divide_nonneg_pos less_imp_le [OF p])
  show "round_sig b n r \<le> 0" if "r \<le> 0"
    unfolding round_sig_def Let_def
    using that p by (auto intro!: mult_nonpos_nonneg round_half_even_sign(2) divide_nonpos_pos less_imp_le [OF p])
qed

lemma to_float_sign: "0 \<le> r \<Longrightarrow> 0 \<le> to_float r" "r \<le> 0 \<Longrightarrow> to_float r \<le> 0"
  using round_sig_sign [of 2 r 53] by (simp_all add: to_float_def)

end
