(* ===== verification/ToolHandlers.thy ===== *)
theory ToolHandlers
  imports Tools PyFloat Primitives
begin

text \<open>
  \<open>app/ai/product_resolver.py\<close> and \<open>app/ai/handlers/\<close>: the seven analytics tools. A handler
  reads the database of the caller's shop and changes nothing; \<open>datetime.now\<close> is the clock of the
  environment. Amounts of money are cents; floating numbers are the rationals they denote.
\<close>

definition lift_exc :: "'a res \<Rightarrow> ai_error + 'a" where
  "lift_exc r = (case r of Inl e \<Rightarrow> Inl (OtherError e) | Inr x \<Rightarrow> Inr x)"

definition e_then :: "'e + 'a \<Rightarrow> ('a \<Rightarrow> 'e + 'b) \<Rightarrow> 'e + 'b" where
  "e_then r f = (case r of Inl e \<Rightarrow> Inl e | Inr x \<Rightarrow> f x)"

lemma e_then_simps [simp]: "e_then (Inl e) f = Inl e" "e_then (Inr x) f = f x"
  by (simp_all add: e_then_def)

lemma e_then_Inr: "e_then r f = Inr y \<longleftrightarrow> (\<exists>x. r = Inr x \<and> f x = Inr y)"
  by (cases r) auto

lemma e_then_Inl: "e_then r f = Inl e \<longleftrightarrow> r = Inl e \<or> (\<exists>x. r = Inr x \<and> f x = Inl e)"
  by (cases r) auto

section \<open>Products by name\<close>

definition CONFIDENCE_DELTA_MARGIN :: rat where
  "CONFIDENCE_DELTA_MARGIN = to_float (3 / 20)"

definition resolver_limit :: nat where
  "resolver_limit = 5"

definition resolve_product ::
  "'z db_env_scheme \<Rightarrow> uuid \<Rightarrow> string \<Rightarrow> world \<Rightarrow> product_resolution res" where
  "resolve_product E sid search_term w =
     (let cleaned_term = strip search_term;
          not_found = \<lparr>pr_status = RS_NOT_FOUND, pr_product = None, pr_candidates = []\<rparr> in
      if cleaned_term = [] then Inr not_found
      else e_then (fst (get_products_by_fuzzy_name E sid cleaned_term resolver_limit w))
        (\<lambda>ms. case ms of
           [] \<Rightarrow> Inr not_found
         | top_match # rest \<Rightarrow>
             if confident_match_threshold (cfg E) \<le> similarity_score top_match
                \<and> (case rest of
                     [] \<Rightarrow> True
                   | second # _ \<Rightarrow>
                       CONFIDENCE_DELTA_MARGIN
                         \<le> to_float (similarity_score top_match - similarity_score second))
             then Inr \<lparr>pr_status = RS_EXACT_MATCH, pr_product = Some top_match, pr_candidates = [top_match]\<rparr>
             else Inr \<lparr>pr_status = RS_AMBIGUOUS, pr_product = None, pr_candidates = ms\<rparr>))"

section \<open>Sales tools\<close>

definition bounds_of :: "'z db_env_scheme \<Rightarrow> reporting_period \<Rightarrow> ai_error + time \<times> time" where
  "bounds_of E p = resolve_period_boundaries p (now E)"

definition handle_get_sales_summary ::
  "'z db_env_scheme \<Rightarrow> uuid \<Rightarrow> reporting_period \<Rightarrow> world \<Rightarrow> ai_error + tool_output" where
  "handle_get_sales_summary E sid p w =
     e_then (bounds_of E p)
       (\<lambda>(t0, t1).
          let summary = get_total_revenue_and_count sid t0 t1 (work w) in
          Inr (GetSalesSummaryOutput (rs_revenue summary) (rs_count summary)))"

definition handle_get_top_products ::
  "'z db_env_scheme \<Rightarrow> uuid \<Rightarrow> reporting_period \<Rightarrow> ranking_dimension option \<Rightarrow> int option \<Rightarrow>
   world \<Rightarrow> ai_error + tool_output" where
  "handle_get_top_products E sid p dimension l w =
     (let lmt = (case l of None \<Rightarrow> 5 | Some n \<Rightarrow> nat n) in
      e_then (bounds_of E p)
       (\<lambda>(t0, t1).
          let (units_rows, revenue_rows) = get_top_moving_products sid t0 t1 (work w) in
          Inr (GetTopProductsOutput
            (if dimension \<in> {None, Some RD_UNITS}
             then Some (map (\<lambda>r. \<lparr>ti_product_id = tu_product_id r, ti_name = tu_name r,
                                  ti_units_sold = Some (tu_units r), ti_revenue = None\<rparr>)
                          (take lmt units_rows))
             else None)
            (if dimension \<in> {None, Some RD_REVENUE}
             then Some (map (\<lambda>r. \<lparr>ti_product_id = tr_product_id r, ti_name = tr_name r,
                                  ti_units_sold = None, ti_revenue = Some (tr_revenue r)\<rparr>)
                          (take lmt revenue_rows))
             else None))))"

text \<open>
  The change of the revenue divides in \<open>Decimal\<close>, that of the number of transactions in floating
  point.
\<close>

definition revenue_change :: "int \<Rightarrow> int \<Rightarrow> rat" where
  "revenue_change curr_rev prev_rev =
     (if prev_rev > 0
      then to_float (decimal_quotient (of_int (curr_rev - prev_rev)) (of_int prev_rev) * 100)
      else if curr_rev > 0 then 100 else 0)"

definition transaction_change :: "nat \<Rightarrow> nat \<Rightarrow> rat" where
  "transaction_change curr_tx prev_tx =
     (if prev_tx > 0
      then to_float (to_float ((of_nat curr_tx - of_nat prev_tx) / of_nat prev_tx) * 100)
      else if curr_tx > 0 then 100 else 0)"

definition handle_get_sales_trend ::
  "'z db_env_scheme \<Rightarrow> uuid \<Rightarrow> reporting_period \<Rightarrow> reporting_period option \<Rightarrow>
   world \<Rightarrow> ai_error + tool_output" where
  "handle_get_sales_trend E sid p comparison w =
     e_then (bounds_of E p)
       (\<lambda>(c0, c1).
          e_then (case comparison of
                    Some q \<Rightarrow> bounds_of E q
                  | None \<Rightarrow> resolve_previous_period_boundaries p (now E))
            (\<lambda>(p0, p1).
               let curr = get_total_revenue_and_count sid c0 c1 (work w);
                   prev = get_total_revenue_and_count sid p0 p1 (work w) in
               Inr (GetSalesTrendOutput (rs_revenue curr) (rs_revenue prev)
                 (round_2 (revenue_change (rs_revenue curr) (rs_revenue prev)))
                 (rs_count curr) (rs_count prev)
                 (round_2 (transaction_change (rs_count curr) (rs_count prev))))))"

section \<open>Stock tools\<close>

definition nil_uuid :: uuid where
  "nil_uuid = 0"

definition own_product :: "uuid \<Rightarrow> uuid \<Rightarrow> string \<Rightarrow> world \<Rightarrow> ai_error + product_row" where
  "own_product sid pid asked w =
     (case product_by_id pid (work w) of
        None \<Rightarrow> Inl (ProductNotFoundError asked)
      | Some p \<Rightarrow> if p_shop_id p \<noteq> sid then Inl (ProductNotFoundError asked) else Inr p)"

text \<open>The selection of the product, the same code in both product tools.\<close>

definition select_product ::
  "'z db_env_scheme \<Rightarrow> uuid \<Rightarrow> uuid option \<Rightarrow> string option \<Rightarrow> world \<Rightarrow> ai_error + product_row" where
  "select_product E sid pid nm w =
     (if pid \<noteq> None \<and> pid \<noteq> Some nil_uuid then own_product sid (the pid) (uuid_str (the pid)) w
      else case nm of
        None \<Rightarrow> Inl (ProductNotFoundError ''Product identifier not provided'')
      | Some n \<Rightarrow>
          if n = [] then Inl (ProductNotFoundError ''Product identifier not provided'')
          else e_then (lift_exc (resolve_product E sid n w))
            (\<lambda>r. case (pr_status r, pr_product r) of
                   (RS_EXACT_MATCH, Some m) \<Rightarrow> own_product sid (sm_id m) n w
                 | (RS_AMBIGUOUS, _) \<Rightarrow> Inl (ProductAmbiguousError n (pr_candidates r))
                 | _ \<Rightarrow> Inl (ProductNotFoundError n)))"

definition handle_get_stock_level ::
  "'z db_env_scheme \<Rightarrow> uuid \<Rightarrow> uuid option \<Rightarrow> string option \<Rightarrow> world \<Rightarrow> ai_error + tool_output" where
  "handle_get_stock_level E sid pid nm w =
     e_then (select_product E sid pid nm w)
       (\<lambda>p. let inv = get_by_product_id (p_id p) (work w);
                qty = (case inv of None \<Rightarrow> 0 | Some i \<Rightarrow> i_quantity i);
                threshold = (case inv of None \<Rightarrow> 0 | Some i \<Rightarrow> i_threshold i) in
            Inr (GetStockLevelOutput (p_id p) (p_name p) qty threshold (p_price p) (qty \<le> threshold)))"

definition handle_get_low_stock_items :: "uuid \<Rightarrow> world \<Rightarrow> ai_error + tool_output" where
  "handle_get_low_stock_items sid w =
     (let items = map (\<lambda>r. \<lparr>li_product_id = ls_id r, li_name = ls_name r, li_stock = ls_quantity r,
                            li_threshold = ls_threshold r\<rparr>)
                    (get_products_with_low_stock sid (work w)) in
      Inr (GetLowStockItemsOutput items (length items)))"

text \<open>The driver refuses a query parameter beyond \<open>bigint\<close>.\<close>

definition int64 :: "int \<Rightarrow> bool" where
  "int64 n \<longleftrightarrow> - (2 ^ 63) \<le> n \<and> n < 2 ^ 63"

definition handle_get_slow_moving_items ::
  "'z db_env_scheme \<Rightarrow> uuid \<Rightarrow> reporting_period \<Rightarrow> int \<Rightarrow> int option \<Rightarrow>
   world \<Rightarrow> ai_error + tool_output" where
  "handle_get_slow_moving_items E sid p max_sales_count l w =
     e_then (bounds_of E p)
       (\<lambda>(t0, t1).
          let lmt = (case l of None \<Rightarrow> 10 | Some n \<Rightarrow> n) in
          if int64 max_sales_count \<and> int64 lmt
          then (let rows = get_slow_moving_products sid t0 t1 max_sales_count (nat lmt) (work w) in
                Inr (GetSlowMovingItemsOutput rows (length rows)))
          else Inl (OtherError DataError))"

definition handle_get_product_price ::
  "'z db_env_scheme \<Rightarrow> uuid \<Rightarrow> uuid option \<Rightarrow> string option \<Rightarrow> world \<Rightarrow> ai_error + tool_output" where
  "handle_get_product_price E sid pid nm w =
     e_then (select_product E sid pid nm w)
       (\<lambda>p. Inr (GetProductPriceOutput (p_id p) (p_name p) (p_price p) (p_sku p)))"

text \<open>The handler an input is bound to.\<close>

fun tool_handler :: "'z db_env_scheme \<Rightarrow> uuid \<Rightarrow> tool_input \<Rightarrow> world \<Rightarrow> ai_error + tool_output" where
  "tool_handler E sid (GetSalesSummaryInput p) w = handle_get_sales_summary E sid p w"
| "tool_handler E sid (GetTopProductsInput p d l) w = handle_get_top_products E sid p d l w"
| "tool_handler E sid (GetStockLevelInput pid nm) w = handle_get_stock_level E sid pid nm w"
| "tool_handler E sid GetLowStockItemsInput w = handle_get_low_stock_items sid w"
| "tool_handler E sid (GetSalesTrendInput p c) w = handle_get_sales_trend E sid p c w"
| "tool_handler E sid (GetSlowMovingItemsInput p m l) w = handle_get_slow_moving_items E sid p m l w"
| "tool_handler E sid (GetProductPriceInput pid nm) w = handle_get_product_price E sid pid nm w"

section \<open>Only the shop's own rows are read\<close>

text \<open>
  The rows a shop may see: its products and those its sales name, the inventory of its products,
  its sales.
\<close>

definition shop_view :: "uuid \<Rightarrow> db \<Rightarrow> db" where
  "shop_view sid d =
     (let own = map p_id (filter (\<lambda>p. p_shop_id p = sid) (products d));
          sold = map s_product_id (filter (\<lambda>s. s_shop_id s = sid) (sales d)) in
      d\<lparr>shops := filter (\<lambda>s. sh_id s = sid) (shops d),
        products := filter (\<lambda>p. p_shop_id p = sid \<or> p_id p \<in> set sold) (products d),
        inventory := filter (\<lambda>i. i_product_id i \<in> set own) (inventory d),
        sales := filter (\<lambda>s. s_shop_id s = sid) (sales d)\<rparr>)"

lemma concat_map_filter:
  "(\<And>x. x \<in> set xs \<Longrightarrow> \<not> Q x \<Longrightarrow> f x = []) \<Longrightarrow> concat (map f (filter Q xs)) = concat (map f xs)"
  by (induction xs) auto

lemma view_sales_between [simp]: "sales_between sid t0 t1 (shop_view sid d) = sales_between sid t0 t1 d"
  by (auto simp: sales_between_def shop_view_def Let_def intro: filter_cong)

lemma view_revenue [simp]:
  "get_total_revenue_and_count sid t0 t1 (shop_view sid d) = get_total_revenue_and_count sid t0 t1 d"
  by (simp add: get_total_revenue_and_count_def)

lemma view_measure_sums:
  "measure_sums f (sales_between sid t0 t1 d) (shop_view sid d) = measure_sums f (sales_between sid t0 t1 d) d"
  unfolding measure_sums_def shop_view_def Let_def
  by (simp, rule concat_map_filter) (auto simp: sales_between_def)

lemma view_top [simp]:
  "get_top_moving_products sid t0 t1 (shop_view sid d) = get_top_moving_products sid t0 t1 d"
  by (simp add: get_top_moving_products_def view_measure_sums)

lemma view_inventory:
  "p \<in> set (products d) \<Longrightarrow> p_shop_id p = sid \<Longrightarrow>
     filter (\<lambda>i. i_product_id i = p_id p) (inventory (shop_view sid d)) =
     filter (\<lambda>i. i_product_id i = p_id p) (inventory d)"
  by (auto simp: shop_view_def Let_def intro!: filter_cong)

lemma find_filter_hd: "find P xs = (case filter P xs of [] \<Rightarrow> None | x # _ \<Rightarrow> Some x)"
  by (induction xs) auto

lemma view_get_by_product_id:
  "p \<in> set (products d) \<Longrightarrow> p_shop_id p = sid \<Longrightarrow>
     get_by_product_id (p_id p) (shop_view sid d) = get_by_product_id (p_id p) d"
  by (simp add: get_by_product_id_def find_filter_hd view_inventory)

lemma view_products:
  "filter (\<lambda>p. p_shop_id p = sid \<and> P p) (products (shop_view sid d)) =
   filter (\<lambda>p. p_shop_id p = sid \<and> P p) (products d)"
  by (auto simp: shop_view_def Let_def intro!: filter_cong)

lemma low_stock_alt:
  "get_products_with_low_stock sid d =
     concat (map (\<lambda>p. map (\<lambda>i. \<lparr>ls_id = p_id p, ls_name = p_name p, ls_quantity = i_quantity i,
                             ls_threshold = i_threshold i\<rparr>)
                 (filter (\<lambda>i. i_quantity i \<le> i_threshold i)
                    (filter (\<lambda>i. i_product_id i = p_id p) (inventory d))))
       (filter (\<lambda>p. p_shop_id p = sid \<and> True) (products d)))"
proof -
  have i: "concat (map (\<lambda>i. if i_product_id i = k then if i_quantity i \<le> i_threshold i then [g i] else [] else []) is)
      = map g (filter (\<lambda>i. i_quantity i \<le> i_threshold i) (filter (\<lambda>i. i_product_id i = k) is))" for k g "is"
    by (induction "is") auto
  have p: "concat (map (\<lambda>p. if p_shop_id p = sid then h p else []) ps)
      = concat (map h (filter (\<lambda>p. p_shop_id p = sid) ps))" for h and ps :: "product_row list"
    by (induction ps) auto
  show ?thesis by (simp add: get_products_with_low_stock_def i p)
qed

lemma view_low_stock [simp]:
  "get_products_with_low_stock sid (shop_view sid d) = get_products_with_low_stock sid d"
  unfolding low_stock_alt view_products
  by (rule arg_cong [where f = concat], rule map_cong [OF refl])
     (simp add: view_inventory del: filter_filter)

lemma view_slow [simp]:
  "get_slow_moving_products sid t0 t1 m n (shop_view sid d) = get_slow_moving_products sid t0 t1 m n d"
proof -
  have p: "concat (map (\<lambda>p. if p_shop_id p = sid then [h p] else []) ps)
      = map h (filter (\<lambda>p. p_shop_id p = sid \<and> True) ps)"
    for h :: "product_row \<Rightarrow> slow_row" and ps
    by (induction ps) auto
  show ?thesis
    unfolding get_slow_moving_products_def Let_def p view_products view_sales_between
    by (rule arg_cong [where f = "\<lambda>rs. take n (sort_key sl_units (sort_key sl_name (filter _ rs)))"],
        rule map_cong [OF refl]) (simp add: view_get_by_product_id)
qed

lemma view_fuzzy:
  "fst (get_products_by_fuzzy_name E sid q n (w\<lparr>work := shop_view sid (work w)\<rparr>)) =
   fst (get_products_by_fuzzy_name E sid q n w)"
  unfolding get_products_by_fuzzy_name_def Let_def by (simp add: view_products)

lemma find_distinct:
  "distinct (map f xs) \<Longrightarrow> find (\<lambda>x. f x = k) xs = Some x \<longleftrightarrow> x \<in> set xs \<and> f x = k"
  by (induction xs) auto

lemma own_product_Inr:
  assumes "distinct (map p_id (products (work w)))"
  shows "own_product sid pid asked w = Inr p \<longleftrightarrow>
    p \<in> set (products (work w)) \<and> p_id p = pid \<and> p_shop_id p = sid"
proof (cases "product_by_id pid (work w)")
  case None
  with find_distinct [OF assms, of pid] have "\<not> (q \<in> set (products (work w)) \<and> p_id q = pid)" for q
    unfolding product_by_id_def by (metis option.distinct(1))
  with None show ?thesis by (auto simp: own_product_def)
next
  case (Some q)
  with find_distinct [OF assms, of pid] have "q = p \<longleftrightarrow> p \<in> set (products (work w)) \<and> p_id p = pid"
    unfolding product_by_id_def by (metis option.inject)
  then have "own_product sid pid asked w = Inr p \<longleftrightarrow> q = p \<and> p_shop_id p = sid"
    using Some by (auto simp: own_product_def)
  with \<open>q = p \<longleftrightarrow> _\<close> show ?thesis by blast
qed

lemma own_product_Inl: "own_product sid pid asked w = Inl e \<Longrightarrow> e = ProductNotFoundError asked"
  by (auto simp: own_product_def split: option.splits if_splits)

lemma view_own_product:
  assumes "distinct (map p_id (products (work w)))"
  shows "own_product sid pid asked (w\<lparr>work := shop_view sid (work w)\<rparr>) = own_product sid pid asked w"
proof -
  let ?w = "w\<lparr>work := shop_view sid (work w)\<rparr>"
  have "distinct (map p_id (products (work ?w)))"
    using assms by (simp add: shop_view_def Let_def distinct_map_filter)
  note own = own_product_Inr [OF this] own_product_Inr [OF assms]
  have same: "own_product sid pid asked ?w = Inr p \<longleftrightarrow> own_product sid pid asked w = Inr p" for p
    unfolding own by (auto simp: shop_view_def Let_def)
  show ?thesis
  proof (cases "own_product sid pid asked w")
    case (Inl e)
    with same have "\<not> is_ok (own_product sid pid asked ?w)" by (auto simp: is_ok_iff)
    then obtain e' where "own_product sid pid asked ?w = Inl e'" by (cases "own_product sid pid asked ?w") auto
    with Inl show ?thesis using own_product_Inl by metis
  next
    case (Inr p)
    then show ?thesis using same [of p] by simp
  qed
qed

lemma view_resolve:
  "resolve_product E sid q (w\<lparr>work := shop_view sid (work w)\<rparr>) = resolve_product E sid q w"
  unfolding resolve_product_def Let_def view_fuzzy by (rule refl)

lemma view_select_product:
  assumes "distinct (map p_id (products (work w)))"
  shows "select_product E sid pid nm (w\<lparr>work := shop_view sid (work w)\<rparr>) = select_product E sid pid nm w"
  unfolding select_product_def view_own_product [OF assms] view_resolve by (rule refl)

lemma select_product_own:
  assumes "distinct (map p_id (products (work w)))" "select_product E sid pid nm w = Inr p"
  shows "p \<in> set (products (work w)) \<and> p_shop_id p = sid"
  using assms own_product_Inr [OF assms(1)]
  by (auto simp: select_product_def e_then_Inr split: if_splits option.splits resolution_status.splits)

lemma world_ok_distinct_products: "world_ok w \<Longrightarrow> distinct (map p_id (products (work w)))"
  by (simp add: world_ok_def db_ok_def constraints_def product_constraints_def)

text \<open>Whatever a model asks for, the answer depends on the rows of the shop alone.\<close>

lemma tool_handler_view:
  assumes "world_ok w"
  shows "tool_handler E sid x (w\<lparr>work := shop_view sid (work w)\<rparr>) = tool_handler E sid x w"
proof -
  note dist = world_ok_distinct_products [OF assms]
  have inv: "get_by_product_id (p_id p) (shop_view sid (work w)) = get_by_product_id (p_id p) (work w)"
    if "select_product E sid pid nm w = Inr p" for p pid nm
    using select_product_own [OF dist that] by (intro view_get_by_product_id) auto
  have level: "handle_get_stock_level E sid pid nm (w\<lparr>work := shop_view sid (work w)\<rparr>) =
      handle_get_stock_level E sid pid nm w" for pid nm
    unfolding handle_get_stock_level_def view_select_product [OF dist]
    by (cases "select_product E sid pid nm w") (simp_all add: inv)
  show ?thesis
  proof (cases x)
    case (GetProductPriceInput pid nm)
    then show ?thesis by (simp add: handle_get_product_price_def view_select_product [OF dist])
  qed (simp_all add: level handle_get_sales_summary_def handle_get_top_products_def
        handle_get_sales_trend_def handle_get_low_stock_items_def handle_get_slow_moving_items_def
        cong: if_cong)
qed

lemma own_product_work: "work w = work w' \<Longrightarrow> own_product sid pid asked w = own_product sid pid asked w'"
  by (simp add: own_product_def)

lemma select_product_work:
  assumes "work w = work w'" shows "select_product E sid pid nm w = select_product E sid pid nm w'"
proof -
  have "fst (get_products_by_fuzzy_name E sid q n w) = fst (get_products_by_fuzzy_name E sid q n w')" for q n
    using assms by (simp add: get_products_by_fuzzy_name_def Let_def)
  then have r: "resolve_product E sid n w = resolve_product E sid n w'" for n
    by (simp add: resolve_product_def Let_def)
  show ?thesis unfolding select_product_def r own_product_work [OF assms] by (rule refl)
qed

lemma tool_handler_work:
  assumes "work w = work w'" shows "tool_handler E sid x w = tool_handler E sid x w'"
  by (cases x) (simp_all add: assms select_product_work [OF assms] handle_get_sales_summary_def
      handle_get_top_products_def
      handle_get_sales_trend_def handle_get_low_stock_items_def handle_get_slow_moving_items_def
      handle_get_product_price_def handle_get_stock_level_def cong: if_cong)

corollary tool_handler_isolated:
  assumes "world_ok w" "world_ok w'" "shop_view sid (work w) = shop_view sid (work w')"
  shows "tool_handler E sid x w = tool_handler E sid x w'"
proof -
  have "tool_handler E sid x (w'\<lparr>work := shop_view sid (work w')\<rparr>) =
        tool_handler E sid x (w\<lparr>work := shop_view sid (work w)\<rparr>)"
    by (rule tool_handler_work) (simp add: assms(3))
  with tool_handler_view [OF assms(1)] tool_handler_view [OF assms(2)] show ?thesis by metis
qed

end
