(* ===== verification/Executor.thy ===== *)
theory Executor
  imports ToolHandlers
begin

text \<open>
  \<open>app/ai/registry.py\<close>, \<open>app/ai/contracts/execution.py\<close> and \<open>app/ai/executor.py\<close>: the registered
  tools, and the execution of a call a model proposes. The executor never raises: it answers an
  envelope that holds either the output or the error. The JSON schema pydantic derives from an
  input class is a parameter. Interface \<open>tool_surface\<close>: what the callers of the executor rely on.
\<close>

section \<open>The registry\<close>

type_synonym tool_handler_fun = "uuid \<Rightarrow> tool_input \<Rightarrow> world \<Rightarrow> ai_error + tool_output"

record tool_definition =
  td_name :: string
  td_description :: string
  td_input :: input_model
  td_handler :: tool_handler_fun

type_synonym registry = "(string \<times> tool_definition) list"

definition register_tool ::
  "string \<Rightarrow> string \<Rightarrow> input_model \<Rightarrow> tool_handler_fun \<Rightarrow> registry \<Rightarrow> registry" where
  "register_tool n descr m h tools =
     dict_set n \<lparr>td_name = n, td_description = descr, td_input = m, td_handler = h\<rparr> tools"

definition get_tool :: "registry \<Rightarrow> string \<Rightarrow> ai_error + tool_definition" where
  "get_tool tools n = (case map_of tools n of None \<Rightarrow> Inl (ToolNotFoundError n) | Some t \<Rightarrow> Inr t)"

definition list_tools :: "registry \<Rightarrow> tool_definition list" where
  "list_tools tools = map snd tools"

definition get_openai_tools :: "(input_model \<Rightarrow> dict) \<Rightarrow> registry \<Rightarrow> json list" where
  "get_openai_tools schema tools =
     map (\<lambda>t. JObj [(''type'', JStr ''function''),
                    (''function'', JObj [(''name'', JStr (td_name t)),
                       (''description'', JStr (td_description t)),
                       (''parameters'', JObj (filter (\<lambda>kv. fst kv \<noteq> ''title'') (schema (td_input t))))])])
       (list_tools tools)"

definition build_default_registry :: "'z db_env_scheme \<Rightarrow> registry" where
  "build_default_registry E =
     (let h = tool_handler E in
      register_tool ''get_product_price''
        ''Retrieves the unit selling price and SKU for a specific product name or ID.''
        IM_ProductPrice h
     (register_tool ''get_slow_moving_items''
        (''Identifies products with little or no sales activity over a requested '' @
         ''reporting period.'')
        IM_SlowMovingItems h
     (register_tool ''get_sales_trend''
        ''Compares sales performance (revenue and transaction volume) between periods.''
        IM_SalesTrend h
     (register_tool ''get_low_stock_items''
        ''Returns all products currently at or below their configured low-stock thresholds.''
        IM_LowStockItems h
     (register_tool ''get_stock_level''
        (''Retrieves current stock level, low-stock threshold, and price for a specific '' @
         ''product ID.'')
        IM_StockLevel h
     (register_tool ''get_top_products''
        (''Returns product rankings by units sold and/or revenue over a requested '' @
         ''reporting period.'')
        IM_TopProducts h
     (register_tool ''get_sales_summary''
        (''Calculates total revenue and transaction count for a shop over a requested '' @
         ''reporting period.'')
        IM_SalesSummary h [])))))))"

text \<open>\<open>ToolRegistry.execute_tool\<close> raises what validation and handler raise.\<close>

definition execute_tool ::
  "pydantic \<Rightarrow> registry \<Rightarrow> string \<Rightarrow> uuid \<Rightarrow> dict \<Rightarrow> world \<Rightarrow> ai_error + tool_output" where
  "execute_tool P tools n sid raw_args w =
     e_then (get_tool tools n)
       (\<lambda>t. e_then (validate_schema P (td_input t) raw_args)
          (\<lambda>x. td_handler t sid x w))"

section \<open>The executor\<close>

datatype error_details =
    DetailToolName string
  | DetailValidationErrors "string list"
  | DetailCandidates "scored_match list"

record tool_execution_error =
  xe_type :: string
  xe_message :: string
  xe_details :: "error_details option"

record tool_execution_result =
  is_success :: bool
  xr_tool :: string
  xr_data :: "tool_output option"
  xr_arguments :: dict
  xr_error :: "tool_execution_error option"

definition success :: "string \<Rightarrow> tool_output \<Rightarrow> dict \<Rightarrow> tool_execution_result" where
  "success n out args =
     \<lparr>is_success = True, xr_tool = n, xr_data = Some out, xr_arguments = args, xr_error = None\<rparr>"

definition failure :: "string \<Rightarrow> string \<Rightarrow> string \<Rightarrow> error_details option \<Rightarrow> tool_execution_result" where
  "failure n ty msg details =
     \<lparr>is_success = False, xr_tool = n, xr_data = None, xr_arguments = [],
      xr_error = Some \<lparr>xe_type = ty, xe_message = msg, xe_details = details\<rparr>\<rparr>"

fun candidates_of :: "ai_error \<Rightarrow> error_details option" where
  "candidates_of (ProductAmbiguousError t cs) = Some (DetailCandidates cs)"
| "candidates_of _ = None"

text \<open>The handlers of the structural validation: a domain error keeps its type.\<close>

fun validation_failure :: "string \<Rightarrow> ai_error \<Rightarrow> tool_execution_result" where
  "validation_failure n (SchemaValidationError m es) =
     failure n ''SchemaValidationError'' m (Some (DetailValidationErrors es))"
| "validation_failure n e = failure n (ai_type_name e) (ai_message e) None"

text \<open>
  The handlers of the execution: domain errors, with the candidates of an ambiguous name,
  infrastructure errors, and any other exception by its type and text.
\<close>

definition execution_failure :: "string \<Rightarrow> ai_error \<Rightarrow> tool_execution_result" where
  "execution_failure n e =
     (if is_domain_error e then failure n (ai_type_name e) (ai_message e) (candidates_of e)
      else failure n (ai_type_name e) (ai_message e) None)"

definition execute_call ::
  "pydantic \<Rightarrow> registry \<Rightarrow> string \<Rightarrow> dict \<Rightarrow> uuid \<Rightarrow> world \<Rightarrow> tool_execution_result" where
  "execute_call P tools n raw_args sid w =
     (case get_tool tools n of
        Inl e \<Rightarrow> failure n ''ToolNotFoundError'' (ai_message e) (Some (DetailToolName n))
      | Inr t \<Rightarrow>
          (case validate_schema P (td_input t) raw_args of
             Inl e \<Rightarrow> validation_failure n e
           | Inr x \<Rightarrow>
               (case td_handler t sid x w of
                  Inl e \<Rightarrow> execution_failure n e
                | Inr out \<Rightarrow> success n out (model_dump x))))"

section \<open>Properties\<close>

lemma failure_simps [simp]:
  "is_success (failure n ty m d) = False" "xr_tool (failure n ty m d) = n"
  "xr_error (failure n ty m d) = Some \<lparr>xe_type = ty, xe_message = m, xe_details = d\<rparr>"
  "is_success (success n out args) = True" "xr_tool (success n out args) = n"
  "xr_error (success n out args) = None" "xr_data (success n out args) = Some out"
  "xr_arguments (success n out args) = args"
  by (simp_all add: failure_def success_def)

lemma validation_failure_simps [simp]:
  "is_success (validation_failure n e) = False" "xr_tool (validation_failure n e) = n"
  "\<exists>y. xr_error (validation_failure n e) = Some y"
  by (cases e; simp)+

lemma execution_failure_simps [simp]:
  "is_success (execution_failure n e) = False" "xr_tool (execution_failure n e) = n"
  "\<exists>y. xr_error (execution_failure n e) = Some y"
  by (simp_all add: execution_failure_def)

text \<open>The executor is the registry's execution in an envelope.\<close>

lemma execute_refines:
  "is_success (execute_call P tools n args sid w) \<longleftrightarrow> is_ok (execute_tool P tools n sid args w)"
  "execute_tool P tools n sid args w = Inr out \<Longrightarrow> xr_data (execute_call P tools n args sid w) = Some out"
  by (auto simp: execute_call_def execute_tool_def e_then_def split: sum.splits)

lemma execute_success:
  assumes "is_success (execute_call P tools n args sid w)"
  obtains t x out where "map_of tools n = Some t" "validate_schema P (td_input t) args = Inr x"
    "td_handler t sid x w = Inr out" "execute_call P tools n args sid w = success n out (model_dump x)"
  using assms by (auto simp: execute_call_def get_tool_def split: sum.splits option.splits)

locale tool_surface =
  fixes exec :: "string \<Rightarrow> dict \<Rightarrow> world \<Rightarrow> tool_execution_result"
    and known :: "string \<Rightarrow> bool"
  assumes tool: "xr_tool (exec n args w) = n"
    and data: "is_success (exec n args w) \<Longrightarrow> known n \<and> xr_data (exec n args w) \<noteq> None"
    and error: "\<not> is_success (exec n args w) \<Longrightarrow> xr_error (exec n args w) \<noteq> None"
    and scope: "''shop_id'' \<in> set (map fst args) \<Longrightarrow> \<not> is_success (exec n args w)"
begin

lemma outcome_cases:
  obtains (success) d where "is_success (exec n args w)" "xr_data (exec n args w) = Some d"
    | (failure) e where "\<not> is_success (exec n args w)" "xr_error (exec n args w) = Some e"
  using data error by fast

lemma unknown_fails: "\<not> known n \<Longrightarrow> \<not> is_success (exec n args w)"
  using data by blast

end

interpretation executor: tool_surface "\<lambda>n args w. execute_call P tools n args sid w"
  "\<lambda>n. n \<in> fst ` set tools" for P tools sid
proof
  fix n args w
  show "xr_tool (execute_call P tools n args sid w) = n"
    by (auto simp: execute_call_def split: sum.split)
  show "is_success (execute_call P tools n args sid w) \<Longrightarrow>
      n \<in> fst ` set tools \<and> xr_data (execute_call P tools n args sid w) \<noteq> None"
    by (elim execute_success) (auto dest!: map_of_SomeD intro: image_eqI [of _ fst "(n, _)"])
  show "\<not> is_success (execute_call P tools n args sid w) \<Longrightarrow> xr_error (execute_call P tools n args sid w) \<noteq> None"
    by (auto simp: execute_call_def split: sum.splits)
  show "''shop_id'' \<in> set (map fst args) \<Longrightarrow> \<not> is_success (execute_call P tools n args sid w)"
    by (auto simp: execute_call_def validate_schema_def split: sum.splits)
qed

text \<open>The default registry, evaluated.\<close>

definition default_tools :: "(string \<times> input_model) list" where
  "default_tools =
     [(''get_sales_summary'', IM_SalesSummary), (''get_top_products'', IM_TopProducts),
      (''get_stock_level'', IM_StockLevel), (''get_low_stock_items'', IM_LowStockItems),
      (''get_sales_trend'', IM_SalesTrend), (''get_slow_moving_items'', IM_SlowMovingItems),
      (''get_product_price'', IM_ProductPrice)]"

lemma default_registry_tools:
  "map (\<lambda>(n, t). (n, td_input t)) (build_default_registry E) = default_tools"
  by (simp add: build_default_registry_def register_tool_def default_tools_def Let_def)

lemma default_registry_entry:
  "(n, t) \<in> set (build_default_registry E) \<Longrightarrow> td_name t = n \<and> td_handler t = tool_handler E"
  by (auto simp: build_default_registry_def register_tool_def Let_def)

lemma default_registry_get:
  "map_of (build_default_registry E) n = Some t \<Longrightarrow>
     td_handler t = tool_handler E \<and> map_of default_tools n = Some (td_input t)"
  using default_registry_entry [of n t E]
  by (auto dest: map_of_SomeD simp: default_registry_tools [of E, symmetric] map_of_map)

lemma execute_isolated:
  assumes "world_ok w" "world_ok w'" "shop_view sid (work w) = shop_view sid (work w')"
  shows "execute_call P (build_default_registry E) n args sid w =
         execute_call P (build_default_registry E) n args sid w'"
  unfolding execute_call_def get_tool_def
  using tool_handler_isolated [OF assms, of E]
  by (auto split: option.split sum.split dest!: default_registry_get)

end
