(* ===== verification/PyJson.thy ===== *)
theory PyJson
  imports Models PyFloat
begin

text \<open>
  Python's \<open>json\<close> module: \<open>json_loads\<close> is the decoder with the messages of its errors, and
  \<open>json_dumps\<close> the encoder with the default separators and \<open>ensure_ascii\<close>. Texts are their
  UTF-8 bytes; a lone surrogate is kept as the three bytes of its code point. An integer of more
  than 4300 digits is no \<open>JSONDecodeError\<close> but a plain \<open>ValueError\<close>. The recursion limit of the
  interpreter is left out.
\<close>

datatype json_error = JSONDecodeError string | IntegerTooLong nat

type_synonym 'a parsed = "json_error + 'a \<times> string"

definition json_space :: "char \<Rightarrow> bool" where
  "json_space c \<longleftrightarrow> code c \<in> {32, 9, 10, 13}"

definition skip_space :: "string \<Rightarrow> string" where
  "skip_space s = dropWhile json_space s"

lemma length_skip_space: "length (skip_space s) \<le> length s"
  by (simp add: skip_space_def length_dropWhile_le)

section \<open>Text\<close>

definition hex_value :: "char \<Rightarrow> nat option" where
  "hex_value c =
     (if 48 \<le> code c \<and> code c \<le> 57 then Some (code c - 48)
      else if 97 \<le> code c \<and> code c \<le> 102 then Some (code c - 87)
      else if 65 \<le> code c \<and> code c \<le> 70 then Some (code c - 55) else None)"

fun four_hex :: "string \<Rightarrow> (nat \<times> string) option" where
  "four_hex (a # b # c # d # r) =
     (case (hex_value a, hex_value b, hex_value c, hex_value d) of
        (Some w, Some x, Some y, Some z) \<Rightarrow> Some (w * 4096 + x * 256 + y * 16 + z, r)
      | _ \<Rightarrow> None)"
| "four_hex _ = None"

definition utf8 :: "nat \<Rightarrow> string" where
  "utf8 n =
     (if n < 128 then [char_of n]
      else if n < 2048 then [char_of (192 + n div 64), char_of (128 + n mod 64)]
      else if n < 65536
      then [char_of (224 + n div 4096), char_of (128 + n div 64 mod 64), char_of (128 + n mod 64)]
      else [char_of (240 + n div 262144), char_of (128 + n div 4096 mod 64),
            char_of (128 + n div 64 mod 64), char_of (128 + n mod 64)])"

definition is_high :: "nat \<Rightarrow> bool" where "is_high n \<longleftrightarrow> 0xD800 \<le> n \<and> n \<le> 0xDBFF"
definition is_low :: "nat \<Rightarrow> bool" where "is_low n \<longleftrightarrow> 0xDC00 \<le> n \<and> n \<le> 0xDFFF"

text \<open>\<open>\\uXXXX\<close>, with the second half of a surrogate pair when it follows.\<close>

definition unicode_escape :: "string \<Rightarrow> (string \<times> string) option" where
  "unicode_escape s =
     (case four_hex s of
        None \<Rightarrow> None
      | Some (n, r) \<Rightarrow>
          if is_high n \<and> take 2 r = [CHR 0x5C, CHR ''u'']
          then (case four_hex (drop 2 r) of
                  Some (m, r') \<Rightarrow>
                    if is_low m then Some (utf8 (0x10000 + (n - 0xD800) * 1024 + (m - 0xDC00)), r')
                    else Some (utf8 n, r)
                | None \<Rightarrow> Some (utf8 n, r))
          else Some (utf8 n, r))"

definition simple_escape :: "char \<Rightarrow> char option" where
  "simple_escape c =
     map_of [(CHR 0x22, CHR 0x22), (CHR 0x5C, CHR 0x5C), (CHR ''/'', CHR ''/''), (CHR ''b'', CHR 8),
             (CHR ''f'', CHR 12), (CHR ''n'', CHR 10), (CHR ''r'', CHR 13), (CHR ''t'', CHR 9)] c"

definition unterminated :: json_error where
  "unterminated = JSONDecodeError ''Unterminated string starting at''"

definition push_text :: "string \<Rightarrow> string parsed \<Rightarrow> string parsed" where
  "push_text p r = (case r of Inl e \<Rightarrow> Inl e | Inr (t, s) \<Rightarrow> Inr (p @ t, s))"

lemma unicode_escape_shorter: "unicode_escape s = Some (t, r) \<Longrightarrow> length r < length s"
proof -
  have h: "four_hex s = Some (n, r) \<Longrightarrow> length s = length r + 4" for n r s
    by (cases s rule: four_hex.cases) (auto split: option.splits)
  assume "unicode_escape s = Some (t, r)"
  then show ?thesis
    by (auto simp: unicode_escape_def dest!: h split: option.splits if_splits)
qed

text \<open>The text after its opening quote.\<close>

function scan_string :: "string \<Rightarrow> string parsed" where
  "scan_string s =
     (case s of
        [] \<Rightarrow> Inl unterminated
      | c # r \<Rightarrow>
          if c = CHR 0x22 then Inr ([], r)
          else if c = CHR 0x5C
          then (case r of
                  [] \<Rightarrow> Inl unterminated
                | e # r' \<Rightarrow>
                    if e = CHR ''u''
                    then (case unicode_escape r' of
                            None \<Rightarrow> Inl (JSONDecodeError (''Invalid '' @ [CHR 0x5C] @ ''uXXXX escape''))
                          | Some (t, r'') \<Rightarrow> push_text t (scan_string r''))
                    else (case simple_escape e of
                            None \<Rightarrow> Inl (JSONDecodeError (''Invalid '' @ [CHR 0x5C] @ ''escape''))
                          | Some x \<Rightarrow> push_text [x] (scan_string r')))
          else if code c < 32 then Inl (JSONDecodeError ''Invalid control character at'')
          else push_text [c] (scan_string r))"
  by pat_completeness auto
termination
  by (relation "measure length") (auto dest: unicode_escape_shorter)

declare scan_string.simps [simp del]

section \<open>Numbers\<close>

text \<open>The integer part, the fraction and the exponent at the head, each with what follows.\<close>

definition scan_int_part :: "string \<Rightarrow> string \<times> string" where
  "scan_int_part s =
     (let ds = takeWhile is_dig s; n = (if take 1 ds = ''0'' then 1 else length ds) in
      (take n ds, drop n s))"

definition scan_fraction :: "string \<Rightarrow> string \<times> string" where
  "scan_fraction s =
     (let ds = takeWhile is_dig (drop 1 s) in
      if take 1 s = ''.'' \<and> ds \<noteq> [] then (ds, drop (1 + length ds) s) else ([], s))"

definition scan_exponent :: "string \<Rightarrow> bool \<times> string \<times> string" where
  "scan_exponent s =
     (let sg = take 1 (drop 1 s); r = drop (if sg = ''-'' \<or> sg = ''+'' then 2 else 1) s;
          ds = takeWhile is_dig r in
      if (take 1 s = ''e'' \<or> take 1 s = ''E'') \<and> ds \<noteq> [] then (sg = ''-'', ds, drop (length ds) r)
      else (False, [], s))"

definition decimal_digits :: "string \<Rightarrow> nat" where
  "decimal_digits ds = digits_val (map dig_val ds)"

definition float_literal :: "bool \<Rightarrow> string \<Rightarrow> string \<Rightarrow> bool \<Rightarrow> string \<Rightarrow> json" where
  "float_literal minus_sign ip fp e_minus ep =
     (let m = of_nat (decimal_digits (ip @ fp)) / 10 ^ length fp; e = decimal_digits ep;
          v = to_float (if e_minus then m / 10 ^ e else m * 10 ^ e) in
      if 2 ^ 1024 \<le> v then JNonFinite (if minus_sign then ''-Infinity'' else ''Infinity'')
      else JNum (if minus_sign then - v else v))"

definition scan_number :: "string \<Rightarrow> json parsed option" where
  "scan_number s =
     (let minus_sign = (take 1 s = ''-''); (ip, s1) = scan_int_part (if minus_sign then drop 1 s else s);
          (fp, s2) = scan_fraction s1; (e_minus, ep, s3) = scan_exponent s2 in
      if ip = [] then None
      else if fp = [] \<and> ep = []
      then (if max_int_digits < length ip then Some (Inl (IntegerTooLong (length ip)))
            else Some (Inr (JInt ((if minus_sign then - 1 else 1) * int (decimal_digits ip)), s3)))
      else Some (Inr (float_literal minus_sign ip fp e_minus ep, s3)))"

section \<open>Values\<close>

definition literals :: "(string \<times> json) list" where
  "literals =
     [(''null'', JNull), (''true'', JBool True), (''false'', JBool False),
      (''NaN'', JNonFinite ''NaN''), (''Infinity'', JNonFinite ''Infinity''),
      (''-Infinity'', JNonFinite ''-Infinity'')]"

definition scan_literal :: "string \<Rightarrow> (json \<times> string) option" where
  "scan_literal s =
     map_option (\<lambda>(k, v). (v, drop (length k) s)) (find (\<lambda>(k, v). startswith s k) literals)"

definition expecting_value :: json_error where
  "expecting_value = JSONDecodeError ''Expecting value''"

definition expecting_name :: json_error where
  "expecting_name = JSONDecodeError ''Expecting property name enclosed in double quotes''"

definition expecting_colon :: json_error where
  "expecting_colon = JSONDecodeError (''Expecting '' @ [CHR 0x27] @ '':'' @ [CHR 0x27] @ '' delimiter'')"

definition expecting_comma :: json_error where
  "expecting_comma = JSONDecodeError (''Expecting '' @ [CHR 0x27] @ '','' @ [CHR 0x27] @ '' delimiter'')"

definition scan_scalar :: "string \<Rightarrow> json parsed" where
  "scan_scalar s =
     (case scan_literal s of
        Some p \<Rightarrow> Inr p
      | None \<Rightarrow> (case scan_number s of Some p \<Rightarrow> p | None \<Rightarrow> Inl expecting_value))"

text \<open>
  A value at the head of the text; the members of an object from the quote of a name on; the
  elements of an array from a value on. The comparison of lengths, always true, is what makes
  the recursion evident.
\<close>

function (sequential) scan_value :: "string \<Rightarrow> json parsed"
  and scan_members :: "dict \<Rightarrow> string \<Rightarrow> json parsed"
  and scan_elements :: "json list \<Rightarrow> string \<Rightarrow> json parsed" where
  "scan_value [] = Inl expecting_value"
| "scan_value (c # r) =
     (if c = CHR 0x22
      then (case scan_string r of Inl e \<Rightarrow> Inl e | Inr (t, r') \<Rightarrow> Inr (JStr t, r'))
      else if c = CHR ''{''
      then (let s = skip_space r in
            if take 1 s = ''}'' then Inr (JObj [], drop 1 s) else scan_members [] s)
      else if c = CHR ''[''
      then (let s = skip_space r in
            if take 1 s = '']'' then Inr (JArr [], drop 1 s) else scan_elements [] s)
      else scan_scalar (c # r))"
| "scan_members d s =
     (if take 1 s \<noteq> [CHR 0x22] then Inl expecting_name
      else case scan_string (drop 1 s) of
        Inl e \<Rightarrow> Inl e
      | Inr (k, s1) \<Rightarrow>
          (let s2 = skip_space s1 in
           if take 1 s2 \<noteq> '':'' then Inl expecting_colon
           else if length s2 \<le> length s
           then (case scan_value (skip_space (drop 1 s2)) of
                   Inl e \<Rightarrow> Inl e
                 | Inr (v, s3) \<Rightarrow>
                     (let s4 = skip_space s3; d' = dict_set k v d in
                      if take 1 s4 = ''}'' then Inr (JObj d', drop 1 s4)
                      else if take 1 s4 \<noteq> '','' then Inl expecting_comma
                      else if length s4 \<le> length s then scan_members d' (skip_space (drop 1 s4))
                      else Inl expecting_value))
           else Inl expecting_value))"
| "scan_elements vs s =
     (case scan_value s of
        Inl e \<Rightarrow> Inl e
      | Inr (v, s1) \<Rightarrow>
          (let s2 = skip_space s1 in
           if take 1 s2 = '']'' then Inr (JArr (vs @ [v]), drop 1 s2)
           else if take 1 s2 \<noteq> '','' then Inl expecting_comma
           else if length s2 \<le> length s then scan_elements (vs @ [v]) (skip_space (drop 1 s2))
           else Inl expecting_value))"
  by pat_completeness auto
termination
proof (relation "measure (case_sum (\<lambda>s. 2 * length s)
    (case_sum (\<lambda>(d, s). 2 * length s + 1) (\<lambda>(vs, s). 2 * length s + 1)))", goal_cases)
  case (2 c r s)
  then show ?case using length_skip_space [of r] by simp
next
  case (3 c r s)
  then show ?case using length_skip_space [of r] by simp
next
  case (4 d s p k s1 s2)
  then show ?case using length_skip_space [of "drop 1 s2"] by (cases s2) auto
next
  case (5 d s p k s1 s2 q v s3 s4 d')
  then have "s4 \<noteq> []" by auto
  then have "length (skip_space (drop 1 s4)) < length s4"
    using length_skip_space [of "drop 1 s4"] by (cases s4) auto
  with 5 show ?case by simp
next
  case (7 vs s p v s1 s2)
  then have "s2 \<noteq> []" by auto
  then have "length (skip_space (drop 1 s2)) < length s2"
    using length_skip_space [of "drop 1 s2"] by (cases s2) auto
  with 7 show ?case by simp
qed auto

declare scan_members.simps [simp del] scan_elements.simps [simp del]

text \<open>The comparisons of lengths are always true: a scanned value consumes text.\<close>

lemma push_text_Inr: "push_text p r = Inr (t, s) \<longleftrightarrow> (\<exists>u. r = Inr (u, s) \<and> t = p @ u)"
  by (cases r) (auto simp: push_text_def)

lemma scan_string_shorter: "scan_string s = Inr (t, r) \<Longrightarrow> length r < length s"
proof (induction s arbitrary: t rule: length_induct)
  case (1 s)
  define N where "N = length s"
  have IH: "scan_string ys = Inr (u, r) \<Longrightarrow> length ys < N \<Longrightarrow> length r < N" for ys u
    using 1(1) unfolding N_def by (meson less_trans)
  have u: "\<lbrakk>scan_string y = Inr (u, r); unicode_escape x = Some (t', y); length x < N\<rbrakk> \<Longrightarrow> length r < N"
    for x y t' u
    using IH unicode_escape_shorter by (meson less_trans)
  have "length r < N"
  proof (cases s)
    case (Cons c q)
    then have N: "N = Suc (length q)" by (simp add: N_def)
    have u': "\<lbrakk>q = e # x; unicode_escape x = Some (t', y); scan_string y = Inr (u, r)\<rbrakk> \<Longrightarrow> length r < Suc (length q)"
      for e x y t' u using u N by simp
    from 1(2) Cons show ?thesis
      by (subst (asm) scan_string.simps)
         (auto simp: push_text_Inr N split: list.splits if_splits option.splits
            dest: IH [unfolded N], metis u' length_Cons)
  qed (use 1(2) in \<open>simp add: scan_string.simps\<close>)
  then show ?case by (simp add: N_def)
qed

lemma scan_number_parts_shorter:
  "scan_int_part s = (ip, s1) \<Longrightarrow> ip \<noteq> [] \<Longrightarrow> length s1 < length s"
  "scan_fraction s = (fp, s1) \<Longrightarrow> length s1 \<le> length s"
  "scan_exponent s = (b, ep, s1) \<Longrightarrow> length s1 \<le> length s"
  by (cases s; auto simp: scan_int_part_def scan_fraction_def scan_exponent_def Let_def split: if_splits)+

lemma scan_number_shorter: "scan_number s = Some (Inr (v, r)) \<Longrightarrow> length r < length s"
proof -
  obtain ip s1 where i: "scan_int_part (if take 1 s = ''-'' then drop 1 s else s) = (ip, s1)" by fastforce
  obtain fp s2 where f: "scan_fraction s1 = (fp, s2)" by fastforce
  obtain b ep s3 where e: "scan_exponent s2 = (b, ep, s3)" by (rule prod_cases3)
  assume "scan_number s = Some (Inr (v, r))"
  with i f e have "ip \<noteq> []" "r = s3" by (auto simp: scan_number_def Let_def split: if_splits)
  with scan_number_parts_shorter(1) [OF i] scan_number_parts_shorter(2) [OF f]
    scan_number_parts_shorter(3) [OF e] show ?thesis by (auto split: if_splits)
qed

lemma scan_literal_shorter: "scan_literal s = Some (v, r) \<Longrightarrow> length r < length s"
  by (cases s) (auto simp: scan_literal_def literals_def startswith_def split: if_splits)

lemma scan_scalar_shorter: "scan_scalar s = Inr (v, r) \<Longrightarrow> length r < length s"
  by (auto simp: scan_scalar_def split: option.splits dest: scan_literal_shorter scan_number_shorter)

lemma scan_value_Inr:
  assumes "scan_value s = Inr (v, r)"
  obtains c q where "s = c # q"
    "length r < length s \<or> scan_members [] (skip_space q) = Inr (v, r) \<or>
     scan_elements [] (skip_space q) = Inr (v, r)"
proof (cases s)
  case (Cons c q)
  have "length (drop 1 (skip_space q)) < length s" using length_skip_space [of q] Cons by simp
  then show thesis
    using assms Cons
    by (intro that) (auto simp: Let_def split: if_splits sum.splits prod.splits
        dest!: scan_string_shorter dest: scan_scalar_shorter)
qed (use assms in simp)

lemma scan_members_Inr:
  assumes "scan_members d s = Inr (v, r)"
  obtains s2 s3 s4 d' v' where "s \<noteq> []" "s2 \<noteq> []" "length s2 \<le> length s"
    "scan_value (skip_space (drop 1 s2)) = Inr (v', s3)" "s4 = skip_space s3" "s4 \<noteq> []"
    "r = drop 1 s4 \<or> length s4 \<le> length s \<and> scan_members d' (skip_space (drop 1 s4)) = Inr (v, r)"
proof -
  obtain k s1 where k: "s \<noteq> []" "scan_string (drop 1 s) = Inr (k, s1)"
    using assms by (subst (asm) scan_members.simps) (cases s; auto split: if_splits sum.splits)
  define s2 where "s2 = skip_space s1"
  obtain v' s3 where v: "s2 \<noteq> []" "length s2 \<le> length s" "scan_value (skip_space (drop 1 s2)) = Inr (v', s3)"
    using assms k
    by (subst (asm) scan_members.simps) (cases s2; auto simp: s2_def Let_def split: if_splits sum.splits)
  show thesis
    by (rule that [OF k(1) v refl]; use assms k v in \<open>subst (asm) scan_members.simps\<close>)
       (auto simp: s2_def [symmetric] Let_def split: if_splits)
qed

lemma scan_elements_Inr:
  assumes "scan_elements vs s = Inr (v, r)"
  obtains s1 s2 vs' v' where "scan_value s = Inr (v', s1)" "s2 = skip_space s1" "s2 \<noteq> []"
    "r = drop 1 s2 \<or> length s2 \<le> length s \<and> scan_elements vs' (skip_space (drop 1 s2)) = Inr (v, r)"
proof -
  obtain v' s1 where v: "scan_value s = Inr (v', s1)"
    using assms by (subst (asm) scan_elements.simps) (auto split: sum.splits)
  show thesis
    by (rule that [OF v refl]; use assms v in \<open>subst (asm) scan_elements.simps\<close>)
       (auto simp: Let_def split: if_splits)
qed

lemma drop_skip_shorter: "s \<noteq> [] \<Longrightarrow> length (skip_space (drop 1 s)) < length s"
  using length_skip_space [of "drop 1 s"] by (cases s) auto

lemma scan_shorter:
  "(scan_value s = Inr (v, r) \<longrightarrow> length r < length s) \<and>
   (scan_members d s = Inr (v, r) \<longrightarrow> length r < length s) \<and>
   (scan_elements vs s = Inr (v, r) \<longrightarrow> length r < length s)"
proof (induction s arbitrary: v r d vs rule: length_induct)
  case (1 s)
  have IH: "length t < length s \<Longrightarrow> scan_value t = Inr (v, r) \<Longrightarrow> length r < length t"
    "length t < length s \<Longrightarrow> scan_members d t = Inr (v, r) \<Longrightarrow> length r < length t"
    "length t < length s \<Longrightarrow> scan_elements vs t = Inr (v, r) \<Longrightarrow> length r < length t"
    for t v r d vs using 1 by blast+
  have V: "length r < length s" if "scan_value s = Inr (v, r)" for v r
    using that
  proof (rule scan_value_Inr)
    fix c q
    assume "s = c # q" "length r < length s \<or> scan_members [] (skip_space q) = Inr (v, r) \<or>
      scan_elements [] (skip_space q) = Inr (v, r)"
    moreover have "length (skip_space q) < length s" using calculation(1) length_skip_space [of q] by simp
    ultimately show ?thesis using IH(2,3) by (meson less_trans)
  qed
  have M: "length r < length s" if "scan_members d s = Inr (v, r)" for d v r
    using that
  proof (rule scan_members_Inr)
    fix s2 s3 s4 d' v'
    assume a: "s \<noteq> []" "s2 \<noteq> []" "length s2 \<le> length s"
      "scan_value (skip_space (drop 1 s2)) = Inr (v', s3)" "s4 = skip_space s3" "s4 \<noteq> []"
      "r = drop 1 s4 \<or> length s4 \<le> length s \<and> scan_members d' (skip_space (drop 1 s4)) = Inr (v, r)"
    have "length s3 < length s" using IH(1) [OF _ a(4)] drop_skip_shorter [OF a(2)] a(3) by simp
    then have "length s4 < length s" using a(5) length_skip_space [of s3] by simp
    with a(6,7) drop_skip_shorter [OF a(6)] IH(2) [of "skip_space (drop 1 s4)" d' v r] show ?thesis
      by fastforce
  qed
  have "length r < length s" if "scan_elements vs s = Inr (v, r)"
    using that
  proof (rule scan_elements_Inr)
    fix s1 s2 vs' v'
    assume a: "scan_value s = Inr (v', s1)" "s2 = skip_space s1" "s2 \<noteq> []"
      "r = drop 1 s2 \<or> length s2 \<le> length s \<and> scan_elements vs' (skip_space (drop 1 s2)) = Inr (v, r)"
    have "length s2 < length s" using V [OF a(1)] a(2) length_skip_space [of s1] by simp
    with a(3,4) drop_skip_shorter [OF a(3)] IH(3) [of "skip_space (drop 1 s2)" vs' v r] show ?thesis
      by fastforce
  qed
  with V M show ?case by blast
qed

definition json_loads :: "string \<Rightarrow> json_error + json" where
  "json_loads s =
     (if startswith s [CHR 0xEF, CHR 0xBB, CHR 0xBF]
      then Inl (JSONDecodeError ''Unexpected UTF-8 BOM (decode using utf-8-sig)'')
      else case scan_value (skip_space s) of
        Inl e \<Rightarrow> Inl e
      | Inr (v, r) \<Rightarrow> if skip_space r = [] then Inr v else Inl (JSONDecodeError ''Extra data''))"


section \<open>The encoder\<close>

text \<open>The code points of a text in UTF-8; a byte that starts no sequence counts for itself.\<close>

fun code_points :: "string \<Rightarrow> nat list" where
  "code_points [] = []"
| "code_points (a # s) =
     (let b = (\<lambda>c. code c mod 64) in
      case s of
        x # y # z # r \<Rightarrow>
          if 240 \<le> code a then (code a mod 8 * 262144 + b x * 4096 + b y * 64 + b z) # code_points r
          else if 224 \<le> code a then (code a mod 16 * 4096 + b x * 64 + b y) # code_points (z # r)
          else if 192 \<le> code a then (code a mod 32 * 64 + b x) # code_points (y # z # r)
          else code a # code_points (x # y # z # r)
      | x # y # [] \<Rightarrow>
          if 224 \<le> code a then [code a mod 16 * 4096 + b x * 64 + b y]
          else if 192 \<le> code a then (code a mod 32 * 64 + b x) # code_points [y]
          else code a # code_points [x, y]
      | x # [] \<Rightarrow> if 192 \<le> code a then [code a mod 32 * 64 + b x] else [code a, code x]
      | [] \<Rightarrow> [code a])"

definition hex4 :: "nat \<Rightarrow> string" where
  "hex4 n = map (\<lambda>k. let d = n div 16 ^ k mod 16 in char_of (if d < 10 then 48 + d else 87 + d)) [3, 2, 1, 0]"

definition escape_point :: "nat \<Rightarrow> string" where
  "escape_point n =
     (let bs = CHR 0x5C in
      if n = 34 then [bs, CHR 0x22] else if n = 92 then [bs, bs]
      else if n = 10 then [bs, CHR ''n''] else if n = 13 then [bs, CHR ''r'']
      else if n = 9 then [bs, CHR ''t''] else if n = 12 then [bs, CHR ''f'']
      else if n = 8 then [bs, CHR ''b'']
      else if 32 \<le> n \<and> n < 127 then [char_of n]
      else if n < 65536 then bs # ''u'' @ hex4 n
      else bs # ''u'' @ hex4 (0xD800 + (n - 65536) div 1024)
           @ bs # ''u'' @ hex4 (0xDC00 + (n - 65536) mod 1024))"

definition dumps_text :: "string \<Rightarrow> string" where
  "dumps_text s = [CHR 0x22] @ concat (map escape_point (code_points s)) @ [CHR 0x22]"

text \<open>
  \<open>repr\<close> of a floating number: the fewest digits that read back as the number, in positional
  notation for exponents from -4 to 15.
\<close>

definition shortest_digits :: "rat \<Rightarrow> nat" where
  "shortest_digits x =
     (case find (\<lambda>n. to_float (round_sig 10 n x) = x) [1..<17] of None \<Rightarrow> 17 | Some n \<Rightarrow> n)"

definition strip_zeros :: "string \<Rightarrow> string" where
  "strip_zeros s = rev (dropWhile (\<lambda>c. c = CHR ''0'') (rev s))"

definition repr_float :: "rat \<Rightarrow> string" where
  "repr_float r =
     (if r = 0 then ''0.0''
      else let x = \<bar>r\<bar>; v = round_sig 10 (shortest_digits x) x; e = rat_exponent 10 v;
               ds = strip_zeros (str_int \<lfloor>v * rat_scale 10 (16 - e)\<rfloor>);
               body =
                 (if - 4 \<le> e \<and> e < 0 then ''0.'' @ replicate (nat (- e - 1)) (CHR ''0'') @ ds
                  else if 0 \<le> e \<and> e < 16
                  then (let k = nat e + 1 in
                        if length ds \<le> k then ds @ replicate (k - length ds) (CHR ''0'') @ ''.0''
                        else take k ds @ ''.'' @ drop k ds)
                  else take 1 ds @ (if length ds = 1 then [] else ''.'' @ drop 1 ds) @ ''e''
                       @ (if e < 0 then ''-'' else ''+'')
                       @ (if \<bar>e\<bar> < 10 then ''0'' else []) @ str_nat (nat \<bar>e\<bar>)) in
           (if r < 0 then ''-'' else []) @ body)"

fun json_dumps :: "json \<Rightarrow> string" and dumps_items :: "json list \<Rightarrow> string list"
  and dumps_members :: "dict \<Rightarrow> string list" where
  "json_dumps JNull = ''null''"
| "json_dumps (JBool b) = (if b then ''true'' else ''false'')"
| "json_dumps (JInt n) = str_int n"
| "json_dumps (JNum r) = repr_float r"
| "json_dumps (JNonFinite s) = s"
| "json_dumps (JStr s) = dumps_text s"
| "json_dumps (JTime t) = str_int t"
| "json_dumps (JArr js) = ''['' @ str_join '', '' (dumps_items js) @ '']''"
| "json_dumps (JObj d) = ''{'' @ str_join '', '' (dumps_members d) @ ''}''"
| "dumps_items [] = []"
| "dumps_items (j # js) = json_dumps j # dumps_items js"
| "dumps_members [] = []"
| "dumps_members ((k, v) # d) = (dumps_text k @ '': '' @ json_dumps v) # dumps_members d"

end
