(* ===== verification/LlmClient.thy ===== *)
theory LlmClient
  imports AiErrors PyJson Primitives
begin

text \<open>
  \<open>app/ai/contracts/llm.py\<close> and \<open>app/ai/llm_client.py\<close>: the client of the language model. The
  provider is a parameter: \<open>post\<close> gives the outcome of the n-th request made while one message
  is handled; of \<open>httpx\<close> the model keeps its two classes of transport errors, the status, the
  text and what \<open>response.json()\<close> returns or the message it raises. The identifiers of tool calls
  and the cost, which no code reads, are left out.
\<close>

section \<open>Contracts\<close>

record llm_message =
  lm_role :: string
  lm_content :: "string option"

record normalized_tool_call =
  tc_name :: string
  tc_arguments :: dict

record llm_response =
  lr_text :: "string option"
  tool_calls :: "normalized_tool_call list"
  prompt_tokens :: "int option"
  completion_tokens :: "int option"

definition has_tool_calls :: "llm_response \<Rightarrow> bool" where
  "has_tool_calls r \<longleftrightarrow> length (tool_calls r) > 0"

definition primary_tool_call :: "llm_response \<Rightarrow> normalized_tool_call option" where
  "primary_tool_call r = (case tool_calls r of [] \<Rightarrow> None | c # _ \<Rightarrow> Some c)"

record llm_settings =
  llm_provider_endpoint :: string
  llm_model :: string
  llm_timeout_seconds :: rat
  analytics_max_output_tokens :: int
  analytics_max_input_chars :: int

definition default_llm_settings :: llm_settings where
  "default_llm_settings =
     \<lparr>llm_provider_endpoint = ''https://api.groq.com/openai/v1/chat/completions'',
      llm_model = ''openai/gpt-oss-20b'', llm_timeout_seconds = 30,
      analytics_max_output_tokens = 256, analytics_max_input_chars = 12000\<rparr>"

datatype http_result =
    HttpTimeout
  | HttpRequestError string
  | HttpOtherException exc
  | HttpResponse int string "string + json"

record llm_env = fsm_env +
  llm :: llm_settings
  post :: "nat \<Rightarrow> string \<Rightarrow> dict \<Rightarrow> dict \<Rightarrow> http_result"

definition DEFAULT_SYSTEM_PROMPT :: string where
  \<open>DEFAULT_SYSTEM_PROMPT = str_join nl
     [''You select exactly one SokoFlow analytics function for each'',
      ''merchant question.'',
      ''Use only the supplied tools. Never provide shop_id; shop scope is controlled by the'',
      ''application.'',
      ''Return a function call when the request can be represented by a tool; otherwise reply briefly'',
      ''that clarification is needed.'',
      '''',
      ''CRITICAL PARAMETER RULES:'',
      ''1. For tools requiring a 'period' parameter (get_sales_summary, get_top_products,'',
      ''   get_sales_trend, get_slow_moving_items):'',
      ''   'period' MUST be a JSON object with 'period_type' ('relative' or 'date_range') and'',
      ''   'relative_period' ('day', 'week', 'month', 'year').'',
      ''   Examples:'',
      ''   - 'today': {"period_type": "relative", "relative_period": "day"}'',
      ''   - 'this week': {"period_type": "relative", "relative_period": "week"}'',
      ''   - 'this month': {"period_type": "relative", "relative_period": "month"}'',
      ''   - 'last year' / 'this year': {"period_type": "relative", "relative_period": "year"}'',
      '''',
      ''2. For get_stock_level (used for stock level or product price queries for a specific'',
      ''   product):'',
      ''   If a product UUID is not explicitly provided in user text, pass placeholder UUID'',
      ''   '00000000-0000-0000-0000-000000000000' for product_id.''] @ nl\<close>

section \<open>The response\<close>

definition json_get :: "string \<Rightarrow> dict \<Rightarrow> json" where
  "json_get k d = (case map_of d k of None \<Rightarrow> JNull | Some j \<Rightarrow> j)"

fun as_dict :: "json \<Rightarrow> dict option" where
  "as_dict (JObj d) = Some d"
| "as_dict _ = None"

fun as_list :: "json \<Rightarrow> json list option" where
  "as_list (JArr js) = Some js"
| "as_list _ = None"

fun nonempty_text :: "json \<Rightarrow> string option" where
  "nonempty_text (JStr s) = (if s = [] then None else Some s)"
| "nonempty_text _ = None"

text \<open>The entries as a Python dictionary: one for each key, the last one.\<close>

definition python_dict :: "dict \<Rightarrow> dict" where
  "python_dict d = foldl (\<lambda>acc (k, v). dict_set k v acc) [] d"

text \<open>An integer literal that is too long is a \<open>ValueError\<close>, which nothing here catches.\<close>

definition too_long :: "nat \<Rightarrow> ai_error" where
  "too_long n = OtherError (ValueError
     (''Exceeds the limit (4300 digits) for integer string conversion: value has '' @ str_nat n @
      '' digits; use sys.set_int_max_str_digits() to increase the limit''))"

definition malformed_arguments :: "string \<Rightarrow> string \<Rightarrow> ai_error" where
  "malformed_arguments n m =
     LLMResponseFormatError (''Malformed tool call arguments JSON for '' @ quoted n @ '': '' @ m)"

definition not_an_object :: "string \<Rightarrow> ai_error" where
  "not_an_object n =
     LLMResponseFormatError (''Tool call arguments for '' @ quoted n @ '' must be a JSON object.'')"

definition parse_arguments :: "string \<Rightarrow> dict \<Rightarrow> ai_error + dict" where
  "parse_arguments n func =
     (case map_of func ''arguments'' of
        Some (JStr s) \<Rightarrow>
          if strip s = [] then Inr []
          else (case json_loads s of
                  Inl (JSONDecodeError m) \<Rightarrow> Inl (malformed_arguments n m)
                | Inl (IntegerTooLong k) \<Rightarrow> Inl (too_long k)
                | Inr j \<Rightarrow> (case as_dict j of None \<Rightarrow> Inl (not_an_object n) | Some d \<Rightarrow> Inr d))
      | Some (JObj d) \<Rightarrow> Inr d
      | _ \<Rightarrow> Inr [])"

text \<open>An entry of \<open>tool_calls\<close>: \<open>Inr None\<close> is \<open>continue\<close>.\<close>

definition normalize_tool_call :: "json \<Rightarrow> ai_error + normalized_tool_call option" where
  "normalize_tool_call tc =
     (case Option.bind (as_dict tc) (\<lambda>d. as_dict (json_get ''function'' d)) of
        None \<Rightarrow> Inr None
      | Some func \<Rightarrow>
          (case nonempty_text (json_get ''name'' func) of
             None \<Rightarrow> Inr None
           | Some n \<Rightarrow>
               (case parse_arguments n func of
                  Inl e \<Rightarrow> Inl e
                | Inr args \<Rightarrow> Inr (Some \<lparr>tc_name = n, tc_arguments = python_dict args\<rparr>))))"

fun normalize_tool_calls :: "json list \<Rightarrow> ai_error + normalized_tool_call list" where
  "normalize_tool_calls [] = Inr []"
| "normalize_tool_calls (tc # tcs) =
     (case normalize_tool_call tc of
        Inl e \<Rightarrow> Inl e
      | Inr c \<Rightarrow>
          (case normalize_tool_calls tcs of
             Inl e \<Rightarrow> Inl e
           | Inr cs \<Rightarrow> Inr (case c of None \<Rightarrow> cs | Some x \<Rightarrow> x # cs)))"

text \<open>The message of the first choice.\<close>

definition choice_message :: "dict \<Rightarrow> dict option" where
  "choice_message raw =
     (case as_list (json_get ''choices'' raw) of
        Some (c # _) \<Rightarrow> Option.bind (as_dict c) (\<lambda>d. as_dict (json_get ''message'' d))
      | _ \<Rightarrow> None)"

text \<open>The call inside \<open>error.failed_generation\<close>, read when there is no other.\<close>

definition failed_generation :: "dict \<Rightarrow> ai_error + normalized_tool_call list" where
  "failed_generation raw =
     (case as_dict (json_get ''error'' raw) of
        None \<Rightarrow> Inr []
      | Some err \<Rightarrow>
          (case (case json_get ''failed_generation'' err of
                   JStr s \<Rightarrow>
                     (case json_loads s of
                        Inl (IntegerTooLong k) \<Rightarrow> Inl (too_long k)
                      | Inl (JSONDecodeError m) \<Rightarrow> Inr None
                      | Inr j \<Rightarrow> Inr (as_dict j))
                 | JObj d \<Rightarrow> Inr (Some d)
                 | _ \<Rightarrow> Inr None) of
             Inl e \<Rightarrow> Inl e
           | Inr None \<Rightarrow> Inr []
           | Inr (Some f) \<Rightarrow>
               (case nonempty_text (json_get ''name'' f) of
                  None \<Rightarrow> Inr []
                | Some n \<Rightarrow>
                    (case map_of f ''arguments'' of
                       Some (JStr s) \<Rightarrow>
                         (case json_loads s of
                            Inl (IntegerTooLong k) \<Rightarrow> Inl (too_long k)
                          | Inl (JSONDecodeError m) \<Rightarrow> Inr [\<lparr>tc_name = n, tc_arguments = []\<rparr>]
                          | Inr j \<Rightarrow>
                              (case as_dict j of
                                 None \<Rightarrow> Inr []
                               | Some d \<Rightarrow> Inr [\<lparr>tc_name = n, tc_arguments = python_dict d\<rparr>]))
                     | Some (JObj d) \<Rightarrow> Inr [\<lparr>tc_name = n, tc_arguments = python_dict d\<rparr>]
                     | _ \<Rightarrow> Inr [\<lparr>tc_name = n, tc_arguments = []\<rparr>]))))"

text \<open>
  The last step builds the contract, whose fields pydantic validates: a content that is no text
  and a token count that is no integer raise.
\<close>

definition invalid_response :: ai_error where
  "invalid_response = OtherError (ValidationError ''LLMResponse'')"

fun optional_text :: "json \<Rightarrow> ai_error + string option" where
  "optional_text JNull = Inr None"
| "optional_text (JStr s) = Inr (Some s)"
| "optional_text _ = Inl invalid_response"

text \<open>Pydantic's lax integers: integral numbers, booleans and decimal texts.\<close>

fun lax_int :: "json \<Rightarrow> int option" where
  "lax_int (JInt n) = Some n"
| "lax_int (JBool b) = Some (if b then 1 else 0)"
| "lax_int (JNum r) = (if of_int \<lfloor>r\<rfloor> = r then Some \<lfloor>r\<rfloor> else None)"
| "lax_int (JStr s) = py_int s"
| "lax_int _ = None"

definition optional_int :: "json \<Rightarrow> ai_error + int option" where
  "optional_int j =
     (if j = JNull then Inr None
      else case lax_int j of None \<Rightarrow> Inl invalid_response | Some n \<Rightarrow> Inr (Some n))"

definition build_response :: "json \<Rightarrow> normalized_tool_call list \<Rightarrow> dict \<Rightarrow> ai_error + llm_response" where
  "build_response content calls usage =
     (case (optional_text content, optional_int (json_get ''prompt_tokens'' usage),
            optional_int (json_get ''completion_tokens'' usage)) of
        (Inr t, Inr p, Inr c) \<Rightarrow>
          Inr \<lparr>lr_text = t, tool_calls = calls, prompt_tokens = p, completion_tokens = c\<rparr>
      | _ \<Rightarrow> Inl invalid_response)"

definition normalize_response :: "dict \<Rightarrow> ai_error + llm_response" where
  "normalize_response raw =
     (let msg = choice_message raw;
          content = (case msg of None \<Rightarrow> JNull | Some m \<Rightarrow> json_get ''content'' m);
          usage = (case as_dict (json_get ''usage'' raw) of None \<Rightarrow> [] | Some u \<Rightarrow> u) in
      case (case Option.bind msg (\<lambda>m. as_list (json_get ''tool_calls'' m)) of
              None \<Rightarrow> Inr []
            | Some tcs \<Rightarrow> normalize_tool_calls tcs) of
        Inl e \<Rightarrow> Inl e
      | Inr [] \<Rightarrow>
          (case failed_generation raw of
             Inl e \<Rightarrow> Inl e
           | Inr cs \<Rightarrow> build_response content cs usage)
      | Inr cs \<Rightarrow> build_response content cs usage)"

section \<open>The request\<close>

text \<open>The first \<open>n\<close> characters of a text.\<close>

fun take_chars :: "nat \<Rightarrow> string \<Rightarrow> string" where
  "take_chars n [] = []"
| "take_chars n (c # s) =
     (if 128 \<le> code c \<and> code c \<le> 191 then c # take_chars n s
      else if n = 0 then [] else c # take_chars (n - 1) s)"

definition api_key :: "'z llm_env_scheme \<Rightarrow> string" where
  "api_key E =
     (let key = (\<lambda>o'. case o' of None \<Rightarrow> [] | Some s \<Rightarrow> s) in
      if key (groq_api_key (cfg E)) \<noteq> [] then key (groq_api_key (cfg E))
      else key (openrouter_api_key (cfg E)))"

definition post_payload :: "'z llm_env_scheme \<Rightarrow> nat \<Rightarrow> dict \<Rightarrow> dict \<Rightarrow> ai_error + dict" where
  "post_payload E k payload headers =
     (case post E k (llm_provider_endpoint (llm E)) headers payload of
        HttpTimeout \<Rightarrow>
          Inl (LLMProviderTimeoutError
            (''LLM provider request timed out after '' @ repr_float (llm_timeout_seconds (llm E)) @ ''s.''))
      | HttpRequestError m \<Rightarrow> Inl (LLMProviderUnavailableError (''LLM provider is unreachable: '' @ m))
      | HttpOtherException e \<Rightarrow> Inl (OtherError e)
      | HttpResponse status body js \<Rightarrow>
          if status \<ge> 500
          then Inl (LLMProviderUnavailableError (''LLM provider service error: HTTP '' @ str_int status))
          else if status \<ge> 400
          then Inl (LLMProviderAPIError
                 (''LLM provider API error: HTTP '' @ str_int status @ '' - '' @ take_chars 200 body)
                 (Some status))
          else (case js of
                  Inl m \<Rightarrow>
                    Inl (LLMResponseFormatError (''Failed to parse LLM provider JSON response: '' @ m))
                | Inr (JObj d) \<Rightarrow> Inr d
                | Inr _ \<Rightarrow>
                    Inl (LLMResponseFormatError
                      (''Failed to parse LLM provider JSON response: '' @
                       ''Response body is not a JSON object''))))"

definition content_of :: "llm_message \<Rightarrow> string" where
  "content_of m = (case lm_content m of None \<Rightarrow> [] | Some c \<Rightarrow> c)"

definition input_chars :: "llm_message list \<Rightarrow> json list \<Rightarrow> nat" where
  "input_chars payload_messages tools =
     sum_list (map (\<lambda>m. py_len (content_of m)) payload_messages)
     + (if tools \<noteq> [] then py_len (json_dumps (JArr tools)) else 0)"

definition input_too_long :: ai_error where
  "input_too_long =
     LLMResponseFormatError ''Analytics provider input exceeds the configured size limit.''"

text \<open>
  \<open>generate\<close> with the default system prompt, temperature and limit of output tokens, which is how
  it is called; \<open>k\<close> counts the requests made before. A request is made only within the limit of
  input characters.
\<close>

definition generate ::
  "'z llm_env_scheme \<Rightarrow> llm_message list \<Rightarrow> json list \<Rightarrow> nat \<Rightarrow> (ai_error + llm_response) \<times> nat" where
  "generate E messages tools k =
     (let payload_messages =
            \<lparr>lm_role = ''system'', lm_content = Some DEFAULT_SYSTEM_PROMPT\<rparr> # messages in
      if analytics_max_input_chars (llm E) < int (input_chars payload_messages tools)
      then (Inl input_too_long, k)
      else
        (let payload =
               [(''model'', JStr (llm_model (llm E))),
                (''messages'', JArr (map (\<lambda>m. JObj [(''role'', JStr (lm_role m)),
                                                     (''content'', JStr (content_of m))])
                                   payload_messages)),
                (''temperature'', JNum 0),
                (''max_tokens'', JInt (analytics_max_output_tokens (llm E))),
                (''stream'', JBool False)]
               @ (if tools \<noteq> [] then [(''tools'', JArr tools), (''tool_choice'', JStr ''auto'')] else []);
             headers = [(''Authorization'', JStr (''Bearer '' @ api_key E)),
                        (''Content-Type'', JStr ''application/json'')] in
         case post_payload E k payload headers of
           Inl e \<Rightarrow> (Inl e, Suc k)
         | Inr raw \<Rightarrow> (normalize_response raw, Suc k)))"

section \<open>Properties\<close>

lemma generate_counts: "k \<le> snd (generate E ms ts k) \<and> snd (generate E ms ts k) \<le> Suc k"
  by (auto simp: generate_def Let_def split: sum.split)

text \<open>Every accepted tool call has a name, and arguments with distinct keys.\<close>

definition call_ok :: "normalized_tool_call \<Rightarrow> bool" where
  "call_ok c \<longleftrightarrow> tc_name c \<noteq> [] \<and> distinct (map fst (tc_arguments c))"

lemma python_dict_distinct [simp]: "distinct (map fst (python_dict d))"
proof -
  have "distinct (map fst acc) \<Longrightarrow>
      distinct (map fst (foldl (\<lambda>acc (k, v). dict_set k v acc) acc d))" for acc :: dict
    by (induction d arbitrary: acc) (auto intro: dict_set_distinct)
  then show ?thesis by (simp add: python_dict_def)
qed

lemma nonempty_text_Some: "nonempty_text j = Some n \<Longrightarrow> n \<noteq> []"
  by (cases j) (auto split: if_splits)

lemma normalize_tool_call_ok: "normalize_tool_call tc = Inr (Some c) \<Longrightarrow> call_ok c"
  by (auto simp: normalize_tool_call_def call_ok_def dest: nonempty_text_Some
      split: option.splits sum.splits)

lemma normalize_tool_calls_ok: "normalize_tool_calls tcs = Inr cs \<Longrightarrow> list_all call_ok cs"
  by (induction tcs arbitrary: cs)
     (auto split: sum.splits option.splits dest: normalize_tool_call_ok)

lemma failed_generation_ok: "failed_generation raw = Inr cs \<Longrightarrow> list_all call_ok cs"
  by (auto simp: failed_generation_def call_ok_def dest!: nonempty_text_Some
      split: option.splits sum.splits json.splits json_error.splits)

lemma build_response_calls: "build_response j cs u = Inr r \<Longrightarrow> tool_calls r = cs"
  by (auto simp: build_response_def split: sum.splits)

lemma normalize_response_ok: "normalize_response raw = Inr r \<Longrightarrow> list_all call_ok (tool_calls r)"
  by (auto simp: normalize_response_def Let_def split: sum.splits list.splits option.splits
      dest!: build_response_calls dest: failed_generation_ok normalize_tool_calls_ok)

lemma generate_ok: "generate E ms ts k = (Inr r, k') \<Longrightarrow> list_all call_ok (tool_calls r)"
  by (auto simp: generate_def Let_def split: sum.splits if_splits dest: normalize_response_ok)

end
