(* ===== verification/Orchestrator.thy ===== *)
theory Orchestrator
  imports Executor LlmClient
begin

text \<open>
  \<open>app/ai/contracts/outcome.py\<close> and \<open>app/ai/orchestrator.py\<close>: one analytics question, from the
  text to a typed outcome. At most two requests go to the model: a first answer with several
  calls, an unknown tool or invalid arguments is answered with a correction, a second one ends
  the run. The run is generic in the client and the executor, which the class takes as
  arguments; the number is that of the requests made.
\<close>

datatype outcome_type =
    ANSWERED
  | ANSWERED_EMPTY
  | NEEDS_SELECTION
  | NO_ANALYTICS_INTENT
  | INVALID_PROPOSAL
  | ARGUMENT_VALIDATION_FAILED
  | MALFORMED_RESPONSE
  | DOMAIN_FAILURE
  | PROVIDER_UNAVAILABLE
  | INFRASTRUCTURE_FAILURE
  | GUARDRAIL_REJECTED

record analytics_outcome =
  oc_type :: outcome_type
  oc_tool :: "string option"
  oc_data :: "tool_output option"
  oc_call :: "(string \<times> dict) option"
  oc_candidates :: "scored_match list"
  oc_pending :: "(string \<times> dict) option"
  oc_error_type :: "string option"
  oc_message :: "string option"
  oc_details :: "error_details option"

definition outcome :: "outcome_type \<Rightarrow> analytics_outcome" where
  "outcome ty =
     \<lparr>oc_type = ty, oc_tool = None, oc_data = None, oc_call = None, oc_candidates = [],
      oc_pending = None, oc_error_type = None, oc_message = None, oc_details = None\<rparr>"

definition is_answered :: "analytics_outcome \<Rightarrow> bool" where
  "is_answered o' \<longleftrightarrow> oc_type o' \<in> {ANSWERED, ANSWERED_EMPTY}"

definition answered :: "string \<Rightarrow> tool_output option \<Rightarrow> string \<times> dict \<Rightarrow> analytics_outcome" where
  "answered n d c = (outcome ANSWERED)\<lparr>oc_tool := Some n, oc_data := d, oc_call := Some c\<rparr>"

definition answered_empty :: "string \<Rightarrow> tool_output option \<Rightarrow> string \<times> dict \<Rightarrow> analytics_outcome" where
  "answered_empty n d c = (outcome ANSWERED_EMPTY)\<lparr>oc_tool := Some n, oc_data := d, oc_call := Some c\<rparr>"

definition needs_selection :: "scored_match list \<Rightarrow> string \<times> dict \<Rightarrow> string \<Rightarrow> analytics_outcome" where
  "needs_selection cs p n =
     (outcome NEEDS_SELECTION)\<lparr>oc_tool := Some n, oc_candidates := cs, oc_pending := Some p\<rparr>"

definition no_analytics_intent :: analytics_outcome where
  "no_analytics_intent = outcome NO_ANALYTICS_INTENT"

definition invalid_proposal :: "string \<Rightarrow> string option \<Rightarrow> analytics_outcome" where
  "invalid_proposal reason n =
     (outcome INVALID_PROPOSAL)\<lparr>oc_tool := n, oc_message := Some reason\<rparr>"

definition argument_validation_failed ::
  "string \<Rightarrow> string \<Rightarrow> error_details option \<Rightarrow> analytics_outcome" where
  "argument_validation_failed n m d =
     (outcome ARGUMENT_VALIDATION_FAILED)\<lparr>oc_tool := Some n, oc_message := Some m, oc_details := d\<rparr>"

definition domain_failure ::
  "string \<Rightarrow> string \<Rightarrow> string \<Rightarrow> error_details option \<Rightarrow> analytics_outcome" where
  "domain_failure n ty m d =
     (outcome DOMAIN_FAILURE)\<lparr>oc_tool := Some n, oc_error_type := Some ty, oc_message := Some m,
                             oc_details := d\<rparr>"

definition provider_unavailable :: "string \<Rightarrow> analytics_outcome" where
  "provider_unavailable m = (outcome PROVIDER_UNAVAILABLE)\<lparr>oc_message := Some m\<rparr>"

definition malformed_response :: "string \<Rightarrow> analytics_outcome" where
  "malformed_response m = (outcome MALFORMED_RESPONSE)\<lparr>oc_message := Some m\<rparr>"

definition infrastructure_failure :: "string \<Rightarrow> analytics_outcome" where
  "infrastructure_failure m =
     (outcome INFRASTRUCTURE_FAILURE)\<lparr>oc_error_type := Some ''InfrastructureError'',
                                      oc_message := Some m\<rparr>"

definition guardrail_rejected :: "string \<Rightarrow> analytics_outcome" where
  "guardrail_rejected reason =
     (outcome GUARDRAIL_REJECTED)\<lparr>oc_error_type := Some ''GuardrailRejected'',
                                  oc_message := Some reason\<rparr>"

section \<open>Empty results\<close>

definition no_items :: "'a list option \<Rightarrow> bool" where
  "no_items xs \<longleftrightarrow> (case xs of None \<Rightarrow> True | Some ys \<Rightarrow> ys = [])"

text \<open>An attribute the data does not have takes the default of \<open>getattr\<close>.\<close>

fun is_result_empty :: "string \<Rightarrow> tool_output option \<Rightarrow> bool" where
  "is_result_empty n d =
     (if n = ''get_sales_summary''
      then (case d of Some (GetSalesSummaryOutput rv tx) \<Rightarrow> rv = 0 \<and> tx = 0 | _ \<Rightarrow> True)
      else if n = ''get_top_products''
      then (case d of Some (GetTopProductsOutput us rv) \<Rightarrow> no_items us \<and> no_items rv | _ \<Rightarrow> True)
      else if n = ''get_low_stock_items'' \<or> n = ''get_slow_moving_items''
      then (case d of
              Some (GetLowStockItemsOutput items c) \<Rightarrow> c = 0 \<or> items = []
            | Some (GetSlowMovingItemsOutput items c) \<Rightarrow> c = 0 \<or> items = []
            | _ \<Rightarrow> True)
      else if n = ''get_sales_trend''
      then (case d of
              Some (GetSalesTrendOutput rc rp ch tc tp tch) \<Rightarrow> tc = 0 \<and> tp = 0 \<and> rc = 0 \<and> rp = 0
            | _ \<Rightarrow> True)
      else False)"

section \<open>The loop\<close>

definition DEFAULT_ACTIVE_TOOLS :: "string list" where
  "DEFAULT_ACTIVE_TOOLS =
     [''get_sales_summary'', ''get_stock_level'', ''get_top_products'', ''get_low_stock_items'',
      ''get_sales_trend'', ''get_slow_moving_items'', ''get_product_price'']"

type_synonym llm_generate = "llm_message list \<Rightarrow> nat \<Rightarrow> (ai_error + llm_response) \<times> nat"
type_synonym tool_exec = "string \<Rightarrow> dict \<Rightarrow> tool_execution_result"

definition said :: "string \<Rightarrow> string \<Rightarrow> llm_message" where
  "said role c = \<lparr>lm_role = role, lm_content = Some c\<rparr>"

text \<open>The outcome of a failed request.\<close>

fun llm_failure :: "ai_error \<Rightarrow> analytics_outcome" where
  "llm_failure (LLMResponseFormatError m) = malformed_response m"
| "llm_failure (LLMProviderTimeoutError m) = provider_unavailable m"
| "llm_failure (LLMProviderUnavailableError m) = provider_unavailable m"
| "llm_failure (LLMProviderAPIError m c) = provider_unavailable m"
| "llm_failure e = infrastructure_failure (ai_message e)"

definition several_calls :: "normalized_tool_call list \<Rightarrow> llm_message list" where
  "several_calls cs =
     [said ''assistant'' (''Proposed multiple tool calls: '' @ str_join '', '' (map tc_name cs)),
      said ''user'' ''Please propose only ONE analytics tool call for this question.'']"

definition unknown_tool :: "string list \<Rightarrow> string \<Rightarrow> llm_message list" where
  "unknown_tool active n =
     [said ''assistant'' (''Proposed tool '' @ quoted n @ ''.''),
      said ''user'' (''Tool '' @ quoted n @ '' is not recognized. '' @
        ''Please select from: '' @ str_join '', '' active @ ''.'')]"

definition invalid_arguments :: "normalized_tool_call \<Rightarrow> string \<Rightarrow> llm_message list" where
  "invalid_arguments tc m =
     [said ''assistant'' (''Proposed '' @ tc_name tc @ '' with arguments '' @
        (if tc_arguments tc \<noteq> [] then json_dumps (JObj (tc_arguments tc)) else ''{}'')),
      said ''user'' (''Tool argument schema error: '' @ m @ ''. '' @
        ''Please adjust parameters according to the tool'' @ [CHR 0x27] @ ''s JSON schema.'')]"

definition success_outcome :: "string \<Rightarrow> dict \<Rightarrow> tool_execution_result \<Rightarrow> analytics_outcome" where
  "success_outcome n raw_args r =
     (let call_info = (n, if xr_arguments r \<noteq> [] then xr_arguments r else raw_args) in
      if is_result_empty n (xr_data r) then answered_empty n (xr_data r) call_info
      else answered n (xr_data r) call_info)"

text \<open>A failure of the executor that ends the run.\<close>

definition failure_outcome :: "normalized_tool_call \<Rightarrow> tool_execution_error \<Rightarrow> analytics_outcome" where
  "failure_outcome tc e =
     (if xe_type e = ''SchemaValidationError''
      then argument_validation_failed (tc_name tc) (xe_message e) (xe_details e)
      else if xe_type e = ''ProductAmbiguousError''
      then needs_selection
             (case xe_details e of Some (DetailCandidates cs) \<Rightarrow> cs | _ \<Rightarrow> [])
             (tc_name tc, tc_arguments tc) (tc_name tc)
      else if xe_type e = ''InfrastructureError'' then infrastructure_failure (xe_message e)
      else domain_failure (tc_name tc) (xe_type e) (xe_message e) (xe_details e))"

text \<open>
  One attempt: it ends the run with an outcome, or asks for another attempt with more messages.
  \<open>None\<close> is the failure of an assertion of the source.
\<close>

definition attempt ::
  "tool_exec \<Rightarrow> string list \<Rightarrow> nat \<Rightarrow> ai_error + llm_response \<Rightarrow>
   (analytics_outcome + llm_message list) option" where
  "attempt exec active k response =
     (case response of
        Inl e \<Rightarrow> Some (Inl (llm_failure e))
      | Inr r \<Rightarrow>
          if \<not> has_tool_calls r then Some (Inl no_analytics_intent)
          else if length (tool_calls r) > 1
          then (if k = 0 then Some (Inr (several_calls (tool_calls r)))
                else Some (Inl (invalid_proposal ''Multiple tool calls proposed.'' None)))
          else case primary_tool_call r of
            None \<Rightarrow> None
          | Some tc \<Rightarrow>
              if tc_name tc \<notin> set active
              then (if k = 0 then Some (Inr (unknown_tool active (tc_name tc)))
                    else Some (Inl (invalid_proposal
                           (''Unknown tool '' @ quoted (tc_name tc) @ ''.'') (Some (tc_name tc)))))
              else
                (let result = exec (tc_name tc) (tc_arguments tc) in
                 if is_success result
                 then Some (Inl (success_outcome (tc_name tc) (tc_arguments tc) result))
                 else case xr_error result of
                   None \<Rightarrow> None
                 | Some e \<Rightarrow>
                     if xe_type e = ''SchemaValidationError'' \<and> k = 0
                     then Some (Inr (invalid_arguments tc (xe_message e)))
                     else Some (Inl (failure_outcome tc e))))"

fun attempts ::
  "llm_generate \<Rightarrow> tool_exec \<Rightarrow> string list \<Rightarrow> nat list \<Rightarrow> llm_message list \<Rightarrow> nat \<Rightarrow>
   analytics_outcome option \<times> nat" where
  "attempts gen exec active [] messages calls =
     (Some (invalid_proposal ''Exhausted retry attempts.'' None), calls)"
| "attempts gen exec active (k # ks) messages calls =
     (let (response, calls') = gen messages calls in
      case attempt exec active k response of
        None \<Rightarrow> (None, calls')
      | Some (Inl o') \<Rightarrow> (Some o', calls')
      | Some (Inr corrections) \<Rightarrow> attempts gen exec active ks (messages @ corrections) calls')"

definition first_messages :: "string \<Rightarrow> prior_call option \<Rightarrow> llm_message list" where
  "first_messages message prior =
     (case prior of
        None \<Rightarrow> []
      | Some c \<Rightarrow>
          [said ''assistant'' (''Previous tool executed: '' @ pc_tool_name c @
             '' with arguments '' @ json_dumps (JObj (pc_arguments c)))])
     @ [said ''user'' message]"

definition run ::
  "llm_generate \<Rightarrow> tool_exec \<Rightarrow> string list \<Rightarrow> string \<Rightarrow> prior_call option \<Rightarrow>
   analytics_outcome option \<times> nat" where
  "run gen exec active message prior = attempts gen exec active [0, 1] (first_messages message prior) 0"

section \<open>Properties\<close>

text \<open>The two assertions of the source never fail on an executor that keeps its contract.\<close>

lemma attempt_Some:
  assumes "\<And>n a. \<not> is_success (exec n a) \<Longrightarrow> xr_error (exec n a) \<noteq> None"
  shows "\<exists>x. attempt exec active k r = Some x"
proof (cases r)
  case (Inr q)
  show ?thesis
  proof (cases "tool_calls q")
    case (Cons tc rest)
    obtain e where "\<not> is_success (exec (tc_name tc) (tc_arguments tc)) \<Longrightarrow>
        xr_error (exec (tc_name tc) (tc_arguments tc)) = Some e"
      using assms by blast
    with Inr Cons show ?thesis
      by (auto simp: attempt_def has_tool_calls_def primary_tool_call_def Let_def)
  qed (use Inr in \<open>simp add: attempt_def has_tool_calls_def\<close>)
qed (simp add: attempt_def)

lemma attempts_Some:
  assumes "\<And>n a. \<not> is_success (exec n a) \<Longrightarrow> xr_error (exec n a) \<noteq> None"
  shows "\<exists>o'. fst (attempts gen exec active ks ms c) = Some o'"
proof (induction ks arbitrary: ms c)
  case (Cons k ks)
  obtain r c' where g: "gen ms c = (r, c')" by fastforce
  obtain x where "attempt exec active k r = Some x" using attempt_Some [of exec, OF assms] by blast
  with g Cons show ?case by (cases x) auto
qed simp

lemma attempts_calls:
  assumes "\<And>ms c. snd (gen ms c) \<le> Suc c"
  shows "snd (attempts gen exec active ks ms c) \<le> c + length ks"
proof (induction ks arbitrary: ms c)
  case (Cons k ks)
  obtain r c' where g: "gen ms c = (r, c')" by fastforce
  then have "c' \<le> Suc c" using assms [of ms c] by simp
  moreover have "snd (attempts gen exec active ks ms' c') \<le> c' + length ks" for ms'
    using Cons by blast
  ultimately have "snd (attempts gen exec active ks ms' c') \<le> c + length (k # ks)" for ms'
    by (metis add_Suc add_Suc_right length_Cons add_le_mono1 order_trans)
  then show ?case using g \<open>c' \<le> Suc c\<close> by (auto split: option.split sum.split)
qed simp

text \<open>The second attempt never asks for a third.\<close>

lemma attempt_last: "0 < k \<Longrightarrow> attempt exec active k r = Some x \<Longrightarrow> \<exists>o'. x = Inl o'"
  by (auto simp: attempt_def Let_def split: sum.splits option.splits if_splits)

text \<open>
  The outcomes that speak of a tool are decided by the executor, on a call the model proposed
  alone and for an active tool.
\<close>

definition decided :: "tool_exec \<Rightarrow> normalized_tool_call \<Rightarrow> analytics_outcome \<Rightarrow> bool" where
  "decided exec tc o' \<longleftrightarrow>
     (let x = exec (tc_name tc) (tc_arguments tc) in
      if is_success x then o' = success_outcome (tc_name tc) (tc_arguments tc) x
      else \<exists>e. xr_error x = Some e \<and> o' = failure_outcome tc e)"

definition tool_outcome :: "analytics_outcome \<Rightarrow> bool" where
  "tool_outcome o' \<longleftrightarrow>
     oc_type o' \<in> {ANSWERED, ANSWERED_EMPTY, NEEDS_SELECTION, DOMAIN_FAILURE, ARGUMENT_VALIDATION_FAILED}"

lemma no_tool_outcome [simp]:
  "\<not> tool_outcome (llm_failure e)" "\<not> tool_outcome (invalid_proposal m t)"
  "\<not> tool_outcome no_analytics_intent"
  by (cases e; simp add: tool_outcome_def outcome_def malformed_response_def provider_unavailable_def
      infrastructure_failure_def)
    (simp_all add: tool_outcome_def outcome_def invalid_proposal_def no_analytics_intent_def)

lemma attempt_decided:
  assumes "attempt exec active k r = Some (Inl o')" "tool_outcome o'"
  obtains q tc where "r = Inr q" "tool_calls q = [tc]" "tc_name tc \<in> set active" "decided exec tc o'"
proof -
  from assms obtain q where q: "r = Inr q" "tool_calls q \<noteq> []" "length (tool_calls q) \<le> 1"
    by (auto simp: attempt_def has_tool_calls_def split: sum.splits if_splits)
  then obtain tc where tc: "tool_calls q = [tc]" by (cases "tool_calls q") auto
  with assms q(1) show thesis
    by (intro that [OF q(1) tc])
       (auto simp: attempt_def has_tool_calls_def primary_tool_call_def decided_def Let_def
          split: option.splits if_splits)
qed

lemma attempts_decided:
  assumes "fst (attempts gen exec active ks ms c) = Some o'" "tool_outcome o'"
    "\<And>ms c q c'. gen ms c = (Inr q, c') \<Longrightarrow> list_all call_ok (tool_calls q)"
  shows "\<exists>tc. call_ok tc \<and> tc_name tc \<in> set active \<and> decided exec tc o'"
  using assms(1)
proof (induction ks arbitrary: ms c)
  case Nil
  with assms(2) show ?case by auto
next
  case (Cons k ks)
  obtain r c' where g: "gen ms c = (r, c')" by fastforce
  show ?case
  proof (cases "attempt exec active k r")
    case (Some x)
    show ?thesis
    proof (cases x)
      case (Inl o'')
      with Cons.prems g Some have "attempt exec active k r = Some (Inl o')" by simp
      from this assms(2) show ?thesis
      proof (rule attempt_decided)
        fix q tc assume "r = Inr q" "tool_calls q = [tc]" "tc_name tc \<in> set active" "decided exec tc o'"
        with assms(3) [of ms c q c'] g show ?thesis by auto
      qed
    next
      case (Inr corrections)
      with Cons.prems g Some have "fst (attempts gen exec active ks (ms @ corrections) c') = Some o'" by simp
      from Cons.IH [OF this] show ?thesis .
    qed
  qed (use Cons.prems g in simp)
qed

lemma success_outcome_type: "is_answered (success_outcome n a x)"
  by (simp add: success_outcome_def is_answered_def answered_def answered_empty_def outcome_def Let_def)

lemma failure_outcome_type: "\<not> is_answered (failure_outcome tc e)"
  by (simp add: is_answered_def outcome_def failure_outcome_def argument_validation_failed_def
      needs_selection_def infrastructure_failure_def domain_failure_def)

lemma no_data:
  "oc_data (failure_outcome tc e) = None" "oc_data (llm_failure x) = None"
  "oc_data (invalid_proposal m t) = None" "oc_data no_analytics_intent = None"
  by (simp_all add: outcome_def failure_outcome_def argument_validation_failed_def needs_selection_def
      infrastructure_failure_def domain_failure_def invalid_proposal_def no_analytics_intent_def)
    (cases x; simp add: outcome_def malformed_response_def provider_unavailable_def infrastructure_failure_def)

lemma decided_answered:
  assumes "decided exec tc o'" "is_answered o'"
  shows "is_success (exec (tc_name tc) (tc_arguments tc)) \<and>
    o' = success_outcome (tc_name tc) (tc_arguments tc) (exec (tc_name tc) (tc_arguments tc))"
  using assms failure_outcome_type by (auto simp: decided_def Let_def split: if_splits)

lemma decided_selection:
  assumes "decided exec tc o'" "oc_type o' = NEEDS_SELECTION"
  obtains e where "xr_error (exec (tc_name tc) (tc_arguments tc)) = Some e"
    "xe_type e = ''ProductAmbiguousError''"
    "o' = needs_selection (case xe_details e of Some (DetailCandidates cs) \<Rightarrow> cs | _ \<Rightarrow> [])
            (tc_name tc, tc_arguments tc) (tc_name tc)"
proof (cases "is_success (exec (tc_name tc) (tc_arguments tc))")
  case True
  with assms have "is_answered o'" using success_outcome_type by (auto simp: decided_def Let_def)
  with assms(2) show thesis by (simp add: is_answered_def)
next
  case False
  with assms obtain e where "xr_error (exec (tc_name tc) (tc_arguments tc)) = Some e"
    "o' = failure_outcome tc e"
    by (auto simp: decided_def Let_def)
  with assms(2) that show thesis
    by (auto simp: failure_outcome_def argument_validation_failed_def infrastructure_failure_def
        domain_failure_def outcome_def split: if_splits)
qed

lemma is_answered_tool_outcome: "is_answered o' \<Longrightarrow> tool_outcome o'"
  by (auto simp: is_answered_def tool_outcome_def)

context tool_surface
begin

lemma run_returns: "\<exists>o'. fst (run gen (\<lambda>n a. exec n a w) active m p) = Some o'"
  unfolding run_def by (rule attempts_Some) (use error in blast)

lemma run_answers_known:
  assumes "fst (run gen (\<lambda>n a. exec n a w) active m p) = Some o'" "is_answered o'"
    "\<And>ms c q c'. gen ms c = (Inr q, c') \<Longrightarrow> list_all call_ok (tool_calls q)"
  shows "\<exists>n. oc_tool o' = Some n \<and> n \<in> set active \<and> known n \<and> oc_data o' \<noteq> None"
proof -
  obtain tc where tc: "tc_name tc \<in> set active" "decided (\<lambda>n a. exec n a w) tc o'"
    using attempts_decided [OF assms(1) [unfolded run_def] is_answered_tool_outcome [OF assms(2)]] assms(3)
    by blast
  note d = decided_answered [OF tc(2) assms(2)]
  from data [OF conjunct1 [OF d]] d tc(1) show ?thesis
    by (auto simp: success_outcome_def answered_def answered_empty_def outcome_def Let_def)
qed

end

text \<open>The orchestrator on the program's own client, registry and executor.\<close>

record ai_env = llm_env +
  validation :: pydantic
  input_schema :: "input_model \<Rightarrow> dict"

definition function_name :: "json \<Rightarrow> string option" where
  "function_name t =
     (case Option.bind (as_dict t) (\<lambda>d. as_dict (json_get ''function'' d)) of
        None \<Rightarrow> None
      | Some f \<Rightarrow> (case json_get ''name'' f of JStr s \<Rightarrow> Some s | _ \<Rightarrow> None))"

definition run_analytics ::
  "'z ai_env_scheme \<Rightarrow> string \<Rightarrow> uuid \<Rightarrow> prior_call option \<Rightarrow> world \<Rightarrow>
   analytics_outcome option \<times> nat" where
  "run_analytics E message sid prior w =
     (let tools_reg = build_default_registry E;
          tools = filter (\<lambda>t. function_name t \<in> Some ` set DEFAULT_ACTIVE_TOOLS)
                    (get_openai_tools (input_schema E) tools_reg) in
      run (\<lambda>ms k. generate E ms tools k)
          (\<lambda>n args. execute_call (validation E) tools_reg n args sid w)
          DEFAULT_ACTIVE_TOOLS message prior)"

lemma run_analytics_returns: "\<exists>o'. fst (run_analytics E m sid p w) = Some o'"
  unfolding run_analytics_def Let_def by (rule executor.run_returns)

lemma run_analytics_calls: "snd (run_analytics E m sid p w) \<le> 2"
  unfolding run_analytics_def run_def Let_def
  by (rule order_trans [OF attempts_calls]) (simp_all add: generate_counts)


lemma run_analytics_decided:
  assumes "fst (run_analytics E m sid p w) = Some o'" "tool_outcome o'"
  obtains tc where "call_ok tc" "tc_name tc \<in> set DEFAULT_ACTIVE_TOOLS"
    "decided (\<lambda>n args. execute_call (validation E) (build_default_registry E) n args sid w) tc o'"
  using attempts_decided [OF assms(1) [unfolded run_analytics_def run_def Let_def] assms(2)]
  by (metis (no_types, lifting) generate_ok)

text \<open>An answer is what a tool's handler returned; no other outcome carries data.\<close>

lemma run_analytics_answered:
  assumes "fst (run_analytics E m sid p w) = Some o'" "is_answered o'"
  shows "\<exists>tool x out. tool \<in> set DEFAULT_ACTIVE_TOOLS \<and> oc_tool o' = Some tool \<and> oc_data o' = Some out \<and>
    map_of default_tools tool = Some (model_of x) \<and> input_ok x \<and> tool_handler E sid x w = Inr out"
proof -
  let ?exec = "\<lambda>n args. execute_call (validation E) (build_default_registry E) n args sid w"
  from run_analytics_decided [OF assms(1) is_answered_tool_outcome [OF assms(2)]]
  obtain tc where tc: "tc_name tc \<in> set DEFAULT_ACTIVE_TOOLS" "decided ?exec tc o'" by blast
  note d = decided_answered [OF tc(2) assms(2)]
  from execute_success [OF conjunct1 [OF d]]
  obtain t x out where x: "map_of (build_default_registry E) (tc_name tc) = Some t"
    "validate_schema (validation E) (td_input t) (tc_arguments tc) = Inr x" "td_handler t sid x w = Inr out"
    "?exec (tc_name tc) (tc_arguments tc) = success (tc_name tc) out (model_dump x)" .
  have "oc_tool o' = Some (tc_name tc)" "oc_data o' = Some out"
    using d x(4) by (simp_all add: success_outcome_def answered_def answered_empty_def outcome_def Let_def)
  with tc(1) x(3) default_registry_get [OF x(1)] validate_schema_Inr [OF x(2)] show ?thesis by auto
qed

lemma attempts_data:
  "fst (attempts gen exec active ks ms c) = Some o' \<Longrightarrow> is_answered o' \<or> oc_data o' = None"
proof (induction ks arbitrary: ms c)
  case (Cons k ks)
  have one: "is_answered x \<or> oc_data x = None" if "attempt exec active k r = Some (Inl x)" for r x
    using that success_outcome_type
    by (auto simp: attempt_def no_data Let_def split: sum.splits option.splits if_splits)
  from Cons show ?case
    by (auto simp: Let_def one split: prod.splits option.splits sum.splits)
qed (auto simp: no_data)

lemma run_analytics_unanswered:
  "fst (run_analytics E m sid p w) = Some o' \<Longrightarrow> \<not> is_answered o' \<Longrightarrow> oc_data o' = None"
  unfolding run_analytics_def run_def Let_def using attempts_data by blast

end
