(* ===== verification/Formatter.thy ===== *)
theory Formatter
  imports Orchestrator
begin

text \<open>
  \<open>app/ai/formatter.py\<close>: the message key and the parameters that present an outcome. Data of
  another tool than the one named shows the defaults of \<open>getattr\<close>. The name of a period is read
  from the arguments of the call, which are JSON.
\<close>

section \<open>Periods\<close>

definition relative_names :: "(string \<times> string) list" where
  "relative_names =
     [(''day'', ''today''), (''week'', ''this week''), (''month'', ''this month''), (''year'', ''this year'')]"

definition resolve_period_name :: "dict \<Rightarrow> string" where
  "resolve_period_name args =
     (let default = ''the requested period'' in
      case map_of args ''period'' of
        Some (JStr s) \<Rightarrow> s
      | Some (JObj p) \<Rightarrow>
          if json_get ''period_type'' p = JStr ''relative''
          then (case json_get ''relative_period'' p of
                  JStr rel \<Rightarrow>
                    (case map_of relative_names rel of
                       Some n \<Rightarrow> n
                     | None \<Rightarrow> ''the requested '' @ (if rel = [] then ''period'' else rel))
                | _ \<Rightarrow> default)
          else if json_get ''period_type'' p = JStr ''date_range''
          then (case as_dict (json_get ''date_range'' p) of
                  None \<Rightarrow> default
                | Some dr \<Rightarrow>
                    (case (nonempty_text (json_get ''start_date'' dr), nonempty_text (json_get ''end_date'' dr)) of
                       (Some a, Some b) \<Rightarrow> a @ '' to '' @ b
                     | _ \<Rightarrow> default))
          else default
      | _ \<Rightarrow> default)"

definition call_arguments :: "analytics_outcome \<Rightarrow> dict" where
  "call_arguments o' = (case oc_call o' of None \<Rightarrow> [] | Some c \<Rightarrow> snd c)"

type_synonym presentation = "message_key \<times> params"

section \<open>The answers\<close>

text \<open>The dash and the bullet of the lists, in UTF-8.\<close>

definition dash :: string where
  "dash = '' '' @ [CHR 0xE2, CHR 0x80, CHR 0x94] @ '' ''"

definition bullet :: string where
  "bullet = [CHR 0xE2, CHR 0x80, CHR 0xA2] @ '' ''"

definition format_sales_summary :: "analytics_outcome \<Rightarrow> presentation" where
  "format_sales_summary o' =
     (let (total_rev, tx_count) =
        (case oc_data o' of Some (GetSalesSummaryOutput r n) \<Rightarrow> (r, n) | _ \<Rightarrow> (0, 0)) in
      (MK_ANALYTICS_SALES_SUMMARY,
       [(''period_name'', PStr (resolve_period_name (call_arguments o'))),
        (''total_revenue'', PStr (fmt_c2f total_rev)), (''transaction_count'', PInt (int tx_count))]))"

definition format_stock_level :: "analytics_outcome \<Rightarrow> presentation" where
  "format_stock_level o' =
     (let (nm, qty, threshold, price, low) =
        (case oc_data o' of
           Some (GetStockLevelOutput u nm q t p l) \<Rightarrow> (nm, q, t, p, l)
         | _ \<Rightarrow> (''Product'', 0, 0, 0, False)) in
      if low
      then (MK_ANALYTICS_STOCK_LEVEL_LOW,
            [(''product_name'', PStr nm), (''quantity'', PInt qty), (''price'', PStr (fmt_c2f price)),
             (''threshold'', PInt threshold)])
      else (MK_ANALYTICS_STOCK_LEVEL,
            [(''product_name'', PStr nm), (''quantity'', PInt qty), (''price'', PStr (fmt_c2f price))]))"

definition numbered :: "('a \<Rightarrow> string) \<Rightarrow> 'a list \<Rightarrow> string list" where
  "numbered f xs = map (\<lambda>(i, x). str_nat i @ ''. '' @ f x) (enumerate 1 xs)"

definition str_opt_int :: "int option \<Rightarrow> string" where
  "str_opt_int n = (case n of None \<Rightarrow> ''None'' | Some k \<Rightarrow> str_int k)"

definition format_top_products :: "analytics_outcome \<Rightarrow> presentation" where
  "format_top_products o' =
     (let (units, revenue) =
        (case oc_data o' of
           Some (GetTopProductsOutput us rv) \<Rightarrow>
             (case us of None \<Rightarrow> [] | Some xs \<Rightarrow> xs, case rv of None \<Rightarrow> [] | Some xs \<Rightarrow> xs)
         | _ \<Rightarrow> ([], []));
        unit_lines =
          (if units = [] then []
           else ''*By units sold:*''
             # numbered (\<lambda>it. ti_name it @ dash @ str_opt_int (ti_units_sold it) @ '' units'') (take 5 units));
        revenue_lines =
          (if revenue = [] then []
           else (if unit_lines = [] then [] else [''''])
             @ ''*By revenue:*''
             # numbered (\<lambda>it. ti_name it @ dash @
                 (case ti_revenue it of None \<Rightarrow> ''N/A'' | Some r \<Rightarrow> ''KES '' @ fmt_c2f r)) (take 5 revenue));
        all_lines = unit_lines @ revenue_lines in
      (MK_ANALYTICS_TOP_PRODUCTS,
       [(''period_name'', PStr (resolve_period_name (call_arguments o'))),
        (''products_summary'',
           PStr (if all_lines = [] then ''No product rankings available.'' else str_join nl all_lines))]))"

definition format_low_stock_items :: "analytics_outcome \<Rightarrow> presentation" where
  "format_low_stock_items o' =
     (let (items, cnt) =
        (case oc_data o' of Some (GetLowStockItemsOutput xs n) \<Rightarrow> (xs, n) | _ \<Rightarrow> ([], 0));
        item_lines =
          map (\<lambda>it. bullet @ li_name it @ '': '' @ str_int (li_stock it) @ '' units left '' @
                 ''(threshold: '' @ str_int (li_threshold it) @ '')'') (take 10 items) in
      (MK_ANALYTICS_LOW_STOCK_ITEMS,
       [(''count'', PInt (int cnt)),
        (''items_summary'',
           PStr (if item_lines = [] then ''No items currently below threshold.'' else str_join nl item_lines))]))"

definition signed_percent :: "rat \<Rightarrow> string" where
  "signed_percent x = (if 0 \<le> x then ''+'' else []) @ fmt_1f x @ ''%''"

text \<open>A comparison period is named when the argument is there and not empty.\<close>

definition comparison_name :: "dict \<Rightarrow> string" where
  "comparison_name args =
     (case map_of args ''comparison_period'' of
        None \<Rightarrow> ''previous equivalent period''
      | Some c \<Rightarrow>
          if c \<in> {JNull, JStr [], JObj [], JArr [], JBool False, JInt 0, JNum 0}
          then ''previous equivalent period'' else resolve_period_name [(''period'', c)])"

definition format_sales_trend :: "analytics_outcome \<Rightarrow> presentation" where
  "format_sales_trend o' =
     (let args = call_arguments o';
          (curr_rev, prev_rev, rev_change, curr_tx, prev_tx, tx_change) =
            (case oc_data o' of
               Some (GetSalesTrendOutput a b c d e f) \<Rightarrow> (a, b, c, d, e, f)
             | _ \<Rightarrow> (0, 0, 0, 0, 0, 0)) in
      (MK_ANALYTICS_SALES_TREND,
       [(''period_name'', PStr (resolve_period_name args)),
        (''comparison_period_name'', PStr (comparison_name args)),
        (''current_revenue'', PStr (fmt_c2f curr_rev)), (''previous_revenue'', PStr (fmt_c2f prev_rev)),
        (''revenue_change'', PStr (signed_percent rev_change)),
        (''current_transactions'', PInt (int curr_tx)), (''previous_transactions'', PInt (int prev_tx)),
        (''transaction_change'', PStr (signed_percent tx_change))]))"

definition format_slow_moving_items :: "analytics_outcome \<Rightarrow> presentation" where
  "format_slow_moving_items o' =
     (let (items, cnt) =
        (case oc_data o' of Some (GetSlowMovingItemsOutput xs n) \<Rightarrow> (xs, n) | _ \<Rightarrow> ([], 0));
        item_lines =
          map (\<lambda>it. bullet @ sl_name it @ '': '' @ str_int (sl_units it) @ '' sold ('' @
                 str_int (sl_stock it) @ '' in stock)'') (take 10 items) in
      (MK_ANALYTICS_SLOW_MOVING_ITEMS,
       [(''period_name'', PStr (resolve_period_name (call_arguments o'))), (''count'', PInt (int cnt)),
        (''items_summary'',
           PStr (if item_lines = [] then ''No slow-moving products identified.'' else str_join nl item_lines))]))"

definition format_product_price :: "analytics_outcome \<Rightarrow> presentation" where
  "format_product_price o' =
     (let (nm, price, sku) =
        (case oc_data o' of
           Some (GetProductPriceOutput u nm p k) \<Rightarrow> (nm, p, k)
         | _ \<Rightarrow> (''Product'', 0, ''N/A'')) in
      (MK_ANALYTICS_PRODUCT_PRICE,
       [(''product_name'', PStr nm), (''price'', PStr (fmt_c2f price)), (''sku'', PStr sku)]))"

section \<open>The outcome\<close>

definition tool_name_text :: "analytics_outcome \<Rightarrow> string" where
  "tool_name_text o' = (case oc_tool o' of None \<Rightarrow> ''None'' | Some n \<Rightarrow> n)"

definition answer_formats :: "(string \<times> (analytics_outcome \<Rightarrow> presentation)) list" where
  "answer_formats =
     [(''get_sales_summary'', format_sales_summary), (''get_stock_level'', format_stock_level),
      (''get_top_products'', format_top_products), (''get_low_stock_items'', format_low_stock_items),
      (''get_sales_trend'', format_sales_trend), (''get_slow_moving_items'', format_slow_moving_items),
      (''get_product_price'', format_product_price)]"

definition format_answered :: "analytics_outcome \<Rightarrow> presentation" where
  "format_answered o' =
     (case Option.bind (oc_tool o') (map_of answer_formats) of
        Some f \<Rightarrow> f o'
      | None \<Rightarrow>
          (MK_UNKNOWN_ERROR,
           [(''message'', PStr (''Tool '' @ quoted (tool_name_text o') @ '' executed successfully.''))]))"

definition format_answered_empty :: "analytics_outcome \<Rightarrow> presentation" where
  "format_answered_empty o' =
     (let period = [(''period_name'', PStr (resolve_period_name (call_arguments o')))] in
      if oc_tool o' = Some ''get_top_products'' then (MK_ANALYTICS_TOP_PRODUCTS_EMPTY, period)
      else if oc_tool o' = Some ''get_low_stock_items'' then (MK_ANALYTICS_LOW_STOCK_ITEMS_EMPTY, [])
      else if oc_tool o' = Some ''get_sales_trend'' then (MK_ANALYTICS_SALES_TREND_EMPTY, period)
      else if oc_tool o' = Some ''get_slow_moving_items''
      then (MK_ANALYTICS_SLOW_MOVING_ITEMS_EMPTY, period)
      else (MK_ANALYTICS_SALES_SUMMARY_EMPTY, period))"

definition or_text :: "string option \<Rightarrow> string \<Rightarrow> string" where
  "or_text m s = (case m of None \<Rightarrow> s | Some t \<Rightarrow> if t = [] then s else t)"

definition format_outcome :: "analytics_outcome \<Rightarrow> presentation" where
  "format_outcome o' =
     (case oc_type o' of
        ANSWERED \<Rightarrow> format_answered o'
      | ANSWERED_EMPTY \<Rightarrow> format_answered_empty o'
      | NEEDS_SELECTION \<Rightarrow> (MK_PRODUCT_CHOICES, [(''candidates'', PCands (oc_candidates o'))])
      | DOMAIN_FAILURE \<Rightarrow>
          if oc_error_type o' = Some ''ProductNotFoundError'' then (MK_PRODUCT_NOT_FOUND, [])
          else (MK_ANALYTICS_DOMAIN_ERROR,
                [(''message'', PStr (or_text (oc_message o') ''Could not complete analytics request.''))])
      | PROVIDER_UNAVAILABLE \<Rightarrow> (MK_ANALYTICS_PROVIDER_UNAVAILABLE, [])
      | INFRASTRUCTURE_FAILURE \<Rightarrow> (MK_ANALYTICS_INFRASTRUCTURE_ERROR, [])
      | GUARDRAIL_REJECTED \<Rightarrow>
          if oc_error_type o' = Some ''RateLimitUnavailable''
          then (MK_ANALYTICS_TEMPORARILY_UNAVAILABLE, []) else (MK_ANALYTICS_DAILY_LIMIT, [])
      | _ \<Rightarrow> (MK_ANALYTICS_INVALID_PROPOSAL, [(''message'', PStr (or_text (oc_message o') []))]))"

end
