(* ===== verification/AnalyticsFlow.thy ===== *)
theory AnalyticsFlow
  imports FlowSteps Formatter
begin

text \<open>
  \<open>app/fsm/routing_policy.py\<close> and \<open>app/fsm/flows/analytics.py\<close>: when an unrecognised message may
  be sent to the language model, the answer to such a question, and the choice of a product when
  the question was ambiguous. Both handlers meet the contract of \<open>FlowContract\<close>.
\<close>

section \<open>The routing policy\<close>

definition MIN_MESSAGE_LENGTH :: nat where "MIN_MESSAGE_LENGTH = 2"
definition MAX_MESSAGE_LENGTH :: nat where "MAX_MESSAGE_LENGTH = 500"

definition has_fresh_context :: "'z db_env_scheme \<Rightarrow> user_session \<Rightarrow> bool" where
  "has_fresh_context E s =
     (case last_analytics_call (ctx s) of
        None \<Rightarrow> False
      | Some c \<Rightarrow> now E - pc_timestamp c \<le> seconds (analytics_follow_up_ttl_seconds (cfg E)))"

definition can_route :: "'z llm_env_scheme \<Rightarrow> user_session \<Rightarrow> string \<Rightarrow> bool" where
  "can_route E s message =
     (if \<not> analytics_enabled (cfg E) then False
      else if api_key E = [] then False
      else
        (let cleaned = strip message;
             min_len = (if has_fresh_context E s then 1 else MIN_MESSAGE_LENGTH) in
         if py_len cleaned < min_len \<or> py_len cleaned > MAX_MESSAGE_LENGTH then False
         else if str_isdigit cleaned \<and> \<not> has_fresh_context E s then False
         else True))"

section \<open>The flow\<close>

definition assertion_error :: exc where
  "assertion_error = RuntimeError ''AssertionError''"

definition present ::
  "session_state \<Rightarrow> user_session \<Rightarrow> analytics_outcome \<Rightarrow> fsm_result" where
  "present prev s o' = (let (key, ps) = format_outcome o' in build_result prev s key ps)"

text \<open>What the outcome of a question changes in the session.\<close>

definition park :: "'z db_env_scheme \<Rightarrow> analytics_outcome \<Rightarrow> session_context \<Rightarrow> session_context" where
  "park E o' c =
     c\<lparr>product_candidates := oc_candidates o',
       pending_analytics_call := Some
         \<lparr>pd_tool_name = or_text (oc_tool o') ''get_stock_level'',
          pd_arguments = (case oc_pending o' of None \<Rightarrow> [] | Some p \<Rightarrow> snd p),
          pd_candidates = oc_candidates o'\<rparr>,
       error_count := 0\<rparr>"

definition remember :: "'z db_env_scheme \<Rightarrow> analytics_outcome \<Rightarrow> session_context \<Rightarrow> session_context" where
  "remember E o' c =
     (let c1 = c\<lparr>error_count := 0\<rparr> in
      case oc_call o' of
        None \<Rightarrow> c1
      | Some (n, args) \<Rightarrow>
          c1\<lparr>last_analytics_call :=
               Some \<lparr>pc_tool_name = n, pc_arguments = args, pc_timestamp = now E\<rparr>\<rparr>)"

definition after_query :: "'z fsm_env_scheme \<Rightarrow> analytics_outcome \<Rightarrow> user_session \<Rightarrow> user_session" where
  "after_query E o' s =
     (if oc_type o' = NEEDS_SELECTION
      then upd_ctx (park E o') (transition E S_ANALYTICS_PRODUCT_SELECTION s)
      else if is_answered o' then upd_ctx (remember E o') s
      else s)"

definition handle_query :: "'z ai_env_scheme \<Rightarrow> string \<Rightarrow> fsm_result step" where
  "handle_query E msg = (\<lambda>(s, w).
     and_then
       (get_db_session E (\<lambda>st.
          and_then (shop_of E st)
            (\<lambda>sid (s1, w1).
               let s2 = upd_ctx (\<lambda>c. c\<lparr>shop_id := Some sid\<rparr>) s1;
                   prior = (if has_fresh_context E s2 then last_analytics_call (ctx s2) else None) in
               case fst (run_analytics E msg sid prior w1) of
                 None \<Rightarrow> (Inl assertion_error, (s2, w1))
               | Some o' \<Rightarrow> (Inr o', (s2, w1)))) (s, w))
       (\<lambda>o' (s1, w1).
          let s2 = after_query E o' s1 in (Inr (present (sstate s) s2 o'), (s2, w1))))"

text \<open>The chosen product completes the arguments of the pending call.\<close>

definition selection_arguments :: "pending_call \<Rightarrow> scored_match \<Rightarrow> dict" where
  "selection_arguments p m =
     dict_set ''product_name'' (JStr (sm_name m))
       (dict_set ''product_id'' (JStr (uuid_str (sm_id m))) (pd_arguments p))"

definition selection_outcome :: "string \<Rightarrow> dict \<Rightarrow> tool_execution_result \<Rightarrow> analytics_outcome" where
  "selection_outcome n raw_args r =
     (if is_success r then success_outcome n raw_args r
      else case xr_error r of
        None \<Rightarrow> domain_failure n ''ExecutionFailure'' ''Failed to execute tool'' None
      | Some e \<Rightarrow>
          if xe_type e = ''InfrastructureError'' then infrastructure_failure (xe_message e)
          else domain_failure n (xe_type e) (xe_message e) None)"

definition after_selection ::
  "'z fsm_env_scheme \<Rightarrow> analytics_outcome \<Rightarrow> user_session \<Rightarrow> user_session" where
  "after_selection E o' s =
     transition E S_IDLE
       (upd_ctx (\<lambda>c. c\<lparr>last_analytics_call :=
                       (case (is_answered o', oc_call o') of
                          (True, Some (n, args)) \<Rightarrow>
                            Some \<lparr>pc_tool_name = n, pc_arguments = args, pc_timestamp = now E\<rparr>
                        | _ \<Rightarrow> last_analytics_call c),
                      pending_analytics_call := None, product_candidates := []\<rparr>) s)"

definition handle_product_selection :: "'z ai_env_scheme \<Rightarrow> string \<Rightarrow> fsm_result step" where
  "handle_product_selection E msg = (\<lambda>(s, w).
     (case resolve_product_choice s msg of
        Inl e \<Rightarrow> (Inl e, (s, w))
      | Inr m \<Rightarrow>
          (case pending_analytics_call (ctx s) of
             None \<Rightarrow>
               (let s1 = clear_context_preserving_history E (transition E S_IDLE s) in
                (Inr (build_result (sstate s) s1 MK_SESSION_CONTEXT_LOST []), (s1, w)))
           | Some p \<Rightarrow>
               (let raw_args = selection_arguments p m in
                and_then
                  (get_db_session E (\<lambda>st.
                     and_then (shop_of E st)
                       (\<lambda>sid (s1, w1).
                          (Inr (execute_call (validation E) (build_default_registry E) (pd_tool_name p)
                                  raw_args sid w1), (s1, w1)))) (s, w))
                  (\<lambda>r (s1, w1).
                     let o' = selection_outcome (pd_tool_name p) raw_args r;
                         s2 = after_selection E o' s1 in
                     (Inr (present (sstate s) s2 o'), (s2, w1)))))))"

declare handle_query_def [step_defs] handle_product_selection_def [step_defs]

section \<open>What a validated call may put into a session\<close>

lemma finite_members_iff: "finite_members d \<longleftrightarrow> list_all (\<lambda>kv. finite_json (snd kv)) d"
  by (induction d) auto

lemma finite_dump_period: "finite_json (dump_period p)"
proof -
  have "finite_json (dump_relative r)" for r by (cases r) simp_all
  then show ?thesis
    by (auto simp: dump_period_def opt_field_def dump_range_def split: option.split)
qed

lemma finite_model_dump: "finite_members (model_dump x)"
proof -
  have "finite_json (dump_dimension d)" for d by (cases d) simp_all
  then show ?thesis
    by (cases x) (auto simp: opt_field_def finite_dump_period split: option.split)
qed

lemma model_dump_empty: "input_ok x \<Longrightarrow> model_dump x = [] \<Longrightarrow> x = GetLowStockItemsInput"
  by (cases x) (auto simp: opt_field_def identifier_present_def split: option.splits)

lemma validated_arguments_finite:
  assumes "validate_schema P m raw = Inr x"
  shows "finite_members (if model_dump x \<noteq> [] then model_dump x else raw)"
proof (cases "model_dump x = []")
  case True
  with validate_schema_Inr [OF assms] model_dump_empty have x: "x = GetLowStockItemsInput" by blast
  with validate_schema_Inr [OF assms] have m: "m = IM_LowStockItems" by simp
  with x assms have "raw = []"
    by (auto simp: validate_schema_def validate_low_stock_items_def v_forbid_extra_def list_all_iff
        split: if_splits vres.splits prod.splits) (cases raw; fastforce)
  with True show ?thesis by simp
qed (simp add: finite_model_dump)

text \<open>The arguments of an ambiguous call are texts: only the product tools are ambiguous.\<close>

lemma v_optional_finite:
  "v_optional k v_uuid d = VOk x \<Longrightarrow> map_of d k = Some j \<Longrightarrow> finite_json j"
  "v_optional k v_str d = VOk y \<Longrightarrow> map_of d k = Some j \<Longrightarrow> finite_json j"
  by (cases j; simp add: v_optional_def v_default_def v_nullable_def v_then_OK)+

lemma validate_identifier_finite:
  assumes "validate_identifier mk raw = VOk x" "distinct (map fst raw)"
  shows "finite_members raw"
  unfolding finite_members_iff list_all_iff
proof (intro ballI)
  fix kv assume kv: "kv \<in> set raw"
  then have "map_of raw (fst kv) = Some (snd kv)" using assms(2) by simp
  moreover have "fst kv \<in> {''product_id'', ''product_name''}"
    using assms(1) kv by (auto simp: validate_identifier_def v_then_OK v_forbid_extra_OK list_all_iff)
  ultimately show "finite_json (snd kv)"
    using assms(1)
    by (auto simp: validate_identifier_def v_then_OK v_forbid_extra_OK v_pair_OK dest: v_optional_finite)
qed

lemma resolve_product_ambiguous:
  assumes "resolve_product E sid t w = Inr r" "pr_status r = RS_AMBIGUOUS"
  shows "fst (get_products_by_fuzzy_name E sid (strip t) resolver_limit w) = Inr (pr_candidates r) \<and>
    pr_candidates r \<noteq> []"
proof (cases "fst (get_products_by_fuzzy_name E sid (strip t) resolver_limit w)")
  case (Inr ms)
  with assms show ?thesis
    by (cases ms) (auto simp: resolve_product_def Let_def split: if_splits)
qed (use assms in \<open>auto simp: resolve_product_def Let_def split: if_splits\<close>)

lemma select_product_ambiguous:
  assumes "select_product E sid pid nm w = Inl (ProductAmbiguousError t cs)" "world_ok w" "trigram_law E"
  shows "cs \<noteq> [] \<and> list_all good_match cs"
proof -
  have own: "own_product sid i a w \<noteq> Inl (ProductAmbiguousError t cs)" for i a
    using own_product_Inl by blast
  from assms(1) obtain r where "resolve_product E sid t w = Inr r" "pr_status r = RS_AMBIGUOUS"
    "pr_candidates r = cs"
    by (auto simp: select_product_def own e_then_Inl lift_exc_def
        split: if_splits option.splits resolution_status.splits sum.splits)
  with resolve_product_ambiguous
  have ms: "fst (get_products_by_fuzzy_name E sid (strip t) resolver_limit w) = Inr cs" "cs \<noteq> []"
    by blast+
  obtain w' where "get_products_by_fuzzy_name E sid (strip t) resolver_limit w = (Inr cs, w')"
    using ms(1) by (cases "get_products_by_fuzzy_name E sid (strip t) resolver_limit w") simp
  with ms fuzzy_good [OF this _ assms(2,3)] show ?thesis by (simp add: list_all_iff)
qed

lemma period_errors:
  "resolve_period_boundaries p t \<noteq> Inl (ProductAmbiguousError n cs)"
  "resolve_previous_period_boundaries p t \<noteq> Inl (ProductAmbiguousError n cs)"
proof -
  have r: "resolve_relative_local_boundaries rel d \<noteq> Inl (ProductAmbiguousError n cs)" for rel d
    by (cases rel) (auto simp: resolve_relative_local_boundaries_def out_of_range_def year_out_of_range_def Let_def)
  have u: "to_utc b \<noteq> Inl (ProductAmbiguousError n cs)" for b
    by (simp add: to_utc_def out_of_range_def)
  show p: "resolve_period_boundaries p t \<noteq> Inl (ProductAmbiguousError n cs)"
    using r u by (auto simp: resolve_period_boundaries_def out_of_range_def Let_def
        split: period_type.split option.split sum.split)
  show "resolve_previous_period_boundaries p t \<noteq> Inl (ProductAmbiguousError n cs)"
    using r u p by (auto simp: resolve_previous_period_boundaries_def out_of_range_def Let_def
        split: period_type.split option.split sum.split)
qed

lemma tool_handler_ambiguous:
  assumes "tool_handler E sid x w = Inl (ProductAmbiguousError t cs)" "world_ok w" "trigram_law E"
  shows "cs \<noteq> [] \<and> list_all good_match cs \<and>
    (\<exists>pid nm. x = GetStockLevelInput pid nm \<or> x = GetProductPriceInput pid nm)"
proof (cases x)
  case (GetStockLevelInput pid nm)
  with assms select_product_ambiguous [of E sid pid nm w t cs] show ?thesis
    by (auto simp: handle_get_stock_level_def e_then_Inl Let_def)
next
  case (GetProductPriceInput pid nm)
  with assms select_product_ambiguous [of E sid pid nm w t cs] show ?thesis
    by (auto simp: handle_get_product_price_def e_then_Inl)
qed (use assms(1) period_errors in \<open>auto simp: handle_get_sales_summary_def handle_get_top_products_def
      handle_get_sales_trend_def handle_get_low_stock_items_def handle_get_slow_moving_items_def
      e_then_Inl bounds_of_def Let_def split: prod.splits if_splits option.splits\<close>)

text \<open>What the executor's results bring into a session.\<close>

lemma validation_failure_types:
  assumes "validate_schema P m raw = Inl x" "xr_error (validation_failure n x) = Some e"
  shows "xe_type e \<noteq> ''ProductAmbiguousError''"
  using assms(2) validate_schema_Inl [OF assms(1)] by auto

lemma execute_ambiguous:
  assumes "xr_error (execute_call P (build_default_registry E) n raw sid w) = Some e"
    "xe_type e = ''ProductAmbiguousError''" "world_ok w" "trigram_law E" "distinct (map fst raw)"
  obtains cs where "xe_details e = Some (DetailCandidates cs)" "cs \<noteq> []" "list_all good_match cs"
    "finite_members raw"
proof -
  have only: "ai_type_name x = ''ProductAmbiguousError'' \<Longrightarrow> \<exists>t cs. x = ProductAmbiguousError t cs" for x
  proof (cases x)
    case (OtherError y)
    moreover assume "ai_type_name x = ''ProductAmbiguousError''"
    ultimately show ?thesis by (cases y) simp_all
  qed simp_all
  from assms(1) obtain t x y where r: "map_of (build_default_registry E) n = Some t"
    "validate_schema P (td_input t) raw = Inr x" "td_handler t sid x w = Inl y"
    "xr_error (execution_failure n y) = Some e"
    using validation_failure_types assms(2)
    by (auto simp: execute_call_def get_tool_def split: sum.splits option.splits)
  from r(4) assms(2) have "ai_type_name y = ''ProductAmbiguousError''"
    by (auto simp: execution_failure_def split: if_splits)
  with only obtain nm cs where y: "y = ProductAmbiguousError nm cs" by blast
  with r(3) default_registry_get [OF r(1)] have "tool_handler E sid x w = Inl (ProductAmbiguousError nm cs)"
    by simp
  note h = tool_handler_ambiguous [OF this assms(3,4)]
  have "xe_details e = Some (DetailCandidates cs)"
    using r(4) y by (auto simp: execution_failure_def)
  moreover from r(2) have v: "model_validate (td_input t) raw = VOk x"
    by (auto simp: validate_schema_def split: if_splits vres.splits)
  have "finite_members raw"
  proof -
    from h validate_schema_Inr [OF r(2)] have "td_input t = IM_StockLevel \<or> td_input t = IM_ProductPrice"
      by auto
    with v show ?thesis using validate_identifier_finite [OF _ assms(5)] by auto
  qed
  ultimately show thesis using h that by blast
qed

lemma execute_arguments_finite:
  assumes "is_success (execute_call P tools n raw sid w)"
  shows "finite_members (let r = execute_call P tools n raw sid w in
           if xr_arguments r \<noteq> [] then xr_arguments r else raw)"
  using assms
proof (rule execute_success)
  fix t x out
  assume "validate_schema P (td_input t) raw = Inr x"
    "execute_call P tools n raw sid w = success n out (model_dump x)"
  with validated_arguments_finite [OF this(1)] show ?thesis by (simp add: Let_def split: if_splits)
qed

section \<open>The handlers meet the contract\<close>

lemma get_db_session_eq:
  "get_db_session E block st =
     (let (r, (s', w')) = block st in
      (r, (s', if injected E then w' else if is_ok r then commit w' else rollback w')))"
  by (simp add: get_db_session_def split: prod.split)

lemma good_matches_ok: "list_all good_match cs \<Longrightarrow> list_all match_ok cs"
  by (auto simp: list_all_iff good_match_def)

lemma after_query_ok:
  assumes "session_inv s" "sstate s = S_IDLE" "world_ok w" "trigram_law E"
    "fst (run_analytics E msg sid p w) = Some o'"
  shows "session_inv (after_query E o' s)"
proof (cases "tool_outcome o'")
  case False
  then have "oc_type o' \<noteq> NEEDS_SELECTION" "\<not> is_answered o'"
    by (auto simp: tool_outcome_def is_answered_def)
  with assms(1) show ?thesis by (simp add: after_query_def)
next
  case True
  let ?exec = "\<lambda>n args. execute_call (validation E) (build_default_registry E) n args sid w"
  from assms(5) True obtain tc where tc: "call_ok tc" "decided ?exec tc o'"
    by (rule run_analytics_decided)
  let ?x = "?exec (tc_name tc) (tc_arguments tc)"
  consider (sel) "oc_type o' = NEEDS_SELECTION" | (ans) "is_answered o'"
    | (none) "oc_type o' \<noteq> NEEDS_SELECTION" "\<not> is_answered o'" by blast
  then show ?thesis
  proof cases
    case sel
    from tc(2) sel obtain e where e: "xr_error ?x = Some e" "xe_type e = ''ProductAmbiguousError''"
      "o' = needs_selection (case xe_details e of Some (DetailCandidates cs) \<Rightarrow> cs | _ \<Rightarrow> [])
              (tc_name tc, tc_arguments tc) (tc_name tc)"
      by (rule decided_selection)
    from tc(1) have "distinct (map fst (tc_arguments tc))" by (simp add: call_ok_def)
    from e(1,2) assms(3,4) this obtain cs where cs: "xe_details e = Some (DetailCandidates cs)" "cs \<noteq> []"
      "list_all good_match cs" "finite_members (tc_arguments tc)"
      by (rule execute_ambiguous)
    with e(3) sel assms(1) good_matches_ok [OF cs(3)] show ?thesis
      by (auto simp: after_query_def session_inv_def fields_ok_def encodable_def park_def pending_ok_def
          needs_selection_def outcome_def upd_ctx_def)
  next
    case ans
    note d = decided_answered [OF tc(2) ans]
    from execute_arguments_finite [OF conjunct1 [OF d]]
    have "prior_ok \<lparr>pc_tool_name = n, pc_arguments = snd (the (oc_call o')), pc_timestamp = t\<rparr>" for n t
      using d by (auto simp: prior_ok_def success_outcome_def answered_def answered_empty_def Let_def
          split: if_splits)
    with ans assms(1,2) show ?thesis
      by (auto simp: after_query_def is_answered_def session_inv_def fields_ok_def encodable_def
          remember_def upd_ctx_def Let_def split: option.splits)
  next
    case none
    with assms(1) show ?thesis by (simp add: after_query_def)
  qed
qed

lemma after_query_frame [simp]:
  "phone (after_query E o' s) = phone s"
  "history (ctx (after_query E o' s)) = history (ctx s) @
     (if oc_type o' = NEEDS_SELECTION \<and> sstate s \<noteq> S_ANALYTICS_PRODUCT_SELECTION then [sstate s] else [])"
  by (auto simp: after_query_def upd_ctx_def park_def remember_def Let_def is_answered_def
      split: option.split)

lemma shop_of_frame:
  assumes "shop_of E (s, w) = (r, (s1, w1))" "world_ok w"
  shows "s1 = s" "world_ok w1" "r = Inl e \<Longrightarrow> service_error e"
  using assms op_world_ok(1) get_shop_id_errors
  by (auto simp: shop_of_def on_db_def split: prod.splits)

lemma session_inv_shop:
  "session_inv s \<Longrightarrow> session_inv (upd_ctx (\<lambda>c. c\<lparr>shop_id := Some sid\<rparr>) s)"
  by (auto simp: session_inv_def fields_ok_def encodable_def upd_ctx_def product_known_def price_known_def
      split: session_state.splits)

lemma handle_query_ok:
  assumes "session_inv s" "world_ok w" "sstate s = S_IDLE" "trigram_law E"
  shows "step_ok s (handle_query E msg (s, w))"
proof -
  obtain r s1 w1 where sh: "shop_of E (s, w) = (r, (s1, w1))" by (rule prod_cases3)
  note fr = shop_of_frame [OF sh assms(2)]
  show ?thesis
  proof (cases r)
    case (Inl e)
    with sh fr have "handle_query E msg (s, w) = (Inl e, (s, if injected E then w1 else rollback w1))"
      by (simp add: handle_query_def get_db_session_eq)
    with fr Inl show ?thesis by (auto intro!: step_ok_service_error)
  next
    case (Inr sid)
    let ?s2 = "upd_ctx (\<lambda>c. c\<lparr>shop_id := Some sid\<rparr>) s"
    let ?prior = "if has_fresh_context E ?s2 then last_analytics_call (ctx ?s2) else None"
    obtain o' where o: "fst (run_analytics E msg sid ?prior w1) = Some o'"
      using run_analytics_returns by blast
    with sh fr Inr have e: "handle_query E msg (s, w) =
        (Inr (present (sstate s) (after_query E o' ?s2) o'),
         (after_query E o' ?s2, if injected E then w1 else commit w1))"
      by (simp add: handle_query_def get_db_session_eq Let_def)
    have "session_inv (after_query E o' ?s2)"
      using after_query_ok [OF session_inv_shop [OF assms(1)] _ fr(2) assms(4) o] assms(3)
      by (simp add: upd_ctx_def)
    with fr(2) show ?thesis
      unfolding e
      by (intro step_ok_Inr) (auto simp: present_def build_result_def upd_ctx_def split: prod.split)
  qed
qed

lemma selection_outcome_call:
  assumes "is_answered (selection_outcome n raw (execute_call P tools n raw sid w))"
  shows "\<exists>args. oc_call (selection_outcome n raw (execute_call P tools n raw sid w)) = Some (n, args) \<and>
    finite_members args"
proof -
  have "is_success (execute_call P tools n raw sid w)"
  proof (rule ccontr)
    assume "\<not> ?thesis"
    with assms show False
      by (auto simp: selection_outcome_def is_answered_def domain_failure_def infrastructure_failure_def
          outcome_def split: option.splits if_splits)
  qed
  with execute_arguments_finite [OF this] show ?thesis
    by (auto simp: selection_outcome_def success_outcome_def answered_def answered_empty_def Let_def)
qed

lemma after_selection_ok:
  assumes "session_inv s" "o' = selection_outcome n raw (execute_call P tools n raw sid w)"
  shows "session_inv (after_selection E o' s)"
proof -
  have "case last_analytics_call (ctx (after_selection E o' s)) of None \<Rightarrow> True | Some c \<Rightarrow> prior_ok c"
    using assms(1) selection_outcome_call [of n raw P tools sid w] assms(2)
    by (auto simp: after_selection_def upd_ctx_def session_inv_def encodable_def prior_ok_def
        split: bool.split option.splits)
  moreover have "product_price (ctx (after_selection E o' s)) = product_price (ctx s)"
    "error_count (ctx (after_selection E o' s)) = error_count (ctx s)"
    "pending_analytics_call (ctx (after_selection E o' s)) = None"
    "product_candidates (ctx (after_selection E o' s)) = []"
    "sstate (after_selection E o' s) = S_IDLE"
    by (simp_all add: after_selection_def upd_ctx_def)
  ultimately show ?thesis
    using assms(1) by (simp add: session_inv_def fields_ok_def encodable_def)
qed

lemma handle_product_selection_ok:
  assumes "session_inv s" "world_ok w" "sstate s = S_ANALYTICS_PRODUCT_SELECTION"
  shows "step_ok s (handle_product_selection E msg (s, w))"
proof (cases "resolve_product_choice s msg")
  case (Inl e)
  then have "is_invalid_input e"
    by (auto simp: resolve_product_choice_def choice_lost_def invalid_choice_def Let_def
        split: if_splits option.splits)
  with Inl assms show ?thesis by (auto simp: handle_product_selection_def intro: step_ok_refused)
next
  case (Inr m)
  from assms(1,3) obtain p where p: "pending_analytics_call (ctx s) = Some p"
    by (auto simp: session_inv_def fields_ok_def)
  obtain r s1 w1 where sh: "shop_of E (s, w) = (r, (s1, w1))" by (rule prod_cases3)
  note fr = shop_of_frame [OF sh assms(2)]
  show ?thesis
  proof (cases r)
    case (Inl e)
    with sh fr Inr p have "handle_product_selection E msg (s, w) =
        (Inl e, (s, if injected E then w1 else rollback w1))"
      by (simp add: handle_product_selection_def get_db_session_eq Let_def)
    with fr Inl show ?thesis by (auto intro!: step_ok_service_error)
  next
    case (Inr sid)
    let ?o = "selection_outcome (pd_tool_name p) (selection_arguments p m)
        (execute_call (validation E) (build_default_registry E) (pd_tool_name p) (selection_arguments p m) sid w1)"
    have e: "handle_product_selection E msg (s, w) =
        (Inr (present (sstate s) (after_selection E ?o s) ?o),
         (after_selection E ?o s, if injected E then w1 else commit w1))"
      using sh fr Inr p \<open>resolve_product_choice s msg = Inr m\<close>
      by (simp add: handle_product_selection_def get_db_session_eq Let_def)
    show ?thesis
      unfolding e
      using fr(2) after_selection_ok [OF assms(1) refl]
      by (intro step_ok_Inr) (auto simp: present_def build_result_def after_selection_def upd_ctx_def
          split: prod.split)
  qed
qed

end
