(* ===== verification/Regex.thy ===== *)
theory Regex
  imports PyText
begin

text \<open>
  The part of Python's \<open>re\<close> that the intent patterns use: literals, the classes \<open>.\<close> and
  \<open>\s\<close>, a starred or plussed class, sequence, alternation, \<open>\b\<close>, \<open>^\<close> and \<open>$\<close>.
  \<open>ends r s i\<close> computes the positions where a match of \<open>r\<close> starting at \<open>i\<close> can end, \<open>rmatch\<close>
  is the relational meaning of a pattern, and the two agree. \<open>re.search\<close> asks for a match at
  some position; whether one exists does not depend on the order in which a backtracking
  matcher tries them. Word characters are the ASCII letters, digits and the underscore.
\<close>

datatype char_class = AnyChar | Space

fun class_has :: "char_class \<Rightarrow> char \<Rightarrow> bool" where
  "class_has AnyChar c = (c \<noteq> CHR 0x0A)"
| "class_has Space c = py_space c"

datatype rx =
    Eps
  | Lit char
  | Cls char_class
  | ClsStar char_class
  | Seq rx rx
  | Alt rx rx
  | Fail
  | WordB
  | Bol
  | Eol

definition word_char :: "char \<Rightarrow> bool" where
  "word_char c =
     (48 \<le> code c \<and> code c \<le> 57 \<or> 65 \<le> code c \<and> code c \<le> 90 \<or>
      97 \<le> code c \<and> code c \<le> 122 \<or> code c = 95)"

definition word_at_pos :: "string \<Rightarrow> nat \<Rightarrow> bool" where
  "word_at_pos s i = (i < length s \<and> word_char (s ! i))"

definition boundary :: "string \<Rightarrow> nat \<Rightarrow> bool" where
  "boundary s i = ((0 < i \<and> word_at_pos s (i - 1)) \<noteq> word_at_pos s i)"

fun ends :: "rx \<Rightarrow> string \<Rightarrow> nat \<Rightarrow> nat list" where
  "ends Eps s i = [i]"
| "ends Fail s i = []"
| "ends (Lit c) s i = (if i < length s \<and> s ! i = c then [Suc i] else [])"
| "ends (Cls k) s i = (if i < length s \<and> class_has k (s ! i) then [Suc i] else [])"
| "ends (ClsStar k) s i = [i ..< Suc (i + length (takeWhile (class_has k) (drop i s)))]"
| "ends (Seq r1 r2) s i = remdups (concat (map (ends r2 s) (ends r1 s i)))"
| "ends (Alt r1 r2) s i = remdups (ends r1 s i @ ends r2 s i)"
| "ends WordB s i = (if boundary s i then [i] else [])"
| "ends Bol s i = (if i = 0 then [i] else [])"
| "ends Eol s i =
     (if i = length s \<or> Suc i = length s \<and> s ! i = CHR 0x0A then [i] else [])"

definition search :: "rx \<Rightarrow> string \<Rightarrow> bool" where
  "search r s = list_ex (\<lambda>i. ends r s i \<noteq> []) [0 ..< Suc (length s)]"

section \<open>The meaning of a pattern\<close>

inductive rmatch :: "rx \<Rightarrow> string \<Rightarrow> nat \<Rightarrow> nat \<Rightarrow> bool" where
  m_eps: "rmatch Eps s i i"
| m_lit: "i < length s \<Longrightarrow> s ! i = c \<Longrightarrow> rmatch (Lit c) s i (Suc i)"
| m_cls: "i < length s \<Longrightarrow> class_has k (s ! i) \<Longrightarrow> rmatch (Cls k) s i (Suc i)"
| m_star0: "rmatch (ClsStar k) s i i"
| m_star1: "i < length s \<Longrightarrow> class_has k (s ! i) \<Longrightarrow> rmatch (ClsStar k) s (Suc i) j \<Longrightarrow>
     rmatch (ClsStar k) s i j"
| m_seq: "rmatch r1 s i j \<Longrightarrow> rmatch r2 s j k \<Longrightarrow> rmatch (Seq r1 r2) s i k"
| m_alt1: "rmatch r1 s i j \<Longrightarrow> rmatch (Alt r1 r2) s i j"
| m_alt2: "rmatch r2 s i j \<Longrightarrow> rmatch (Alt r1 r2) s i j"
| m_word: "boundary s i \<Longrightarrow> rmatch WordB s i i"
| m_bol: "rmatch Bol s 0 0"
| m_eol: "i = length s \<or> Suc i = length s \<and> s ! i = CHR 0x0A \<Longrightarrow> rmatch Eol s i i"

inductive_simps rmatch_simps [simp]:
  "rmatch Eps s i j"
  "rmatch Fail s i j"
  "rmatch (Lit c) s i j"
  "rmatch (Cls k) s i j"
  "rmatch (Seq r1 r2) s i j"
  "rmatch (Alt r1 r2) s i j"
  "rmatch WordB s i j"
  "rmatch Bol s i j"
  "rmatch Eol s i j"

inductive_cases rmatch_starE: "rmatch (ClsStar k) s i j"

lemma star_match_iff:
  "rmatch (ClsStar k) s i j \<longleftrightarrow>
     i \<le> j \<and> (j \<le> length s \<or> j = i) \<and> (\<forall>m. i \<le> m \<and> m < j \<longrightarrow> class_has k (s ! m))"
  (is "?L i \<longleftrightarrow> ?R i")
proof
  show "?L i \<Longrightarrow> ?R i"
  proof (induction "ClsStar k" s i j rule: rmatch.induct)
    case (m_star1 i s j)
    then show ?case by (auto simp: Suc_le_eq less_Suc_eq_le) (metis Suc_leI le_neq_implies_less)
  qed auto
next
  show "?R i \<Longrightarrow> ?L i"
  proof (induction "j - i" arbitrary: i)
    case 0
    then show ?case by (simp add: m_star0)
  next
    case (Suc n)
    then have "i < j" by simp
    with Suc have "rmatch (ClsStar k) s (Suc i) j" by auto
    with Suc.prems \<open>i < j\<close> show ?case by (auto intro: m_star1)
  qed
qed

lemma ends_star_iff:
  "j \<in> set (ends (ClsStar k) s i) \<longleftrightarrow>
     i \<le> j \<and> (j \<le> length s \<or> j = i) \<and> (\<forall>m. i \<le> m \<and> m < j \<longrightarrow> class_has k (s ! m))"
proof -
  let ?t = "takeWhile (class_has k) (drop i s)"
  have pre: "class_has k (s ! m)" if "i \<le> m" "m < i + length ?t" for m
  proof -
    have "?t ! (m - i) = drop i s ! (m - i)" using that by (simp add: takeWhile_nth)
    moreover have "?t ! (m - i) \<in> set ?t" using that by (simp add: nth_mem)
    moreover have "length ?t \<le> length s - i"
      using length_takeWhile_le [of "class_has k" "drop i s"] by simp
    ultimately show ?thesis using that by (auto dest: set_takeWhileD)
  qed
  have len: "length ?t \<le> length s - i"
    using length_takeWhile_le [of "class_has k" "drop i s"] by simp
  have post: "j \<le> i + length ?t"
    if "i \<le> j" "j \<le> length s \<or> j = i" "\<forall>m. i \<le> m \<and> m < j \<longrightarrow> class_has k (s ! m)"
  proof (rule ccontr)
    assume "\<not> j \<le> i + length ?t"
    with that have lt: "i + length ?t < j" "j \<le> length s" by auto
    then have "length ?t < length (drop i s)" by simp
    then have "\<not> class_has k (drop i s ! length ?t)" by (rule nth_length_takeWhile)
    with lt that(3) show False by auto
  qed
  have ne: "?t \<noteq> [] \<Longrightarrow> i < length s" by (cases "i < length s") simp_all
  show ?thesis using pre len post ne by (auto simp: less_Suc_eq_le)
qed

theorem ends_iff_rmatch: "j \<in> set (ends r s i) \<longleftrightarrow> rmatch r s i j"
proof (induction r arbitrary: i j)
  case (ClsStar k)
  show ?case by (simp only: ends_star_iff star_match_iff)
qed auto

lemma search_iff: "search r s \<longleftrightarrow> (\<exists>i j. i \<le> length s \<and> rmatch r s i j)"
proof -
  have "ends r s i \<noteq> [] \<longleftrightarrow> (\<exists>j. rmatch r s i j)" for i
    by (metis ends_iff_rmatch list.set_intros(1) neq_Nil_conv empty_iff empty_set)
  moreover have "set [0 ..< Suc (length s)] = {i. i \<le> length s}" by auto
  ultimately show ?thesis
    unfolding search_def list_ex_iff by (simp only: mem_Collect_eq) blast
qed

section \<open>Building blocks: literal words, choices, gaps\<close>

fun lit :: "string \<Rightarrow> rx" where
  "lit [] = Eps"
| "lit (c # cs) = Seq (Lit c) (lit cs)"

fun choice :: "rx list \<Rightarrow> rx" where
  "choice [] = Fail"
| "choice [r] = r"
| "choice (r # rs) = Alt r (choice rs)"

definition spaces1 :: rx where
  "spaces1 = Seq (Cls Space) (ClsStar Space)"

definition gap :: rx where
  "gap = ClsStar AnyChar"

definition bounded :: "rx \<Rightarrow> rx" where
  "bounded r = Seq WordB (Seq r WordB)"

definition group :: "string list \<Rightarrow> rx" where
  "group ws = bounded (choice (map lit ws))"

definition occurs_at :: "string \<Rightarrow> string \<Rightarrow> nat \<Rightarrow> bool" where
  "occurs_at w s i = (i + length w \<le> length s \<and> take (length w) (drop i s) = w)"

definition word_at :: "string \<Rightarrow> string \<Rightarrow> nat \<Rightarrow> bool" where
  "word_at w s i = (occurs_at w s i \<and> boundary s i \<and> boundary s (i + length w))"

lemma rmatch_lit: "i \<le> length s \<Longrightarrow> rmatch (lit w) s i j \<longleftrightarrow> occurs_at w s i \<and> j = i + length w"
proof (induction w arbitrary: i)
  case Nil
  then show ?case by (auto simp: occurs_at_def)
next
  case (Cons c w)
  show ?case
  proof (cases "i < length s")
    case True
    then have "drop i s = s ! i # drop (Suc i) s" by (simp add: Cons_nth_drop_Suc)
    with True Cons.IH [of "Suc i"] show ?thesis by (auto simp: occurs_at_def)
  next
    case False
    with Cons.prems show ?thesis by (auto simp: occurs_at_def)
  qed
qed

lemma rmatch_choice: "rmatch (choice rs) s i j \<longleftrightarrow> (\<exists>r \<in> set rs. rmatch r s i j)"
  by (induction rs rule: choice.induct) auto

lemma boundary_bound: "boundary s i \<Longrightarrow> i \<le> length s"
  by (auto simp: boundary_def word_at_pos_def)

lemma rmatch_group:
  "rmatch (group ws) s i j \<longleftrightarrow> (\<exists>w \<in> set ws. word_at w s i \<and> j = i + length w)"
  using boundary_bound [of s i]
  by (auto simp: group_def bounded_def rmatch_choice rmatch_lit word_at_def)

lemma rmatch_gap:
  assumes "CHR 0x0A \<notin> set s" "j \<le> length s"
  shows "rmatch gap s i j \<longleftrightarrow> i \<le> j"
  using assms by (auto simp: gap_def star_match_iff) (metis nth_mem order_less_le_trans)

text \<open>
  The shape most intent patterns have: a word of one group, anything, a word of another.
\<close>

lemma search_two_groups:
  assumes "CHR 0x0A \<notin> set s"
  shows "search (Seq (group as) (Seq gap (group bs))) s \<longleftrightarrow>
    (\<exists>a \<in> set as. \<exists>b \<in> set bs. \<exists>i j. word_at a s i \<and> word_at b s j \<and> i + length a \<le> j)"
  (is "?L \<longleftrightarrow> ?R")
proof
  assume ?L
  then obtain i j where "rmatch (Seq (group as) (Seq gap (group bs))) s i j"
    by (auto simp: search_iff)
  then obtain a m k b where "a \<in> set as" "word_at a s i" "rmatch gap s (i + length a) k"
      "b \<in> set bs" "word_at b s k"
    by (auto simp: rmatch_group)
  moreover from this have "i + length a \<le> k" by (simp add: gap_def star_match_iff)
  ultimately show ?R by blast
next
  assume ?R
  then obtain a b i j where ab: "a \<in> set as" "b \<in> set bs" "word_at a s i" "word_at b s j"
      "i + length a \<le> j" by blast
  then have "j \<le> length s" and "i \<le> length s" by (simp_all add: word_at_def boundary_bound)
  with ab assms have "rmatch gap s (i + length a) j" by (simp add: rmatch_gap)
  with ab have "rmatch (Seq (group as) (Seq gap (group bs))) s i (j + length b)"
    by (auto simp: rmatch_group)
  with \<open>i \<le> length s\<close> show ?L by (auto simp: search_iff)
qed

end
