(* ===== verification/Intents.thy ===== *)
theory Intents
  imports Regex Models
begin

text \<open>
  \<open>app/fsm/intent_resolver.py\<close>: the pattern tables of the intents, transcribed to the regular
  expressions of \<open>Regex\<close>, and \<open>IntentResolver.resolve\<close>, which tries them in the fixed order
  add product, record sale, generate report, check stock.
\<close>

definition product_verbs :: "string list" where
  "product_verbs = [''add'', ''create'', ''new'', ''register'', ''enter'', ''stock'']"

definition product_nouns :: "string list" where
  "product_nouns = [''product'', ''item'']"

definition ADD_PRODUCT_PATTERNS :: "rx list" where
  "ADD_PRODUCT_PATTERNS =
     [bounded (Seq (lit ''add'') (Seq spaces1 (lit ''product''))),
      Seq (group product_verbs) (Seq gap (group product_nouns)),
      Seq (group product_nouns) (Seq gap (group product_verbs))]"

definition sale_verbs :: "string list" where
  "sale_verbs = [''add'', ''record'', ''create'', ''new'', ''log'', ''capture'', ''sell'', ''sold'']"

definition sale_nouns :: "string list" where
  "sale_nouns = [''sale'', ''transaction'', ''payment'']"

definition RECORD_SALE_PATTERNS :: "rx list" where
  "RECORD_SALE_PATTERNS =
     [bounded (Seq (lit ''record'') (Seq spaces1 (lit ''sale''))),
      Seq (group sale_verbs) (Seq gap (group sale_nouns)),
      Seq (group sale_nouns) (Seq gap (group sale_verbs))]"

definition report_verbs :: "string list" where
  "report_verbs =
     [''generate'', ''create'', ''get'', ''send'', ''show'', ''view'', ''nataka'', ''nipe'']"

definition GENERATE_REPORT_PATTERNS :: "rx list" where
  "GENERATE_REPORT_PATTERNS =
     [bounded (Seq (lit ''generate'') (Seq spaces1 (lit ''report''))),
      Seq (group report_verbs) (Seq gap (group [''report'', ''ripoti'', ''summary''])),
      Seq (group [''report'', ''ripoti'']) (Seq gap (group report_verbs)),
      group [''daily report'', ''sales report'', ''summary report'']]"

definition how_many :: rx where
  "how_many = Seq (lit ''how'') (Seq spaces1 (lit ''many''))"

definition stock_verbs :: rx where
  "stock_verbs =
     bounded (choice
       [lit ''check'', lit ''view'', lit ''lookup'', lit ''query'', lit ''search'', lit ''find'',
        lit ''count'', how_many, lit ''show'', lit ''nataka'', lit ''nipe''])"

definition CHECK_STOCK_PATTERNS :: "rx list" where
  "CHECK_STOCK_PATTERNS =
     [bounded (Seq (lit ''check'') (Seq spaces1 (lit ''stock''))),
      bounded (Seq (lit ''stock'') (Seq spaces1 (lit ''lookup''))),
      Seq stock_verbs (Seq gap
        (group [''stock'', ''inventory'', ''quantity'', ''left'', ''remaining'', ''items''])),
      Seq (group [''stock'', ''inventory'', ''quantity'', ''remaining'']) (Seq gap stock_verbs),
      Seq Bol (Seq (choice [lit ''stock'', lit ''inventory'']) Eol)]"

definition matches_any :: "string \<Rightarrow> rx list \<Rightarrow> bool" where
  "matches_any t ps = list_ex (\<lambda>p. search p t) ps"

definition normalize_text :: "string \<Rightarrow> string" where
  "normalize_text t = str_join '' '' (py_split (strip (lower t)))"

definition resolve :: "string \<Rightarrow> intent" where
  "resolve t =
     (let n = normalize_text t
      in if n = [] then I_UNKNOWN
         else if matches_any n ADD_PRODUCT_PATTERNS then I_ADD_PRODUCT
         else if matches_any n RECORD_SALE_PATTERNS then I_RECORD_SALE
         else if matches_any n GENERATE_REPORT_PATTERNS then I_GENERATE_REPORT
         else if matches_any n CHECK_STOCK_PATTERNS then I_CHECK_STOCK
         else I_UNKNOWN)"

section \<open>Normalisation\<close>

lemma py_split_Nil [simp]: "py_split [] = []"
  by (simp add: py_split.simps)

definition is_word :: "string \<Rightarrow> bool" where
  "is_word w = (w \<noteq> [] \<and> (\<forall>c \<in> set w. \<not> py_space c))"

lemma split_words: "\<forall>w \<in> set (py_split s). is_word w"
proof (induction s rule: py_split.induct)
  case (1 s)
  let ?t = "dropWhile py_space s"
  show ?case
  proof (cases "?t = []")
    case False
    then have "takeWhile (\<lambda>c. \<not> py_space c) ?t \<noteq> []"
      using hd_dropWhile_space [of s] by (cases ?t) auto
    then have "is_word (takeWhile (\<lambda>c. \<not> py_space c) ?t)"
      by (auto simp: is_word_def dest: set_takeWhileD)
    with "1" [OF refl False] False show ?thesis
      by (subst py_split.simps) (simp add: Let_def)
  qed (simp add: py_split.simps [of s])
qed

lemma word_not_space: "is_word w \<Longrightarrow> c \<in> set w \<Longrightarrow> \<not> py_space c"
  by (simp add: is_word_def)

lemma py_split_word_rest:
  assumes "is_word w" "r = [] \<or> py_space (hd r)"
  shows "py_split (w @ r) = w # py_split r"
proof -
  have d: "dropWhile py_space (w @ r) = w @ r"
    using assms by (cases w) (auto simp: is_word_def)
  have t: "takeWhile (\<lambda>c. \<not> py_space c) (w @ r) = w"
    and dw: "dropWhile (\<lambda>c. \<not> py_space c) (w @ r) = r"
    using assms by (cases r; auto simp: is_word_def takeWhile_append dropWhile_append)+
  have "w \<noteq> []" using assms by (simp add: is_word_def)
  then show ?thesis
    by (subst py_split.simps) (simp add: Let_def d t dw)
qed

lemma py_split_space: "py_split (CHR 0x20 # r) = py_split r"
  by (simp add: py_split.simps [of "CHR 0x20 # r"] py_split.simps [of r] py_space_def)

lemma py_split_str_join:
  "\<forall>w \<in> set ws. is_word w \<Longrightarrow> py_split (str_join '' '' ws) = ws"
proof (induction ws)
  case Nil
  then show ?case by (simp add: str_join_def)
next
  case (Cons w ws)
  show ?case
  proof (cases ws)
    case Nil
    with Cons.prems show ?thesis
      using py_split_word_rest [of w "[]"] by (simp add: str_join_Cons)
  next
    case (Cons v vs)
    have "py_split (w @ '' '' @ str_join '' '' ws) = w # py_split ('' '' @ str_join '' '' ws)"
      using Cons.prems by (intro py_split_word_rest) (simp_all add: py_space_def)
    also have "\<dots> = w # ws"
      using Cons.IH Cons.prems by (simp add: py_split_space)
    finally show ?thesis by (simp add: str_join_Cons Cons)
  qed
qed

lemma set_str_join: "set (str_join sep ws) \<subseteq> set sep \<union> \<Union> (set ` set ws)"
  by (induction ws) (auto simp: str_join_Cons str_join_def split: if_splits)

lemma normalize_text_no_newline: "CHR 0x0A \<notin> set (normalize_text t)"
proof -
  have "\<not> (\<exists>w \<in> set (py_split (strip (lower t))). CHR 0x0A \<in> set w)"
    using split_words word_not_space by (fastforce simp: py_space_def)
  then show ?thesis
    using set_str_join [of "'' ''" "py_split (strip (lower t))"] by (auto simp: normalize_text_def)
qed


section \<open>The lower-case words of a message decide its intent\<close>

lemma takeWhile_space_lower:
  "takeWhile (\<lambda>c. \<not> py_space c) (map lower_char s) = map lower_char (takeWhile (\<lambda>c. \<not> py_space c) s)"
  "dropWhile (\<lambda>c. \<not> py_space c) (map lower_char s) = map lower_char (dropWhile (\<lambda>c. \<not> py_space c) s)"
  by (induction s) auto

lemma py_split_all_space: "\<forall>c \<in> set s. py_space c \<Longrightarrow> py_split s = []"
  by (subst py_split.simps) (simp add: dropWhile_eq_Nil_conv Let_def)

lemma py_split_lower: "py_split (lower s) = map lower (py_split s)"
proof (induction s rule: py_split.induct)
  case (1 s)
  let ?t = "dropWhile py_space s"
  show ?case
  proof (cases "?t = []")
    case True
    then have "\<forall>c \<in> set s. py_space c" "\<forall>c \<in> set (lower s). py_space c"
      by (auto simp: dropWhile_eq_Nil_conv lower_def)
    then show ?thesis by (simp add: py_split_all_space)
  next
    case False
    with "1" [OF refl False]
    have "py_split (map lower_char (dropWhile (\<lambda>c. \<not> py_space c) ?t))
        = map lower (py_split (dropWhile (\<lambda>c. \<not> py_space c) ?t))"
      by (simp add: lower_def)
    with False show ?thesis
      by (simp add: py_split.simps [of s] py_split.simps [of "map lower_char s"] lower_def
          dropWhile_lower [unfolded lower_def] takeWhile_space_lower Let_def)
  qed
qed

lemma py_split_lstrip: "py_split (lstrip s) = py_split s"
  by (subst (1 2) py_split.simps) (simp add: lstrip_def)

lemma py_split_trailing:
  assumes "\<forall>c \<in> set sp. py_space c"
  shows "py_split (s @ sp) = py_split s"
proof (induction s rule: py_split.induct)
  case (1 s)
  let ?t = "dropWhile py_space s"
  show ?case
  proof (cases "?t = []")
    case True
    then have "\<forall>c \<in> set (s @ sp). py_space c" "\<forall>c \<in> set s. py_space c"
      using assms by (auto simp: dropWhile_eq_Nil_conv)
    then show ?thesis by (simp only: py_split_all_space)
  next
    case False
    let ?w = "takeWhile (\<lambda>c. \<not> py_space c) ?t" and ?r = "dropWhile (\<lambda>c. \<not> py_space c) ?t"
    have d: "dropWhile py_space (s @ sp) = ?t @ sp"
      using False by (auto simp: dropWhile_eq_Nil_conv dropWhile_append)
    have sp0: "takeWhile (\<lambda>c. \<not> py_space c) sp = []" "dropWhile (\<lambda>c. \<not> py_space c) sp = sp"
      using assms by (cases sp; simp)+
    have "takeWhile (\<lambda>c. \<not> py_space c) (?t @ sp) = ?w"
      by (metis append_Nil2 sp0(1) takeWhile_append1 takeWhile_append2 takeWhile_eq_all_conv)
    moreover have "dropWhile (\<lambda>c. \<not> py_space c) (?t @ sp) = ?r @ sp"
      by (cases "\<forall>c \<in> set ?t. \<not> py_space c") (auto simp: dropWhile_append sp0)
    ultimately show ?thesis
      using "1" [OF refl False] False by (simp add: py_split.simps [of s] py_split.simps [of "s @ sp"] d Let_def)
  qed
qed

lemma rstrip_split: "\<exists>sp. s = rstrip s @ sp \<and> (\<forall>c \<in> set sp. py_space c)"
proof -
  have "s = rstrip s @ rev (takeWhile py_space (rev s))"
    by (metis rstrip_def rev_append rev_rev_ident takeWhile_dropWhile_id)
  then show ?thesis by (metis set_rev set_takeWhileD)
qed

lemma py_split_strip: "py_split (strip s) = py_split s"
  by (metis py_split_lstrip py_split_trailing rstrip_split strip_def)

lemma normalize_text_words: "normalize_text t = str_join '' '' (map lower (py_split t))"
  by (simp add: normalize_text_def py_split_strip py_split_lower)

theorem resolve_cong:
  "map lower (py_split t) = map lower (py_split u) \<Longrightarrow> resolve t = resolve u"
  by (simp add: resolve_def normalize_text_words)

lemma normalize_text_idem [simp]: "normalize_text (normalize_text t) = normalize_text t"
proof -
  have "\<forall>w \<in> set (map lower (py_split t)). is_word w"
    using split_words [of t] by (auto simp: is_word_def lower_def)
  then have "py_split (normalize_text t) = map lower (py_split t)"
    by (simp add: normalize_text_words py_split_str_join)
  then show ?thesis by (simp add: normalize_text_words [of "normalize_text t"] o_def)
       (simp add: normalize_text_words)
qed

section \<open>The add-product intent in terms of whole words\<close>

lemma word_char_space: "py_space c \<Longrightarrow> \<not> word_char c"
  by (auto simp: py_space_def word_char_def)

lemma spaces1_match:
  assumes "rmatch spaces1 s i j" "i \<le> length s"
  shows "i < j \<and> j \<le> length s \<and> py_space (s ! i) \<and> py_space (s ! (j - 1))"
proof -
  from assms(1) have i: "i < length s" "py_space (s ! i)" and st: "rmatch (ClsStar Space) s (Suc i) j"
    by (auto simp: spaces1_def)
  show ?thesis
  proof (cases "j = Suc i")
    case False
    with st have "Suc i < j" "j \<le> length s" "class_has Space (s ! (j - 1))"
      by (auto simp: star_match_iff)
    with i show ?thesis by simp
  qed (use i in simp)
qed

lemma phrase_words:
  assumes "search (bounded (Seq (lit a) (Seq spaces1 (lit b)))) s"
    and "a \<noteq> []" "b \<noteq> []" "word_char (last a)" "word_char (hd b)"
  shows "\<exists>i j. word_at a s i \<and> word_at b s j \<and> i + length a \<le> j"
proof -
  from assms(1) obtain i k where i: "i \<le> length s" "boundary s i" "occurs_at a s i"
      and sp: "rmatch spaces1 s (i + length a) k"
      and rest: "rmatch (lit b) s k (k + length b)" "boundary s (k + length b)" "k \<le> length s"
    unfolding search_iff bounded_def rmatch_simps
    by (metis (no_types, lifting) boundary_bound rmatch_lit spaces1_match occurs_at_def)
  from rest have b: "occurs_at b s k" by (simp add: rmatch_lit)
  have la: "i + length a \<le> length s" using i by (simp add: occurs_at_def)
  note spc = spaces1_match [OF sp la]
  have "s ! (i + length a - 1) = last a"
  proof -
    have "last a = take (length a) (drop i s) ! (length a - 1)"
      using i assms(2) by (simp add: occurs_at_def last_conv_nth)
    then show ?thesis using la assms(2) by (simp add: Suc_leI)
  qed
  then have wa: "word_at_pos s (i + length a - 1)"
    using la assms by (cases a) (auto simp: word_at_pos_def)
  have "s ! k = hd b"
  proof -
    have "hd b = take (length b) (drop k s) ! 0"
      using b assms(3) by (simp add: occurs_at_def hd_conv_nth)
    then show ?thesis using b assms(3) by (simp add: occurs_at_def)
  qed
  then have wb: "word_at_pos s k"
    using b assms by (cases b) (auto simp: word_at_pos_def occurs_at_def)
  have "boundary s (i + length a)"
    using wa spc la assms(2) word_char_space by (cases a) (auto simp: boundary_def word_at_pos_def)
  moreover have "boundary s k"
    using wb spc word_char_space by (auto simp: boundary_def word_at_pos_def)
  ultimately have "word_at a s i" "word_at b s k" using i b rest by (simp_all add: word_at_def)
  moreover have "i + length a \<le> k" using spc by simp
  ultimately show ?thesis by blast
qed

definition mentions :: "string list \<Rightarrow> string list \<Rightarrow> string \<Rightarrow> bool" where
  "mentions as bs s =
     (\<exists>a \<in> set as. \<exists>b \<in> set bs. \<exists>i j. word_at a s i \<and> word_at b s j \<and> i + length a \<le> j)"

lemma add_product_patterns_iff:
  assumes "CHR 0x0A \<notin> set s"
  shows "matches_any s ADD_PRODUCT_PATTERNS \<longleftrightarrow>
    mentions product_verbs product_nouns s \<or> mentions product_nouns product_verbs s"
proof -
  have "mentions product_verbs product_nouns s"
    if "search (bounded (Seq (lit ''add'') (Seq spaces1 (lit ''product'')))) s"
    using phrase_words [OF that] by (auto simp: mentions_def product_verbs_def product_nouns_def word_char_def)
  then show ?thesis
    using search_two_groups [OF assms]
    by (auto simp: matches_any_def ADD_PRODUCT_PATTERNS_def mentions_def)
qed

lemma mentions_nonempty: "mentions product_verbs product_nouns s \<Longrightarrow> s \<noteq> []"
  "mentions product_nouns product_verbs s \<Longrightarrow> s \<noteq> []"
  by (auto simp: mentions_def word_at_def occurs_at_def product_verbs_def product_nouns_def)

theorem resolve_add_product_iff:
  "resolve t = I_ADD_PRODUCT \<longleftrightarrow>
     mentions product_verbs product_nouns (normalize_text t) \<or>
     mentions product_nouns product_verbs (normalize_text t)"
  using add_product_patterns_iff [OF normalize_text_no_newline [of t]] mentions_nonempty
  by (auto simp: resolve_def Let_def)

text \<open>
  The word \<open>stock\<close> is one of the verbs of the add-product patterns and these are tried first, so
  a stock question that also says \<open>product\<close> or \<open>item\<close> starts the add-product flow.
\<close>

lemma resolve_check_product_stock: "resolve ''check product stock'' = I_ADD_PRODUCT"
  by code_simp

lemma resolve_examples:
  "resolve ''  Record   SALE '' = I_RECORD_SALE" "resolve ''check stock'' = I_CHECK_STOCK"
  "resolve ''generate report'' = I_GENERATE_REPORT" "resolve ''hello'' = I_UNKNOWN"
  by code_simp+

end
