(* ===== verification/Engine.thy ===== *)
theory Engine
  imports AnalyticsFlow Intents
begin

text \<open>
  \<open>app/fsm/engine.py\<close>: the dispatch of a message to the handler of the session's state, the
  override commands and the limit on invalid inputs. Interface \<open>message_handler\<close>: what the engine
  needs of the handlers; the engine's guarantee is proved from it once and then read off for the
  program's own handlers. Conversations are runs of the step relation \<open>exchange\<close>.
\<close>

section \<open>The idle state\<close>

definition unknown_intent :: exc where
  "unknown_intent = InvalidInputError
     (''Type '' @ quoted ''add product'' @ '', '' @ quoted ''record sale'' @ '', or '' @
      quoted ''check stock'' @ '' to begin.'') (Some MK_UNKNOWN_INTENT) []"

definition handle_idle :: "'z ai_env_scheme \<Rightarrow> string \<Rightarrow> fsm_result step" where
  "handle_idle E msg = (\<lambda>(s, w).
     (let prev = sstate s; i = resolve msg;
          started = upd_ctx (\<lambda>c. c\<lparr>flow_started_at := Some (now E)\<rparr>) s;
          enter = (\<lambda>st key. let s1 = transition E st started in (Inr (build_result prev s1 key []), (s1, w))) in
      case i of
        I_UNKNOWN \<Rightarrow>
          if can_route E s msg then handle_query E msg (s, w) else (Inl unknown_intent, (s, w))
      | I_RECORD_SALE \<Rightarrow> enter S_RECORD_SALE_PRODUCT MK_START_SALE
      | I_CHECK_STOCK \<Rightarrow> enter S_CHECK_STOCK_PRODUCT MK_START_STOCK_CHECK
      | I_GENERATE_REPORT \<Rightarrow>
          and_then (handle_daily_report E msg (transition E S_REPORT_PENDING started, w))
            (\<lambda>_ (s1, w1).
               let s2 = transition E S_IDLE s1 in
               (Inr (build_result prev s2 MK_REPORT_GENERATING []), (s2, w1)))
      | I_ADD_PRODUCT \<Rightarrow> enter S_ADD_PRODUCT_NAME MK_START_ADD_PRODUCT))"

section \<open>Dispatch\<close>

fun handler_map :: "'z ai_env_scheme \<Rightarrow> session_state \<Rightarrow> string \<Rightarrow> fsm_result step" where
  "handler_map E S_IDLE = handle_idle E"
| "handler_map E S_START_ADD_PRODUCT = handle_idle E"
| "handler_map E S_ADD_PRODUCT_NAME = handle_name E"
| "handler_map E S_ADD_PRODUCT_PRICE = handle_price E"
| "handler_map E S_ADD_PRODUCT_QTY = handle_qty E"
| "handler_map E S_CONFIRM_ADD_PRODUCT = handle_confirm E"
| "handler_map E S_RECORD_SALE_PRODUCT = handle_sale_product_name E"
| "handler_map E S_RECORD_SALE_PRODUCT_SELECTION = handle_sale_product_selection E"
| "handler_map E S_RECORD_SALE_QTY = handle_sale_product_qty E"
| "handler_map E S_CONFIRM_SALE = handle_confirm_sale_product E"
| "handler_map E S_CHECK_STOCK_PRODUCT = handle_stock_name E"
| "handler_map E S_CHECK_STOCK_PRODUCT_SELECTION = handle_stock_product_selection E"
| "handler_map E S_REPORT_PENDING = handle_idle E"
| "handler_map E S_ANALYTICS_PRODUCT_SELECTION = handle_product_selection E"

definition OVERRIDE_COMMANDS :: "string set" where
  "OVERRIDE_COMMANDS = {''cancel'', ''menu'', ''exit'', ''stop''}"

definition is_override :: "string \<Rightarrow> bool" where
  "is_override msg \<longleftrightarrow> lower (strip msg) \<in> OVERRIDE_COMMANDS"

text \<open>
  \<open>error_count := n\<close> is seen by the result as well, whose context is the session's own object.
\<close>

definition set_error_count :: "int \<Rightarrow> user_session \<Rightarrow> user_session" where
  "set_error_count n s = upd_ctx (\<lambda>c. c\<lparr>error_count := n\<rparr>) s"

definition reset_to_idle ::
  "'z fsm_env_scheme \<Rightarrow> session_state \<Rightarrow> message_key \<Rightarrow> user_session \<Rightarrow> fsm_result \<times> user_session" where
  "reset_to_idle E prev key s =
     (let s1 = clear_context_preserving_history E (transition E S_IDLE s) in
      (build_result prev s1 key [], s1))"

fun invalid_input_reply :: "exc \<Rightarrow> message_key \<times> params" where
  "invalid_input_reply (InvalidInputError m key ps) =
     (case key of None \<Rightarrow> MK_UNKNOWN_ERROR | Some k \<Rightarrow> k,
      if ps = [] then [(''message'', PStr m)] else ps)"
| "invalid_input_reply e = (MK_UNKNOWN_ERROR, [(''message'', PStr (exc_message e))])"

definition process_with ::
  "'z fsm_env_scheme \<Rightarrow> (session_state \<Rightarrow> string \<Rightarrow> fsm_result step) \<Rightarrow> string \<Rightarrow> fsm_result step" where
  "process_with E handle msg = (\<lambda>(s, w).
     (let prev = sstate s in
      if is_override msg
      then (let (r, s1) = reset_to_idle E prev MK_FLOW_CANCELLED s in (Inr r, (s1, w)))
      else case handle (sstate s) msg (s, w) of
        (Inr r, (s1, w1)) \<Rightarrow>
          (let s2 = set_error_count 0 s1 in (Inr (r\<lparr>res_ctx := ctx s2\<rparr>), (s2, w1)))
      | (Inl e, (s1, w1)) \<Rightarrow>
          if is_invalid_input e
          then (let s2 = set_error_count (error_count (ctx s1) + 1) s1 in
                if error_count (ctx s2) \<ge> max_fsm_errors (cfg E)
                then (let (r, s3) = reset_to_idle E prev MK_TOO_MANY_INVALID s2 in (Inr r, (s3, w1)))
                else (let (key, ps) = invalid_input_reply e in
                      (Inr (build_result prev s2 key ps), (s2, w1))))
          else (Inl e, (s1, w1))))"

definition process_message :: "'z ai_env_scheme \<Rightarrow> string \<Rightarrow> fsm_result step" where
  "process_message E = process_with E (handler_map E)"

section \<open>The guarantee\<close>

text \<open>What holds after a message, on every branch.\<close>

definition message_ok :: "'z fsm_env_scheme \<Rightarrow> user_session \<Rightarrow> fsm_result res \<times> conv \<Rightarrow> bool" where
  "message_ok E s out =
     (case out of (r, (s', w')) \<Rightarrow>
        world_ok w' \<and> phone s' = phone s \<and>
        (case r of
           Inr x \<Rightarrow> session_inv s' \<and> new_state x = sstate s' \<and> previous_state x = sstate s \<and>
                    (\<exists>h. history (ctx s') = history (ctx s) @ h) \<and>
                    error_count (ctx s') < max 1 (max_fsm_errors (cfg E))
         | Inl e \<Rightarrow> service_error e))"

lemma set_error_count_simps [simp]:
  "sstate (set_error_count n s) = sstate s" "phone (set_error_count n s) = phone s"
  "history (ctx (set_error_count n s)) = history (ctx s)" "error_count (ctx (set_error_count n s)) = n"
  by (simp_all add: set_error_count_def upd_ctx_def)

lemma session_inv_error_count: "session_inv s \<Longrightarrow> 0 \<le> n \<Longrightarrow> session_inv (set_error_count n s)"
  by (auto simp: session_inv_def fields_ok_def encodable_def set_error_count_def upd_ctx_def
      product_known_def price_known_def split: session_state.splits)

lemma reset_to_idle_ok:
  assumes "reset_to_idle E (sstate s) key s1 = (r, s2)" "phone s1 = phone s" "history (ctx s1) = history (ctx s)"
    "world_ok w"
  shows "message_ok E s (Inr r, (s2, w))" "sstate s2 = S_IDLE"
  using assms by (auto simp: reset_to_idle_def message_ok_def build_result_def session_inv_cleared Let_def)

locale message_handler =
  fixes handle :: "'z ai_env_scheme \<Rightarrow> session_state \<Rightarrow> string \<Rightarrow> fsm_result step"
    and env_ok :: "'z ai_env_scheme \<Rightarrow> bool"
  assumes handle_ok:
    "\<lbrakk>env_ok E; session_inv s; world_ok w\<rbrakk> \<Longrightarrow> step_ok s (handle E (sstate s) msg (s, w))"
begin

lemma process_ok:
  assumes "env_ok E" "session_inv s" "world_ok w"
  shows "message_ok E s (process_with E (handle E) msg (s, w))"
proof (cases "is_override msg")
  case True
  obtain r s1 where c: "reset_to_idle E (sstate s) MK_FLOW_CANCELLED s = (r, s1)" by fastforce
  then show ?thesis
    using reset_to_idle_ok(1) [OF c refl refl assms(3)] True by (simp add: process_with_def Let_def)
next
  case False
  obtain r s1 w1 where h: "handle E (sstate s) msg (s, w) = (r, (s1, w1))" by (rule prod_cases3)
  note ok = handle_ok [OF assms, of msg, unfolded h]
  show ?thesis
  proof (cases r)
    case (Inr x)
    with ok have "session_inv (set_error_count 0 s1)"
      by (intro session_inv_error_count) (simp_all add: step_ok_def)
    with ok Inr False h show ?thesis
      by (auto simp: process_with_def message_ok_def step_ok_def Let_def)
  next
    case (Inl e)
    show ?thesis
    proof (cases "is_invalid_input e")
      case True
      let ?s2 = "set_error_count (error_count (ctx s1) + 1) s1"
      have inv: "session_inv s1" "sstate s1 = sstate s" "phone s1 = phone s" "world_ok w1"
        "history (ctx s1) = history (ctx s)" "0 \<le> error_count (ctx s1)"
        using ok Inl True by (auto simp: step_ok_def session_inv_def)
      show ?thesis
      proof (cases "error_count (ctx ?s2) \<ge> max_fsm_errors (cfg E)")
        case True
        obtain r' s3 where c: "reset_to_idle E (sstate s) MK_TOO_MANY_INVALID ?s2 = (r', s3)" by fastforce
        have "message_ok E s (Inr r', (s3, w1))"
          using reset_to_idle_ok(1) [OF c] inv by simp
        with True \<open>is_invalid_input e\<close> False Inl h c inv show ?thesis
          by (simp add: process_with_def Let_def)
      next
        case low: False
        have "session_inv ?s2" using inv by (intro session_inv_error_count) simp_all
        with low \<open>is_invalid_input e\<close> False Inl h inv show ?thesis
          by (auto simp: process_with_def Let_def message_ok_def build_result_def split: prod.split)
      qed
    next
      case False
      with ok Inl h \<open>\<not> is_override msg\<close> show ?thesis
        by (auto simp: process_with_def message_ok_def step_ok_def service_error_def Let_def)
    qed
  qed
qed

text \<open>An input that is refused below the limit keeps the state.\<close>

lemma process_refused:
  assumes "env_ok E" "session_inv s" "world_ok w" "\<not> is_override msg"
    "handle E (sstate s) msg (s, w) = (Inl e, (s1, w1))" "is_invalid_input e"
    "error_count (ctx s) + 1 < max_fsm_errors (cfg E)"
  obtains x s' where "process_with E (handle E) msg (s, w) = (Inr x, (s', w1))" "sstate s' = sstate s"
    "error_count (ctx s') = error_count (ctx s) + 1" "message_key x = fst (invalid_input_reply e)"
proof -
  have "error_count (ctx s1) = error_count (ctx s)" "sstate s1 = sstate s"
    using handle_ok [OF assms(1-3), of msg] assms(5,6) by (simp_all add: step_ok_def)
  with assms
  have "process_with E (handle E) msg (s, w) =
      (Inr (build_result (sstate s) (set_error_count (error_count (ctx s) + 1) s1)
             (fst (invalid_input_reply e)) (snd (invalid_input_reply e))),
       (set_error_count (error_count (ctx s) + 1) s1, w1))"
    by (simp add: process_with_def Let_def split: prod.split)
  from that [OF this] \<open>sstate s1 = sstate s\<close> show thesis by (simp add: build_result_def)
qed

end

section \<open>The handlers of the program\<close>

lemma idle_start_ok:
  assumes "session_inv s" "sstate s = S_IDLE" "world_ok w"
    "st \<in> {S_ADD_PRODUCT_NAME, S_RECORD_SALE_PRODUCT, S_CHECK_STOCK_PRODUCT}"
  shows "step_ok s (let s1 = transition E st (upd_ctx (\<lambda>c. c\<lparr>flow_started_at := Some (now E)\<rparr>) s) in
      (Inr (build_result (sstate s) s1 key []), (s1, w)))"
  using assms
  by (auto simp: Let_def build_result_def session_inv_def fields_ok_def encodable_def upd_ctx_def
      intro!: step_ok_Inr)

lemma handle_idle_ok:
  assumes "session_inv s" "sstate s = S_IDLE" "world_ok w" "trigram_law E"
  shows "step_ok s (handle_idle E msg (s, w))"
proof (cases "resolve msg")
  case I_UNKNOWN
  have "step_ok s (Inl unknown_intent, (s, w))"
    using assms by (intro step_ok_refused) (simp_all add: unknown_intent_def)
  with I_UNKNOWN handle_query_ok [OF assms(1,3,2,4)] show ?thesis by (simp add: handle_idle_def Let_def)
next
  case I_GENERATE_REPORT
  let ?s = "transition E S_REPORT_PENDING (upd_ctx (\<lambda>c. c\<lparr>flow_started_at := Some (now E)\<rparr>) s)"
  obtain r s1 w1 where h: "handle_daily_report E msg (?s, w) = (r, (s1, w1))" by (rule prod_cases3)
  note o = handle_daily_report_outcome [OF h assms(3)]
  then obtain i where s1: "s1 = upd_ctx (\<lambda>c. c\<lparr>shop_id := i\<rparr>) ?s" by blast
  show ?thesis
  proof (cases r)
    case (Inl e)
    with o h I_GENERATE_REPORT show ?thesis
      by (auto simp: handle_idle_def Let_def upd_ctx_def intro: step_ok_service_error)
  next
    case (Inr u)
    have "session_inv (transition E S_IDLE s1)"
      using assms(1) s1 by (simp add: session_inv_def fields_ok_def encodable_def upd_ctx_def)
    with o h I_GENERATE_REPORT Inr s1 show ?thesis
      by (auto simp: handle_idle_def Let_def build_result_def upd_ctx_def intro!: step_ok_Inr)
  qed
qed (simp_all add: handle_idle_def idle_start_ok [OF assms(1-3)] Let_def [of _ "\<lambda>i. case i of _ \<Rightarrow> _"]
      idle_start_ok [OF assms(1-3), unfolded Let_def])

lemma handler_map_ok:
  assumes "trigram_law E" "session_inv s" "world_ok w"
  shows "step_ok s (handler_map E (sstate s) msg (s, w))"
proof (cases "sstate s")
  case S_START_ADD_PRODUCT
  with assms(2) show ?thesis by (simp add: session_inv_def fields_ok_def)
next
  case S_REPORT_PENDING
  with assms(2) show ?thesis by (simp add: session_inv_def fields_ok_def)
qed (use assms in \<open>simp_all add: handle_idle_ok handle_name_ok handle_price_ok handle_qty_ok handle_confirm_ok
      handle_sale_product_name_ok handle_sale_product_selection_ok handle_sale_product_qty_ok
      handle_confirm_sale_product_ok handle_stock_name_ok handle_stock_product_selection_ok
      handle_product_selection_ok\<close>)

interpretation engine: message_handler handler_map trigram_law
  by unfold_locales (rule handler_map_ok)

lemmas process_message_ok = engine.process_ok [folded process_message_def]
lemmas process_message_refused = engine.process_refused [folded process_message_def]

section \<open>Conversations\<close>

text \<open>
  One message of a conversation, under some environment: it is processed, or it raises and the
  session stays as it was, because nothing is saved.
\<close>

inductive exchange :: "(('z ai_env_scheme) \<Rightarrow> bool) \<Rightarrow> conv \<Rightarrow> conv \<Rightarrow> bool" for ok where
  processed: "ok E \<Longrightarrow> process_message E msg (s, w) = (Inr r, (s', w')) \<Longrightarrow> exchange ok (s, w) (s', w')"
| raised: "ok E \<Longrightarrow> process_message E msg (s, w) = (Inl e, (s', w')) \<Longrightarrow>
    exchange ok (s, w) (s, rollback w')"

inductive_cases exchange_cases: "exchange ok st st'"
inductive_simps exchange_simps: "exchange ok (s, w) (s', w')"

definition initial_session :: "string \<Rightarrow> user_session" where
  "initial_session ph = \<lparr>phone = ph, sstate = S_IDLE, ctx = empty_context\<rparr>"

inductive conversation_reaches :: "(('z ai_env_scheme) \<Rightarrow> bool) \<Rightarrow> conv \<Rightarrow> conv \<Rightarrow> bool" for ok where
  start: "conversation_reaches ok st st"
| later: "conversation_reaches ok st st' \<Longrightarrow> exchange ok st' st'' \<Longrightarrow> conversation_reaches ok st st''"

lemma initial_inv [simp]: "session_inv (initial_session ph)"
  by (simp add: initial_session_def session_inv_def fields_ok_def encodable_def empty_context_def)

lemma exchange_inv:
  assumes "exchange ok (s, w) (s', w')" "session_inv s" "world_ok w" "\<And>E. ok E \<Longrightarrow> trigram_law E"
  shows "session_inv s' \<and> world_ok w' \<and> phone s' = phone s \<and> (\<exists>h. history (ctx s') = history (ctx s) @ h)"
  using assms(1)
  unfolding exchange_simps
proof (elim disjE exE conjE)
  fix E msg r
  assume "ok E" "process_message E msg (s, w) = (Inr r, s', w')"
  with process_message_ok [of E s w msg] assms show ?thesis by (simp add: message_ok_def)
next
  fix E msg e s1 w1
  assume "s' = s" "w' = rollback w1" "ok E" "process_message E msg (s, w) = (Inl e, s1, w1)"
  with process_message_ok [of E s w msg] assms show ?thesis by (simp add: message_ok_def)
qed

lemma conversation_inv:
  assumes "conversation_reaches ok (s, w) (s', w')" "session_inv s" "world_ok w"
    "\<And>E. ok E \<Longrightarrow> trigram_law E"
  shows "session_inv s' \<and> world_ok w' \<and> phone s' = phone s \<and> (\<exists>h. history (ctx s') = history (ctx s) @ h)"
  using assms(1)
proof (induction "(s, w)" "(s', w')" arbitrary: s' w' rule: conversation_reaches.induct)
  case start
  with assms(2,3) show ?case by simp
next
  case (later st' s'' w'')
  obtain s1 w1 where st': "st' = (s1, w1)" by fastforce
  from later(2) [OF st'] exchange_inv [OF later(3) [unfolded st'] _ _ assms(4)] show ?case by fastforce
qed

end
