(* ===== verification/Localization.thy ===== *)
theory Localization
  imports Engine
begin

text \<open>
  \<open>app/services/localization.py\<close>: the templates of the replies in English and Swahili, Python's
  \<open>str.format\<close> on them, and the rendering of a message. A template that a key lacks, a field
  that the parameters lack and a format code that a value does not have are errors. The text of
  a list inside a template, which no template asks for, is not modelled.
\<close>

section \<open>Templates\<close>

definition flow_messages :: "(message_key \<times> (string \<times> string) list) list" where
  \<open>flow_messages =
     [(MK_FLOW_CANCELLED,
       [(''en'',
         ''Flow cancelled. How can I help you today?''),
        (''sw'',
         ''Mchakato umeghairiwa. Ninaweza kukusaidia vipi leo?'')]),
      (MK_TOO_MANY_INVALID,
       [(''en'',
         ''Too many invalid attempts. I've cancelled this request so we can start fresh. '' @
         ''Type 'add product' to try again.''),
        (''sw'',
         ''Majaribio mengi si sahihi. Nimeghairi ombi hili ili tuanze upya. Andika 'add '' @
         ''product' kujaribu tena.'')]),
      (MK_UNKNOWN_INTENT,
       [(''en'',
         ''Type 'add product', 'record sale', or 'check stock' to begin.''),
        (''sw'',
         ''Andika 'add product', 'record sale', au 'check stock' kuanza.'')]),
      (MK_START_SALE,
       [(''en'',
         ''Great, let's record a sale. What product was sold?''),
        (''sw'',
         ''Sawa, hebu turekodi mauzo. Ni bidhaa gani iliuzwa?'')]),
      (MK_START_STOCK_CHECK,
       [(''en'',
         ''Sure, let's check stock. Which product would you like to lookup?''),
        (''sw'',
         ''Sawa, hebu tuangalie stoo. Unataka kuangalia bidhaa gani?'')]),
      (MK_REPORT_GENERATING,
       [(''en'',
         ''Great. The report is being generated. Just a moment while we process and send it '' @
         ''to you.''),
        (''sw'',
         ''Sawa. Ripoti inaundwa. Subiri kidogo tunapoichakata na kukutumia.'')]),
      (MK_START_ADD_PRODUCT,
       [(''en'',
         ''Great, let's add a product. What is the product name?''),
        (''sw'',
         ''Sawa, hebu tuongeze bidhaa. Jina la bidhaa ni lipi?'')]),
      (MK_ASK_PRICE,
       [(''en'',
         ''Nice. What is the price in KES?''),
        (''sw'',
         ''Vizuri. Bei ni kiasi gani kwa KES?'')]),
      (MK_ASK_STOCK_QUANTITY,
       [(''en'',
         ''Got it. How many units are in stock?''),
        (''sw'',
         ''Nimekupata. Kuna vipande vingapi stoo?'')]),
      (MK_CONFIRM_PRODUCT,
       [(''en'',
         ''Please confirm: {product_name} at KES {price:.2f}, quantity {quantity}. Reply Yes '' @
         ''or No.''),
        (''sw'',
         ''Thibitisha: {product_name} kwa KES {price:.2f}, kiasi {quantity}. Jibu Yes au No.'')]),
      (MK_PRODUCT_CANCELLED,
       [(''en'',
         ''No problem. I cancelled the product flow.''),
        (''sw'',
         ''Hakuna shida. Nimeghairi mchakato wa bidhaa.'')]),
      (MK_PRODUCT_ADDED,
       [(''en'',
         ''Product added: {product_name} at KES {price:.2f} with opening quantity {quantity}.''),
        (''sw'',
         ''Bidhaa imeongezwa: {product_name} kwa KES {price:.2f} na kiasi cha kuanzia '' @
         ''{quantity}.'')]),
      (MK_ASK_SALE_QUANTITY,
       [(''en'',
         ''Got it. How many units sold?''),
        (''sw'',
         ''Nimekupata. Vipande vingapi viliuzwa?'')]),
      (MK_ASK_QUANTITY,
       [(''en'',
         ''Got it. How many units?''),
        (''sw'',
         ''Nimekupata. Vipande vingapi?'')]),
      (MK_PRODUCT_NOT_FOUND,
       [(''en'',
         ''I couldn't find a matching product.'' @ nl @
         ''Please check the name and try again, or type *'cancel'* to stop.''),
        (''sw'',
         ''Sikupata bidhaa inayolingana.'' @ nl @
         ''Angalia jina ujaribu tena, au andika *'cancel'* kusitisha.'')]),
      (MK_PRODUCT_CHOICES,
       [(''en'',
         ''Which product did you mean?'' @ nl @ nl @ ''{choices}'' @ nl @ nl @
         ''Reply with a number from 1 to {count}.''),
        (''sw'',
         ''Ulikusudia bidhaa gani?'' @ nl @ nl @ ''{choices}'' @ nl @ nl @
         ''Jibu kwa nambari kutoka 1 hadi {count}.'')]),
      (MK_CONFIRM_SALE,
       [(''en'',
         ''Confirm Sale:'' @ nl @ ''- Product: {product_name}'' @ nl @ ''- Quantity: {quantity}'' @
         nl @ ''- Total: KES {total:.2f}'' @ nl @ nl @ ''Reply *yes* to record or *no* to cancel.''),
        (''sw'',
         ''Thibitisha Mauzo:'' @ nl @ ''- Bidhaa: {product_name}'' @ nl @ ''- Kiasi: {quantity}'' @
         nl @ ''- Jumla: KES {total:.2f}'' @ nl @ nl @ ''Jibu *yes* kurekodi au *no* kughairi.'')]),
      (MK_SALE_CANCELLED,
       [(''en'',
         ''No problem. I cancelled the sale flow.''),
        (''sw'',
         ''Hakuna shida. Nimeghairi mchakato wa mauzo.'')]),
      (MK_SALE_RECORDED,
       [(''en'',
         ''Sale recorded: *{product_name}* ({quantity} units).'' @ nl @
         ''Stock remaining: *{remaining_stock}* units.''),
        (''sw'',
         ''Mauzo yamerekodiwa: *{product_name}* ({quantity} vipande).'' @ nl @
         ''Stoo iliyobaki: *{remaining_stock}* vipande.'')])]\<close>

definition notice_messages :: "(message_key \<times> (string \<times> string) list) list" where
  \<open>notice_messages =
     [(MK_STOCK_NOT_FOUND,
       [(''en'',
         ''I could not find a product in the inventory with that name.''),
        (''sw'',
         ''Sikupata bidhaa yenye jina hilo kwenye stoo.'')]),
      (MK_STOCK_REMAINING,
       [(''en'',
         ''Remaining stock for {product_name}: {quantity} units''),
        (''sw'',
         ''Stoo iliyobaki ya {product_name}: {quantity} vipande'')]),
      (MK_PRODUCT_NAME_INVALID,
       [(''en'',
         ''Product name must be between 2 and 100 characters.''),
        (''sw'',
         ''Jina la bidhaa lazima liwe na herufi 2 hadi 100.'')]),
      (MK_PRICE_INVALID,
       [(''en'',
         ''Please enter a valid price, e.g. '150', 'KES 150', or '150/='.''),
        (''sw'',
         ''Weka bei sahihi, kwa mfano '150', 'KES 150', au '150/='.'')]),
      (MK_PRICE_NON_POSITIVE,
       [(''en'',
         ''Price must be greater than 0''),
        (''sw'',
         ''Bei lazima iwe zaidi ya 0'')]),
      (MK_QUANTITY_INVALID,
       [(''en'',
         ''Please enter a whole number, e.g. 0, 1, or 25.''),
        (''sw'',
         ''Weka nambari kamili, kwa mfano 0, 1, au 25.'')]),
      (MK_QUANTITY_NEGATIVE,
       [(''en'',
         ''Quantity cannot be negative.''),
        (''sw'',
         ''Kiasi hakiwezi kuwa hasi.'')]),
      (MK_CONFIRMATION_INVALID,
       [(''en'',
         ''Please reply with Yes/Y/Ndio/1 or No/N/Zii/2.''),
        (''sw'',
         ''Jibu Yes/Y/Ndio/1 au No/N/Zii/2.'')]),
      (MK_UNKNOWN_ERROR,
       [(''en'',
         ''{message}''),
        (''sw'',
         ''{message}'')]),
      (MK_INVALID_CHOICE,
       [(''en'',
         ''Invalid Choice''),
        (''sw'',
         ''Chaguo si sahihi'')]),
      (MK_QUANTITY_TOO_LOW,
       [(''en'',
         ''Please enter a quantity greater than 0.''),
        (''sw'',
         ''Weka kiasi kikubwa kuliko 0.'')]),
      (MK_SESSION_CONTEXT_LOST,
       [(''en'',
         ''I lost some product details. Type 'add product' to start again.''),
        (''sw'',
         ''Nimepoteza maelezo ya bidhaa. Andika 'add product' kuanza tena.'')]),
      (MK_SHOP_NOT_FOUND,
       [(''en'',
         ''I couldn't find your shop profile. Please contact support.''),
        (''sw'',
         ''Sikupata wasifu wa duka lako. Tafadhali wasiliana na msaada.'')]),
      (MK_INSUFFICIENT_STOCK,
       [(''en'',
         ''Insufficient stock! Only *{available}* units of {product_name} remaining. Please '' @
         ''enter a valid quantity.''),
        (''sw'',
         ''Stoo haitoshi! Zimesalia vipande *{available}* vya {product_name}. Weka kiasi '' @
         ''sahihi.'')]),
      (MK_LOW_STOCK_ALERT,
       [(''en'',
         ''*Low Stock Alert*: Only {remaining_stock} units left for *{product_name}*. '' @
         ''Consider restocking.''),
        (''sw'',
         ''*Tahadhari ya Stoo ya Chini*: Zimesalia vipande {remaining_stock} tu vya '' @
         ''*{product_name}*. Fikiria kuongeza bidhaa.'')])]\<close>

definition analytics_messages :: "(message_key \<times> (string \<times> string) list) list" where
  \<open>analytics_messages =
     [(MK_ANALYTICS_SALES_SUMMARY,
       [(''en'',
         ''Sales summary for {period_name}:'' @ nl @ ''- Total Revenue: KES {total_revenue}'' @ nl @
         ''- Transactions: {transaction_count}''),
        (''sw'',
         ''Muhtasari wa mauzo ya {period_name}:'' @ nl @ ''- Jumla ya Mapato: KES {total_revenue}'' @
         nl @ ''- Miamala: {transaction_count}'')]),
      (MK_ANALYTICS_SALES_SUMMARY_EMPTY,
       [(''en'',
         ''No sales were recorded for {period_name}.''),
        (''sw'',
         ''Hakuna mauzo yaliyorekodiwa kwa {period_name}.'')]),
      (MK_ANALYTICS_STOCK_LEVEL,
       [(''en'',
         ''Stock level for *{product_name}*: {quantity} units (KES {price} / unit).''),
        (''sw'',
         ''Kiwango cha stoo ya *{product_name}*: vipande {quantity} (KES {price} kwa kipande).'')]),
      (MK_ANALYTICS_STOCK_LEVEL_LOW,
       [(''en'',
         ''Stock level for *{product_name}*: *{quantity} units* (KES {price} / unit).'' @ nl @
         ''*Low Stock Warning*: At or below threshold ({threshold} units)!''),
        (''sw'',
         ''Kiwango cha stoo ya *{product_name}*: *vipande {quantity}* (KES {price} kwa '' @
         ''kipande).'' @ nl @
         ''*Tahadhari ya Stoo ya Chini*: Imefikia au iko chini ya kiwango cha tahadhari '' @
         ''({threshold} vipande)!'')]),
      (MK_ANALYTICS_TOP_PRODUCTS,
       [(''en'',
         ''Top products for {period_name}:'' @ nl @ ''{products_summary}''),
        (''sw'',
         ''Bidhaa zinazoongoza kwa {period_name}:'' @ nl @ ''{products_summary}'')]),
      (MK_ANALYTICS_TOP_PRODUCTS_EMPTY,
       [(''en'',
         ''No product sales were recorded for {period_name}.''),
        (''sw'',
         ''Hakuna mauzo ya bidhaa yaliyorekodiwa kwa {period_name}.'')]),
      (MK_ANALYTICS_LOW_STOCK_ITEMS,
       [(''en'',
         [CHR 0xE2, CHR 0x9A, CHR 0xA0] @ [CHR 0xEF, CHR 0xB8, CHR 0x8F] @
         '' *Low Stock Alert* ({count} items):'' @ nl @ ''{items_summary}''),
        (''sw'',
         [CHR 0xE2, CHR 0x9A, CHR 0xA0] @ [CHR 0xEF, CHR 0xB8, CHR 0x8F] @
         '' *Tahadhari ya Bidhaa Zinazoisha* (bidhaa {count}):'' @ nl @ ''{items_summary}'')]),
      (MK_ANALYTICS_LOW_STOCK_ITEMS_EMPTY,
       [(''en'',
         ''Good news! All products are well-stocked above their thresholds.''),
        (''sw'',
         ''Habari njema! Bidhaa zote ziko juu ya kiwango cha tahadhari ya stoo.'')]),
      (MK_ANALYTICS_SALES_TREND,
       [(''en'',
         ''Sales trend for {period_name} vs {comparison_period_name}:'' @ nl @
         [CHR 0xE2, CHR 0x80, CHR 0xA2] @
         '' Revenue: KES {current_revenue} (vs KES {previous_revenue}, {revenue_change})'' @ nl @
         [CHR 0xE2, CHR 0x80, CHR 0xA2] @
         '' Transactions: {current_transactions} (vs {previous_transactions}, '' @
         ''{transaction_change})''),
        (''sw'',
         ''Mwenendo wa mauzo kwa {period_name} kulinganisha na {comparison_period_name}:'' @ nl @
         [CHR 0xE2, CHR 0x80, CHR 0xA2] @
         '' Mapato: KES {current_revenue} (kulinganisha na KES {previous_revenue}, '' @
         ''{revenue_change})'' @ nl @ [CHR 0xE2, CHR 0x80, CHR 0xA2] @
         '' Miamala: {current_transactions} (kulinganisha na {previous_transactions}, '' @
         ''{transaction_change})'')]),
      (MK_ANALYTICS_SALES_TREND_EMPTY,
       [(''en'',
         ''No sales activity recorded for {period_name} or the comparison period.''),
        (''sw'',
         ''Hakuna mauzo yaliyorekodiwa kwa {period_name} au kipindi cha kulinganisha.'')]),
      (MK_ANALYTICS_SLOW_MOVING_ITEMS,
       [(''en'',
         ''Slow-moving products for {period_name} ({count} items):'' @ nl @ ''{items_summary}''),
        (''sw'',
         ''Bidhaa zinazouza polepole kwa {period_name} (bidhaa {count}):'' @ nl @
         ''{items_summary}'')]),
      (MK_ANALYTICS_SLOW_MOVING_ITEMS_EMPTY,
       [(''en'',
         ''Great news! No slow-moving items found for {period_name}.''),
        (''sw'',
         ''Habari nzuri! Hakuna bidhaa zinazouza polepole kwa {period_name}.'')]),
      (MK_ANALYTICS_PRODUCT_PRICE,
       [(''en'',
         ''The price of *{product_name}* is *KES {price}* (SKU: {sku}).''),
        (''sw'',
         ''Bei ya *{product_name}* ni *KES {price}* (SKU: {sku}).'')]),
      (MK_ANALYTICS_INVALID_PROPOSAL,
       [(''en'',
         ''I didn't quite understand that question. You can ask about sales, stock, or top '' @
         ''products.''),
        (''sw'',
         ''Sikuelewa vizuri swali hilo. Unaweza kuuliza kuhusu mauzo, stoo, au bidhaa '' @
         ''zinazoongoza.'')]),
      (MK_ANALYTICS_PROVIDER_UNAVAILABLE,
       [(''en'',
         ''I'm having trouble connecting to the analytics service right now. Please try '' @
         ''again shortly.''),
        (''sw'',
         ''Ninapata shida kuunganisha kwenye huduma ya takwimu kwa sasa. Tafadhali jaribu '' @
         ''tena baada ya muda mfupi.'')]),
      (MK_ANALYTICS_DOMAIN_ERROR,
       [(''en'',
         ''{message}''),
        (''sw'',
         ''{message}'')]),
      (MK_ANALYTICS_INFRASTRUCTURE_ERROR,
       [(''en'',
         ''Information could not be retrieved right now. Please try again shortly.''),
        (''sw'',
         ''Taarifa hazikuweza kupatikana kwa sasa. Tafadhali jaribu tena baada ya muda mfupi.'')])]\<close>

text \<open>\<open>_MESSAGES[key]\<close>; \<open>None\<close> is its \<open>KeyError\<close>.\<close>

definition messages :: "message_key \<Rightarrow> (string \<times> string) list option" where
  "messages k = map_of (flow_messages @ notice_messages @ analytics_messages) k"

definition SUPPORTED_LOCALES :: "string set" where
  "SUPPORTED_LOCALES = {''en'', ''sw''}"

section \<open>Formatting\<close>

datatype piece = Lit char | Field string string

definition format_error :: "string \<Rightarrow> exc" where
  "format_error m = ValueError m"

text \<open>The pieces of a template: doubled braces are literal, a field has a name and a code.\<close>

definition push :: "piece \<Rightarrow> piece list res \<Rightarrow> piece list res" where
  "push p r = (case r of Inl e \<Rightarrow> Inl e | Inr ps \<Rightarrow> Inr (p # ps))"

fun parse_template :: "string \<Rightarrow> piece list res" and parse_field :: "string \<Rightarrow> string \<Rightarrow> piece list res" where
  "parse_template [] = Inr []"
| "parse_template (c # s) =
     (if c = CHR ''{''
      then (case s of
              [] \<Rightarrow> Inl (format_error ''Single opening brace encountered in format string'')
            | d # r \<Rightarrow> if d = CHR ''{'' then push (Lit c) (parse_template r) else parse_field [] s)
      else if c = CHR ''}''
      then (case s of
              [] \<Rightarrow> Inl (format_error ''Single closing brace encountered in format string'')
            | d # r \<Rightarrow>
                if d = CHR ''}'' then push (Lit c) (parse_template r)
                else Inl (format_error ''Single closing brace encountered in format string''))
      else push (Lit c) (parse_template s))"
| "parse_field acc [] = Inl (format_error ''expected closing brace before end of string'')"
| "parse_field acc (c # s) =
     (if c = CHR ''}''
      then push (Field (takeWhile (\<lambda>x. x \<noteq> CHR '':'') acc)
                       (drop 1 (dropWhile (\<lambda>x. x \<noteq> CHR '':'') acc))) (parse_template s)
      else parse_field (acc @ [c]) s)"

fun format_value :: "string \<Rightarrow> pval \<Rightarrow> string res" where
  "format_value spec (PStr t) = (if spec = [] then Inr t else Inl (format_error ''Unknown format code''))"
| "format_value spec (PInt n) =
     (if spec = [] then Inr (str_int n)
      else if spec = ''.2f'' then Inr (fmt_2f (n * 100)) else Inl (format_error ''Unknown format code''))"
| "format_value spec (PMoney c) =
     (if spec = [] \<or> spec = ''.2f'' then Inr (fmt_2f c) else Inl (format_error ''Unknown format code''))"
| "format_value spec (PCands cs) = Inl (TypeError ''unsupported format string'')"

fun format_pieces :: "piece list \<Rightarrow> params \<Rightarrow> string res" where
  "format_pieces [] ps = Inr []"
| "format_pieces (Lit c # r) ps = map_sum id ((#) c) (format_pieces r ps)"
| "format_pieces (Field n spec # r) ps =
     (case map_of ps n of
        None \<Rightarrow> Inl (KeyError n)
      | Some v \<Rightarrow>
          (case format_value spec v of
             Inl e \<Rightarrow> Inl e
           | Inr t \<Rightarrow> map_sum id ((@) t) (format_pieces r ps)))"

definition str_format :: "string \<Rightarrow> params \<Rightarrow> string res" where
  "str_format template ps =
     (case parse_template template of Inl e \<Rightarrow> Inl e | Inr pieces \<Rightarrow> format_pieces pieces ps)"

section \<open>Rendering\<close>

definition choice_values :: "params \<Rightarrow> params" where
  "choice_values ps =
     (let candidates = (case map_of ps ''candidates'' of Some (PCands cs) \<Rightarrow> cs | _ \<Rightarrow> []) in
      dict_set ''count'' (PInt (int (length candidates)))
        (dict_set ''choices''
           (PStr (str_join nl (numbered (\<lambda>m. sm_name m @ dash @ fmt_2f (sm_price m)) candidates))) ps))"

definition render_message :: "message_key \<Rightarrow> string \<Rightarrow> params \<Rightarrow> string res" where
  "render_message key locale' ps =
     (let selected = (if locale' \<in> SUPPORTED_LOCALES then locale' else ''en'') in
      case messages key of
        None \<Rightarrow> Inl (KeyError ''message key'')
      | Some ts \<Rightarrow>
          (case (case map_of ts selected of Some t \<Rightarrow> Some t | None \<Rightarrow> map_of ts ''en'') of
             None \<Rightarrow> Inl (KeyError ''en'')
           | Some template \<Rightarrow>
               str_format template (if key = MK_PRODUCT_CHOICES then choice_values ps else ps)))"

section \<open>The fields a message needs\<close>

text \<open>Whether the fields of a template have values of a fitting type.\<close>

definition value_fits :: "string \<Rightarrow> pval \<Rightarrow> bool" where
  "value_fits spec v \<longleftrightarrow> is_ok (format_value spec v)"

fun fields_of :: "piece list \<Rightarrow> (string \<times> string) list" where
  "fields_of [] = []"
| "fields_of (Lit c # r) = fields_of r"
| "fields_of (Field n spec # r) = (n, spec) # fields_of r"

definition provides :: "params \<Rightarrow> (string \<times> string) list \<Rightarrow> bool" where
  "provides ps fs \<longleftrightarrow>
     list_all (\<lambda>(n, spec). case map_of ps n of None \<Rightarrow> False | Some v \<Rightarrow> value_fits spec v) fs"

lemma format_pieces_ok: "provides ps (fields_of pieces) \<Longrightarrow> is_ok (format_pieces pieces ps)"
proof (induction pieces)
  case (Cons p r)
  show ?case
  proof (cases p)
    case (Lit c)
    with Cons show ?thesis by (auto simp: is_ok_iff)
  next
    case (Field n spec)
    with Cons.prems obtain v t where v: "map_of ps n = Some v" "format_value spec v = Inr t"
      and r: "provides ps (fields_of r)"
      by (auto simp: provides_def value_fits_def is_ok_iff split: option.splits)
    from Cons.IH [OF r] obtain u where "format_pieces r ps = Inr u" by (auto simp: is_ok_iff)
    with v Field show ?thesis by simp
  qed
qed simp

text \<open>The fields of the templates of a key, in every locale.\<close>

fun required_fields :: "message_key \<Rightarrow> (string \<times> string) list" where
  "required_fields MK_CONFIRM_PRODUCT = [(''product_name'', []), (''price'', ''.2f''), (''quantity'', [])]"
| "required_fields MK_PRODUCT_ADDED = [(''product_name'', []), (''price'', ''.2f''), (''quantity'', [])]"
| "required_fields MK_PRODUCT_CHOICES = [(''choices'', []), (''count'', [])]"
| "required_fields MK_CONFIRM_SALE = [(''product_name'', []), (''quantity'', []), (''total'', ''.2f'')]"
| "required_fields MK_SALE_RECORDED = [(''product_name'', []), (''quantity'', []), (''remaining_stock'', [])]"
| "required_fields MK_STOCK_REMAINING = [(''product_name'', []), (''quantity'', [])]"
| "required_fields MK_UNKNOWN_ERROR = [(''message'', [])]"
| "required_fields MK_INSUFFICIENT_STOCK = [(''available'', []), (''product_name'', [])]"
| "required_fields MK_LOW_STOCK_ALERT = [(''remaining_stock'', []), (''product_name'', [])]"
| "required_fields MK_ANALYTICS_SALES_SUMMARY =
     [(''period_name'', []), (''total_revenue'', []), (''transaction_count'', [])]"
| "required_fields MK_ANALYTICS_SALES_SUMMARY_EMPTY = [(''period_name'', [])]"
| "required_fields MK_ANALYTICS_STOCK_LEVEL = [(''product_name'', []), (''quantity'', []), (''price'', [])]"
| "required_fields MK_ANALYTICS_STOCK_LEVEL_LOW =
     [(''product_name'', []), (''quantity'', []), (''price'', []), (''threshold'', [])]"
| "required_fields MK_ANALYTICS_TOP_PRODUCTS = [(''period_name'', []), (''products_summary'', [])]"
| "required_fields MK_ANALYTICS_TOP_PRODUCTS_EMPTY = [(''period_name'', [])]"
| "required_fields MK_ANALYTICS_LOW_STOCK_ITEMS = [(''count'', []), (''items_summary'', [])]"
| "required_fields MK_ANALYTICS_SALES_TREND =
     [(''period_name'', []), (''comparison_period_name'', []), (''current_revenue'', []),
      (''previous_revenue'', []), (''revenue_change'', []), (''current_transactions'', []),
      (''previous_transactions'', []), (''transaction_change'', [])]"
| "required_fields MK_ANALYTICS_SALES_TREND_EMPTY = [(''period_name'', [])]"
| "required_fields MK_ANALYTICS_SLOW_MOVING_ITEMS =
     [(''period_name'', []), (''count'', []), (''items_summary'', [])]"
| "required_fields MK_ANALYTICS_SLOW_MOVING_ITEMS_EMPTY = [(''period_name'', [])]"
| "required_fields MK_ANALYTICS_PRODUCT_PRICE = [(''product_name'', []), (''price'', []), (''sku'', [])]"
| "required_fields MK_ANALYTICS_DOMAIN_ERROR = [(''message'', [])]"
| "required_fields _ = []"

definition template_ok :: "message_key \<Rightarrow> string \<Rightarrow> bool" where
  "template_ok k t =
     (case parse_template t of Inl e \<Rightarrow> False | Inr ps \<Rightarrow> set (fields_of ps) \<subseteq> set (required_fields k))"

definition entry_ok :: "message_key \<times> (string \<times> string) list \<Rightarrow> bool" where
  "entry_ok e =
     (map fst (snd e) = [''en'', ''sw''] \<and> list_all (\<lambda>lt. template_ok (fst e) (snd lt)) (snd e))"

lemma flow_messages_ok: "list_all entry_ok flow_messages"
  by code_simp

lemma notice_messages_ok: "list_all entry_ok notice_messages"
  by code_simp

lemma analytics_messages_ok: "list_all entry_ok analytics_messages"
  by code_simp

definition untranslated :: "message_key set" where
  "untranslated = {MK_ANALYTICS_DAILY_LIMIT, MK_ANALYTICS_TEMPORARILY_UNAVAILABLE}"

lemma keys_translated: "set (map fst (flow_messages @ notice_messages @ analytics_messages)) = - untranslated"
proof -
  have "k \<in> set (map fst (flow_messages @ notice_messages @ analytics_messages)) \<longleftrightarrow> k \<notin> untranslated" for k
    by (cases k) (simp_all add: flow_messages_def notice_messages_def analytics_messages_def untranslated_def)
  then show ?thesis by blast
qed

lemma messages_translated:
  assumes "k \<notin> untranslated"
  obtains ts where "messages k = Some ts" "map fst ts = [''en'', ''sw'']" "list_all (\<lambda>lt. template_ok k (snd lt)) ts"
proof -
  from assms keys_translated have "k \<in> fst ` set (flow_messages @ notice_messages @ analytics_messages)" by auto
  then obtain ts where ts: "messages k = Some ts"
    unfolding messages_def by (metis map_of_eq_None_iff not_None_eq)
  then have "(k, ts) \<in> set (flow_messages @ notice_messages @ analytics_messages)"
    unfolding messages_def by (rule map_of_SomeD)
  with flow_messages_ok notice_messages_ok analytics_messages_ok have "entry_ok (k, ts)"
    by (auto simp: list_all_iff)
  with ts that show thesis by (simp add: entry_ok_def)
qed

lemma messages_untranslated: "k \<in> untranslated \<Longrightarrow> messages k = None"
  using keys_translated unfolding messages_def by (auto simp: map_of_eq_None_iff)

text \<open>A translated message renders in every locale when its fields are provided.\<close>

lemma render_message_ok:
  assumes "k \<notin> untranslated"
    "provides (if k = MK_PRODUCT_CHOICES then choice_values ps else ps) (required_fields k)"
  shows "is_ok (render_message k locale' ps)"
proof -
  let ?ps = "if k = MK_PRODUCT_CHOICES then choice_values ps else ps"
  obtain ts where ts: "messages k = Some ts" "map fst ts = [''en'', ''sw'']"
    "list_all (\<lambda>lt. template_ok k (snd lt)) ts"
    using messages_translated [OF assms(1)] .
  then obtain te tw where t: "ts = [(''en'', te), (''sw'', tw)]"
    by (cases ts; cases "tl ts") auto
  have "is_ok (str_format t ?ps)" if "template_ok k t" for t
  proof -
    from that obtain pieces where p: "parse_template t = Inr pieces"
      "set (fields_of pieces) \<subseteq> set (required_fields k)"
      by (auto simp: template_ok_def split: sum.splits)
    with assms(2) have "provides ?ps (fields_of pieces)"
      unfolding provides_def list_all_iff by blast
    with p show ?thesis by (simp add: str_format_def format_pieces_ok)
  qed
  with ts(1,3) t show ?thesis by (auto simp: render_message_def Let_def)
qed

lemma choices_provided: "provides (choice_values ps) (required_fields MK_PRODUCT_CHOICES)"
  by (simp add: choice_values_def provides_def value_fits_def Let_def)

lemma render_untranslated: "k \<in> untranslated \<Longrightarrow> \<not> is_ok (render_message k locale' ps)"
  by (simp add: render_message_def messages_untranslated Let_def)

end
