(* ===== verification/Replies.thy ===== *)
theory Replies
  imports Localization
begin

text \<open>
  Every reply can be rendered: each handler answers with a message that has a template in every
  locale and with the parameters its templates need, and refuses an input with an error of the
  same kind. So the conversation task, which renders after the database is committed and the
  session is saved, does not fail there.
\<close>

definition presentable :: "message_key \<Rightarrow> params \<Rightarrow> bool" where
  "presentable k ps \<longleftrightarrow>
     k \<notin> untranslated \<and> provides (if k = MK_PRODUCT_CHOICES then choice_values ps else ps) (required_fields k)"

text \<open>What a result says: a presentable reply, or an error the engine turns into one.\<close>

fun speaks_error :: "exc \<Rightarrow> bool" where
  "speaks_error (InvalidInputError m k ps) = presentable
     (fst (invalid_input_reply (InvalidInputError m k ps))) (snd (invalid_input_reply (InvalidInputError m k ps)))"
| "speaks_error _ = True"

definition speaks :: "fsm_result res \<times> conv \<Rightarrow> bool" where
  "speaks out =
     (case fst out of Inr x \<Rightarrow> presentable (message_key x) (message_params x) | Inl e \<Rightarrow> speaks_error e)"

lemma presentable_renders: "presentable k ps \<Longrightarrow> is_ok (render_message k loc ps)"
  by (simp add: presentable_def render_message_ok)

text \<open>The English text of a result, which its property \<open>reply_text\<close> keeps for older callers.\<close>

definition default_reply_text :: "fsm_result \<Rightarrow> string res" where
  "default_reply_text r = render_message (message_key r) ''en'' (message_params r)"

lemma default_reply_text_ok: "presentable (message_key r) (message_params r) \<Longrightarrow> is_ok (default_reply_text r)"
  by (simp add: default_reply_text_def presentable_renders)

section \<open>Rules\<close>

lemma speaks_simps [simp]:
  "speaks (Inr x, st) = presentable (message_key x) (message_params x)"
  "speaks (Inl e, st) = speaks_error e"
  by (simp_all add: speaks_def)

lemma presentable_result [simp]:
  "message_key (build_result prev s k ps) = k" "message_params (build_result prev s k ps) = ps"
  by (simp_all add: build_result_def)

lemma provides_simps [simp]:
  "provides ps []"
  "provides ps ((n, spec) # fs) \<longleftrightarrow> (\<exists>v. map_of ps n = Some v \<and> value_fits spec v) \<and> provides ps fs"
  by (auto simp: provides_def split: option.splits)

lemma value_fits_simps [simp]:
  "value_fits [] (PStr t)" "value_fits [] (PInt n)" "value_fits [] (PMoney c)"
  "value_fits ''.2f'' (PInt n)" "value_fits ''.2f'' (PMoney c)"
  by (simp_all add: value_fits_def)

lemma presentable_choices [simp]: "presentable MK_PRODUCT_CHOICES ps"
  using choices_provided [of ps] by (simp add: presentable_def untranslated_def del: required_fields.simps)

lemma service_speaks: "service_error e \<Longrightarrow> speaks_error e"
  by (cases e) (simp_all add: service_error_def)

lemma presentable_message [simp]: "presentable MK_UNKNOWN_ERROR [(''message'', PStr m)]"
  by (simp add: presentable_def untranslated_def)

lemma speaks_and_then:
  assumes "\<And>e st. m = (Inl e, st) \<Longrightarrow> speaks_error e"
    "\<And>x s w. m = (Inr x, (s, w)) \<Longrightarrow> speaks (k x (s, w))"
  shows "speaks (and_then m k)"
  using assms by (cases m; cases "fst m") (auto simp: and_then_def)

lemma speaks_get_db [simp]: "speaks (get_db_session E block st) = speaks (block st)"
  by (simp add: speaks_def)

lemma presentable_fields:
  "k \<notin> untranslated \<Longrightarrow> k \<noteq> MK_PRODUCT_CHOICES \<Longrightarrow> provides ps (required_fields k) \<Longrightarrow> presentable k ps"
  by (simp add: presentable_def)

lemmas presentable_defs = presentable_fields untranslated_def

lemma on_db_error: "on_db f st = (Inl e, st') \<Longrightarrow> \<exists>w w'. f w = (Inl e, w')"
  by (cases st) (auto simp: on_db_def split: prod.splits)

section \<open>The parsers and the flows\<close>

lemma parsers_speak:
  "parse_product_name raw = Inl e \<Longrightarrow> speaks_error e"
  "parse_quantity raw = Inl e \<Longrightarrow> speaks_error e"
  "parse_confirmation raw = Inl e \<Longrightarrow> speaks_error e"
  "parse_price raw = Inl e \<Longrightarrow> speaks_error e"
  by (auto simp: parse_product_name_def parse_quantity_def parse_confirmation_def parse_price_def
      price_invalid_def Let_def presentable_defs split: if_splits option.splits decimal.splits)

lemma choice_speaks: "resolve_product_choice s m = Inl e \<Longrightarrow> speaks_error e"
  by (auto simp: resolve_product_choice_def Let_def choice_lost_def invalid_choice_def presentable_defs
      split: option.splits if_splits)

lemma constants_speak [simp]:
  "speaks_error lost_details" "speaks_error quantity_too_low" "speaks_error unknown_intent"
  "speaks_error (insufficient_stock n nm)" "speaks_error (CorruptedSessionError p)"
  by (simp_all add: lost_details_def quantity_too_low_def unknown_intent_def insufficient_stock_def
      presentable_defs)

lemma shop_speaks: "shop_of E st = (Inl e, st') \<Longrightarrow> speaks_error e"
  by (auto simp: shop_of_def split: prod.splits dest!: on_db_error get_shop_id_errors service_speaks)

lemma on_db_speaks:
  "on_db (get_stock pid) st = (Inl e, st') \<Longrightarrow> speaks_error e"
  "on_db (find_products_by_fuzzy_name E sid nm l) st = (Inl e, st') \<Longrightarrow> speaks_error e"
  "on_db (create_product E p) st = (Inl e, st') \<Longrightarrow> speaks_error e"
  "on_db (add_stock E pid q c) st = (Inl e, st') \<Longrightarrow> speaks_error e"
  "on_db (record_sale E sid pid q who) st = (Inl e, st') \<Longrightarrow> speaks_error e"
  "on_db (delay E t) st = (Inl e, st') \<Longrightarrow> speaks_error e"
  by (blast dest: on_db_error get_stock_errors find_products_errors create_product_errors
      add_stock_errors record_sale_service_errors delay_errors service_speaks)+

lemma name_speaks: "speaks (handle_name E msg (s, w))"
  by (auto simp: handle_name_def Let_def presentable_defs dest: parsers_speak split: sum.split)

lemma price_speaks: "speaks (handle_price E msg (s, w))"
  by (auto simp: handle_price_def Let_def presentable_defs dest: parsers_speak split: sum.split)

lemma qty_speaks: "speaks (handle_qty E msg (s, w))"
  by (auto simp: handle_qty_def Let_def presentable_defs dest: parsers_speak
      split: sum.split option.split)

lemma result_error_speaks:
  assumes "\<And>e st'. m st = (Inl e, st') \<Longrightarrow> speaks_error e" "get_db_session E m st = (Inl e, st')"
  shows "speaks_error e"
  using assms get_db_session_result(1) [of E m st] by (cases "m st") auto

lemma session_shop_speaks: "session_shop E st = (Inl e, st') \<Longrightarrow> speaks_error e"
  by (cases st) (auto simp: session_shop_def and_then_Inl_iff split: option.splits prod.splits
      dest: shop_speaks)

lemma ProductCreate_speaks: "ProductCreate nm pr sid = Inl e \<Longrightarrow> speaks_error e"
  by (auto simp: ProductCreate_def split: if_splits)

lemma create_speaks: "create_with_stock E sid st = (Inl e, st') \<Longrightarrow> speaks_error e"
  by (cases st)
     (auto simp: create_with_stock_def and_then_Inl_iff split: option.splits prod.splits sum.splits if_splits
      dest: on_db_speaks ProductCreate_speaks)

lemma persist_speaks: "persist_product_db E st = (Inl e, st') \<Longrightarrow> speaks_error e"
  unfolding persist_product_db_def
  by (erule result_error_speaks [rotated])
     (auto simp: and_then_Inl_iff dest: session_shop_speaks create_speaks)

lemma confirm_speaks: "speaks (handle_confirm E msg (s, w))"
  by (auto simp: handle_confirm_def Let_def presentable_defs dest: parsers_speak persist_speaks
      intro!: speaks_and_then split: sum.split option.split bool.split)

lemma sale_name_speaks: "speaks (handle_sale_product_name E msg (s, w))"
  unfolding handle_sale_product_name_def
  by (auto simp: sale_resolution_def Let_def and_then_Inl_iff presentable_defs
      intro!: speaks_and_then split: resolution_status.split option.split prod.splits
      dest: shop_speaks on_db_speaks elim!: result_error_speaks [rotated])

lemma sale_selection_speaks: "speaks (handle_sale_product_selection E msg (s, w))"
  by (auto simp: handle_sale_product_selection_def Let_def presentable_defs
      dest: choice_speaks split: sum.split)

lemma sale_qty_speaks: "speaks (handle_sale_product_qty E msg (s, w))"
  by (auto simp: handle_sale_product_qty_def Let_def presentable_defs
      intro!: speaks_and_then split: sum.split option.split
      dest: parsers_speak on_db_speaks elim!: result_error_speaks [rotated])

lemma persist_sale_speaks: "record_sale_transaction E st = (Inl e, st') \<Longrightarrow> speaks_error e"
  unfolding record_sale_transaction_def
  by (erule result_error_speaks [rotated])
     (auto simp: persist_sale_db_with_session_def dest: on_db_speaks split: prod.splits option.splits)

lemma confirm_sale_speaks: "speaks (handle_confirm_sale_product E msg (s, w))"
  by (auto simp: handle_confirm_sale_product_def Let_def presentable_defs
      intro!: speaks_and_then split: sum.split option.split bool.split if_split prod.split
      dest: parsers_speak on_db_speaks persist_sale_speaks)

lemma inventory_speaks: "get_inventory p st = (Inl e, st') \<Longrightarrow> speaks_error e"
  by (auto simp: get_inventory_def and_then_Inl_iff dest: on_db_speaks)

lemma stock_name_speaks: "speaks (handle_stock_name E msg (s, w))"
  by (auto simp: handle_stock_name_def stock_resolution_def Let_def presentable_defs
      intro!: speaks_and_then split: sum.split resolution_status.split option.split
      dest: parsers_speak on_db_speaks inventory_speaks shop_speaks)

lemma stock_selection_speaks: "speaks (handle_stock_product_selection E msg (s, w))"
  by (auto simp: handle_stock_product_selection_def Let_def presentable_defs
      intro!: speaks_and_then split: sum.split
      dest: choice_speaks inventory_speaks elim!: result_error_speaks [rotated])

lemma report_speaks: "handle_daily_report E msg st = (Inl e, st') \<Longrightarrow> speaks_error e"
  by (cases st)
     (auto simp: handle_daily_report_def and_then_Inl_iff split: option.splits prod.splits
      dest: shop_speaks on_db_speaks elim!: result_error_speaks [rotated])

section \<open>Analytics\<close>

text \<open>The formatter never chooses one of the messages that have no template for an outcome the
  orchestrator reaches: only \<open>GUARDRAIL_REJECTED\<close> leads there, and no code constructs it.\<close>

lemma format_speaks:
  assumes "oc_type o' \<noteq> GUARDRAIL_REJECTED" "format_outcome o' = (k, ps)"
  shows "presentable k ps"
proof (cases "oc_type o' = ANSWERED")
  case True
  with assms(2) show ?thesis
    by (auto simp: format_outcome_def format_answered_def answer_formats_def presentable_defs Let_def
        format_sales_summary_def format_stock_level_def format_top_products_def
        format_low_stock_items_def format_sales_trend_def format_slow_moving_items_def
        format_product_price_def bind_eq_Some_conv
        split: option.splits prod.splits if_splits)
next
  case False
  with assms show ?thesis
    by (auto simp: format_outcome_def format_answered_empty_def presentable_defs Let_def
        split: outcome_type.splits if_splits)
qed

lemma outcome_types [simp]:
  "oc_type (llm_failure e) \<noteq> GUARDRAIL_REJECTED" "oc_type (success_outcome n a r) \<noteq> GUARDRAIL_REJECTED"
  "oc_type (failure_outcome tc x) \<noteq> GUARDRAIL_REJECTED" "oc_type (selection_outcome n a r) \<noteq> GUARDRAIL_REJECTED"
  "oc_type no_analytics_intent \<noteq> GUARDRAIL_REJECTED" "oc_type (invalid_proposal m t) \<noteq> GUARDRAIL_REJECTED"
  by (cases e; simp add: outcome_def malformed_response_def provider_unavailable_def infrastructure_failure_def)
     (auto simp: outcome_def success_outcome_def answered_def answered_empty_def failure_outcome_def
        argument_validation_failed_def needs_selection_def infrastructure_failure_def domain_failure_def
        selection_outcome_def no_analytics_intent_def invalid_proposal_def Let_def split: option.splits)

lemma attempt_not_rejected:
  "attempt exec active k r = Some (Inl o') \<Longrightarrow> oc_type o' \<noteq> GUARDRAIL_REJECTED"
  by (auto simp: attempt_def Let_def split: sum.splits option.splits if_splits)

lemma attempts_not_rejected:
  "fst (attempts gen exec active ks ms c) = Some o' \<Longrightarrow> oc_type o' \<noteq> GUARDRAIL_REJECTED"
proof (induction ks arbitrary: ms c)
  case (Cons k ks)
  obtain r c' where g: "gen ms c = (r, c')" by fastforce
  show ?case
  proof (cases "attempt exec active k r")
    case (Some x)
    with Cons g attempt_not_rejected [of exec active k r] show ?thesis by (cases x) auto
  qed (use Cons.prems g in simp)
qed auto

lemma run_not_rejected: "fst (run_analytics E m sid p w) = Some o' \<Longrightarrow> oc_type o' \<noteq> GUARDRAIL_REJECTED"
  unfolding run_analytics_def run_def Let_def by (rule attempts_not_rejected)

lemma present_speaks:
  assumes "oc_type o' \<noteq> GUARDRAIL_REJECTED"
  shows "presentable (message_key (present prev s o')) (message_params (present prev s o'))"
  using format_speaks [OF assms] by (cases "format_outcome o'") (simp add: present_def)

lemma query_speaks: "speaks (handle_query E msg (s, w))"
  unfolding handle_query_def
  by (auto simp: Let_def and_then_Inl_iff and_then_Inr_iff assertion_error_def get_db_session_def
      intro!: speaks_and_then present_speaks split: option.splits prod.splits
      dest: shop_speaks)
     (use run_not_rejected in blast)+

lemma product_selection_speaks: "speaks (handle_product_selection E msg (s, w))"
  by (auto simp: handle_product_selection_def Let_def presentable_defs and_then_Inl_iff get_db_session_def
      intro!: speaks_and_then present_speaks split: sum.split option.split prod.splits
      dest: choice_speaks shop_speaks)

section \<open>The engine\<close>

lemma idle_speaks: "speaks (handle_idle E msg (s, w))"
  using query_speaks [of E msg s w]
  by (auto simp: handle_idle_def Let_def presentable_defs intro!: speaks_and_then split: intent.split
      dest: report_speaks)

locale speaking_handler = message_handler +
  assumes handle_speaks:
    "\<lbrakk>env_ok E; session_inv s; world_ok w\<rbrakk> \<Longrightarrow> speaks (handle E (sstate s) msg (s, w))"
begin

lemma process_speaks:
  assumes "env_ok E" "session_inv s" "world_ok w"
  shows "speaks (process_with E (handle E) msg (s, w))"
proof (cases "handle E (sstate s) msg (s, w)")
  case (fields r s1 w1)
  show ?thesis
  proof (cases r)
    case (Inr x)
    with fields handle_speaks [OF assms, of msg] show ?thesis
      by (simp add: process_with_def reset_to_idle_def Let_def presentable_defs)
  next
    case (Inl e)
    with fields handle_speaks [OF assms, of msg] show ?thesis
      by (cases e) (simp_all add: process_with_def reset_to_idle_def Let_def presentable_defs split: prod.split)
  qed
qed

end

interpretation engine: speaking_handler handler_map trigram_law
proof
  fix E :: "'z ai_env_scheme" and s :: user_session and w :: world and msg :: string
  show "speaks (handler_map E (sstate s) msg (s, w))"
    by (cases "sstate s")
       (simp_all add: idle_speaks name_speaks price_speaks qty_speaks confirm_speaks sale_name_speaks
          sale_selection_speaks sale_qty_speaks confirm_sale_speaks stock_name_speaks
          stock_selection_speaks product_selection_speaks)
qed

lemma process_message_speaks:
  "\<lbrakk>trigram_law E; session_inv s; world_ok w\<rbrakk> \<Longrightarrow> speaks (process_message E msg (s, w))"
  unfolding process_message_def by (rule engine.process_speaks)

end
