(* ===== verification/Store.thy ===== *)
theory Store
  imports SessionCodec
begin

text \<open>
  \<open>app/fsm/conversation_store.py\<close> with \<open>app/fsm/lua/update_session_state.lua\<close>: the sessions and
  the deduplication keys in Redis. A value is either JSON or text that is none; a key holds its
  value until its expiry. The save is a compare-and-set on the stored session's state, run
  atomically as a script. The contract of such a store is stated as a locale.
\<close>

section \<open>Redis\<close>

datatype blob = BJson json | BText string

record redis =
  clock :: time
  entries :: "string \<Rightarrow> (blob \<times> time) option"

definition empty_redis :: redis where
  "empty_redis = \<lparr>clock = 0, entries = (\<lambda>_. None)\<rparr>"

definition redis_get :: "string \<Rightarrow> redis \<Rightarrow> blob option" where
  "redis_get k r =
     (case entries r k of
        None \<Rightarrow> None
      | Some (b, expiry) \<Rightarrow> if clock r < expiry then Some b else None)"

text \<open>\<open>SET key value EX ttl\<close>; a time to live that is not positive is refused.\<close>

definition redis_set :: "string \<Rightarrow> blob \<Rightarrow> int \<Rightarrow> redis \<Rightarrow> unit res \<times> redis" where
  "redis_set k b ttl r =
     (if ttl \<le> 0 then (Inl (ResponseError ''invalid expire time in set command''), r)
      else (Inr (), r\<lparr>entries := (entries r)(k \<mapsto> (b, clock r + seconds ttl))\<rparr>))"

text \<open>\<open>SET key value NX EX ttl\<close>: the result tells whether the key was created.\<close>

definition redis_set_nx :: "string \<Rightarrow> blob \<Rightarrow> int \<Rightarrow> redis \<Rightarrow> bool res \<times> redis" where
  "redis_set_nx k b ttl r =
     (if ttl \<le> 0 then (Inl (ResponseError ''invalid expire time in set command''), r)
      else if redis_get k r \<noteq> None then (Inr False, r)
      else (Inr True, r\<lparr>entries := (entries r)(k \<mapsto> (b, clock r + seconds ttl))\<rparr>))"

definition redis_delete :: "string \<Rightarrow> redis \<Rightarrow> nat \<times> redis" where
  "redis_delete k r =
     (if redis_get k r = None then 0 else 1, r\<lparr>entries := (entries r)(k := None)\<rparr>)"

section \<open>The Lua script\<close>

text \<open>
  \<open>current_session.state\<close>: absent in a table without it, in an array and in a string; \<open>false\<close>
  counts as absent in the test; any other value that is not a table cannot be indexed and
  fails the script. A JSON \<open>null\<close> field is the sentinel \<open>cjson.null\<close>, different from every state.
\<close>

fun lua_state :: "json \<Rightarrow> json option res" where
  "lua_state (JObj d) = Inr (map_of d ''state'')"
| "lua_state (JArr _) = Inr None"
| "lua_state (JStr _) = Inr None"
| "lua_state (JTime _) = Inr None"
| "lua_state _ = Inl (ResponseError ''attempt to index a value that is not a table'')"

definition update_session_script :: "string \<Rightarrow> string \<Rightarrow> json \<Rightarrow> int \<Rightarrow> redis \<Rightarrow> int res \<times> redis" where
  "update_session_script key expected_old_state new_payload ttl r =
     (let write = and_then (redis_set key (BJson new_payload) ttl r) (\<lambda>_ r'. (Inr 1, r')) in
      case redis_get key r of
        None \<Rightarrow> write
      | Some (BText _) \<Rightarrow> (Inr (- 1), r)
      | Some (BJson j) \<Rightarrow>
          (case lua_state j of
             Inl e \<Rightarrow> (Inl e, r)
           | Inr st \<Rightarrow>
               if st = None \<or> st = Some (JBool False) \<or> st \<noteq> Some (JStr expected_old_state)
               then (Inr 0, r)
               else write))"

section \<open>The conversation store\<close>

definition session_key :: "string \<Rightarrow> string" where
  "session_key sid = ''session:'' @ sid"

definition dedup_key :: "string \<Rightarrow> string" where
  "dedup_key mid = ''dedup:'' @ mid"

definition is_duplicate :: "string \<Rightarrow> int \<Rightarrow> redis \<Rightarrow> bool res \<times> redis" where
  "is_duplicate mid ttl r =
     and_then (redis_set_nx (dedup_key mid) (BText ''1'') ttl r) (\<lambda>created r'. (Inr (\<not> created), r'))"

text \<open>A value that is not a session, like an absent or empty one, gives no session.\<close>

definition get_session :: "string \<Rightarrow> redis \<Rightarrow> user_session option" where
  "get_session sid r =
     (case redis_get (session_key sid) r of
        None \<Rightarrow> None
      | Some (BText _) \<Rightarrow> None
      | Some (BJson j) \<Rightarrow> decode_session (clock r) j)"

definition handle_lua_result :: "update_session_result \<Rightarrow> string \<Rightarrow> unit res" where
  "handle_lua_result res sid =
     (case res of
        UR_SUCCESS \<Rightarrow> Inr ()
      | UR_STATE_MISMATCH \<Rightarrow> Inl (SessionStateMismatchError sid)
      | UR_CORRUPTED_DATA \<Rightarrow> Inl (CorruptedSessionError sid))"

definition expected_state :: "user_session option \<Rightarrow> session_state" where
  "expected_state old = (case old of None \<Rightarrow> S_IDLE | Some s \<Rightarrow> sstate s)"

definition save_session ::
  "string \<Rightarrow> user_session \<Rightarrow> user_session option \<Rightarrow> int \<Rightarrow> redis \<Rightarrow> unit res \<times> redis" where
  "save_session sid new_session old_session ttl r =
     and_then
       (update_session_script (session_key sid) (state_value (expected_state old_session))
          (encode_session new_session) ttl r)
       (\<lambda>raw r'.
          (case update_session_result_of raw of
             None \<Rightarrow> (Inl (RuntimeError ''Invalid or unmapped Lua response''), r')
           | Some res \<Rightarrow> (handle_lua_result res sid, r')))"

definition delete_session :: "string \<Rightarrow> redis \<Rightarrow> bool \<times> redis" where
  "delete_session sid r = (let (n, r') = redis_delete (session_key sid) r in (n = 1, r'))"

section \<open>Redis keys\<close>

lemma session_key_inj [simp]: "session_key a = session_key b \<longleftrightarrow> a = b"
  by (simp add: session_key_def)

lemma dedup_key_inj [simp]: "dedup_key a = dedup_key b \<longleftrightarrow> a = b"
  by (simp add: dedup_key_def)

lemma keys_disjoint [simp]: "session_key a \<noteq> dedup_key b" "dedup_key b \<noteq> session_key a"
  by (simp_all add: session_key_def dedup_key_def)

lemma redis_get_upd [simp]:
  "redis_get k (r\<lparr>entries := (entries r)(k' \<mapsto> (b, t))\<rparr>) =
     (if k = k' then (if clock r < t then Some b else None) else redis_get k r)"
  by (auto simp: redis_get_def split: option.split)

section \<open>Deduplication\<close>

lemma is_duplicate_first:
  assumes "0 < ttl" "redis_get (dedup_key m) r = None"
  shows "\<exists>r'. is_duplicate m ttl r = (Inr False, r') \<and> clock r' = clock r \<and>
    entries r' = (entries r)(dedup_key m \<mapsto> (BText ''1'', clock r + seconds ttl))"
  using assms by (simp add: is_duplicate_def redis_set_nx_def)

lemma is_duplicate_again:
  assumes "0 < ttl" "redis_get (dedup_key m) r = Some b"
  shows "is_duplicate m ttl r = (Inr True, r)"
  using assms by (simp add: is_duplicate_def redis_set_nx_def)

text \<open>A stream of deliveries at their times: the flags say which ones were taken as new.\<close>

fun deliveries :: "int \<Rightarrow> (time \<times> string) list \<Rightarrow> redis \<Rightarrow> bool list" where
  "deliveries ttl [] r = []"
| "deliveries ttl ((t, m) # ds) r =
     (let (res, r') = is_duplicate m ttl (r\<lparr>clock := t\<rparr>) in
      (res = Inr False) # deliveries ttl ds r')"

lemma redis_get_clock:
  "redis_get k (r\<lparr>clock := t\<rparr>) =
     (case entries r k of None \<Rightarrow> None | Some (b, e) \<Rightarrow> if t < e then Some b else None)"
  by (auto simp: redis_get_def split: option.split)

text \<open>
  While the key of a message lives, no later delivery of it counts as new, whatever other
  messages arrive in between.
\<close>

lemma deliveries_blocked:
  assumes "0 < ttl" "entries r (dedup_key m) = Some (b, e)"
    "\<forall>d \<in> set ds. snd d = m \<longrightarrow> fst d < e"
  shows "\<forall>i < length ds. snd (ds ! i) = m \<longrightarrow> \<not> deliveries ttl ds r ! i"
  using assms
proof (induction ttl ds r rule: deliveries.induct)
  case (2 ttl t m' ds r)
  obtain res r' where d: "is_duplicate m' ttl (r\<lparr>clock := t\<rparr>) = (res, r')" by fastforce
  have keep: "entries r' (dedup_key m) = Some (b, e) \<and> (m' = m \<longrightarrow> res = Inr True)"
  proof (cases "m' = m")
    case True
    then have "t < e" using "2.prems"(3) by simp
    then have "redis_get (dedup_key m) (r\<lparr>clock := t\<rparr>) = Some b"
      using "2.prems"(2) by (simp add: redis_get_clock)
    with d True "2.prems"(1) have "res = Inr True" "r' = r\<lparr>clock := t\<rparr>"
      using is_duplicate_again by fastforce+
    with "2.prems"(2) show ?thesis by simp
  next
    case False
    then have "dedup_key m' \<noteq> dedup_key m" by simp
    with d "2.prems"(2) False show ?thesis
      by (auto simp: is_duplicate_def redis_set_nx_def split: if_splits)
  qed
  with "2.IH" [OF d [symmetric] refl "2.prems"(1)] "2.prems"(3)
  have "\<forall>i < length ds. snd (ds ! i) = m \<longrightarrow> \<not> deliveries ttl ds r' ! i" by simp
  with d keep show ?case by (auto simp: nth_Cons split: nat.split)
qed simp

section \<open>The contract of a store with optimistic saving\<close>

text \<open>
  \<open>held\<close> is what a reader finds, \<open>tag\<close> the part of a value the saving compares and \<open>expect\<close>
  the tag a writer asks for, given what it read.
\<close>

locale optimistic_store =
  fixes readable :: "'k \<Rightarrow> 's \<Rightarrow> bool"
    and held :: "'k \<Rightarrow> 's \<Rightarrow> 'v option"
    and save :: "'k \<Rightarrow> 'v \<Rightarrow> 'v option \<Rightarrow> 's \<Rightarrow> ('e + unit) \<times> 's"
    and valid :: "'v \<Rightarrow> bool"
    and tag :: "'v \<Rightarrow> 'c" and expect :: "'v option \<Rightarrow> 'c"
  assumes save_accepts: "\<lbrakk>readable k s; valid v; held k s = None \<or> (\<exists>c. held k s = Some c \<and> tag c = expect old)\<rbrakk>
      \<Longrightarrow> \<exists>s'. save k v old s = (Inr (), s')"
    and save_refuses: "\<lbrakk>readable k s; held k s = Some c; tag c \<noteq> expect old\<rbrakk>
      \<Longrightarrow> \<exists>e. save k v old s = (Inl e, s)"
    and save_stores: "\<lbrakk>valid v; save k v old s = (Inr (), s')\<rbrakk> \<Longrightarrow> readable k s' \<and> held k s' = Some v"
    and expect_held: "expect (Some c) = tag c"
begin

text \<open>
  Two writers that read the same value: once one has stored a value with another tag, the
  other is refused and the stored value stays.
\<close>

lemma second_writer_refused:
  assumes "valid v1" "save k v1 old s = (Inr (), s1)" "tag v1 \<noteq> expect old"
  shows "\<exists>e. save k v2 old s1 = (Inl e, s1)" and "held k s1 = Some v1"
proof -
  have s1: "readable k s1" "held k s1 = Some v1" using save_stores assms(1,2) by blast+
  then show "held k s1 = Some v1" by simp
  from save_refuses [OF s1 assms(3)] show "\<exists>e. save k v2 old s1 = (Inl e, s1)" .
qed

text \<open>When the first writer kept the tag, the second one replaces what it wrote.\<close>

lemma same_tag_overwritten:
  assumes "valid v1" "valid v2" "save k v1 old s = (Inr (), s1)" "tag v1 = expect old"
  shows "\<exists>s2. save k v2 old s1 = (Inr (), s2) \<and> held k s2 = Some v2"
proof -
  have s1: "readable k s1" "held k s1 = Some v1" using save_stores assms(1,3) by blast+
  then have "held k s1 = None \<or> (\<exists>c. held k s1 = Some c \<and> tag c = expect old)"
    using assms(4) by simp
  from save_accepts [OF s1(1) assms(2) this] obtain s2 where "save k v2 old s1 = (Inr (), s2)"
    by blast
  with save_stores [OF assms(2)] show ?thesis by blast
qed

text \<open>A writer that nobody interferes with succeeds and reads back what it wrote.\<close>

lemma read_modify_write:
  assumes "readable k s" "valid v"
  shows "\<exists>s'. save k v (held k s) s = (Inr (), s') \<and> held k s' = Some v"
proof -
  have "held k s = None \<or> (\<exists>c. held k s = Some c \<and> tag c = expect (held k s))"
    using expect_held by (cases "held k s") auto
  from save_accepts [OF assms this] obtain s' where "save k v (held k s) s = (Inr (), s')" by blast
  with save_stores [OF assms(2)] show ?thesis by blast
qed

end

text \<open>The values the program itself writes: an absent key or an encoded session.\<close>

definition session_readable :: "string \<Rightarrow> redis \<Rightarrow> bool" where
  "session_readable sid r \<longleftrightarrow>
     (case redis_get (session_key sid) r of
        None \<Rightarrow> True
      | Some b \<Rightarrow> (\<exists>s. encodable s \<and> b = BJson (encode_session s)))"

lemma lua_state_encoded: "lua_state (encode_session s) = Inr (Some (JStr (state_value (sstate s))))"
  by (simp add: encode_session_def enc_state_def)

lemma session_readable_cases:
  assumes "session_readable sid r"
  obtains "redis_get (session_key sid) r = None" "get_session sid r = None"
    | s where "redis_get (session_key sid) r = Some (BJson (encode_session s))"
        "get_session sid r = Some s" "encodable s"
  using assms
  by (auto simp: session_readable_def get_session_def session.dec_enc split: option.splits)

lemma save_session_writes:
  assumes "0 < ttl" "session_readable sid r"
    "get_session sid r = None \<or> (\<exists>c. get_session sid r = Some c \<and> sstate c = expected_state old)"
  shows "save_session sid v old ttl r =
    (Inr (), r\<lparr>entries := (entries r)(session_key sid \<mapsto>
       (BJson (encode_session v), clock r + seconds ttl))\<rparr>)"
  using assms(2)
proof (cases rule: session_readable_cases)
  case 1
  then show ?thesis
    using assms(1) by (simp add: save_session_def update_session_script_def Let_def redis_set_def
        update_session_result_of_def handle_lua_result_def)
next
  case (2 s)
  with assms show ?thesis
    by (simp add: save_session_def update_session_script_def Let_def redis_set_def lua_state_encoded
        update_session_result_of_def handle_lua_result_def)
qed

lemma save_session_mismatch:
  assumes "session_readable sid r" "get_session sid r = Some c" "sstate c \<noteq> expected_state old"
  shows "save_session sid v old ttl r = (Inl (SessionStateMismatchError sid), r)"
  using assms(1)
proof (cases rule: session_readable_cases)
  case (2 s)
  with assms show ?thesis
    by (simp add: save_session_def update_session_script_def Let_def lua_state_encoded
        update_session_result_of_def handle_lua_result_def)
qed (use assms in simp)

lemma script_success:
  assumes "update_session_script k e j ttl r = (Inr 1, r')"
  shows "0 < ttl \<and> r' = r\<lparr>entries := (entries r)(k \<mapsto> (BJson j, clock r + seconds ttl))\<rparr>"
proof -
  have "and_then (redis_set k (BJson j) ttl r) (\<lambda>_ r'. (Inr (1 :: int), r')) = (Inr 1, r')"
    using assms
    by (simp add: update_session_script_def Let_def split: option.splits blob.splits sum.splits if_splits)
  then show ?thesis by (simp add: redis_set_def split: if_splits)
qed

lemma handle_lua_result_Inr: "handle_lua_result res sid = Inr () \<longleftrightarrow> res = UR_SUCCESS"
  by (cases res) (simp_all add: handle_lua_result_def)

lemma save_session_entries:
  assumes "save_session sid v old ttl r = (Inr (), r')"
  shows "0 < ttl" "r' = r\<lparr>entries := (entries r)(session_key sid \<mapsto>
       (BJson (encode_session v), clock r + seconds ttl))\<rparr>"
proof -
  obtain raw where raw: "update_session_script (session_key sid)
        (state_value (expected_state old)) (encode_session v) ttl r = (Inr raw, r')"
      and res: "update_session_result_of raw = Some UR_SUCCESS"
    using assms
    by (auto simp: save_session_def and_then_Inr_iff handle_lua_result_Inr split: option.splits)
  from res have "raw = 1" by (simp add: update_session_result_of_def split: if_splits)
  with script_success [OF raw [unfolded this]]
  show "0 < ttl" "r' = r\<lparr>entries := (entries r)(session_key sid \<mapsto>
       (BJson (encode_session v), clock r + seconds ttl))\<rparr>" by simp_all
qed

interpretation conversation_store:
  optimistic_store session_readable get_session
    "\<lambda>sid v old. save_session sid v old (int (Suc n))" encodable sstate expected_state for n
proof unfold_locales
  fix k s v old
  assume "session_readable k s" "encodable v"
    "get_session k s = None \<or> (\<exists>c. get_session k s = Some c \<and> sstate c = expected_state old)"
  then show "\<exists>s'. save_session k v old (int (Suc n)) s = (Inr (), s')"
    using save_session_writes [of "int (Suc n)"] by (metis of_nat_0_less_iff zero_less_Suc)
next
  fix k s c old v
  assume "session_readable k s" "get_session k s = Some c" "sstate c \<noteq> expected_state old"
  then show "\<exists>e. save_session k v old (int (Suc n)) s = (Inl e, s)"
    using save_session_mismatch by blast
next
  fix v k old s s'
  assume v: "encodable v" and s: "save_session k v old (int (Suc n)) s = (Inr (), s')"
  have "redis_get (session_key k) s' = Some (BJson (encode_session v))"
    using save_session_entries [OF s] by simp
  with v show "session_readable k s' \<and> get_session k s' = Some v"
    by (auto simp: session_readable_def get_session_def session.dec_enc)
next
  show "\<And>c. expected_state (Some c) = sstate c" by (simp add: expected_state_def)
qed

end
