(* ===== verification/Worker.thy ===== *)
theory Worker
  imports Replies Store
begin

text \<open>
  \<open>app/workers/message_sender.py\<close> and \<open>app/workers/conversation_tasks.py\<close>: the task that answers
  one message. It reads the session, processes the message in a database transaction, saves the
  session by compare-and-set, renders the reply and sends it. \<open>httpx.post\<close> is a parameter; the
  model keeps the requests that were made. A worker runs the three phases of the task, and
  several workers may interleave them.
\<close>

section \<open>The message sender\<close>

datatype delivery =
    Delivered
  | HttpError string       \<comment> \<open>\<open>httpx.HTTPError\<close>, a transport failure or an error status\<close>
  | OtherFailure exc

record worker_env = ai_env +
  sender_backend :: string
  whatsapp_access_token :: "string option"
  message_sender_url :: "string option"  \<comment> \<open>the environment variable \<open>MESSAGE_SENDER_URL\<close>\<close>
  http_post :: "string \<Rightarrow> dict \<Rightarrow> rat \<Rightarrow> delivery"

datatype message_sender =
    MockMessageSender string rat             \<comment> \<open>endpoint, timeout\<close>
  | WhatsAppMessageSender string string rat  \<comment> \<open>endpoint, token, timeout\<close>

type_synonym outbox = "(string \<times> dict) list"

definition build_message_sender :: "'z worker_env_scheme \<Rightarrow> message_sender res" where
  "build_message_sender E =
     (let endpoint_url =
            (case message_sender_url E of None \<Rightarrow> ''http://localhost:8080'' | Some u \<Rightarrow> u) in
      if sender_backend E = ''mock'' then Inr (MockMessageSender endpoint_url 5)
      else if sender_backend E = ''whatsapp''
      then (case whatsapp_access_token E of
              None \<Rightarrow> Inl (ValueError ''WhatsApp access token is not configured in settings.'')
            | Some t \<Rightarrow> Inr (WhatsAppMessageSender [] t 5))
      else Inl (ValueError (''Unknown sender backend: '' @ sender_backend E)))"

text \<open>One request of the mock sender: an HTTP error becomes a \<open>MessageDeliveryError\<close>.\<close>

definition mock_post :: "'z worker_env_scheme \<Rightarrow> string \<Rightarrow> rat \<Rightarrow> dict \<Rightarrow> outbox \<Rightarrow> unit res \<times> outbox" where
  "mock_post E url timeout body ob =
     ((case http_post E url body timeout of
         Delivered \<Rightarrow> Inr ()
       | HttpError m \<Rightarrow> Inl (MessageDeliveryError m)
       | OtherFailure e \<Rightarrow> Inl e), ob @ [(url, body)])"

text \<open>The methods of the WhatsApp sender are not written yet: nothing is sent, and no error tells so.\<close>

definition whatsapp_send_text :: "string \<Rightarrow> string \<Rightarrow> outbox \<Rightarrow> unit res \<times> outbox" where
  "whatsapp_send_text recipient text' ob = (Inr (), ob)"

definition whatsapp_send_document ::
  "string \<Rightarrow> string \<Rightarrow> string \<Rightarrow> string option \<Rightarrow> outbox \<Rightarrow> unit res \<times> outbox" where
  "whatsapp_send_document recipient document_bytes filename caption ob = (Inr (), ob)"

lemmas whatsapp_sends_nothing [simp] = whatsapp_send_text_def whatsapp_send_document_def

fun send_text :: "'z worker_env_scheme \<Rightarrow> message_sender \<Rightarrow> string \<Rightarrow> string \<Rightarrow> outbox \<Rightarrow> unit res \<times> outbox" where
  "send_text E (MockMessageSender url t) recipient text' ob =
     mock_post E url t [(''recipient'', JStr recipient), (''reply_text'', JStr text')] ob"
| "send_text E (WhatsAppMessageSender url tok t) recipient text' ob = whatsapp_send_text recipient text' ob"

fun send_document ::
  "'z worker_env_scheme \<Rightarrow> message_sender \<Rightarrow> string \<Rightarrow> string \<Rightarrow> string \<Rightarrow> string option \<Rightarrow> outbox \<Rightarrow>
   unit res \<times> outbox" where
  "send_document E (MockMessageSender url t) recipient document_bytes filename caption ob =
     mock_post E url t
       [(''recipient'', JStr recipient), (''filename'', JStr filename),
        (''caption'', case caption of None \<Rightarrow> JNull | Some c \<Rightarrow> JStr c),
        (''document_length'', JInt (int (length document_bytes)))] ob"
| "send_document E (WhatsAppMessageSender url tok t) recipient document_bytes filename caption ob =
     whatsapp_send_document recipient document_bytes filename caption ob"

text \<open>\<open>except MessageDeliveryError\<close>: the failure is logged and the task goes on.\<close>

fun delivery_logged :: "unit res \<Rightarrow> unit res" where
  "delivery_logged (Inl (MessageDeliveryError m)) = Inr ()"
| "delivery_logged r = r"

section \<open>The conversation task\<close>

record system =
  sys_redis :: redis
  sys_world :: world
  sys_sent :: outbox

definition start_session :: "string \<Rightarrow> user_session option \<Rightarrow> user_session" where
  "start_session ph old = (case old of None \<Rightarrow> initial_session ph | Some s \<Rightarrow> s)"

definition locale_of :: "string \<Rightarrow> db \<Rightarrow> string" where
  "locale_of ph d =
     (case shop_by_phone ph d of
        None \<Rightarrow> ''en''
      | Some s \<Rightarrow> if sh_locale s = [] then ''en'' else sh_locale s)"

type_synonym processed = "fsm_result \<times> user_session \<times> string"

text \<open>The transaction of the task; the engine's flows use its database session.\<close>

definition process_phase :: "'z worker_env_scheme \<Rightarrow> inbound_payload \<Rightarrow> user_session option \<Rightarrow> processed op" where
  "process_phase E p old =
     get_worker_db (\<lambda>w.
       case process_message (E\<lparr>injected := True\<rparr>) (message_text p) (start_session (sender p) old, w) of
         (Inl e, (s, w1)) \<Rightarrow> (Inl e, w1)
       | (Inr r, (s, w1)) \<Rightarrow> (Inr (r, s, locale_of (sender p) (work w1)), w1))"

definition reply_phase ::
  "'z worker_env_scheme \<Rightarrow> message_sender \<Rightarrow> inbound_payload \<Rightarrow> user_session option \<Rightarrow> processed \<Rightarrow>
   system \<Rightarrow> string res \<times> system" where
  "reply_phase E snd' p old = (\<lambda>(r, s, loc) S.
     (case save_session (sender p) s old (session_ttl_seconds (cfg E)) (sys_redis S) of
        (Inl e, rd) \<Rightarrow> (Inl e, S\<lparr>sys_redis := rd\<rparr>)
      | (Inr _, rd) \<Rightarrow>
          (let S1 = S\<lparr>sys_redis := rd\<rparr> in
           case render_message (message_key r) loc (message_params r) of
             Inl e \<Rightarrow> (Inl e, S1)
           | Inr reply_text \<Rightarrow>
               (let (res, ob) = send_text E snd' (sender p) reply_text (sys_sent S1);
                    S2 = S1\<lparr>sys_sent := ob\<rparr> in
                case delivery_logged res of Inl e \<Rightarrow> (Inl e, S2) | Inr _ \<Rightarrow> (Inr reply_text, S2)))))"

definition conversation ::
  "'z worker_env_scheme \<Rightarrow> message_sender \<Rightarrow> inbound_payload \<Rightarrow> system \<Rightarrow> string res \<times> system" where
  "conversation E snd' p S =
     (let old = get_session (sender p) (sys_redis S) in
      case process_phase E p old (sys_world S) of
        (Inl e, w) \<Rightarrow> (Inl e, S\<lparr>sys_world := w\<rparr>)
      | (Inr x, w) \<Rightarrow> reply_phase E snd' p old x (S\<lparr>sys_world := w\<rparr>))"

section \<open>The stored sessions\<close>

text \<open>What the program keeps in Redis: under the key of a phone, a consistent session of it.\<close>

definition store_inv :: "redis \<Rightarrow> bool" where
  "store_inv r \<longleftrightarrow>
     (\<forall>sid b e. entries r (session_key sid) = Some (b, e) \<longrightarrow>
        (\<exists>s. session_inv s \<and> phone s = sid \<and> b = BJson (encode_session s)))"

definition own_session :: "string \<Rightarrow> user_session option \<Rightarrow> bool" where
  "own_session ph old \<longleftrightarrow> (\<forall>s. old = Some s \<longrightarrow> session_inv s \<and> phone s = ph)"

definition system_ok :: "system \<Rightarrow> bool" where
  "system_ok S \<longleftrightarrow> store_inv (sys_redis S) \<and> world_ok (sys_world S)"

lemma store_readable: "store_inv r \<Longrightarrow> session_readable sid r"
  unfolding session_readable_def store_inv_def redis_get_def
  by (force simp: session_inv_def split: option.splits)

lemma store_read:
  assumes "store_inv r" shows "own_session sid (get_session sid r)"
proof -
  have "session_inv s \<and> phone s = sid" if "get_session sid r = Some s" for s
  proof -
    from that obtain j e where j: "entries r (session_key sid) = Some (BJson j, e)"
      "decode_session (clock r) j = Some s"
      by (auto simp: get_session_def redis_get_def split: option.splits blob.splits if_splits)
    with assms obtain s' where "session_inv s'" "phone s' = sid" "j = encode_session s'"
      by (auto simp: store_inv_def)
    with j(2) show ?thesis by (simp add: session_inv_def session.dec_enc)
  qed
  then show ?thesis by (simp add: own_session_def)
qed

lemma store_write:
  assumes "store_inv r" "session_inv s" "phone s = sid"
  shows "store_inv (r\<lparr>entries := (entries r)(session_key sid \<mapsto> (BJson (encode_session s), e))\<rparr>)"
  using assms by (auto simp: store_inv_def)

lemma start_session_ok: "own_session ph old \<Longrightarrow> session_inv (start_session ph old) \<and> phone (start_session ph old) = ph"
  by (cases old) (simp_all add: start_session_def own_session_def, simp add: initial_session_def)

lemma script_failure:
  assumes "update_session_script k e j ttl r = (x, r')" "x \<noteq> Inr 1"
  shows "r' = r"
  using assms
  by (auto simp: update_session_script_def Let_def redis_set_def
      split: option.splits blob.splits sum.splits if_splits)

lemma save_session_fails_same:
  assumes "save_session sid v old ttl r = (Inl e, r')" shows "r' = r"
proof -
  obtain x r1 where x: "update_session_script (session_key sid) (state_value (expected_state old))
      (encode_session v) ttl r = (x, r1)" by fastforce
  show ?thesis
  proof (cases "x = Inr 1")
    case True
    with x assms show ?thesis
      by (simp add: save_session_def update_session_result_of_def handle_lua_result_def)
  next
    case False
    from script_failure [OF x False] assms x show ?thesis
      by (cases x) (auto simp: save_session_def split: option.splits)
  qed
qed

section \<open>The phases\<close>

definition good_processed :: "string \<Rightarrow> processed \<Rightarrow> bool" where
  "good_processed ph x \<longleftrightarrow>
     (case x of (r, s, loc) \<Rightarrow>
        session_inv s \<and> phone s = ph \<and> presentable (message_key r) (message_params r))"

lemma process_phase_ok:
  assumes "own_session (sender p) old" "world_ok w" "trigram_law E" "process_phase E p old w = (r, w')"
  shows "world_ok w'" "\<And>x. r = Inr x \<Longrightarrow> good_processed (sender p) x" "\<And>e. r = Inl e \<Longrightarrow> service_error e"
proof -
  let ?E = "E\<lparr>injected := True\<rparr>" and ?s = "start_session (sender p) old"
  have law: "trigram_law ?E" using assms(3) by (simp add: trigram_law_def)
  note s = start_session_ok [OF assms(1)]
  obtain q s1 w1 where q: "process_message ?E (message_text p) (?s, w) = (q, (s1, w1))"
    by (rule prod_cases3)
  note ok = process_message_ok [OF law conjunct1 [OF s] assms(2), of "message_text p", unfolded q message_ok_def prod.case]
  note sp = process_message_speaks [OF law conjunct1 [OF s] assms(2), of "message_text p", unfolded q]
  have w1: "world_ok w1" using ok by simp
  then have "world_ok (commit w1)" "world_ok (rollback w1)"
    by (simp_all add: world_ok_def commit_def rollback_def)
  with q assms(4) show "world_ok w'"
    by (cases q) (auto simp: process_phase_def get_worker_db_def)
  show "good_processed (sender p) x" if "r = Inr x" for x
    using that q assms(4) ok sp s
    by (cases q) (auto simp: process_phase_def get_worker_db_def good_processed_def)
  show "service_error e" if "r = Inl e" for e
    using that q assms(4) ok
    by (cases q) (auto simp: process_phase_def get_worker_db_def)
qed

lemma reply_phase_world: "sys_world (snd (reply_phase E snd' p old x S)) = sys_world S"
  by (auto simp: reply_phase_def Let_def split: prod.splits sum.splits)

lemma reply_phase_store:
  assumes "store_inv (sys_redis S)" "good_processed (sender p) x"
  shows "store_inv (sys_redis (snd (reply_phase E snd' p old x S)))"
proof -
  obtain r s loc where x: "x = (r, s, loc)" by (cases x)
  obtain q rd where q: "save_session (sender p) s old (session_ttl_seconds (cfg E)) (sys_redis S) = (q, rd)"
    by fastforce
  have "store_inv rd"
  proof (cases q)
    case (Inr u)
    with q have "save_session (sender p) s old (session_ttl_seconds (cfg E)) (sys_redis S) = (Inr (), rd)"
      by simp
    from save_session_entries(2) [OF this] assms x show ?thesis
      by (auto simp: good_processed_def intro: store_write)
  next
    case (Inl e)
    have "rd = sys_redis S" by (rule save_session_fails_same [OF q [unfolded Inl]])
    with assms(1) show ?thesis by simp
  qed
  with q x show ?thesis
    by (auto simp: reply_phase_def Let_def split: prod.splits sum.splits)
qed

text \<open>
  The answer of the last phase: either the session was stored, the reply was rendered and handed
  to the sender, or the save was refused and nothing was sent.
\<close>

lemma reply_phase_cases:
  assumes "reply_phase E snd' p old (r, s, loc) S = (res, S')" "good_processed (sender p) (r, s, loc)"
  obtains (refused) e where "save_session (sender p) s old (session_ttl_seconds (cfg E)) (sys_redis S) = (Inl e, sys_redis S)"
      "res = Inl e" "S' = S"
    | (sent) text' q where "save_session (sender p) s old (session_ttl_seconds (cfg E)) (sys_redis S) = (Inr (), sys_redis S')"
      "render_message (message_key r) loc (message_params r) = Inr text'"
      "send_text E snd' (sender p) text' (sys_sent S) = (q, sys_sent S')"
      "res = (case delivery_logged q of Inl e \<Rightarrow> Inl e | Inr _ \<Rightarrow> Inr text')" "sys_world S' = sys_world S"
proof -
  obtain text' where t: "render_message (message_key r) loc (message_params r) = Inr text'"
    using assms(2) presentable_renders [of "message_key r" "message_params r" loc]
    by (auto simp: good_processed_def is_ok_iff)
  obtain v rd where v: "save_session (sender p) s old (session_ttl_seconds (cfg E)) (sys_redis S) = (v, rd)"
    by fastforce
  show thesis
  proof (cases v)
    case (Inl e)
    have "rd = sys_redis S" by (rule save_session_fails_same [OF v [unfolded Inl]])
    with v Inl assms(1) show thesis by (intro refused [of e]) (auto simp: reply_phase_def)
  next
    case (Inr u)
    obtain q ob where q: "send_text E snd' (sender p) text' (sys_sent S) = (q, ob)" by fastforce
    from v Inr q t assms(1)
    have "S' = S\<lparr>sys_redis := rd, sys_sent := ob\<rparr>"
      "res = (case delivery_logged q of Inl e \<Rightarrow> Inl e | Inr _ \<Rightarrow> Inr text')"
      by (auto simp: reply_phase_def Let_def split: sum.splits)
    with v Inr q t show thesis by (intro sent [of text' q]) auto
  qed
qed

lemma delivery_logged_cases:
  "delivery_logged q = Inr () \<or> (\<exists>e. q = Inl e \<and> delivery_logged q = Inl e)"
  by (cases q rule: delivery_logged.cases) simp_all

lemma send_text_outcome:
  assumes "send_text E snd' to' text' ob = (q, ob')"
  shows "delivery_logged q = Inr () \<or>
    (\<exists>e. delivery_logged q = Inl e \<and> (\<exists>u b t. http_post E u b t = OtherFailure e))"
  using assms delivery_logged_cases [of q]
  by (cases snd') (auto simp: mock_post_def split: delivery.splits)

section \<open>One message\<close>

lemma conversation_ok:
  assumes "system_ok S" "trigram_law E"
  shows "system_ok (snd (conversation E snd' p S))"
proof -
  let ?old = "get_session (sender p) (sys_redis S)"
  obtain q w where q: "process_phase E p ?old (sys_world S) = (q, w)" by fastforce
  note ok = process_phase_ok [OF store_read _ assms(2) q] 
  show ?thesis
  proof (cases q)
    case (Inl e)
    with q ok(1) assms(1) show ?thesis by (simp add: conversation_def system_ok_def)
  next
    case (Inr x)
    with q ok assms(1) reply_phase_store [of "S\<lparr>sys_world := w\<rparr>" p x E snd' ?old]
    show ?thesis by (simp add: conversation_def system_ok_def reply_phase_world)
  qed
qed

text \<open>
  A message that nobody else interferes with is answered: the task returns the rendered reply
  and the session it stored is the one the engine left; or the processing raised a service
  error and neither the session nor the outbox changed; or the transport failed in a way that
  is not a delivery error.
\<close>

lemma conversation_answers:
  assumes "system_ok S" "trigram_law E" "0 < session_ttl_seconds (cfg E)"
    "conversation E snd' p S = (res, S')"
  obtains (answered) r s loc text' where
      "process_phase E p (get_session (sender p) (sys_redis S)) (sys_world S) = (Inr (r, s, loc), sys_world S')"
      "render_message (message_key r) loc (message_params r) = Inr text'" "res = Inr text'"
      "get_session (sender p) (sys_redis S') = Some s"
    | (undelivered) e where "res = Inl e" "\<exists>u b t. http_post E u b t = OtherFailure e"
    | (failed) e where "res = Inl e" "service_error e" "sys_redis S' = sys_redis S" "sys_sent S' = sys_sent S"
proof -
  let ?old = "get_session (sender p) (sys_redis S)"
  obtain q w where q: "process_phase E p ?old (sys_world S) = (q, w)" by fastforce
  have own: "own_session (sender p) ?old" using assms(1) by (simp add: system_ok_def store_read)
  note ok = process_phase_ok [OF own _ assms(2) q]
  show thesis
  proof (cases q)
    case (Inl e)
    with q ok assms(1,4) show thesis
      by (intro failed [of e]) (auto simp: conversation_def system_ok_def)
  next
    case (Inr x)
    obtain r s loc where x: "x = (r, s, loc)" by (cases x)
    have good: "good_processed (sender p) (r, s, loc)" using ok(2) Inr x assms(1) by (simp add: system_ok_def)
    have rp: "reply_phase E snd' p ?old (r, s, loc) (S\<lparr>sys_world := w\<rparr>) = (res, S')"
      using assms(4) q Inr x by (simp add: conversation_def)
    have r: "session_readable (sender p) (sys_redis S)" using assms(1) by (simp add: system_ok_def store_readable)
    have "?old = None \<or> (\<exists>c. ?old = Some c \<and> sstate c = expected_state ?old)"
      by (cases ?old) (simp_all add: expected_state_def)
    note saved = save_session_writes [OF assms(3) r this, of s]
    from rp good show thesis
    proof (cases rule: reply_phase_cases)
      case (refused e)
      with saved show thesis by simp
    next
      case (sent text' d)
      have "get_session (sender p) (sys_redis S') = Some s"
        using sent(1) saved assms(3) good
        by (auto simp: get_session_def session.dec_enc good_processed_def session_inv_def)
      with sent q Inr x answered undelivered send_text_outcome [OF sent(3)] show thesis
        by (auto split: sum.splits)
    qed
  qed
qed

end
