(* ===== verification/PdfReport.thy ===== *)
theory PdfReport
  imports Calendar
begin

text \<open>
  \<open>app/services/pdf_service.py\<close>: the story of the daily report, the list of flowables that
  \<open>reportlab\<close> lays out. \<open>reportlab\<close> is a parameter: whether it accepts the markup of a paragraph,
  and the bytes it builds from a story. The styles and table commands are data.
\<close>

section \<open>Flowables\<close>

record paragraph_style =
  ps_name :: string
  ps_parent :: string
  ps_font_size :: nat
  ps_leading :: nat
  ps_font_name :: "string option"
  ps_color :: string
  ps_space_before :: "nat option"
  ps_space_after :: "nat option"

text \<open>A table command with its corners, given as (column, row).\<close>

datatype table_value = TVText string | TVNumber nat | TVColors "string list" | TVGrid rat string

type_synonym table_command = "string \<times> (int \<times> int) \<times> (int \<times> int) \<times> table_value"

datatype flowable =
    Paragraph string paragraph_style
  | Spacer nat nat
  | Table "(string \<times> paragraph_style) list list" "nat list" "table_command list"

text \<open>\<open>SimpleDocTemplate\<close>, in points.\<close>

record doc_template =
  page_size :: string
  right_margin :: nat
  left_margin :: nat
  top_margin :: nat
  bottom_margin :: nat

definition report_template :: doc_template where
  "report_template =
     \<lparr>page_size = ''letter'', right_margin = 36, left_margin = 36, top_margin = 36, bottom_margin = 36\<rparr>"

record reportlab =
  markup_error :: "string \<Rightarrow> string option"
  build_document :: "doc_template \<Rightarrow> flowable list \<Rightarrow> string"

section \<open>Styles\<close>

definition style :: "string \<Rightarrow> string \<Rightarrow> nat \<Rightarrow> nat \<Rightarrow> string \<Rightarrow> paragraph_style" where
  "style nm parent pt lead color =
     \<lparr>ps_name = nm, ps_parent = parent, ps_font_size = pt, ps_leading = lead, ps_font_name = None,
      ps_color = color, ps_space_before = None, ps_space_after = None\<rparr>"

definition title_style :: paragraph_style where
  "title_style = (style ''ReportTitle'' ''Heading1'' 20 24 ''#1A365D'')\<lparr>ps_space_after := Some 4\<rparr>"

definition subtitle_style :: paragraph_style where
  "subtitle_style = (style ''ReportSubtitle'' ''Normal'' 10 12 ''#4A5568'')\<lparr>ps_space_after := Some 15\<rparr>"

definition section_heading_style :: paragraph_style where
  "section_heading_style =
     (style ''SectionHeading'' ''Heading2'' 13 16 ''#2B6CB0'')
       \<lparr>ps_space_before := Some 12, ps_space_after := Some 6\<rparr>"

definition cell_style :: paragraph_style where
  "cell_style = style ''TableCell'' ''Normal'' 9 11 ''#2D3748''"

definition cell_header_style :: paragraph_style where
  "cell_header_style =
     (style ''TableHeaderCell'' ''Normal'' 9 11 ''white'')\<lparr>ps_font_name := Some ''Helvetica-Bold''\<rparr>"

definition empty_text_style :: paragraph_style where
  "empty_text_style = (style ''EmptyText'' ''Italic'' 9 11 ''#718096'')\<lparr>ps_space_after := Some 8\<rparr>"

definition metrics_commands :: "table_command list" where
  "metrics_commands =
     [(''BACKGROUND'', (0, 0), (- 1, 0), TVText ''#2B6CB0''),
      (''BACKGROUND'', (0, 1), (- 1, 1), TVText ''#EBF8FF''),
      (''ALIGN'', (0, 0), (- 1, - 1), TVText ''LEFT''),
      (''VALIGN'', (0, 0), (- 1, - 1), TVText ''MIDDLE''),
      (''TOPPADDING'', (0, 0), (- 1, - 1), TVNumber 6),
      (''BOTTOMPADDING'', (0, 0), (- 1, - 1), TVNumber 6),
      (''LEFTPADDING'', (0, 0), (- 1, - 1), TVNumber 8),
      (''RIGHTPADDING'', (0, 0), (- 1, - 1), TVNumber 8),
      (''GRID'', (0, 0), (- 1, - 1), TVGrid (1 / 2) ''#CBD5E0'')]"

text \<open>The three product tables differ in the colours of the header, the rows and the grid.\<close>

definition table_commands :: "string \<Rightarrow> string \<Rightarrow> string \<Rightarrow> table_command list" where
  "table_commands header stripe grid =
     [(''BACKGROUND'', (0, 0), (- 1, 0), TVText header),
      (''ALIGN'', (0, 0), (- 1, - 1), TVText ''LEFT''),
      (''VALIGN'', (0, 0), (- 1, - 1), TVText ''MIDDLE''),
      (''TOPPADDING'', (0, 0), (- 1, - 1), TVNumber 5),
      (''BOTTOMPADDING'', (0, 0), (- 1, - 1), TVNumber 5),
      (''LEFTPADDING'', (0, 0), (- 1, - 1), TVNumber 8),
      (''RIGHTPADDING'', (0, 0), (- 1, - 1), TVNumber 8),
      (''ROWBACKGROUNDS'', (0, 1), (- 1, - 1), TVColors [''white'', stripe]),
      (''GRID'', (0, 0), (- 1, - 1), TVGrid (1 / 2) grid)]"

section \<open>The story\<close>

definition month_names :: "string list" where
  "month_names =
     [''January'', ''February'', ''March'', ''April'', ''May'', ''June'', ''July'', ''August'',
      ''September'', ''October'', ''November'', ''December'']"

text \<open>\<open>strftime("%B %d, %Y")\<close>\<close>

definition long_date :: "int \<Rightarrow> string" where
  "long_date d =
     month_names ! nat (month_of d - 1) @ '' '' @ pad 2 (day_of d) @ '', '' @ str_int (year_of d)"

definition header_row :: "string list \<Rightarrow> (string \<times> paragraph_style) list" where
  "header_row ts = map (\<lambda>t. (t, cell_header_style)) ts"

definition cell_row :: "string list \<Rightarrow> (string \<times> paragraph_style) list" where
  "cell_row ts = map (\<lambda>t. (t, cell_style)) ts"

definition metrics_table :: "daily_summary \<Rightarrow> flowable" where
  "metrics_table summary =
     Table [header_row [''<b>Total Revenue</b>'', ''<b>Total Transactions</b>''],
            cell_row [''<b>KES '' @ fmt_c2f (ds_total_revenue summary) @ ''</b>'',
                      ''<b>'' @ str_int (int (ds_transaction_count summary)) @ ''</b>'']]
       [270, 270] metrics_commands"

definition product_section ::
  "string \<Rightarrow> string list \<Rightarrow> string list list \<Rightarrow> nat list \<Rightarrow> table_command list \<Rightarrow> string \<Rightarrow> flowable list" where
  "product_section heading columns rows widths commands none_text =
     [Paragraph heading section_heading_style,
      if rows \<noteq> [] then Table (header_row columns # map cell_row rows) widths commands
      else Paragraph none_text empty_text_style]"

definition units_section :: "daily_summary \<Rightarrow> flowable list" where
  "units_section summary =
     product_section ''Top Products by Units Sold'' [''Product Name'', ''Units Sold'']
       (map (\<lambda>r. [tu_name r, str_int (tu_units r)]) (ds_top_by_units summary))
       [380, 160] (table_commands ''#1A365D'' ''#F7FAFC'' ''#E2E8F0'')
       ''No units sold recorded for this period.''"

definition revenue_section :: "daily_summary \<Rightarrow> flowable list" where
  "revenue_section summary =
     product_section ''Top Products by Revenue'' [''Product Name'', ''Revenue'']
       (map (\<lambda>r. [tr_name r, ''KES '' @ fmt_c2f (tr_revenue r)]) (ds_top_by_revenue summary))
       [380, 160] (table_commands ''#1A365D'' ''#F7FAFC'' ''#E2E8F0'')
       ''No revenue recorded for this period.''"

definition low_stock_section :: "daily_summary \<Rightarrow> flowable list" where
  "low_stock_section summary =
     product_section ''Low Stock Alerts'' [''Product Name'', ''Current Stock'', ''Threshold'']
       (map (\<lambda>r. [ls_name r, str_int (ls_quantity r), str_int (ls_threshold r)]) (ds_low_stock summary))
       [280, 130, 130] (table_commands ''#C53030'' ''#FFF5F5'' ''#FEB2B2'')
       ''No products currently low on stock.''"

definition story :: "daily_summary \<Rightarrow> string \<Rightarrow> int \<Rightarrow> flowable list" where
  "story summary shop_name report_date =
     [Paragraph ''SokoFlow Daily Report'' title_style,
      Paragraph (''<b>Shop:</b> '' @ shop_name @ '' &nbsp;|&nbsp; <b>Date:</b> '' @ long_date report_date)
        subtitle_style,
      Spacer 1 5, metrics_table summary, Spacer 1 12]
     @ units_section summary @ [Spacer 1 10] @ revenue_section summary @ [Spacer 1 10]
     @ low_stock_section summary"

text \<open>The texts given to the constructor \<open>Paragraph\<close>, in the order of the calls.\<close>

fun paragraph_texts :: "flowable \<Rightarrow> string list" where
  "paragraph_texts (Paragraph t st) = [t]"
| "paragraph_texts (Spacer a b) = []"
| "paragraph_texts (Table rows widths commands) = map fst (concat rows)"

definition default_shop_name :: string where
  "default_shop_name = ''SokoFlow Shop''"

text \<open>\<open>local_today\<close> is \<open>date.today()\<close>, used when no date is given.\<close>

definition generate_daily_summary_pdf ::
  "reportlab \<Rightarrow> int \<Rightarrow> daily_summary \<Rightarrow> string \<Rightarrow> int option \<Rightarrow> string res" where
  "generate_daily_summary_pdf L local_today summary shop_name report_date =
     (let fs = story summary shop_name (case report_date of None \<Rightarrow> local_today | Some d \<Rightarrow> d) in
      case find (\<lambda>t. markup_error L t \<noteq> None) (concat (map paragraph_texts fs)) of
        Some t \<Rightarrow> Inl (ValueError (the (markup_error L t)))
      | None \<Rightarrow> Inr (build_document L report_template fs))"

section \<open>Properties\<close>

lemma section_texts:
  "concat (map paragraph_texts (product_section h cs rows ws cmds none_text)) =
     h # (if rows \<noteq> [] then cs @ concat rows else [none_text])"
proof -
  have "map fst (concat (map cell_row rows)) = concat rows" for rows
    by (induction rows) (simp_all add: cell_row_def comp_def)
  then show ?thesis
    by (auto simp: product_section_def header_row_def comp_def concat_eq_Nil_conv simp del: concat_eq_Nil_conv)
qed

text \<open>Every figure of the summary is in the document.\<close>

lemma story_complete:
  assumes "r \<in> set (ds_low_stock summary)"
  shows "\<exists>rows ws cmds. Table rows ws cmds \<in> set (story summary nm d) \<and>
    cell_row [ls_name r, str_int (ls_quantity r), str_int (ls_threshold r)] \<in> set rows"
proof -
  have "Table (header_row [''Product Name'', ''Current Stock'', ''Threshold''] #
      map cell_row (map (\<lambda>r. [ls_name r, str_int (ls_quantity r), str_int (ls_threshold r)]) (ds_low_stock summary)))
      [280, 130, 130] (table_commands ''#C53030'' ''#FFF5F5'' ''#FEB2B2'') \<in> set (low_stock_section summary)"
    using assms by (cases "ds_low_stock summary") (simp_all add: low_stock_section_def product_section_def)
  moreover have "set (low_stock_section summary) \<subseteq> set (story summary nm d)" by (auto simp: story_def)
  ultimately show ?thesis using assms by (force simp: image_iff)
qed

text \<open>A name that is not valid markup makes the whole report fail: names are not escaped.\<close>

lemma unescaped_name_fails:
  assumes "r \<in> set (ds_low_stock summary)" "markup_error L (ls_name r) = Some m"
  shows "\<exists>m'. generate_daily_summary_pdf L t summary nm d = Inl (ValueError m')"
proof -
  let ?rows = "map (\<lambda>r. [ls_name r, str_int (ls_quantity r), str_int (ls_threshold r)]) (ds_low_stock summary)"
  have "?rows \<noteq> []" using assms(1) by (cases "ds_low_stock summary") auto
  then have "ls_name r \<in> set (concat (map paragraph_texts (low_stock_section summary)))"
    unfolding low_stock_section_def section_texts using assms(1) by auto
  then have named: "ls_name r \<in> set (concat (map paragraph_texts (story summary nm d')))" for d'
    by (auto simp: story_def)
  have "find (\<lambda>t. markup_error L t \<noteq> None) (concat (map paragraph_texts (story summary nm d'))) \<noteq> None" for d'
    unfolding find_None_iff_all using named [of d'] assms(2) by fastforce
  from this [of "case d of None \<Rightarrow> t | Some d \<Rightarrow> d"] show ?thesis
    by (auto simp: generate_daily_summary_pdf_def Let_def simp del: set_concat)
qed

end
