(* ===== verification/ReportTasks.thy ===== *)
theory ReportTasks
  imports Worker PdfReport
begin

text \<open>
  \<open>app/services/report_service.py\<close> and \<open>app/workers/report_tasks.py\<close>: the daily report, sent as
  a document, and the low-stock alert. The local date of the worker is a parameter. The queue of
  tasks the other components fill is drained one task at a time.
\<close>

record report_env = worker_env +
  today :: int  \<comment> \<open>\<open>date.today()\<close>, a proleptic Gregorian ordinal\<close>
  pdf_library :: reportlab

section \<open>The daily report\<close>

definition get_daily_report_data :: "uuid \<Rightarrow> int \<Rightarrow> daily_summary op" where
  "get_daily_report_data sid date' w = (get_daily_summary sid (DateOnly date') (work w), w)"

text \<open>\<open>strftime('%Y_%m_%d')\<close>\<close>

definition report_filename :: "int \<Rightarrow> string" where
  "report_filename d =
     ''daily_report_'' @ str_int (year_of d) @ ''_'' @ pad 2 (month_of d) @ ''_'' @ pad 2 (day_of d) @ ''.pdf''"

definition process_report ::
  "'z report_env_scheme \<Rightarrow> message_sender \<Rightarrow> uuid \<Rightarrow> string \<Rightarrow> int \<Rightarrow> system \<Rightarrow> unit res \<times> system" where
  "process_report E snd' sid recipient target_date S =
     (case get_worker_db (get_daily_report_data sid target_date) (sys_world S) of
        (Inl e, w) \<Rightarrow> (Inl e, S\<lparr>sys_world := w\<rparr>)
      | (Inr report_data, w) \<Rightarrow>
          (let S1 = S\<lparr>sys_world := w\<rparr> in
           case generate_daily_summary_pdf (pdf_library E) (today E) report_data default_shop_name
                  (Some target_date) of
             Inl e \<Rightarrow> (Inl e, S1)
           | Inr pdf_bytes \<Rightarrow>
               (let (res, ob) =
                      send_document E snd' recipient pdf_bytes (report_filename target_date)
                        (Some (''Daily Sales Report for '' @ long_date target_date)) (sys_sent S1) in
                (delivery_logged res, S1\<lparr>sys_sent := ob\<rparr>))))"

definition report_task ::
  "'z report_env_scheme \<Rightarrow> message_sender \<Rightarrow> report_payload \<Rightarrow> system \<Rightarrow> unit res \<times> system" where
  "report_task E snd' p =
     process_report E snd' (rp_shop_id p) (rp_recipient p)
       (case rp_date p of Some d \<Rightarrow> d | None \<Rightarrow> today E)"

section \<open>The low-stock alert\<close>

text \<open>\<open>None\<close> is the alert skipped because the product is gone.\<close>

definition alert_data :: "string \<Rightarrow> uuid \<Rightarrow> (string \<times> string) option op" where
  "alert_data ph pid w =
     (case shop_by_phone ph (work w) of
        None \<Rightarrow> (Inl CeleryIgnore, w)
      | Some shop \<Rightarrow>
          (case product_by_id pid (work w) of
             None \<Rightarrow> (Inr None, w)
           | Some p \<Rightarrow> (Inr (Some (sh_locale shop, p_name p)), w)))"

definition process_low_stock_alert ::
  "'z worker_env_scheme \<Rightarrow> message_sender \<Rightarrow> string \<Rightarrow> uuid \<Rightarrow> int \<Rightarrow> system \<Rightarrow> unit res \<times> system" where
  "process_low_stock_alert E snd' ph pid remaining S =
     (case get_worker_db (alert_data ph pid) (sys_world S) of
        (Inl e, w) \<Rightarrow> (Inl e, S\<lparr>sys_world := w\<rparr>)
      | (Inr None, w) \<Rightarrow> (Inr (), S\<lparr>sys_world := w\<rparr>)
      | (Inr (Some (loc, nm)), w) \<Rightarrow>
          (let S1 = S\<lparr>sys_world := w\<rparr> in
           case render_message MK_LOW_STOCK_ALERT loc
                  [(''product_name'', PStr nm), (''remaining_stock'', PInt remaining)] of
             Inl e \<Rightarrow> (Inl e, S1)
           | Inr alert_body \<Rightarrow>
               (let (res, ob) = send_text E snd' ph alert_body (sys_sent S1) in
                (delivery_logged res, S1\<lparr>sys_sent := ob\<rparr>))))"

definition send_low_stock_alert ::
  "'z worker_env_scheme \<Rightarrow> message_sender \<Rightarrow> string \<Rightarrow> string \<Rightarrow> int \<Rightarrow> system \<Rightarrow> unit res \<times> system" where
  "send_low_stock_alert E snd' ph pid_text remaining S =
     (case parse_uuid pid_text of
        None \<Rightarrow> (Inl (ValueError ''badly formed hexadecimal UUID string''), S)
      | Some pid \<Rightarrow> process_low_stock_alert E snd' ph pid remaining S)"

section \<open>The queue\<close>

text \<open>A task of the queue; the results are dropped, an exception ends the task.\<close>

fun run_task :: "'z report_env_scheme \<Rightarrow> message_sender \<Rightarrow> task \<Rightarrow> system \<Rightarrow> system" where
  "run_task E snd' (ConversationTask p) S = snd (conversation E snd' p S)"
| "run_task E snd' (ReportTask p) S = snd (report_task E snd' p S)"
| "run_task E snd' (LowStockAlert ph pid n) S = snd (send_low_stock_alert E snd' ph pid n S)"

fun pop_task :: "world \<Rightarrow> (task \<times> world) option" where
  "pop_task w = (case tasks w of [] \<Rightarrow> None | t # ts \<Rightarrow> Some (t, w\<lparr>tasks := ts\<rparr>))"

text \<open>\<open>fuel\<close> tasks are run, in the order they were queued.\<close>

fun drain :: "nat \<Rightarrow> 'z report_env_scheme \<Rightarrow> message_sender \<Rightarrow> system \<Rightarrow> system" where
  "drain 0 E snd' S = S"
| "drain (Suc n) E snd' S =
     (case pop_task (sys_world S) of
        None \<Rightarrow> S
      | Some (t, w) \<Rightarrow> drain n E snd' (run_task E snd' t (S\<lparr>sys_world := w\<rparr>)))"

section \<open>Properties\<close>

lemma read_only_ok:
  assumes "world_ok w" "\<And>w. snd (f w) = w"
  shows "world_ok (snd (get_worker_db f w))"
proof -
  obtain r where "f w = (r, w)" using assms(2) by (metis prod.collapse)
  with assms(1) show ?thesis
    by (cases r) (simp_all add: get_worker_db_def commit_def rollback_def world_ok_def)
qed

lemma alert_data_reads: "snd (alert_data ph pid w) = w"
  by (simp add: alert_data_def split: option.split)

lemma alert_presentable:
  "presentable MK_LOW_STOCK_ALERT [(''product_name'', PStr nm), (''remaining_stock'', PInt n)]"
  by (simp add: presentable_defs)

lemma process_report_ok:
  assumes "system_ok S" shows "system_ok (snd (process_report E snd' sid r d S))"
proof -
  let ?f = "get_daily_report_data sid d"
  obtain x w where x: "get_worker_db ?f (sys_world S) = (x, w)" by fastforce
  have "world_ok w"
    using read_only_ok [of "sys_world S" ?f] assms x by (simp add: system_ok_def get_daily_report_data_def)
  with assms x show ?thesis
    by (auto simp: process_report_def system_ok_def Let_def split: sum.split prod.split)
qed

lemma process_alert_ok:
  assumes "system_ok S" shows "system_ok (snd (process_low_stock_alert E snd' ph pid n S))"
proof -
  let ?f = "alert_data ph pid"
  obtain x w where x: "get_worker_db ?f (sys_world S) = (x, w)" by fastforce
  have "world_ok w"
    using read_only_ok [of "sys_world S" ?f] assms x by (simp add: system_ok_def alert_data_reads)
  with assms x show ?thesis
    by (auto simp: process_low_stock_alert_def system_ok_def Let_def split: sum.split prod.split option.split)
qed

lemma run_task_ok:
  assumes "system_ok S" "trigram_law E" shows "system_ok (run_task E snd' t S)"
  using assms
  by (cases t) (auto simp: conversation_ok report_task_def process_report_ok send_low_stock_alert_def
      process_alert_ok split: option.split)

text \<open>However many tasks are run, and whatever they queue, the stores stay consistent.\<close>

lemma drain_ok: "system_ok S \<Longrightarrow> trigram_law E \<Longrightarrow> system_ok (drain n E snd' S)"
proof (induction n arbitrary: S)
  case (Suc n)
  have "system_ok (S\<lparr>sys_world := (sys_world S)\<lparr>tasks := ts\<rparr>\<rparr>)" for ts
    using Suc.prems(1) by (simp add: system_ok_def world_ok_def)
  then have "system_ok (run_task E snd' t (S\<lparr>sys_world := (sys_world S)\<lparr>tasks := ts\<rparr>\<rparr>))" for t ts
    using run_task_ok Suc.prems(2) by blast
  then have "system_ok (drain n E snd' (run_task E snd' t (S\<lparr>sys_world := (sys_world S)\<lparr>tasks := ts\<rparr>\<rparr>)))" for t ts
    using Suc.IH Suc.prems(2) by blast
  with Suc.prems(1) show ?case by (auto split: list.split)
qed simp

text \<open>
  The alert the sale queued finds its product again: the identifier survives the text form, and
  the alert is sent in the locale of the shop.
\<close>

lemma alert_sent:
  assumes "shop_by_phone ph (work w) = Some shop" "product_by_id pid (work w) = Some p"
    "sys_world S = w"
    "render_message MK_LOW_STOCK_ALERT (sh_locale shop)
       [(''product_name'', PStr (p_name p)), (''remaining_stock'', PInt n)] = Inr alert_body"
  shows "sys_sent (snd (send_low_stock_alert E (MockMessageSender url t) ph (uuid_str pid) n S)) =
    sys_sent S @ [(url, [(''recipient'', JStr ph), (''reply_text'', JStr alert_body)])]"
  using assms
  by (simp add: send_low_stock_alert_def process_low_stock_alert_def get_worker_db_def alert_data_def
      mock_post_def Let_def)

lemma alert_renders:
  "\<exists>t. render_message MK_LOW_STOCK_ALERT loc [(''product_name'', PStr nm), (''remaining_stock'', PInt n)] = Inr t"
  using presentable_renders [OF alert_presentable] by (simp add: is_ok_iff)

end
