(* ===== verification/Sha256.thy ===== *)
theory Sha256
  imports PyUuid
begin

unbundle bit_operations_syntax

text \<open>
  HMAC-SHA256, which the webhook computes with Python's \<open>hmac.new(key, payload, "sha256")\<close>: the
  hash of FIPS 180-4 on bytes and the keyed hash of RFC 2104, as executable definitions. The
  32-bit words wrap around.
\<close>

type_synonym byte = "8 word"

definition bytes_of :: "string \<Rightarrow> byte list" where
  "bytes_of s = map (\<lambda>c. word_of_nat (of_char c)) s"

definition hex_byte :: "byte \<Rightarrow> string" where
  "hex_byte b = [hex_char (unat b div 16), hex_char (unat b mod 16)]"

section \<open>SHA-256\<close>

definition rotr :: "nat \<Rightarrow> 32 word \<Rightarrow> 32 word" where
  "rotr n x = drop_bit n x OR push_bit (32 - n) x"

definition round_constants :: "32 word list" where
  "round_constants =
     [1116352408, 1899447441, 3049323471, 3921009573, 961987163, 1508970993, 2453635748,
      2870763221, 3624381080, 310598401, 607225278, 1426881987, 1925078388, 2162078206,
      2614888103, 3248222580, 3835390401, 4022224774, 264347078, 604807628, 770255983,
      1249150122, 1555081692, 1996064986, 2554220882, 2821834349, 2952996808, 3210313671,
      3336571891, 3584528711, 113926993, 338241895, 666307205, 773529912, 1294757372,
      1396182291, 1695183700, 1986661051, 2177026350, 2456956037, 2730485921, 2820302411,
      3259730800, 3345764771, 3516065817, 3600352804, 4094571909, 275423344, 430227734,
      506948616, 659060556, 883997877, 958139571, 1322822218, 1537002063, 1747873779,
      1955562222, 2024104815, 2227730452, 2361852424, 2428436474, 2756734187, 3204031479,
      3329325298]"

definition initial_hash :: "32 word list" where
  "initial_hash =
     [1779033703, 3144134277, 1013904242, 2773480762, 1359893119, 2600822924, 528734635,
      1541459225]"

definition big_sigma0 :: "32 word \<Rightarrow> 32 word" where
  "big_sigma0 x = rotr 2 x XOR rotr 13 x XOR rotr 22 x"

definition big_sigma1 :: "32 word \<Rightarrow> 32 word" where
  "big_sigma1 x = rotr 6 x XOR rotr 11 x XOR rotr 25 x"

definition small_sigma0 :: "32 word \<Rightarrow> 32 word" where
  "small_sigma0 x = rotr 7 x XOR rotr 18 x XOR drop_bit 3 x"

definition small_sigma1 :: "32 word \<Rightarrow> 32 word" where
  "small_sigma1 x = rotr 17 x XOR rotr 19 x XOR drop_bit 10 x"

text \<open>The schedule, newest word first: 16 words of the block, then 48 computed ones.\<close>

fun schedule :: "nat \<Rightarrow> 32 word list \<Rightarrow> 32 word list" where
  "schedule 0 ws = ws"
| "schedule (Suc n) ws =
     schedule n ((small_sigma1 (ws ! 1) + ws ! 6 + small_sigma0 (ws ! 14) + ws ! 15) # ws)"

fun sha_round :: "32 word \<times> 32 word \<Rightarrow> 32 word list \<Rightarrow> 32 word list" where
  "sha_round (k, w) [a, b, c, d, e, f, g, h] =
     (let t1 = h + big_sigma1 e + ((e AND f) XOR (NOT e AND g)) + k + w;
          t2 = big_sigma0 a + ((a AND b) XOR (a AND c) XOR (b AND c)) in
      [t1 + t2, a, b, c, d + t1, e, f, g])"
| "sha_round kw hs = hs"

definition compress :: "32 word list \<Rightarrow> 32 word list \<Rightarrow> 32 word list" where
  "compress hs block =
     map2 (+) hs (fold sha_round (zip round_constants (rev (schedule 48 (rev block)))) hs)"

definition word_of_bytes :: "byte list \<Rightarrow> 32 word" where
  "word_of_bytes bs = foldl (\<lambda>acc b. push_bit 8 acc OR ucast b) 0 bs"

text \<open>Consecutive groups of \<open>n\<close>.\<close>

function groups :: "nat \<Rightarrow> 'a list \<Rightarrow> 'a list list" where
  "groups n xs = (if n = 0 \<or> xs = [] then [] else take n xs # groups n (drop n xs))"
  by pat_completeness auto
termination by (relation "measure (\<lambda>(n, xs). length xs)") auto

declare groups.simps [simp del]

definition pad_message :: "byte list \<Rightarrow> byte list" where
  "pad_message bs =
     (let n = length bs in
      bs @ [0x80] @ replicate ((119 - n mod 64) mod 64) 0
         @ map (\<lambda>i. word_of_nat (8 * n div 256 ^ i)) [7, 6, 5, 4, 3, 2, 1, 0])"

definition bytes_of_word :: "32 word \<Rightarrow> byte list" where
  "bytes_of_word w = map (\<lambda>i. ucast (drop_bit i w)) [24, 16, 8, 0]"

definition sha256 :: "byte list \<Rightarrow> byte list" where
  "sha256 bs =
     concat (map bytes_of_word
       (foldl compress initial_hash (map (map word_of_bytes) (map (groups 4) (groups 64 (pad_message bs))))))"

section \<open>HMAC\<close>

definition hmac_key :: "byte list \<Rightarrow> byte list" where
  "hmac_key key =
     (let k = (if length key > 64 then sha256 key else key) in k @ replicate (64 - length k) 0)"

definition hmac_sha256 :: "byte list \<Rightarrow> byte list \<Rightarrow> byte list" where
  "hmac_sha256 key payload =
     sha256 (map ((XOR) 0x5C) (hmac_key key) @ sha256 (map ((XOR) 0x36) (hmac_key key) @ payload))"

definition hexdigest :: "byte list \<Rightarrow> string" where
  "hexdigest bs = concat (map hex_byte bs)"

section \<open>Properties\<close>

text \<open>The message is padded to whole blocks of 64 bytes.\<close>

lemma padding: "64 dvd n + (9 + (119 - n mod 64) mod 64)" for n :: nat
proof -
  define m where "m = n mod 64"
  have "(119 - m) mod 64 = (if m \<le> 55 then 55 - m else 119 - m)"
  proof (cases "m \<le> 55")
    case True
    then have "119 - m = 64 + (55 - m)" by simp
    then have "(119 - m) mod 64 = (55 - m) mod 64" by (metis mod_add_self1)
    with True show ?thesis by simp
  qed simp
  moreover have "m < 64" "n = 64 * (n div 64) + m" by (simp_all add: m_def)
  ultimately have "n + (9 + (119 - m) mod 64) = 64 * (n div 64 + (if m \<le> 55 then 1 else 2))"
    by (auto simp: algebra_simps)
  then show ?thesis unfolding m_def by (metis dvd_triv_left)
qed

lemma length_pad_message: "64 dvd length (pad_message bs)"
proof -
  have "length (pad_message bs) = length bs + (9 + (119 - length bs mod 64) mod 64)"
    by (simp add: pad_message_def Let_def)
  with padding [of "length bs"] show ?thesis by (simp only:)
qed

lemma sha_round_length: "length hs = 8 \<Longrightarrow> length (sha_round kw hs) = 8"
  by (cases "(kw, hs)" rule: sha_round.cases) (auto simp: Let_def)

lemma compress_length: "length hs = 8 \<Longrightarrow> length (compress hs b) = 8"
proof -
  have "length hs = 8 \<Longrightarrow> length (fold sha_round kws hs) = 8" for kws
    by (induction kws arbitrary: hs) (simp_all add: sha_round_length)
  then show "length hs = 8 \<Longrightarrow> length (compress hs b) = 8" by (simp add: compress_def)
qed

text \<open>A digest has 32 bytes, hence 64 hexadecimal digits, and a block key has 64 bytes.\<close>

lemma sha256_length: "length (sha256 bs) = 32"
proof -
  have "length hs = 8 \<Longrightarrow> length (foldl compress hs blocks) = 8" for hs blocks
    by (induction blocks arbitrary: hs) (simp_all add: compress_length)
  then have "length (foldl compress initial_hash blocks) = 8" for blocks
    by (simp add: initial_hash_def)
  moreover have "length (concat (map bytes_of_word ws)) = 4 * length ws" for ws
    by (induction ws) (simp_all add: bytes_of_word_def)
  ultimately show ?thesis by (simp add: sha256_def)
qed

lemma hmac_key_length: "length (hmac_key key) = 64"
  by (simp add: hmac_key_def Let_def sha256_length)

lemma hexdigest_length: "length (hexdigest bs) = 2 * length bs"
  by (induction bs) (simp_all add: hexdigest_def hex_byte_def)

lemma hex_char_ascii: "n < 16 \<Longrightarrow> of_char (hex_char n) < (128 :: nat)"
  by (simp add: hex_char_def)

end
