(* ===== verification/Webhook.thy ===== *)
theory Webhook
  imports Worker Sha256
begin

text \<open>
  \<open>app/api/routes/webhook.py\<close>: the authenticated entry of a message. The signature of the raw
  body is checked, the body validated, the message identifier claimed in Redis and the
  conversation task handed to the broker. Pydantic's reading of the JSON body, a failure of the
  Redis connection and the random identifier are parameters; the answer of an unhandled exception
  is left to the server.
\<close>

record webhook_env = worker_env +
  validate_webhook :: "string \<Rightarrow> string + whatsapp_webhook"
  redis_failure :: "exc option"
  uuid4_text :: string

record webhook_request =
  raw_body :: string
  x_hub_signature_256 :: "string option"
  correlation_header :: "string option"

record http_reply =
  hr_status :: int
  hr_body :: "(string \<times> string) list"

definition detail :: "int \<Rightarrow> string \<Rightarrow> http_reply" where
  "detail status m = \<lparr>hr_status = status, hr_body = [(''detail'', m)]\<rparr>"

definition webhook_reply :: "webhook_response \<Rightarrow> http_reply" where
  "webhook_reply r = \<lparr>hr_status = 200, hr_body = [(''status'', wr_status r), (''message'', wr_message r)]\<rparr>"

section \<open>The signature\<close>

text \<open>\<open>hmac.compare_digest\<close> of two texts refuses characters outside ASCII.\<close>

definition compare_digest :: "string \<Rightarrow> string \<Rightarrow> bool res" where
  "compare_digest a b =
     (if list_all (\<lambda>c. code c < 128) a \<and> list_all (\<lambda>c. code c < 128) b then Inr (a = b)
      else Inl (TypeError ''comparing strings with non-ASCII characters is not supported''))"

definition computed_signature :: "string \<Rightarrow> string \<Rightarrow> string" where
  "computed_signature secret payload = hexdigest (hmac_sha256 (bytes_of secret) (bytes_of payload))"

definition verify_hmac_signature :: "string \<Rightarrow> string option \<Rightarrow> string option \<Rightarrow> bool res" where
  "verify_hmac_signature payload signature_header app_secret =
     (case (signature_header, app_secret) of
        (Some sig, Some secret) \<Rightarrow>
          if sig = [] \<or> secret = [] then Inr False
          else if \<not> startswith sig ''sha256='' then Inr False
          else compare_digest (computed_signature secret payload) (strip (drop 7 sig))
      | _ \<Rightarrow> Inr False)"

section \<open>The route\<close>

definition or_default :: "string option \<Rightarrow> string \<Rightarrow> string" where
  "or_default o' d = (case o' of None \<Rightarrow> d | Some s \<Rightarrow> if s = [] then d else s)"

type_synonym stores = "redis \<times> world"

text \<open>The deduplication: any failure answers 500 and leaves the task unsent.\<close>

definition claim_message ::
  "'z webhook_env_scheme \<Rightarrow> inbound_payload \<Rightarrow> redis \<Rightarrow> bool res \<times> redis" where
  "claim_message E p rd =
     (case redis_failure E of
        Some e \<Rightarrow> (Inl e, rd)
      | None \<Rightarrow> is_duplicate (message_id p) (dedup_ttl_seconds (cfg E)) rd)"

definition dispatch :: "'z webhook_env_scheme \<Rightarrow> inbound_payload \<Rightarrow> stores \<Rightarrow> http_reply \<times> stores" where
  "dispatch E p = (\<lambda>(rd, w).
     (case claim_message E p rd of
        (Inl e, rd1) \<Rightarrow> (detail 500 ''Infrastructure error during deduplication'', (rd1, w))
      | (Inr True, rd1) \<Rightarrow>
          (webhook_reply \<lparr>wr_status = ''ignored'', wr_message = ''Duplicate message ignored''\<rparr>, (rd1, w))
      | (Inr False, rd1) \<Rightarrow>
          (case delay E (ConversationTask p) w of
             (Inl e, w1) \<Rightarrow> (detail 500 ''Infrastructure error during task dispatch'', (rd1, w1))
           | (Inr _, w1) \<Rightarrow> (webhook_reply default_webhook_response, (rd1, w1)))))"

definition webhook :: "'z webhook_env_scheme \<Rightarrow> webhook_request \<Rightarrow> stores \<Rightarrow> http_reply res \<times> stores" where
  "webhook E req st =
     (case verify_hmac_signature (raw_body req) (x_hub_signature_256 req) (whatsapp_app_secret (cfg E)) of
        Inl e \<Rightarrow> (Inl e, st)
      | Inr False \<Rightarrow> (Inr (detail 401 ''Invalid or missing HMAC signature''), st)
      | Inr True \<Rightarrow>
          (case validate_webhook E (raw_body req) of
             Inl m \<Rightarrow> (Inr (detail 422 ''Malformed webhook payload''), st)
           | Inr wh \<Rightarrow>
               (case from_whatsapp_webhook wh (Some (or_default (correlation_header req) (uuid4_text E))) of
                  None \<Rightarrow> (Inr (detail 422 ''Missing required message fields in payload''), st)
                | Some p \<Rightarrow> (let (r, st1) = dispatch E p st in (Inr r, st1)))))"

section \<open>Authenticity\<close>

text \<open>What a request needs to be let in: the signature of its body under the shared secret.\<close>

definition authentic :: "'z webhook_env_scheme \<Rightarrow> webhook_request \<Rightarrow> bool" where
  "authentic E req \<longleftrightarrow>
     (\<exists>secret sig. whatsapp_app_secret (cfg E) = Some secret \<and> secret \<noteq> [] \<and>
        x_hub_signature_256 req = Some (''sha256='' @ sig) \<and>
        strip sig = computed_signature secret (raw_body req))"

lemma startswith_append: "startswith s p \<Longrightarrow> s = p @ drop (length p) s"
  unfolding startswith_def by (metis append_take_drop_id)

lemma hex_byte_ascii: "list_all (\<lambda>c. code c < (128 :: nat)) (hex_byte b)"
proof -
  have "unat b < 256" using unsigned_less [of b] by simp
  then have "unat b div 16 < 16" "unat b mod 16 < 16" by (simp_all add: less_mult_imp_div_less)
  then show ?thesis by (simp add: hex_byte_def hex_char_ascii)
qed

lemma hexdigest_ascii: "list_all (\<lambda>c. code c < (128 :: nat)) (hexdigest bs)"
  unfolding hexdigest_def using hex_byte_ascii by (induction bs) (simp_all add: list_all_append)

lemma hexdigest_strip: "strip (hexdigest bs) = hexdigest bs"
proof -
  have "\<not> py_space (hex_char n)" if "n < 16" for n
    using that by (auto simp: py_space_def code_hex_char)
  moreover have "unat b < 256" for b :: byte using unsigned_less [of b] by simp
  then have "unat b div 16 < 16" "unat b mod 16 < 16" for b :: byte
    by (simp_all add: less_mult_imp_div_less)
  ultimately have "\<forall>c \<in> set (hexdigest bs). \<not> py_space c"
    by (auto simp: hexdigest_def hex_byte_def)
  then show ?thesis by (rule not_space_in)
qed

lemma verify_iff:
  "verify_hmac_signature (raw_body req) (x_hub_signature_256 req) (whatsapp_app_secret (cfg E)) = Inr True
     \<longleftrightarrow> authentic E req"
proof
  assume v: "verify_hmac_signature (raw_body req) (x_hub_signature_256 req) (whatsapp_app_secret (cfg E)) = Inr True"
  then obtain sig secret where s: "x_hub_signature_256 req = Some sig" "whatsapp_app_secret (cfg E) = Some secret"
    "secret \<noteq> []" "startswith sig ''sha256=''" "strip (drop 7 sig) = computed_signature secret (raw_body req)"
    by (auto simp: verify_hmac_signature_def compare_digest_def split: option.splits if_splits)
  from startswith_append [OF s(4)] have "sig = ''sha256='' @ drop 7 sig" by (simp add: eval_nat_numeral)
  with s show "authentic E req" unfolding authentic_def by metis
next
  assume "authentic E req"
  then obtain secret sig where "whatsapp_app_secret (cfg E) = Some secret" "secret \<noteq> []"
    "x_hub_signature_256 req = Some (''sha256='' @ sig)" "strip sig = computed_signature secret (raw_body req)"
    by (auto simp: authentic_def)
  then show "verify_hmac_signature (raw_body req) (x_hub_signature_256 req) (whatsapp_app_secret (cfg E)) = Inr True"
    by (simp add: verify_hmac_signature_def startswith_def compare_digest_def computed_signature_def hexdigest_ascii)
qed

lemma unauthentic_rejected:
  assumes "\<not> authentic E req"
  shows "snd (webhook E req st) = st \<and>
    (fst (webhook E req st) = Inr (detail 401 ''Invalid or missing HMAC signature'') \<or>
     (\<exists>m. fst (webhook E req st) = Inl (TypeError m)))"
proof -
  have "verify_hmac_signature (raw_body req) (x_hub_signature_256 req) (whatsapp_app_secret (cfg E)) \<noteq> Inr True"
    using assms verify_iff by blast
  moreover have "v = Inr False \<or> (\<exists>m. v = Inl (TypeError m))"
    if "verify_hmac_signature b s k = v" "v \<noteq> Inr True" for b s k v
    using that by (auto simp: verify_hmac_signature_def compare_digest_def split: option.splits if_splits)
  ultimately show ?thesis by (fastforce simp: webhook_def)
qed

section \<open>At most once, while the key lives\<close>

definition queued :: "string \<Rightarrow> world \<Rightarrow> nat" where
  "queued m w =
     length (filter (\<lambda>t. case t of ConversationTask p \<Rightarrow> message_id p = m | _ \<Rightarrow> False) (tasks w))"

text \<open>A stream of requests, each at its time.\<close>

fun webhooks :: "'z webhook_env_scheme \<Rightarrow> (time \<times> webhook_request) list \<Rightarrow> stores \<Rightarrow> stores" where
  "webhooks E [] st = st"
| "webhooks E ((t, req) # rs) (rd, w) = webhooks E rs (snd (webhook E req (rd\<lparr>clock := t\<rparr>, w)))"

lemma webhook_cases: "snd (webhook E req st) = st \<or> (\<exists>p. snd (webhook E req st) = snd (dispatch E p st))"
proof -
  have "snd (let (r, st1) = dispatch E p st in (Inr r, st1)) = snd (dispatch E p st)" for p
    by (cases "dispatch E p st") simp
  then show ?thesis by (auto simp: webhook_def split: sum.split bool.split option.split)
qed

text \<open>One request either leaves the key of a message and its tasks alone or claims the key.\<close>

lemma dispatch_step:
  assumes "dispatch E p (rd, w) = (r, (rd', w'))" "clock rd = t" "0 < dedup_ttl_seconds (cfg E)"
  shows "queued m w' = queued m w \<and> entries rd' (dedup_key m) = entries rd (dedup_key m) \<or>
    (redis_get (dedup_key m) rd = None \<and> queued m w' \<le> Suc (queued m w) \<and>
     entries rd' (dedup_key m) = Some (BText ''1'', t + seconds (dedup_ttl_seconds (cfg E))))"
proof (cases "redis_failure E")
  case None
  show ?thesis
  proof (cases "redis_get (dedup_key (message_id p)) rd")
    case free: None
    have "queued m w1 = (if a = Inr () \<and> message_id p = m then Suc (queued m w) else queued m w)"
      if "delay E (ConversationTask p) w = (a, w1)" for a w1
      using that by (auto simp: delay_def queued_def enqueue_def split: if_splits)
    with free None assms show ?thesis
      by (cases "message_id p = m")
         (auto simp: dispatch_def claim_message_def is_duplicate_def redis_set_nx_def
            split: prod.splits sum.splits if_splits)
  next
    case (Some b)
    with None assms show ?thesis
      by (auto simp: dispatch_def claim_message_def is_duplicate_def redis_set_nx_def)
  qed
qed (use assms in \<open>auto simp: dispatch_def claim_message_def\<close>)

lemma webhook_step:
  assumes "webhook E req (rd, w) = (r, (rd', w'))" "clock rd = t" "0 < dedup_ttl_seconds (cfg E)"
  shows "queued m w' = queued m w \<and> entries rd' (dedup_key m) = entries rd (dedup_key m) \<or>
    (redis_get (dedup_key m) rd = None \<and> queued m w' \<le> Suc (queued m w) \<and>
     entries rd' (dedup_key m) = Some (BText ''1'', t + seconds (dedup_ttl_seconds (cfg E))))"
proof (cases "snd (webhook E req (rd, w)) = (rd, w)")
  case False
  then obtain p where dispatched: "snd (webhook E req (rd, w)) = snd (dispatch E p (rd, w))"
    using webhook_cases [of E req "(rd, w)"] by blast
  obtain q rd1 w1 where "dispatch E p (rd, w) = (q, (rd1, w1))" by (rule prod_cases3)
  with dispatch_step [OF this assms(2,3), of m] dispatched assms(1) show ?thesis by simp
qed (use assms in simp)

lemma webhooks_blocked:
  assumes "0 < dedup_ttl_seconds (cfg E)" "entries rd (dedup_key m) = Some (b, e)" "\<forall>x \<in> set rs. fst x < e"
    "webhooks E rs (rd, w) = (rd', w')"
  shows "queued m w' = queued m w"
  using assms
proof (induction rs arbitrary: rd w)
  case (Cons x rs)
  obtain t req where x: "x = (t, req)" by fastforce
  obtain r rd1 w1 where s: "webhook E req (rd\<lparr>clock := t\<rparr>, w) = (r, (rd1, w1))" by (rule prod_cases3)
  have "redis_get (dedup_key m) (rd\<lparr>clock := t\<rparr>) \<noteq> None"
    using Cons.prems(2,3) x by (simp add: redis_get_clock)
  with webhook_step [OF s _ Cons.prems(1), of t m] Cons.prems(2)
  have "queued m w1 = queued m w" "entries rd1 (dedup_key m) = Some (b, e)" by auto
  with Cons.IH [OF Cons.prems(1), of rd1 w1] Cons.prems(3,4) s x show ?case by simp
qed simp

lemma webhooks_at_most_once:
  assumes "0 < dedup_ttl_seconds (cfg E)" "\<forall>x \<in> set rs. t0 \<le> fst x \<and> fst x < t0 + seconds (dedup_ttl_seconds (cfg E))"
    "webhooks E rs (rd, w) = (rd', w')"
  shows "queued m w' \<le> Suc (queued m w)"
  using assms
proof (induction rs arbitrary: rd w)
  case (Cons x rs)
  obtain t req where x: "x = (t, req)" by fastforce
  obtain r rd1 w1 where s: "webhook E req (rd\<lparr>clock := t\<rparr>, w) = (r, (rd1, w1))" by (rule prod_cases3)
  have rest: "webhooks E rs (rd1, w1) = (rd', w')" using Cons.prems(3) s x by simp
  from webhook_step [OF s _ Cons.prems(1), of t m]
  consider "queued m w1 = queued m w"
    | "queued m w1 \<le> Suc (queued m w)"
      "entries rd1 (dedup_key m) = Some (BText ''1'', t + seconds (dedup_ttl_seconds (cfg E)))" by auto
  then show ?case
  proof cases
    case 1
    with Cons.IH [OF Cons.prems(1) _ rest] Cons.prems(2) show ?thesis by simp
  next
    case 2
    have "\<forall>x \<in> set rs. fst x < t + seconds (dedup_ttl_seconds (cfg E))" using Cons.prems(2) x by fastforce
    from webhooks_blocked [OF Cons.prems(1) 2(2) this rest] 2(1) show ?thesis by simp
  qed
qed simp

section \<open>A new message\<close>

lemma webhook_dispatches:
  assumes "authentic E req" "validate_webhook E (raw_body req) = Inr wh"
    "from_whatsapp_webhook wh (Some (or_default (correlation_header req) (uuid4_text E))) = Some p"
  shows "webhook E req st = (let (r, st1) = dispatch E p st in (Inr r, st1))"
  using verify_iff [THEN iffD2, OF assms(1)] assms(2,3) by (simp add: webhook_def)

lemma webhook_accepts:
  assumes "authentic E req" "validate_webhook E (raw_body req) = Inr wh"
    "from_whatsapp_webhook wh (Some (or_default (correlation_header req) (uuid4_text E))) = Some p"
    "redis_failure E = None" "broker E (ConversationTask p)" "0 < dedup_ttl_seconds (cfg E)"
    "redis_get (dedup_key (message_id p)) rd = None"
  shows "\<exists>rd'. webhook E req (rd, w) =
    (Inr (webhook_reply default_webhook_response), (rd', enqueue (ConversationTask p) w))"
  using assms webhook_dispatches [OF assms(1-3), of "(rd, w)"]
  by (simp add: dispatch_def claim_message_def is_duplicate_def redis_set_nx_def delay_def)

text \<open>
  When the broker refuses the task, the key has been claimed already: the sender is told 500, and
  its redelivery within the time to live is answered as a duplicate, so the message is lost.
\<close>

lemma refused_message_lost:
  assumes "authentic E req" "validate_webhook E (raw_body req) = Inr wh"
    "from_whatsapp_webhook wh (Some (or_default (correlation_header req) (uuid4_text E))) = Some p"
    "redis_failure E = None" "\<not> broker E (ConversationTask p)" "0 < dedup_ttl_seconds (cfg E)"
    "redis_get (dedup_key (message_id p)) rd = None"
    "whatsapp_app_secret (cfg E') = whatsapp_app_secret (cfg E)" "validate_webhook E' = validate_webhook E"
    "uuid4_text E' = uuid4_text E" "redis_failure E' = None" "dedup_ttl_seconds (cfg E') = dedup_ttl_seconds (cfg E)"
    "t < clock rd + seconds (dedup_ttl_seconds (cfg E))"
  shows "\<exists>rd'. webhook E req (rd, w) =
      (Inr (detail 500 ''Infrastructure error during task dispatch''), (rd', w)) \<and>
    webhook E' req (rd'\<lparr>clock := t\<rparr>, w) =
      (Inr (webhook_reply \<lparr>wr_status = ''ignored'', wr_message = ''Duplicate message ignored''\<rparr>),
       (rd'\<lparr>clock := t\<rparr>, w))"
proof -
  have "authentic E' req" using assms(1,8) by (simp add: authentic_def)
  note again = webhook_dispatches [OF this, of wh p]
  show ?thesis
    using assms webhook_dispatches [OF assms(1-3), of "(rd, w)"] again
    by (simp add: dispatch_def claim_message_def is_duplicate_def redis_set_nx_def delay_def redis_get_clock)
qed

end
