(* ===== verification/Confirmation.thy ===== *)
theory Confirmation
  imports Worker
begin

text \<open>
  The confirmation of a sale, end to end: what the conversation task answers agrees with what the
  database holds when the task ends. The alert is handed to the broker inside the transaction;
  when the broker refuses it, the sale is rolled back.
\<close>

definition sold :: "uuid \<Rightarrow> int \<Rightarrow> world \<Rightarrow> world \<Rightarrow> bool" where
  "sold pid q w w' \<longleftrightarrow>
     (\<exists>n. stock w pid = Some n \<and> q \<le> n \<and> stock w' = (stock w)(pid \<mapsto> n - q) \<and>
          units_sold w' = (units_sold w)(pid := units_sold w pid + q))"

lemma levels_cong: "work w' = work w \<Longrightarrow> stock w' = stock w \<and> units_sold w' = units_sold w"
  by (simp add: fun_eq_iff stock_def units_sold_def)

lemma sold_cong: "sold pid q w w1 \<Longrightarrow> work w2 = work w1 \<Longrightarrow> sold pid q w w2"
  using levels_cong [of w2 w1] by (simp add: sold_def)

lemma execute_durable: "execute d w = (r, w') \<Longrightarrow> durable w' = durable w"
  by (auto simp: execute_def split: if_splits)

lemma record_sale_durable: "record_sale E sid pid q who w = (r, w') \<Longrightarrow> durable w' = durable w"
  by (auto simp: record_sale_def begin_nested_def and_then_def Let_def insert_sale_def deduct_stock_def
      finalize_inventory_def update_inventory_def next_uuid_def dest!: execute_durable
      split: prod.splits sum.splits option.splits if_splits)

lemma delay_frame: "delay E t w = (r, w') \<Longrightarrow> work w' = work w \<and> durable w' = durable w"
  by (auto simp: delay_def split: if_splits)

lemma parse_confirmation_key:
  "parse_confirmation msg = Inl e \<Longrightarrow> fst (invalid_input_reply e) = MK_CONFIRMATION_INVALID"
  by (auto simp: parse_confirmation_def Let_def split: if_splits)

text \<open>The three outcomes of the handler.\<close>

definition confirm_outcome :: "uuid \<Rightarrow> int \<Rightarrow> world \<Rightarrow> fsm_result res \<Rightarrow> world \<Rightarrow> bool" where
  "confirm_outcome pid q w res w' \<longleftrightarrow> durable w' = durable w \<and>
     (case res of
        Inr r \<Rightarrow> if message_key r = MK_SALE_RECORDED then sold pid q w w' else work w' = work w
      | Inl e \<Rightarrow> is_invalid_input e \<longrightarrow>
                  work w' = work w \<and> fst (invalid_input_reply e) \<noteq> MK_SALE_RECORDED)"

lemma confirm_sale_transaction:
  assumes "record_sale_transaction E (s, w) = (r, (s1, w1))" "injected E" "world_ok w" "session_inv s"
    "sstate s = S_CONFIRM_SALE" "product_id (ctx s) = Some pid" "product_qty (ctx s) = Some q"
  shows "s1 = s" "durable w1 = durable w" "\<And>x. r = Inr x \<Longrightarrow> sold pid q w w1"
    "\<And>e. r = Inl e \<Longrightarrow> work w1 = work w"
proof -
  have q: "0 < q" using assms(4,5,7) by (simp add: session_inv_def fields_ok_def)
  obtain sid where sale: "record_sale E sid pid q default_recorder w = (r, w1)" and "s1 = s"
    using assms
    by (auto simp: record_sale_transaction_def get_db_session_injected persist_sale_db_with_session_def
        on_db_def session_inv_def fields_ok_def product_known_def split: option.splits prod.splits)
  then show "s1 = s" "durable w1 = durable w" using record_sale_durable by auto
  show "sold pid q w w1" if "r = Inr x" for x
    using record_sale_levels [OF assms(3) q sale [unfolded that]] by (simp add: sold_def)
  show "work w1 = work w" if "r = Inl e" for e
    using record_sale_Inl sale that by blast
qed

lemma confirm_sale_outcome:
  assumes "handle_confirm_sale_product E msg (s, w) = (res, (s', w'))" "injected E" "world_ok w" "session_inv s"
    "sstate s = S_CONFIRM_SALE" "product_id (ctx s) = Some pid" "product_qty (ctx s) = Some q"
  shows "confirm_outcome pid q w res w'"
proof (cases "parse_confirmation msg")
  case (Inl e)
  with assms(1) parse_confirmation_key [OF Inl] show ?thesis
    by (auto simp: handle_confirm_sale_product_def confirm_outcome_def)
next
  case (Inr b)
  show ?thesis
  proof (cases b)
    case False
    with assms(1) Inr show ?thesis
      by (auto simp: handle_confirm_sale_product_def confirm_outcome_def build_result_def Let_def)
  next
    case True
    obtain nm where nm: "product_name (ctx s) = Some nm" "nm \<noteq> []"
      using assms(4,5) by (auto simp: session_inv_def fields_ok_def product_known_def)
    obtain r s1 w1 where t: "record_sale_transaction E (s, w) = (r, (s1, w1))" by (rule prod_cases3)
    note o = confirm_sale_transaction [OF t assms(2-7)]
    show ?thesis
    proof (cases r)
      case (Inl e)
      with assms(1,6,7) Inr True nm t o show ?thesis
        by (auto simp: handle_confirm_sale_product_def confirm_outcome_def split: if_splits)
           (cases e; simp)
    next
      case (Inr sale)
      let ?s = "clear_context_preserving_history E (transition E S_IDLE s1)"
      let ?alert = "LowStockAlert (phone ?s) (uuid_str pid) (sr_remaining sale)"
      obtain a w2 where a: "delay E ?alert w1 = (a, w2)" by fastforce
      note d = delay_frame [OF a] delay_errors [of E ?alert w1 _ w2]
      from sold_cong [OF o(3) [OF Inr], of w2] d o(2)
      have "sold pid q w w2" "durable w2 = durable w" by auto
      with assms(1,6,7) \<open>parse_confirmation msg = Inr b\<close> True nm t Inr o(2,3) a d(2) show ?thesis
        by (auto simp: handle_confirm_sale_product_def confirm_outcome_def build_result_def Let_def on_db_def
            and_then_def service_error_def split: if_splits sum.splits)
    qed
  qed
qed

lemma engine_confirm_outcome:
  assumes "process_message E msg (s, w) = (r, (s2, w2))"
    "handle_confirm_sale_product E msg (s, w) = (h, (s1, w1))" "confirm_outcome pid q w h w1"
    "sstate s = S_CONFIRM_SALE"
  shows "durable w2 = durable w \<and>
     (\<forall>x. r = Inr x \<longrightarrow> (if message_key x = MK_SALE_RECORDED then sold pid q w w2 else work w2 = work w))"
proof (cases "is_override msg")
  case True
  with assms(1) show ?thesis
    by (auto simp: process_message_def process_with_def reset_to_idle_def build_result_def Let_def)
next
  case False
  with assms show ?thesis
    by (cases h) (auto simp: process_message_def process_with_def reset_to_idle_def build_result_def Let_def
        confirm_outcome_def split: if_splits prod.splits)
qed

text \<open>
  The task: the sale is in the committed database exactly when the reply says so, and no other
  outcome, an exception of any kind included, moves the stock or the sales.
\<close>

lemma confirmed_sale_committed:
  assumes "process_phase E p (Some s) w = (res, w')" "world_ok w" "durable w = work w" "session_inv s"
    "sstate s = S_CONFIRM_SALE" "product_id (ctx s) = Some pid" "product_qty (ctx s) = Some q"
  shows "durable w' = work w' \<and>
    (if \<exists>r s' loc. res = Inr (r, s', loc) \<and> message_key r = MK_SALE_RECORDED
     then sold pid q w w' else stock w' = stock w \<and> units_sold w' = units_sold w)"
proof -
  let ?E = "E\<lparr>injected := True\<rparr>" and ?m = "message_text p"
  obtain h s1 w1 where h: "handle_confirm_sale_product ?E ?m (s, w) = (h, (s1, w1))" by (rule prod_cases3)
  have o: "confirm_outcome pid q w h w1"
    using confirm_sale_outcome [OF h _ assms(2,4,5,6,7)] by simp
  obtain r s2 w2 where r: "process_message ?E ?m (s, w) = (r, (s2, w2))" by (rule prod_cases3)
  have d: "durable w2 = durable w" and x: "\<And>x. r = Inr x \<Longrightarrow>
      (if message_key x = MK_SALE_RECORDED then sold pid q w w2 else work w2 = work w)"
    using engine_confirm_outcome [OF r h o assms(5)] by blast+
  show ?thesis
  proof (cases r)
    case (Inl e)
    with r assms(1) have "res = Inl e" "w' = rollback w2"
      by (simp_all add: process_phase_def start_session_def get_worker_db_def)
    with d assms(3) levels_cong [of w' w] show ?thesis by simp
  next
    case (Inr y)
    with r assms(1) have "res = Inr (y, s2, locale_of (sender p) (work w2))" "w' = commit w2"
      by (simp_all add: process_phase_def start_session_def get_worker_db_def)
    with x [OF Inr] levels_cong [of w' w] sold_cong [of pid q w w2 w'] show ?thesis
      by (simp split: if_splits)
  qed
qed

end
