(* ===== verification/Api.thy ===== *)
theory Api
  imports ReportTasks Webhook Confirmation
begin

text \<open>
  \<open>app/api/routes\<close> and \<open>app/core/exception_handlers.py\<close>: the HTTP routes over the services. A
  route runs in a database session that is closed, never committed, at the end of the request: only
  what a service commits itself lasts. A request carries values of the right types; the bounds the
  schemas put on them are checked here. Prices are given in cents.
\<close>

datatype 'a answer =
    Answer int 'a            \<comment> \<open>status and body\<close>
  | Unprocessable            \<comment> \<open>422: the request does not validate\<close>
  | Refused http_error       \<comment> \<open>a registered exception handler\<close>
  | ServerError              \<comment> \<open>500: no handler for the exception\<close>

definition respond :: "int \<Rightarrow> 'a res \<Rightarrow> 'a answer" where
  "respond status r =
     (case r of
        Inr x \<Rightarrow> Answer status x
      | Inl e \<Rightarrow> (case exception_handler e of Some h \<Rightarrow> Refused h | None \<Rightarrow> ServerError))"

definition route :: "int \<Rightarrow> 'a op \<Rightarrow> world \<Rightarrow> 'a answer \<times> world" where
  "route status f w = (case get_db f w of (r, w') \<Rightarrow> (respond status r, w'))"

definition validated :: "bool \<Rightarrow> ('a answer \<times> world) \<Rightarrow> world \<Rightarrow> 'a answer \<times> world" where
  "validated ok out w = (if ok then out else (Unprocessable, w))"

section \<open>Inventory\<close>

definition api_get_stock :: "uuid \<Rightarrow> world \<Rightarrow> inventory_row answer \<times> world" where
  "api_get_stock pid = route 200 (get_stock pid)"

definition api_add_stock :: "'z db_env_scheme \<Rightarrow> uuid \<Rightarrow> int \<Rightarrow> world \<Rightarrow> inventory_row answer \<times> world" where
  "api_add_stock E pid q w = validated (0 < q) (route 200 (add_stock E pid q True) w) w"

definition api_deduct_stock :: "uuid \<Rightarrow> int \<Rightarrow> world \<Rightarrow> stock_deduction_result answer \<times> world" where
  "api_deduct_stock pid q w = validated (0 < q) (route 200 (deduct_stock pid q True) w) w"

definition api_update_threshold :: "uuid \<Rightarrow> int \<Rightarrow> world \<Rightarrow> inventory_row answer \<times> world" where
  "api_update_threshold pid n w =
     validated (0 \<le> n \<and> n \<le> 1000) (route 200 (update_threshold pid n True) w) w"

section \<open>Products\<close>

record product_response =
  pr_id :: uuid
  pr_name :: string
  pr_price :: int
  pr_sku :: string

definition product_response_of :: "product_row \<Rightarrow> product_response" where
  "product_response_of p = \<lparr>pr_id = p_id p, pr_name = p_name p, pr_price = p_price p, pr_sku = p_sku p\<rparr>"

definition responding :: "('a \<Rightarrow> 'b) \<Rightarrow> 'a op \<Rightarrow> 'b op" where
  "responding f g w = and_then (g w) (\<lambda>x w'. (Inr (f x), w'))"

definition api_create_product ::
  "'z db_env_scheme \<Rightarrow> string \<Rightarrow> int \<Rightarrow> uuid \<Rightarrow> world \<Rightarrow> product_response answer \<times> world" where
  "api_create_product E nm pr sid w =
     (case ProductCreate nm pr sid of
        Inl e \<Rightarrow> (Unprocessable, w)
      | Inr payload \<Rightarrow> route 201 (responding product_response_of (create_product E payload)) w)"

definition api_list_products :: "uuid \<Rightarrow> world \<Rightarrow> product_response list answer \<times> world" where
  "api_list_products sid = route 200 (responding (map product_response_of) (list_products sid))"

definition api_get_product :: "uuid \<Rightarrow> world \<Rightarrow> product_response answer \<times> world" where
  "api_get_product pid = route 200 (responding product_response_of (get_product pid))"

definition api_update_product ::
  "uuid \<Rightarrow> string field \<Rightarrow> int field \<Rightarrow> world \<Rightarrow> product_response answer \<times> world" where
  "api_update_product pid nm pr w =
     (case ProductUpdate nm pr of
        Inl e \<Rightarrow> (Unprocessable, w)
      | Inr payload \<Rightarrow> route 200 (responding product_response_of (update_product pid payload)) w)"

definition api_delete_product :: "uuid \<Rightarrow> world \<Rightarrow> unit answer \<times> world" where
  "api_delete_product pid = route 204 (delete_product pid)"

section \<open>Sales, shops and reports\<close>

definition api_record_sale ::
  "'z db_env_scheme \<Rightarrow> uuid \<Rightarrow> uuid \<Rightarrow> int \<Rightarrow> string \<Rightarrow> world \<Rightarrow> sale_row answer \<times> world" where
  "api_record_sale E sid pid q recorded_by w =
     validated (0 < q) (route 201 (responding sr_sale (record_sale E sid pid q recorded_by)) w) w"

record shop_response =
  sr_shop_id :: uuid
  sr_shop_name :: string
  sr_shop_phone :: string
  sr_shop_locale :: string

text \<open>The response requires a name; a row without one does not validate.\<close>

definition shop_response_of :: "shop_row op \<Rightarrow> shop_response op" where
  "shop_response_of f w =
     and_then (f w)
       (\<lambda>s w'.
          (case sh_name s of
             None \<Rightarrow> (Inl (ValidationError ''ShopResponse''), w')
           | Some nm \<Rightarrow>
               (Inr \<lparr>sr_shop_id = sh_id s, sr_shop_name = nm, sr_shop_phone = sh_phone s,
                     sr_shop_locale = sh_locale s\<rparr>, w')))"

definition api_create_shop ::
  "'z db_env_scheme \<Rightarrow> create_shop_data \<Rightarrow> world \<Rightarrow> shop_response answer \<times> world" where
  "api_create_shop E data = route 201 (shop_response_of (create_shop E data))"

definition api_update_shop_locale ::
  "'z db_env_scheme \<Rightarrow> string \<Rightarrow> shop_locale \<Rightarrow> world \<Rightarrow> shop_response answer \<times> world" where
  "api_update_shop_locale E ph loc = route 200 (shop_response_of (update_locale E ph loc))"

definition api_daily_report ::
  "'z report_env_scheme \<Rightarrow> uuid \<Rightarrow> int option \<Rightarrow> world \<Rightarrow> daily_summary answer \<times> world" where
  "api_daily_report E sid d =
     route 200 (get_daily_report_data sid (case d of Some n \<Rightarrow> n | None \<Rightarrow> today E))"

section \<open>Health\<close>

record health_report =
  hl_status :: string
  hl_api :: string
  hl_postgres :: string
  hl_redis :: string

text \<open>The two services are tried; a failure is reported by its text, the answer is still 200.\<close>

definition service_text :: "string option \<Rightarrow> string" where
  "service_text failure' = (case failure' of None \<Rightarrow> ''ok'' | Some e \<Rightarrow> ''error: '' @ e)"

definition health :: "string option \<Rightarrow> string option \<Rightarrow> health_report" where
  "health postgres_error redis_error =
     \<lparr>hl_status = (if postgres_error = None \<and> redis_error = None then ''ok'' else ''degraded''),
      hl_api = ''ok'', hl_postgres = service_text postgres_error, hl_redis = service_text redis_error\<rparr>"

section \<open>Properties\<close>

lemma route_ok:
  assumes "world_ok (snd (f w))" shows "world_ok (snd (route n f w))"
  using assms by (auto simp: route_def get_db_def world_ok_def rollback_def split: prod.split)

lemma validated_ok: "world_ok w \<Longrightarrow> world_ok (snd out) \<Longrightarrow> world_ok (snd (validated b out w))"
  by (simp add: validated_def)

lemma responding_ok: "world_ok (snd (g w)) \<Longrightarrow> world_ok (snd (responding f g w))"
  by (auto simp: responding_def and_then_def split: prod.split sum.split)

lemma shop_response_ok: "world_ok (snd (g w)) \<Longrightarrow> world_ok (snd (shop_response_of g w))"
  by (auto simp: shop_response_of_def and_then_def split: prod.split sum.split option.split)

lemma api_keeps_schema:
  assumes "world_ok w"
  shows "world_ok (snd (api_get_stock pid w))" "world_ok (snd (api_add_stock E pid q w))"
    "world_ok (snd (api_deduct_stock pid q w))" "world_ok (snd (api_update_threshold pid n w))"
    "world_ok (snd (api_create_product E nm pr sid w))" "world_ok (snd (api_list_products sid w))"
    "world_ok (snd (api_get_product pid w))" "world_ok (snd (api_update_product pid nmf prf w))"
    "world_ok (snd (api_delete_product pid w))" "world_ok (snd (api_record_sale E sid pid q who w))"
    "world_ok (snd (api_create_shop E data w))" "world_ok (snd (api_update_shop_locale E ph loc w))"
    "world_ok (snd (api_daily_report E' sid d w))"
proof -
  note ops = inventory_ops_ok [OF assms] product_ops_ok [OF assms] shop_ops_ok [OF assms] record_sale_ok [OF assms]
  show "world_ok (snd (api_get_stock pid w))" "world_ok (snd (api_add_stock E pid q w))"
    "world_ok (snd (api_deduct_stock pid q w))" "world_ok (snd (api_update_threshold pid n w))"
    using ops assms by (auto simp: api_get_stock_def api_add_stock_def api_deduct_stock_def
        api_update_threshold_def intro!: route_ok validated_ok)
  show "world_ok (snd (api_create_product E nm pr sid w))" "world_ok (snd (api_get_product pid w))"
    "world_ok (snd (api_update_product pid nmf prf w))" "world_ok (snd (api_delete_product pid w))"
    using ops assms by (auto simp: api_create_product_def api_get_product_def api_update_product_def
        api_delete_product_def intro!: route_ok responding_ok split: sum.split)
  show "world_ok (snd (api_list_products sid w))"
    using assms by (auto simp: api_list_products_def list_products_def intro!: route_ok responding_ok)
  show "world_ok (snd (api_record_sale E sid pid q who w))"
    using ops assms by (auto simp: api_record_sale_def intro!: route_ok responding_ok validated_ok)
  show "world_ok (snd (api_create_shop E data w))" "world_ok (snd (api_update_shop_locale E ph loc w))"
    using ops by (auto simp: api_create_shop_def api_update_shop_locale_def intro!: route_ok shop_response_ok)
  show "world_ok (snd (api_daily_report E' sid d w))"
    using assms by (auto simp: api_daily_report_def get_daily_report_data_def intro!: route_ok)
qed

text \<open>After a request nothing is left uncommitted.\<close>

lemma route_closed: "work (snd (route n f w)) = durable (snd (route n f w))"
  by (auto simp: route_def get_db_def split: prod.split)

text \<open>
  The answer to a deduction is decided by the stock: unknown product 404, too few units 422, and
  otherwise the units are taken and the change is committed.
\<close>

lemma commit_stock: "stock (commit w) = stock w" "stock (rollback (commit w)) = stock w"
  by (simp_all add: fun_eq_iff stock_def commit_def rollback_def)

lemma finalize_commits:
  "finalize_inventory pid dty True w = (Inr i, w') \<Longrightarrow> durable w' = work w'"
  by (auto simp: finalize_inventory_def Let_def split: prod.splits sum.splits option.splits)

lemma deduct_commits: "deduct_stock pid q True w = (Inr x, w') \<Longrightarrow> durable w' = work w'"
  by (auto simp: deduct_stock_def and_then_Inr_iff Let_def dest: finalize_commits
      split: option.splits if_splits)

lemma api_deduct_answers:
  assumes "world_ok w" "durable w = work w" "0 < q" "api_deduct_stock pid q w = (a, w')"
  shows "case stock w pid of
      None \<Rightarrow> (\<exists>h. a = Refused h \<and> he_status h = 404) \<and> stock w' = stock w
    | Some n \<Rightarrow>
        if n < q then (\<exists>h. a = Refused h \<and> he_status h = 422) \<and> stock w' = stock w
        else (\<exists>low. a = Answer 200 \<lparr>remaining_stock = n - q, entered_low_stock = low\<rparr>) \<and>
             stock w' = (stock w)(pid \<mapsto> n - q)"
proof -
  obtain r w1 where d: "deduct_stock pid q True w = (r, w1)" by fastforce
  have a: "a = respond 200 r" "w' = rollback w1"
    using assms(3,4) d by (auto simp: api_deduct_stock_def validated_def route_def get_db_def)
  show ?thesis
  proof (cases r)
    case (Inl e)
    from deduct_fails [OF assms(1) _ d [unfolded Inl]] assms(3)
    have f: "w1 = w" "stock w pid = None \<and> e = stock_not_found pid \<or>
      (\<exists>n. stock w pid = Some n \<and> n < q \<and> e = InsufficientStockException (uuid_str pid) q n)" by auto
    have "stock w' = stock w" using a(2) f(1) assms(2) by (simp add: fun_eq_iff stock_def rollback_def)
    with f(2) a(1) Inl show ?thesis by (auto simp: respond_def stock_not_found_def)
  next
    case (Inr x)
    from stock_after_deduct [OF assms(1) _ d [unfolded Inr]] assms(3)
    obtain n where n: "stock w pid = Some n" "q \<le> n" "remaining_stock x = n - q"
      "stock w1 = (stock w)(pid \<mapsto> n - q)" by auto
    have "stock w' = stock w1"
      using a(2) deduct_commits [OF d [unfolded Inr]] by (simp add: fun_eq_iff stock_def rollback_def)
    moreover have "\<exists>low. x = \<lparr>remaining_stock = n - q, entered_low_stock = low\<rparr>"
      using n(3) by (cases x) simp
    ultimately show ?thesis using n a(1) Inr by (simp add: respond_def)
  qed
qed

text \<open>
  A sale recorded over HTTP is answered with 201 and then lost: the service only flushes, and the
  session of the request is closed without a commit.
\<close>

lemma api_sale_lost:
  assumes "durable w = work w" shows "work (snd (api_record_sale E sid pid q who w)) = work w"
proof -
  obtain r w1 where s: "record_sale E sid pid q who w = (r, w1)" by fastforce
  with record_sale_durable [OF s] assms show ?thesis
    by (cases r) (auto simp: api_record_sale_def validated_def route_def get_db_def responding_def)
qed

lemma health_ok_iff: "hl_status (health p r) = ''ok'' \<longleftrightarrow> p = None \<and> r = None"
  by (simp add: health_def)

end
