(* ===== verification/Queue.thy ===== *)
theory Queue
  imports ReportTasks Confirmation
begin

text \<open>
  What a message puts on the queue of tasks: nothing, a report or an alert, and never a message.
  So the tasks of the program queue finitely many further tasks and the queue runs empty. A sale
  that is recorded queues the alert of its product exactly when it crosses the threshold.
\<close>

section \<open>Operations that queue nothing\<close>

definition tasks_of :: "'a res \<times> conv \<Rightarrow> task list" where
  "tasks_of out = tasks (snd (snd out))"

named_theorems keeps_tasks

lemma tasks_of_simps [simp]: "tasks_of (r, (s, w)) = tasks w"
  by (simp add: tasks_of_def)

lemma and_then_world_tasks:
  assumes "tasks (snd m) = ts" "\<And>x w. m = (Inr x, w) \<Longrightarrow> tasks (snd (k x w)) = tasks w"
  shows "tasks (snd (and_then m k)) = ts"
  using assms by (cases m; cases "fst m") (auto simp: and_then_def)

lemma and_then_tasks:
  assumes "tasks_of m = ts" "\<And>x s w. m = (Inr x, (s, w)) \<Longrightarrow> tasks w = ts \<Longrightarrow> tasks_of (k x (s, w)) = ts"
  shows "tasks_of (and_then m k) = ts"
  using assms by (cases m; cases "fst m") (auto simp: and_then_def)

lemma tasks_on_db [keeps_tasks]: "(\<And>w. tasks (snd (f w)) = tasks w) \<Longrightarrow> tasks_of (on_db f (s, w)) = tasks w"
  by (cases "f w") (simp add: on_db_def, metis snd_conv)

lemma tasks_get_db [keeps_tasks]:
  assumes "tasks_of (block st) = ts" shows "tasks_of (get_db_session E block st) = ts"
proof -
  obtain r s w where b: "block st = (r, (s, w))" by (rule prod_cases3)
  with assms show ?thesis
    by (cases r) (auto simp: get_db_session_def tasks_of_def Let_def)
qed

lemma execute_tasks [simp]: "tasks (snd (execute d w)) = tasks w"
  by (simp add: execute_def)

lemma statement_tasks [simp]:
  "tasks (snd (insert_inventory i w)) = tasks w" "tasks (snd (update_inventory i w)) = tasks w"
  "tasks (snd (insert_product p w)) = tasks w" "tasks (snd (insert_sale x w)) = tasks w"
  by (simp_all add: statement_defs)

lemma finalize_tasks [simp]: "tasks (snd (finalize_inventory pid dirty c w)) = tasks w"
proof -
  have "tasks (snd (case dirty of None \<Rightarrow> (Inr (), w) | Some r \<Rightarrow> update_inventory r w)) = tasks w"
    by (simp split: option.split)
  then show ?thesis
    by (auto simp: finalize_inventory_def Let_def split: option.split prod.split sum.split)
qed

lemma begin_nested_tasks:
  assumes "tasks (snd (b w)) = ts" shows "tasks (snd (begin_nested b w)) = ts"
  using assms by (cases "b w"; cases "fst (b w)") (auto simp: begin_nested_def)

lemma except_integrity_tasks:
  assumes "tasks (snd m) = ts" "\<And>w. tasks (snd (h w)) = tasks w"
  shows "tasks (snd (except_integrity m h)) = ts"
  using assms by (cases m) (auto simp: except_integrity_def split: sum.split exc.split)

lemma service_tasks [simp]:
  "tasks (snd (get_shop_id E ph w)) = tasks w"
  "tasks (snd (get_stock pid w)) = tasks w"
  "tasks (snd (deduct_stock pid q c w)) = tasks w"
  "tasks (snd (add_stock E pid q c w)) = tasks w"
  "tasks (snd (create_product E data w)) = tasks w"
  "tasks (snd (record_sale E sid pid q who w)) = tasks w"
proof -
  show "tasks (snd (get_shop_id E ph w)) = tasks w"
    using get_shop_id_frame(4) by (metis prod.collapse)
  show "tasks (snd (get_stock pid w)) = tasks w"
    by (simp add: get_stock_def split: option.split)
  show d: "tasks (snd (deduct_stock pid q c w)) = tasks w" for c w
    by (auto simp: deduct_stock_def Let_def intro!: and_then_world_tasks split: option.split)
  show "tasks (snd (add_stock E pid q c w)) = tasks w"
    by (auto simp: add_stock_def add_stock_row_def next_uuid_def Let_def intro!: and_then_world_tasks
        split: option.split)
  show "tasks (snd (create_product E data w)) = tasks w"
    by (auto simp: create_product_def next_uuid_def next_suffix_def Let_def
        intro!: except_integrity_tasks and_then_world_tasks)
  show "tasks (snd (record_sale E sid pid q who w)) = tasks w"
    unfolding record_sale_def
    by (rule begin_nested_tasks)
       (auto simp: d next_uuid_def Let_def intro!: and_then_world_tasks split: option.split)
qed

section \<open>Handlers\<close>

text \<open>The handlers of the flows, but for the last step of a sale and the report.\<close>

lemma shop_tasks [simp]: "tasks_of (shop_of E (s, w)) = tasks w"
  by (simp add: shop_of_def keeps_tasks)

lemma service_step_tasks [simp]:
  "tasks_of (on_db (find_products_by_fuzzy_name E sid nm n) (s, w)) = tasks w"
  "tasks_of (on_db (get_stock pid) (s, w)) = tasks w"
  "tasks_of (on_db (add_stock E pid q c) (s, w)) = tasks w"
  "tasks_of (on_db (create_product E data) (s, w)) = tasks w"
  "tasks_of (on_db (record_sale E sid pid q who) (s, w)) = tasks w"
  by (simp_all add: keeps_tasks)

lemma session_shop_tasks [simp]: "tasks_of (session_shop E (s, w)) = tasks w"
  by (auto simp: session_shop_def intro!: and_then_tasks split: option.split)

lemma add_product_tasks [simp]:
  "tasks_of (handle_name E msg (s, w)) = tasks w" "tasks_of (handle_price E msg (s, w)) = tasks w"
  "tasks_of (handle_qty E msg (s, w)) = tasks w" "tasks_of (handle_confirm E msg (s, w)) = tasks w"
proof -
  show "tasks_of (handle_name E msg (s, w)) = tasks w" "tasks_of (handle_price E msg (s, w)) = tasks w"
    "tasks_of (handle_qty E msg (s, w)) = tasks w"
    by (auto simp: handle_name_def handle_price_def handle_qty_def Let_def split: sum.split option.split)
  have "tasks_of (create_with_stock E sid (s', w')) = tasks w'" for sid s' w'
    by (auto simp: create_with_stock_def intro!: and_then_tasks split: sum.split option.split)
  then have "tasks_of (persist_product_db E (s', w')) = tasks w'" for s' w'
    by (auto simp: persist_product_db_def intro!: tasks_get_db and_then_tasks)
  then show "tasks_of (handle_confirm E msg (s, w)) = tasks w"
    by (auto simp: handle_confirm_def Let_def intro!: and_then_tasks split: sum.split option.split bool.split)
qed

lemma stock_tasks [simp]:
  "tasks_of (handle_stock_name E msg (s, w)) = tasks w"
  "tasks_of (handle_stock_product_selection E msg (s, w)) = tasks w"
proof -
  have g: "tasks_of (get_inventory p (s', w')) = tasks w'" for p s' w'
    by (auto simp: get_inventory_def intro!: and_then_tasks)
  then have "tasks_of (stock_resolution E prev r (s', w')) = tasks w'" for prev r s' w'
    by (auto simp: stock_resolution_def Let_def intro!: and_then_tasks split: resolution_status.split option.split)
  then show "tasks_of (handle_stock_name E msg (s, w)) = tasks w"
    by (auto simp: handle_stock_name_def intro!: tasks_get_db and_then_tasks split: sum.split)
  show "tasks_of (handle_stock_product_selection E msg (s, w)) = tasks w"
    by (auto simp: handle_stock_product_selection_def Let_def g intro!: tasks_get_db and_then_tasks split: sum.split)
qed

lemma sale_tasks [simp]:
  "tasks_of (handle_sale_product_name E msg (s, w)) = tasks w"
  "tasks_of (handle_sale_product_selection E msg (s, w)) = tasks w"
  "tasks_of (handle_sale_product_qty E msg (s, w)) = tasks w"
  "tasks_of (record_sale_transaction E (s, w)) = tasks w"
proof -
  have "tasks_of (sale_resolution E prev r (s', w')) = tasks w'" for prev r s' w'
    by (auto simp: sale_resolution_def Let_def split: resolution_status.split option.split)
  then show "tasks_of (handle_sale_product_name E msg (s, w)) = tasks w"
    by (auto simp: handle_sale_product_name_def intro!: tasks_get_db and_then_tasks split: sum.split)
  show "tasks_of (handle_sale_product_selection E msg (s, w)) = tasks w"
    by (auto simp: handle_sale_product_selection_def Let_def split: sum.split)
  show "tasks_of (handle_sale_product_qty E msg (s, w)) = tasks w"
    by (auto simp: handle_sale_product_qty_def Let_def intro!: tasks_get_db and_then_tasks
        split: sum.split option.split)
  show "tasks_of (record_sale_transaction E (s, w)) = tasks w"
    by (auto simp: record_sale_transaction_def persist_sale_db_with_session_def intro!: tasks_get_db
        split: option.split)
qed

lemma analytics_tasks [simp]:
  "tasks_of (handle_query E msg (s, w)) = tasks w"
  "tasks_of (handle_product_selection E msg (s, w)) = tasks w"
  by (auto simp: handle_query_def handle_product_selection_def Let_def intro!: tasks_get_db and_then_tasks
      split: sum.split option.split)

section \<open>What a message queues\<close>

text \<open>At most one task, which is not a message.\<close>

fun is_message :: "task \<Rightarrow> bool" where
  "is_message (ConversationTask p) = True"
| "is_message _ = False"

definition queues_one :: "task list \<Rightarrow> task list \<Rightarrow> bool" where
  "queues_one ts ts' \<longleftrightarrow> ts' = ts \<or> (\<exists>t. \<not> is_message t \<and> ts' = ts @ [t])"

lemma queues_none [simp]: "queues_one ts ts"
  by (simp add: queues_one_def)

lemma delay_queues: "\<not> is_message t \<Longrightarrow> queues_one (tasks w) (tasks (snd (delay E t w)))"
  by (auto simp: delay_def queues_one_def)

lemma queues_on_db_delay:
  "\<not> is_message t \<Longrightarrow> tasks w = ts \<Longrightarrow> queues_one ts (tasks_of (on_db (delay E t) (s, w)))"
  using delay_queues [of t w E] by (cases "delay E t w") (simp add: on_db_def)

lemma queues_and_then:
  assumes "tasks_of m = ts" "\<And>x s w. m = (Inr x, (s, w)) \<Longrightarrow> tasks w = ts \<Longrightarrow> queues_one ts (tasks_of (k x (s, w)))"
  shows "queues_one ts (tasks_of (and_then m k))"
  using assms by (cases m; cases "fst m") (auto simp: and_then_def)

lemma queues_then_done:
  assumes "queues_one ts (tasks_of m)" "\<And>x s w. tasks_of (k x (s, w)) = tasks w"
  shows "queues_one ts (tasks_of (and_then m k))"
  using assms by (cases m; cases "fst m") (auto simp: and_then_def tasks_of_def)

lemma report_queues: "queues_one (tasks w) (tasks_of (handle_daily_report E msg (s, w)))"
  unfolding handle_daily_report_def prod.case
  by (rule queues_and_then)
     (auto intro!: tasks_get_db and_then_tasks queues_on_db_delay split: option.split)

text \<open>The alert of a recorded sale.\<close>

definition alerts :: "string \<Rightarrow> uuid \<Rightarrow> sale_result \<Rightarrow> task list" where
  "alerts ph pid sale =
     (if sr_entered_low sale then [LowStockAlert ph (uuid_str pid) (sr_remaining sale)] else [])"

lemma confirm_sale_tasks:
  assumes "handle_confirm_sale_product E msg (s, w) = (res, (s', w'))"
  shows "tasks w' = tasks w \<and> (\<forall>r. res = Inr r \<longrightarrow> message_key r \<noteq> MK_SALE_RECORDED) \<or>
    (\<exists>pid sale s1 w1. product_id (ctx s) = Some pid \<and>
       record_sale_transaction E (s, w) = (Inr sale, (s1, w1)) \<and> tasks w' = tasks w @ alerts (phone s1) pid sale) \<or>
    (\<exists>e. res = Inl e \<and> tasks w' = tasks w)"
proof -
  obtain r s1 w1 where t: "record_sale_transaction E (s, w) = (r, (s1, w1))" by (rule prod_cases3)
  with sale_tasks(4) [of E s w] have w1: "tasks w1 = tasks w" by simp
  have d: "tasks w3 = (if x = Inr () then tasks w1 @ [a] else tasks w1) \<and> s3 = s2"
    if "on_db (delay E a) (s2, w1) = (x, (s3, w3))" for a s2 x s3 w3
    using that by (auto simp: on_db_def delay_def split: if_splits)
  from assms t w1 show ?thesis
    by (auto simp: handle_confirm_sale_product_def alerts_def and_then_def Let_def build_result_def
        split: sum.splits bool.splits option.splits if_splits prod.splits dest!: d)
qed

lemma confirm_sale_queues: "queues_one (tasks w) (tasks_of (handle_confirm_sale_product E msg (s, w)))"
proof -
  obtain res s' w' where h: "handle_confirm_sale_product E msg (s, w) = (res, (s', w'))" by (rule prod_cases3)
  have "queues_one ts (ts @ alerts ph pid sale)" for ts ph pid sale
    unfolding queues_one_def alerts_def by (metis append_Nil2 is_message.simps(3))
  with confirm_sale_tasks [OF h] h show ?thesis by auto
qed

lemma idle_queues: "queues_one (tasks w) (tasks_of (handle_idle E msg (s, w)))"
proof (cases "resolve msg")
  case I_GENERATE_REPORT
  then show ?thesis
    by (auto simp: handle_idle_def Let_def intro!: queues_then_done report_queues)
qed (simp_all add: handle_idle_def Let_def)

lemma handler_queues: "queues_one (tasks w) (tasks_of (handler_map E st msg (s, w)))"
  by (cases st) (simp_all add: idle_queues confirm_sale_queues)

lemma message_queues:
  assumes "process_message E msg (s, w) = (r, (s', w'))" shows "queues_one (tasks w) (tasks w')"
proof -
  obtain h s1 w1 where h: "handler_map E (sstate s) msg (s, w) = (h, (s1, w1))" by (rule prod_cases3)
  have "queues_one (tasks w) (tasks w1)" using handler_queues [of w E "sstate s" msg s] h by simp
  with assms h show ?thesis
    by (auto simp: process_message_def process_with_def Let_def split: if_splits sum.splits prod.splits)
qed

section \<open>The queue runs empty\<close>

lemma process_phase_queues:
  assumes "process_phase E p old w = (r, w')" shows "queues_one (tasks w) (tasks w')"
proof -
  let ?E = "E\<lparr>injected := True\<rparr>" and ?s = "start_session (sender p) old"
  obtain q s1 w1 where q: "process_message ?E (message_text p) (?s, w) = (q, (s1, w1))" by (rule prod_cases3)
  from message_queues [OF q] q assms show ?thesis
    by (cases q) (auto simp: process_phase_def get_worker_db_def)
qed

lemma conversation_queues: "queues_one (tasks (sys_world S)) (tasks (sys_world (snd (conversation E snd' p S))))"
proof -
  let ?old = "get_session (sender p) (sys_redis S)"
  obtain r w where r: "process_phase E p ?old (sys_world S) = (r, w)" by fastforce
  from process_phase_queues [OF r] r show ?thesis
    by (cases r) (simp_all add: conversation_def reply_phase_world)
qed

lemma worker_db_tasks: "(\<And>w. snd (f w) = w) \<Longrightarrow> tasks (snd (get_worker_db f w)) = tasks w"
  by (cases "f w"; cases "fst (f w)") (auto simp: get_worker_db_def, (metis snd_conv)+)

lemma other_tasks_queue_none:
  "\<not> is_message t \<Longrightarrow> tasks (sys_world (run_task E snd' t S)) = tasks (sys_world S)"
proof (cases t)
  case (ReportTask p)
  have "tasks (snd (get_worker_db (get_daily_report_data sid d) w)) = tasks w" for sid d w
    by (rule worker_db_tasks) (simp add: get_daily_report_data_def)
  then have "tasks (sys_world (snd (process_report E snd' sid ph d S))) = tasks (sys_world S)" for sid ph d
    by (auto simp: process_report_def Let_def split: prod.split sum.split) (metis snd_conv)+
  with ReportTask show ?thesis by (simp add: report_task_def)
next
  case (LowStockAlert ph pid n)
  have "tasks (snd (get_worker_db (alert_data ph u) w)) = tasks w" for u w
    by (rule worker_db_tasks) (rule alert_data_reads)
  then have "tasks (sys_world (snd (process_low_stock_alert E snd' ph u n S))) = tasks (sys_world S)" for u
    by (auto simp: process_low_stock_alert_def Let_def split: prod.split sum.split option.split) (metis snd_conv)+
  with LowStockAlert show ?thesis by (auto simp: send_low_stock_alert_def split: option.split)
qed simp

text \<open>A message counts twice: for itself and for the task it may queue.\<close>

definition load :: "task list \<Rightarrow> nat" where
  "load ts = sum_list (map (\<lambda>t. if is_message t then 2 else 1) ts)"

lemma run_task_load: "load (tasks (sys_world (run_task E snd' t S))) < load (t # tasks (sys_world S))"
proof (cases "is_message t")
  case True
  then obtain p where "t = ConversationTask p" by (cases t) auto
  with conversation_queues [of S E snd' p] show ?thesis by (auto simp: queues_one_def load_def)
qed (simp add: other_tasks_queue_none load_def)

lemma drain_empties:
  "load (tasks (sys_world S)) \<le> n \<Longrightarrow> tasks (sys_world (drain n E snd' S)) = []"
proof (induction n arbitrary: S)
  case 0
  then show ?case by (cases "tasks (sys_world S)") (auto simp: load_def split: if_splits)
next
  case (Suc n)
  show ?case
  proof (cases "tasks (sys_world S)")
    case (Cons t ts)
    let ?S = "S\<lparr>sys_world := (sys_world S)\<lparr>tasks := ts\<rparr>\<rparr>"
    have "load (tasks (sys_world (run_task E snd' t ?S))) \<le> n"
      using run_task_load [of E snd' t ?S] Suc.prems Cons by simp
    from Suc.IH [OF this] Cons show ?thesis by simp
  qed simp
qed

section \<open>The alert of a sale\<close>

lemma transaction_sale:
  assumes "record_sale_transaction E (s, w) = (Inr sale, (s1, w1))" "injected E"
    "product_id (ctx s) = Some pid" "product_qty (ctx s) = Some q"
  shows "\<exists>sid. record_sale E sid pid q default_recorder w = (Inr sale, w1) \<and> s1 = s"
  using assms
  by (auto simp: record_sale_transaction_def get_db_session_injected persist_sale_db_with_session_def
      on_db_def split: option.splits prod.splits)

text \<open>A reply that a sale was recorded is the reply of the handler.\<close>

lemma recorded_by_handler:
  assumes "process_message E msg (s, w) = (Inr r, (s', w'))" "message_key r = MK_SALE_RECORDED"
    "handle_confirm_sale_product E msg (s, w) = (h, (s1, w1))" "confirm_outcome pid q w h w1"
    "sstate s = S_CONFIRM_SALE"
  shows "\<exists>x. h = Inr x \<and> message_key x = MK_SALE_RECORDED \<and> w1 = w'"
  using assms
  by (cases h) (auto simp: process_message_def process_with_def reset_to_idle_def build_result_def Let_def
      confirm_outcome_def split: if_splits prod.splits)

lemma sale_alert_queued:
  assumes "process_phase E p (Some s) w = (Inr (r, s', loc), w')" "message_key r = MK_SALE_RECORDED"
    "world_ok w" "session_inv s" "sstate s = S_CONFIRM_SALE"
    "product_id (ctx s) = Some pid" "product_qty (ctx s) = Some q" "get_by_product_id pid (work w) = Some i"
  shows "tasks w' = tasks w @
    (if i_threshold i < i_quantity i \<and> i_quantity i - q \<le> i_threshold i
     then [LowStockAlert (phone s) (uuid_str pid) (i_quantity i - q)] else [])"
proof -
  let ?E = "E\<lparr>injected := True\<rparr>" and ?m = "message_text p"
  obtain h s1 w1 where h: "handle_confirm_sale_product ?E ?m (s, w) = (h, (s1, w1))" by (rule prod_cases3)
  have o: "confirm_outcome pid q w h w1" using confirm_sale_outcome [OF h _ assms(3-7)] by simp
  obtain x s2 w2 where x: "process_message ?E ?m (s, w) = (x, (s2, w2))" by (rule prod_cases3)
  with assms(1) have r: "x = Inr r" "tasks w' = tasks w2"
    by (cases x; auto simp: process_phase_def start_session_def get_worker_db_def)+
  from recorded_by_handler [OF x [unfolded r] assms(2) h o assms(5)]
  obtain y where y: "h = Inr y" "message_key y = MK_SALE_RECORDED" "w1 = w2" by blast
  from confirm_sale_tasks [OF h] y
  obtain pid' sale s3 w3 where t: "product_id (ctx s) = Some pid'"
      "record_sale_transaction ?E (s, w) = (Inr sale, (s3, w3))" "tasks w2 = tasks w @ alerts (phone s3) pid' sale"
    by auto
  from transaction_sale [OF t(2) _ assms(6,7)]
  obtain sid where sale: "record_sale ?E sid pid q default_recorder w = (Inr sale, w3)" "s3 = s" by auto
  have "0 \<le> q" using assms(4,5,7) by (simp add: session_inv_def fields_ok_def)
  from assms(3) this sale(1) have "sr_remaining sale = i_quantity i - q"
    "sr_entered_low sale \<longleftrightarrow> i_threshold i < i_quantity i \<and> i_quantity i - q \<le> i_threshold i"
    by (rule record_sale_Inr; simp add: assms(8))+
  with t sale(2) r(2) assms(6) show ?thesis by (simp add: alerts_def)
qed

end
