(* ===== verification/Routing.thy ===== *)
theory Routing
  imports Queue
begin

text \<open>
  The queues of the tasks: \<open>app/workers/queues.py\<close>, the configuration of
  \<open>celery_app/celery.py\<close>, the queue each call names, the workers that
  \<open>docker-compose.yml\<close> starts, the event loop of \<open>app/workers/async_runtime.py\<close> and the
  example task with its route. How Celery matches a name against the pattern of a route is a
  parameter \<open>glob\<close>.

  A broker keeps one first-in-first-out queue per name, and a worker takes tasks from the queues
  it was started with. So a task whose queue no worker was given is never run, whatever else
  happens. That is the case of every report and every alert under the deployed workers.
\<close>

section \<open>Queues and routes\<close>

datatype queue_name = CONVERSATION | REPORTS | NOTIFICATIONS | MAINTENANCE | DEFAULT | SCHEDULES

fun queue_value :: "queue_name \<Rightarrow> string" where
  "queue_value CONVERSATION = ''conversation_tasks''"
| "queue_value REPORTS = ''reports_tasks''"
| "queue_value NOTIFICATIONS = ''notifications_tasks''"
| "queue_value MAINTENANCE = ''maintenance_tasks''"
| "queue_value DEFAULT = ''default_tasks''"
| "queue_value SCHEDULES = ''schedules_tasks''"

definition task_default_queue :: queue_name where
  "task_default_queue = DEFAULT"

definition task_queues :: "queue_name list" where
  "task_queues = [CONVERSATION, REPORTS, REPORTS, MAINTENANCE, DEFAULT]"

definition task_routes :: "(string \<times> queue_name) list" where
  "task_routes =
     [(''app.workers.conversation_tasks.*'', CONVERSATION),
      (''app.workers.report_tasks.*'', REPORTS),
      (''app.workers.notification_tasks.*'', NOTIFICATIONS),
      (''app.workers.maintenance_tasks.*'', MAINTENANCE),
      (''app.workers.example_task.*'', DEFAULT)]"

text \<open>
  The queue of a call: the one that the call or the decorator of the task names, else the one of
  the first route whose pattern matches the name of the task, else the default.
\<close>

definition destination_of :: "(string \<Rightarrow> string \<Rightarrow> bool) \<Rightarrow> string \<Rightarrow> queue_name option \<Rightarrow> string" where
  "destination_of glob name explicit =
     queue_value (case explicit of
        Some q \<Rightarrow> q
      | None \<Rightarrow> (case find (\<lambda>(p, q). glob p name) task_routes of
          Some (p, q) \<Rightarrow> q
        | None \<Rightarrow> task_default_queue))"

text \<open>The names Celery gives the tasks, from their modules, and the queues their calls name.\<close>

fun task_name :: "task \<Rightarrow> string" where
  "task_name (ConversationTask p) = ''app.workers.conversation_tasks.conversation_task''"
| "task_name (ReportTask p) = ''app.workers.report_tasks.report_task''"
| "task_name (LowStockAlert ph pid n) = ''app.workers.report_tasks.send_low_stock_alert''"

fun named_queue :: "task \<Rightarrow> queue_name option" where
  "named_queue (ConversationTask p) = Some CONVERSATION"
| "named_queue (ReportTask p) = Some REPORTS"
| "named_queue (LowStockAlert ph pid n) = Some REPORTS"

definition destination :: "(string \<Rightarrow> string \<Rightarrow> bool) \<Rightarrow> task \<Rightarrow> string" where
  "destination glob t = destination_of glob (task_name t) (named_queue t)"

lemma destination_value:
  "destination glob t = (if is_message t then ''conversation_tasks'' else ''reports_tasks'')"
  by (cases t) (simp_all add: destination_def destination_of_def)

text \<open>A pattern that ends in a star matches the names that begin with what precedes it.\<close>

definition star_law :: "(string \<Rightarrow> string \<Rightarrow> bool) \<Rightarrow> bool" where
  "star_law glob \<longleftrightarrow> (\<forall>p n. CHR ''*'' \<notin> set p \<longrightarrow> glob (p @ ''*'') n = startswith n p)"

definition prefix_glob :: "string \<Rightarrow> string \<Rightarrow> bool" where
  "prefix_glob p n = (if p \<noteq> [] \<and> last p = CHR ''*'' then startswith n (butlast p) else p = n)"

lemma prefix_glob_star: "star_law prefix_glob"
  by (simp add: star_law_def prefix_glob_def)

lemma star_at:
  assumes "star_law glob" shows
    "glob ''app.workers.conversation_tasks.*'' n = startswith n ''app.workers.conversation_tasks.''"
    "glob ''app.workers.report_tasks.*'' n = startswith n ''app.workers.report_tasks.''"
    "glob ''app.workers.notification_tasks.*'' n = startswith n ''app.workers.notification_tasks.''"
    "glob ''app.workers.maintenance_tasks.*'' n = startswith n ''app.workers.maintenance_tasks.''"
    "glob ''app.workers.example_task.*'' n = startswith n ''app.workers.example_task.''"
  using assms [unfolded star_law_def, rule_format, of "''app.workers.conversation_tasks.''" n]
    assms [unfolded star_law_def, rule_format, of "''app.workers.report_tasks.''" n]
    assms [unfolded star_law_def, rule_format, of "''app.workers.notification_tasks.''" n]
    assms [unfolded star_law_def, rule_format, of "''app.workers.maintenance_tasks.''" n]
    assms [unfolded star_law_def, rule_format, of "''app.workers.example_task.''" n]
  by simp_all

text \<open>The routes agree with the queues that the calls name: naming them is redundant.\<close>

lemma routes_agree:
  assumes "star_law glob" shows "destination_of glob (task_name t) None = destination glob t"
  by (cases t) (simp_all add: destination_def destination_of_def task_routes_def star_at [OF assms] startswith_def)

text \<open>Every queue the tasks are sent to is declared, and the heartbeat, which has no module in
  its name, goes to the default.\<close>

lemma destination_declared: "destination glob t \<in> queue_value ` set task_queues"
  by (simp add: destination_value task_queues_def)

lemma heartbeat_default: "star_law glob \<Longrightarrow> destination_of glob ''heartbeat'' None = ''default_tasks''"
  by (simp add: destination_of_def task_routes_def star_at startswith_def task_default_queue_def)

lemma notifications_undeclared: "NOTIFICATIONS \<notin> set task_queues"
  by (simp add: task_queues_def)

section \<open>Workers\<close>

text \<open>The queues of the workers that \<open>docker-compose.yml\<close> starts with \<open>-Q\<close>.\<close>

definition compose_workers :: "string list list" where
  "compose_workers = [[''conversation_tasks''], [''report_tasks'']]"

text \<open>
  A worker takes the first task of one of its queues and runs it, with whatever clock, settings
  and services it finds then.
\<close>

inductive worker_step :: "(string \<Rightarrow> string \<Rightarrow> bool) \<Rightarrow> string list list \<Rightarrow> system \<Rightarrow> system \<Rightarrow> bool"
  for glob :: "string \<Rightarrow> string \<Rightarrow> bool" and Ws :: "string list list" where
  consumed:
    "Q \<in> set Ws \<Longrightarrow> tasks (sys_world S) = before @ t # rest \<Longrightarrow> destination glob t \<in> set Q \<Longrightarrow>
     \<forall>u \<in> set before. destination glob u \<noteq> destination glob t \<Longrightarrow>
     worker_step glob Ws S (run_task (E :: report_env) snd' t
       (S\<lparr>sys_world := (sys_world S)\<lparr>tasks := before @ rest\<rparr>\<rparr>))"

inductive workers_reach :: "(string \<Rightarrow> string \<Rightarrow> bool) \<Rightarrow> string list list \<Rightarrow> system \<Rightarrow> system \<Rightarrow> bool"
  for glob :: "string \<Rightarrow> string \<Rightarrow> bool" and Ws :: "string list list" where
  start: "workers_reach glob Ws S S"
| later: "workers_reach glob Ws S S' \<Longrightarrow> worker_step glob Ws S' S'' \<Longrightarrow> workers_reach glob Ws S S''"

inductive_cases worker_stepE: "worker_step glob Ws S S'"

definition served :: "(string \<Rightarrow> string \<Rightarrow> bool) \<Rightarrow> string list list \<Rightarrow> task \<Rightarrow> bool" where
  "served glob Ws t = list_ex (\<lambda>Q. destination glob t \<in> set Q) Ws"

lemma served_in: "Q \<in> set Ws \<Longrightarrow> destination glob t \<in> set Q \<Longrightarrow> served glob Ws t"
  by (auto simp: served_def list_ex_iff)

text \<open>Running a task appends to the queue.\<close>

lemma run_task_appends: "\<exists>ts. tasks (sys_world (run_task E snd' t S)) = tasks (sys_world S) @ ts"
proof (cases t)
  case (ConversationTask p)
  with conversation_queues [of S E snd' p] show ?thesis by (auto simp: queues_one_def)
next
  case ReportTask then show ?thesis by (simp add: other_tasks_queue_none del: run_task.simps)
next
  case LowStockAlert then show ?thesis by (simp add: other_tasks_queue_none del: run_task.simps)
qed

text \<open>What no worker is given stays in the queue, in its order, for good.\<close>

lemma unserved_step:
  assumes "worker_step glob Ws S S'"
  shows "\<exists>ts. filter (\<lambda>t. \<not> served glob Ws t) (tasks (sys_world S')) =
    filter (\<lambda>t. \<not> served glob Ws t) (tasks (sys_world S)) @ ts"
proof -
  from assms obtain Q before t rest E snd' where s: "Q \<in> set Ws" "tasks (sys_world S) = before @ t # rest"
      "destination glob t \<in> set Q"
      "S' = run_task (E :: report_env) snd' t (S\<lparr>sys_world := (sys_world S)\<lparr>tasks := before @ rest\<rparr>\<rparr>)"
    by (auto elim: worker_stepE)
  obtain ts where "tasks (sys_world S') = (before @ rest) @ ts"
    using run_task_appends [of E snd' t "S\<lparr>sys_world := (sys_world S)\<lparr>tasks := before @ rest\<rparr>\<rparr>"] s(4) by auto
  with s(2) served_in [OF s(1,3)] show ?thesis by simp
qed

lemma unserved_stays:
  assumes "workers_reach glob Ws S S'"
  shows "\<exists>ts. filter (\<lambda>t. \<not> served glob Ws t) (tasks (sys_world S')) =
    filter (\<lambda>t. \<not> served glob Ws t) (tasks (sys_world S)) @ ts"
  using assms by induction (auto dest!: unserved_step)

text \<open>The worker of the reports is given \<open>report_tasks\<close>, and the queue is \<open>reports_tasks\<close>.\<close>

lemma compose_serves: "served glob compose_workers t = is_message t"
  by (auto simp: served_def compose_workers_def destination_value)

lemma compose_starves:
  assumes "workers_reach glob compose_workers S S'" "t \<in> set (tasks (sys_world S))" "\<not> is_message t"
  shows "t \<in> set (tasks (sys_world S'))"
proof -
  obtain ts where "filter (\<lambda>t. \<not> is_message t) (tasks (sys_world S')) =
      filter (\<lambda>t. \<not> is_message t) (tasks (sys_world S)) @ ts"
    using unserved_stays [OF assms(1)] by (auto simp: compose_serves)
  moreover have "t \<in> set (filter (\<lambda>t. \<not> is_message t) (tasks (sys_world S)))" using assms(2,3) by simp
  ultimately have "t \<in> set (filter (\<lambda>t. \<not> is_message t) (tasks (sys_world S')))" by simp
  then show ?thesis by simp
qed

text \<open>With a worker for every queue of the tasks, none is stuck: the queue always has a step.\<close>

lemma served_moves:
  assumes "\<forall>t \<in> set (tasks (sys_world S)). served glob Ws t" "tasks (sys_world S) \<noteq> []"
  shows "\<exists>S'. worker_step glob Ws S S'"
proof -
  obtain t rest where t: "tasks (sys_world S) = [] @ t # rest" using assms(2) by (cases "tasks (sys_world S)") auto
  with assms(1) obtain Q where "Q \<in> set Ws" "destination glob t \<in> set Q" by (auto simp: served_def list_ex_iff)
  from consumed [OF this(1) t this(2)] show ?thesis by auto
qed

text \<open>A message is consumed under the deployed workers.\<close>

lemma message_step:
  assumes "tasks (sys_world S) = ConversationTask p # rest"
  shows "worker_step glob compose_workers S
    (run_task (E :: report_env) snd' (ConversationTask p) (S\<lparr>sys_world := (sys_world S)\<lparr>tasks := rest\<rparr>\<rparr>))"
proof -
  have "[''conversation_tasks''] \<in> set compose_workers" by (simp add: compose_workers_def)
  from consumed [OF this, of S "[]" "ConversationTask p" rest] assms show ?thesis
    by (simp add: destination_value del: run_task.simps)
qed

section \<open>The event loop of a worker and the example task\<close>

text \<open>\<open>run\<close>: a coroutine runs on the loop that \<open>initialize_worker\<close> made when the process started.\<close>

datatype event_loop = No_Loop | New_Loop

definition initialize :: "event_loop \<Rightarrow> event_loop" where
  "initialize loop = New_Loop"

definition run_coroutine :: "event_loop \<Rightarrow> ('s \<Rightarrow> 'a res \<times> 's) \<Rightarrow> 's \<Rightarrow> 'a res \<times> 's" where
  "run_coroutine loop coro st =
     (case loop of
        No_Loop \<Rightarrow> (Inl (RuntimeError ''Worker event loop not initialized''), st)
      | New_Loop \<Rightarrow> coro st)"

lemma run_coroutine_initialized [simp]: "run_coroutine (initialize loop) coro st = coro st"
  by (simp add: run_coroutine_def initialize_def)

datatype example_call = SampleTask string | Heartbeat

fun run_example :: "example_call \<Rightarrow> string option" where
  "run_example (SampleTask message) = Some (''Processed: '' @ message)"
| "run_example Heartbeat = None"

fun example_name :: "example_call \<Rightarrow> string" where
  "example_name (SampleTask message) = ''app.workers.example_task.sample_task''"
| "example_name Heartbeat = ''heartbeat''"

text \<open>\<open>POST /test\<close>: the task is sent with a countdown of ten seconds, if the broker takes it.\<close>

definition trigger_test ::
    "bool \<Rightarrow> string \<Rightarrow> (example_call \<times> int) list \<Rightarrow> (string \<times> string) list res \<times> (example_call \<times> int) list" where
  "trigger_test broker_up message queued =
     (if broker_up then (Inr [(''status'', ''task dispatched'')], queued @ [(SampleTask message, 10)])
      else (Inl (OperationalError ''connection refused''), queued))"

lemma example_destination:
  "star_law glob \<Longrightarrow> destination_of glob (example_name c) None = ''default_tasks''"
  by (cases c) (simp_all add: destination_of_def task_routes_def star_at startswith_def task_default_queue_def)

text \<open>No deployed worker is given the default queue either: the example task never runs.\<close>

lemma example_unserved:
  "star_law glob \<Longrightarrow> Q \<in> set compose_workers \<Longrightarrow> destination_of glob (example_name c) None \<notin> set Q"
  by (auto simp: example_destination compose_workers_def)

end
