(* ===== verification/JsonText.thy ===== *)
theory JsonText
  imports PyJson
begin

text \<open>
  \<open>json.loads(json.dumps(v)) == v\<close>: what the program serialises, a worker's task or a signed body, is
  read back unchanged. The values are those of plain data: texts of Unicode scalar values, integers
  the interpreter agrees to print, objects without repeated names. A pair of surrogates would be read
  back as one character and a floating number is left out.
\<close>

section \<open>Plain data\<close>

definition scalar :: "nat \<Rightarrow> bool" where
  "scalar n \<longleftrightarrow> n < 0x110000 \<and> \<not> is_high n \<and> \<not> is_low n"

definition unicode_text :: "string \<Rightarrow> bool" where
  "unicode_text s \<longleftrightarrow> list_all scalar (code_points s) \<and> concat (map utf8 (code_points s)) = s"

fun plain :: "json \<Rightarrow> bool" where
  "plain JNull = True"
| "plain (JBool b) = True"
| "plain (JInt n) = (length (str_nat (nat \<bar>n\<bar>)) \<le> max_int_digits)"
| "plain (JStr s) = unicode_text s"
| "plain (JArr js) = list_all plain js"
| "plain (JObj d) = (distinct (map fst d) \<and> list_all (\<lambda>(k, v). unicode_text k \<and> plain v) d)"
| "plain _ = False"

text \<open>Text in ASCII is plain.\<close>

lemma code_points_one: "code_points [x] = [code x]"
  by simp

lemma code_points_Cons: "code a < 128 \<Longrightarrow> code_points (a # s) = code a # code_points s"
  by (cases s; cases "tl s"; cases "tl (tl s)"; subst code_points.simps)
     (auto simp: Let_def code_points_one code_points.simps(1) simp del: code_points.simps(2))

lemma ascii_points:
  "list_all (\<lambda>c. code c < (128 :: nat)) s \<Longrightarrow> code_points s = map code s \<and> concat (map utf8 (map code s)) = s"
proof (induction s)
  case (Cons a s)
  then show ?case by (auto simp: code_points_Cons utf8_def simp del: code_points.simps(2))
qed simp

lemma ascii_text: "list_all (\<lambda>c. code c < (128 :: nat)) s \<Longrightarrow> unicode_text s"
  using ascii_points [of s]
  by (auto simp: unicode_text_def list_all_iff scalar_def is_high_def is_low_def)

section \<open>Texts\<close>

definition hex_digit :: "nat \<Rightarrow> char" where
  "hex_digit d = char_of (if d < 10 then 48 + d else 87 + d)"

lemma hex_value_digit: "d < 16 \<Longrightarrow> hex_value (hex_digit d) = Some d"
  by (simp add: hex_value_def hex_digit_def)

lemma hex4_digits:
  "hex4 n = [hex_digit (n div 4096 mod 16), hex_digit (n div 256 mod 16), hex_digit (n div 16 mod 16),
             hex_digit (n mod 16)]"
  by (simp add: hex4_def hex_digit_def Let_def)

lemma four_hex_hex4: "n < 65536 \<Longrightarrow> four_hex (hex4 n @ t) = Some (n, t)"
proof -
  assume n: "n < 65536"
  have "n div 4096 mod 16 * 4096 + n div 256 mod 16 * 256 + n div 16 mod 16 * 16 + n mod 16 = n"
  proof -
    have "n div 4096 mod 16 = n div 4096" using n by (simp add: less_mult_imp_div_less)
    moreover have "n div 256 = n div 4096 * 16 + n div 256 mod 16"
      using div_mult_mod_eq [of "n div 256" 16] by (simp add: div_mult2_eq [symmetric])
    moreover have "n div 16 = n div 256 * 16 + n div 16 mod 16"
      using div_mult_mod_eq [of "n div 16" 16] by (simp add: div_mult2_eq [symmetric])
    moreover have "n div 16 * 16 + n mod 16 = n" by (rule div_mult_mod_eq)
    ultimately show ?thesis by linarith
  qed
  moreover from this n have "n div 4096 * 4096 + n div 256 mod 16 * 256 + n div 16 mod 16 * 16 + n mod 16 = n"
    by (simp add: less_mult_imp_div_less)
  ultimately show ?thesis by (simp add: hex4_digits hex_value_digit)
qed

lemma scan_escape_u:
  assumes "unicode_escape x = Some (u, y)"
  shows "scan_string (CHR 0x5C # CHR ''u'' # x) = push_text u (scan_string y)"
  using assms by (subst scan_string.simps) simp

lemma scan_plain_char:
  "code c \<noteq> 34 \<Longrightarrow> code c \<noteq> 92 \<Longrightarrow> 32 \<le> code c \<Longrightarrow> scan_string (c # t) = push_text [c] (scan_string t)"
  by (subst scan_string.simps) auto

lemma scan_simple_escape:
  "e \<noteq> CHR ''u'' \<Longrightarrow> simple_escape e = Some x \<Longrightarrow>
   scan_string (CHR 0x5C # e # t) = push_text [x] (scan_string t)"
  by (subst scan_string.simps) simp

lemma short_escapes:
  "escape_point 34 = [CHR 0x5C, CHR 0x22]" "escape_point 92 = [CHR 0x5C, CHR 0x5C]"
  "escape_point 10 = [CHR 0x5C, CHR ''n'']" "escape_point 13 = [CHR 0x5C, CHR ''r'']"
  "escape_point 9 = [CHR 0x5C, CHR ''t'']" "escape_point 12 = [CHR 0x5C, CHR ''f'']"
  "escape_point 8 = [CHR 0x5C, CHR ''b'']"
  "utf8 34 = [CHR 0x22]" "utf8 92 = [CHR 0x5C]" "utf8 10 = [CHR 10]" "utf8 13 = [CHR 13]"
  "utf8 9 = [CHR 9]" "utf8 12 = [CHR 12]" "utf8 8 = [CHR 8]"
  by code_simp+

text \<open>Every scalar value is read back from the escape it is printed as.\<close>

lemma scan_escape_point:
  assumes "scalar p"
  shows "scan_string (escape_point p @ t) = push_text (utf8 p) (scan_string t)"
proof -
  consider "p \<in> {34, 92, 10, 13, 9, 12, 8}"
    | "p \<notin> {34, 92}" "32 \<le> p" "p < 127"
    | "p \<notin> {34, 92, 10, 13, 9, 12, 8}" "\<not> (32 \<le> p \<and> p < 127)" "p < 65536"
    | "65536 \<le> p"
    by force
  then show ?thesis
  proof cases
    case 1
    then show ?thesis
      by (elim insertE) (simp_all add: short_escapes scan_simple_escape simple_escape_def)
  next
    case 2
    then show ?thesis by (simp add: escape_point_def Let_def scan_plain_char utf8_def)
  next
    case 3
    have "unicode_escape (hex4 p @ t) = Some (utf8 p, t)"
      using assms by (simp add: unicode_escape_def four_hex_hex4 3(3) scalar_def)
    with 3 scan_escape_u show ?thesis by (auto simp: escape_point_def Let_def)
  next
    case 4
    let ?h = "0xD800 + (p - 65536) div 1024" and ?l = "0xDC00 + (p - 65536) mod 1024"
    have p: "p < 0x110000" using assms by (simp add: scalar_def)
    then have "(p - 65536) div 1024 < 1024" using 4 by (simp add: less_mult_imp_div_less)
    then have h: "is_high ?h" "?h < 65536" by (simp_all add: is_high_def)
    have l: "is_low ?l" "?l < 65536"
      using mod_less_divisor [of 1024 "p - 65536"] by (simp_all add: is_low_def)
    have "0x10000 + (?h - 0xD800) * 1024 + (?l - 0xDC00) = p" using 4 by simp
    then have "unicode_escape (hex4 ?h @ CHR 0x5C # ''u'' @ hex4 ?l @ t) = Some (utf8 p, t)"
      using h l by (simp add: unicode_escape_def four_hex_hex4)
    from scan_escape_u [OF this] show ?thesis using 4 by (simp add: escape_point_def Let_def)
  qed
qed

lemma scan_points:
  "list_all scalar ps \<Longrightarrow>
   scan_string (concat (map escape_point ps) @ CHR 0x22 # r) = Inr (concat (map utf8 ps), r)"
proof (induction ps)
  case Nil
  show ?case by (subst scan_string.simps) simp
next
  case (Cons p ps)
  then show ?case by (simp add: scan_escape_point push_text_def)
qed

lemma dumps_text_read: "unicode_text s \<Longrightarrow> scan_string (tl (dumps_text s) @ r) = Inr (s, r)"
  using scan_points [of "code_points s" r] by (simp add: dumps_text_def unicode_text_def)

lemma dumps_text_Cons: "dumps_text s = CHR 0x22 # tl (dumps_text s)"
  by (simp add: dumps_text_def)

section \<open>Integers\<close>

text \<open>What may follow a value: nothing, or the comma or bracket of what it stands in.\<close>

definition closes :: "string \<Rightarrow> bool" where
  "closes r \<longleftrightarrow> r = [] \<or> hd r \<in> {CHR '','', CHR '']'', CHR ''}''}"

lemma takeWhile_closed_digits: "list_all is_dig s \<Longrightarrow> closes r \<Longrightarrow> takeWhile is_dig (s @ r) = s"
  by (induction s) (auto simp: closes_def is_dig_def takeWhile_eq_Nil_iff)

lemma str_nat_zero: "take 1 (str_nat n) = ''0'' \<Longrightarrow> str_nat n = ''0''"
proof (induction n rule: str_nat.induct)
  case (1 n)
  show ?case
  proof (cases "n < 10")
    case True
    with "1.prems" show ?thesis by (simp add: str_nat.simps [of n])
  next
    case False
    then have s: "str_nat n = str_nat (n div 10) @ [dig_char (n mod 10)]" by (simp add: str_nat.simps [of n])
    with "1.prems" have "take 1 (str_nat (n div 10)) = ''0''" by (cases "str_nat (n div 10)") simp_all
    with "1.IH" [OF False] have "str_nat (n div 10) = ''0''" by simp
    then have "n div 10 = digits_val (map dig_val ''0'')" using digits_val_str_nat by metis
    also have "\<dots> = 0" by (simp add: digits_val_def dig_val_def)
    finally show ?thesis using False by simp
  qed
qed

lemma scan_int_part_str: "closes r \<Longrightarrow> scan_int_part (str_nat n @ r) = (str_nat n, r)"
  using str_nat_zero [of n] by (auto simp: scan_int_part_def Let_def takeWhile_closed_digits str_nat_digits)

lemma scan_number_int:
  assumes "closes r" "length (str_nat (nat \<bar>n\<bar>)) \<le> max_int_digits"
  shows "scan_number (str_int n @ r) = Some (Inr (JInt n, r))"
proof -
  have r: "scan_fraction r = ([], r)" "scan_exponent r = (False, [], r)"
    using assms(1) by (cases r; auto simp: scan_fraction_def scan_exponent_def closes_def)+
  have "\<not> is_dig (CHR ''-'')" by (simp add: is_dig_def)
  then have minus: "take 1 (str_nat m @ r) \<noteq> ''-''" for m
    using hd_str_nat [of m] str_nat_ne [of m] by (cases "str_nat m") auto
  show ?thesis
    using assms scan_int_part_str [OF assms(1)] r minus
    by (cases "n < 0") (simp_all add: scan_number_def str_int_def Let_def decimal_digits_def)
qed

lemma startswith_Cons:
  "startswith (c # s) (k # ks) \<longleftrightarrow> c = k \<and> startswith s ks" "startswith s []"
  "\<not> startswith [] (k # ks)"
  by (auto simp: startswith_def)

lemma scan_literal_int: "scan_literal (str_int n @ r) = None"
proof -
  obtain c s where s: "str_int n = c # s" "is_dig c \<or> c = CHR ''-'' \<and> s \<noteq> [] \<and> is_dig (hd s)"
  proof (cases "n < 0")
    case True
    with that [of "CHR ''-''" "str_nat (nat (- n))"] hd_str_nat show thesis by (simp add: str_int_def)
  next
    case False
    with that [of "hd (str_nat (nat n))" "tl (str_nat (nat n))"] hd_str_nat show thesis by (simp add: str_int_def)
  qed
  have "\<not> is_dig (CHR ''n'')" "\<not> is_dig (CHR ''t'')" "\<not> is_dig (CHR ''f'')" "\<not> is_dig (CHR ''N'')"
    "\<not> is_dig (CHR ''I'')" "\<not> is_dig (CHR ''-'')"
    by (simp_all add: is_dig_def)
  with s(2) have "c \<noteq> CHR ''n''" "c \<noteq> CHR ''t''" "c \<noteq> CHR ''f''" "c \<noteq> CHR ''N''" "c \<noteq> CHR ''I''"
    "c = CHR ''-'' \<longrightarrow> s \<noteq> [] \<and> hd s \<noteq> CHR ''I''"
    by auto
  then show ?thesis
    by (cases s) (auto simp: scan_literal_def literals_def startswith_Cons s(1))
qed

section \<open>Values\<close>

lemma skip_solid: "s \<noteq> [] \<Longrightarrow> \<not> json_space (hd s) \<Longrightarrow> skip_space (s @ r) = s @ r"
  by (cases s) (simp_all add: skip_space_def)

lemma skip_one: "skip_space (CHR '' '' # s) = skip_space s"
  by (simp add: skip_space_def json_space_def)

lemma digit_solid: "is_dig c \<Longrightarrow> \<not> json_space c"
  by (auto simp: is_dig_def json_space_def)

lemma dumps_solid:
  assumes "plain j"
  shows "json_dumps j \<noteq> []" "\<not> json_space (hd (json_dumps j))" "hd (json_dumps j) \<noteq> CHR '']''"
proof -
  have "json_dumps j \<noteq> [] \<and> \<not> json_space (hd (json_dumps j)) \<and> hd (json_dumps j) \<noteq> CHR '']''"
  proof (cases j)
    case (JInt n)
    moreover have "\<not> is_dig (CHR '']'')" by (simp add: is_dig_def)
    ultimately show ?thesis using hd_str_nat [of "nat n"] digit_solid by (auto simp: str_int_def json_space_def)
  qed (use assms in \<open>simp_all add: json_space_def dumps_text_def\<close>)
  then show "json_dumps j \<noteq> []" "\<not> json_space (hd (json_dumps j))" "hd (json_dumps j) \<noteq> CHR '']''"
    by blast+
qed

lemma skip_dumps: "plain j \<Longrightarrow> skip_space (json_dumps j @ r) = json_dumps j @ r"
  using skip_solid dumps_solid by blast

lemma closes_after: "closes (CHR '','' # r)" "closes (CHR '']'' # r)" "closes (CHR ''}'' # r)" "closes []"
  by (simp_all add: closes_def)

lemma skip_closers:
  "skip_space (CHR '','' # r) = CHR '','' # r" "skip_space (CHR '']'' # r) = CHR '']'' # r"
  "skip_space (CHR ''}'' # r) = CHR ''}'' # r" "skip_space (CHR '':'' # r) = CHR '':'' # r"
  "skip_space (CHR 0x22 # r) = CHR 0x22 # r"
  by (simp_all add: skip_space_def json_space_def)

lemma str_join_one: "str_join sep [w] = w"
  by (simp add: str_join_def)

lemma scan_word:
  "scan_value (''null'' @ r) = Inr (JNull, r)" "scan_value (''true'' @ r) = Inr (JBool True, r)"
  "scan_value (''false'' @ r) = Inr (JBool False, r)"
  by (simp_all add: scan_scalar_def scan_literal_def literals_def startswith_Cons)

lemma scan_value_int:
  assumes "closes r" "length (str_nat (nat \<bar>n\<bar>)) \<le> max_int_digits"
  shows "scan_value (str_int n @ r) = Inr (JInt n, r)"
proof -
  obtain c s where s: "str_int n = c # s" "is_dig c \<or> c = CHR ''-''"
  proof (cases "n < 0")
    case True
    with that [of "CHR ''-''"] show thesis by (simp add: str_int_def)
  next
    case False
    with that [of "hd (str_nat (nat n))" "tl (str_nat (nat n))"] hd_str_nat show thesis by (simp add: str_int_def)
  qed
  have "\<not> is_dig (CHR 0x22)" "\<not> is_dig (CHR ''{'')" "\<not> is_dig (CHR ''['')" by (simp_all add: is_dig_def)
  with s have "scan_value (str_int n @ r) = scan_scalar (str_int n @ r)" by auto
  then show ?thesis
    using scan_literal_int scan_number_int [OF assms] by (simp add: scan_scalar_def)
qed

lemma dict_set_new: "k \<notin> fst ` set d \<Longrightarrow> dict_set k v d = d @ [(k, v)]"
  by (induction k v d rule: dict_set.induct) auto

lemma scan_member:
  assumes "unicode_text k" "scan_value (skip_space t) = Inr (v, s3)" "length s3 \<le> length t"
  shows "scan_members d (dumps_text k @ '': '' @ t) =
    (let s4 = skip_space s3; d' = dict_set k v d in
     if take 1 s4 = ''}'' then Inr (JObj d', drop 1 s4)
     else if take 1 s4 \<noteq> '','' then Inl expecting_comma
     else scan_members d' (skip_space (drop 1 s4)))"
proof -
  have k: "scan_string (tl (dumps_text k) @ '': '' @ t) = Inr (k, '': '' @ t)"
    using dumps_text_read [OF assms(1)] .
  have q: "dumps_text k @ '': '' @ t = CHR 0x22 # tl (dumps_text k) @ '': '' @ t"
    by (subst dumps_text_Cons) simp
  have len: "length (skip_space s3) \<le> length t" using length_skip_space [of s3] assms(3) by simp
  show ?thesis
    unfolding q scan_members.simps [of d "CHR 0x22 # tl (dumps_text k) @ '': '' @ t"]
    using k assms(2) len by (simp add: skip_closers skip_one Let_def)
qed

lemma scan_element:
  assumes "scan_value t = Inr (v, s1)"
  shows "scan_elements vs t =
    (let s2 = skip_space s1 in
     if take 1 s2 = '']'' then Inr (JArr (vs @ [v]), drop 1 s2)
     else if take 1 s2 \<noteq> '','' then Inl expecting_comma
     else scan_elements (vs @ [v]) (skip_space (drop 1 s2)))"
proof -
  have "length s1 < length t" using assms scan_shorter by blast
  then have "length (skip_space s1) \<le> length t" using length_skip_space [of s1] by linarith
  then show ?thesis unfolding scan_elements.simps [of vs t] using assms by (simp add: Let_def)
qed

lemma dumps_members_solid:
  "d \<noteq> [] \<Longrightarrow> hd (str_join '', '' (dumps_members d)) = CHR 0x22 \<and> str_join '', '' (dumps_members d) \<noteq> []"
  by (cases d) (auto simp: str_join_def dumps_text_def)

lemma dumps_items_solid:
  assumes "js \<noteq> []" "list_all plain js"
  shows "str_join '', '' (dumps_items js) \<noteq> []" "\<not> json_space (hd (str_join '', '' (dumps_items js)))"
    "hd (str_join '', '' (dumps_items js)) \<noteq> CHR '']''"
  using assms dumps_solid by (cases js; simp add: str_join_def)+

text \<open>A value, the elements of an array and the members of an object are read back as printed.\<close>

lemma scan_dumps:
  "plain j \<Longrightarrow> closes r \<Longrightarrow> scan_value (json_dumps j @ r) = Inr (j, r)"
  "js \<noteq> [] \<Longrightarrow> list_all plain js \<Longrightarrow>
     scan_elements vs (str_join '', '' (dumps_items js) @ CHR '']'' # r) = Inr (JArr (vs @ js), r)"
  "d \<noteq> [] \<Longrightarrow> distinct (map fst (d0 @ d)) \<Longrightarrow> list_all (\<lambda>(k, v). unicode_text k \<and> plain v) d \<Longrightarrow>
     scan_members d0 (str_join '', '' (dumps_members d) @ CHR ''}'' # r) = Inr (JObj (d0 @ d), r)"
proof (induction j and js and d arbitrary: r and vs r and d0 r
    rule: json_dumps_dumps_items_dumps_members.induct)
  case (2 b)
  then show ?case using scan_word by (cases b) (simp_all del: scan_value.simps)
next
  case (6 s)
  have "json_dumps (JStr s) @ r = CHR 0x22 # (tl (dumps_text s) @ r)"
    by (simp add: dumps_text_def)
  moreover have "scan_string (tl (dumps_text s) @ r) = Inr (s, r)"
    using 6 dumps_text_read by simp
  ultimately show ?case by (simp only:) simp
next
  case (8 js)
  show ?case
  proof (cases "js = []")
    case True
    then show ?thesis by (simp add: str_join_def skip_closers Let_def)
  next
    case False
    let ?t = "str_join '', '' (dumps_items js)"
    have "skip_space (?t @ CHR '']'' # r) = ?t @ CHR '']'' # r" "?t \<noteq> []" "hd ?t \<noteq> CHR '']''"
      using dumps_items_solid [OF False] 8(2) by (simp_all add: skip_solid)
    then show ?thesis using "8.IH" [OF False, of "[]" r] 8(2) by (cases ?t) (simp_all add: Let_def)
  qed
next
  case (9 d)
  show ?case
  proof (cases "d = []")
    case True
    then show ?thesis by (simp add: str_join_def skip_closers Let_def)
  next
    case False
    let ?t = "str_join '', '' (dumps_members d)"
    have "skip_space (?t @ CHR ''}'' # r) = ?t @ CHR ''}'' # r" "?t \<noteq> []" "hd ?t = CHR 0x22"
      using dumps_members_solid [OF False] by (simp_all add: skip_solid json_space_def)
    then show ?thesis using "9.IH" [OF False, of "[]" r] 9(2) by (cases ?t) (simp_all add: Let_def)
  qed
next
  case (11 j js)
  have j: "plain j" "list_all plain js" using "11.prems" by simp_all
  show ?case
  proof (cases "js = []")
    case True
    with "11.IH"(1) [OF j(1) closes_after(2), of r] show ?thesis
      by (simp add: str_join_one scan_element skip_closers Let_def del: scan_value.simps)
  next
    case False
    let ?t = "str_join '', '' (dumps_items js) @ CHR '']'' # r"
    have "dumps_items js \<noteq> []" using False by (cases js) simp_all
    then have t: "str_join '', '' (dumps_items (j # js)) @ CHR '']'' # r = json_dumps j @ CHR '','' # CHR '' '' # ?t"
      by (simp add: str_join_Cons)
    have "skip_space ?t = ?t" using dumps_items_solid [OF False j(2)] by (simp add: skip_solid)
    with "11.IH"(1) [OF j(1) closes_after(1), of "CHR '' '' # ?t"] "11.IH"(2) [OF False j(2), of "vs @ [j]" r]
    show ?thesis unfolding t by (simp add: scan_element skip_closers skip_one Let_def del: scan_value.simps)
  qed
next
  case (13 k v d)
  have v: "unicode_text k" "plain v" "list_all (\<lambda>(k, v). unicode_text k \<and> plain v) d" "k \<notin> fst ` set d0"
    "distinct (map fst ((d0 @ [(k, v)]) @ d))"
    using "13.prems" by auto
  note member = scan_member [OF v(1), where v = v and d = d0] and new = dict_set_new [OF v(4), of v]
  have shorter: "length s \<le> length (json_dumps v @ s)" for s by simp
  show ?case
  proof (cases "d = []")
    case True
    have t: "str_join '', '' (dumps_members ((k, v) # d)) @ CHR ''}'' # r = dumps_text k @ '': '' @ json_dumps v @ CHR ''}'' # r"
      using True by (simp add: str_join_one)
    show ?thesis
      unfolding t using "13.IH"(1) [OF v(2) closes_after(3), of r] True new
      by (subst member [OF _ shorter])
         (simp_all add: skip_dumps [OF v(2)] skip_closers Let_def del: scan_value.simps)
  next
    case False
    let ?t = "str_join '', '' (dumps_members d) @ CHR ''}'' # r"
    have "dumps_members d \<noteq> []" using False by (cases d) auto
    then have t: "str_join '', '' (dumps_members ((k, v) # d)) @ CHR ''}'' # r =
        dumps_text k @ '': '' @ json_dumps v @ CHR '','' # CHR '' '' # ?t"
      by (simp add: str_join_Cons)
    have "skip_space ?t = ?t" using dumps_members_solid [OF False] by (simp add: skip_solid json_space_def)
    then show ?thesis
      unfolding t using "13.IH"(1) [OF v(2) closes_after(1), of "CHR '' '' # ?t"] new
        "13.IH"(2) [OF False v(5,3), of r]
      by (subst member [OF _ shorter])
         (simp_all add: skip_dumps [OF v(2)] skip_closers skip_one Let_def del: scan_value.simps)
  qed
qed (use scan_word scan_value_int in \<open>simp_all del: scan_value.simps\<close>)

lemma json_loads_dumps:
  assumes "plain j"
  shows "json_loads (json_dumps j) = Inr j"
proof -
  have "skip_space (json_dumps j) = json_dumps j" using skip_dumps [OF assms, of "[]"] by simp
  moreover have "scan_value (json_dumps j) = Inr (j, [])"
    using scan_dumps(1) [OF assms closes_after(4)] by simp
  moreover have "\<not> startswith (json_dumps j) [CHR 0xEF, CHR 0xBB, CHR 0xBF]"
  proof -
    have "hd (json_dumps j) \<noteq> CHR 0xEF"
    proof (cases j)
      case (JInt n)
      moreover have "\<not> is_dig (CHR 0xEF)" by (simp add: is_dig_def)
      ultimately show ?thesis using hd_str_nat [of "nat n"] by (auto simp: str_int_def)
    qed (use assms in \<open>simp_all add: dumps_text_def\<close>)
    then show ?thesis using dumps_solid(1) [OF assms] by (cases "json_dumps j") (auto simp: startswith_Cons)
  qed
  ultimately show ?thesis by (simp add: json_loads_def skip_space_def)
qed

end
