(* ===== verification/Http.thy ===== *)
theory Http
  imports Api Routing JsonText
begin

text \<open>
  The HTTP surface as a client sees it: \<open>app/main.py\<close> and \<open>app/api/routes/__init__.py\<close> put the
  routers together, \<open>app/schemas\<close> says what a request carries and what an answer shows. A request has
  a method, the decoded segments of its path, its query and a body in JSON; it is matched against the
  routes in their order, its parameters are validated, the operation of \<open>Api\<close> or \<open>Webhook\<close> runs, and
  its result is printed as JSON.

  How pydantic reads a decimal, and the JSON it makes of amounts and instants, are parameters; the
  report that FastAPI makes of an invalid request is left out, and so are the pages it generates.
\<close>

section \<open>Requests and answers\<close>

datatype http_method = GET | POST | PATCH | DELETE | Other_Method

record http_request =
  hq_method :: http_method
  hq_path :: "string list"
  hq_query :: "(string \<times> string) list"
  hq_body :: string
  hq_signature :: "string option"
  hq_correlation :: "string option"

datatype http_answer =
    Replied int json
  | No_Body
  | Invalid
  | Server_Error
  | Redirected
  | Not_Found
  | Method_Not_Allowed
  | Generated_Page

fun status_of :: "http_answer \<Rightarrow> int" where
  "status_of (Replied n j) = n"
| "status_of No_Body = 204"
| "status_of Invalid = 422"
| "status_of Server_Error = 500"
| "status_of Redirected = 307"
| "status_of Not_Found = 404"
| "status_of Method_Not_Allowed = 405"
| "status_of Generated_Page = 200"

record http_env =
  reporting :: report_env
  hooks :: webhook_env
  read_price :: "json \<Rightarrow> int option"
  money_json :: "int \<Rightarrow> json"
  time_json :: "time \<Rightarrow> json"
  test_broker_up :: bool
  postgres_failure :: "string option"
  redis_ping_failure :: "string option"

record app_state =
  app_redis :: redis
  app_world :: world
  app_examples :: "(example_call \<times> int) list"

section \<open>The bodies of requests\<close>

text \<open>A body is read with \<open>json.loads\<close> and has to be an object; fields beside the declared ones are
  ignored.\<close>

definition body_fields :: "string \<Rightarrow> dict option" where
  "body_fields b = (case json_loads b of Inr (JObj d) \<Rightarrow> Some d | _ \<Rightarrow> None)"

definition read_body :: "(dict \<Rightarrow> 'a vres) \<Rightarrow> http_request \<Rightarrow> 'a option" where
  "read_body schema q =
     (case body_fields (hq_body q) of
        None \<Rightarrow> None
      | Some d \<Rightarrow> (case schema d of VOk x \<Rightarrow> Some x | _ \<Rightarrow> None))"

definition AddStockRequest :: "dict \<Rightarrow> (uuid \<times> int) vres" where
  "AddStockRequest d =
     v_pair (v_required ''product_id'' v_uuid d) (v_required ''quantity'' (v_int_where (\<lambda>n. 0 < n)) d)"

definition DeductStockRequest :: "dict \<Rightarrow> (uuid \<times> int) vres" where
  "DeductStockRequest d =
     v_pair (v_required ''product_id'' v_uuid d) (v_required ''quantity'' (v_int_where (\<lambda>n. 0 < n)) d)"

definition UpdateThresholdRequest :: "dict \<Rightarrow> int vres" where
  "UpdateThresholdRequest d =
     v_required ''low_stock_threshold'' (v_int_where (\<lambda>n. 0 \<le> n \<and> n \<le> 1000)) d"

definition SaleCreate :: "dict \<Rightarrow> (uuid \<times> uuid \<times> int \<times> string) vres" where
  "SaleCreate d =
     v_pair (v_required ''shop_id'' v_uuid d)
       (v_pair (v_required ''product_id'' v_uuid d)
          (v_pair (v_required ''quantity'' (v_int_where (\<lambda>n. 0 < n)) d)
             (v_default ''recorded_by'' ''System'' v_str d)))"

definition v_price :: "http_env \<Rightarrow> json \<Rightarrow> int vres" where
  "v_price H j = v_of_option (read_price H j)"

definition ProductCreate_fields :: "http_env \<Rightarrow> dict \<Rightarrow> (string \<times> int \<times> uuid) vres" where
  "ProductCreate_fields H d =
     v_pair (v_required ''name'' v_str d)
       (v_pair (v_required ''price'' (v_price H) d) (v_required ''shop_id'' v_uuid d))"

definition v_field :: "string \<Rightarrow> (json \<Rightarrow> 'a vres) \<Rightarrow> dict \<Rightarrow> 'a field vres" where
  "v_field k f d =
     v_default k Unset
       (\<lambda>j. if j = JNull then VOk SetNull else v_then (f j) (\<lambda>x. VOk (SetTo x))) d"

definition ProductUpdate_fields :: "http_env \<Rightarrow> dict \<Rightarrow> (string field \<times> int field) vres" where
  "ProductUpdate_fields H d = v_pair (v_field ''name'' v_str d) (v_field ''price'' (v_price H) d)"

definition shop_locales :: "(string \<times> shop_locale) list" where
  "shop_locales = [(''en'', ENGLISH), (''sw'', SWAHILI)]"

definition CreateShop :: "dict \<Rightarrow> create_shop_data vres" where
  "CreateShop d =
     v_then (v_pair (v_required ''name'' v_str d)
               (v_pair (v_required ''phone'' v_str d) (v_default ''locale'' ENGLISH (v_enum shop_locales) d)))
       (\<lambda>(nm, ph, l). VOk \<lparr>cs_name = nm, cs_phone = ph, cs_locale = l\<rparr>)"

definition UpdateShopLocale :: "dict \<Rightarrow> shop_locale vres" where
  "UpdateShopLocale d = v_required ''locale'' (v_enum shop_locales) d"

definition TestMessage :: "dict \<Rightarrow> string vres" where
  "TestMessage d = v_required ''message'' v_str d"

text \<open>A query parameter given twice has its last value.\<close>

definition query_value :: "string \<Rightarrow> http_request \<Rightarrow> string option" where
  "query_value k q = map_of (rev (hq_query q)) k"

section \<open>The bodies of answers\<close>

definition InventoryResponse :: "inventory_row \<Rightarrow> json" where
  "InventoryResponse i =
     JObj [(''id'', JStr (uuid_str (i_id i))), (''product_id'', JStr (uuid_str (i_product_id i))),
           (''quantity'', JInt (i_quantity i)), (''low_stock_threshold'', JInt (i_threshold i))]"

definition StockDeductionResult :: "stock_deduction_result \<Rightarrow> json" where
  "StockDeductionResult r =
     JObj [(''remaining_stock'', JInt (remaining_stock r)), (''entered_low_stock'', JBool (entered_low_stock r))]"

definition ProductResponse :: "http_env \<Rightarrow> product_response \<Rightarrow> json" where
  "ProductResponse H p =
     JObj [(''id'', JStr (uuid_str (pr_id p))), (''name'', JStr (pr_name p)), (''price'', money_json H (pr_price p)),
           (''sku'', JStr (pr_sku p))]"

definition SaleResponse :: "http_env \<Rightarrow> sale_row \<Rightarrow> json" where
  "SaleResponse H s =
     JObj [(''id'', JStr (uuid_str (s_id s))), (''shop_id'', JStr (uuid_str (s_shop_id s))),
           (''product_id'', JStr (uuid_str (s_product_id s))), (''quantity'', JInt (s_quantity s)),
           (''unit_price'', money_json H (s_unit_price s)), (''total'', money_json H (s_total s)),
           (''recorded_by'', JStr (s_recorded_by s)), (''created_at'', time_json H (s_created s))]"

definition ShopResponse :: "shop_response \<Rightarrow> json" where
  "ShopResponse s =
     JObj [(''id'', JStr (uuid_str (sr_shop_id s))), (''name'', JStr (sr_shop_name s)),
           (''phone'', JStr (sr_shop_phone s)), (''locale'', JStr (sr_shop_locale s))]"

definition TopProductUnitsInfo :: "top_by_units \<Rightarrow> json" where
  "TopProductUnitsInfo t =
     JObj [(''product_id'', JStr (uuid_str (tu_product_id t))), (''name'', JStr (tu_name t)),
           (''units_sold'', JInt (tu_units t))]"

definition TopProductRevenueInfo :: "http_env \<Rightarrow> top_by_revenue \<Rightarrow> json" where
  "TopProductRevenueInfo H t =
     JObj [(''product_id'', JStr (uuid_str (tr_product_id t))), (''name'', JStr (tr_name t)),
           (''revenue'', money_json H (tr_revenue t))]"

definition LowStockProduct :: "low_stock_row \<Rightarrow> json" where
  "LowStockProduct r =
     JObj [(''id'', JStr (uuid_str (ls_id r))), (''name'', JStr (ls_name r)), (''quantity'', JInt (ls_quantity r)),
           (''low_stock_threshold'', JInt (ls_threshold r))]"

definition DailySummaryResponse :: "http_env \<Rightarrow> daily_summary \<Rightarrow> json" where
  "DailySummaryResponse H d =
     JObj [(''total_revenue'', money_json H (ds_total_revenue d)),
           (''transaction_count'', JInt (int (ds_transaction_count d))),
           (''top_products_by_units'', JArr (map TopProductUnitsInfo (ds_top_by_units d))),
           (''top_products_by_revenue'', JArr (map (TopProductRevenueInfo H) (ds_top_by_revenue d))),
           (''products_with_low_stock'', JArr (map LowStockProduct (ds_low_stock d)))]"

definition health_json :: "health_report \<Rightarrow> json" where
  "health_json h =
     JObj [(''status'', JStr (hl_status h)),
           (''services'', JObj [(''api'', JStr (hl_api h)), (''postgres'', JStr (hl_postgres h)),
                                (''redis'', JStr (hl_redis h))])]"

definition error_json :: "http_error \<Rightarrow> json" where
  "error_json h =
     JObj ([(''success'', JBool False), (''error_type'', JStr (he_error_type h)), (''message'', JStr (he_message h))] @
           (if he_meta h = [] then [] else [(''meta'', JObj (map (\<lambda>(k, v). (k, JStr v)) (he_meta h)))]))"

definition text_json :: "(string \<times> string) list \<Rightarrow> json" where
  "text_json kvs = JObj (map (\<lambda>(k, v). (k, JStr v)) kvs)"

fun send_answer :: "('a \<Rightarrow> json) \<Rightarrow> 'a answer \<Rightarrow> http_answer" where
  "send_answer f (Answer n x) = (if n = 204 then No_Body else Replied n (f x))"
| "send_answer f Unprocessable = Invalid"
| "send_answer f (Refused h) = Replied (he_status h) (error_json h)"
| "send_answer f ServerError = Server_Error"

section \<open>The routes\<close>

datatype endpoint =
    EP_Health | EP_Get_Stock | EP_Add_Stock | EP_Deduct_Stock | EP_Update_Threshold
  | EP_Create_Product | EP_List_Products | EP_Get_Product | EP_Update_Product | EP_Delete_Product
  | EP_Daily_Report | EP_Record_Sale | EP_Create_Shop | EP_Update_Locale | EP_Whatsapp | EP_Test
  | EP_Generated

datatype segment = Lit string | Param

text \<open>FastAPI's own pages come first, then the routers in the order they are included.\<close>

definition app_routes :: "(http_method \<times> segment list \<times> endpoint) list" where
  "app_routes =
     [(GET, [Lit ''openapi.json''], EP_Generated), (GET, [Lit ''docs''], EP_Generated),
      (GET, [Lit ''docs'', Lit ''oauth2-redirect''], EP_Generated), (GET, [Lit ''redoc''], EP_Generated),
      (GET, [Lit ''health''], EP_Health),
      (GET, [Lit ''inventory'', Param], EP_Get_Stock),
      (POST, [Lit ''inventory'', Lit ''add''], EP_Add_Stock),
      (POST, [Lit ''inventory'', Lit ''deduct''], EP_Deduct_Stock),
      (PATCH, [Lit ''inventory'', Param, Lit ''threshold''], EP_Update_Threshold),
      (POST, [Lit ''products''], EP_Create_Product),
      (GET, [Lit ''products''], EP_List_Products),
      (GET, [Lit ''products'', Param], EP_Get_Product),
      (PATCH, [Lit ''products'', Param], EP_Update_Product),
      (DELETE, [Lit ''products'', Param], EP_Delete_Product),
      (GET, [Lit ''reports'', Lit ''daily'', Param], EP_Daily_Report),
      (POST, [Lit ''sales''], EP_Record_Sale),
      (POST, [Lit ''shops''], EP_Create_Shop),
      (PATCH, [Lit ''shops'', Param, Lit ''locale''], EP_Update_Locale),
      (POST, [Lit ''webhook'', Lit ''whatsapp''], EP_Whatsapp),
      (POST, [Lit ''test''], EP_Test)]"

text \<open>A parameter takes one segment, which is not empty.\<close>

fun match_path :: "segment list \<Rightarrow> string list \<Rightarrow> string list option" where
  "match_path [] [] = Some []"
| "match_path (Lit l # ss) (p # ps) = (if l = p then match_path ss ps else None)"
| "match_path (Param # ss) (p # ps) = (if p = [] then None else map_option (\<lambda>r. p # r) (match_path ss ps))"
| "match_path _ _ = None"

definition toggle_slash :: "string list \<Rightarrow> string list" where
  "toggle_slash ps = (if ps \<noteq> [] \<and> last ps = [] then butlast ps else ps @ [[]])"

datatype matched = Full endpoint "string list" | Partial | Slash | Nowhere

definition match_route :: "http_method \<Rightarrow> string list \<Rightarrow> matched" where
  "match_route m ps =
     (let hits = (\<lambda>path. filter (\<lambda>(m', ss, e). match_path ss path \<noteq> None) app_routes) in
      case find (\<lambda>(m', ss, e). m' = m) (hits ps) of
        Some (m', ss, e) \<Rightarrow> Full e (the (match_path ss ps))
      | None \<Rightarrow>
          if hits ps \<noteq> [] then Partial else if hits (toggle_slash ps) \<noteq> [] then Slash else Nowhere)"

section \<open>The application\<close>

definition with_world :: "('a \<Rightarrow> json) \<Rightarrow> (world \<Rightarrow> 'a answer \<times> world) \<Rightarrow> app_state \<Rightarrow> http_answer \<times> app_state" where
  "with_world f op' A = (case op' (app_world A) of (a, w) \<Rightarrow> (send_answer f a, A\<lparr>app_world := w\<rparr>))"

definition given :: "'a option \<Rightarrow> ('a \<Rightarrow> app_state \<Rightarrow> http_answer \<times> app_state) \<Rightarrow> app_state \<Rightarrow> http_answer \<times> app_state" where
  "given x f A = (case x of None \<Rightarrow> (Invalid, A) | Some y \<Rightarrow> f y A)"

definition post_webhook :: "http_env \<Rightarrow> http_request \<Rightarrow> app_state \<Rightarrow> http_answer \<times> app_state" where
  "post_webhook H q A =
     (case webhook (hooks H) \<lparr>raw_body = hq_body q, x_hub_signature_256 = hq_signature q,
                              correlation_header = hq_correlation q\<rparr> (app_redis A, app_world A) of
        (r, (rd, w)) \<Rightarrow>
          ((case r of Inl e \<Rightarrow> Server_Error | Inr reply \<Rightarrow> Replied (hr_status reply) (text_json (hr_body reply))),
           A\<lparr>app_redis := rd, app_world := w\<rparr>))"

definition post_test :: "http_env \<Rightarrow> string \<Rightarrow> app_state \<Rightarrow> http_answer \<times> app_state" where
  "post_test H m A =
     (case trigger_test (test_broker_up H) m (app_examples A) of
        (Inl e, xs) \<Rightarrow> (Server_Error, A\<lparr>app_examples := xs\<rparr>)
      | (Inr kvs, xs) \<Rightarrow> (Replied 200 (text_json kvs), A\<lparr>app_examples := xs\<rparr>))"

text \<open>The date of a report that is not given is today's; one that does not read is refused.\<close>

definition report_date :: "http_request \<Rightarrow> int option option" where
  "report_date q =
     (case query_value ''date_'' q of
        None \<Rightarrow> Some None
      | Some t \<Rightarrow> map_option Some (parse_iso_date t))"

fun call_endpoint ::
  "http_env \<Rightarrow> endpoint \<Rightarrow> string list \<Rightarrow> http_request \<Rightarrow> app_state \<Rightarrow> http_answer \<times> app_state" where
  "call_endpoint H EP_Generated ps q A = (Generated_Page, A)"
| "call_endpoint H EP_Health ps q A =
     (Replied 200 (health_json (health (postgres_failure H) (redis_ping_failure H))), A)"
| "call_endpoint H EP_Get_Stock ps q A =
     given (parse_uuid (hd ps)) (\<lambda>pid. with_world InventoryResponse (api_get_stock pid)) A"
| "call_endpoint H EP_Add_Stock ps q A =
     given (read_body AddStockRequest q)
       (\<lambda>(pid, n). with_world InventoryResponse (api_add_stock (reporting H) pid n)) A"
| "call_endpoint H EP_Deduct_Stock ps q A =
     given (read_body DeductStockRequest q)
       (\<lambda>(pid, n). with_world StockDeductionResult (api_deduct_stock pid n)) A"
| "call_endpoint H EP_Update_Threshold ps q A =
     given (parse_uuid (hd ps)) (\<lambda>pid. given (read_body UpdateThresholdRequest q)
       (\<lambda>n. with_world InventoryResponse (api_update_threshold pid n))) A"
| "call_endpoint H EP_Create_Product ps q A =
     given (read_body (ProductCreate_fields H) q)
       (\<lambda>(nm, c, sid). with_world (ProductResponse H) (api_create_product (reporting H) nm c sid)) A"
| "call_endpoint H EP_List_Products ps q A =
     given (Option.bind (query_value ''shop_id'' q) parse_uuid)
       (\<lambda>sid. with_world (\<lambda>xs. JArr (map (ProductResponse H) xs)) (api_list_products sid)) A"
| "call_endpoint H EP_Get_Product ps q A =
     given (parse_uuid (hd ps)) (\<lambda>pid. with_world (ProductResponse H) (api_get_product pid)) A"
| "call_endpoint H EP_Update_Product ps q A =
     given (parse_uuid (hd ps)) (\<lambda>pid. given (read_body (ProductUpdate_fields H) q)
       (\<lambda>(nm, c). with_world (ProductResponse H) (api_update_product pid nm c))) A"
| "call_endpoint H EP_Delete_Product ps q A =
     given (parse_uuid (hd ps)) (\<lambda>pid. with_world (\<lambda>_. JNull) (api_delete_product pid)) A"
| "call_endpoint H EP_Daily_Report ps q A =
     given (parse_uuid (hd ps)) (\<lambda>sid. given (report_date q)
       (\<lambda>d. with_world (DailySummaryResponse H) (api_daily_report (reporting H) sid d))) A"
| "call_endpoint H EP_Record_Sale ps q A =
     given (read_body SaleCreate q)
       (\<lambda>(sid, pid, n, who). with_world (SaleResponse H) (api_record_sale (reporting H) sid pid n who)) A"
| "call_endpoint H EP_Create_Shop ps q A =
     given (read_body CreateShop q) (\<lambda>data. with_world ShopResponse (api_create_shop (reporting H) data)) A"
| "call_endpoint H EP_Update_Locale ps q A =
     given (read_body UpdateShopLocale q)
       (\<lambda>l. with_world ShopResponse (api_update_shop_locale (reporting H) (hd ps) l)) A"
| "call_endpoint H EP_Whatsapp ps q A = post_webhook H q A"
| "call_endpoint H EP_Test ps q A = given (read_body TestMessage q) (post_test H) A"

definition app :: "http_env \<Rightarrow> http_request \<Rightarrow> app_state \<Rightarrow> http_answer \<times> app_state" where
  "app H q A =
     (case match_route (hq_method q) (hq_path q) of
        Full e ps \<Rightarrow> call_endpoint H e ps q A
      | Partial \<Rightarrow> (Method_Not_Allowed, A)
      | Slash \<Rightarrow> (Redirected, A)
      | Nowhere \<Rightarrow> (Not_Found, A))"

section \<open>Every request leaves the tables consistent and committed\<close>

definition app_ok :: "app_state \<Rightarrow> bool" where
  "app_ok A \<longleftrightarrow> world_ok (app_world A) \<and> durable (app_world A) = work (app_world A)"

lemma given_ok: "app_ok A \<Longrightarrow> (\<And>y. app_ok (snd (f y A))) \<Longrightarrow> app_ok (snd (given x f A))"
  by (simp add: given_def split: option.split)

lemma validated_closed:
  "work w = durable w \<Longrightarrow> work (snd out) = durable (snd out) \<Longrightarrow> work (snd (validated b out w)) = durable (snd (validated b out w))"
  by (simp add: validated_def)

lemma api_closed:
  assumes "durable w = work w"
  shows "work (snd (api_get_stock pid w)) = durable (snd (api_get_stock pid w))"
    "work (snd (api_add_stock E pid n w)) = durable (snd (api_add_stock E pid n w))"
    "work (snd (api_deduct_stock pid n w)) = durable (snd (api_deduct_stock pid n w))"
    "work (snd (api_update_threshold pid n w)) = durable (snd (api_update_threshold pid n w))"
    "work (snd (api_create_product E nm pr sid w)) = durable (snd (api_create_product E nm pr sid w))"
    "work (snd (api_list_products sid w)) = durable (snd (api_list_products sid w))"
    "work (snd (api_get_product pid w)) = durable (snd (api_get_product pid w))"
    "work (snd (api_update_product pid nmf prf w)) = durable (snd (api_update_product pid nmf prf w))"
    "work (snd (api_delete_product pid w)) = durable (snd (api_delete_product pid w))"
    "work (snd (api_record_sale E sid pid n who w)) = durable (snd (api_record_sale E sid pid n who w))"
    "work (snd (api_create_shop E data w)) = durable (snd (api_create_shop E data w))"
    "work (snd (api_update_shop_locale E ph loc w)) = durable (snd (api_update_shop_locale E ph loc w))"
    "work (snd (api_daily_report E' sid d w)) = durable (snd (api_daily_report E' sid d w))"
  using assms
  by (auto simp: api_get_stock_def api_add_stock_def api_deduct_stock_def api_update_threshold_def
      api_create_product_def api_list_products_def api_get_product_def api_update_product_def
      api_delete_product_def api_record_sale_def api_create_shop_def api_update_shop_locale_def
      api_daily_report_def route_closed intro!: validated_closed split: sum.split)

lemma with_world_ok:
  assumes "world_ok (snd (g (app_world A)))" "work (snd (g (app_world A))) = durable (snd (g (app_world A)))"
  shows "app_ok (snd (with_world f g A))"
  using assms by (auto simp: with_world_def app_ok_def split: prod.split)

lemma webhook_tables:
  assumes "webhook E req (rd, w) = (r, (rd', w'))"
  shows "work w' = work w \<and> durable w' = durable w"
proof -
  have d: "work w2 = work w \<and> durable w2 = durable w" if "dispatch E p (rd, w) = (x, (rd2, w2))" for p x rd2 w2
    using that by (auto simp: dispatch_def dest: delay_frame split: prod.splits sum.splits bool.splits)
  from webhook_cases [of E req "(rd, w)"] show ?thesis
  proof
    assume "\<exists>p. snd (webhook E req (rd, w)) = snd (dispatch E p (rd, w))"
    then obtain p where p: "snd (dispatch E p (rd, w)) = (rd', w')" using assms by auto
    then have "dispatch E p (rd, w) = (fst (dispatch E p (rd, w)), (rd', w'))" by (metis prod.collapse)
    then show ?thesis by (rule d)
  qed (use assms in simp)
qed

lemma call_ok: "app_ok A \<Longrightarrow> app_ok (snd (call_endpoint H e ps q A))"
proof -
  assume A: "app_ok A"
  then have w: "world_ok (app_world A)" "durable (app_world A) = work (app_world A)" by (simp_all add: app_ok_def)
  note ok = api_keeps_schema [OF w(1)] and closed = api_closed [OF w(2)]
  show ?thesis
  proof (cases e)
    case EP_Whatsapp
    obtain r rd w' where h: "webhook (hooks H) \<lparr>raw_body = hq_body q, x_hub_signature_256 = hq_signature q,
        correlation_header = hq_correlation q\<rparr> (app_redis A, app_world A) = (r, (rd, w'))" by (rule prod_cases3)
    from webhook_tables [OF h] w EP_Whatsapp h show ?thesis
      by (simp add: post_webhook_def app_ok_def world_ok_def)
  next
    case EP_Test
    have "app_ok (snd (post_test H m A))" for m
      using A by (simp add: post_test_def trigger_test_def app_ok_def)
    then have "app_ok (snd (given (read_body TestMessage q) (post_test H) A))" by (intro given_ok [OF A])
    with EP_Test show ?thesis by simp
  qed (use A ok closed in \<open>auto intro!: given_ok with_world_ok split: prod.split\<close>)
qed

lemma app_keeps: "app_ok A \<Longrightarrow> app_ok (snd (app H q A))"
  by (auto simp: app_def call_ok split: matched.split)

section \<open>Reading changes nothing\<close>

lemma matched_route:
  assumes "match_route m ps = Full e rs"
  shows "\<exists>ss. (m, ss, e) \<in> set app_routes \<and> match_path ss ps = Some rs"
proof -
  obtain m' ss where f: "find (\<lambda>(m', ss, e). m' = m) (filter (\<lambda>(m', ss, e). match_path ss ps \<noteq> None) app_routes)
      = Some (m', ss, e)" "rs = the (match_path ss ps)"
    using assms by (auto simp: match_route_def Let_def split: option.splits prod.splits if_splits)
  with find_Some_mem [OF f(1)] show ?thesis by auto
qed

lemma read_routes:
  "(GET, ss, e) \<in> set app_routes \<Longrightarrow>
   e \<in> {EP_Generated, EP_Health, EP_Get_Stock, EP_List_Products, EP_Get_Product, EP_Daily_Report}"
  by (auto simp: app_routes_def)

lemma route_reads:
  assumes "durable w = work w" "snd (f w) = w" shows "snd (route n f w) = w"
  using assms by (cases "f w") (simp add: route_def get_db_def rollback_def)

lemma read_world: "snd (g (app_world A)) = app_world A \<Longrightarrow> snd (with_world f g A) = A"
  by (cases "g (app_world A)") (simp add: with_world_def)

lemma api_reads:
  assumes "durable w = work w"
  shows "snd (api_get_stock pid w) = w" "snd (api_list_products sid w) = w" "snd (api_get_product pid w) = w"
    "snd (api_daily_report E sid d w) = w"
proof -
  have r: "snd (f w) = w \<Longrightarrow> snd (responding g f w) = w" for f :: "'x op" and g :: "'x \<Rightarrow> 'y"
    by (cases "f w"; cases "fst (f w)") (simp_all add: responding_def and_then_def)
  show "snd (api_get_stock pid w) = w" "snd (api_daily_report E sid d w) = w"
    by (simp_all add: api_get_stock_def api_daily_report_def get_daily_report_data_def get_stock_def
        route_reads [OF assms] split: option.split)
  show "snd (api_list_products sid w) = w"
    unfolding api_list_products_def by (rule route_reads [OF assms], rule r) (simp add: list_products_def)
  show "snd (api_get_product pid w) = w"
    unfolding api_get_product_def by (rule route_reads [OF assms], rule r) (simp add: get_product_def split: option.split)
qed

lemma read_calls:
  assumes "app_ok A" "e \<in> {EP_Generated, EP_Health, EP_Get_Stock, EP_List_Products, EP_Get_Product, EP_Daily_Report}"
  shows "snd (call_endpoint H e ps q A) = A"
proof -
  have w: "durable (app_world A) = work (app_world A)" using assms(1) by (simp add: app_ok_def)
  show ?thesis
    using assms(2) by (auto simp: given_def read_world api_reads [OF w] split: option.split)
qed

lemma gets_are_safe:
  assumes "app_ok A" "hq_method q = GET" shows "snd (app H q A) = A"
  using assms matched_route [of GET "hq_path q"]
  by (auto simp: app_def split: matched.split intro!: read_calls dest!: read_routes)

section \<open>A request that fails changes no table\<close>

text \<open>What raises has committed nothing.\<close>

definition unsent :: "db \<Rightarrow> 'a res \<times> world \<Rightarrow> bool" where
  "unsent d m \<longleftrightarrow> (\<forall>e w. m = (Inl e, w) \<longrightarrow> durable w = d)"

lemma unsent_Inr [simp]: "unsent d (Inr y, w)"
  by (simp add: unsent_def)

lemma unsent_Inl [simp]: "unsent d (Inl e, w) = (durable w = d)"
  by (simp add: unsent_def)

lemma unsent_execute: "durable w = d \<Longrightarrow> unsent d (execute d' w)"
  by (simp add: execute_def)

lemma unsent_and_then:
  assumes "unsent d m" "\<And>y w. m = (Inr y, w) \<Longrightarrow> unsent d (k y w)"
  shows "unsent d (and_then m k)"
proof -
  obtain r w where "m = (r, w)" by fastforce
  with assms show ?thesis by (cases r) (auto simp: and_then_def)
qed

lemma unsent_except:
  assumes "unsent d m" "\<And>w. durable w = d \<Longrightarrow> unsent d (h w)"
  shows "unsent d (except_integrity m h)"
proof -
  obtain r w where "m = (r, w)" by fastforce
  with assms show ?thesis by (cases r) (auto simp: except_integrity_def)
qed

lemma unsent_statements:
  assumes "durable w = d"
  shows "unsent d (insert_inventory i w)" "unsent d (update_inventory i w)" "unsent d (insert_product p w)"
    "unsent d (update_product_row p w)" "unsent d (delete_product_row pid w)" "unsent d (insert_shop sh w)"
    "unsent d (update_shop sh w)"
  using assms by (simp_all add: statement_defs unsent_execute)

lemma draw_durable:
  "next_uuid E w = (u, w') \<Longrightarrow> durable w' = durable w" "next_suffix E w = (sfx, w') \<Longrightarrow> durable w' = durable w"
  "new_shop E ph nm loc w = (sh, w') \<Longrightarrow> durable w' = durable w"
  by (auto simp: next_uuid_def next_suffix_def new_shop_def)

lemma rollback_durable: "durable (rollback w) = durable w"
  by (simp add: rollback_def)

lemma unsent_products:
  assumes "durable w = d"
  shows "unsent d (create_product E data w)" "unsent d (get_product pid w)" "unsent d (update_product pid u w)"
    "unsent d (delete_product pid w)"
proof -
  show g: "unsent d (get_product pid w)"
    using assms by (simp add: get_product_def split: option.split)
  have gs: "get_product pid w = (Inr p, w1) \<Longrightarrow> w1 = w" for p w1
    by (auto simp: get_product_def split: option.splits)
  obtain sfx w0 where s: "next_suffix E w = (sfx, w0)" by fastforce
  obtain u' w1 where u: "next_uuid E w0 = (u', w1)" by fastforce
  have "durable w1 = d" using draw_durable(1) [OF u] draw_durable(2) [OF s] assms by simp
  then show "unsent d (create_product E data w)"
    unfolding create_product_def by (simp add: s u Let_def unsent_except unsent_and_then unsent_statements rollback_durable)
  show "unsent d (update_product pid u w)" "unsent d (delete_product pid w)"
    using g gs assms unfolding update_product_def delete_product_def Let_def
    by (auto intro!: unsent_and_then unsent_except unsent_and_then unsent_statements simp: rollback_durable)
qed

lemma unsent_shops:
  assumes "durable w = d"
  shows "unsent d (create_shop E data w)" "unsent d (update_locale E ph loc w)"
proof -
  have n: "durable (snd (new_shop E a b c w)) = d" for a b c
    using draw_durable(3) assms by (metis prod.collapse)
  show "unsent d (create_shop E data w)" "unsent d (update_locale E ph loc w)"
    using n assms unfolding create_shop_def update_locale_def Let_def case_prod_unfold
    by (auto intro!: unsent_except unsent_and_then unsent_statements simp: rollback_durable split: option.split)
qed

text \<open>The refresh after a commit finds the row.\<close>

lemma unsent_finalize:
  assumes "durable w = d" "get_by_product_id pid (work w) = Some i" "dty = None \<or> (\<exists>r. dty = Some r \<and> i_product_id r = pid)"
  shows "unsent d (finalize_inventory pid dty True w)"
proof (cases dty)
  case None
  with assms show ?thesis by (simp add: finalize_inventory_def Let_def commit_def)
next
  case (Some r)
  with assms(3) have r: "i_product_id r = pid" by simp
  obtain x w1 where u: "update_inventory r w = (x, w1)" by fastforce
  show ?thesis
  proof (cases x)
    case (Inl e)
    have "durable w1 = d" using unsent_statements(2) [OF assms(1), of r] u Inl by (simp add: unsent_def)
    then show ?thesis using Some u Inl by (simp add: finalize_inventory_def Let_def rollback_durable)
  next
    case (Inr y)
    have "work w1 = (work w)\<lparr>inventory := map (\<lambda>j. if i_product_id j = i_product_id r then r else j) (inventory (work w))\<rparr>"
      using u Inr by (auto simp: update_inventory_def execute_def split: if_splits)
    then have "get_by_product_id pid (work w1) = Some r"
      using get_by_product_id_update [OF assms(2) r, of pid] by simp
    then show ?thesis using Some u Inr by (simp add: finalize_inventory_def Let_def commit_def)
  qed
qed

lemma unsent_inventory:
  assumes "durable w = d"
  shows "unsent d (get_stock pid w)" "unsent d (add_stock E pid n True w)" "unsent d (deduct_stock pid n True w)"
    "unsent d (update_threshold pid n True w)"
proof -
  have pid: "get_by_product_id pid (work w) = Some i \<Longrightarrow> i_product_id i = pid" for i
    using look_ups(3) by blast
  show g: "unsent d (get_stock pid w)" using assms by (simp add: get_stock_def split: option.split)
  show "unsent d (update_threshold pid n True w)"
    unfolding update_threshold_def
    by (rule unsent_and_then [OF g])
       (auto simp: get_stock_def assms pid intro!: unsent_finalize split: option.splits)
  show "unsent d (deduct_stock pid n True w)"
    unfolding deduct_stock_def Let_def
    by (auto simp: assms pid intro!: unsent_and_then unsent_finalize split: option.split)
  obtain u w0 where u: "next_uuid E w = (u, w0)" by fastforce
  have w0: "durable w0 = d" "work w0 = work w" using u assms by (auto simp: next_uuid_def)
  have row: "unsent d (add_stock_row E pid n w)"
    using u w0 assms by (auto simp: add_stock_row_def Let_def intro!: unsent_and_then unsent_statements split: option.split)
  have "unsent d (finalize_inventory pid None True w1)" if a: "add_stock_row E pid n w = (Inr i, w1)" for i w1
  proof -
    have "durable w1 = d \<and> get_by_product_id pid (work w1) \<noteq> None"
    proof (cases "get_by_product_id pid (work w)")
      case None
      have "find P (xs @ [z]) \<noteq> None" if "P z" for P z and xs :: "inventory_row list"
        using that by (simp add: find_None_iff_all)
      with None a u w0 show ?thesis
        by (auto simp: add_stock_row_def Let_def and_then_def insert_inventory_def execute_def get_by_product_id_def
            split: if_splits)
    next
      case (Some j)
      with a assms pid [OF Some] get_by_product_id_update [OF Some, of "j\<lparr>i_quantity := i_quantity j + n\<rparr>" pid] show ?thesis
        by (auto simp: add_stock_row_def Let_def and_then_def update_inventory_def execute_def split: if_splits)
    qed
    then show ?thesis by (auto intro: unsent_finalize)
  qed
  with row show "unsent d (add_stock E pid n True w)" unfolding add_stock_def by (rule unsent_and_then)
qed

text \<open>An answer of a route is a success, or the tables are what they were.\<close>

definition successes :: "int set" where
  "successes = {200, 201, 204}"

definition steady :: "'a answer \<times> world \<Rightarrow> world \<Rightarrow> bool" where
  "steady out w \<longleftrightarrow> (\<exists>n y. fst out = Answer n y \<and> n \<in> successes) \<or> work (snd out) = work w"

lemma route_steady:
  assumes "durable w = work w" "n \<in> successes" "unsent (durable w) (f w)"
  shows "steady (route n f w) w"
proof -
  obtain r w1 where f: "f w = (r, w1)" by fastforce
  show ?thesis
  proof (cases r)
    case (Inl e)
    with assms(3) f have "durable w1 = durable w" by (simp add: unsent_def)
    with f assms(1) show ?thesis by (simp add: steady_def route_def get_db_def rollback_def)
  qed (use f assms(2) in \<open>simp add: steady_def route_def get_db_def respond_def\<close>)
qed

lemma validated_steady: "steady out w \<Longrightarrow> steady (validated b out w) w"
  by (simp add: validated_def steady_def)

lemma responding_unsent: "unsent d (f w) \<Longrightarrow> unsent d (responding g f w)"
  unfolding responding_def by (rule unsent_and_then) simp_all

definition all_named :: "world \<Rightarrow> bool" where
  "all_named w \<longleftrightarrow> (\<forall>sh \<in> set (shops (work w)). sh_name sh \<noteq> None)"

lemma shop_response_unsent:
  assumes "unsent d (f w)" "\<And>sh w'. f w = (Inr sh, w') \<Longrightarrow> sh_name sh \<noteq> None"
  shows "unsent d (shop_response_of f w)"
  unfolding shop_response_of_def by (rule unsent_and_then [OF assms(1)]) (use assms(2) in \<open>auto split: option.split\<close>)

lemma new_shop_named: "sh_name (fst (new_shop E a b c w)) = Some b"
  by (simp add: new_shop_def split: prod.split)

lemma shops_answered_named:
  "create_shop E data w = (Inr sh, w') \<Longrightarrow> sh_name sh \<noteq> None"
  "all_named w \<Longrightarrow> update_locale E ph loc w = (Inr sh, w') \<Longrightarrow> sh_name sh \<noteq> None"
proof -
  show "create_shop E data w = (Inr sh, w') \<Longrightarrow> sh_name sh \<noteq> None"
    using new_shop_named [of E "cs_phone data" "cs_name data" "locale_value (cs_locale data)" w]
    by (auto simp: create_shop_def and_then_def except_integrity_def split: prod.splits sum.splits if_splits)
  have "sh_name old \<noteq> None" if "all_named w" "shop_by_phone ph (work w) = Some old" for old
    using that find_Some_mem unfolding all_named_def shop_by_phone_def by metis
  then show "all_named w \<Longrightarrow> update_locale E ph loc w = (Inr sh, w') \<Longrightarrow> sh_name sh \<noteq> None"
    using new_shop_named [of E ph "''SokoFlow Demo Shop''" "locale_value loc" w]
    by (auto simp: update_locale_def and_then_def Let_def split: option.splits prod.splits sum.splits)
qed

lemma api_steady:
  assumes "durable w = work w"
  shows "steady (api_get_stock pid w) w" "steady (api_add_stock E pid n w) w" "steady (api_deduct_stock pid n w) w"
    "steady (api_update_threshold pid n w) w" "steady (api_create_product E nm pr sid w) w"
    "steady (api_list_products sid w) w" "steady (api_get_product pid w) w" "steady (api_update_product pid nmf prf w) w"
    "steady (api_delete_product pid w) w" "steady (api_record_sale E sid pid n who w) w"
    "steady (api_create_shop E data w) w" "all_named w \<Longrightarrow> steady (api_update_shop_locale E ph loc w) w"
    "steady (api_daily_report E' sid d w) w"
proof -
  note r = route_steady [OF assms] and u = unsent_inventory [OF refl] unsent_products [OF refl] unsent_shops [OF refl]
  have ok: "200 \<in> successes" "201 \<in> successes" "204 \<in> successes" by (simp_all add: successes_def)
  have same: "snd out = w \<Longrightarrow> steady out w" for out :: "'x answer \<times> world" by (simp add: steady_def)
  show "steady (api_get_stock pid w) w" "steady (api_add_stock E pid n w) w" "steady (api_deduct_stock pid n w) w"
    "steady (api_update_threshold pid n w) w"
    unfolding api_get_stock_def api_add_stock_def api_deduct_stock_def api_update_threshold_def
    by (intro validated_steady r ok u)+
  show "steady (api_create_product E nm pr sid w) w" "steady (api_update_product pid nmf prf w) w"
    unfolding api_create_product_def api_update_product_def
    by (auto intro!: r ok responding_unsent u simp: same [of "(Unprocessable, w)"] split: sum.split)
  show "steady (api_get_product pid w) w" "steady (api_delete_product pid w) w"
    unfolding api_get_product_def api_delete_product_def by (intro r ok responding_unsent u)+
  show "steady (api_list_products sid w) w" "steady (api_daily_report E' sid d w) w"
    by (rule same, rule api_reads [OF assms])+
  have "work (snd (api_record_sale E sid pid n who w)) = work w" by (rule api_sale_lost [OF assms])
  then show "steady (api_record_sale E sid pid n who w) w" by (simp add: steady_def)
  show "steady (api_create_shop E data w) w" "all_named w \<Longrightarrow> steady (api_update_shop_locale E ph loc w) w"
    unfolding api_create_shop_def api_update_shop_locale_def
    by (intro r ok shop_response_unsent u shops_answered_named; assumption)+
qed

definition untouched :: "app_state \<Rightarrow> http_answer \<times> app_state \<Rightarrow> bool" where
  "untouched A out \<longleftrightarrow> status_of (fst out) \<in> successes \<or> work (app_world (snd out)) = work (app_world A)"

lemma with_world_untouched:
  assumes "steady (g (app_world A)) (app_world A)" shows "untouched A (with_world f g A)"
proof -
  obtain a w where "g (app_world A) = (a, w)" by fastforce
  with assms show ?thesis
    by (auto simp: untouched_def with_world_def steady_def successes_def)
qed

lemma given_untouched: "(\<And>y. x = Some y \<Longrightarrow> untouched A (f y A)) \<Longrightarrow> untouched A (given x f A)"
  by (auto simp: given_def untouched_def split: option.split)

lemma call_untouched:
  assumes "app_ok A" "all_named (app_world A)" shows "untouched A (call_endpoint H e ps q A)"
proof -
  have w: "durable (app_world A) = work (app_world A)" using assms(1) by (simp add: app_ok_def)
  note steady = api_steady [OF w]
  show ?thesis
  proof (cases e)
    case EP_Whatsapp
    obtain r rd w' where h: "webhook (hooks H) \<lparr>raw_body = hq_body q, x_hub_signature_256 = hq_signature q,
        correlation_header = hq_correlation q\<rparr> (app_redis A, app_world A) = (r, (rd, w'))" by (rule prod_cases3)
    from webhook_tables [OF h] EP_Whatsapp h show ?thesis by (simp add: post_webhook_def untouched_def)
  next
    case EP_Test
    have "untouched A (post_test H m A)" for m by (simp add: post_test_def trigger_test_def untouched_def)
    then have "untouched A (given (read_body TestMessage q) (post_test H) A)" by (intro given_untouched)
    with EP_Test show ?thesis by simp
  next
    case EP_Update_Locale
    then show ?thesis using steady(12) assms(2) by (auto intro!: given_untouched with_world_untouched)
  qed (use steady in \<open>auto simp: untouched_def [of A "(Replied n j, A)" for n j] untouched_def [of A "(Generated_Page, A)"]
        intro!: given_untouched with_world_untouched split: prod.split\<close>)
qed

lemma failure_untouched:
  assumes "app_ok A" "all_named (app_world A)" "status_of (fst (app H q A)) \<notin> successes"
  shows "work (app_world (snd (app H q A))) = work (app_world A)"
  using call_untouched [OF assms(1,2)] assms(3)
  by (auto simp: app_def untouched_def split: matched.splits)

section \<open>From the text of a request to the text of its answer\<close>

lemma hex_digits_ascii: "list_all (\<lambda>c. code c < (128 :: nat)) (hex_digits k n)"
  by (induction k arbitrary: n) (simp_all add: hex_char_ascii)

lemma uuid_ascii: "list_all (\<lambda>c. code c < (128 :: nat)) (uuid_str u)"
proof -
  have "list_all P (hyphenate h)" if "list_all P h" "P (CHR ''-'')" for P h
    using that by (auto simp: hyphenate_def list_all_iff dest!: in_set_takeD in_set_dropD)
  then show ?thesis using hex_digits_ascii by (simp add: uuid_str_def del: hex_digits.simps)
qed

text \<open>A client asks for a deduction with an object of two fields.\<close>

definition deduct_request :: "uuid \<Rightarrow> int \<Rightarrow> http_request" where
  "deduct_request pid n =
     \<lparr>hq_method = POST, hq_path = [''inventory'', ''deduct''], hq_query = [],
      hq_body = json_dumps (JObj [(''product_id'', JStr (uuid_str pid)), (''quantity'', JInt n)]),
      hq_signature = None, hq_correlation = None\<rparr>"

lemma deduct_read:
  assumes "plain (JInt n)"
  shows "read_body DeductStockRequest (deduct_request pid n) = (if 0 < n then Some (pid, n) else None)"
proof -
  let ?j = "JObj [(''product_id'', JStr (uuid_str pid)), (''quantity'', JInt n)]"
  have "unicode_text ''product_id''" "unicode_text ''quantity''" by (rule ascii_text, simp)+
  then have "plain ?j" using assms ascii_text [OF uuid_ascii] by simp
  then have "json_loads (json_dumps ?j) = Inr ?j" by (rule json_loads_dumps)
  then show ?thesis
    by (simp add: read_body_def body_fields_def deduct_request_def DeductStockRequest_def v_required_def
        v_int_where_def v_of_option_def)
qed

lemma deduct_matched: "match_route POST [''inventory'', ''deduct''] = Full EP_Deduct_Stock []"
  by code_simp

lemma deduct_answered:
  assumes "app_ok A" "plain (JInt n)" "app H (deduct_request pid n) A = (a, A')"
  shows "stock (app_world A') =
      (case stock (app_world A) pid of Some m \<Rightarrow> if 0 < n \<and> n \<le> m then (stock (app_world A))(pid \<mapsto> m - n)
          else stock (app_world A) | None \<Rightarrow> stock (app_world A))"
    "if n \<le> 0 then a = Invalid
     else case stock (app_world A) pid of
       None \<Rightarrow> status_of a = 404
     | Some m \<Rightarrow> if m < n then status_of a = 422
         else \<exists>low. a = Replied 200 (JObj [(''remaining_stock'', JInt (m - n)), (''entered_low_stock'', JBool low)])"
proof -
  have out: "app H (deduct_request pid n) A =
      (if 0 < n then with_world StockDeductionResult (api_deduct_stock pid n) A else (Invalid, A))"
    using deduct_read [OF assms(2), of pid]
    by (simp add: app_def deduct_request_def deduct_matched given_def del: json_dumps.simps)
  obtain b w where d: "api_deduct_stock pid n (app_world A) = (b, w)" by fastforce
  show "stock (app_world A') =
      (case stock (app_world A) pid of Some m \<Rightarrow> if 0 < n \<and> n \<le> m then (stock (app_world A))(pid \<mapsto> m - n)
          else stock (app_world A) | None \<Rightarrow> stock (app_world A))"
    "if n \<le> 0 then a = Invalid
     else case stock (app_world A) pid of
       None \<Rightarrow> status_of a = 404
     | Some m \<Rightarrow> if m < n then status_of a = 422
         else \<exists>low. a = Replied 200 (JObj [(''remaining_stock'', JInt (m - n)), (''entered_low_stock'', JBool low)])"
    using api_deduct_answers [OF _ _ _ d] assms(1,3) out d
    by (auto simp: app_ok_def with_world_def StockDeductionResult_def split: option.splits if_splits)
qed

end
