(* ===== verification/Pool.thy ===== *)
theory Pool
  imports Worker
begin

text \<open>
  Several workers on the same stores. A conversation task reads the session, processes the
  message in one transaction and then saves and replies; the steps of different workers
  interleave in any order. The transactions are serial here; \<open>Locking\<close> shows for those that write
  stock that overlapping ones are as good as serial. The compare-and-set keeps the stored
  sessions consistent and refuses a writer whose state is stale, but the transaction of the
  refused task has been committed before.
\<close>

datatype phase =
    Free
  | Processing inbound_payload "user_session option"
  | Replying inbound_payload "user_session option" processed

record pool =
  workers :: "nat \<Rightarrow> phase"
  sys :: system

definition set_worker :: "nat \<Rightarrow> phase \<Rightarrow> system \<Rightarrow> pool \<Rightarrow> pool" where
  "set_worker i ph S P = \<lparr>workers = (workers P)(i := ph), sys = S\<rparr>"

inductive pool_step :: "('z worker_env_scheme \<Rightarrow> bool) \<Rightarrow> message_sender \<Rightarrow> pool \<Rightarrow> pool \<Rightarrow> bool" for ok snd' where
  taken: "workers P i = Free \<Longrightarrow>
    pool_step ok snd' P (set_worker i (Processing p (get_session (sender p) (sys_redis (sys P)))) (sys P) P)"
| processed: "\<lbrakk>workers P i = Processing p old; ok E; process_phase E p old (sys_world (sys P)) = (Inr x, w)\<rbrakk> \<Longrightarrow>
    pool_step ok snd' P (set_worker i (Replying p old x) ((sys P)\<lparr>sys_world := w\<rparr>) P)"
| raised: "\<lbrakk>workers P i = Processing p old; ok E; process_phase E p old (sys_world (sys P)) = (Inl e, w)\<rbrakk> \<Longrightarrow>
    pool_step ok snd' P (set_worker i Free ((sys P)\<lparr>sys_world := w\<rparr>) P)"
| replied: "\<lbrakk>workers P i = Replying p old x; ok E; reply_phase E snd' p old x (sys P) = (res, S)\<rbrakk> \<Longrightarrow>
    pool_step ok snd' P (set_worker i Free S P)"
| elapsed: "clock (sys_redis (sys P)) \<le> t \<Longrightarrow>
    pool_step ok snd' P (P\<lparr>sys := (sys P)\<lparr>sys_redis := (sys_redis (sys P))\<lparr>clock := t\<rparr>\<rparr>\<rparr>)"

abbreviation pool_reaches where
  "pool_reaches ok snd' \<equiv> (pool_step ok snd')\<^sup>*\<^sup>*"

section \<open>The invariant\<close>

fun phase_ok :: "phase \<Rightarrow> bool" where
  "phase_ok Free = True"
| "phase_ok (Processing p old) = own_session (sender p) old"
| "phase_ok (Replying p old x) = (own_session (sender p) old \<and> good_processed (sender p) x)"

definition pool_ok :: "pool \<Rightarrow> bool" where
  "pool_ok P \<longleftrightarrow> system_ok (sys P) \<and> (\<forall>i. phase_ok (workers P i))"

lemma pool_ok_set:
  "pool_ok P \<Longrightarrow> system_ok S \<Longrightarrow> phase_ok ph \<Longrightarrow> pool_ok (set_worker i ph S P)"
  by (simp add: pool_ok_def set_worker_def)

lemma pool_ok_phase: "pool_ok P \<Longrightarrow> workers P i = ph \<Longrightarrow> phase_ok ph"
  by (auto simp: pool_ok_def)

lemma pool_ok_sys: "pool_ok P \<Longrightarrow> system_ok (sys P)"
  by (simp add: pool_ok_def)

lemma pool_step_ok:
  assumes "pool_step ok snd' P Q" "pool_ok P" "\<And>E. ok E \<Longrightarrow> trigram_law E"
  shows "pool_ok Q"
  using assms(1)
proof (cases rule: pool_step.cases)
  case (taken i p)
  have "store_inv (sys_redis (sys P))" using pool_ok_sys [OF assms(2)] by (simp add: system_ok_def)
  then show ?thesis
    unfolding taken(1) using pool_ok_sys [OF assms(2)]
    by (intro pool_ok_set [OF assms(2)]) (simp_all add: store_read)
next
  case (processed i p old E x w)
  have own: "own_session (sender p) old" using pool_ok_phase [OF assms(2) processed(2)] by simp
  have "world_ok (sys_world (sys P))" using assms(2) by (simp add: pool_ok_def system_ok_def)
  from process_phase_ok [OF own this assms(3) [OF processed(3)] processed(4)] own
  show ?thesis
    unfolding processed(1) using pool_ok_sys [OF assms(2)]
    by (intro pool_ok_set [OF assms(2)]) (simp_all add: system_ok_def)
next
  case (raised i p old E e w)
  have own: "own_session (sender p) old" using pool_ok_phase [OF assms(2) raised(2)] by simp
  have "world_ok (sys_world (sys P))" using assms(2) by (simp add: pool_ok_def system_ok_def)
  from process_phase_ok(1) [OF own this assms(3) [OF raised(3)] raised(4)]
  show ?thesis
    unfolding raised(1) using pool_ok_sys [OF assms(2)]
    by (intro pool_ok_set [OF assms(2)]) (simp_all add: system_ok_def)
next
  case (replied i p old x E res S)
  have good: "good_processed (sender p) x" using pool_ok_phase [OF assms(2) replied(2)] by simp
  have "system_ok S"
    using reply_phase_store [of "sys P" p x E snd' old] reply_phase_world [of E snd' p old x "sys P"]
      good pool_ok_sys [OF assms(2)] replied(4) by (simp add: system_ok_def)
  then show ?thesis unfolding replied(1) by (intro pool_ok_set [OF assms(2)]) simp_all
next
  case (elapsed t)
  then show ?thesis using assms(2) by (simp add: pool_ok_def system_ok_def store_inv_def)
qed

lemma pool_reaches_ok:
  assumes "pool_reaches ok snd' P Q" "pool_ok P" "\<And>E. ok E \<Longrightarrow> trigram_law E"
  shows "pool_ok Q"
  using assms(1)
proof (induction rule: rtranclp_induct)
  case (step Q R)
  from pool_step_ok [OF step.hyps(2) step.IH assms(3)] show ?case .
qed (rule assms(2))

text \<open>A pool at rest on an empty store.\<close>

definition resting :: "world \<Rightarrow> pool" where
  "resting w = \<lparr>workers = (\<lambda>_. Free), sys = \<lparr>sys_redis = empty_redis, sys_world = w, sys_sent = []\<rparr>\<rparr>"

lemma resting_ok [simp]: "world_ok w \<Longrightarrow> pool_ok (resting w)"
  by (simp add: resting_def pool_ok_def system_ok_def store_inv_def empty_redis_def)

section \<open>Two workers on one session\<close>

text \<open>
  Once a worker has stored another state, a second worker that read the same session is refused:
  the stored session stays, nothing is sent, and the database keeps what the second worker's
  transaction committed.
\<close>

lemma stale_worker_refused:
  assumes "system_ok S" "0 < session_ttl_seconds (cfg E)"
    "good_processed ph (r1, s1, l1)" "good_processed ph (r2, s2, l2)" "sender p1 = ph" "sender p2 = ph"
    "reply_phase E snd' p1 old (r1, s1, l1) S = (Inr answer1, S1)" "sstate s1 \<noteq> expected_state old"
  shows "reply_phase E snd' p2 old (r2, s2, l2) S1 = (Inl (SessionStateMismatchError ph), S1)"
    "get_session ph (sys_redis S1) = Some s1"
proof -
  from assms(7) have good: "good_processed (sender p1) (r1, s1, l1)" using assms(3,5) by simp
  have saved: "save_session ph s1 old (session_ttl_seconds (cfg E)) (sys_redis S) = (Inr (), sys_redis S1)"
    using assms(7) good
  proof (cases rule: reply_phase_cases)
    case (sent text' q)
    with assms(5) show ?thesis by simp
  qed simp
  obtain n where n: "session_ttl_seconds (cfg E) = int (Suc n)"
    using assms(2) by (metis pos_int_cases Suc_pred')
  have enc: "encodable s1" using good by (simp add: good_processed_def session_inv_def)
  note st = conversation_store.save_stores [OF enc saved [unfolded n]]
  then show "get_session ph (sys_redis S1) = Some s1" by simp
  from st save_session_mismatch [of ph "sys_redis S1" s1 old s2 "session_ttl_seconds (cfg E)"] assms(8)
  show "reply_phase E snd' p2 old (r2, s2, l2) S1 = (Inl (SessionStateMismatchError ph), S1)"
    using assms(6) by (auto simp: reply_phase_def)
qed

end
