(* ===== verification/Locking.thy ===== *)
theory Locking
  imports Sales
begin

text \<open>
  Transactions that overlap. A sale (\<open>SalesService.record_sale\<close> with \<open>InventoryService.deduct_stock\<close>)
  checks its product, takes the row lock of the stock with \<open>SELECT ... FOR UPDATE\<close>, writes the
  quantity it computed from the locked row and inserts the sale, and is committed at the end of
  \<open>get_worker_db\<close>; until then nothing of it is seen by another transaction. An addition of stock is
  one statement, which waits for the row lock and holds it until its commit. A change of the threshold reads the row without
  a lock; its \<open>UPDATE\<close> writes the threshold column alone, waits for the row lock, and is not sent
  when the row was read with that threshold already. A transaction may be lost at any moment.
  Products and shops do not change meanwhile, and stock rows are never deleted.

  The journal lists the operations in the order in which they ended, with what they answered. The
  result of the theory is that replaying the journal one operation after the other, with the
  sequential operations of \<open>Inventory\<close> and \<open>Sales\<close>, gives the same answers and the same tables.
\<close>

section \<open>Transactions and their steps\<close>

record sale_request =
  rq_shop :: uuid
  rq_product :: uuid
  rq_quantity :: int
  rq_by :: string

text \<open>
  A staged sale keeps the number of the draw of its identifier, the row it has locked, and its row
  of \<open>sales\<close>.
\<close>

datatype tx =
    Begun sale_request
  | Checked sale_request product_row
  | Locked sale_request product_row inventory_row
  | Staged sale_request nat inventory_row sale_row
  | ThresholdRead uuid int inventory_row
  | Ended

datatype entry =
    SaleEntry nat nat sale_request
  | AddEntry nat nat uuid int
  | ThresholdEntry uuid int

datatype answer = SaleAnswer "sale_result res" | RowAnswer "inventory_row res"

record lock_state =
  committed :: db
  row_locks :: "uuid \<Rightarrow> nat option"
  open_txs :: "nat \<Rightarrow> tx option"
  draws :: nat
  journal :: "(entry \<times> answer) list"

text \<open>The two column updates, as the object-relational mapper sends them.\<close>

definition set_quantity :: "uuid \<Rightarrow> int \<Rightarrow> db \<Rightarrow> db" where
  "set_quantity iid n d =
     d\<lparr>inventory := map (\<lambda>j. if i_id j = iid then j\<lparr>i_quantity := n\<rparr> else j) (inventory d)\<rparr>"

definition set_threshold :: "uuid \<Rightarrow> int \<Rightarrow> db \<Rightarrow> db" where
  "set_threshold iid th d =
     d\<lparr>inventory := map (\<lambda>j. if i_id j = iid then j\<lparr>i_threshold := th\<rparr> else j) (inventory d)\<rparr>"

text \<open>The tables with the writes of a sale that has locked the row \<open>i\<close>.\<close>

definition sale_writes :: "inventory_row \<Rightarrow> sale_row \<Rightarrow> db \<Rightarrow> db" where
  "sale_writes i sale d =
     (set_quantity (i_id i) (i_quantity i - s_quantity sale) d)\<lparr>sales := sales d @ [sale]\<rparr>"

definition new_sale :: "'z db_env_scheme \<Rightarrow> nat \<Rightarrow> sale_request \<Rightarrow> product_row \<Rightarrow> sale_row" where
  "new_sale E n r p =
     \<lparr>s_id = gen_random_uuid E n, s_shop_id = rq_shop r, s_product_id = rq_product r,
      s_quantity = rq_quantity r, s_unit_price = p_price p, s_recorded_by = rq_by r,
      s_created = now E\<rparr>"

definition sale_answer :: "inventory_row \<Rightarrow> sale_row \<Rightarrow> sale_result" where
  "sale_answer i sale =
     (let n = i_quantity i - s_quantity sale in
      \<lparr>sr_sale = sale, sr_remaining = n,
       sr_entered_low = should_send_low_stock_alert (i_quantity i \<le> i_threshold i) (n \<le> i_threshold i)\<rparr>)"

definition violation :: "db \<Rightarrow> exc" where
  "violation d = (if types_ok d then IntegrityError else DataError)"

definition release :: "nat \<Rightarrow> (uuid \<Rightarrow> nat option) \<Rightarrow> uuid \<Rightarrow> nat option" where
  "release t L k = (if L k = Some t then None else L k)"

definition set_tx :: "nat \<Rightarrow> tx \<Rightarrow> lock_state \<Rightarrow> lock_state" where
  "set_tx t T S = S\<lparr>open_txs := (open_txs S)(t \<mapsto> T)\<rparr>"

text \<open>The end of a transaction: its locks are released; \<open>finish\<close> answers it too.\<close>

definition close_tx :: "nat \<Rightarrow> lock_state \<Rightarrow> lock_state" where
  "close_tx t S = (set_tx t Ended S)\<lparr>row_locks := release t (row_locks S)\<rparr>"

definition finish :: "nat \<Rightarrow> entry \<Rightarrow> answer \<Rightarrow> db \<Rightarrow> lock_state \<Rightarrow> lock_state" where
  "finish t e x d S =
     (close_tx t S)\<lparr>committed := d, draws := Suc (draws S), journal := journal S @ [(e, x)]\<rparr>"

definition refuse :: "nat \<Rightarrow> sale_request \<Rightarrow> exc \<Rightarrow> lock_state \<Rightarrow> lock_state" where
  "refuse t r e S = finish t (SaleEntry t (draws S) r) (SaleAnswer (Inl e)) (committed S) S"

section \<open>The sequential operations, one after the other\<close>

definition at_rest :: "nat \<Rightarrow> db \<Rightarrow> world" where
  "at_rest n d = \<lparr>durable = d, work = d, ticks = n, tasks = []\<rparr>"

fun run_entry :: "(nat \<Rightarrow> 'z db_env_scheme) \<Rightarrow> entry \<Rightarrow> db \<Rightarrow> answer \<times> db" where
  "run_entry E (SaleEntry t n r) d =
     (case get_worker_db (record_sale (E t) (rq_shop r) (rq_product r) (rq_quantity r) (rq_by r))
             (at_rest n d) of
        (x, w) \<Rightarrow> (SaleAnswer x, durable w))"
| "run_entry E (AddEntry t n pid q) d =
     (case add_stock (E t) pid q True (at_rest n d) of (x, w) \<Rightarrow> (RowAnswer x, durable w))"
| "run_entry E (ThresholdEntry pid th) d =
     (case update_threshold pid th True (at_rest 0 d) of (x, w) \<Rightarrow> (RowAnswer x, durable w))"

fun replay :: "(nat \<Rightarrow> 'z db_env_scheme) \<Rightarrow> entry list \<Rightarrow> db \<Rightarrow> answer list \<times> db" where
  "replay E [] d = ([], d)"
| "replay E (e # es) d =
     (let (x, d1) = run_entry E e d; (xs, d2) = replay E es d1 in (x # xs, d2))"

section \<open>The interleaving\<close>

text \<open>
  An insert whose key another transaction has staged waits for it; the column \<open>id\<close> is the only
  unique one a sale writes.
\<close>

definition id_staged :: "nat \<Rightarrow> uuid \<Rightarrow> lock_state \<Rightarrow> bool" where
  "id_staged t u S \<longleftrightarrow>
     (\<exists>t' r n i sale. t' \<noteq> t \<and> open_txs S t' = Some (Staged r n i sale) \<and> s_id sale = u)"

inductive lock_step :: "(nat \<Rightarrow> 'z db_env_scheme) \<Rightarrow> lock_state \<Rightarrow> lock_state \<Rightarrow> bool" for E where
  begun: "\<lbrakk>open_txs S t = None; 0 < rq_quantity r\<rbrakk> \<Longrightarrow> lock_step E S (set_tx t (Begun r) S)"
| no_product: "\<lbrakk>open_txs S t = Some (Begun r); product_by_id (rq_product r) (committed S) = None\<rbrakk> \<Longrightarrow>
    lock_step E S (refuse t r (product_not_found (rq_product r)) S)"
| wrong_shop: "\<lbrakk>open_txs S t = Some (Begun r); product_by_id (rq_product r) (committed S) = Some p;
    p_shop_id p \<noteq> rq_shop r\<rbrakk> \<Longrightarrow>
    lock_step E S (refuse t r
      (ResourceConflictException ''Product does not belong to the specified shop.'') S)"
| checked: "\<lbrakk>open_txs S t = Some (Begun r); product_by_id (rq_product r) (committed S) = Some p;
    p_shop_id p = rq_shop r\<rbrakk> \<Longrightarrow> lock_step E S (set_tx t (Checked r p) S)"
| no_stock: "\<lbrakk>open_txs S t = Some (Checked r p);
    get_by_product_id (rq_product r) (committed S) = None\<rbrakk> \<Longrightarrow>
    lock_step E S (refuse t r (stock_not_found (rq_product r)) S)"
| locked: "\<lbrakk>open_txs S t = Some (Checked r p); row_locks S (rq_product r) = None;
    get_by_product_id (rq_product r) (committed S) = Some i\<rbrakk> \<Longrightarrow>
    lock_step E S ((set_tx t (Locked r p i) S)\<lparr>row_locks := (row_locks S)(rq_product r \<mapsto> t)\<rparr>)"
| insufficient: "\<lbrakk>open_txs S t = Some (Locked r p i); is_insufficient_stock (rq_quantity r) (i_quantity i)\<rbrakk> \<Longrightarrow>
    lock_step E S (refuse t r
      (InsufficientStockException (uuid_str (rq_product r)) (rq_quantity r) (i_quantity i)) S)"
| staged: "\<lbrakk>open_txs S t = Some (Locked r p i); \<not> is_insufficient_stock (rq_quantity r) (i_quantity i);
    sale = new_sale (E t) (draws S) r p; \<not> id_staged t (s_id sale) S;
    db_ok (sale_writes i sale (committed S))\<rbrakk> \<Longrightarrow>
    lock_step E S ((set_tx t (Staged r (draws S) i sale) S)\<lparr>draws := Suc (draws S)\<rparr>)"
| rejected: "\<lbrakk>open_txs S t = Some (Locked r p i); \<not> is_insufficient_stock (rq_quantity r) (i_quantity i);
    sale = new_sale (E t) (draws S) r p; \<not> id_staged t (s_id sale) S;
    \<not> db_ok (sale_writes i sale (committed S))\<rbrakk> \<Longrightarrow>
    lock_step E S (refuse t r (violation (sale_writes i sale (committed S))) S)"
| sold: "open_txs S t = Some (Staged r n i sale) \<Longrightarrow>
    lock_step E S (finish t (SaleEntry t n r) (SaleAnswer (Inr (sale_answer i sale)))
      (sale_writes i sale (committed S)) S)"
| lost: "open_txs S t = Some T \<Longrightarrow> lock_step E S (close_tx t S)"
| added: "\<lbrakk>open_txs S t = None; row_locks S pid = None;
    run_entry E (AddEntry t (draws S) pid q) (committed S) = (x, d)\<rbrakk> \<Longrightarrow>
    lock_step E S (finish t (AddEntry t (draws S) pid q) x d S)"
| threshold_missing: "\<lbrakk>open_txs S t = None; get_by_product_id pid (committed S) = None\<rbrakk> \<Longrightarrow>
    lock_step E S (finish t (ThresholdEntry pid th) (RowAnswer (Inl (stock_not_found pid))) (committed S) S)"
| threshold_read: "\<lbrakk>open_txs S t = None; get_by_product_id pid (committed S) = Some i\<rbrakk> \<Longrightarrow>
    lock_step E S (set_tx t (ThresholdRead pid th i) S)"
| threshold_unchanged: "\<lbrakk>open_txs S t = Some (ThresholdRead pid th i); i_threshold i = th\<rbrakk> \<Longrightarrow>
    lock_step E S (close_tx t S)"
| threshold_rejected: "\<lbrakk>open_txs S t = Some (ThresholdRead pid th i); i_threshold i \<noteq> th;
    row_locks S pid = None; d = set_threshold (i_id i) th (committed S); \<not> db_ok d\<rbrakk> \<Longrightarrow>
    lock_step E S (finish t (ThresholdEntry pid th) (RowAnswer (Inl (violation d))) (committed S) S)"
| threshold_written: "\<lbrakk>open_txs S t = Some (ThresholdRead pid th i); i_threshold i \<noteq> th;
    row_locks S pid = None; d = set_threshold (i_id i) th (committed S); db_ok d;
    get_by_product_id pid d = Some j\<rbrakk> \<Longrightarrow>
    lock_step E S (finish t (ThresholdEntry pid th) (RowAnswer (Inr j)) d S)"

abbreviation lock_reaches where
  "lock_reaches E \<equiv> (lock_step E)\<^sup>*\<^sup>*"

definition unlocked :: "db \<Rightarrow> lock_state" where
  "unlocked d = \<lparr>committed = d, row_locks = Map.empty, open_txs = Map.empty, draws = 0, journal = []\<rparr>"

section \<open>One sale, one answer\<close>

lemma row_by_id:
  assumes "db_ok d" "get_by_product_id pid d = Some i" "j \<in> set (inventory d)"
  shows "i_id j = i_id i \<longleftrightarrow> j = i" "i_product_id j = pid \<longleftrightarrow> j = i"
proof -
  have i: "i \<in> set (inventory d)" "i_product_id i = pid" using assms(2) look_ups(3) by blast+
  have "distinct (map i_id (inventory d))" "distinct (map i_product_id (inventory d))"
    using assms(1) by (simp_all add: db_ok_def constraints_def inventory_constraints_def)
  then show "i_id j = i_id i \<longleftrightarrow> j = i" "i_product_id j = pid \<longleftrightarrow> j = i"
    using i assms(3) by (auto simp: distinct_map dest: inj_onD)
qed

text \<open>A column update by identifier is the sequential model's update of the whole row.\<close>

lemma set_columns:
  assumes "db_ok d" "get_by_product_id pid d = Some i"
  shows "set_quantity (i_id i) n d = d\<lparr>inventory := map (\<lambda>j. if i_product_id j = pid
      then i\<lparr>i_quantity := n\<rparr> else j) (inventory d)\<rparr>" (is ?q)
    "set_threshold (i_id i) th d = d\<lparr>inventory := map (\<lambda>j. if i_product_id j = pid
      then i\<lparr>i_threshold := th\<rparr> else j) (inventory d)\<rparr>" (is ?t)
proof -
  have "(if i_id j = i_id i then f j else j) = (if i_product_id j = pid then f i else j)"
    if "j \<in> set (inventory d)" for j and f :: "inventory_row \<Rightarrow> inventory_row"
    using row_by_id [OF assms that] by auto
  then show ?q ?t by (simp_all add: set_quantity_def set_threshold_def cong: map_cong)
qed

lemma record_sale_serial:
  assumes "db_ok d" "product_by_id (rq_product r) d = Some p" "p_shop_id p = rq_shop r"
    "get_by_product_id (rq_product r) d = Some i" "0 < rq_quantity r"
    "sale = new_sale (E t) n r p"
  shows "run_entry E (SaleEntry t n r) d =
    (if is_insufficient_stock (rq_quantity r) (i_quantity i)
     then (SaleAnswer (Inl (InsufficientStockException (uuid_str (rq_product r)) (rq_quantity r)
             (i_quantity i))), d)
     else if db_ok (sale_writes i sale d) then (SaleAnswer (Inr (sale_answer i sale)), sale_writes i sale d)
     else (SaleAnswer (Inl (violation (sale_writes i sale d))), d))"
proof (cases "is_insufficient_stock (rq_quantity r) (i_quantity i)")
  case True
  with assms(2-4) show ?thesis
    by (simp add: at_rest_def get_worker_db_def record_sale_def begin_nested_def deduct_stock_def rollback_def)
next
  case False
  let ?i = "i\<lparr>i_quantity := i_quantity i - rq_quantity r\<rparr>"
  let ?d = "d\<lparr>inventory := map (\<lambda>j. if i_product_id j = rq_product r then ?i else j) (inventory d)\<rparr>"
  have "world_ok (at_rest n d)" using assms(1) by (simp add: world_ok_def at_rest_def)
  from deduct_succeeds [OF this _ _ _, of "rq_product r" i "rq_quantity r" False] assms(4,5) False
  have ded: "deduct_stock (rq_product r) (rq_quantity r) False (at_rest n d) =
    (Inr \<lparr>remaining_stock = i_quantity i - rq_quantity r,
          entered_low_stock = (i_threshold i < i_quantity i \<and> i_quantity i - rq_quantity r \<le> i_threshold i)\<rparr>,
     (at_rest n d)\<lparr>work := ?d\<rparr>)"
    by (simp add: is_insufficient_stock_def at_rest_def)
  have w: "sale_writes i sale d = ?d\<lparr>sales := sales d @ [sale]\<rparr>"
    using set_columns(1) [OF assms(1,4)] by (simp add: sale_writes_def assms(6) new_sale_def)
  have low: "should_send_low_stock_alert (i_quantity i \<le> i_threshold i) (i_quantity i - rq_quantity r \<le> i_threshold i)
      = (i_threshold i < i_quantity i \<and> i_quantity i - rq_quantity r \<le> i_threshold i)"
    by (auto simp: should_send_low_stock_alert_def)
  have sale: "sale = \<lparr>s_id = gen_random_uuid (E t) n, s_shop_id = rq_shop r, s_product_id = rq_product r,
      s_quantity = rq_quantity r, s_unit_price = p_price p, s_recorded_by = rq_by r, s_created = now (E t)\<rparr>"
    using assms(6) by (simp add: new_sale_def)
  have q: "s_quantity sale = rq_quantity r" using assms(6) by (simp add: new_sale_def)
  show ?thesis
    using False assms(2,3) ded w low q
    by (simp add: get_worker_db_def record_sale_def begin_nested_def next_uuid_def insert_sale_def
        execute_def at_rest_def rollback_def commit_def sale_answer_def violation_def db_ok_def Let_def
        flip: sale)
qed

lemma record_sale_serial_refused:
  shows "product_by_id (rq_product r) d = None \<Longrightarrow>
      run_entry E (SaleEntry t n r) d = (SaleAnswer (Inl (product_not_found (rq_product r))), d)"
    "product_by_id (rq_product r) d = Some p \<Longrightarrow> p_shop_id p \<noteq> rq_shop r \<Longrightarrow>
      run_entry E (SaleEntry t n r) d = (SaleAnswer (Inl (ResourceConflictException
        ''Product does not belong to the specified shop.'')), d)"
    "product_by_id (rq_product r) d = Some p \<Longrightarrow> p_shop_id p = rq_shop r \<Longrightarrow>
      get_by_product_id (rq_product r) d = None \<Longrightarrow>
      run_entry E (SaleEntry t n r) d = (SaleAnswer (Inl (stock_not_found (rq_product r))), d)"
  by (simp_all add: at_rest_def get_worker_db_def record_sale_def begin_nested_def deduct_stock_def
      rollback_def)

lemma threshold_serial:
  assumes "db_ok d" "get_by_product_id pid d = Some i" "d' = set_threshold (i_id i) th d"
  shows "run_entry E (ThresholdEntry pid th) d =
    (if db_ok d' then (RowAnswer (Inr (i\<lparr>i_threshold := th\<rparr>)), d')
     else (RowAnswer (Inl (violation d')), d))"
    "get_by_product_id k d' = (if k = pid then Some (i\<lparr>i_threshold := th\<rparr>) else get_by_product_id k d)"
proof -
  have pid: "i_product_id i = pid" using assms(2) look_ups(3) by blast
  have d': "d' = d\<lparr>inventory := map (\<lambda>j. if i_product_id j = pid
      then i\<lparr>i_threshold := th\<rparr> else j) (inventory d)\<rparr>"
    using set_columns(2) [OF assms(1,2)] assms(3) by simp
  from get_by_product_id_update [OF assms(2), of "i\<lparr>i_threshold := th\<rparr>"] pid
  show look: "get_by_product_id k d' = (if k = pid then Some (i\<lparr>i_threshold := th\<rparr>) else get_by_product_id k d)"
    for k by (simp add: d')
  have "update_inventory (i\<lparr>i_threshold := th\<rparr>) (at_rest 0 d) = execute d' (at_rest 0 d)"
    by (simp add: update_inventory_def d' at_rest_def pid)
  then show "run_entry E (ThresholdEntry pid th) d =
    (if db_ok d' then (RowAnswer (Inr (i\<lparr>i_threshold := th\<rparr>)), d')
     else (RowAnswer (Inl (violation d')), d))"
    using assms(2) look [of pid]
    by (simp add: update_threshold_def get_stock_def finalize_inventory_def execute_def violation_def
        db_ok_def at_rest_def commit_def rollback_def)
qed

lemma threshold_serial_missing:
  "get_by_product_id pid d = None \<Longrightarrow>
   run_entry E (ThresholdEntry pid th) d = (RowAnswer (Inl (stock_not_found pid)), d)"
  by (simp add: update_threshold_def get_stock_def at_rest_def)

section \<open>What the other transactions may do\<close>

lemma find_snoc:
  "find P (xs @ [x]) = (case find P xs of None \<Rightarrow> if P x then Some x else None | Some y \<Rightarrow> Some y)"
  by (induction xs) auto

lemma add_serial_frame:
  assumes "db_ok d" "run_entry E (AddEntry t n pid q) d = (x, d')"
  shows "db_ok d'" "shops d' = shops d" "products d' = products d" "sales d' = sales d"
    "k \<noteq> pid \<Longrightarrow> get_by_product_id k d' = get_by_product_id k d"
    "get_by_product_id k d = Some i \<Longrightarrow> \<exists>j. get_by_product_id k d' = Some j \<and> i_id j = i_id i"
proof -
  obtain w where w: "add_stock (E t) pid q True (at_rest n d) = (fst (add_stock (E t) pid q True (at_rest n d)), w)"
      "d' = durable w"
    using assms(2) by (auto split: prod.splits)
  have "world_ok (at_rest n d)" using assms(1) by (simp add: world_ok_def at_rest_def)
  with inventory_ops_ok(1) [of "at_rest n d" "E t" pid q True] w show "db_ok d'"
    by (metis snd_conv world_ok_def)
  have "d' = d \<or> (\<exists>i. get_by_product_id pid d = Some i \<and> d' = d\<lparr>inventory :=
        map (\<lambda>j. if i_product_id j = pid then i\<lparr>i_quantity := i_quantity i + q\<rparr> else j) (inventory d)\<rparr>)
      \<or> (\<exists>u. get_by_product_id pid d = None \<and> d' = d\<lparr>inventory := inventory d @
        [\<lparr>i_id = u, i_product_id = pid, i_quantity = q, i_threshold = 5\<rparr>]\<rparr>)"
    using w look_ups(3) [of pid d]
    by (auto simp: add_stock_def add_stock_row_def update_inventory_def insert_inventory_def execute_def
        finalize_inventory_def next_uuid_def Let_def at_rest_def and_then_def rollback_def commit_def
        split: if_splits option.splits)
  then consider "d' = d"
    | i where "get_by_product_id pid d = Some i" "d' = d\<lparr>inventory :=
        map (\<lambda>j. if i_product_id j = pid then i\<lparr>i_quantity := i_quantity i + q\<rparr> else j) (inventory d)\<rparr>"
    | u where "get_by_product_id pid d = None" "d' = d\<lparr>inventory := inventory d @
        [\<lparr>i_id = u, i_product_id = pid, i_quantity = q, i_threshold = 5\<rparr>]\<rparr>"
    by blast
  then have "shops d' = shops d \<and> products d' = products d \<and> sales d' = sales d \<and>
     (k \<noteq> pid \<longrightarrow> get_by_product_id k d' = get_by_product_id k d) \<and>
     (\<forall>i. get_by_product_id k d = Some i \<longrightarrow> (\<exists>j. get_by_product_id k d' = Some j \<and> i_id j = i_id i))"
  proof cases
    case (2 i)
    have "i_product_id i = pid" using 2(1) look_ups(3) by blast
    with 2 get_by_product_id_update [OF 2(1), of "i\<lparr>i_quantity := i_quantity i + q\<rparr>" k] show ?thesis by auto
  next
    case (3 u)
    have "get_by_product_id k d' = (case get_by_product_id k d of None \<Rightarrow>
        if k = pid then Some \<lparr>i_id = u, i_product_id = pid, i_quantity = q, i_threshold = 5\<rparr> else None
      | Some i \<Rightarrow> Some i)"
      unfolding 3(2) get_by_product_id_def by (simp add: find_snoc)
    with 3 show ?thesis by (auto split: option.split)
  qed simp
  then show "shops d' = shops d" "products d' = products d" "sales d' = sales d"
    "k \<noteq> pid \<Longrightarrow> get_by_product_id k d' = get_by_product_id k d"
    "get_by_product_id k d = Some i \<Longrightarrow> \<exists>j. get_by_product_id k d' = Some j \<and> i_id j = i_id i"
    by blast+
qed

lemma sale_writes_look:
  assumes "db_ok d" "get_by_product_id pid d = Some i"
  shows "get_by_product_id k (sale_writes i sale d) = (if k = pid
    then Some (i\<lparr>i_quantity := i_quantity i - s_quantity sale\<rparr>) else get_by_product_id k d)"
  using stock_sales_update [OF assms(2), where k = k and n = "i_quantity i - s_quantity sale"
      and ss = "sales d @ [sale]"]
    set_columns(1) [OF assms, of "i_quantity i - s_quantity sale"] by (simp add: sale_writes_def)

lemma sale_writes_ok:
  assumes "db_ok d" "get_by_product_id pid d = Some i" "0 < s_quantity sale" "s_quantity sale \<le> i_quantity i"
  shows "db_ok (sale_writes i sale d) \<longleftrightarrow>
    sale_types sale \<and> s_id sale \<notin> s_id ` set (sales d) \<and> s_shop_id sale \<in> sh_id ` set (shops d) \<and>
    s_product_id sale \<in> p_id ` set (products d)"
proof -
  let ?d = "set_quantity (i_id i) (i_quantity i - s_quantity sale) d"
  have "i_quantity i < 2 ^ 31" using inventory_row_ok [OF assms(1,2)] by simp
  then have ok: "db_ok ?d"
    unfolding set_columns(1) [OF assms(1,2)] using assms(3,4)
    by (intro db_ok_update_inventory [OF assms(1,2)]) simp_all
  have "sales ?d = sales d" "shops ?d = shops d" "products ?d = products d" by (simp_all add: set_quantity_def)
  moreover have "list_all sale_types (sales d)" "sale_constraints d"
    using assms(1) by (simp_all add: db_ok_def types_ok_def constraints_def)
  ultimately show ?thesis
    unfolding sale_writes_def db_ok_sales [OF ok] using assms(3) by (auto simp: sale_constraints_def)
qed

section \<open>The invariant\<close>

definition fits :: "lock_state \<Rightarrow> sale_request \<Rightarrow> product_row \<Rightarrow> bool" where
  "fits S r p \<longleftrightarrow> 0 < rq_quantity r \<and> product_by_id (rq_product r) (committed S) = Some p \<and>
     p_shop_id p = rq_shop r"

text \<open>The holder of a row lock sees the committed row.\<close>

definition holds :: "lock_state \<Rightarrow> nat \<Rightarrow> uuid \<Rightarrow> inventory_row \<Rightarrow> bool" where
  "holds S t pid i \<longleftrightarrow> row_locks S pid = Some t \<and> get_by_product_id pid (committed S) = Some i"

fun tx_ok :: "(nat \<Rightarrow> 'z db_env_scheme) \<Rightarrow> lock_state \<Rightarrow> nat \<Rightarrow> tx \<Rightarrow> bool" where
  "tx_ok E S t (Begun r) = (0 < rq_quantity r)"
| "tx_ok E S t (Checked r p) = fits S r p"
| "tx_ok E S t (Locked r p i) = (fits S r p \<and> holds S t (rq_product r) i)"
| "tx_ok E S t (Staged r n i sale) = (\<exists>p. fits S r p \<and> holds S t (rq_product r) i \<and>
     rq_quantity r \<le> i_quantity i \<and> sale = new_sale (E t) n r p \<and>
     db_ok (sale_writes i sale (committed S)) \<and> \<not> id_staged t (s_id sale) S)"
| "tx_ok E S t (ThresholdRead pid th i) =
     (\<exists>j. get_by_product_id pid (committed S) = Some j \<and> i_id j = i_id i)"
| "tx_ok E S t Ended = True"

definition lock_inv :: "(nat \<Rightarrow> 'z db_env_scheme) \<Rightarrow> lock_state \<Rightarrow> bool" where
  "lock_inv E S \<longleftrightarrow> db_ok (committed S) \<and> (\<forall>t T. open_txs S t = Some T \<longrightarrow> tx_ok E S t T)"

lemma lock_invD:
  "lock_inv E S \<Longrightarrow> open_txs S t = Some T \<Longrightarrow> tx_ok E S t T"
  "lock_inv E S \<Longrightarrow> db_ok (committed S)"
  by (simp_all add: lock_inv_def)

text \<open>What a step of transaction \<open>t\<close> leaves to the others.\<close>

definition evolves :: "nat \<Rightarrow> lock_state \<Rightarrow> lock_state \<Rightarrow> bool" where
  "evolves t S S' \<longleftrightarrow>
     db_ok (committed S') \<and> products (committed S') = products (committed S) \<and>
     shops (committed S') = shops (committed S) \<and>
     (\<forall>k i. get_by_product_id k (committed S) = Some i \<longrightarrow>
        (\<exists>j. get_by_product_id k (committed S') = Some j \<and> i_id j = i_id i)) \<and>
     (\<forall>k t' i. t' \<noteq> t \<longrightarrow> holds S t' k i \<longrightarrow> holds S' t' k i) \<and>
     (\<forall>t'. t' \<noteq> t \<longrightarrow> open_txs S' t' = open_txs S t') \<and>
     (\<forall>u \<in> s_id ` set (sales (committed S')). u \<in> s_id ` set (sales (committed S)) \<or>
        (\<exists>r n i sale. open_txs S t = Some (Staged r n i sale) \<and> s_id sale = u)) \<and>
     (\<forall>r n i sale. open_txs S' t = Some (Staged r n i sale) \<longrightarrow> \<not> id_staged t (s_id sale) S)"

lemma evolves_tx_ok:
  assumes "lock_inv E S" "evolves t S S'" "t' \<noteq> t" "open_txs S t' = Some T"
  shows "tx_ok E S' t' T"
proof -
  have ok: "tx_ok E S t' T" "db_ok (committed S)" using assms(1,4) by (simp_all add: lock_inv_def)
  have ev: "db_ok (committed S')" "products (committed S') = products (committed S)"
      "shops (committed S') = shops (committed S)"
      "\<And>k i. holds S t' k i \<Longrightarrow> holds S' t' k i"
    using assms(2,3) by (simp_all add: evolves_def)
  have fit: "fits S' r p = fits S r p" for r p by (simp add: fits_def product_by_id_def ev(2))
  show ?thesis
  proof (cases T)
    case (Staged r n i sale)
    with ok obtain p where p: "fits S r p" "holds S t' (rq_product r) i" "rq_quantity r \<le> i_quantity i"
        "sale = new_sale (E t') n r p" "db_ok (sale_writes i sale (committed S))"
        "\<not> id_staged t' (s_id sale) S"
      by auto
    have q: "0 < s_quantity sale" "s_quantity sale \<le> i_quantity i"
      using p(1,3,4) by (simp_all add: fits_def new_sale_def)
    have look: "get_by_product_id (rq_product r) (committed S) = Some i"
        "get_by_product_id (rq_product r) (committed S') = Some i"
      using p(2) ev(4) [OF p(2)] by (simp_all add: holds_def)
    have "s_id sale \<notin> s_id ` set (sales (committed S'))"
    proof
      assume "s_id sale \<in> s_id ` set (sales (committed S'))"
      then have "s_id sale \<in> s_id ` set (sales (committed S)) \<or>
          (\<exists>r n i sale'. open_txs S t = Some (Staged r n i sale') \<and> s_id sale' = s_id sale)"
        using assms(2) unfolding evolves_def by blast
      then show False
      proof
        assume "s_id sale \<in> s_id ` set (sales (committed S))"
        then show False using p(5) sale_writes_ok [OF ok(2) look(1) q] by simp
      next
        assume "\<exists>r n i sale'. open_txs S t = Some (Staged r n i sale') \<and> s_id sale' = s_id sale"
        then have "id_staged t' (s_id sale) S" using assms(3) [symmetric] unfolding id_staged_def by blast
        with p(6) show False ..
      qed
    qed
    then have "db_ok (sale_writes i sale (committed S'))"
      using p(5) sale_writes_ok [OF ok(2) look(1) q] sale_writes_ok [OF ev(1) look(2) q]
      by (simp add: ev(2,3))
    moreover have "\<not> id_staged t' (s_id sale) S'"
    proof
      assume "id_staged t' (s_id sale) S'"
      then obtain t2 r2 n2 i2 s2 where t2: "t2 \<noteq> t'" "open_txs S' t2 = Some (Staged r2 n2 i2 s2)"
          "s_id s2 = s_id sale"
        unfolding id_staged_def by blast
      show False
      proof (cases "t2 = t")
        case True
        with t2 assms(2) have "\<not> id_staged t (s_id s2) S" by (simp add: evolves_def)
        then show False using Staged assms(3,4) t2(3) unfolding id_staged_def by metis
      next
        case False
        with t2 assms(2) have "open_txs S t2 = Some (Staged r2 n2 i2 s2)" by (simp add: evolves_def)
        then have "id_staged t' (s_id sale) S" unfolding id_staged_def using t2 by blast
        with p(6) show False ..
      qed
    qed
    ultimately show ?thesis using Staged p ev(4) fit by auto
  next
    case (ThresholdRead pid th i)
    with ok obtain j where j: "get_by_product_id pid (committed S) = Some j" "i_id j = i_id i" by auto
    with assms(2) show ?thesis unfolding evolves_def ThresholdRead tx_ok.simps by metis
  qed (use ok ev(4) fit in auto)
qed

lemma evolves_inv:
  assumes "lock_inv E S" "evolves t S S'" "\<And>T. open_txs S' t = Some T \<Longrightarrow> tx_ok E S' t T"
  shows "lock_inv E S'"
  unfolding lock_inv_def
proof (intro conjI allI impI)
  show "db_ok (committed S')" using assms(2) by (simp add: evolves_def)
  fix t' T
  assume T: "open_txs S' t' = Some T"
  show "tx_ok E S' t' T"
  proof (cases "t' = t")
    case True with assms(3) T show ?thesis by simp
  next
    case False
    then have "open_txs S t' = Some T" using T assms(2) by (simp add: evolves_def)
    with evolves_tx_ok [OF assms(1,2) False] show ?thesis by simp
  qed
qed

lemma evolves_committed:
  assumes "lock_inv E S" "committed S' = committed S" "open_txs S' = (open_txs S)(t \<mapsto> T)"
    "\<And>k t'. t' \<noteq> t \<Longrightarrow> row_locks S k = Some t' \<Longrightarrow> row_locks S' k = Some t'"
    "\<And>r n i sale. T = Staged r n i sale \<Longrightarrow> \<not> id_staged t (s_id sale) S"
  shows "evolves t S S'"
  using assms by (auto simp: evolves_def lock_inv_def holds_def)

lemma state_simps [simp]:
  "committed (set_tx t T S) = committed S" "open_txs (set_tx t T S) = (open_txs S)(t \<mapsto> T)"
  "row_locks (set_tx t T S) = row_locks S" "journal (set_tx t T S) = journal S"
  "committed (close_tx t S) = committed S" "open_txs (close_tx t S) = (open_txs S)(t \<mapsto> Ended)"
  "row_locks (close_tx t S) = release t (row_locks S)" "journal (close_tx t S) = journal S"
  "committed (finish t e x d S) = d" "open_txs (finish t e x d S) = (open_txs S)(t \<mapsto> Ended)"
  "row_locks (finish t e x d S) = release t (row_locks S)"
  "journal (finish t e x d S) = journal S @ [(e, x)]"
  by (simp_all add: set_tx_def close_tx_def finish_def)

lemma release_keeps [simp]: "t' \<noteq> t \<Longrightarrow> L k = Some t' \<Longrightarrow> release t L k = Some t'"
  by (simp add: release_def)

lemma id_staged_own:
  "open_txs S' = (open_txs S)(t \<mapsto> T) \<Longrightarrow> id_staged t u S' = id_staged t u S"
  unfolding id_staged_def by (metis fun_upd_apply)

lemma refuse_inv: "lock_inv E S \<Longrightarrow> lock_inv E (refuse t r e S)"
  by (rule evolves_inv, assumption, rule evolves_committed [of E S _ t Ended]) (simp_all add: refuse_def)

lemma close_inv: "lock_inv E S \<Longrightarrow> lock_inv E (close_tx t S)"
  by (rule evolves_inv, assumption, rule evolves_committed [of E S _ t Ended]) simp_all

text \<open>A transaction that writes the row of one product, whose lock no other transaction holds.\<close>

lemma finish_inv:
  assumes "lock_inv E S" "db_ok d" "products d = products (committed S)" "shops d = shops (committed S)"
    "\<And>k. k \<noteq> pid \<Longrightarrow> get_by_product_id k d = get_by_product_id k (committed S)"
    "\<And>k i. get_by_product_id k (committed S) = Some i \<Longrightarrow> \<exists>j. get_by_product_id k d = Some j \<and> i_id j = i_id i"
    "row_locks S pid \<in> {None, Some t}"
    "\<And>u. u \<in> s_id ` set (sales d) \<Longrightarrow> u \<in> s_id ` set (sales (committed S)) \<or>
        (\<exists>r n i sale. open_txs S t = Some (Staged r n i sale) \<and> s_id sale = u)"
  shows "lock_inv E (finish t e x d S)"
proof (rule evolves_inv [OF assms(1)])
  have "holds (finish t e x d S) t' k i" if "t' \<noteq> t" "holds S t' k i" for k t' i
  proof -
    have "k \<noteq> pid" using that assms(7) by (auto simp: holds_def)
    with that assms(5) show ?thesis by (simp add: holds_def)
  qed
  with assms show "evolves t S (finish t e x d S)" by (simp add: evolves_def)
qed simp

lemma lock_step_inv:
  assumes "lock_step E S S'" "lock_inv E S"
  shows "lock_inv E S'"
  using assms(1)
proof (cases rule: lock_step.cases)
  case (begun t r)
  show ?thesis unfolding begun(1) using begun assms(2)
    by (intro evolves_inv [OF assms(2) evolves_committed [OF assms(2), of _ t "Begun r"]]) auto
next
  case (checked t r p)
  have "0 < rq_quantity r" using checked(2) assms(2) by (fastforce simp: lock_inv_def)
  then show ?thesis unfolding checked(1) using checked assms(2)
    by (intro evolves_inv [OF assms(2) evolves_committed [OF assms(2), of _ t "Checked r p"]])
      (auto simp: fits_def)
next
  case (locked t r p i)
  have "fits S r p" using locked(2) assms(2) by (fastforce simp: lock_inv_def)
  then show ?thesis unfolding locked(1) using locked assms(2)
    by (intro evolves_inv [OF assms(2) evolves_committed [OF assms(2), of _ t "Locked r p i"]])
      (auto simp: fits_def holds_def)
next
  case (staged t r p i sale)
  have "fits S r p" "holds S t (rq_product r) i" using staged(2) assms(2) by (fastforce simp: lock_inv_def)+
  then show ?thesis unfolding staged(1) using staged assms(2)
    by (intro evolves_inv [OF assms(2) evolves_committed [OF assms(2), of _ t "Staged r (draws S) i sale"]])
      (auto simp: fits_def holds_def is_insufficient_stock_def id_staged_own)
next
  case (sold t r n i sale)
  have "tx_ok E S t (Staged r n i sale)" "db_ok (committed S)"
    using lock_invD assms(2) sold(2) by blast+
  then have h: "holds S t (rq_product r) i" "db_ok (sale_writes i sale (committed S))" by auto
  then have look: "get_by_product_id (rq_product r) (committed S) = Some i" by (simp add: holds_def)
  note writes = sale_writes_look [OF \<open>db_ok (committed S)\<close> look, of _ sale]
  show ?thesis unfolding sold(1)
    using h writes look sold(2)
    by (intro finish_inv [OF assms(2), where pid = "rq_product r"])
      (auto simp: holds_def sale_writes_def set_quantity_def)
next
  case (added t pid q x d)
  have ok: "db_ok (committed S)" using assms(2) by (simp add: lock_inv_def)
  note frame = add_serial_frame [OF ok added(4)]
  show ?thesis unfolding added(1)
    using frame added(3) by (intro finish_inv [OF assms(2), where pid = pid]) auto
next
  case (threshold_missing t pid th)
  then show ?thesis
    using assms(2) by (intro evolves_inv [OF assms(2) evolves_committed [OF assms(2), of _ t Ended]]) auto
next
  case (threshold_read t pid i th)
  show ?thesis unfolding threshold_read(1) using threshold_read assms(2)
    by (intro evolves_inv [OF assms(2) evolves_committed [OF assms(2), of _ t "ThresholdRead pid th i"]]) auto
next
  case (threshold_rejected t pid th i d)
  then show ?thesis
    using assms(2) by (intro evolves_inv [OF assms(2) evolves_committed [OF assms(2), of _ t Ended]]) auto
next
  case (threshold_written t pid th i d j)
  have ok: "db_ok (committed S)" "tx_ok E S t (ThresholdRead pid th i)"
    using lock_invD assms(2) threshold_written(2) by blast+
  then obtain j' where j': "get_by_product_id pid (committed S) = Some j'" "i_id j' = i_id i" by auto
  note look = threshold_serial(2) [OF ok(1) j'(1), of d th]
  show ?thesis unfolding threshold_written(1)
    using threshold_written j' look
    by (intro finish_inv [OF assms(2), where pid = pid]) (auto simp: set_threshold_def)
qed (auto intro: refuse_inv close_inv assms(2))

section \<open>Every interleaving is a serial run\<close>

lemma replay_snoc:
  "replay E (es @ [e]) d =
     (let (xs, d1) = replay E es d; (x, d2) = run_entry E e d1 in (xs @ [x], d2))"
  by (induction es arbitrary: d) (auto simp: Let_def split: prod.split)

definition serial :: "(nat \<Rightarrow> 'z db_env_scheme) \<Rightarrow> db \<Rightarrow> lock_state \<Rightarrow> bool" where
  "serial E d S \<longleftrightarrow> replay E (map fst (journal S)) d = (map snd (journal S), committed S)"

lemma serial_finish:
  "serial E d S \<Longrightarrow> run_entry E e (committed S) = (x, d') \<Longrightarrow> serial E d (finish t e x d' S)"
  by (simp add: serial_def replay_snoc)

lemma serial_same: "serial E d S \<Longrightarrow> committed S' = committed S \<Longrightarrow> journal S' = journal S \<Longrightarrow> serial E d S'"
  by (simp add: serial_def)

lemma serial_refuse:
  "serial E d S \<Longrightarrow> run_entry E (SaleEntry t (draws S) r) (committed S) = (SaleAnswer (Inl e), committed S) \<Longrightarrow>
   serial E d (refuse t r e S)"
  by (simp add: refuse_def serial_finish)

lemma lock_step_serial:
  assumes "lock_step E S S'" "lock_inv E S" "serial E d S"
  shows "serial E d S'"
proof -
  have ok: "db_ok (committed S)" "\<And>t T. open_txs S t = Some T \<Longrightarrow> tx_ok E S t T"
    using assms(2) by (simp_all add: lock_inv_def)
  note one_sale = record_sale_serial [OF ok(1)] and refused = serial_refuse [OF assms(3)]
  show ?thesis
    using assms(1)
  proof (cases rule: lock_step.cases)
    case (no_product t r)
    then show ?thesis by (auto intro!: refused record_sale_serial_refused)
  next
    case (wrong_shop t r p)
    then show ?thesis by (auto intro!: refused record_sale_serial_refused)
  next
    case (no_stock t r p)
    then show ?thesis using ok(2) [OF no_stock(2)]
      by (auto simp: fits_def intro!: refused record_sale_serial_refused)
  next
    case (insufficient t r p i)
    then show ?thesis
      using ok(2) [OF insufficient(2)] one_sale [where r = r and p = p and i = i and E = E and t = t and n = "draws S"]
      by (auto simp: fits_def holds_def intro!: refused)
  next
    case (rejected t r p i sale)
    then show ?thesis
      using ok(2) [OF rejected(2)] one_sale [where r = r and p = p and i = i and E = E and t = t and n = "draws S"]
      by (auto simp: fits_def holds_def intro!: refused)
  next
    case (sold t r n i sale)
    then show ?thesis
      using ok(2) [OF sold(2)] one_sale [where r = r and i = i and E = E and t = t and n = n]
      by (auto simp: fits_def holds_def is_insufficient_stock_def intro!: serial_finish [OF assms(3)])
  next
    case (added t pid q x d')
    then show ?thesis by (auto intro: serial_finish [OF assms(3)])
  next
    case (threshold_missing t pid th)
    then show ?thesis by (auto intro!: serial_finish [OF assms(3)] threshold_serial_missing)
  next
    case (threshold_rejected t pid th i d')
    then show ?thesis
      using ok(2) [OF threshold_rejected(2)] threshold_serial(1) [OF ok(1), where E = E]
      by (auto intro!: serial_finish [OF assms(3)])
  next
    case (threshold_written t pid th i d' j)
    then obtain j' where j': "get_by_product_id pid (committed S) = Some j'" "i_id j' = i_id i"
      using ok(2) [OF threshold_written(2)] by auto
    have d': "d' = set_threshold (i_id j') th (committed S)" using threshold_written j'(2) by simp
    have "j = j'\<lparr>i_threshold := th\<rparr>"
      using threshold_serial(2) [OF ok(1) j'(1) d', of pid] threshold_written by simp
    then show ?thesis
      using threshold_serial(1) [OF ok(1) j'(1) d', of E] threshold_written d'
      by (auto intro!: serial_finish [OF assms(3)])
  qed (auto intro: serial_same [OF assms(3)])
qed

lemma lock_reaches_serial:
  assumes "lock_reaches E (unlocked d) S" "db_ok d"
  shows "lock_inv E S \<and> serial E d S"
  using assms(1)
proof (induction rule: rtranclp_induct)
  case base
  show ?case using assms(2) by (simp add: lock_inv_def serial_def unlocked_def)
next
  case (step S S')
  then show ?case using lock_step_inv lock_step_serial by blast
qed

section \<open>Units\<close>

definition level :: "uuid \<Rightarrow> db \<Rightarrow> int" where
  "level pid d = (case get_by_product_id pid d of None \<Rightarrow> 0 | Some i \<Rightarrow> i_quantity i)"

definition sold_units :: "uuid \<Rightarrow> db \<Rightarrow> int" where
  "sold_units pid d = sum_list (map s_quantity (filter (\<lambda>s. s_product_id s = pid) (sales d)))"

text \<open>The units of a product that the journal says were sold, and those it says were added.\<close>

fun units_sold_by :: "uuid \<Rightarrow> entry \<times> answer \<Rightarrow> int" where
  "units_sold_by pid (SaleEntry t n r, SaleAnswer (Inr x)) = (if rq_product r = pid then rq_quantity r else 0)"
| "units_sold_by pid _ = 0"

fun units_added_by :: "uuid \<Rightarrow> entry \<times> answer \<Rightarrow> int" where
  "units_added_by pid (AddEntry t n k q, RowAnswer (Inr x)) = (if k = pid then q else 0)"
| "units_added_by pid _ = 0"

definition journal_sum :: "(entry \<times> answer \<Rightarrow> int) \<Rightarrow> lock_state \<Rightarrow> int" where
  "journal_sum f S = sum_list (map f (journal S))"

lemma level_nonneg: "db_ok d \<Longrightarrow> 0 \<le> level pid d"
  using inventory_row_ok by (auto simp: level_def split: option.split)

lemma add_serial_level:
  assumes "db_ok d" "run_entry E (AddEntry t n pid q) d = (x, d')"
  shows "level k d' = level k d + units_added_by k (AddEntry t n pid q, x)"
proof (cases "k = pid")
  case False
  with add_serial_frame(5) [OF assms False] have "level k d' = level k d" by (simp add: level_def)
  moreover from False have "units_added_by k (AddEntry t n pid q, x) = 0"
    by (cases "(k, AddEntry t n pid q, x)" rule: units_added_by.cases) auto
  ultimately show ?thesis by simp
next
  case True
  have i: "\<And>i. get_by_product_id pid d = Some i \<Longrightarrow> i_product_id i = pid" using look_ups(3) by blast
  note upd = get_by_product_id_update [where pid = pid and k = pid and d = d]
  have ins: "get_by_product_id pid (d\<lparr>inventory := inventory d @ [r]\<rparr>) = Some r"
    if "get_by_product_id pid d = None" "i_product_id r = pid" for r
    using that by (simp add: get_by_product_id_def find_snoc)
  show ?thesis
    using assms(2) True i upd ins
    by (auto simp: add_stock_def add_stock_row_def update_inventory_def insert_inventory_def execute_def
        finalize_inventory_def next_uuid_def Let_def at_rest_def and_then_def rollback_def commit_def
        level_def split: if_splits option.splits prod.splits sum.splits)
qed

lemma lock_step_balance:
  assumes "lock_step E S S'" "lock_inv E S"
  shows "level pid (committed S') + journal_sum (units_sold_by pid) S' - journal_sum (units_added_by pid) S' =
      level pid (committed S) + journal_sum (units_sold_by pid) S - journal_sum (units_added_by pid) S"
    "sold_units pid (committed S') - journal_sum (units_sold_by pid) S' =
      sold_units pid (committed S) - journal_sum (units_sold_by pid) S"
proof -
  have ok: "db_ok (committed S)" using lock_invD(2) [OF assms(2)] .
  have "level pid (committed S') + journal_sum (units_sold_by pid) S' - journal_sum (units_added_by pid) S' =
      level pid (committed S) + journal_sum (units_sold_by pid) S - journal_sum (units_added_by pid) S \<and>
    sold_units pid (committed S') - journal_sum (units_sold_by pid) S' =
      sold_units pid (committed S) - journal_sum (units_sold_by pid) S"
    using assms(1)
  proof (cases rule: lock_step.cases)
    case (sold t r n i sale)
    then obtain p where p: "holds S t (rq_product r) i" "sale = new_sale (E t) n r p"
      using lock_invD(1) [OF assms(2) sold(2)] by auto
    then have "get_by_product_id (rq_product r) (committed S) = Some i" by (simp add: holds_def)
    with sale_writes_look [OF ok this, of pid sale] p(2) show ?thesis
      by (auto simp: sold(1) level_def sold_units_def journal_sum_def new_sale_def sale_writes_def)
  next
    case (added t k q x d)
    have "units_sold_by pid (AddEntry t (draws S) k q, x) = 0" by simp
    with add_serial_level [OF ok added(4), of pid] add_serial_frame(4) [OF ok added(4)] show ?thesis
      by (simp add: added(1) sold_units_def journal_sum_def)
  next
    case (threshold_written t k th i d j)
    obtain j' where j': "get_by_product_id k (committed S) = Some j'" "i_id j' = i_id i"
      using lock_invD(1) [OF assms(2) threshold_written(2)] by auto
    with threshold_serial(2) [OF ok j'(1), of d th pid] threshold_written(5) show ?thesis
      by (auto simp: threshold_written(1) level_def sold_units_def journal_sum_def set_threshold_def)
  qed (auto simp: refuse_def journal_sum_def)
  then show "level pid (committed S') + journal_sum (units_sold_by pid) S' - journal_sum (units_added_by pid) S' =
      level pid (committed S) + journal_sum (units_sold_by pid) S - journal_sum (units_added_by pid) S"
    "sold_units pid (committed S') - journal_sum (units_sold_by pid) S' =
      sold_units pid (committed S) - journal_sum (units_sold_by pid) S" by blast+
qed

lemma lock_reaches_balance:
  assumes "lock_reaches E (unlocked d) S" "db_ok d"
  shows "level pid (committed S) = level pid d + journal_sum (units_added_by pid) S - journal_sum (units_sold_by pid) S"
    "sold_units pid (committed S) = sold_units pid d + journal_sum (units_sold_by pid) S"
    "0 \<le> level pid (committed S)"
proof -
  have "level pid (committed S) = level pid d + journal_sum (units_added_by pid) S - journal_sum (units_sold_by pid) S \<and>
    sold_units pid (committed S) = sold_units pid d + journal_sum (units_sold_by pid) S"
    using assms(1)
  proof (induction rule: rtranclp_induct)
    case base
    show ?case by (simp add: unlocked_def journal_sum_def)
  next
    case (step S S')
    have "lock_inv E S" using lock_reaches_serial [OF step.hyps(1) assms(2)] by blast
    from lock_step_balance [OF step.hyps(2) this, of pid] step.IH show ?case by simp
  qed
  then show "level pid (committed S) = level pid d + journal_sum (units_added_by pid) S - journal_sum (units_sold_by pid) S"
    "sold_units pid (committed S) = sold_units pid d + journal_sum (units_sold_by pid) S" by blast+
  show "0 \<le> level pid (committed S)"
    using lock_reaches_serial [OF assms] by (intro level_nonneg lock_invD(2)) blast
qed

section \<open>No deadlock\<close>

definition locks_live :: "lock_state \<Rightarrow> bool" where
  "locks_live S \<longleftrightarrow> (\<forall>k t. row_locks S k = Some t \<longrightarrow>
     (\<exists>r p n i sale. rq_product r = k \<and>
        (open_txs S t = Some (Locked r p i) \<or> open_txs S t = Some (Staged r n i sale))))"

lemma locks_live_close:
  assumes "locks_live S" "row_locks S' = release t (row_locks S)" "open_txs S' = (open_txs S)(t \<mapsto> T)"
  shows "locks_live S'"
  using assms unfolding locks_live_def by (simp add: release_def)

lemma locks_live_idle:
  assumes "locks_live S" "row_locks S' = row_locks S" "open_txs S' = (open_txs S)(t \<mapsto> T)"
    "\<And>r p i n sale. open_txs S t \<noteq> Some (Locked r p i) \<and> open_txs S t \<noteq> Some (Staged r n i sale)"
  shows "locks_live S'"
  using assms unfolding locks_live_def by (metis fun_upd_apply)

lemma lock_step_live:
  assumes "lock_step E S S'" "locks_live S"
  shows "locks_live S'"
  using assms(1)
proof (cases rule: lock_step.cases)
  case (begun t r)
  then show ?thesis by (intro locks_live_idle [OF assms(2), of _ t]) auto
next
  case (checked t r p)
  then show ?thesis by (intro locks_live_idle [OF assms(2), of _ t]) auto
next
  case (locked t r p i)
  have "row_locks S k \<noteq> Some t" for k using assms(2) locked(2) by (fastforce simp: locks_live_def)
  with assms(2) show ?thesis unfolding locked(1) locks_live_def by auto
next
  case (staged t r p i sale)
  from assms(2) show ?thesis unfolding staged(1) locks_live_def using staged(2) by fastforce
next
  case (threshold_read t pid i th)
  then show ?thesis by (intro locks_live_idle [OF assms(2), of _ t]) auto
qed (auto intro!: locks_live_close [OF assms(2)] simp: refuse_def)

lemma lock_reaches_live:
  "lock_reaches E (unlocked d) S \<Longrightarrow> locks_live S"
proof (induction rule: rtranclp_induct)
  case base
  show ?case by (simp add: locks_live_def unlocked_def)
next
  case (step S S')
  then show ?case using lock_step_live by blast
qed

text \<open>
  The holder of a lock comes to its answer, by steps in which no transaction is lost: at once, or
  after the transactions that have staged the identifier it draws.
\<close>

lemma lock_step_finite: "lock_step E S S' \<Longrightarrow> finite (dom (open_txs S)) \<Longrightarrow> finite (dom (open_txs S'))"
  by (cases rule: lock_step.cases) (auto simp: refuse_def)

lemma lock_reaches_finite: "lock_reaches E (unlocked d) S \<Longrightarrow> finite (dom (open_txs S))"
  by (induction rule: rtranclp_induct) (auto simp: unlocked_def dest: lock_step_finite)

definition staged_txs :: "lock_state \<Rightarrow> nat set" where
  "staged_txs S = {t. \<exists>r n i sale. open_txs S t = Some (Staged r n i sale)}"

definition sale_answered :: "nat \<Rightarrow> uuid \<Rightarrow> lock_state \<Rightarrow> bool" where
  "sale_answered t k S \<longleftrightarrow> open_txs S t = Some Ended \<and> row_locks S k = None \<and>
     (\<exists>n r x. last (journal S) = (SaleEntry t n r, SaleAnswer x) \<and> rq_product r = k)"

lemma finish_answers:
  assumes "row_locks S k = Some t" "rq_product r = k"
  shows "sale_answered t k (finish t (SaleEntry t n r) (SaleAnswer x) d S)" "sale_answered t k (refuse t r e S)"
  using assms by (simp_all add: sale_answered_def refuse_def release_def)

lemma holder_finishes:
  assumes "finite (dom (open_txs S))" "locks_live S" "row_locks S k = Some t"
  shows "\<exists>S'. lock_reaches E S S' \<and> sale_answered t k S'"
  using assms
proof (induction "card (staged_txs S)" arbitrary: S rule: less_induct)
  case less
  obtain r p n i sale where r: "rq_product r = k" and
      h: "open_txs S t = Some (Locked r p i) \<or> open_txs S t = Some (Staged r n i sale)"
    using less.prems(2,3) unfolding locks_live_def by blast
  note ends = finish_answers [OF less.prems(3) r]
  show ?case
  proof (cases "open_txs S t = Some (Staged r n i sale)")
    case True
    from lock_step.sold [OF True, of E] ends(1) show ?thesis by blast
  next
    case False
    with h have l: "open_txs S t = Some (Locked r p i)" by blast
    let ?sale = "new_sale (E t) (draws S) r p"
    consider (short) "is_insufficient_stock (rq_quantity r) (i_quantity i)"
      | (waits) "id_staged t (s_id ?sale) S"
      | (goes) "\<not> is_insufficient_stock (rq_quantity r) (i_quantity i)" "\<not> id_staged t (s_id ?sale) S"
        "db_ok (sale_writes i ?sale (committed S))"
      | (fails) "\<not> is_insufficient_stock (rq_quantity r) (i_quantity i)" "\<not> id_staged t (s_id ?sale) S"
        "\<not> db_ok (sale_writes i ?sale (committed S))"
      by blast
    then show ?thesis
    proof cases
      case short
      from lock_step.insufficient [OF l short, of E] ends(2) show ?thesis by blast
    next
      case fails
      from lock_step.rejected [where E = E, OF l fails(1) _ fails(2,3)] ends(2) show ?thesis by blast
    next
      case goes
      let ?S = "(set_tx t (Staged r (draws S) i ?sale) S)\<lparr>draws := Suc (draws S)\<rparr>"
      have "lock_step E S ?S" using lock_step.staged [where E = E, OF l goes(1) _ goes(2,3)] by simp
      moreover have "lock_step E ?S (finish t (SaleEntry t (draws S) r) (SaleAnswer (Inr (sale_answer i ?sale)))
          (sale_writes i ?sale (committed ?S)) ?S)"
        by (rule lock_step.sold) simp
      moreover have "row_locks ?S k = Some t" using less.prems(3) by simp
      from finish_answers(1) [OF this r] have "sale_answered t k (finish t (SaleEntry t (draws S) r)
          (SaleAnswer (Inr (sale_answer i ?sale))) (sale_writes i ?sale (committed ?S)) ?S)" .
      ultimately show ?thesis by (meson converse_rtranclp_into_rtranclp r_into_rtranclp)
    next
      case waits
      then obtain t' r' n' i' sale' where t': "t' \<noteq> t" "open_txs S t' = Some (Staged r' n' i' sale')"
        unfolding id_staged_def by blast
      from lock_step.sold [OF t'(2), of E] obtain e x d where
        s: "lock_step E S (finish t' e x d S)" by blast
      let ?S = "finish t' e x d S"
      have "staged_txs ?S = staged_txs S - {t'}" by (auto simp: staged_txs_def split: if_splits)
      moreover have "finite (staged_txs S)" "t' \<in> staged_txs S"
        using less.prems(1) t'(2) by (auto simp: staged_txs_def intro: finite_subset [of _ "dom (open_txs S)"])
      ultimately have "card (staged_txs ?S) < card (staged_txs S)"
        by (metis card_Diff1_less)
      moreover have "row_locks ?S k = Some t" using less.prems(3) t'(1) by (simp add: release_def)
      ultimately obtain S' where "lock_reaches E ?S S'" "sale_answered t k S'"
        using less.hyps lock_step_finite [OF s less.prems(1)] lock_step_live [OF s less.prems(2)] by blast
      with s show ?thesis by (meson converse_rtranclp_into_rtranclp)
    qed
  qed
qed

end
