(* ===== verification/Ddl.thy ===== *)
theory Ddl
  imports Database
begin

text \<open>
  What the migrations and the models say to PostgreSQL: column types, columns, constraints and
  indexes, the catalogue of a schema, and the statements that change it with the errors they are
  refused with. Tables, indexes and the indexes behind primary keys and unique constraints share one
  space of names. A constraint without a name gets the one PostgreSQL gives it; no two of the
  program's constraints are given the same, and all are shorter than 63 bytes.
\<close>

section \<open>The catalogue\<close>

datatype sql_type =
    T_UUID
  | T_TEXT
  | T_VARCHAR nat
  | T_INTEGER
  | T_SERIAL  \<comment> \<open>the integer primary key the mapper declares as \<open>SERIAL\<close>\<close>
  | T_NUMERIC nat nat
  | T_TIMESTAMPTZ
  | T_JSONB
  | T_ENUM string

text \<open>The expressions of check constraints and generated columns.\<close>

datatype sql_expr =
    E_Ge string int
  | E_Le string int
  | E_Gt string int
  | E_In string "string list"
  | E_And sql_expr sql_expr
  | E_Lower string
  | E_Mul string string

record column =
  c_name :: string
  c_type :: sql_type
  c_nullable :: bool
  c_default :: "string option"
  c_computed :: "sql_expr option"

datatype rule =
    Primary_Key "string list"
  | Unique_Key "string list"
  | Foreign_Key "string list" string "string list"
  | Check sql_expr

record table =
  t_columns :: "column list"
  t_rules :: "(string \<times> rule) list"

record index =
  ix_name :: string
  ix_table :: string
  ix_columns :: "(string \<times> bool) list"  \<comment> \<open>with \<open>DESC\<close>\<close>
  ix_unique :: bool
  ix_using :: string
  ix_opclass :: "string option"

record catalog =
  ca_tables :: "(string \<times> table) list"
  ca_indexes :: "index list"
  ca_enums :: "(string \<times> string list) list"
  ca_extensions :: "string list"

definition empty_catalog :: catalog where
  "empty_catalog = \<lparr>ca_tables = [], ca_indexes = [], ca_enums = [], ca_extensions = []\<rparr>"

section \<open>Names\<close>

fun joined :: "string list \<Rightarrow> string" where
  "joined [] = []"
| "joined [x] = x"
| "joined (x # xs) = x @ ''_'' @ joined xs"

fun expr_columns :: "sql_expr \<Rightarrow> string list" where
  "expr_columns (E_Ge c _) = [c]"
| "expr_columns (E_Le c _) = [c]"
| "expr_columns (E_Gt c _) = [c]"
| "expr_columns (E_In c _) = [c]"
| "expr_columns (E_And a b) = expr_columns a @ expr_columns b"
| "expr_columns (E_Lower c) = [c]"
| "expr_columns (E_Mul a b) = [a, b]"

fun rule_columns :: "rule \<Rightarrow> string list" where
  "rule_columns (Primary_Key cs) = cs"
| "rule_columns (Unique_Key cs) = cs"
| "rule_columns (Foreign_Key cs _ _) = cs"
| "rule_columns (Check e) = expr_columns e"

fun default_name :: "string \<Rightarrow> rule \<Rightarrow> string" where
  "default_name t (Primary_Key cs) = t @ ''_pkey''"
| "default_name t (Unique_Key cs) = t @ ''_'' @ joined cs @ ''_key''"
| "default_name t (Foreign_Key cs _ _) = t @ ''_'' @ joined cs @ ''_fkey''"
| "default_name t (Check e) =
     (case remdups (expr_columns e) of [x] \<Rightarrow> t @ ''_'' @ x @ ''_check'' | _ \<Rightarrow> t @ ''_check'')"

text \<open>Primary keys and unique constraints are backed by an index of their name.\<close>

fun has_index :: "rule \<Rightarrow> bool" where
  "has_index (Primary_Key _) = True"
| "has_index (Unique_Key _) = True"
| "has_index _ = False"

definition rule_indexes :: "table \<Rightarrow> string list" where
  "rule_indexes t = map fst (filter (has_index \<circ> snd) (t_rules t))"

definition relation_names :: "catalog \<Rightarrow> string list" where
  "relation_names c =
     map fst (ca_tables c) @ map ix_name (ca_indexes c) @ concat (map (rule_indexes \<circ> snd) (ca_tables c))"

section \<open>Statements\<close>

datatype ddl_error =
    Duplicate_Table
  | Undefined_Table
  | Duplicate_Object
  | Undefined_Object
  | Duplicate_Column
  | Undefined_Column
  | Invalid_Foreign_Key
  | Dependent_Objects_Exist

datatype ddl =
    Create_Table string "column list" "(string option \<times> rule) list"
  | Drop_Table string
  | Create_Type string "string list"
  | Create_Index index
  | Drop_Index string
  | Add_Column string column
  | Drop_Column string string
  | Add_Constraint string string rule
  | Drop_Constraint string string
  | Create_Extension string
  | Drop_Extension string

definition set_table :: "string \<Rightarrow> table \<Rightarrow> catalog \<Rightarrow> catalog" where
  "set_table n t c = c\<lparr>ca_tables := map (\<lambda>(m, u). if m = n then (m, t) else (m, u)) (ca_tables c)\<rparr>"

definition columns_of :: "table \<Rightarrow> string list" where
  "columns_of t = map c_name (t_columns t)"

definition key_columns :: "table \<Rightarrow> string list set" where
  "key_columns t = set (concat (map (\<lambda>(n, r). case r of Primary_Key cs \<Rightarrow> [cs] | Unique_Key cs \<Rightarrow> [cs] | _ \<Rightarrow> []) (t_rules t)))"

text \<open>The tables with a foreign key to a table, and the operator class an extension brings.\<close>

definition references :: "string \<Rightarrow> table \<Rightarrow> bool" where
  "references n t = list_ex (\<lambda>(m, r). case r of Foreign_Key _ ref _ \<Rightarrow> ref = n | _ \<Rightarrow> False) (t_rules t)"

definition opclass_of :: "string \<Rightarrow> string" where
  "opclass_of e = (if e = ''pg_trgm'' then ''gin_trgm_ops'' else [])"

definition check_rule :: "catalog \<Rightarrow> string list \<Rightarrow> rule \<Rightarrow> ddl_error option" where
  "check_rule c cols r =
     (if \<not> list_all (\<lambda>x. x \<in> set cols) (rule_columns r) then Some Undefined_Column
      else case r of
        Foreign_Key cs ref rcs \<Rightarrow>
          (case map_of (ca_tables c) ref of
             None \<Rightarrow> Some Undefined_Table
           | Some t \<Rightarrow> if rcs \<in> key_columns t then None else Some Invalid_Foreign_Key)
      | _ \<Rightarrow> None)"

definition check_type :: "catalog \<Rightarrow> sql_type \<Rightarrow> ddl_error option" where
  "check_type c ty =
     (case ty of T_ENUM n \<Rightarrow> (if n \<in> set (map fst (ca_enums c)) then None else Some Undefined_Object)
      | _ \<Rightarrow> None)"

fun first_error :: "'e option list \<Rightarrow> 'e option" where
  "first_error [] = None"
| "first_error (None # es) = first_error es"
| "first_error (Some e # es) = Some e"

definition named_rule :: "string \<Rightarrow> string option \<times> rule \<Rightarrow> string \<times> rule" where
  "named_rule t nr = (case nr of (None, r) \<Rightarrow> (default_name t r, r) | (Some n, r) \<Rightarrow> (n, r))"

fun apply_ddl :: "ddl \<Rightarrow> catalog \<Rightarrow> ddl_error + catalog" where
  "apply_ddl (Create_Table n cols rules) c =
     (let t = \<lparr>t_columns = cols, t_rules = map (named_rule n) rules\<rparr> in
      if n \<in> set (relation_names c) then Inl Duplicate_Table
      else if \<not> distinct (columns_of t) then Inl Duplicate_Column
      else if \<not> distinct (map fst (t_rules t)) then Inl Duplicate_Object
      else if list_ex (\<lambda>x. x \<in> set (relation_names c)) (rule_indexes t) then Inl Duplicate_Table
      else case first_error (map (check_type c \<circ> c_type) cols @ map (check_rule c (columns_of t) \<circ> snd) rules) of
             Some e \<Rightarrow> Inl e
           | None \<Rightarrow> Inr (c\<lparr>ca_tables := ca_tables c @ [(n, t)]\<rparr>))"
| "apply_ddl (Drop_Table n) c =
     (if n \<notin> set (map fst (ca_tables c)) then Inl Undefined_Table
      else if list_ex (\<lambda>(m, t). m \<noteq> n \<and> references n t) (ca_tables c) then Inl Dependent_Objects_Exist
      else Inr (c\<lparr>ca_tables := filter (\<lambda>(m, t). m \<noteq> n) (ca_tables c),
                  ca_indexes := filter (\<lambda>i. ix_table i \<noteq> n) (ca_indexes c)\<rparr>))"
| "apply_ddl (Create_Type n vs) c =
     (if n \<in> set (map fst (ca_enums c)) then Inl Duplicate_Object
      else Inr (c\<lparr>ca_enums := ca_enums c @ [(n, vs)]\<rparr>))"
| "apply_ddl (Create_Index i) c =
     (case map_of (ca_tables c) (ix_table i) of
        None \<Rightarrow> Inl Undefined_Table
      | Some t \<Rightarrow>
          if ix_name i \<in> set (relation_names c) then Inl Duplicate_Table
          else if \<not> list_all (\<lambda>x. fst x \<in> set (columns_of t)) (ix_columns i) then Inl Undefined_Column
          else if (case ix_opclass i of None \<Rightarrow> False | Some o' \<Rightarrow> o' \<notin> set (map opclass_of (ca_extensions c)))
          then Inl Undefined_Object
          else Inr (c\<lparr>ca_indexes := ca_indexes c @ [i]\<rparr>))"
| "apply_ddl (Drop_Index n) c =
     (if n \<in> set (map ix_name (ca_indexes c))
      then Inr (c\<lparr>ca_indexes := filter (\<lambda>i. ix_name i \<noteq> n) (ca_indexes c)\<rparr>)
      else if n \<in> set (concat (map (rule_indexes \<circ> snd) (ca_tables c))) then Inl Dependent_Objects_Exist
      else Inl Undefined_Object)"
| "apply_ddl (Add_Column n k) c =
     (case map_of (ca_tables c) n of
        None \<Rightarrow> Inl Undefined_Table
      | Some t \<Rightarrow>
          if c_name k \<in> set (columns_of t) then Inl Duplicate_Column
          else case check_type c (c_type k) of
                 Some e \<Rightarrow> Inl e
               | None \<Rightarrow> Inr (set_table n (t\<lparr>t_columns := t_columns t @ [k]\<rparr>) c))"
| "apply_ddl (Drop_Column n k) c =
     (case map_of (ca_tables c) n of
        None \<Rightarrow> Inl Undefined_Table
      | Some t \<Rightarrow>
          if k \<notin> set (columns_of t) then Inl Undefined_Column
          else if list_ex (\<lambda>x. c_name x \<noteq> k \<and> (case c_computed x of None \<Rightarrow> False | Some e \<Rightarrow> k \<in> set (expr_columns e)))
                  (t_columns t) \<or>
               list_ex (\<lambda>(m, u). list_ex (\<lambda>(x, r). case r of Foreign_Key _ ref rcs \<Rightarrow> ref = n \<and> k \<in> set rcs | _ \<Rightarrow> False) (t_rules u))
                  (ca_tables c)
          then Inl Dependent_Objects_Exist
          else Inr ((set_table n (t\<lparr>t_columns := filter (\<lambda>x. c_name x \<noteq> k) (t_columns t),
                                    t_rules := filter (\<lambda>(m, r). k \<notin> set (rule_columns r)) (t_rules t)\<rparr>) c)
                    \<lparr>ca_indexes := filter (\<lambda>i. ix_table i \<noteq> n \<or> k \<notin> fst ` set (ix_columns i)) (ca_indexes c)\<rparr>))"
| "apply_ddl (Add_Constraint n m r) c =
     (case map_of (ca_tables c) n of
        None \<Rightarrow> Inl Undefined_Table
      | Some t \<Rightarrow>
          if m \<in> set (map fst (t_rules t)) then Inl Duplicate_Object
          else if has_index r \<and> m \<in> set (relation_names c) then Inl Duplicate_Table
          else case check_rule c (columns_of t) r of
                 Some e \<Rightarrow> Inl e
               | None \<Rightarrow> Inr (set_table n (t\<lparr>t_rules := t_rules t @ [(m, r)]\<rparr>) c))"
| "apply_ddl (Drop_Constraint n m) c =
     (case map_of (ca_tables c) n of
        None \<Rightarrow> Inl Undefined_Table
      | Some t \<Rightarrow>
          (case map_of (t_rules t) m of
             None \<Rightarrow> Inl Undefined_Object
           | Some r \<Rightarrow>
               if has_index r \<and> list_ex (\<lambda>(m', u). list_ex (\<lambda>(x, r'). case r' of
                    Foreign_Key _ ref rcs \<Rightarrow> ref = n \<and> rcs = rule_columns r | _ \<Rightarrow> False) (t_rules u)) (ca_tables c)
               then Inl Dependent_Objects_Exist
               else Inr (set_table n (t\<lparr>t_rules := filter (\<lambda>(x, _). x \<noteq> m) (t_rules t)\<rparr>) c)))"
| "apply_ddl (Create_Extension e) c =
     Inr (if e \<in> set (ca_extensions c) then c else c\<lparr>ca_extensions := ca_extensions c @ [e]\<rparr>)"
| "apply_ddl (Drop_Extension e) c =
     (if list_ex (\<lambda>i. ix_opclass i = Some (opclass_of e)) (ca_indexes c) then Inl Dependent_Objects_Exist
      else Inr (c\<lparr>ca_extensions := filter (\<lambda>x. x \<noteq> e) (ca_extensions c)\<rparr>))"

fun apply_all :: "ddl list \<Rightarrow> catalog \<Rightarrow> ddl_error + catalog" where
  "apply_all [] c = Inr c"
| "apply_all (s # ss) c = (case apply_ddl s c of Inl e \<Rightarrow> Inl e | Inr c' \<Rightarrow> apply_all ss c')"

text \<open>Two catalogues that list the same objects.\<close>

definition same_catalog :: "catalog \<Rightarrow> catalog \<Rightarrow> bool" where
  "same_catalog c d \<longleftrightarrow>
     set (ca_tables c) = set (ca_tables d) \<and> set (ca_indexes c) = set (ca_indexes d) \<and>
     set (ca_enums c) = set (ca_enums d) \<and> set (ca_extensions c) = set (ca_extensions d)"

end
