(* ===== verification/Migrations.thy ===== *)
theory Migrations
  imports Ddl
begin

text \<open>
  \<open>alembic/versions\<close>: the thirteen revisions, each with the statements of its \<open>upgrade\<close> and its
  \<open>downgrade\<close>; and \<open>alembic/env.py\<close>, which runs the pending revisions in one transaction, so that
  the catalogue and the recorded revision change together or not at all. \<open>op.create_table\<close> with an
  \<open>sa.Enum\<close> column creates the enumerated type first, without looking whether it is there;
  \<open>op.drop_table\<close>, which names no columns, leaves it. A constraint is added to the tables as they
  are: rows that would violate it are not considered here.
\<close>

section \<open>Columns as the scripts write them\<close>

definition col :: "string \<Rightarrow> sql_type \<Rightarrow> column" where
  "col n ty = \<lparr>c_name = n, c_type = ty, c_nullable = False, c_default = None, c_computed = None\<rparr>"

definition nullable :: "column \<Rightarrow> column" where "nullable c = c\<lparr>c_nullable := True\<rparr>"
definition server_default :: "string \<Rightarrow> column \<Rightarrow> column" where
  "server_default d c = c\<lparr>c_default := Some d\<rparr>"
definition computed :: "sql_expr \<Rightarrow> column \<Rightarrow> column" where
  "computed e c = c\<lparr>c_computed := Some e\<rparr>"

definition random_id :: column where
  "random_id = server_default ''gen_random_uuid()'' (col ''id'' T_UUID)"

definition stamped :: "string \<Rightarrow> column" where
  "stamped n = server_default ''now()'' (col n T_TIMESTAMPTZ)"

definition plain_index :: "string \<Rightarrow> string \<Rightarrow> string list \<Rightarrow> bool \<Rightarrow> index" where
  "plain_index n t cs u =
     \<lparr>ix_name = n, ix_table = t, ix_columns = map (\<lambda>c. (c, False)) cs, ix_unique = u,
      ix_using = ''btree'', ix_opclass = None\<rparr>"

lemmas column_defs = col_def nullable_def server_default_def computed_def random_id_def stamped_def
  plain_index_def

section \<open>The revisions\<close>

record migration =
  revision :: string
  down_revision :: "string option"
  upgrade :: "ddl list"
  downgrade :: "ddl list"

definition m_4f67a335c2fb :: migration where
  "m_4f67a335c2fb =
     \<lparr>revision = ''4f67a335c2fb'', down_revision = None, upgrade = [], downgrade = []\<rparr>"

definition m_ddfaf2f3a619 :: migration where
  "m_ddfaf2f3a619 =
     \<lparr>revision = ''ddfaf2f3a619'', down_revision = Some ''4f67a335c2fb'',
      upgrade =
        [Create_Table ''users''
           [col ''id'' T_SERIAL, col ''username'' (T_VARCHAR 50)]
           [(None, Primary_Key [''id''])],
         Create_Index (plain_index ''ix_users_username'' ''users'' [''username''] True)],
      downgrade = [Drop_Index ''ix_users_username'', Drop_Table ''users'']\<rparr>"

definition m_c206d814930f :: migration where
  "m_c206d814930f =
     \<lparr>revision = ''c206d814930f'', down_revision = Some ''ddfaf2f3a619'',
      upgrade = [Add_Column ''users'' (nullable (col ''email'' (T_VARCHAR 255)))],
      downgrade = [Drop_Column ''users'' ''email'']\<rparr>"

definition m_6570fc21d8d4 :: migration where
  "m_6570fc21d8d4 =
     \<lparr>revision = ''6570fc21d8d4'', down_revision = Some ''c206d814930f'',
      upgrade =
        [Create_Type ''direction_enum'' [''INBOUND'', ''OUTBOUND''],
         Create_Table ''conversation_events''
           [random_id, col ''correlation_id'' T_UUID, col ''phone'' (T_VARCHAR 20),
            col ''direction'' (T_ENUM ''direction_enum''),
            nullable (col ''message_id'' (T_VARCHAR 100)),
            nullable (col ''fsm_state_from'' (T_VARCHAR 50)),
            nullable (col ''fsm_state_to'' (T_VARCHAR 50)),
            col ''payload'' T_JSONB, stamped ''created_at'']
           [(None, Primary_Key [''id'']), (None, Unique_Key [''message_id''])]],
      downgrade = [Drop_Table ''conversation_events'']\<rparr>"

definition m_43950d56bcd0 :: migration where
  "m_43950d56bcd0 =
     \<lparr>revision = ''43950d56bcd0'', down_revision = Some ''6570fc21d8d4'',
      upgrade =
        [Create_Index (plain_index ''ix_conversation_events_correlation_id'' ''conversation_events''
           [''correlation_id''] False)],
      downgrade = [Drop_Index ''ix_conversation_events_correlation_id'']\<rparr>"

definition m_113f6c5b291d :: migration where
  "m_113f6c5b291d =
     \<lparr>revision = ''113f6c5b291d'', down_revision = Some ''43950d56bcd0'',
      upgrade = [], downgrade = []\<rparr>"

definition m_a1b751383aa0 :: migration where
  "m_a1b751383aa0 =
     \<lparr>revision = ''a1b751383aa0'', down_revision = Some ''113f6c5b291d'',
      upgrade =
        [Create_Table ''shops''
           [random_id, col ''phone'' (T_VARCHAR 20), nullable (col ''name'' T_TEXT),
            server_default [CHR 0x27, CHR ''e'', CHR ''n'', CHR 0x27] (col ''locale'' (T_VARCHAR 10)),
            stamped ''created_at'']
           [(None, Primary_Key [''id'']), (None, Unique_Key [''phone''])],
         Drop_Index ''ix_users_username'',
         Drop_Table ''users''],
      downgrade =
        [Create_Table ''users''
           [col ''id'' T_SERIAL, col ''username'' (T_VARCHAR 50),
            nullable (col ''email'' (T_VARCHAR 255))]
           [(Some ''users_pkey'', Primary_Key [''id''])],
         Create_Index (plain_index ''ix_users_username'' ''users'' [''username''] True),
         Drop_Table ''shops'']\<rparr>"

definition m_33c78372eaa1 :: migration where
  "m_33c78372eaa1 =
     \<lparr>revision = ''33c78372eaa1'', down_revision = Some ''a1b751383aa0'',
      upgrade =
        [Create_Table ''products''
           [random_id, col ''shop_id'' T_UUID, col ''name'' T_TEXT,
            computed (E_Lower ''name'') (col ''name_lower'' T_TEXT),
            col ''sku'' (T_VARCHAR 50), col ''price'' (T_NUMERIC 10 2),
            stamped ''created_at'', stamped ''updated_at'']
           [(None, Foreign_Key [''shop_id''] ''shops'' [''id'']), (None, Primary_Key [''id'']),
            (None, Unique_Key [''sku''])],
         Create_Index (plain_index ''ix_products_name_lower'' ''products'' [''name_lower''] False)],
      downgrade = [Drop_Index ''ix_products_name_lower'', Drop_Table ''products'']\<rparr>"

definition m_981c9d39ee2a :: migration where
  "m_981c9d39ee2a =
     \<lparr>revision = ''981c9d39ee2a'', down_revision = Some ''33c78372eaa1'',
      upgrade =
        [Create_Table ''inventory''
           [random_id, col ''product_id'' T_UUID,
            server_default ''0'' (col ''quantity'' T_INTEGER),
            server_default ''5'' (col ''low_stock_threshold'' T_INTEGER),
            stamped ''last_updated'']
           [(None, Foreign_Key [''product_id''] ''products'' [''id'']), (None, Primary_Key [''id''])]],
      downgrade = [Drop_Table ''inventory'']\<rparr>"

definition sales_date_index :: index where
  "sales_date_index =
     \<lparr>ix_name = ''idx_sales_shop_date'', ix_table = ''sales'',
      ix_columns = [(''shop_id'', False), (''created_at'', True)], ix_unique = False,
      ix_using = ''btree'', ix_opclass = None\<rparr>"

definition m_17d2ea0a8ec1 :: migration where
  "m_17d2ea0a8ec1 =
     \<lparr>revision = ''17d2ea0a8ec1'', down_revision = Some ''981c9d39ee2a'',
      upgrade =
        [Create_Table ''sales''
           [random_id, col ''shop_id'' T_UUID, col ''product_id'' T_UUID, col ''quantity'' T_INTEGER,
            col ''unit_price'' (T_NUMERIC 10 2),
            computed (E_Mul ''quantity'' ''unit_price'') (col ''total'' (T_NUMERIC 10 2)),
            col ''recorded_by'' (T_VARCHAR 20), stamped ''created_at'']
           [(None, Foreign_Key [''product_id''] ''products'' [''id'']),
            (None, Foreign_Key [''shop_id''] ''shops'' [''id'']), (None, Primary_Key [''id''])],
         Create_Index sales_date_index],
      downgrade = [Drop_Index ''idx_sales_shop_date'', Drop_Table ''sales'']\<rparr>"

definition m_8a9f1d7c7c4b :: migration where
  "m_8a9f1d7c7c4b =
     \<lparr>revision = ''8a9f1d7c7c4b'', down_revision = Some ''17d2ea0a8ec1'',
      upgrade =
        [Add_Constraint ''inventory'' ''uq_inventory_product_id'' (Unique_Key [''product_id'']),
         Add_Constraint ''inventory'' ''ck_inventory_quantity_nonnegative'' (Check (E_Ge ''quantity'' 0)),
         Add_Constraint ''inventory'' ''ck_inventory_low_stock_threshold_bounds''
           (Check (E_And (E_Ge ''low_stock_threshold'' 0) (E_Le ''low_stock_threshold'' 1000))),
         Add_Constraint ''products'' ''ck_products_price_nonnegative'' (Check (E_Ge ''price'' 0)),
         Add_Constraint ''sales'' ''ck_sales_quantity_positive'' (Check (E_Gt ''quantity'' 0))],
      downgrade =
        [Drop_Constraint ''sales'' ''ck_sales_quantity_positive'',
         Drop_Constraint ''products'' ''ck_products_price_nonnegative'',
         Drop_Constraint ''inventory'' ''ck_inventory_low_stock_threshold_bounds'',
         Drop_Constraint ''inventory'' ''ck_inventory_quantity_nonnegative'',
         Drop_Constraint ''inventory'' ''uq_inventory_product_id'']\<rparr>"

definition m_d248148b39c3 :: migration where
  "m_d248148b39c3 =
     \<lparr>revision = ''d248148b39c3'', down_revision = Some ''8a9f1d7c7c4b'',
      upgrade =
        [Create_Extension ''pg_trgm'',
         Create_Index \<lparr>ix_name = ''ix_products_name_lower_trgm'', ix_table = ''products'',
           ix_columns = [(''name_lower'', False)], ix_unique = False, ix_using = ''gin'',
           ix_opclass = Some ''gin_trgm_ops''\<rparr>],
      downgrade = [Drop_Index ''ix_products_name_lower_trgm'', Drop_Extension ''pg_trgm'']\<rparr>"

definition m_b54f7a1d8e21 :: migration where
  "m_b54f7a1d8e21 =
     \<lparr>revision = ''b54f7a1d8e21'', down_revision = Some ''d248148b39c3'',
      upgrade =
        [Add_Constraint ''shops'' ''ck_shops_locale_supported''
           (Check (E_In ''locale'' [''en'', ''sw'']))],
      downgrade = [Drop_Constraint ''shops'' ''ck_shops_locale_supported'']\<rparr>"

lemmas migration_defs = m_4f67a335c2fb_def m_ddfaf2f3a619_def m_c206d814930f_def m_6570fc21d8d4_def
  m_43950d56bcd0_def m_113f6c5b291d_def m_a1b751383aa0_def m_33c78372eaa1_def m_981c9d39ee2a_def
  m_17d2ea0a8ec1_def m_8a9f1d7c7c4b_def m_d248148b39c3_def m_b54f7a1d8e21_def

text \<open>The directory, in the order of the file names: what follows what is read off the scripts.\<close>

definition versions :: "migration list" where
  "versions =
     [m_113f6c5b291d, m_17d2ea0a8ec1, m_33c78372eaa1, m_43950d56bcd0, m_4f67a335c2fb, m_6570fc21d8d4,
      m_8a9f1d7c7c4b, m_981c9d39ee2a, m_a1b751383aa0, m_b54f7a1d8e21, m_c206d814930f, m_d248148b39c3,
      m_ddfaf2f3a619]"

section \<open>Running them\<close>

record database =
  db_catalog :: catalog
  db_version :: "string option"

definition blank_database :: database where
  "blank_database = \<lparr>db_catalog = empty_catalog, db_version = None\<rparr>"

definition heads :: "migration list \<Rightarrow> string list" where
  "heads ms = filter (\<lambda>r. \<not> list_ex (\<lambda>m. down_revision m = Some r) ms) (map revision ms)"

text \<open>The revisions above one, up to the head; a chain is no longer than the directory.\<close>

fun pending :: "nat \<Rightarrow> migration list \<Rightarrow> string option \<Rightarrow> migration list" where
  "pending 0 ms v = []"
| "pending (Suc n) ms v =
     (case find (\<lambda>m. down_revision m = v) ms of
        None \<Rightarrow> []
      | Some m \<Rightarrow> m # pending n ms (Some (revision m)))"

fun run_upgrades :: "migration list \<Rightarrow> database \<Rightarrow> ddl_error + database" where
  "run_upgrades [] D = Inr D"
| "run_upgrades (m # ms) D =
     (case apply_all (upgrade m) (db_catalog D) of
        Inl e \<Rightarrow> Inl e
      | Inr c \<Rightarrow> run_upgrades ms \<lparr>db_catalog = c, db_version = Some (revision m)\<rparr>)"

fun run_downgrades :: "migration list \<Rightarrow> database \<Rightarrow> ddl_error + database" where
  "run_downgrades [] D = Inr D"
| "run_downgrades (m # ms) D =
     (case apply_all (downgrade m) (db_catalog D) of
        Inl e \<Rightarrow> Inl e
      | Inr c \<Rightarrow> run_downgrades ms \<lparr>db_catalog = c, db_version = down_revision m\<rparr>)"

text \<open>\<open>with context.begin_transaction(): context.run_migrations()\<close>.\<close>

definition in_transaction ::
  "(database \<Rightarrow> ddl_error + database) \<Rightarrow> database \<Rightarrow> (ddl_error + unit) \<times> database" where
  "in_transaction f D = (case f D of Inl e \<Rightarrow> (Inl e, D) | Inr D' \<Rightarrow> (Inr (), D'))"

definition upgrade_head :: "database \<Rightarrow> (ddl_error + unit) \<times> database" where
  "upgrade_head D =
     in_transaction (run_upgrades (pending (length versions) versions (db_version D))) D"

text \<open>\<open>alembic downgrade base\<close>: the revisions below the current one, the last first.\<close>

definition applied :: "string option \<Rightarrow> migration list" where
  "applied v =
     (let all = pending (length versions) versions None in
      case v of None \<Rightarrow> []
      | Some r \<Rightarrow> rev (take (length all - length (pending (length versions) versions v)) all))"

definition downgrade_base :: "database \<Rightarrow> (ddl_error + unit) \<times> database" where
  "downgrade_base D = in_transaction (run_downgrades (applied (db_version D))) D"

section \<open>The schema they end in\<close>

definition conversation_events_table :: table where
  "conversation_events_table =
     \<lparr>t_columns = [random_id, col ''correlation_id'' T_UUID, col ''phone'' (T_VARCHAR 20),
        col ''direction'' (T_ENUM ''direction_enum''), nullable (col ''message_id'' (T_VARCHAR 100)),
        nullable (col ''fsm_state_from'' (T_VARCHAR 50)), nullable (col ''fsm_state_to'' (T_VARCHAR 50)),
        col ''payload'' T_JSONB, stamped ''created_at''],
      t_rules = [(''conversation_events_pkey'', Primary_Key [''id'']),
        (''conversation_events_message_id_key'', Unique_Key [''message_id''])]\<rparr>"

definition shops_table :: table where
  "shops_table =
     \<lparr>t_columns = [random_id, col ''phone'' (T_VARCHAR 20), nullable (col ''name'' T_TEXT),
        server_default [CHR 0x27, CHR ''e'', CHR ''n'', CHR 0x27] (col ''locale'' (T_VARCHAR 10)),
        stamped ''created_at''],
      t_rules = [(''shops_pkey'', Primary_Key [''id'']), (''shops_phone_key'', Unique_Key [''phone'']),
        (''ck_shops_locale_supported'', Check (E_In ''locale'' [''en'', ''sw'']))]\<rparr>"

definition products_table :: table where
  "products_table =
     \<lparr>t_columns = [random_id, col ''shop_id'' T_UUID, col ''name'' T_TEXT,
        computed (E_Lower ''name'') (col ''name_lower'' T_TEXT), col ''sku'' (T_VARCHAR 50),
        col ''price'' (T_NUMERIC 10 2), stamped ''created_at'', stamped ''updated_at''],
      t_rules = [(''products_shop_id_fkey'', Foreign_Key [''shop_id''] ''shops'' [''id'']),
        (''products_pkey'', Primary_Key [''id'']), (''products_sku_key'', Unique_Key [''sku'']),
        (''ck_products_price_nonnegative'', Check (E_Ge ''price'' 0))]\<rparr>"

definition inventory_table :: table where
  "inventory_table =
     \<lparr>t_columns = [random_id, col ''product_id'' T_UUID,
        server_default ''0'' (col ''quantity'' T_INTEGER),
        server_default ''5'' (col ''low_stock_threshold'' T_INTEGER), stamped ''last_updated''],
      t_rules = [(''inventory_product_id_fkey'', Foreign_Key [''product_id''] ''products'' [''id'']),
        (''inventory_pkey'', Primary_Key [''id'']),
        (''uq_inventory_product_id'', Unique_Key [''product_id'']),
        (''ck_inventory_quantity_nonnegative'', Check (E_Ge ''quantity'' 0)),
        (''ck_inventory_low_stock_threshold_bounds'',
         Check (E_And (E_Ge ''low_stock_threshold'' 0) (E_Le ''low_stock_threshold'' 1000)))]\<rparr>"

definition sales_table :: table where
  "sales_table =
     \<lparr>t_columns = [random_id, col ''shop_id'' T_UUID, col ''product_id'' T_UUID,
        col ''quantity'' T_INTEGER, col ''unit_price'' (T_NUMERIC 10 2),
        computed (E_Mul ''quantity'' ''unit_price'') (col ''total'' (T_NUMERIC 10 2)),
        col ''recorded_by'' (T_VARCHAR 20), stamped ''created_at''],
      t_rules = [(''sales_product_id_fkey'', Foreign_Key [''product_id''] ''products'' [''id'']),
        (''sales_shop_id_fkey'', Foreign_Key [''shop_id''] ''shops'' [''id'']),
        (''sales_pkey'', Primary_Key [''id'']),
        (''ck_sales_quantity_positive'', Check (E_Gt ''quantity'' 0))]\<rparr>"

lemmas table_defs = conversation_events_table_def shops_table_def products_table_def
  inventory_table_def sales_table_def

definition head_catalog :: catalog where
  "head_catalog =
     \<lparr>ca_tables = [(''conversation_events'', conversation_events_table), (''shops'', shops_table),
        (''products'', products_table), (''inventory'', inventory_table), (''sales'', sales_table)],
      ca_indexes =
        [plain_index ''ix_conversation_events_correlation_id'' ''conversation_events'' [''correlation_id''] False,
         plain_index ''ix_products_name_lower'' ''products'' [''name_lower''] False, sales_date_index,
         (plain_index ''ix_products_name_lower_trgm'' ''products'' [''name_lower''] False)
           \<lparr>ix_using := ''gin'', ix_opclass := Some ''gin_trgm_ops''\<rparr>],
      ca_enums = [(''direction_enum'', [''INBOUND'', ''OUTBOUND''])],
      ca_extensions = [''pg_trgm'']\<rparr>"

definition head_database :: database where
  "head_database = \<lparr>db_catalog = head_catalog, db_version = Some ''b54f7a1d8e21''\<rparr>"

text \<open>The scripts form one chain with one head, and the chain runs on an empty database.\<close>

definition chain :: "migration list" where
  "chain =
     [m_4f67a335c2fb, m_ddfaf2f3a619, m_c206d814930f, m_6570fc21d8d4, m_43950d56bcd0, m_113f6c5b291d,
      m_a1b751383aa0, m_33c78372eaa1, m_981c9d39ee2a, m_17d2ea0a8ec1, m_8a9f1d7c7c4b, m_d248148b39c3,
      m_b54f7a1d8e21]"

lemma chain_is_all: "pending (length versions) versions None = chain" "heads versions = [''b54f7a1d8e21'']"
  by code_simp+

lemma upgrade_blank: "upgrade_head blank_database = (Inr (), head_database)"
  by code_simp

text \<open>The database after the first \<open>n\<close> revisions; upgrading it goes on where it stands.\<close>

definition after :: "nat \<Rightarrow> ddl_error + database" where
  "after n = run_upgrades (take n chain) blank_database"

lemma run_upgrades_append:
  "run_upgrades (xs @ ys) D = (case run_upgrades xs D of Inl e \<Rightarrow> Inl e | Inr D' \<Rightarrow> run_upgrades ys D')"
  by (induction xs arbitrary: D) (auto split: sum.split)

lemma after_version: "n < 13 \<Longrightarrow> after n = Inr D \<Longrightarrow> pending (length versions) versions (db_version D) = drop n chain"
proof -
  have "list_all (\<lambda>n. case after n of Inl _ \<Rightarrow> False | Inr D \<Rightarrow>
      pending (length versions) versions (db_version D) = drop n chain) [0..<13]"
    by code_simp
  from bspec [OF this [unfolded list_all_iff], of n]
  show "n < 13 \<Longrightarrow> after n = Inr D \<Longrightarrow> pending (length versions) versions (db_version D) = drop n chain"
    by simp
qed

lemma after_ok: "n < 13 \<Longrightarrow> \<exists>D. after n = Inr D"
proof -
  have "list_all (\<lambda>n. case after n of Inl _ \<Rightarrow> False | Inr D \<Rightarrow> True) [0..<13]"
    by code_simp
  from bspec [OF this [unfolded list_all_iff], of n]
  show "n < 13 \<Longrightarrow> \<exists>D. after n = Inr D" by (cases "after n") simp_all
qed

lemma upgrade_from_anywhere:
  assumes "n < 13" "after n = Inr D"
  shows "upgrade_head D = (Inr (), head_database)"
proof -
  have "run_upgrades chain blank_database = Inr head_database"
    using upgrade_blank chain_is_all(1)
    by (auto simp: upgrade_head_def in_transaction_def blank_database_def split: sum.splits)
  moreover have "run_upgrades chain blank_database = run_upgrades (drop n chain) D"
    using run_upgrades_append [of "take n chain" "drop n chain" blank_database] assms(2)
    by (simp add: after_def)
  ultimately show ?thesis
    by (simp add: upgrade_head_def in_transaction_def after_version [OF assms])
qed

section \<open>Back and forth\<close>

text \<open>A revision undone restores the catalogue it was applied to.\<close>

definition same_catalog_code :: "catalog \<Rightarrow> catalog \<Rightarrow> bool" where
  "same_catalog_code c d \<longleftrightarrow>
     (let eqv = (\<lambda>xs ys. list_all (\<lambda>x. x \<in> set ys) xs \<and> list_all (\<lambda>x. x \<in> set xs) ys) in
      eqv (ca_tables c) (ca_tables d) \<and> list_all (\<lambda>x. x \<in> set (ca_indexes d)) (ca_indexes c) \<and>
      list_all (\<lambda>x. x \<in> set (ca_indexes c)) (ca_indexes d) \<and>
      list_all (\<lambda>x. x \<in> set (ca_enums d)) (ca_enums c) \<and> list_all (\<lambda>x. x \<in> set (ca_enums c)) (ca_enums d) \<and>
      list_all (\<lambda>x. x \<in> set (ca_extensions d)) (ca_extensions c) \<and>
      list_all (\<lambda>x. x \<in> set (ca_extensions c)) (ca_extensions d))"

lemma same_catalog_code [code]: "same_catalog c d = same_catalog_code c d"
  by (auto simp: same_catalog_def same_catalog_code_def list_all_iff)

definition restored :: "nat \<Rightarrow> bool" where
  "restored n =
     (case after n of Inl _ \<Rightarrow> False
      | Inr D \<Rightarrow>
          (case run_downgrades (rev (take 1 (drop n chain))) (case after (Suc n) of Inl _ \<Rightarrow> D | Inr D' \<Rightarrow> D') of
             Inl _ \<Rightarrow> False
           | Inr D' \<Rightarrow> same_catalog (db_catalog D') (db_catalog D) \<and> db_version D' = db_version D))"

lemma restored_all: "list_all (\<lambda>n. restored n = (n \<noteq> 3)) [0..<13]"
  by code_simp

text \<open>Down to the base, the enumerated type is left over, and the chain does not run again.\<close>

definition leftover :: database where
  "leftover = \<lparr>db_catalog = empty_catalog\<lparr>ca_enums := [(''direction_enum'', [''INBOUND'', ''OUTBOUND''])]\<rparr>,
     db_version = None\<rparr>"

lemma down_and_up:
  "downgrade_base head_database = (Inr (), leftover)"
  "upgrade_head leftover = (Inl Duplicate_Object, leftover)"
  by code_simp+

end
