(* ===== verification/SchemaCheck.thy ===== *)
theory SchemaCheck
  imports Migrations
begin

text \<open>
  What a schema admits: rows of SQL values against the columns, keys and checks of a catalogue, in
  PostgreSQL's reading (a check passes unless it is false, a key with a null conflicts with nothing
  and refers to nothing). The tables of \<open>Database\<close> are such rows, and the schema the migrations end in
  admits them exactly when \<open>db_ok\<close> holds; so do the declarations of \<open>app/models\<close>.
\<close>

section \<open>Rows\<close>

text \<open>A \<open>NUMERIC\<close> of scale \<open>s\<close> is held as its unscaled integer.\<close>

datatype sql_value =
    V_Null
  | V_Uuid uuid
  | V_Text string
  | V_Int int
  | V_Num int
  | V_Time time
  | V_Json json

type_synonym row = "(string \<times> sql_value) list"
type_synonym rows = "string \<Rightarrow> row list"

definition cell :: "row \<Rightarrow> string \<Rightarrow> sql_value" where
  "cell r c = (case map_of r c of None \<Rightarrow> V_Null | Some v \<Rightarrow> v)"

definition key_of :: "string list \<Rightarrow> row \<Rightarrow> sql_value list" where
  "key_of cs r = map (cell r) cs"

fun fits_type :: "catalog \<Rightarrow> sql_type \<Rightarrow> sql_value \<Rightarrow> bool" where
  "fits_type c T_UUID (V_Uuid u) = True"
| "fits_type c T_TEXT (V_Text s) = True"
| "fits_type c (T_VARCHAR n) (V_Text s) = varchar n s"
| "fits_type c T_INTEGER (V_Int n) = int32 n"
| "fits_type c T_SERIAL (V_Int n) = int32 n"
| "fits_type c (T_NUMERIC p s) (V_Num n) = (\<bar>n\<bar> < 10 ^ p)"
| "fits_type c T_TIMESTAMPTZ (V_Time t) = True"
| "fits_type c T_JSONB (V_Json j) = True"
| "fits_type c (T_ENUM e) (V_Text s) =
     (case map_of (ca_enums c) e of None \<Rightarrow> False | Some vs \<Rightarrow> s \<in> set vs)"
| "fits_type c ty v = False"

text \<open>Comparisons with a number of the column's type; the program's scale is two.\<close>

fun compare_number :: "(int \<Rightarrow> int \<Rightarrow> bool) \<Rightarrow> sql_value \<Rightarrow> int \<Rightarrow> bool option" where
  "compare_number f (V_Int m) n = Some (f m n)"
| "compare_number f (V_Num m) n = Some (f m (n * 100))"
| "compare_number f v n = None"

fun and3 :: "bool option \<Rightarrow> bool option \<Rightarrow> bool option" where
  "and3 (Some False) b = Some False"
| "and3 (Some True) b = b"
| "and3 None b = (if b = Some False then Some False else None)"

fun holds_expr :: "row \<Rightarrow> sql_expr \<Rightarrow> bool option" where
  "holds_expr r (E_Ge c n) = compare_number (\<lambda>a b. b \<le> a) (cell r c) n"
| "holds_expr r (E_Le c n) = compare_number (\<lambda>a b. a \<le> b) (cell r c) n"
| "holds_expr r (E_Gt c n) = compare_number (\<lambda>a b. b < a) (cell r c) n"
| "holds_expr r (E_In c vs) = (case cell r c of V_Text s \<Rightarrow> Some (s \<in> set vs) | _ \<Rightarrow> None)"
| "holds_expr r (E_And a b) = and3 (holds_expr r a) (holds_expr r b)"
| "holds_expr r _ = None"

fun compute :: "row \<Rightarrow> sql_expr \<Rightarrow> sql_value" where
  "compute r (E_Lower c) = (case cell r c of V_Text s \<Rightarrow> V_Text (lower s) | _ \<Rightarrow> V_Null)"
| "compute r (E_Mul a b) =
     (case (cell r a, cell r b) of (V_Int m, V_Num n) \<Rightarrow> V_Num (m * n) | _ \<Rightarrow> V_Null)"
| "compute r _ = V_Null"

definition column_admits :: "catalog \<Rightarrow> row \<Rightarrow> column \<Rightarrow> bool" where
  "column_admits c r k \<longleftrightarrow>
     (if cell r (c_name k) = V_Null then c_nullable k else fits_type c (c_type k) (cell r (c_name k))) \<and>
     (case c_computed k of None \<Rightarrow> True | Some e \<Rightarrow> cell r (c_name k) = compute r e)"

definition distinct_keys :: "string list \<Rightarrow> row list \<Rightarrow> bool" where
  "distinct_keys cs rs = distinct (filter (\<lambda>k. V_Null \<notin> set k) (map (key_of cs) rs))"

fun rule_admits :: "rows \<Rightarrow> row list \<Rightarrow> rule \<Rightarrow> bool" where
  "rule_admits R rs (Primary_Key cs) =
     (distinct_keys cs rs \<and> list_all (\<lambda>r. V_Null \<notin> set (key_of cs r)) rs)"
| "rule_admits R rs (Unique_Key cs) = distinct_keys cs rs"
| "rule_admits R rs (Foreign_Key cs ref rcs) =
     list_all (\<lambda>r. V_Null \<in> set (key_of cs r) \<or> key_of cs r \<in> set (map (key_of rcs) (R ref))) rs"
| "rule_admits R rs (Check e) = list_all (\<lambda>r. holds_expr r e \<noteq> Some False) rs"

definition index_admits :: "rows \<Rightarrow> index \<Rightarrow> bool" where
  "index_admits R i = (ix_unique i \<longrightarrow> distinct_keys (map fst (ix_columns i)) (R (ix_table i)))"

definition table_admits :: "catalog \<Rightarrow> rows \<Rightarrow> string \<times> table \<Rightarrow> bool" where
  "table_admits c R nt =
     (case nt of (n, t) \<Rightarrow>
        list_all (\<lambda>r. map fst r = columns_of t \<and> list_all (column_admits c r) (t_columns t)) (R n) \<and>
        list_all (rule_admits R (R n)) (map snd (t_rules t)))"

definition admits :: "catalog \<Rightarrow> rows \<Rightarrow> bool" where
  "admits c R \<longleftrightarrow> list_all (table_admits c R) (ca_tables c) \<and> list_all (index_admits R) (ca_indexes c)"

section \<open>The tables of the program as rows\<close>

text \<open>
  \<open>stamps\<close> stands for the columns \<open>updated_at\<close> and \<open>last_updated\<close>, which \<open>Database\<close> leaves out; nothing
  writes \<open>conversation_events\<close>.
\<close>

definition shop_values :: "shop_row \<Rightarrow> row" where
  "shop_values s =
     [(''id'', V_Uuid (sh_id s)), (''phone'', V_Text (sh_phone s)),
      (''name'', case sh_name s of None \<Rightarrow> V_Null | Some n \<Rightarrow> V_Text n),
      (''locale'', V_Text (sh_locale s)), (''created_at'', V_Time (sh_created s))]"

definition product_values :: "(uuid \<Rightarrow> time) \<Rightarrow> product_row \<Rightarrow> row" where
  "product_values stamps p =
     [(''id'', V_Uuid (p_id p)), (''shop_id'', V_Uuid (p_shop_id p)), (''name'', V_Text (p_name p)),
      (''name_lower'', V_Text (p_name_lower p)), (''sku'', V_Text (p_sku p)), (''price'', V_Num (p_price p)),
      (''created_at'', V_Time (p_created p)), (''updated_at'', V_Time (stamps (p_id p)))]"

definition inventory_values :: "(uuid \<Rightarrow> time) \<Rightarrow> inventory_row \<Rightarrow> row" where
  "inventory_values stamps i =
     [(''id'', V_Uuid (i_id i)), (''product_id'', V_Uuid (i_product_id i)), (''quantity'', V_Int (i_quantity i)),
      (''low_stock_threshold'', V_Int (i_threshold i)), (''last_updated'', V_Time (stamps (i_id i)))]"

definition sale_values :: "sale_row \<Rightarrow> row" where
  "sale_values s =
     [(''id'', V_Uuid (s_id s)), (''shop_id'', V_Uuid (s_shop_id s)), (''product_id'', V_Uuid (s_product_id s)),
      (''quantity'', V_Int (s_quantity s)), (''unit_price'', V_Num (s_unit_price s)),
      (''total'', V_Num (s_total s)), (''recorded_by'', V_Text (s_recorded_by s)),
      (''created_at'', V_Time (s_created s))]"

definition rows_of :: "(uuid \<Rightarrow> time) \<Rightarrow> db \<Rightarrow> rows" where
  "rows_of stamps d n =
     (if n = ''shops'' then map shop_values (shops d)
      else if n = ''products'' then map (product_values stamps) (products d)
      else if n = ''inventory'' then map (inventory_values stamps) (inventory d)
      else if n = ''sales'' then map sale_values (sales d) else [])"

lemmas values_defs = shop_values_def product_values_def inventory_values_def sale_values_def

section \<open>The migrated schema admits exactly what the model of the database admits\<close>

lemma distinct_keys_single:
  assumes "\<And>x. cell (f x) c = g x" "\<And>x. g x \<noteq> V_Null"
  shows "distinct_keys [c] (map f xs) = distinct (map g xs)"
proof -
  have "filter (\<lambda>k. V_Null \<notin> set k) (map (key_of [c]) (map f xs)) = map (\<lambda>v. [v]) (map g xs)"
    using assms(2) by (induction xs) (auto simp: key_of_def assms(1) dest: sym)
  moreover have "distinct (map (\<lambda>v. [v]) (map g xs)) = distinct (map g xs)"
    by (simp add: distinct_map inj_on_def comp_def)
  ultimately show ?thesis unfolding distinct_keys_def by simp
qed

lemma distinct_tagged: "inj h \<Longrightarrow> distinct (map (\<lambda>x. h (g x)) xs) = distinct (map g xs)"
  using distinct_map [of h "map g xs"] by (auto simp: comp_def intro: inj_on_subset)

lemma sql_tags: "inj V_Uuid" "inj V_Text"
  by (simp_all add: inj_def)

lemma shops_admitted:
  "table_admits head_catalog (rows_of st d) (''shops'', shops_table) \<longleftrightarrow>
   list_all shop_types (shops d) \<and> shop_constraints d"
proof -
  have "distinct_keys [''id''] (map shop_values (shops d)) = distinct (map sh_id (shops d))"
    using distinct_keys_single [of shop_values "''id''" "\<lambda>s. V_Uuid (sh_id s)"] distinct_tagged [OF sql_tags(1)]
    by (simp add: shop_values_def cell_def)
  moreover have "distinct_keys [''phone''] (map shop_values (shops d)) = distinct (map sh_phone (shops d))"
    using distinct_keys_single [of shop_values "''phone''" "\<lambda>s. V_Text (sh_phone s)"] distinct_tagged [OF sql_tags(2)]
    by (simp add: shop_values_def cell_def)
  ultimately show ?thesis
    by (auto simp: table_admits_def shops_table_def rows_of_def list_all_iff columns_of_def column_defs
        column_admits_def cell_def shop_values_def key_of_def shop_types_def shop_constraints_def
        split: option.split)
qed

lemma products_admitted:
  "table_admits head_catalog (rows_of st d) (''products'', products_table) \<longleftrightarrow>
   list_all product_types (products d) \<and> product_constraints d"
proof -
  have "distinct_keys [''id''] (map (product_values st) (products d)) = distinct (map p_id (products d))"
    using distinct_keys_single [of "product_values st" "''id''" "\<lambda>s. V_Uuid (p_id s)"] distinct_tagged [OF sql_tags(1)]
    by (simp add: product_values_def cell_def)
  moreover have "distinct_keys [''sku''] (map (product_values st) (products d)) = distinct (map p_sku (products d))"
    using distinct_keys_single [of "product_values st" "''sku''" "\<lambda>s. V_Text (p_sku s)"] distinct_tagged [OF sql_tags(2)]
    by (simp add: product_values_def cell_def)
  ultimately show ?thesis
    by (auto simp: table_admits_def products_table_def rows_of_def list_all_iff columns_of_def column_defs
        column_admits_def cell_def product_values_def shop_values_def key_of_def product_types_def
        product_constraints_def numeric_10_2_def p_name_lower_def)
qed

lemma inventory_admitted:
  "table_admits head_catalog (rows_of st d) (''inventory'', inventory_table) \<longleftrightarrow>
   list_all inventory_types (inventory d) \<and> inventory_constraints d"
proof -
  have "distinct_keys [''id''] (map (inventory_values st) (inventory d)) = distinct (map i_id (inventory d))"
    using distinct_keys_single [of "inventory_values st" "''id''" "\<lambda>s. V_Uuid (i_id s)"] distinct_tagged [OF sql_tags(1)]
    by (simp add: inventory_values_def cell_def)
  moreover have "distinct_keys [''product_id''] (map (inventory_values st) (inventory d)) = distinct (map i_product_id (inventory d))"
    using distinct_keys_single [of "inventory_values st" "''product_id''" "\<lambda>s. V_Uuid (i_product_id s)"] distinct_tagged [OF sql_tags(1)]
    by (simp add: inventory_values_def cell_def)
  moreover have "and3 (Some a) (Some b) \<noteq> Some False \<longleftrightarrow> a \<and> b" for a b by (cases a) simp_all
  ultimately show ?thesis
    by (auto simp: table_admits_def inventory_table_def rows_of_def list_all_iff columns_of_def column_defs
        column_admits_def cell_def product_values_def inventory_values_def key_of_def inventory_types_def
        inventory_constraints_def)
qed

lemma sales_admitted:
  "table_admits head_catalog (rows_of st d) (''sales'', sales_table) \<longleftrightarrow>
   list_all sale_types (sales d) \<and> sale_constraints d"
proof -
  have "distinct_keys [''id''] (map sale_values (sales d)) = distinct (map s_id (sales d))"
    using distinct_keys_single [of sale_values "''id''" "\<lambda>s. V_Uuid (s_id s)"] distinct_tagged [OF sql_tags(1)]
    by (simp add: sale_values_def cell_def)
  then show ?thesis
    by (auto simp: table_admits_def sales_table_def rows_of_def list_all_iff columns_of_def column_defs
        column_admits_def cell_def product_values_def shop_values_def sale_values_def key_of_def sale_types_def
        sale_constraints_def numeric_10_2_def s_total_def)
qed

lemma no_rows_admitted: "rule_admits R [] r"
  by (cases r) (simp_all add: distinct_keys_def)

lemma events_admitted: "table_admits c (rows_of st d) (''conversation_events'', t)"
  by (simp add: table_admits_def rows_of_def list_all_iff no_rows_admitted)

lemma head_admits: "admits head_catalog (rows_of st d) \<longleftrightarrow> db_ok d"
proof -
  have "list_all (index_admits R) (ca_indexes head_catalog)" for R
    by (simp add: head_catalog_def index_admits_def plain_index_def sales_date_index_def)
  moreover have "ca_tables head_catalog = [(''conversation_events'', conversation_events_table),
      (''shops'', shops_table), (''products'', products_table), (''inventory'', inventory_table),
      (''sales'', sales_table)]"
    by (simp add: head_catalog_def)
  ultimately show ?thesis
    by (auto simp: admits_def events_admitted shops_admitted products_admitted inventory_admitted sales_admitted
        db_ok_def types_ok_def constraints_def)
qed

section \<open>The declarations of the models\<close>

text \<open>A table of \<open>app/models\<close>, with its constraints as declared.\<close>

definition declared :: "string \<Rightarrow> column list \<Rightarrow> (string option \<times> rule) list \<Rightarrow> string \<times> table" where
  "declared n cols rules = (n, \<lparr>t_columns = cols, t_rules = map (named_rule n) rules\<rparr>)"

definition Shop_model :: "string \<times> table" where
  "Shop_model =
     declared ''shops''
       [random_id, col ''phone'' (T_VARCHAR 20), nullable (col ''name'' T_TEXT),
        server_default [CHR 0x27, CHR ''e'', CHR ''n'', CHR 0x27] (col ''locale'' (T_VARCHAR 10)),
        stamped ''created_at'']
       [(None, Primary_Key [''id'']),
        (Some ''ck_shops_locale_supported'', Check (E_In ''locale'' [''en'', ''sw''])),
        (None, Unique_Key [''phone''])]"

definition Product_model :: "string \<times> table" where
  "Product_model =
     declared ''products''
       [random_id, col ''shop_id'' T_UUID, col ''name'' T_TEXT,
        computed (E_Lower ''name'') (col ''name_lower'' T_TEXT), col ''sku'' (T_VARCHAR 50),
        col ''price'' (T_NUMERIC 10 2), stamped ''created_at'', stamped ''updated_at'']
       [(None, Primary_Key [''id'']), (None, Foreign_Key [''shop_id''] ''shops'' [''id'']),
        (None, Unique_Key [''sku'']), (None, Check (E_Ge ''price'' 0))]"

definition Inventory_model :: "string \<times> table" where
  "Inventory_model =
     declared ''inventory''
       [random_id, col ''product_id'' T_UUID, server_default ''0'' (col ''quantity'' T_INTEGER),
        server_default ''5'' (col ''low_stock_threshold'' T_INTEGER), stamped ''last_updated'']
       [(None, Primary_Key [''id'']), (None, Unique_Key [''product_id'']),
        (None, Foreign_Key [''product_id''] ''products'' [''id'']),
        (None, Check (E_Ge ''quantity'' 0)),
        (None, Check (E_And (E_Ge ''low_stock_threshold'' 0) (E_Le ''low_stock_threshold'' 1000)))]"

definition Sale_model :: "string \<times> table" where
  "Sale_model =
     declared ''sales''
       [random_id, col ''shop_id'' T_UUID, col ''product_id'' T_UUID, col ''quantity'' T_INTEGER,
        col ''unit_price'' (T_NUMERIC 10 2),
        computed (E_Mul ''quantity'' ''unit_price'') (col ''total'' (T_NUMERIC 10 2)),
        col ''recorded_by'' (T_VARCHAR 20), stamped ''created_at'']
       [(None, Primary_Key [''id'']), (None, Foreign_Key [''shop_id''] ''shops'' [''id'']),
        (None, Foreign_Key [''product_id''] ''products'' [''id'']),
        (None, Check (E_Gt ''quantity'' 0))]"

definition Direction_members :: "(string \<times> string) list" where
  "Direction_members = [(''INBOUND'', ''inbound''), (''OUTBOUND'', ''outbound'')]"

definition ConversationEvents_model :: "string \<times> table" where
  "ConversationEvents_model =
     declared ''conversation_events''
       [random_id, col ''correlation_id'' T_UUID, col ''phone'' (T_VARCHAR 20),
        col ''direction'' (T_ENUM ''direction_enum''), nullable (col ''message_id'' (T_VARCHAR 100)),
        nullable (col ''fsm_state_from'' (T_VARCHAR 50)), nullable (col ''fsm_state_to'' (T_VARCHAR 50)),
        col ''payload'' T_JSONB, stamped ''created_at'']
       [(None, Primary_Key [''id'']), (None, Unique_Key [''message_id''])]"

text \<open>The mapper stores an enumeration under the names of its members.\<close>

definition models_catalog :: catalog where
  "models_catalog =
     \<lparr>ca_tables = [ConversationEvents_model, Shop_model, Product_model, Inventory_model, Sale_model],
      ca_indexes =
        [plain_index ''ix_conversation_events_correlation_id'' ''conversation_events'' [''correlation_id''] False,
         plain_index ''ix_products_name_lower'' ''products'' [''name_lower''] False, sales_date_index],
      ca_enums = [(''direction_enum'', map fst Direction_members)],
      ca_extensions = []\<rparr>"

lemmas model_defs = Shop_model_def Product_model_def Inventory_model_def Sale_model_def
  ConversationEvents_model_def declared_def

definition same_rules :: "(string \<times> table) \<Rightarrow> (string \<times> table) \<Rightarrow> bool" where
  "same_rules a b \<longleftrightarrow> fst a = fst b \<and> t_columns (snd a) = t_columns (snd b) \<and>
     snd ` set (t_rules (snd a)) = snd ` set (t_rules (snd b))"

lemma table_admits_rules:
  "table_admits c R a \<longleftrightarrow>
     list_all (\<lambda>r. map fst r = map c_name (t_columns (snd a)) \<and> list_all (column_admits c r) (t_columns (snd a)))
       (R (fst a)) \<and>
     (\<forall>r \<in> snd ` set (t_rules (snd a)). rule_admits R (R (fst a)) r)"
  by (cases a) (simp add: table_admits_def columns_of_def list_all_iff)

lemma same_rules_admit: "same_rules a b \<Longrightarrow> table_admits c R a = table_admits c R b"
  unfolding same_rules_def table_admits_rules by (elim conjE) (simp only:)

lemma types_by_enums: "ca_enums c = ca_enums c' \<Longrightarrow> fits_type c ty v = fits_type c' ty v"
  by (cases "(c, ty, v)" rule: fits_type.cases) simp_all

lemma table_by_enums: "ca_enums c = ca_enums c' \<Longrightarrow> table_admits c R a = table_admits c' R a"
proof -
  assume e: "ca_enums c = ca_enums c'"
  have "column_admits c = column_admits c'" by (intro ext) (simp add: column_admits_def types_by_enums [OF e])
  then show ?thesis by (simp add: table_admits_def)
qed

text \<open>The declarations and the migrations admit the same rows, whatever they are.\<close>

lemma models_admit: "admits models_catalog R \<longleftrightarrow> admits head_catalog R"
proof -
  have enums: "ca_enums models_catalog = ca_enums head_catalog"
    by (simp add: models_catalog_def head_catalog_def Direction_members_def)
  have idx: "list_all (index_admits R) (ca_indexes head_catalog)" "list_all (index_admits R) (ca_indexes models_catalog)"
    by (simp_all add: head_catalog_def models_catalog_def index_admits_def plain_index_def sales_date_index_def)
  have "list_all2 same_rules (ca_tables models_catalog) (ca_tables head_catalog)"
    by (auto simp: models_catalog_def head_catalog_def same_rules_def model_defs table_defs named_rule_def)
  then have "list_all (table_admits head_catalog R) (ca_tables models_catalog) =
      list_all (table_admits head_catalog R) (ca_tables head_catalog)"
    by (induction rule: list_all2_induct) (simp_all add: same_rules_admit)
  with idx show ?thesis
    unfolding admits_def table_by_enums [OF enums] by (simp add: list_all_iff table_by_enums [OF enums])
qed

end
