(* ===== verification/WebhookBody.thy ===== *)
theory WebhookBody
  imports Webhook JsonText
begin

text \<open>
  The body of a webhook request: the classes \<open>Text\<close>, \<open>Message\<close>, \<open>Value\<close>, \<open>Change\<close>, \<open>Entry\<close> and
  \<open>WhatsAppWebhook\<close> of \<open>app/fsm/models.py\<close> as pydantic validates them (a field must be there and have
  its type, names that are no field are ignored) and \<open>model_dump(by_alias=True)\<close>.
\<close>

section \<open>Validation\<close>

definition str_field :: "string \<Rightarrow> dict \<Rightarrow> string option" where
  "str_field k d = (case map_of d k of Some (JStr s) \<Rightarrow> Some s | _ \<Rightarrow> None)"

definition list_field :: "(json \<Rightarrow> 'a option) \<Rightarrow> string \<Rightarrow> dict \<Rightarrow> 'a list option" where
  "list_field f k d = (case map_of d k of Some (JArr js) \<Rightarrow> those (map f js) | _ \<Rightarrow> None)"

fun text_of_json :: "json \<Rightarrow> string option" where
  "text_of_json (JObj d) = str_field ''body'' d"
| "text_of_json _ = None"

fun message_of_json :: "json \<Rightarrow> wa_message option" where
  "message_of_json (JObj d) =
     (case (str_field ''from'' d, str_field ''id'' d, str_field ''type'' d, map_of d ''text'') of
        (Some f, Some i, Some ty, Some tx) \<Rightarrow>
          map_option (\<lambda>b. \<lparr>wa_from = f, wa_id = i, wa_type = ty, wa_body = b\<rparr>) (text_of_json tx)
      | _ \<Rightarrow> None)"
| "message_of_json _ = None"

fun value_of_json :: "json \<Rightarrow> wa_value option" where
  "value_of_json (JObj d) = list_field message_of_json ''messages'' d"
| "value_of_json _ = None"

fun change_of_json :: "json \<Rightarrow> wa_change option" where
  "change_of_json (JObj d) = (case map_of d ''value'' of None \<Rightarrow> None | Some v \<Rightarrow> value_of_json v)"
| "change_of_json _ = None"

fun entry_of_json :: "json \<Rightarrow> wa_entry option" where
  "entry_of_json (JObj d) = list_field change_of_json ''changes'' d"
| "entry_of_json _ = None"

fun webhook_of_json :: "json \<Rightarrow> whatsapp_webhook option" where
  "webhook_of_json (JObj d) =
     (case (str_field ''object'' d, list_field entry_of_json ''entry'' d) of
        (Some ob, Some es) \<Rightarrow> Some \<lparr>wa_object = ob, wa_entries = es\<rparr>
      | _ \<Rightarrow> None)"
| "webhook_of_json _ = None"

section \<open>Printing\<close>

definition message_json :: "wa_message \<Rightarrow> json" where
  "message_json m =
     JObj [(''from'', JStr (wa_from m)), (''id'', JStr (wa_id m)), (''type'', JStr (wa_type m)),
           (''text'', JObj [(''body'', JStr (wa_body m))])]"

definition value_json :: "wa_value \<Rightarrow> json" where
  "value_json ms = JObj [(''messages'', JArr (map message_json ms))]"

definition change_json :: "wa_change \<Rightarrow> json" where
  "change_json v = JObj [(''value'', value_json v)]"

definition entry_json :: "wa_entry \<Rightarrow> json" where
  "entry_json cs = JObj [(''changes'', JArr (map change_json cs))]"

definition webhook_json :: "whatsapp_webhook \<Rightarrow> json" where
  "webhook_json w = JObj [(''object'', JStr (wa_object w)), (''entry'', JArr (map entry_json (wa_entries w)))]"

lemma those_map: "(\<And>x. x \<in> set xs \<Longrightarrow> f (g x) = Some x) \<Longrightarrow> those (map f (map g xs)) = Some xs"
  by (induction xs) auto

lemma message_roundtrip: "message_of_json (message_json m) = Some m"
  by (simp add: message_json_def str_field_def)

lemma change_roundtrip: "change_of_json (change_json v) = Some v"
  using those_map [of v message_of_json message_json] message_roundtrip
  by (simp add: change_json_def value_json_def list_field_def)

lemma entry_roundtrip: "entry_of_json (entry_json e) = Some e"
  using those_map [of e change_of_json change_json] change_roundtrip
  by (simp add: entry_json_def list_field_def)

lemma webhook_roundtrip: "webhook_of_json (webhook_json w) = Some w"
  using those_map [of "wa_entries w" entry_of_json entry_json] entry_roundtrip
  by (simp add: webhook_json_def list_field_def str_field_def)

text \<open>The texts of a payload.\<close>

definition webhook_plain :: "whatsapp_webhook \<Rightarrow> bool" where
  "webhook_plain w \<longleftrightarrow> unicode_text (wa_object w) \<and>
     list_all (list_all (list_all (\<lambda>m. unicode_text (wa_from m) \<and> unicode_text (wa_id m) \<and>
       unicode_text (wa_type m) \<and> unicode_text (wa_body m)))) (wa_entries w)"

lemma field_names:
  "unicode_text ''object''" "unicode_text ''entry''" "unicode_text ''changes''" "unicode_text ''value''"
  "unicode_text ''messages''" "unicode_text ''from''" "unicode_text ''id''" "unicode_text ''type''"
  "unicode_text ''text''" "unicode_text ''body''"
  by (rule ascii_text, simp)+

lemma webhook_json_plain: "webhook_plain w \<Longrightarrow> plain (webhook_json w)"
  by (auto simp: webhook_plain_def webhook_json_def entry_json_def change_json_def value_json_def
      message_json_def field_names list_all_iff)

text \<open>
  Pydantic's reader of JSON texts: what \<open>json.dumps\<close> printed is read as the value it was printed from.
  The reader made of \<open>json.loads\<close> is one.
\<close>

definition reads_json :: "(string \<Rightarrow> string + whatsapp_webhook) \<Rightarrow> bool" where
  "reads_json v \<longleftrightarrow> (\<forall>j w. plain j \<longrightarrow> webhook_of_json j = Some w \<longrightarrow> v (json_dumps j) = Inr w)"

definition loads_and_validates :: "string \<Rightarrow> string + whatsapp_webhook" where
  "loads_and_validates b =
     (case json_loads b of
        Inl e \<Rightarrow> Inl ''Invalid JSON''
      | Inr j \<Rightarrow> (case webhook_of_json j of None \<Rightarrow> Inl ''validation error'' | Some w \<Rightarrow> Inr w))"

lemma loads_reads: "reads_json loads_and_validates"
  by (simp add: reads_json_def loads_and_validates_def json_loads_dumps)

end
