(* ===== verification/Simulator.thy ===== *)
theory Simulator
  imports WebhookBody
begin

text \<open>
  \<open>tools/chat_simulator.py\<close>: the local stand-in for the messaging provider. It keeps the messages of
  each phone, signs what the user types as a webhook request, and takes the replies the mock sender
  posts. The HTTP requests it makes, the clock, random identifiers, files, Python's \<open>repr\<close> of a text
  and the wording of its JSON errors are parameters; what it prints is left out. A request target is a
  path with an optional query; bodies are UTF-8.
\<close>

section \<open>The world outside\<close>

datatype post_outcome =
    Accepted int
  | Status_Error int
  | Transport_Error string

record sim_env =
  webhook_url :: string
  static_phone :: string
  sim_secret :: "string option"  \<comment> \<open>\<open>settings.whatsapp_app_secret\<close>\<close>
  deliver :: "webhook_request \<Rightarrow> post_outcome"
  patch_locale :: "string \<Rightarrow> dict \<Rightarrow> string option"  \<comment> \<open>the error of the request, if any\<close>
  healthy :: "string \<Rightarrow> bool"
  sim_time :: string
  sim_uuid :: "nat \<Rightarrow> string"
  repr_text :: "string \<Rightarrow> string"
  json_error_text :: "json_error \<Rightarrow> string"
  static_file :: "string \<Rightarrow> string option"

record simulator =
  messages_store :: "string \<Rightarrow> dict list option"
  sim_ids :: nat
  sim_posted :: "webhook_request list"

definition fresh_id :: "string \<Rightarrow> sim_env \<Rightarrow> simulator \<Rightarrow> string \<times> simulator" where
  "fresh_id p E st = (p @ sim_uuid E (sim_ids st), st\<lparr>sim_ids := Suc (sim_ids st)\<rparr>)"

section \<open>Payloads and texts\<close>

definition construct_payload :: "string \<Rightarrow> string \<Rightarrow> string \<Rightarrow> whatsapp_webhook option" where
  "construct_payload phone_number m mid =
     webhook_of_json
       (JObj [(''object'', JStr ''whatsapp_business_account''),
              (''entry'', JArr [JObj [(''changes'', JArr [JObj [(''value'', JObj [(''messages'', JArr
                 [JObj [(''from'', JStr phone_number), (''id'', JStr mid), (''type'', JStr ''text''),
                        (''text'', JObj [(''body'', JStr m)])]])])]])]])])"

definition text_keys :: "string list" where
  "text_keys = [''message_text'', ''reply_text'', ''message'', ''text'']"

definition nested_keys :: "string list" where
  "nested_keys = [''data'', ''result'', ''response'', ''payload'']"

definition own_text :: "dict \<Rightarrow> string option" where
  "own_text d =
     map_option (\<lambda>k. case map_of d k of Some (JStr s) \<Rightarrow> strip s | _ \<Rightarrow> [])
       (find (\<lambda>k. case map_of d k of Some (JStr s) \<Rightarrow> strip s \<noteq> [] | _ \<Rightarrow> False) text_keys)"

definition first_text :: "string list \<Rightarrow> string" where
  "first_text ts = (case find (\<lambda>t. t \<noteq> []) ts of None \<Rightarrow> [] | Some t \<Rightarrow> t)"

lemma first_text_cases: "first_text ts = [] \<or> first_text ts \<in> set ts"
  by (auto simp: first_text_def split: option.split dest: find_Some_mem)

text \<open>A nested null is passed over, which the answer for null, no text, also says.\<close>

function extract_bot_text :: "json \<Rightarrow> string" where
  "extract_bot_text j =
     (case j of
        JObj d \<Rightarrow>
          (case own_text d of
             Some t \<Rightarrow> t
           | None \<Rightarrow> first_text (map (\<lambda>k. case map_of d k of None \<Rightarrow> [] | Some v \<Rightarrow> extract_bot_text v) nested_keys))
      | JArr js \<Rightarrow> first_text (map extract_bot_text js)
      | _ \<Rightarrow> [])"
  by pat_completeness auto
termination
proof (relation "measure size")
  fix j d k v
  assume "j = JObj d" "map_of d k = Some v"
  moreover from this have "size_prod (\<lambda>x. 0) size (k, v) \<le> size_list (size_prod (\<lambda>x. 0) size) d"
    by (intro size_list_estimation') (auto dest: map_of_SomeD)
  ultimately show "(v, j) \<in> measure size" by simp
next
  fix j js x
  assume "j = JArr js" "x \<in> set js"
  moreover from this have "size x \<le> size_list size js"
    by (intro size_list_estimation') auto
  ultimately show "(x, j) \<in> measure size" by simp
qed simp

declare extract_bot_text.simps [simp del]

definition parse_locale_command :: "string \<Rightarrow> string option" where
  "parse_locale_command m =
     (let parts = py_split (lower (strip m));
          supported = (\<lambda>l. if l \<in> {''en'', ''sw''} then Some l else None) in
      if length parts = 2 \<and> parts ! 0 = ''locale'' then supported (parts ! 1)
      else if length parts = 3 \<and> take 2 parts = [''set'', ''locale''] then supported (parts ! 2)
      else None)"

definition locale_name :: "string \<Rightarrow> string" where
  "locale_name l = (if l = ''en'' then ''English'' else ''Swahili'')"

section \<open>The store of messages\<close>

definition store_message :: "string \<Rightarrow> dict \<Rightarrow> simulator \<Rightarrow> simulator" where
  "store_message ph m st =
     (let old = (case messages_store st ph of None \<Rightarrow> [] | Some ms \<Rightarrow> ms) in
      st\<lparr>messages_store := (messages_store st)(ph \<mapsto> old @ [m])\<rparr>)"

definition clear_messages :: "string \<Rightarrow> simulator \<Rightarrow> simulator" where
  "clear_messages ph st = st\<lparr>messages_store := (messages_store st)(ph \<mapsto> [])\<rparr>"

definition get_messages :: "string \<Rightarrow> simulator \<Rightarrow> dict list" where
  "get_messages ph st = (case messages_store st ph of None \<Rightarrow> [] | Some ms \<Rightarrow> ms)"

definition text_entry :: "string \<Rightarrow> string \<Rightarrow> string \<Rightarrow> string \<Rightarrow> dict" where
  "text_entry mid who t time' =
     [(''id'', JStr mid), (''sender'', JStr who), (''type'', JStr ''text''), (''text'', JStr t),
      (''timestamp'', JStr time')]"

section \<open>The locale of a shop\<close>

text \<open>\<open>s.rsplit(p, 1)[0]\<close>.\<close>

definition before_last :: "string \<Rightarrow> string \<Rightarrow> string" where
  "before_last p s =
     (case filter (\<lambda>n. startswith (drop n s) p) (rev [0..<Suc (length s)]) of [] \<Rightarrow> s | n # _ \<Rightarrow> take n s)"

definition configure_shop_locale :: "sim_env \<Rightarrow> string \<Rightarrow> string \<Rightarrow> bool \<times> string" where
  "configure_shop_locale E ph l =
     (case patch_locale E (before_last ''/webhook'' (webhook_url E) @ ''/shops/'' @ ph @ ''/locale'') [(''locale'', JStr l)] of
        None \<Rightarrow> (True, ''This shop is now configured to use '' @ locale_name l @ '' for outgoing messages.'')
      | Some e \<Rightarrow> (False, ''Could not configure shop locale: '' @ e))"

definition store_locale_result :: "sim_env \<Rightarrow> string \<Rightarrow> string \<Rightarrow> simulator \<Rightarrow> (bool \<times> string) \<times> simulator" where
  "store_locale_result E ph l st =
     (let (success, confirmation) = configure_shop_locale E ph l in
      if success
      then (let (mid, st1) = fresh_id ''bot-'' E st in
            ((True, confirmation), store_message ph (text_entry mid ''bot'' confirmation (sim_time E)) st1))
      else ((False, confirmation), st))"

section \<open>Sending\<close>

definition default_secret :: string where
  "default_secret = ''test-app-secret-for-hmac''"

definition simulator_secret :: "sim_env \<Rightarrow> string option \<Rightarrow> string" where
  "simulator_secret E app_secret =
     (case app_secret of Some s \<Rightarrow> s | None \<Rightarrow> or_default (sim_secret E) default_secret)"

text \<open>The first message takes another identifier; \<open>None\<close> is the \<open>IndexError\<close> of an empty list.\<close>

definition with_message_id :: "string option \<Rightarrow> whatsapp_webhook \<Rightarrow> whatsapp_webhook option" where
  "with_message_id custom w =
     (if or_default custom [] = [] \<or> wa_entries w = [] then Some w
      else case wa_entries w of
        ((x # xs) # cs) # es \<Rightarrow> Some (w\<lparr>wa_entries := ((x\<lparr>wa_id := or_default custom []\<rparr> # xs) # cs) # es\<rparr>)
      | _ \<Rightarrow> None)"

definition signed_request :: "string \<Rightarrow> bool \<Rightarrow> whatsapp_webhook \<Rightarrow> webhook_request" where
  "signed_request secret invalid w =
     (let body = json_dumps (webhook_json w) in
      \<lparr>raw_body = body,
       x_hub_signature_256 = Some (if invalid then ''sha256=invalid_hmac_signature_hex''
                                   else ''sha256='' @ computed_signature secret body),
       correlation_header = None\<rparr>)"

fun post_succeeded :: "post_outcome \<Rightarrow> bool" where
  "post_succeeded (Accepted n) = True"
| "post_succeeded _ = False"

definition send_payload ::
  "sim_env \<Rightarrow> whatsapp_webhook \<Rightarrow> string option \<Rightarrow> bool \<Rightarrow> string option \<Rightarrow> simulator \<Rightarrow> bool option \<times> simulator" where
  "send_payload E w app_secret invalid custom st =
     (case with_message_id custom w of
        None \<Rightarrow> (None, st)
      | Some w' \<Rightarrow>
          (let req = signed_request (simulator_secret E app_secret) invalid w' in
           (Some (post_succeeded (deliver E req)), st\<lparr>sim_posted := sim_posted st @ [req]\<rparr>)))"

section \<open>Python's reading of JSON values\<close>

fun py_repr :: "sim_env \<Rightarrow> json \<Rightarrow> string" where
  "py_repr E JNull = ''None''"
| "py_repr E (JBool b) = (if b then ''True'' else ''False'')"
| "py_repr E (JInt n) = str_int n"
| "py_repr E (JNum r) = repr_float r"
| "py_repr E (JNonFinite s) = (if s = ''NaN'' then ''nan'' else if s = ''Infinity'' then ''inf'' else ''-inf'')"
| "py_repr E (JStr s) = repr_text E s"
| "py_repr E (JTime t) = str_int t"
| "py_repr E (JArr js) = ''['' @ str_join '', '' (map (py_repr E) js) @ '']''"
| "py_repr E (JObj d) = ''{'' @ str_join '', '' (map (\<lambda>(k, v). repr_text E k @ '': '' @ py_repr E v) d) @ ''}''"

definition py_str :: "sim_env \<Rightarrow> json \<Rightarrow> string" where
  "py_str E j = (case j of JStr s \<Rightarrow> s | _ \<Rightarrow> py_repr E j)"

fun truthy :: "json \<Rightarrow> bool" where
  "truthy JNull = False"
| "truthy (JBool b) = b"
| "truthy (JInt n) = (n \<noteq> 0)"
| "truthy (JNum r) = (r \<noteq> 0)"
| "truthy (JStr s) = (s \<noteq> [])"
| "truthy (JArr js) = (js \<noteq> [])"
| "truthy (JObj d) = (d \<noteq> [])"
| "truthy _ = True"

definition dict_get :: "string \<Rightarrow> dict \<Rightarrow> json" where
  "dict_get k d = (case map_of d k of None \<Rightarrow> JNull | Some v \<Rightarrow> v)"

definition str_or :: "sim_env \<Rightarrow> json \<Rightarrow> string \<Rightarrow> string" where
  "str_or E v d = (if truthy v then py_str E v else d)"

fun type_name :: "json \<Rightarrow> string" where
  "type_name JNull = ''NoneType''"
| "type_name (JBool b) = ''bool''"
| "type_name (JInt n) = ''int''"
| "type_name (JStr s) = ''str''"
| "type_name (JArr js) = ''list''"
| "type_name (JObj d) = ''dict''"
| "type_name _ = ''float''"

section \<open>The handlers\<close>

datatype sim_reply =
    Json_Reply int json
  | File_Reply string string  \<comment> \<open>content type, content\<close>
  | No_Content

definition json_detail :: "int \<Rightarrow> string \<Rightarrow> sim_reply" where
  "json_detail n m = Json_Reply n (JObj [(''detail'', JStr m)])"

definition sent_reply :: "string \<Rightarrow> sim_reply" where
  "sent_reply mid = Json_Reply 200 (JObj [(''status'', JStr ''ok''), (''message_id'', JStr mid)])"

definition ok_reply :: sim_reply where
  "ok_reply = Json_Reply 200 (JObj [(''status'', JStr ''ok'')])"

text \<open>\<open>json.loads(raw_body) if raw_body else {}\<close>, of which the handlers call \<open>get\<close>.\<close>

definition request_data :: "sim_env \<Rightarrow> string \<Rightarrow> string + dict" where
  "request_data E body =
     (case (if body = [] then Inr (JObj []) else json_loads body) of
        Inl e \<Rightarrow> Inl (json_error_text E e)
      | Inr (JObj d) \<Rightarrow> Inr d
      | Inr j \<Rightarrow> Inl ([CHR 0x27] @ type_name j @ [CHR 0x27] @ '' object has no attribute ''
                      @ [CHR 0x27] @ ''get'' @ [CHR 0x27]))"

definition api_send :: "sim_env \<Rightarrow> string \<Rightarrow> simulator \<Rightarrow> sim_reply \<times> simulator" where
  "api_send E body st =
     (case request_data E body of
        Inl e \<Rightarrow> (json_detail 500 e, st)
      | Inr d \<Rightarrow>
          (let ph = strip (str_or E (dict_get ''phone'' d) (static_phone E));
               m = strip (str_or E (dict_get ''message'' d) []) in
           if m = [] then (json_detail 400 ''Message text required'', st)
           else
             (let (mid, st1) = fresh_id ''wamid.'' E st;
                  st2 = store_message ph (text_entry mid ''user'' m (sim_time E)) st1 in
              case parse_locale_command m of
                Some l \<Rightarrow>
                  (case store_locale_result E ph l st2 of
                     ((True, c), st3) \<Rightarrow> (sent_reply mid, st3)
                   | ((False, c), st3) \<Rightarrow> (json_detail 502 c, st3))
              | None \<Rightarrow>
                  (case construct_payload ph m mid of
                     None \<Rightarrow> (json_detail 500 ''validation error'', st2)
                   | Some w \<Rightarrow>
                       (case send_payload E w None False None st2 of
                          (Some True, st3) \<Rightarrow> (sent_reply mid, st3)
                        | (Some False, st3) \<Rightarrow> (json_detail 502 ''Failed to post to backend webhook'', st3)
                        | (None, st3) \<Rightarrow> (json_detail 500 ''list index out of range'', st3))))))"

definition api_clear :: "sim_env \<Rightarrow> string \<Rightarrow> simulator \<Rightarrow> sim_reply \<times> simulator" where
  "api_clear E body st =
     (case request_data E body of
        Inl e \<Rightarrow> (json_detail 500 e, st)
      | Inr d \<Rightarrow> (ok_reply, clear_messages (strip (str_or E (dict_get ''phone'' d) (static_phone E))) st))"

text \<open>The callback of the mock sender: any body is kept as a message of the bot.\<close>

record bot_reply =
  br_recipient :: string
  br_text :: string
  br_filename :: json
  br_caption :: json
  br_length :: json

definition read_callback :: "sim_env \<Rightarrow> string \<Rightarrow> bot_reply" where
  "read_callback E body =
     (let none = \<lparr>br_recipient = static_phone E, br_text = [], br_filename = JNull, br_caption = JNull,
                  br_length = JNull\<rparr> in
      if body = [] then none
      else case json_loads body of
        Inl e \<Rightarrow> none\<lparr>br_text := strip body\<rparr>
      | Inr j \<Rightarrow>
          (let r = (case j of
                 JObj d \<Rightarrow> none\<lparr>br_recipient := str_or E (dict_get ''recipient'' d) (static_phone E),
                                br_filename := dict_get ''filename'' d, br_caption := dict_get ''caption'' d,
                                br_length := dict_get ''document_length'' d\<rparr>
               | _ \<Rightarrow> none);
               t = extract_bot_text j in
           r\<lparr>br_text := if t = [] \<and> \<not> truthy (br_filename r) then json_dumps j else t\<rparr>))"

definition bot_entry :: "sim_env \<Rightarrow> string \<Rightarrow> bot_reply \<Rightarrow> dict" where
  "bot_entry E mid r =
     [(''id'', JStr mid), (''sender'', JStr ''bot''),
      (''type'', JStr (if truthy (br_filename r) then ''document'' else ''text'')),
      (''text'', if br_text r \<noteq> [] then JStr (br_text r)
                 else if truthy (br_caption r) then br_caption r
                 else JStr (if truthy (br_filename r) then ''Document: '' @ py_str E (br_filename r) else [])),
      (''filename'', br_filename r), (''caption'', br_caption r), (''document_length'', br_length r),
      (''timestamp'', JStr (sim_time E))]"

definition callback :: "sim_env \<Rightarrow> string \<Rightarrow> simulator \<Rightarrow> sim_reply \<times> simulator" where
  "callback E body st =
     (let r = read_callback E body; (mid, st1) = fresh_id ''bot-'' E st in
      (ok_reply, store_message (br_recipient r) (bot_entry E mid r) st1))"

definition url_path :: "string \<Rightarrow> string" where
  "url_path t = takeWhile (\<lambda>c. c \<noteq> CHR 0x3F \<and> c \<noteq> CHR 0x23) t"

definition url_query :: "string \<Rightarrow> string" where
  "url_query t = takeWhile (\<lambda>c. c \<noteq> CHR 0x23) (drop 1 (dropWhile (\<lambda>c. c \<noteq> CHR 0x3F) (takeWhile (\<lambda>c. c \<noteq> CHR 0x23) t)))"

definition do_POST :: "sim_env \<Rightarrow> string \<Rightarrow> string \<Rightarrow> simulator \<Rightarrow> sim_reply \<times> simulator" where
  "do_POST E target body st =
     (if url_path target = ''/api/send'' then api_send E body st
      else if url_path target = ''/api/clear'' then api_clear E body st
      else callback E body st)"

definition do_OPTIONS :: sim_reply where
  "do_OPTIONS = No_Content"

text \<open>\<open>parse_qs\<close>: fields without a value are dropped.\<close>

primrec split_on :: "char \<Rightarrow> string \<Rightarrow> string list" where
  "split_on c [] = [[]]"
| "split_on c (x # s) =
     (if x = c then [] # split_on c s
      else case split_on c s of [] \<Rightarrow> [[x]] | w # ws \<Rightarrow> (x # w) # ws)"

fun unquote_plus :: "string \<Rightarrow> string" where
  "unquote_plus (c # a # b # r) =
     (if c = CHR 0x25 then
        (case (hex_value a, hex_value b) of
           (Some x, Some y) \<Rightarrow> char_of (x * 16 + y) # unquote_plus r
         | _ \<Rightarrow> c # unquote_plus (a # b # r))
      else (if c = CHR ''+'' then CHR '' '' else c) # unquote_plus (a # b # r))"
| "unquote_plus (c # r) = (if c = CHR ''+'' then CHR '' '' else c) # unquote_plus r"
| "unquote_plus [] = []"

definition query_values :: "string \<Rightarrow> string \<Rightarrow> string list" where
  "query_values k q =
     concat (map (\<lambda>f. let v = drop 1 (dropWhile (\<lambda>c. c \<noteq> CHR ''='') f) in
        if v \<noteq> [] \<and> unquote_plus (takeWhile (\<lambda>c. c \<noteq> CHR ''='') f) = k then [unquote_plus v] else [])
       (split_on (CHR 0x26) q))"

definition serve_file :: "sim_env \<Rightarrow> string \<Rightarrow> string \<Rightarrow> sim_reply" where
  "serve_file E f ty = (case static_file E f of None \<Rightarrow> json_detail 404 ''File not found'' | Some c \<Rightarrow> File_Reply ty c)"

definition do_GET :: "sim_env \<Rightarrow> string \<Rightarrow> simulator \<Rightarrow> sim_reply" where
  "do_GET E target st =
     (let path = url_path target in
      if path = ''/api/messages''
      then (let ph = (case query_values ''phone'' (url_query target) of [] \<Rightarrow> static_phone E | p # _ \<Rightarrow> p) in
            Json_Reply 200 (JObj [(''status'', JStr ''ok''), (''messages'', JArr (map JObj (get_messages ph st)))]))
      else if path = ''/api/status''
      then Json_Reply 200 (JObj [(''status'', JStr ''ok''), (''webhook_url'', JStr (webhook_url E)),
             (''api_connected'', JBool (healthy E (before_last ''/webhook'' (webhook_url E) @ ''/health''))),
             (''phone'', JStr (static_phone E))])
      else if path = ''/'' then serve_file E ''index.html'' ''text/html; charset=utf-8''
      else if path = ''/style.css'' then serve_file E ''style.css'' ''text/css; charset=utf-8''
      else if path = ''/app.js'' then serve_file E ''app.js'' ''application/javascript; charset=utf-8''
      else json_detail 404 ''Not found'')"

text \<open>The prompt: one line after the other, until the end of the input or \<open>exit\<close>.\<close>

definition cli_line :: "sim_env \<Rightarrow> string \<Rightarrow> simulator \<Rightarrow> simulator" where
  "cli_line E m st =
     (let (mid, st1) = fresh_id ''wamid.'' E st;
          st2 = store_message (static_phone E) (text_entry mid ''user'' m (sim_time E)) st1 in
      case parse_locale_command m of
        Some l \<Rightarrow> snd (store_locale_result E (static_phone E) l st2)
      | None \<Rightarrow>
          (case construct_payload (static_phone E) m mid of
             None \<Rightarrow> st2
           | Some w \<Rightarrow> snd (send_payload E w None False None st2)))"

fun cli :: "sim_env \<Rightarrow> string list \<Rightarrow> simulator \<Rightarrow> simulator" where
  "cli E [] st = st"
| "cli E (l # ls) st =
     (let m = strip l in
      if lower m \<in> {''exit'', ''quit''} then st
      else if m = [] then cli E ls st
      else cli E ls (cli_line E m st))"

section \<open>From the simulator to the worker\<close>

lemma construct_payload_eq:
  "construct_payload ph m mid = Some \<lparr>wa_object = ''whatsapp_business_account'',
     wa_entries = [[[\<lparr>wa_from = ph, wa_id = mid, wa_type = ''text'', wa_body = m\<rparr>]]]\<rparr>"
  by (simp add: construct_payload_def list_field_def str_field_def)

lemma payload_read_back:
  "construct_payload ph m mid = Some w \<Longrightarrow> from_whatsapp_webhook w cid =
     Some \<lparr>sender = ph, message_text = m, message_id = mid, correlation_id = cid\<rparr>"
  by (auto simp: construct_payload_eq from_whatsapp_webhook_def)

lemma payload_plain:
  assumes "construct_payload ph m mid = Some w" "unicode_text ph" "unicode_text m" "unicode_text mid"
  shows "webhook_plain w"
proof -
  have "unicode_text ''whatsapp_business_account''" "unicode_text ''text''" by (rule ascii_text, simp)+
  with assms show ?thesis by (auto simp: construct_payload_eq webhook_plain_def)
qed

text \<open>A request signed with the secret the server knows is let in.\<close>

lemma signed_authentic:
  assumes "whatsapp_app_secret (cfg W) = Some secret" "secret \<noteq> []"
  shows "authentic W (signed_request secret False w)"
  using assms by (simp add: authentic_def signed_request_def Let_def computed_signature_def hexdigest_strip)

text \<open>One with the signature the simulator sends on demand, which is no digest, is not.\<close>

lemma no_digest: "hexdigest bs \<noteq> ''invalid_hmac_signature_hex''"
proof (cases bs)
  case (Cons b bs')
  have "unat b < 256" using unsigned_less [of b] by simp
  then have "unat b div 16 < 16" by (simp add: less_mult_imp_div_less)
  then have "code (hd (hexdigest bs)) \<noteq> code (CHR ''i'')"
    using Cons by (simp add: hexdigest_def hex_byte_def code_hex_char)
  then show ?thesis by auto
qed (simp add: hexdigest_def)

lemma badly_signed_rejected: "\<not> authentic W (signed_request secret True w)"
proof -
  have "strip ''invalid_hmac_signature_hex'' = ''invalid_hmac_signature_hex''"
    by (rule strip_ends) (simp_all add: py_space_def)
  then show ?thesis
    using no_digest by (auto simp: authentic_def signed_request_def Let_def computed_signature_def dest: sym)
qed

lemma simulated_message_accepted:
  assumes "construct_payload ph m mid = Some w" "unicode_text ph" "unicode_text m" "unicode_text mid"
    "whatsapp_app_secret (cfg W) = Some (simulator_secret E None)" "simulator_secret E None \<noteq> []"
    "reads_json (validate_webhook W)" "redis_failure W = None" "0 < dedup_ttl_seconds (cfg W)"
    "redis_get (dedup_key mid) rd = None"
    "broker W (ConversationTask p)"
    "p = \<lparr>sender = ph, message_text = m, message_id = mid, correlation_id = Some (uuid4_text W)\<rparr>"
  shows "\<exists>rd'. webhook W (signed_request (simulator_secret E None) False w) (rd, wd) =
    (Inr (webhook_reply default_webhook_response), (rd', enqueue (ConversationTask p) wd))"
proof (rule webhook_accepts)
  show "authentic W (signed_request (simulator_secret E None) False w)"
    by (rule signed_authentic [OF assms(5,6)])
  show "validate_webhook W (raw_body (signed_request (simulator_secret E None) False w)) = Inr w"
    using assms(7) webhook_json_plain [OF payload_plain [OF assms(1-4)]] webhook_roundtrip
    by (simp add: reads_json_def signed_request_def Let_def)
  show "from_whatsapp_webhook w (Some (or_default (correlation_header (signed_request (simulator_secret E None) False w))
      (uuid4_text W))) = Some p"
    using payload_read_back [OF assms(1)] assms(12) by (simp add: signed_request_def or_default_def Let_def)
qed (use assms in simp_all)

section \<open>From the worker to the simulator\<close>

text \<open>What is shown of a reply is its text without the white space around it.\<close>

lemma extracted_stripped: "strip (extract_bot_text j) = extract_bot_text j"
proof (induction j rule: extract_bot_text.induct)
  case IH: (1 j)
  have none: "strip [] = []" by (simp add: strip_def lstrip_def rstrip_def)
  show ?case
  proof (cases j)
    case (JArr js)
    have "strip t = t" if "t \<in> set (map extract_bot_text js)" for t
      using that IH(1) [OF JArr] by auto
    then show ?thesis
      using JArr first_text_cases [of "map extract_bot_text js"] none
      by (subst (1 2) extract_bot_text.simps) (auto simp del: set_map)
  next
    case (JObj d)
    let ?ts = "map (\<lambda>k. case map_of d k of None \<Rightarrow> [] | Some v \<Rightarrow> extract_bot_text v) nested_keys"
    show ?thesis
    proof (cases "own_text d")
      case None
      have "strip t = t" if "t \<in> set ?ts" for t
        using that IH(2) [OF JObj None] none by (auto split: option.splits)
      then show ?thesis
        using JObj None first_text_cases [of ?ts] none
        by (subst (1 2) extract_bot_text.simps) (auto simp del: set_map)
    next
      case (Some t)
      then obtain k where "t = (case map_of d k of Some (JStr s) \<Rightarrow> strip s | _ \<Rightarrow> [])"
        by (auto simp only: own_text_def map_option_eq_Some)
      then have "strip t = t" using none by (cases "map_of d k") (simp_all split: json.split)
      with Some JObj show ?thesis by (subst (1 2) extract_bot_text.simps) simp
    qed
  qed (use none in \<open>simp_all add: extract_bot_text.simps\<close>)
qed

lemma get_store:
  "get_messages k (store_message ph m st) = (if k = ph then get_messages ph st @ [m] else get_messages k st)"
  "get_messages k (clear_messages ph st) = (if k = ph then [] else get_messages k st)"
  "get_messages k (st\<lparr>sim_ids := n\<rparr>) = get_messages k st"
  by (simp_all add: get_messages_def store_message_def clear_messages_def Let_def split: option.split)

lemma own_text_reply:
  assumes "strip t \<noteq> []"
  shows "extract_bot_text (JObj [(''recipient'', JStr rc), (''reply_text'', JStr t)]) = strip t"
proof -
  have "own_text [(''recipient'', JStr rc), (''reply_text'', JStr t)] = Some (strip t)"
    using assms by (simp add: own_text_def text_keys_def)
  then show ?thesis by (subst extract_bot_text.simps) simp
qed

text \<open>The reply a worker sends through the mock sender is shown to its recipient.\<close>

lemma reply_shown:
  assumes "send_text W (MockMessageSender url t) rc reply ob = (res, ob @ [(url, b)])"
    "json_loads body = Inr (JObj b)" "body \<noteq> []" "rc \<noteq> []" "strip reply \<noteq> []"
    "url_path target \<notin> {''/api/send'', ''/api/clear''}"
  shows "\<exists>mid. get_messages k (snd (do_POST E target body st)) =
    (if k = rc
     then get_messages rc st @
       [[(''id'', JStr mid), (''sender'', JStr ''bot''), (''type'', JStr ''text''), (''text'', JStr (strip reply)),
         (''filename'', JNull), (''caption'', JNull), (''document_length'', JNull),
         (''timestamp'', JStr (sim_time E))]]
     else get_messages k st)"
proof -
  have b: "b = [(''recipient'', JStr rc), (''reply_text'', JStr reply)]"
    using assms(1) by (simp add: mock_post_def)
  obtain mid st1 where f: "fresh_id ''bot-'' E st = (mid, st1)" by fastforce
  then have st1: "get_messages k st1 = get_messages k st" for k
    using get_store(3) by (auto simp: fresh_id_def)
  have "read_callback E body = \<lparr>br_recipient = rc, br_text = strip reply, br_filename = JNull,
      br_caption = JNull, br_length = JNull\<rparr>"
    using assms(2-5) own_text_reply [OF assms(5), of rc]
    by (simp add: read_callback_def b dict_get_def str_or_def py_str_def Let_def)
  then show ?thesis
    using assms(5,6) f by (auto simp: do_POST_def callback_def bot_entry_def get_store st1)
qed

section \<open>What the user types\<close>

text \<open>A text that is a command for the simulator is not sent to the program.\<close>

lemma locale_commands:
  assumes "parse_locale_command m = Some l"
  shows "l \<in> {''en'', ''sw''}" "sim_posted (cli_line E m st) = sim_posted st"
proof -
  show "l \<in> {''en'', ''sw''}"
    using assms by (auto simp: parse_locale_command_def Let_def split: if_splits)
  have "sim_posted (snd (store_locale_result E ph l st)) = sim_posted st" for ph st
    by (auto simp: store_locale_result_def fresh_id_def store_message_def Let_def split: prod.split)
  then show "sim_posted (cli_line E m st) = sim_posted st"
    using assms by (auto simp: cli_line_def fresh_id_def store_message_def Let_def split: prod.split)
qed

text \<open>Anything else is sent once, as a request signed under the simulator's secret.\<close>

lemma typed_message_sent:
  assumes "parse_locale_command m = None"
  shows "\<exists>w mid. construct_payload (static_phone E) m mid = Some w \<and>
    sim_posted (cli_line E m st) = sim_posted st @ [signed_request (simulator_secret E None) False w]"
  using assms
  by (auto simp: cli_line_def fresh_id_def store_message_def construct_payload_eq send_payload_def
      with_message_id_def or_default_def Let_def)

lemma cli_posts: "\<exists>rs. sim_posted (cli E ls st) = sim_posted st @ rs \<and> length rs \<le> length ls"
proof (induction ls arbitrary: st)
  case (Cons l ls)
  let ?m = "strip l"
  have one: "\<exists>rs. sim_posted (cli_line E ?m st) = sim_posted st @ rs \<and> length rs \<le> 1"
  proof (cases "parse_locale_command ?m")
    case None
    from typed_message_sent [OF this] show ?thesis by fastforce
  next
    case (Some l)
    from locale_commands(2) [OF this] show ?thesis by fastforce
  qed
  then obtain rs where rs: "sim_posted (cli_line E ?m st) = sim_posted st @ rs" "length rs \<le> 1" by blast
  obtain rs' where "sim_posted (cli E ls (cli_line E ?m st)) = sim_posted (cli_line E ?m st) @ rs'"
      "length rs' \<le> length ls"
    using Cons.IH by blast
  moreover obtain rs2 where "sim_posted (cli E ls st) = sim_posted st @ rs2" "length rs2 \<le> length ls"
    using Cons.IH by blast
  moreover have "length (rs @ rs') \<le> length (l # ls)" using rs(2) calculation(2) by simp
  ultimately show ?case using rs(1) by (auto simp: Let_def)
qed simp

end
