(* ===== verification/SimulatorMain.thy ===== *)
theory SimulatorMain
  imports Simulator
begin

text \<open>
  The start of \<open>tools/chat_simulator.py\<close>: the settings read from the environment, the choice of the
  port, the two modes, and the server that is shut down however the session ends. The requests of the
  browser and of the workers arrive between the lines the user types; a lock makes each of them one step.
  Parameters: whether the address can be bound, and what interrupts the session. What the prompt prints
  is left out; a bracketed host is not checked to be an address.
\<close>

section \<open>The settings\<close>

type_synonym os_env = "string \<rightharpoonup> string"

definition getenv_or :: "os_env \<Rightarrow> string \<Rightarrow> string \<Rightarrow> string" where
  "getenv_or env name default' = (case env name of None \<Rightarrow> default' | Some v \<Rightarrow> v)"

definition RECEIVER_HOST :: "os_env \<Rightarrow> string" where
  "RECEIVER_HOST env = getenv_or env ''RECEIVER_HOST'' ''0.0.0.0''"

definition WEBHOOK_URL :: "os_env \<Rightarrow> string" where
  "WEBHOOK_URL env = getenv_or env ''WEBHOOK_URL'' ''http://localhost:8000/webhook/whatsapp''"

definition STATIC_PHONE_NUMBER :: "os_env \<Rightarrow> string option \<Rightarrow> string" where
  "STATIC_PHONE_NUMBER env phone_number_id =
     getenv_or env ''DEFAULT_SIMULATOR_PHONE'' (or_default phone_number_id ''254712345678'')"

section \<open>The port of an address\<close>

definition text_before :: "char \<Rightarrow> string \<Rightarrow> string" where
  "text_before c s = takeWhile (\<lambda>d. d \<noteq> c) s"

definition text_after :: "char \<Rightarrow> string \<Rightarrow> string" where
  "text_after c s = tl (dropWhile (\<lambda>d. d \<noteq> c) s)"

definition ascii_alpha :: "char \<Rightarrow> bool" where
  "ascii_alpha c \<longleftrightarrow> (let n = (code c :: nat) in 97 \<le> n \<and> n \<le> 122 \<or> 65 \<le> n \<and> n \<le> 90)"

definition scheme_char :: "char \<Rightarrow> bool" where
  "scheme_char c \<longleftrightarrow> ascii_alpha c \<or> is_dig c \<or> c \<in> set ''+-.''"

text \<open>What follows the scheme, the host part of it, and what follows \<open>user@\<close> in that.\<close>

definition without_scheme :: "string \<Rightarrow> string" where
  "without_scheme url =
     (if CHR '':'' \<in> set url \<and> text_before (CHR '':'') url \<noteq> [] \<and> ascii_alpha (hd url) \<and>
         list_all scheme_char (text_before (CHR '':'') url)
      then text_after (CHR '':'') url else url)"

definition url_netloc :: "string \<Rightarrow> string" where
  "url_netloc text' =
     (let url = without_scheme (filter (\<lambda>c. code c \<notin> {9 :: nat, 10, 13}) (dropWhile (\<lambda>c. code c \<le> (32 :: nat)) text')) in
      if startswith url ''//'' then takeWhile (\<lambda>c. c \<notin> set ''/?#'') (drop 2 url) else [])"

definition after_last :: "char \<Rightarrow> string \<Rightarrow> string" where
  "after_last c s = rev (text_before c (rev s))"

text \<open>
  \<open>urlparse(...).port\<close>: \<open>None\<close> without a port; a \<open>ValueError\<close>, which the caller takes for the same, for
  one bracket without the other and for a port that is no number below 65536.
\<close>

definition url_port :: "string \<Rightarrow> int option" where
  "url_port text' =
     (let netloc = url_netloc text'; host = after_last (CHR ''@'') netloc;
          port = (if CHR ''['' \<in> set host then text_after (CHR '':'') (text_after (CHR '']'') (text_after (CHR ''['') host))
                  else text_after (CHR '':'') host) in
      if (CHR ''['' \<in> set netloc) \<noteq> (CHR '']'' \<in> set netloc) \<or> port = [] \<or> \<not> list_all is_dig port then None
      else case py_int port of
        None \<Rightarrow> None
      | Some n \<Rightarrow> if 0 \<le> n \<and> n \<le> 65535 then Some n else None)"

definition truthy_port :: "int option \<Rightarrow> int option" where
  "truthy_port o' = (if o' = Some 0 then None else o')"

section \<open>The session\<close>

record sim_args =
  sa_server :: bool
  sa_port :: "int option"

text \<open>The port that is used, or the text that is no number.\<close>

definition chosen_port :: "os_env \<Rightarrow> sim_args \<Rightarrow> int res" where
  "chosen_port env args =
     (let default_port =
        (case truthy_port (url_port (getenv_or env ''MESSAGE_SENDER_URL'' [])) of
           Some n \<Rightarrow> Inr n
         | None \<Rightarrow>
             (case py_int (getenv_or env ''PORT'' (getenv_or env ''SIMULATOR_PORT'' ''8080'')) of
                None \<Rightarrow> Inl (ValueError ''invalid literal for int() with base 10'')
              | Some n \<Rightarrow> Inr n)) in
      case default_port of
        Inl e \<Rightarrow> Inl e
      | Inr n \<Rightarrow> (case truthy_port (sa_port args) of Some m \<Rightarrow> Inr m | None \<Rightarrow> Inr n))"

datatype sim_event =
    Typed string
  | Posted string string     \<comment> \<open>target and body\<close>
  | Fetched string
  | Preflight

datatype sim_stop = Failure exc | Bind_Error string | Interrupt | Exit

text \<open>One server, listening or closed.\<close>

record sim_process =
  sp_simulator :: simulator
  sp_server_mode :: bool
  sp_bound :: "(string \<times> int) option"
  sp_replies :: "sim_reply list"

definition serve_request :: "sim_env \<Rightarrow> sim_event \<Rightarrow> sim_process \<Rightarrow> sim_process" where
  "serve_request E ev P =
     (case ev of
        Posted target body \<Rightarrow>
          (let (r, st) = do_POST E target body (sp_simulator P) in
           P\<lparr>sp_simulator := st, sp_replies := sp_replies P @ [r]\<rparr>)
      | Fetched target \<Rightarrow> P\<lparr>sp_replies := sp_replies P @ [do_GET E target (sp_simulator P)]\<rparr>
      | Preflight \<Rightarrow> P\<lparr>sp_replies := sp_replies P @ [do_OPTIONS]\<rparr>
      | Typed l \<Rightarrow> P)"

text \<open>Serving goes on until the interrupt; both kinds of leaving are caught.\<close>

definition serve_forever :: "sim_env \<Rightarrow> sim_event list \<Rightarrow> sim_stop \<Rightarrow> sim_process \<Rightarrow> (sim_stop + unit) \<times> sim_process" where
  "serve_forever E events stopped P =
     (if stopped \<in> {Interrupt, Exit} then Inr () else Inl stopped, fold (serve_request E) events P)"

text \<open>
  The prompt ends with the input, with an interrupt while it waits, or with \<open>exit\<close>; an interrupt at
  another place, after the last event, leaves the loop as an exception.
\<close>

fun prompt_loop ::
  "sim_env \<Rightarrow> sim_event list \<Rightarrow> sim_stop option \<Rightarrow> sim_process \<Rightarrow> (sim_stop + unit) \<times> sim_process" where
  "prompt_loop E [] stopped P = (case stopped of None \<Rightarrow> Inr () | Some s \<Rightarrow> Inl s, P)"
| "prompt_loop E (ev # evs) stopped P =
     (case ev of
        Typed l \<Rightarrow>
          (let m = strip l in
           if lower m \<in> {''exit'', ''quit''} then (Inr (), P)
           else if m = [] then prompt_loop E evs stopped P
           else prompt_loop E evs stopped (P\<lparr>sp_simulator := cli_line E m (sp_simulator P)\<rparr>))
      | _ \<Rightarrow> prompt_loop E evs stopped (serve_request E ev P))"

definition start_receiver_server ::
  "(string \<Rightarrow> int \<Rightarrow> string option) \<Rightarrow> string \<Rightarrow> int \<Rightarrow> sim_process \<Rightarrow> (sim_stop + unit) \<times> sim_process" where
  "start_receiver_server binds host port P =
     (case binds host port of
        Some m \<Rightarrow> (Inl (Bind_Error m), P)
      | None \<Rightarrow> (Inr (), P\<lparr>sp_bound := Some (host, port)\<rparr>))"

definition close_server :: "sim_process \<Rightarrow> sim_process" where
  "close_server P = P\<lparr>sp_bound := None\<rparr>"

definition simulator_main ::
  "os_env \<Rightarrow> (string \<Rightarrow> int \<Rightarrow> string option) \<Rightarrow> sim_env \<Rightarrow> sim_args \<Rightarrow> sim_event list \<Rightarrow> sim_stop option \<Rightarrow>
   sim_process \<Rightarrow> (sim_stop + unit) \<times> sim_process" where
  "simulator_main env binds E args events stopped P =
     (let P0 = P\<lparr>sp_server_mode := sa_server args\<rparr> in
      case chosen_port env args of
        Inl e \<Rightarrow> (Inl (Failure e), P0)
      | Inr port \<Rightarrow>
          and_then (start_receiver_server binds (RECEIVER_HOST env) port P0) (\<lambda>_ P1.
            let (r, P2) = (if sa_server args
                           then serve_forever E events (case stopped of None \<Rightarrow> Interrupt | Some s \<Rightarrow> s) P1
                           else prompt_loop E events stopped P1) in
            (r, close_server P2)))"

section \<open>Properties\<close>

text \<open>Whatever ends the session, no server is left behind.\<close>

lemma no_server_left:
  assumes "sp_bound P = None"
  shows "sp_bound (snd (simulator_main env binds E args events stopped P)) = None"
  using assms
  by (auto simp: simulator_main_def start_receiver_server_def close_server_def Let_def split: sum.split option.split prod.split)

text \<open>An address with a plain host and a decimal port names that port.\<close>

lemma before_append: "c \<notin> set s \<Longrightarrow> text_before c (s @ c # t) = s" "c \<notin> set s \<Longrightarrow> text_before c s = s"
  by (induction s) (auto simp: text_before_def)

lemma after_append: "c \<notin> set s \<Longrightarrow> text_after c (s @ c # t) = t" "c \<notin> set s \<Longrightarrow> text_after c s = []"
  by (induction s) (auto simp: text_after_def)

definition host_char :: "char \<Rightarrow> bool" where
  "host_char c \<longleftrightarrow> ascii_alpha c \<or> is_dig c \<or> c \<in> set ''-._''"

lemma host_char_plain:
  assumes "list_all host_char host"
  shows "CHR '':'' \<notin> set host" "CHR ''@'' \<notin> set host" "CHR ''['' \<notin> set host" "CHR '']'' \<notin> set host"
    "filter (\<lambda>c. code c \<notin> {9 :: nat, 10, 13}) host = host" "\<forall>c \<in> set host. c \<notin> set ''/?#''"
proof -
  have c: "\<not> host_char (CHR '':'')" "\<not> host_char (CHR ''@'')" "\<not> host_char (CHR ''['')" "\<not> host_char (CHR '']'')"
    "\<not> host_char (CHR ''/'')" "\<not> host_char (CHR ''?'')" "\<not> host_char (CHR ''#'')"
    by (simp_all add: host_char_def ascii_alpha_def is_dig_def)
  from assms c show "CHR '':'' \<notin> set host" "CHR ''@'' \<notin> set host" "CHR ''['' \<notin> set host" "CHR '']'' \<notin> set host"
    "\<forall>c \<in> set host. c \<notin> set ''/?#''"
    by (auto simp: list_all_iff)
  have "code c \<notin> {9 :: nat, 10, 13}" if "host_char c" for c
    using that by (auto simp: host_char_def ascii_alpha_def is_dig_def Let_def)
  then show "filter (\<lambda>c. code c \<notin> {9 :: nat, 10, 13}) host = host"
    using assms by (auto simp: filter_id_conv list_all_iff)
qed

lemma sender_port:
  assumes "list_all host_char host" "n \<le> 65535"
  shows "url_port (''http://'' @ host @ '':'' @ str_nat n @ ''/'' @ path) = Some (int n)"
proof -
  note plain = host_char_plain [OF assms(1)]
  have hd: "host_char c" if "is_dig c" for c using that by (simp add: host_char_def)
  then have "list_all host_char (str_nat n)" using str_nat_digits [of n] by (auto simp: list_all_iff)
  note digits = host_char_plain [OF this]
  have netloc: "url_netloc (''http://'' @ host @ '':'' @ str_nat n @ ''/'' @ path) = host @ '':'' @ str_nat n"
  proof -
    have "text_before (CHR '':'') (''http:'' @ s) = ''http''" "text_after (CHR '':'') (''http:'' @ s) = s" for s
      by (simp_all add: text_before_def text_after_def)
    then have "without_scheme (''http://'' @ s) = ''//'' @ s" for s
      by (simp add: without_scheme_def list_all_iff scheme_char_def ascii_alpha_def)
    then have "url_netloc (''http://'' @ host @ '':'' @ str_nat n @ ''/'' @ path) =
        takeWhile (\<lambda>c. c \<notin> set ''/?#'') (host @ '':'' @ str_nat n @ ''/'' @ filter (\<lambda>c. code c \<notin> {9 :: nat, 10, 13}) path)"
      using plain(5) digits(5) by (simp add: url_netloc_def startswith_def)
    then show ?thesis using plain(6) digits(6) by simp
  qed
  have host: "after_last (CHR ''@'') (host @ '':'' @ str_nat n) = host @ '':'' @ str_nat n"
  proof -
    have "CHR ''@'' \<notin> set (rev (host @ '':'' @ str_nat n))" using plain(2) digits(2) by simp
    from before_append(2) [OF this] show ?thesis by (simp add: after_last_def)
  qed
  have "str_nat n \<noteq> []" by (subst str_nat.simps) simp
  moreover have "py_int (str_nat n) = Some (int n)"
  proof -
    have "int n < 10 ^ 5" using assms(2) by simp
    also have "... \<le> 10 ^ max_int_digits" by (rule power_increasing) (simp_all add: max_int_digits_def)
    finally have "py_int (str_int (int n)) = Some (int n)" by (intro py_int_str_int) simp
    then show ?thesis by (simp add: str_int_def)
  qed
  moreover have "text_after (CHR '':'') (host @ '':'' @ str_nat n) = str_nat n"
    using after_append(1) [OF plain(1)] by simp
  ultimately show ?thesis
    using plain(3,4) digits(3,4) str_nat_digits [of n] assms(2) unfolding url_port_def netloc host Let_def by simp
qed

text \<open>Without requests in between, the prompt is the one of the terminal.\<close>

lemma prompt_cli: "sp_simulator (snd (prompt_loop E (map Typed ls) stopped P)) = cli E ls (sp_simulator P)"
  by (induction ls arbitrary: P) (simp_all add: Let_def)

text \<open>The port of the address the program sends its replies to is where the simulator listens.\<close>

lemma listens_where_replies_go:
  assumes "env ''MESSAGE_SENDER_URL'' = Some (''http://'' @ host @ '':'' @ str_nat n @ ''/'' @ path)"
    "list_all host_char host" "0 < n" "n \<le> 65535" "truthy_port (sa_port args) = None"
  shows "chosen_port env args = Inr (int n)"
  using assms(1,3,5) sender_port [OF assms(2,4), of path]
  by (simp add: chosen_port_def getenv_or_def truthy_port_def del: append_Cons)

text \<open>Without an environment both modes listen on 8080; the help text promises 3000 for the server.\<close>

lemma default_port_is_8080: "chosen_port (\<lambda>_. None) \<lparr>sa_server = server, sa_port = None\<rparr> = Inr 8080"
proof -
  have "url_port [] = None" by (simp add: url_port_def url_netloc_def without_scheme_def startswith_def Let_def
      after_last_def text_before_def text_after_def)
  moreover have "py_int ''8080'' = Some 8080" by code_simp
  ultimately show ?thesis by (simp add: chosen_port_def getenv_or_def truthy_port_def)
qed

text \<open>
  What a session sends to the program comes from the user: a line of the prompt or a request of the
  browser to send, each at most once; a reply of the program never leads to a message.
\<close>

definition asks_to_send :: "sim_event \<Rightarrow> bool" where
  "asks_to_send ev =
     (case ev of Typed l \<Rightarrow> strip l \<noteq> [] | Posted target body \<Rightarrow> url_path target = ''/api/send'' | _ \<Rightarrow> False)"

definition grows :: "nat \<Rightarrow> simulator \<Rightarrow> simulator \<Rightarrow> bool" where
  "grows n st st' \<longleftrightarrow> (\<exists>rs. sim_posted st' = sim_posted st @ rs \<and> length rs \<le> n)"

lemma grows_same: "sim_posted st' = sim_posted st \<Longrightarrow> grows n st st'"
  by (simp add: grows_def)

lemma grows_trans: "grows m st st1 \<Longrightarrow> grows n st1 st2 \<Longrightarrow> grows (m + n) st st2"
  by (auto simp: grows_def)

lemma grows_mono: "grows m st st' \<Longrightarrow> m \<le> n \<Longrightarrow> grows n st st'"
  by (auto simp: grows_def)

lemma cli_line_grows: "grows 1 st (cli_line E m st)"
  using cli_posts [of E "[m]" st] locale_commands(2) [of m _ E st] typed_message_sent [of m E st]
  by (cases "parse_locale_command m") (auto simp: grows_def)

lemma posted_kept:
  "sim_posted (store_message ph m st) = sim_posted st"
  "sim_posted (clear_messages ph st) = sim_posted st"
  "sim_posted (snd (fresh_id p E st)) = sim_posted st"
  "sim_posted (snd (store_locale_result E ph l st)) = sim_posted st"
  by (simp_all add: store_message_def clear_messages_def fresh_id_def store_locale_result_def Let_def split: prod.split)

lemma send_grows: "grows 1 st (snd (send_payload E w secret bad custom st))"
  by (auto simp: send_payload_def grows_def Let_def split: option.split)

lemma api_send_grows: "grows 1 st (snd (api_send E body st))"
proof (cases "request_data E body")
  case (Inl e)
  then show ?thesis by (simp add: api_send_def grows_same)
next
  case (Inr d)
  obtain mid st1 where f: "fresh_id ''wamid.'' E st = (mid, st1)" by fastforce
  then have st1: "sim_posted st1 = sim_posted st" using posted_kept(3) [of "''wamid.''" E st] by simp
  have locale_step: "snd (case r of ((True, c), st3) \<Rightarrow> (sent_reply mid, st3) | ((False, c), st3) \<Rightarrow> (json_detail 502 c, st3)) = snd r" for r
    by (cases r) (auto split: bool.split)
  have send_step: "snd (case r of
       (Some True, st3) \<Rightarrow> (sent_reply mid, st3)
     | (Some False, st3) \<Rightarrow> (json_detail 502 ''Failed to post to backend webhook'', st3)
     | (None, st3) \<Rightarrow> (json_detail 500 ''list index out of range'', st3)) = snd r" for r
    by (cases r) (auto split: bool.split option.split)
  have sent: "grows 1 st (snd (send_payload E w secret bad custom (store_message ph m st1)))" for w secret bad custom ph m
    using grows_trans [OF grows_same [where n = 0] send_grows] posted_kept(1) st1 by (metis add_0)
  let ?ph = "strip (str_or E (dict_get ''phone'' d) (static_phone E))" and ?m = "strip (str_or E (dict_get ''message'' d) [])"
  let ?st2 = "store_message ?ph (text_entry mid ''user'' ?m (sim_time E)) st1"
  have st2: "sim_posted ?st2 = sim_posted st" by (simp add: posted_kept st1)
  show ?thesis
  proof (cases "?m = []")
    case True
    then show ?thesis by (simp add: api_send_def Inr grows_same)
  next
    case False
    then have "snd (api_send E body st) =
        (case parse_locale_command ?m of
           Some l \<Rightarrow> snd (store_locale_result E ?ph l ?st2)
         | None \<Rightarrow> (case construct_payload ?ph ?m mid of None \<Rightarrow> ?st2 | Some w \<Rightarrow> snd (send_payload E w None False None ?st2)))"
      by (simp add: api_send_def Inr f locale_step send_step Let_def split: option.split)
    then show ?thesis by (auto simp: posted_kept st1 intro: grows_same sent [unfolded One_nat_def] split: option.split)
  qed
qed

lemma request_grows: "grows (if asks_to_send ev then 1 else 0) (sp_simulator P) (sp_simulator (serve_request E ev P))"
proof (cases ev)
  case (Posted target body)
  have "sim_posted (snd (api_clear E body st)) = sim_posted st" "sim_posted (snd (callback E body st)) = sim_posted st" for st
    by (auto simp: api_clear_def callback_def fresh_id_def posted_kept Let_def split: sum.split prod.split)
  then show ?thesis
    using Posted api_send_grows [of "sp_simulator P" E body]
    by (simp add: serve_request_def do_POST_def asks_to_send_def case_prod_beta grows_same)
qed (simp_all add: serve_request_def grows_same)

lemma session_grows:
  "grows (length (filter asks_to_send evs)) (sp_simulator P) (sp_simulator (snd (prompt_loop E evs stopped P)))"
  "grows (length (filter asks_to_send evs)) (sp_simulator P) (sp_simulator (fold (serve_request E) evs P))"
proof -
  show "grows (length (filter asks_to_send evs)) (sp_simulator P) (sp_simulator (snd (prompt_loop E evs stopped P)))"
  proof (induction evs arbitrary: P)
    case (Cons ev evs)
    have one: "grows (if asks_to_send ev then 1 else 0) (sp_simulator P) st \<Longrightarrow>
        grows (length (filter asks_to_send (ev # evs))) (sp_simulator P)
          (sp_simulator (snd (prompt_loop E evs stopped (P'\<lparr>sp_simulator := st\<rparr>))))" for st P'
      using grows_trans [OF _ Cons.IH [of "P'\<lparr>sp_simulator := st\<rparr>"]] by (cases "asks_to_send ev") fastforce+
    show ?case
    proof (cases ev)
      case (Typed l)
      have asks: "asks_to_send ev \<longleftrightarrow> strip l \<noteq> []" by (simp add: Typed asks_to_send_def)
      have "grows (if asks_to_send ev then 1 else 0) (sp_simulator P) (cli_line E (strip l) (sp_simulator P))" if "strip l \<noteq> []"
        using that cli_line_grows by (simp add: asks)
      note typed = one [OF this, of P]
      show ?thesis
      proof (cases "strip l = []")
        case True
        then show ?thesis using Typed asks Cons.IH [of P] by (simp add: grows_same)
      next
        case False
        then show ?thesis using Typed typed asks by (auto simp: grows_same Let_def)
      qed
    qed (use one [OF request_grows [of ev P E], of "serve_request E ev P"] in simp_all)
  qed (simp add: grows_same)
  show "grows (length (filter asks_to_send evs)) (sp_simulator P) (sp_simulator (fold (serve_request E) evs P))"
  proof (induction evs arbitrary: P)
    case (Cons ev evs)
    show ?case
      using grows_trans [OF request_grows [of ev P E] Cons.IH [of "serve_request E ev P"]]
      by (cases "asks_to_send ev") simp_all
  qed (simp add: grows_same)
qed

lemma sent_by_the_user:
  "grows (length (filter asks_to_send events)) (sp_simulator P)
     (sp_simulator (snd (simulator_main env binds E args events stopped P)))"
proof -
  have served: "grows (length (filter asks_to_send events)) (sp_simulator P)
      (sp_simulator (fold (serve_request E) events (P\<lparr>sp_server_mode := m, sp_bound := b\<rparr>)))"
    "grows (length (filter asks_to_send events)) (sp_simulator P)
      (sp_simulator (snd (prompt_loop E events so (P\<lparr>sp_server_mode := m, sp_bound := b\<rparr>))))" for m b so
    using session_grows [of events "P\<lparr>sp_server_mode := m, sp_bound := b\<rparr>" E] by simp_all
  show ?thesis
    using served
    by (simp add: simulator_main_def start_receiver_server_def close_server_def serve_forever_def Let_def grows_same
        case_prod_beta split: sum.split option.split)
qed

end
