(* ===== verification/Process.thy ===== *)
theory Process
  imports Routing Migrations
begin

text \<open>
  What a process of the program does before it serves: the address of the database
  (\<open>app/core/database.py\<close>) and the one the migrations use (\<open>alembic/env.py\<close>), the configuration of
  Celery (\<open>celery_app/celery.py\<close>), the registration of the session script (\<open>fsm/session_lua.py\<close>),
  the start of a worker process and the life of the HTTP application (\<open>app/main.py\<close>), and what the
  components are built with when nothing is given to them. The parsing of an address into its driver
  and the rest is SQLAlchemy's.
\<close>

section \<open>Text replaced\<close>

text \<open>\<open>s.replace(old, new)\<close> for a text \<open>old\<close> that is not empty.\<close>

function py_replace :: "string \<Rightarrow> string \<Rightarrow> string \<Rightarrow> string" where
  "py_replace old new s =
     (if s = [] \<or> old = [] then s
      else if startswith s old then new @ py_replace old new (drop (length old) s)
      else hd s # py_replace old new (tl s))"
  by pat_completeness auto
termination by (relation "measure (\<lambda>(old, new, s). length s)") auto

declare py_replace.simps [simp del]

definition contains :: "string \<Rightarrow> string \<Rightarrow> bool" where
  "contains s w = (\<exists>n \<le> length s. startswith (drop n s) w)"

lemma contains_Cons: "contains (c # s) w \<longleftrightarrow> startswith (c # s) w \<or> contains s w"
proof
  assume "contains (c # s) w"
  then obtain n where "n \<le> length (c # s)" "startswith (drop n (c # s)) w" unfolding contains_def by blast
  then show "startswith (c # s) w \<or> contains s w" by (cases n) (auto simp: contains_def)
next
  assume "startswith (c # s) w \<or> contains s w"
  then show "contains (c # s) w"
  proof
    assume "startswith (c # s) w"
    then show ?thesis unfolding contains_def by (intro exI [of _ 0]) simp
  next
    assume "contains s w"
    then obtain n where "n \<le> length s" "startswith (drop n s) w" unfolding contains_def by blast
    then show ?thesis unfolding contains_def by (intro exI [of _ "Suc n"]) simp
  qed
qed

lemma py_replace_none: "\<not> contains s old \<Longrightarrow> py_replace old new s = s"
proof (induction s)
  case (Cons c s)
  then show ?case by (subst py_replace.simps) (simp add: contains_Cons)
qed (simp add: py_replace.simps)

section \<open>The address of the database\<close>

record db_url =
  drivername :: string
  url_rest :: string

text \<open>\<open>make_url(os.getenv("DATABASE_URL", settings.database_url))\<close> with the driver forced to \<open>asyncpg\<close>.\<close>

definition engine_url :: "(string \<Rightarrow> db_url res) \<Rightarrow> (string \<rightharpoonup> string) \<Rightarrow> string \<Rightarrow> db_url res" where
  "engine_url make_url getenv setting =
     (case make_url (case getenv ''DATABASE_URL'' of None \<Rightarrow> setting | Some u \<Rightarrow> u) of
        Inl e \<Rightarrow> Inl e
      | Inr u \<Rightarrow>
          Inr (if drivername u \<in> {''postgresql'', ''postgres'', ''postgresql+psycopg2''}
               then u\<lparr>drivername := ''postgresql+asyncpg''\<rparr> else u))"

text \<open>
  \<open>ConfigParser.set\<close>: after the escaped percent signs \<open>%%\<close> and the references \<open>%(name)s\<close> are taken out
  no percent sign may be left.
\<close>

function without_references :: "string \<Rightarrow> string" where
  "without_references s =
     (case s of
        [] \<Rightarrow> []
      | c # r \<Rightarrow>
          (let n = takeWhile (\<lambda>b. b \<noteq> CHR '')'') (tl r); rest = dropWhile (\<lambda>b. b \<noteq> CHR '')'') (tl r) in
           if c = CHR ''%'' \<and> startswith r ''('' \<and> n \<noteq> [] \<and> startswith rest '')s''
           then without_references (drop 2 rest)
           else c # without_references r))"
  by pat_completeness auto
termination
proof (relation "measure length"; clarsimp)
  fix c :: char and r :: string
  have "length (dropWhile (\<lambda>b. b \<noteq> CHR '')'') (tl r)) \<le> length r"
    using length_dropWhile_le [of "\<lambda>b. b \<noteq> CHR '')''" "tl r"] by simp
  then show "length (dropWhile (\<lambda>b. b \<noteq> CHR '')'') (tl r)) - 2 < Suc (length r)" by simp
qed

declare without_references.simps [simp del]

definition config_value_ok :: "string \<Rightarrow> bool" where
  "config_value_ok v \<longleftrightarrow> CHR ''%'' \<notin> set (without_references (py_replace ''%%'' [] v))"

definition migration_url :: "string \<Rightarrow> string res" where
  "migration_url setting =
     (let url = py_replace ''asyncpg'' ''psycopg'' setting in
      if config_value_ok url then Inr url
      else Inl (ValueError (''invalid interpolation syntax in '' @ [CHR 0x27] @ url @ [CHR 0x27])))"

section \<open>Running the migrations\<close>

text \<open>
  The module \<open>env.py\<close>: the address is set first. Online, the pending revisions are run in one
  transaction; offline, the statements of all revisions are printed, from the empty database on.
\<close>

definition run_migrations_online :: "string \<Rightarrow> database \<Rightarrow> ((exc + ddl_error) + unit) \<times> database" where
  "run_migrations_online setting D =
     (case migration_url setting of
        Inl e \<Rightarrow> (Inl (Inl e), D)
      | Inr url \<Rightarrow> (case upgrade_head D of (Inl e, D') \<Rightarrow> (Inl (Inr e), D') | (Inr u, D') \<Rightarrow> (Inr u, D')))"

definition run_migrations_offline :: "string \<Rightarrow> exc + (string \<times> ddl list) list" where
  "run_migrations_offline setting =
     (case migration_url setting of
        Inl e \<Rightarrow> Inl e
      | Inr url \<Rightarrow> Inr (map (\<lambda>m. (revision m, upgrade m)) (pending (length versions) versions None)))"

text \<open>The printed script, fed to a database statement by statement.\<close>

fun run_script :: "(string \<times> ddl list) list \<Rightarrow> database \<Rightarrow> ddl_error + database" where
  "run_script [] D = Inr D"
| "run_script ((r, ops) # script) D =
     (case apply_all ops (db_catalog D) of
        Inl e \<Rightarrow> Inl e
      | Inr c \<Rightarrow> run_script script \<lparr>db_catalog = c, db_version = Some r\<rparr>)"

lemma run_script_upgrades: "run_script (map (\<lambda>m. (revision m, upgrade m)) ms) D = run_upgrades ms D"
  by (induction ms arbitrary: D) (auto split: sum.split)

lemma offline_script:
  assumes "run_migrations_offline setting = Inr script"
  shows "run_script script blank_database = Inr head_database"
proof -
  have "script = map (\<lambda>m. (revision m, upgrade m)) chain"
    using assms by (auto simp: run_migrations_offline_def chain_is_all(1) split: sum.splits)
  moreover have "run_upgrades chain blank_database = Inr head_database"
    using upgrade_blank chain_is_all(1)
    by (auto simp: upgrade_head_def in_transaction_def blank_database_def split: sum.splits)
  ultimately show ?thesis by (simp add: run_script_upgrades)
qed

text \<open>The address the documentation gives becomes that of the driver the migrations use.\<close>

lemma py_replace_Cons:
  "py_replace (o' # old) new (c # s) =
     (if startswith (c # s) (o' # old) then new @ py_replace (o' # old) new (drop (length old) s)
      else c # py_replace (o' # old) new s)"
  by (subst py_replace.simps) simp

lemma migration_driver:
  assumes "\<not> contains rest ''asyncpg''" "config_value_ok (''postgresql+psycopg://'' @ rest)"
  shows "migration_url (''postgresql+asyncpg://'' @ rest) = Inr (''postgresql+psycopg://'' @ rest)"
proof -
  have "\<not> contains (''://'' @ rest) ''asyncpg''" using assms(1) by (simp add: contains_Cons startswith_def)
  note keep = py_replace_none [OF this, of "''psycopg''"]
  have "py_replace ''asyncpg'' ''psycopg'' (''postgresql+asyncpg://'' @ rest) = ''postgresql+psycopg://'' @ rest"
    using keep by (simp add: py_replace_Cons startswith_def)
  with assms(2) show ?thesis by (simp add: migration_url_def)
qed

text \<open>
  An address without a driver is one the application takes, but the migrations keep it as it is,
  hence with the default driver of SQLAlchemy, which the project does not install.
\<close>

lemma undriven_address:
  assumes "\<not> contains setting ''asyncpg''" "config_value_ok setting" "make_url setting = Inr \<lparr>drivername = ''postgresql'', url_rest = rest\<rparr>"
    "getenv ''DATABASE_URL'' = None"
  shows "engine_url make_url getenv setting = Inr \<lparr>drivername = ''postgresql+asyncpg'', url_rest = rest\<rparr>"
    "migration_url setting = Inr setting"
  using assms py_replace_none [OF assms(1)] by (simp_all add: engine_url_def migration_url_def)

text \<open>A percent sign that is neither doubled nor the start of a reference stops the migrations.\<close>

lemma without_references_plain:
  "\<not> contains s ''%('' \<Longrightarrow> without_references s = s"
proof (induction s)
  case (Cons c s)
  then show ?case by (subst without_references.simps) (auto simp: Let_def contains_Cons startswith_def)
qed (simp add: without_references.simps)

lemma percent_stops_migrations:
  assumes "CHR ''%'' \<in> set setting" "\<not> contains setting ''%%''" "\<not> contains setting ''%(''" "\<not> contains setting ''asyncpg''"
  shows "\<exists>m. run_migrations_online setting D = (Inl (Inl (ValueError m)), D)"
proof -
  have "\<not> config_value_ok setting"
    using assms by (simp add: config_value_ok_def py_replace_none without_references_plain)
  then show ?thesis
    by (simp add: run_migrations_online_def migration_url_def py_replace_none [OF assms(4)])
qed

section \<open>Celery\<close>

record celery_app =
  ce_name :: string
  ce_broker :: string
  ce_backend :: string
  ce_include :: "string list"

definition celery :: "(string \<rightharpoonup> string) \<Rightarrow> celery_app" where
  "celery getenv =
     \<lparr>ce_name = ''sokoflow_celery'',
      ce_broker = (case getenv ''CELERY_BROKER_URL'' of None \<Rightarrow> ''redis://localhost:6379/1'' | Some u \<Rightarrow> u),
      ce_backend = (case getenv ''CELERY_RESULT_BACKEND'' of None \<Rightarrow> ''redis://localhost:6379/2'' | Some u \<Rightarrow> u),
      ce_include =
        [''app.workers.conversation_tasks'', ''app.workers.example_task'', ''app.workers.maintenance_tasks'',
         ''app.workers.notification_tasks'', ''app.workers.report_tasks'']\<rparr>"

text \<open>Every task the program queues is in a module the workers load.\<close>

lemma tasks_loaded: "\<exists>m \<in> set (ce_include (celery getenv)). startswith (task_name t) (m @ ''.'')"
  by (cases t) (simp_all add: celery_def startswith_def)

section \<open>The session script\<close>

text \<open>The script the process has registered, \<open>_lua_update_session\<close>; the reading of its file may fail.\<close>

type_synonym script = "string option"

definition register_session_update_script :: "'e + string \<Rightarrow> script \<Rightarrow> ('e + unit) \<times> script" where
  "register_session_update_script file registered =
     (case file of Inl e \<Rightarrow> (Inl e, registered) | Inr text' \<Rightarrow> (Inr (), Some text'))"

definition get_update_script :: "script \<Rightarrow> string res" where
  "get_update_script registered =
     (case registered of None \<Rightarrow> Inl (RuntimeError ''Script not registered'') | Some s \<Rightarrow> Inr s)"

section \<open>The life of a process\<close>

record process =
  ps_loop :: event_loop
  ps_script :: script
  ps_redis_open :: bool

definition new_process :: process where
  "new_process = \<lparr>ps_loop = No_Loop, ps_script = None, ps_redis_open = True\<rparr>"

definition initialize_worker :: "string res \<Rightarrow> process \<Rightarrow> unit res \<times> process" where
  "initialize_worker file P =
     (let (r, sc) = register_session_update_script file (ps_script P) in
      (r, P\<lparr>ps_loop := initialize (ps_loop P), ps_script := sc\<rparr>))"

text \<open>
  The life of the HTTP application: the script is registered, requests are served, the connection to
  Redis is closed. An exception while it serves leaves the block before the connection is closed.
\<close>

definition lifespan :: "string res \<Rightarrow> (process \<Rightarrow> 'a res \<times> process) \<Rightarrow> process \<Rightarrow> 'a res \<times> process" where
  "lifespan file serve P =
     (case register_session_update_script file (ps_script P) of
        (Inl e, sc) \<Rightarrow> (Inl e, P\<lparr>ps_script := sc\<rparr>)
      | (Inr _, sc) \<Rightarrow>
          and_then (serve (P\<lparr>ps_script := sc\<rparr>)) (\<lambda>x P'. (Inr x, P'\<lparr>ps_redis_open := False\<rparr>)))"

text \<open>The conversation task in a process: the script is asked for when the session is saved.\<close>

definition conversation_task ::
  "process \<Rightarrow> 'z worker_env_scheme \<Rightarrow> message_sender \<Rightarrow> inbound_payload \<Rightarrow> system \<Rightarrow> string res \<times> system" where
  "conversation_task P E snd' p =
     run_coroutine (ps_loop P) (\<lambda>S.
       let old = get_session (sender p) (sys_redis S) in
       case process_phase E p old (sys_world S) of
         (Inl e, w) \<Rightarrow> (Inl e, S\<lparr>sys_world := w\<rparr>)
       | (Inr x, w) \<Rightarrow>
           (case get_update_script (ps_script P) of
              Inl e \<Rightarrow> (Inl e, S\<lparr>sys_world := w\<rparr>)
            | Inr s \<Rightarrow> reply_phase E snd' p old x (S\<lparr>sys_world := w\<rparr>)))"

lemma initialized_converses:
  assumes "initialize_worker (Inr lua) P = (r, P')"
  shows "r = Inr ()" "conversation_task P' E snd' p = conversation E snd' p"
proof -
  from assms have P': "P' = P\<lparr>ps_loop := New_Loop, ps_script := Some lua\<rparr>" and "r = Inr ()"
    by (auto simp: initialize_worker_def register_session_update_script_def initialize_def)
  then show "r = Inr ()" by simp
  show "conversation_task P' E snd' p = conversation E snd' p"
    by (rule ext) (simp add: P' conversation_task_def run_coroutine_def get_update_script_def conversation_def Let_def
        split: prod.split sum.split)
qed

text \<open>A process that could not read the script answers no message, but it commits what it did for it.\<close>

lemma unscripted_silent:
  assumes "ps_script P = None"
  shows "\<exists>e. fst (conversation_task P E snd' p S) = Inl e"
    "sys_redis (snd (conversation_task P E snd' p S)) = sys_redis S"
    "sys_sent (snd (conversation_task P E snd' p S)) = sys_sent S"
  using assms
  by (auto simp: conversation_task_def run_coroutine_def get_update_script_def Let_def
      split: event_loop.split prod.split sum.split)

end
