(* ===== verification/Assembly.thy ===== *)
theory Assembly
  imports Process Webhook
begin

text \<open>
  The constructors of the analytics layer: what a client, a routing policy and an orchestrator are
  made of, given some or none of their parts. The program makes them without arguments; that they
  are then what the theories of these components say is shown here.
\<close>

section \<open>The client of the model\<close>

record llm_client =
  lc_api_key :: string
  lc_endpoint :: string
  lc_model :: string
  lc_timeout :: rat

text \<open>An empty text counts as absent, a timeout of zero does not.\<close>

definition LLMClient ::
  "'z llm_env_scheme \<Rightarrow> string option \<Rightarrow> string option \<Rightarrow> string option \<Rightarrow> rat option \<Rightarrow> llm_client" where
  "LLMClient E key endpoint model timeout =
     \<lparr>lc_api_key = or_default key (or_default (groq_api_key (cfg E)) (or_default (openrouter_api_key (cfg E)) [])),
      lc_endpoint = or_default endpoint (llm_provider_endpoint (llm E)),
      lc_model = or_default model (llm_model (llm E)),
      lc_timeout = (case timeout of Some t \<Rightarrow> t | None \<Rightarrow> llm_timeout_seconds (llm E))\<rparr>"

text \<open>The client in the place of the settings it replaces.\<close>

definition with_client :: "llm_client \<Rightarrow> 'z llm_env_scheme \<Rightarrow> 'z llm_env_scheme" where
  "with_client c E =
     E\<lparr>cfg := (cfg E)\<lparr>groq_api_key := Some (lc_api_key c), openrouter_api_key := None\<rparr>,
       llm := (llm E)\<lparr>llm_provider_endpoint := lc_endpoint c, llm_model := lc_model c,
                      llm_timeout_seconds := lc_timeout c\<rparr>\<rparr>"

lemma or_default_simps [simp]:
  "or_default None d = d" "or_default (Some []) d = d" "or_default (Some (c # s)) d = c # s"
  by (simp_all add: or_default_def)

lemma client_key: "lc_api_key (LLMClient E None endpoint model timeout) = api_key E"
  by (auto simp: LLMClient_def api_key_def or_default_def Let_def split: option.split)

lemma client_default:
  "api_key (with_client (LLMClient E None None None None) E) = api_key E"
  "llm (with_client (LLMClient E None None None None) E) = llm E"
  using client_key [of E None None None]
  by (simp_all add: with_client_def api_key_def Let_def, simp add: LLMClient_def)

lemma post_with_client: "post (with_client c E) = post E"
  by (simp add: with_client_def)

lemma generate_by_client:
  "generate (with_client (LLMClient E None None None None) E) ms tools k = generate E ms tools k"
  unfolding generate_def post_payload_def client_default post_with_client ..

section \<open>The routing policy\<close>

record routing_policy =
  rp_enabled :: bool
  rp_follow_up_ttl :: int

definition AnalyticsRoutingPolicy :: "'z db_env_scheme \<Rightarrow> bool option \<Rightarrow> int option \<Rightarrow> routing_policy" where
  "AnalyticsRoutingPolicy E enabled ttl =
     \<lparr>rp_enabled = (case enabled of Some b \<Rightarrow> b | None \<Rightarrow> analytics_enabled (cfg E)),
      rp_follow_up_ttl = (case ttl of Some n \<Rightarrow> n | None \<Rightarrow> analytics_follow_up_ttl_seconds (cfg E))\<rparr>"

definition with_policy :: "routing_policy \<Rightarrow> 'z db_env_scheme \<Rightarrow> 'z db_env_scheme" where
  "with_policy p E =
     E\<lparr>cfg := (cfg E)\<lparr>analytics_enabled := rp_enabled p, analytics_follow_up_ttl_seconds := rp_follow_up_ttl p\<rparr>\<rparr>"

lemma policy_default: "with_policy (AnalyticsRoutingPolicy E None None) E = E"
  by (simp add: with_policy_def AnalyticsRoutingPolicy_def)

lemma policy_disabled: "\<not> can_route (with_policy (AnalyticsRoutingPolicy E (Some False) ttl) E) s message"
  by (simp add: can_route_def with_policy_def AnalyticsRoutingPolicy_def)

section \<open>The orchestrator\<close>

record orchestrator =
  or_registry :: registry
  or_client :: llm_client
  or_executor_registry :: registry
  or_active :: "string list"

text \<open>
  The executor is made on the registry of the orchestrator unless it is given. An empty list of
  active tools is kept: then no tool is offered and none is run.
\<close>

definition AnalyticsOrchestrator ::
  "'z ai_env_scheme \<Rightarrow> llm_client option \<Rightarrow> registry option \<Rightarrow> registry option \<Rightarrow> string list option \<Rightarrow> orchestrator" where
  "AnalyticsOrchestrator E client exec_registry reg active =
     (let r = (case reg of Some r \<Rightarrow> r | None \<Rightarrow> build_default_registry E) in
      \<lparr>or_registry = r,
       or_client = (case client of Some c \<Rightarrow> c | None \<Rightarrow> LLMClient E None None None None),
       or_executor_registry = (case exec_registry of Some x \<Rightarrow> x | None \<Rightarrow> r),
       or_active = (case active of Some a \<Rightarrow> a | None \<Rightarrow> DEFAULT_ACTIVE_TOOLS)\<rparr>)"

definition orchestrate ::
  "orchestrator \<Rightarrow> 'z ai_env_scheme \<Rightarrow> string \<Rightarrow> uuid \<Rightarrow> prior_call option \<Rightarrow> world \<Rightarrow> analytics_outcome option \<times> nat" where
  "orchestrate oc E message sid prior w =
     (let tools = filter (\<lambda>t. function_name t \<in> Some ` set (or_active oc))
                    (get_openai_tools (input_schema E) (or_registry oc)) in
      run (\<lambda>ms k. generate (with_client (or_client oc) E) ms tools k)
          (\<lambda>n args. execute_call (validation E) (or_executor_registry oc) n args sid w)
          (or_active oc) message prior)"

lemma orchestrate_default:
  "orchestrate (AnalyticsOrchestrator E None None None None) E message sid prior w = run_analytics E message sid prior w"
  by (simp add: orchestrate_def AnalyticsOrchestrator_def run_analytics_def Let_def generate_by_client)

text \<open>Without an active tool no question is answered with data.\<close>

lemma attempt_unoffered:
  assumes "attempt exec [] k response = Some (Inl o')"
  shows "\<not> is_answered o' \<and> oc_data o' = None"
proof -
  have "\<not> is_answered (llm_failure e) \<and> oc_data (llm_failure e) = None" for e
    by (cases e) (simp_all add: is_answered_def malformed_response_def provider_unavailable_def
        infrastructure_failure_def outcome_def)
  with assms show ?thesis
    by (auto simp: attempt_def is_answered_def no_analytics_intent_def invalid_proposal_def outcome_def
        split: sum.splits option.splits if_splits)
qed

lemma unoffered:
  assumes "fst (orchestrate (AnalyticsOrchestrator E client xr reg (Some [])) E message sid prior w) = Some o'"
  shows "\<not> is_answered o' \<and> oc_data o' = None"
proof -
  have "\<not> is_answered o' \<and> oc_data o' = None" if "fst (attempts gen exec [] ks ms calls) = Some o'" for gen exec ks ms calls
    using that
  proof (induction ks arbitrary: ms calls)
    case Nil
    then show ?case by (auto simp: invalid_proposal_def is_answered_def outcome_def)
  next
    case (Cons k ks)
    then show ?case
      by (auto split: prod.splits option.splits sum.splits dest: attempt_unoffered)
  qed
  note none = this
  have active: "or_active (AnalyticsOrchestrator E client xr reg (Some [])) = []"
    by (simp add: AnalyticsOrchestrator_def Let_def)
  show ?thesis using assms unfolding orchestrate_def run_def Let_def active by (rule none)
qed

end
