(* ===== verification/Redaction.thy ===== *)
theory Redaction
  imports PyText
begin

text \<open>
  \<open>_sanitize_text\<close> of \<open>tools/analytics_benchmark.py\<close>: credentials are struck out of the texts of
  errors before they are reported. The two expressions are read on ASCII; a byte above 127 counts as a
  letter for the word boundary. No key of a provider is left in the result.
\<close>

section \<open>The two substitutions\<close>

definition token_char :: "char \<Rightarrow> bool" where
  "token_char c \<longleftrightarrow> is_dig c \<or> 65 \<le> code c \<and> code c \<le> 90 \<or> 97 \<le> code c \<and> code c \<le> 122 \<or>
     c = CHR ''_'' \<or> c = CHR ''-''"

definition word_char :: "char \<Rightarrow> bool" where
  "word_char c \<longleftrightarrow> token_char c \<and> c \<noteq> CHR ''-'' \<or> 128 \<le> code c"

definition redacted :: string where
  "redacted = ''[REDACTED]''"

text \<open>A word at the head, whatever its case.\<close>

definition starts_ci :: "string \<Rightarrow> string \<Rightarrow> bool" where
  "starts_ci w s \<longleftrightarrow> lower (take (length w) s) = w"

text \<open>\<open>authorization\s*:\s*bearer\s+\<close>, and the length of what it matches before a visible character.\<close>

definition bearer_prefix :: "string \<Rightarrow> nat option" where
  "bearer_prefix s =
     (if \<not> starts_ci ''authorization'' s then None
      else let s1 = dropWhile py_space (drop 13 s) in
        if take 1 s1 \<noteq> '':'' then None
        else let s2 = dropWhile py_space (drop 1 s1) in
          if \<not> starts_ci ''bearer'' s2 then None
          else let s3 = drop 6 s2; s4 = dropWhile py_space s3 in
            if s4 = [] \<or> length s4 = length s3 then None else Some (length s - length s4))"

lemma starts_ci_length: "starts_ci w s \<Longrightarrow> length w \<le> length s"
proof -
  assume "starts_ci w s"
  then have "length (lower (take (length w) s)) = length w" by (simp only: starts_ci_def)
  then show ?thesis by (simp add: lower_def)
qed

lemma bearer_prefix_pos:
  assumes "bearer_prefix s = Some n" shows "0 < n" "n < length s"
proof -
  define s1 where "s1 = dropWhile py_space (drop 13 s)"
  define s2 where "s2 = dropWhile py_space (drop 1 s1)"
  define s4 where "s4 = dropWhile py_space (drop 6 s2)"
  have n: "starts_ci ''authorization'' s" "s4 \<noteq> []" "n = length s - length s4"
    using assms by (auto simp: bearer_prefix_def Let_def s1_def s2_def s4_def split: if_splits)
  have "13 \<le> length s" using starts_ci_length [OF n(1)] by simp
  moreover have "length s1 \<le> length s - 13"
    using length_dropWhile_le [of py_space "drop 13 s"] by (simp add: s1_def)
  moreover have "length s2 \<le> length s1"
    using length_dropWhile_le [of py_space "drop 1 s1"] by (simp add: s2_def)
  moreover have "length s4 \<le> length s2"
    using length_dropWhile_le [of py_space "drop 6 s2"] by (simp add: s4_def)
  ultimately show "0 < n" "n < length s" using n(2,3) by (simp_all, cases s4) simp_all
qed

function redact_bearers :: "string \<Rightarrow> string" where
  "redact_bearers s =
     (case s of [] \<Rightarrow> []
      | c # r \<Rightarrow>
          (case bearer_prefix s of
             None \<Rightarrow> c # redact_bearers r
           | Some n \<Rightarrow> take n s @ redacted @ redact_bearers (dropWhile (\<lambda>c. \<not> py_space c) (drop n s))))"
  by pat_completeness auto
termination
proof (relation "measure length")
  fix s :: string and c r n
  assume "s = c # r" "bearer_prefix s = Some n"
  then show "(dropWhile (\<lambda>c. \<not> py_space c) (drop n s), s) \<in> measure length"
    using bearer_prefix_pos [of s n] length_dropWhile_le [of "\<lambda>c. \<not> py_space c" "drop n s"] by simp
qed auto

declare redact_bearers.simps [simp del]

text \<open>\<open>\b(?:gsk_|sk-or-v1-)[A-Za-z0-9_-]+\<close> after a character: the length of the match.\<close>

definition key_prefix :: "string \<Rightarrow> nat option" where
  "key_prefix s =
     (if starts_ci ''gsk_'' s then Some 4 else if starts_ci ''sk-or-v1-'' s then Some 9 else None)"

definition key_at :: "char option \<Rightarrow> string \<Rightarrow> nat option" where
  "key_at prev s =
     (if (case prev of None \<Rightarrow> False | Some c \<Rightarrow> word_char c) then None
      else case key_prefix s of
        None \<Rightarrow> None
      | Some n \<Rightarrow> let t = takeWhile token_char (drop n s) in if t = [] then None else Some (n + length t))"

lemma key_at_iff:
  "key_at prev s \<noteq> None \<longleftrightarrow> (case prev of None \<Rightarrow> True | Some c \<Rightarrow> \<not> word_char c) \<and>
     (\<exists>m. key_prefix s = Some m \<and> m < length s \<and> token_char (s ! m))"
proof -
  have "takeWhile token_char (drop m s) = [] \<longleftrightarrow> \<not> (m < length s \<and> token_char (s ! m))" for m
    by (cases "m < length s") (simp_all add: takeWhile_eq_Nil_iff hd_drop_conv_nth)
  then show ?thesis by (auto simp: key_at_def Let_def split: option.split)
qed

lemma key_at_pos:
  assumes "key_at prev s = Some n" shows "0 < n" "n \<le> length s"
proof -
  obtain m where m: "key_prefix s = Some m" "n = m + length (takeWhile token_char (drop m s))"
    using assms by (auto simp: key_at_def Let_def split: if_splits option.splits)
  have "0 < m" "m \<le> length s"
    using m(1) starts_ci_length [of "''gsk_''" s] starts_ci_length [of "''sk-or-v1-''" s]
    by (auto simp: key_prefix_def split: if_splits)
  with m(2) length_takeWhile_le [of token_char "drop m s"] show "0 < n" "n \<le> length s" by simp_all
qed

function redact_keys :: "char option \<Rightarrow> string \<Rightarrow> string" where
  "redact_keys prev s =
     (case s of [] \<Rightarrow> []
      | c # r \<Rightarrow>
          (case key_at prev s of
             None \<Rightarrow> c # redact_keys (Some c) r
           | Some n \<Rightarrow> redacted @ redact_keys (Some (s ! (n - 1))) (drop n s)))"
  by pat_completeness auto
termination
proof (relation "measure (\<lambda>(p, s). length s)")
  fix prev s c r n
  assume "s = c # r" "key_at prev s = Some n"
  with key_at_pos(1) [OF this(2)] show "((Some (s ! (n - 1)), drop n s), (prev, s)) \<in> measure (\<lambda>(p, s). length s)"
    by simp
qed auto

declare redact_keys.simps [simp del]

lemma redact_keys_simps:
  "redact_keys prev [] = []"
  "redact_keys prev (c # r) =
     (case key_at prev (c # r) of
        None \<Rightarrow> c # redact_keys (Some c) r
      | Some n \<Rightarrow> redacted @ redact_keys (Some ((c # r) ! (n - 1))) (drop n (c # r)))"
  by (simp_all add: redact_keys.simps)

definition sanitize_text :: "string \<Rightarrow> string" where
  "sanitize_text v = take 2000 (redact_keys None (redact_bearers v))"

section \<open>No key is left\<close>

fun keyless :: "char option \<Rightarrow> string \<Rightarrow> bool" where
  "keyless prev [] = True"
| "keyless prev (c # s) = (key_at prev (c # s) = None \<and> keyless (Some c) s)"

text \<open>A text without an underscore and a hyphen holds no key.\<close>

lemma lower_sign: "lower_char d = CHR ''_'' \<Longrightarrow> d = CHR ''_''" "lower_char d = CHR ''-'' \<Longrightarrow> d = CHR ''-''"
proof -
  have "65 \<le> code d \<Longrightarrow> code d \<le> 90 \<Longrightarrow> code (lower_char d) = code d + 32" by (simp add: lower_char_def)
  then show "lower_char d = CHR ''_'' \<Longrightarrow> d = CHR ''_''" "lower_char d = CHR ''-'' \<Longrightarrow> d = CHR ''-''"
    by (cases "65 \<le> code d \<and> code d \<le> 90"; auto simp: lower_char_def)+
qed

lemma starts_with_sign:
  assumes "starts_ci w s"
  shows "CHR ''_'' \<in> set w \<Longrightarrow> CHR ''_'' \<in> set s" "CHR ''-'' \<in> set w \<Longrightarrow> CHR ''-'' \<in> set s"
proof -
  have w: "w = map lower_char (take (length w) s)" using assms by (simp add: starts_ci_def lower_def)
  have "set w = lower_char ` set (take (length w) s)" by (subst w) simp
  then show "CHR ''_'' \<in> set w \<Longrightarrow> CHR ''_'' \<in> set s" "CHR ''-'' \<in> set w \<Longrightarrow> CHR ''-'' \<in> set s"
    using lower_sign by (metis imageE in_set_takeD)+
qed

lemma signless_keyless:
  assumes "CHR ''_'' \<notin> set s" "CHR ''-'' \<notin> set s" shows "keyless prev s"
  using assms
proof (induction s arbitrary: prev)
  case (Cons c s)
  have "key_prefix (c # s) = None"
    using Cons.prems starts_with_sign [of _ "c # s"] by (fastforce simp: key_prefix_def)
  then have "key_at prev (c # s) = None" by (simp add: key_at_def)
  with Cons show ?case by simp
qed simp

text \<open>A key shows in its prefix and one character more: texts that agree there agree on it.\<close>

lemma key_prefix_append:
  assumes "key_prefix t = Some m" "m \<le> k" "k \<le> length t"
  shows "key_prefix (take k t @ u) = Some m"
proof -
  have "starts_ci w (take k t @ u) = starts_ci w t" if "length w \<le> k" for w
    using that assms(3) by (simp add: starts_ci_def min_absorb2)
  from this [of "''gsk_''"] this [of "''sk-or-v1-''"] show ?thesis
    using assms by (auto simp: key_prefix_def split: if_splits)
qed

lemma key_at_copied:
  assumes "key_at prev t \<noteq> None" "key_prefix t = Some m" "take (Suc m) s = take (Suc m) t"
  shows "key_at prev s \<noteq> None"
proof -
  have m: "m < length t" "token_char (t ! m)" "case prev of None \<Rightarrow> True | Some c \<Rightarrow> \<not> word_char c"
    using iffD1 [OF key_at_iff assms(1)] assms(2) by auto
  have s: "s = take (Suc m) t @ drop (Suc m) s" using assms(3) append_take_drop_id [of "Suc m" s] by metis
  have "length (take (Suc m) s) = Suc m" using m(1) by (simp add: assms(3))
  then have len: "m < length s" by simp
  have "key_prefix s = Some m" using key_prefix_append [OF assms(2), of "Suc m" "drop (Suc m) s"] m(1) s by simp
  moreover have "s ! m = t ! m" using assms(3) by (metis lessI nth_take)
  ultimately show ?thesis using m len unfolding key_at_iff by simp
qed

lemma key_prefix_chars:
  assumes "key_prefix t = Some m" "m < length t" "token_char (t ! m)" "i \<le> m"
  shows "t ! i \<noteq> CHR ''[''"
proof -
  have "lower_char (t ! i) \<noteq> CHR ''[''" if "i < m"
  proof -
    have "lower (take m t) = take m (if m = 4 then ''gsk_'' else ''sk-or-v1-'')"
      using assms(1) by (auto simp: key_prefix_def starts_ci_def eval_nat_numeral simp del: take_Suc_Cons split: if_splits)
    moreover have "m = 4 \<or> m = 9" using assms(1) by (auto simp: key_prefix_def split: if_splits)
    moreover have "lower (take m t) ! i = lower_char (t ! i)" using that assms(2) by (simp add: lower_def)
    ultimately have "lower_char (t ! i) \<in> set (''gsk_'' @ ''sk-or-v1-'')"
      using that by (auto simp: less_Suc_eq numeral_eq_Suc)
    then show ?thesis by auto
  qed
  moreover have "lower_char (CHR ''['') = CHR ''[''" by (simp add: lower_char_def)
  moreover have "\<not> token_char (CHR ''['')" by (simp add: token_char_def is_dig_def)
  ultimately show ?thesis using assms(3,4) by (cases "i = m") auto
qed

text \<open>Up to the first bracket the text is copied.\<close>

lemma redact_copies:
  "CHR ''['' \<notin> set (take n (redact_keys prev s)) \<Longrightarrow> n \<le> length (redact_keys prev s) \<Longrightarrow>
   take n (redact_keys prev s) = take n s"
proof (induction n arbitrary: prev s)
  case (Suc n)
  show ?case
  proof (cases s)
    case Nil
    then show ?thesis by (simp add: redact_keys_simps)
  next
    case (Cons c r)
    then show ?thesis
    proof (cases "key_at prev s")
      case None
      then have "redact_keys prev s = c # redact_keys (Some c) r"
        using Cons by (simp add: redact_keys_simps)
      with Suc Cons show ?thesis by simp
    next
      case (Some k)
      then have "redact_keys prev s = redacted @ redact_keys (Some (s ! (k - 1))) (drop k s)"
        using Cons by (simp add: redact_keys_simps)
      with Suc.prems show ?thesis by (simp add: redacted_def)
    qed
  qed
qed simp

lemma redact_no_key:
  assumes "key_at prev s = None" "s = c # r"
  shows "key_at prev (redact_keys prev s) = None"
proof (rule ccontr)
  let ?t = "redact_keys prev s"
  assume k: "key_at prev ?t \<noteq> None"
  then obtain m where m: "key_prefix ?t = Some m" "m < length ?t" "token_char (?t ! m)"
    using iffD1 [OF key_at_iff k] by blast
  have "CHR ''['' \<notin> set (take (Suc m) ?t)"
    using key_prefix_chars [OF m] m(2) by (auto simp: in_set_conv_nth less_Suc_eq_le)
  then have "take (Suc m) s = take (Suc m) ?t" using redact_copies [of "Suc m" prev s] m(2) by simp
  with key_at_copied [OF k m(1)] assms(1) show False by blast
qed

text \<open>In the text that stands for a key, no key begins.\<close>

lemma no_key_head: "c \<notin> {CHR ''g'', CHR ''G'', CHR ''s'', CHR ''S''} \<Longrightarrow> key_at prev (c # s) = None"
proof -
  assume c: "c \<notin> {CHR ''g'', CHR ''G'', CHR ''s'', CHR ''S''}"
  have "lower_char c \<noteq> CHR ''g''" "lower_char c \<noteq> CHR ''s''"
  proof -
    have up: "lower_char c = x \<Longrightarrow> c = x \<or> 65 \<le> code c \<and> code c \<le> 90 \<and> code c + 32 = code x" for x
      by (auto simp: lower_char_def split: if_splits)
    have "c = CHR ''G''" if "code c + 32 = code (CHR ''g'')"
      using that of_char_eq_iff [of c "CHR ''G''", where 'a = nat] by simp
    moreover have "c = CHR ''S''" if "code c + 32 = code (CHR ''s'')"
      using that of_char_eq_iff [of c "CHR ''S''", where 'a = nat] by simp
    ultimately show "lower_char c \<noteq> CHR ''g''" "lower_char c \<noteq> CHR ''s''" using up c by blast+
  qed
  then have "key_prefix (c # s) = None" by (simp add: key_prefix_def starts_ci_def lower_def)
  then show ?thesis by (simp add: key_at_def)
qed

lemma redacted_keyless: "keyless (Some (CHR '']'')) s \<Longrightarrow> keyless prev (redacted @ s)"
  by (simp add: redacted_def no_key_head)

text \<open>What follows a struck out key cannot continue it, whatever stands before.\<close>

lemma after_key:
  assumes "key_at prev s = Some n"
  shows "drop n s = [] \<or> \<not> token_char (hd (drop n s))"
proof -
  obtain m where "n = m + length (takeWhile token_char (drop m s))"
    using assms by (auto simp: key_at_def Let_def split: if_splits option.splits)
  then have "drop n s = dropWhile token_char (drop m s)"
    by (simp add: dropWhile_eq_drop add.commute)
  then show ?thesis using hd_dropWhile [of token_char "drop m s"] by (cases "drop n s") auto
qed

lemma keyless_prev:
  "s = [] \<or> \<not> token_char (hd s) \<Longrightarrow> keyless p s \<Longrightarrow> keyless q s"
proof (cases s)
  case (Cons c r)
  assume "s = [] \<or> \<not> token_char (hd s)" "keyless p s"
  moreover have "token_char (CHR ''g'')" "token_char (CHR ''G'')" "token_char (CHR ''s'')" "token_char (CHR ''S'')"
    by (simp_all add: token_char_def)
  ultimately have "c \<notin> {CHR ''g'', CHR ''G'', CHR ''s'', CHR ''S''}" using Cons by auto
  with \<open>keyless p s\<close> Cons show ?thesis by (simp add: no_key_head)
qed simp

lemma redact_hd:
  "s = [] \<or> \<not> token_char (hd s) \<Longrightarrow> redact_keys p s = [] \<or> \<not> token_char (hd (redact_keys p s))"
proof (cases s)
  case (Cons c r)
  assume "s = [] \<or> \<not> token_char (hd s)"
  moreover have "\<not> token_char (CHR ''['')" by (simp add: token_char_def is_dig_def)
  ultimately show ?thesis
    using Cons by (auto simp: redact_keys_simps redacted_def split: option.split)
qed (simp add: redact_keys_simps)

lemma redact_keyless: "keyless prev (redact_keys prev s)"
proof (induction prev s rule: redact_keys.induct)
  case (1 prev s)
  show ?case
  proof (cases s)
    case Nil
    then show ?thesis by (simp add: redact_keys_simps)
  next
    case (Cons c r)
    show ?thesis
    proof (cases "key_at prev s")
      case None
      have "redact_keys prev s = c # redact_keys (Some c) r"
        using Cons None by (simp add: redact_keys_simps)
      with redact_no_key [OF None Cons] "1.IH"(1) [OF Cons None] show ?thesis by simp
    next
      case (Some n)
      have "redact_keys prev s = redacted @ redact_keys (Some (s ! (n - 1))) (drop n s)"
        using Cons Some by (simp add: redact_keys_simps)
      with keyless_prev [OF redact_hd [OF after_key [OF Some]] "1.IH"(2) [OF Cons Some]] redacted_keyless
      show ?thesis by simp
    qed
  qed
qed

lemma keyless_take: "keyless prev s \<Longrightarrow> keyless prev (take n s)"
proof (induction prev s arbitrary: n rule: keyless.induct)
  case (2 prev c s)
  show ?case
  proof (cases n)
    case (Suc k)
    have "key_at prev (take n (c # s)) = None"
    proof (rule ccontr)
      assume k: "key_at prev (take n (c # s)) \<noteq> None"
      then obtain m where m: "key_prefix (take n (c # s)) = Some m" "m < length (take n (c # s))"
        using iffD1 [OF key_at_iff k] by blast
      have "take (Suc m) (c # s) = take (Suc m) (take n (c # s))" using m(2) by (simp add: min_absorb1)
      from key_at_copied [OF k m(1) this] 2(2) show False by simp
    qed
    with 2 Suc show ?thesis by simp
  qed simp
qed simp

lemma sanitized_keyless: "keyless None (sanitize_text v)"
  unfolding sanitize_text_def by (intro keyless_take redact_keyless)

end
