(* ===== verification/Benchmark.thy ===== *)
theory Benchmark
  imports Sales PyFloat Redaction
begin

text \<open>
  \<open>tools/analytics_benchmark.py\<close>: the guard of the environment, the fixture, the trace of one request,
  the verdict on it, percentiles, the report and the exit code; \<open>BenchRun\<close> has the run. The conversation
  under measurement is a parameter: what the two observers around the model's client and the tool executor
  see, in order, and how the conversation ends. Latencies are rational numbers of milliseconds.
\<close>

section \<open>The environment and the arguments\<close>

record bench_settings =
  benchmark_allow_llm :: bool
  app_env :: string
  test_db_url :: "string option"
  database_url :: string
  bench_sender :: string
  groq_key :: "string option"
  openrouter_key :: "string option"
  debug_mode :: bool

definition is_set :: "string option \<Rightarrow> bool" where
  "is_set o' \<longleftrightarrow> (case o' of None \<Rightarrow> False | Some s \<Rightarrow> s \<noteq> [])"

definition require_safe_environment :: "bench_settings \<Rightarrow> unit res" where
  "require_safe_environment B =
     (if \<not> benchmark_allow_llm B
      then Inl (RuntimeError ''Refusing to run: set BENCHMARK_ALLOW_LLM=1 to explicitly allow real provider calls.'')
      else if lower (app_env B) \<in> {''production'', ''prod''}
      then Inl (RuntimeError ''Refusing to run in a production application environment.'')
      else if \<not> is_set (test_db_url B)
      then Inl (RuntimeError ''TEST_DB_URL is required for the benchmark.'')
      else if Some (database_url B) \<noteq> test_db_url B
      then Inl (RuntimeError (''Refusing to run unless DATABASE_URL exactly equals TEST_DB_URL. Use: DATABASE_URL=''
                 @ [CHR 0x22] @ ''$TEST_DB_URL'' @ [CHR 0x22] @ ''.''))
      else if lower (bench_sender B) = ''whatsapp''
      then Inl (RuntimeError ''Refusing to run with the WhatsApp sender backend.'')
      else if \<not> (is_set (groq_key B) \<or> is_set (openrouter_key B))
      then Inl (RuntimeError ''No LLM provider key configured (GROQ_API_KEY or OPENROUTER_API_KEY).'')
      else Inr ())"

section \<open>The fixture\<close>

definition BENCHMARK_PHONE :: string where "BENCHMARK_PHONE = ''+254700000998''"

definition bench_product :: "'z db_env_scheme \<Rightarrow> uuid \<Rightarrow> string \<Rightarrow> int \<Rightarrow> string \<Rightarrow> product_row op" where
  "bench_product E sid nm cents sku' w =
     (let (u, w0) = next_uuid E w;
          p = \<lparr>p_id = u, p_shop_id = sid, p_name = nm, p_sku = ''BENCH-'' @ sku', p_price = cents, p_created = now E\<rparr> in
      and_then (insert_product p w0) (\<lambda>_ w1. (Inr p, w1)))"

definition bench_stock :: "'z db_env_scheme \<Rightarrow> uuid \<Rightarrow> int \<Rightarrow> unit op" where
  "bench_stock E pid q w =
     (let (u, w0) = next_uuid E w in
      insert_inventory \<lparr>i_id = u, i_product_id = pid, i_quantity = q, i_threshold = 5\<rparr> w0)"

definition bench_sale :: "'z db_env_scheme \<Rightarrow> uuid \<Rightarrow> uuid \<Rightarrow> int \<Rightarrow> unit op" where
  "bench_sale E sid pid q w =
     (let (u, w0) = next_uuid E w in
      insert_sale \<lparr>s_id = u, s_shop_id = sid, s_product_id = pid, s_quantity = q, s_unit_price = 15000,
                   s_recorded_by = ''benchmark'', s_created = now E\<rparr> w0)"

text \<open>The block of the session: an exception leaves it and rolls back.\<close>

definition fixture_rows :: "'z db_env_scheme \<Rightarrow> unit op" where
  "fixture_rows E w =
     (case shop_by_phone BENCHMARK_PHONE (work w) of
        Some shop \<Rightarrow> (Inr (), w)
      | None \<Rightarrow>
          (let (u, w0) = next_uuid E w;
               sid = u;
               shop = \<lparr>sh_id = u, sh_phone = BENCHMARK_PHONE, sh_name = Some ''SokoFlow Benchmark'',
                       sh_locale = ''en'', sh_created = now E\<rparr> in
           and_then (insert_shop shop w0) (\<lambda>_ w1.
           and_then (bench_product E sid ''Sugar 1kg'' 15000 ''SUGAR'' w1) (\<lambda>sugar w2.
           and_then (bench_product E sid ''Fresh Milk 500ml'' 6000 ''MILK'' w2) (\<lambda>milk w3.
           and_then (bench_product E sid ''Iodized Salt 500g'' 3500 ''SALT'' w3) (\<lambda>salt w4.
           and_then (bench_stock E (p_id sugar) 20 w4) (\<lambda>_ w5.
           and_then (bench_stock E (p_id milk) 2 w5) (\<lambda>_ w6.
           and_then (bench_stock E (p_id salt) 50 w6) (\<lambda>_ w7.
           and_then (bench_sale E sid (p_id sugar) 10 w7) (\<lambda>_ w8.
           and_then (bench_sale E sid (p_id sugar) 5 w8) (\<lambda>_ w9. (Inr (), commit w9))))))))))))"

definition prepare_fixture :: "'z db_env_scheme \<Rightarrow> unit op" where
  "prepare_fixture E = get_db (fixture_rows E)"

section \<open>One request\<close>

text \<open>
  What the observers see: a call of the model with the tools it chose or without an answer, a call of a
  tool with whether it succeeded or an exception; each with its latency.
\<close>

datatype observed =
    Generated "string list option" rat
  | Executed "bool option" rat

datatype ending =
    Finished
  | Timed_Out string
  | Failed string string string  \<comment> \<open>the exception's class, text and traceback\<close>

record request_trace =
  provider_request_attempted :: bool
  provider_response_received :: bool
  tool_execution_started :: bool
  tool_execution_completed :: bool
  formatted_reply_generated :: bool
  provider_calls :: nat
  tool_calls :: nat
  provider_latency :: "rat option"
  tool_latency :: "rat option"

definition fresh_trace :: request_trace where
  "fresh_trace =
     \<lparr>provider_request_attempted = False, provider_response_received = False, tool_execution_started = False,
      tool_execution_completed = False, formatted_reply_generated = False, provider_calls = 0, tool_calls = 0,
      provider_latency = None, tool_latency = None\<rparr>"

fun observe :: "observed \<Rightarrow> request_trace \<times> string list \<Rightarrow> request_trace \<times> string list" where
  "observe (Generated r ms) (T, tools) =
     (let T1 = T\<lparr>provider_request_attempted := True, provider_calls := Suc (provider_calls T),
                 provider_latency := Some ms\<rparr> in
      case r of None \<Rightarrow> (T1, tools) | Some names \<Rightarrow> (T1\<lparr>provider_response_received := True\<rparr>, tools @ names))"
| "observe (Executed r ms) (T, tools) =
     (let T1 = T\<lparr>tool_execution_started := True, tool_calls := Suc (tool_calls T), tool_latency := Some ms\<rparr> in
      case r of None \<Rightarrow> (T1, tools) | Some ok \<Rightarrow> (T1\<lparr>tool_execution_completed := ok\<rparr>, tools))"

definition failure_stage_of :: "request_trace \<Rightarrow> string" where
  "failure_stage_of T =
     (if \<not> provider_request_attempted T then ''routing''
      else if \<not> provider_response_received T then ''provider''
      else if \<not> tool_execution_started T then ''provider_response''
      else if \<not> tool_execution_completed T then ''tool_execution''
      else if \<not> formatted_reply_generated T then ''formatting'' else ''validation'')"

record measurement =
  m_index :: nat
  m_case :: string
  m_query :: string
  m_expected_tool :: string
  m_selected_tools :: "string list"
  m_latency :: rat
  m_outcome :: string
  m_error_category :: "string option"
  m_error :: "string option"
  m_reply_ready :: bool
  m_trace :: request_trace
  m_failure_stage :: "string option"
  m_traceback :: "string option"

type_synonym verdict = "string \<times> string option \<times> string option \<times> string option"

text \<open>Outcome, failure stage, category and text of a request that came to its end.\<close>

definition judge :: "request_trace \<Rightarrow> string list \<Rightarrow> bool \<Rightarrow> string \<Rightarrow> verdict" where
  "judge T tools reply_ready expected_tool =
     (if \<not> provider_request_attempted T
      then (''failed'', Some ''routing'', Some ''not_entered_analytics'',
            Some ''Request did not enter the analytics LLM boundary.'')
      else if \<not> provider_response_received T
      then (''failed'', Some ''provider'', Some ''no_provider_response'',
            Some ''Provider request did not produce a response.'')
      else if tools = []
      then (''invalid_response'', Some ''provider_response'', Some ''no_tool_selected'',
            Some ''Provider response contained no analytics tool call.'')
      else if \<not> tool_execution_started T
      then (''failed'', Some ''tool_execution'', Some ''tool_execution'',
            Some ''No tool execution began after provider tool selection.'')
      else if \<not> tool_execution_completed T
      then (''failed'', Some ''tool_execution'', Some ''tool_execution'',
            Some ''Tool execution did not complete successfully.'')
      else if \<not> reply_ready
      then (''invalid_response'', Some ''formatting'', Some ''empty_reply'',
            Some ''Analytics execution completed without a formatted reply.'')
      else if last tools \<noteq> expected_tool
      then (''wrong_tool'', Some ''validation'', Some ''unexpected_tool'', None)
      else (''success'', None, None, None))"

record run_of_request =
  ro_events :: "observed list"
  ro_replies :: "string list"   \<comment> \<open>what the captured sender was given\<close>
  ro_ending :: ending
  ro_latency :: rat

definition run_request ::
  "bench_settings \<Rightarrow> rat \<Rightarrow> string \<times> string \<times> string \<Rightarrow> nat \<Rightarrow> run_of_request \<Rightarrow> measurement" where
  "run_request B timeout item idx run =
     (case item of (case', query, expected_tool) \<Rightarrow>
        (let (T, tools) = fold observe (ro_events run) (fresh_trace, []);
             ready = (ro_replies run \<noteq> [] \<and> strip (last (ro_replies run)) \<noteq> []);
             measured = (\<lambda>T' v r tb.
               (case v of (outcome, stage, category, err) \<Rightarrow>
                  \<lparr>m_index = idx, m_case = case', m_query = query, m_expected_tool = expected_tool,
                   m_selected_tools = tools, m_latency = ro_latency run, m_outcome = outcome,
                   m_error_category = category, m_error = err, m_reply_ready = r, m_trace = T',
                   m_failure_stage = stage, m_traceback = tb\<rparr>)) in
         case ro_ending run of
           Finished \<Rightarrow>
             (let T' = T\<lparr>formatted_reply_generated := ready\<rparr> in
              measured T' (judge T' tools ready expected_tool) ready None)
         | Timed_Out msg \<Rightarrow>
             measured T (''timeout'', Some (failure_stage_of T), Some ''timeout'',
               Some (sanitize_text (if msg \<noteq> [] then msg else ''request exceeded '' @ fmt_1f timeout @ ''s''))) False None
         | Failed cls msg tb \<Rightarrow>
             measured T (''failed'', Some (failure_stage_of T), Some cls, Some (sanitize_text msg)) False
               (if debug_mode B then Some (sanitize_text tb) else None)))"

section \<open>Percentiles and the report\<close>

definition percentile :: "rat list \<Rightarrow> rat \<Rightarrow> rat option" where
  "percentile values pct =
     (let ordered = sort values in
      case ordered of
        [] \<Rightarrow> None
      | [x] \<Rightarrow> Some x
      | _ \<Rightarrow>
          (let rank = of_nat (length ordered - 1) * pct / 100;
               lower' = nat \<lfloor>rank\<rfloor>;
               upper' = min (lower' + 1) (length ordered - 1);
               fraction = rank - of_nat lower' in
           Some (ordered ! lower' + (ordered ! upper' - ordered ! lower') * fraction)))"

definition succeeded :: "measurement \<Rightarrow> bool" where
  "succeeded m \<longleftrightarrow> m_outcome m = ''success''"

definition counts_by :: "('m \<Rightarrow> string option) \<Rightarrow> 'm list \<Rightarrow> (string \<times> nat) list" where
  "counts_by f ms =
     fold (\<lambda>m counts.
        let v = (case f m of None \<Rightarrow> ''unknown'' | Some s \<Rightarrow> if s = [] then ''unknown'' else s) in
        dict_set v (Suc (case map_of counts v of None \<Rightarrow> 0 | Some n \<Rightarrow> n)) counts) ms []"

record tool_stats =
  ts_requests :: nat
  ts_successful :: nat
  ts_p50 :: "rat option"
  ts_p95 :: "rat option"

record bench_report =
  br_total :: nat
  br_successful :: nat
  br_success_rate :: rat
  br_failed :: nat
  br_wrong_tool :: nat
  br_timeouts :: nat
  br_failure_stages :: "(string \<times> nat) list"
  br_success_p50 :: "rat option"
  br_success_p95 :: "rat option"
  br_success_max :: "rat option"
  br_failed_p50 :: "rat option"
  br_failed_p95 :: "rat option"
  br_failed_max :: "rat option"
  br_per_tool :: "(string \<times> tool_stats) list"
  br_valid :: bool

definition max_of :: "rat list \<Rightarrow> rat option" where
  "max_of xs = (case xs of [] \<Rightarrow> None | x # r \<Rightarrow> Some (foldl max x r))"

definition tool_group :: "measurement list \<Rightarrow> string \<Rightarrow> tool_stats" where
  "tool_group ms tool =
     (let group = filter (\<lambda>m. m_expected_tool m = tool) ms; good = filter succeeded group in
      \<lparr>ts_requests = length group, ts_successful = length good,
       ts_p50 = percentile (map m_latency good) 50, ts_p95 = percentile (map m_latency good) 95\<rparr>)"

definition aggregate :: "measurement list \<Rightarrow> bench_report" where
  "aggregate ms =
     (let good = filter succeeded ms; bad = filter (\<lambda>m. \<not> succeeded m) ms;
          gl = map m_latency good; bl = map m_latency bad in
      \<lparr>br_total = length ms, br_successful = length good,
       br_success_rate = (if ms = [] then 0 else of_nat (length good) / of_nat (length ms)),
       br_failed = length ms - length good,
       br_wrong_tool = length (filter (\<lambda>m. m_outcome m = ''wrong_tool'') ms),
       br_timeouts = length (filter (\<lambda>m. m_outcome m = ''timeout'') ms),
       br_failure_stages = counts_by m_failure_stage bad,
       br_success_p50 = percentile gl 50, br_success_p95 = percentile gl 95, br_success_max = max_of gl,
       br_failed_p50 = percentile bl 50, br_failed_p95 = percentile bl 95, br_failed_max = max_of bl,
       br_per_tool = map (\<lambda>t. (t, tool_group ms t)) (sort (remdups (map m_expected_tool ms))),
       br_valid = (gl \<noteq> [])\<rparr>)"

section \<open>The queries, the arguments and the exit code\<close>

definition DEFAULT_QUERIES :: "(string \<times> string \<times> string) list" where
  "DEFAULT_QUERIES =
     [(''sales_summary'', ''How much did I sell today?'', ''get_sales_summary''),
      (''stock_level'', ''Tell me the current inventory position for Sugar 1kg.'', ''get_stock_level''),
      (''top_products'', ''Rank products by sales performance this week.'', ''get_top_products''),
      (''low_stock'', ''Which items need replenishment?'', ''get_low_stock_items''),
      (''sales_trend'', ''Compare revenue this week with last week.'', ''get_sales_trend''),
      (''slow_moving'', ''Which products are not moving this month?'', ''get_slow_moving_items''),
      (''product_price'', ''What does Sugar 1kg cost?'', ''get_product_price'')]"

record bench_args =
  ba_warmup :: int
  ba_requests :: int
  ba_seed :: int
  ba_timeout :: rat
  ba_output_dir :: string

definition default_args :: "rat \<Rightarrow> bench_args" where
  "default_args llm_timeout =
     \<lparr>ba_warmup = 1, ba_requests = 7, ba_seed = 3, ba_timeout = max 60 (llm_timeout * 3),
      ba_output_dir = ''benchmark-results''\<rparr>"

definition exit_code :: "measurement list \<Rightarrow> int" where
  "exit_code ms = (if list_all succeeded ms then 0 else 2)"

definition arguments_ok :: "bench_args \<Rightarrow> bool" where
  "arguments_ok args \<longleftrightarrow> \<not> (ba_warmup args < 0 \<or> ba_requests args < 1 \<or> ba_timeout args \<le> 0)"

section \<open>Percentiles lie among the values and grow\<close>

definition interpolate :: "rat list \<Rightarrow> rat \<Rightarrow> rat" where
  "interpolate xs rank =
     (let l = nat \<lfloor>rank\<rfloor>; u = min (l + 1) (length xs - 1) in
      xs ! l + (xs ! u - xs ! l) * (rank - of_nat l))"

lemma percentile_interpolates:
  assumes "values \<noteq> []" "0 \<le> pct" "pct \<le> 100"
  shows "percentile values pct =
    Some (interpolate (sort values) (of_nat (length values - 1) * pct / 100))"
proof -
  have "length (sort values) = length values" by simp
  with assms show ?thesis
    by (cases "sort values"; cases "tl (sort values)")
       (auto simp: percentile_def interpolate_def Let_def simp del: length_sort)
qed

lemma rank_bounds:
  fixes rank :: rat
  assumes "0 \<le> rank" "rank \<le> of_nat (n - 1)" "0 < n"
  shows "nat \<lfloor>rank\<rfloor> \<le> n - 1" "of_nat (nat \<lfloor>rank\<rfloor>) \<le> rank" "rank < of_nat (nat \<lfloor>rank\<rfloor>) + 1"
proof -
  have f: "of_nat (nat \<lfloor>rank\<rfloor>) = (of_int \<lfloor>rank\<rfloor> :: rat)" using assms(1) by (simp add: of_nat_nat)
  show "of_nat (nat \<lfloor>rank\<rfloor>) \<le> rank" "rank < of_nat (nat \<lfloor>rank\<rfloor>) + 1" unfolding f by linarith+
  then have "(of_nat (nat \<lfloor>rank\<rfloor>) :: rat) \<le> of_nat (n - 1)" using assms(2) by linarith
  then show "nat \<lfloor>rank\<rfloor> \<le> n - 1" by simp
qed

lemma clipped: "0 < (n :: nat) \<Longrightarrow> min k (n - 1) < n"
  by (simp add: min_less_iff_disj)

text \<open>Between two neighbours of the sorted values.\<close>

lemma interpolate_between:
  assumes "sorted xs" "xs \<noteq> []" "0 \<le> rank" "rank \<le> of_nat (length xs - 1)"
  defines "l \<equiv> nat \<lfloor>rank\<rfloor>"
  shows "xs ! l \<le> interpolate xs rank" "interpolate xs rank \<le> xs ! min (l + 1) (length xs - 1)"
proof -
  have n: "0 < length xs" using assms(2) by simp
  note r = rank_bounds [OF assms(3,4) n, folded l_def]
  let ?u = "min (l + 1) (length xs - 1)"
  have le: "xs ! l \<le> xs ! ?u" using assms(1) r(1) clipped [OF n] by (intro sorted_nth_mono) simp_all
  have f: "0 \<le> rank - of_nat l" "rank - of_nat l \<le> 1" using r(2,3) n by (simp_all add: less_imp_le)
  have "0 \<le> (xs ! ?u - xs ! l) * (rank - of_nat l)" using le f by simp
  moreover have "(xs ! ?u - xs ! l) * (rank - of_nat l) \<le> (xs ! ?u - xs ! l) * 1"
    using le f by (intro mult_left_mono) simp_all
  ultimately show "xs ! l \<le> interpolate xs rank" "interpolate xs rank \<le> xs ! ?u"
    by (simp_all add: interpolate_def Let_def l_def [symmetric])
qed

lemma interpolate_mono:
  assumes "sorted xs" "xs \<noteq> []" "0 \<le> r" "r \<le> s" "s \<le> of_nat (length xs - 1)"
  shows "interpolate xs r \<le> interpolate xs s"
proof -
  let ?l = "nat \<lfloor>r\<rfloor>" and ?m = "nat \<lfloor>s\<rfloor>"
  have n: "0 < length xs" using assms(2) by simp
  have le: "?l \<le> ?m" using assms(4) by (intro nat_mono floor_mono)
  have m: "?m \<le> length xs - 1" using rank_bounds(1) [of s "length xs"] assms n by simp
  show ?thesis
  proof (cases "?l = ?m")
    case True
    let ?u = "min (?l + 1) (length xs - 1)"
    have "xs ! ?l \<le> xs ! ?u" using assms(1) m clipped [OF n] True by (intro sorted_nth_mono) simp_all
    then have "(xs ! ?u - xs ! ?l) * (r - of_nat ?l) \<le> (xs ! ?u - xs ! ?l) * (s - of_nat ?l)"
      using assms(4) by (intro mult_left_mono) simp_all
    then show ?thesis using True by (simp add: interpolate_def Let_def)
  next
    case False
    then have lt: "?l + 1 \<le> ?m" using le by simp
    have "interpolate xs r \<le> xs ! min (?l + 1) (length xs - 1)"
      using interpolate_between(2) [OF assms(1,2,3)] assms(4,5) by simp
    also have "\<dots> \<le> xs ! ?m" using assms(1) lt m n by (intro sorted_nth_mono) auto
    also have "\<dots> \<le> interpolate xs s" using interpolate_between(1) [OF assms(1,2) _ assms(5)] assms(3,4) by simp
    finally show ?thesis .
  qed
qed

lemma interpolate_ends:
  assumes "xs \<noteq> []"
  shows "interpolate xs 0 = xs ! 0" "interpolate xs (of_nat (length xs - 1)) = xs ! (length xs - 1)"
  by (simp_all add: interpolate_def Let_def)

lemma sorted_ends:
  assumes "sorted xs" "xs \<noteq> []"
  shows "xs ! 0 = Min (set xs)" "xs ! (length xs - 1) = Max (set xs)"
proof -
  have "\<forall>x \<in> set xs. xs ! 0 \<le> x" "\<forall>x \<in> set xs. x \<le> xs ! (length xs - 1)"
    using assms by (auto simp: in_set_conv_nth intro!: sorted_nth_mono)
  moreover have "xs ! 0 \<in> set xs" "xs ! (length xs - 1) \<in> set xs" using assms(2) by simp_all
  ultimately show "xs ! 0 = Min (set xs)" "xs ! (length xs - 1) = Max (set xs)"
    by (metis List.finite_set Min_eqI, metis List.finite_set Max_eqI)
qed

lemma percentile_monotone:
  assumes "values \<noteq> []" "0 \<le> p" "p \<le> q" "q \<le> 100"
  shows "\<exists>a b. percentile values p = Some a \<and> percentile values q = Some b \<and> a \<le> b \<and>
    Min (set values) \<le> a \<and> b \<le> Max (set values)"
    "percentile values 0 = Some (Min (set values))" "percentile values 100 = Some (Max (set values))"
proof -
  let ?xs = "sort values" and ?n = "of_nat (length values - 1) :: rat"
  have "sorted ?xs" "length ?xs = length values" "set ?xs = set values" by simp_all
  moreover from this(3) have "?xs \<noteq> []" using assms(1) by (metis set_empty)
  ultimately have xs: "sorted ?xs" "?xs \<noteq> []" "length ?xs = length values" "set ?xs = set values" by blast+
  have ends: "?xs ! 0 = Min (set values)" "?xs ! (length ?xs - 1) = Max (set values)"
    using sorted_ends [OF xs(1,2)] xs(4) by simp_all
  have r: "0 \<le> ?n * p / 100" "?n * p / 100 \<le> ?n * q / 100" "?n * q / 100 \<le> ?n"
  proof -
    show "0 \<le> ?n * p / 100" using assms(2) by simp
    show "?n * p / 100 \<le> ?n * q / 100" using assms(3) by (simp add: divide_right_mono mult_left_mono)
    have "?n * q \<le> ?n * 100" using assms(4) by (intro mult_left_mono) simp_all
    then show "?n * q / 100 \<le> ?n" by simp
  qed
  have rn: "?n = of_nat (length ?xs - 1)" by simp
  have lo: "interpolate ?xs 0 \<le> interpolate ?xs (?n * p / 100)"
    using r by (intro interpolate_mono xs) simp_all
  have mid: "interpolate ?xs (?n * p / 100) \<le> interpolate ?xs (?n * q / 100)"
    using r by (intro interpolate_mono xs) simp_all
  have hi: "interpolate ?xs (?n * q / 100) \<le> interpolate ?xs ?n"
    using r by (intro interpolate_mono xs) simp_all
  note ps = percentile_interpolates [OF assms(1)]
  show "\<exists>a b. percentile values p = Some a \<and> percentile values q = Some b \<and> a \<le> b \<and>
    Min (set values) \<le> a \<and> b \<le> Max (set values)"
    using ps [of p] ps [of q] assms(2-4) lo mid hi interpolate_ends [OF xs(2)] ends by (simp add: rn)
  show "percentile values 0 = Some (Min (set values))" "percentile values 100 = Some (Max (set values))"
    using ps [of 0] ps [of 100] interpolate_ends [OF xs(2)] ends by (simp_all add: rn)
qed

section \<open>What counts as a success\<close>

lemma judge_success:
  "fst (judge T tools ready t) = ''success'' \<longleftrightarrow>
     provider_request_attempted T \<and> provider_response_received T \<and> tools \<noteq> [] \<and> tool_execution_started T \<and>
     tool_execution_completed T \<and> ready \<and> last tools = t"
  by (simp add: judge_def)

text \<open>The trace, read off the events.\<close>

fun was_request :: "observed \<Rightarrow> bool" where
  "was_request (Generated r ms) = True"
| "was_request (Executed r ms) = False"

fun chosen :: "observed \<Rightarrow> string list option" where
  "chosen (Generated r ms) = r"
| "chosen (Executed r ms) = None"

lemma observed_trace:
  "provider_request_attempted (fst (fold observe es s)) \<longleftrightarrow>
     provider_request_attempted (fst s) \<or> list_ex was_request es"
  "provider_response_received (fst (fold observe es s)) \<longleftrightarrow>
     provider_response_received (fst s) \<or> list_ex (\<lambda>e. chosen e \<noteq> None) es"
  "tool_execution_started (fst (fold observe es s)) \<longleftrightarrow>
     tool_execution_started (fst s) \<or> list_ex (\<lambda>e. \<not> was_request e) es"
  "snd (fold observe es s) = snd s @ concat (map (\<lambda>e. case chosen e of None \<Rightarrow> [] | Some ns \<Rightarrow> ns) es)"
proof -
  have step: "provider_request_attempted (fst (observe e s)) \<longleftrightarrow> provider_request_attempted (fst s) \<or> was_request e"
    "provider_response_received (fst (observe e s)) \<longleftrightarrow> provider_response_received (fst s) \<or> chosen e \<noteq> None"
    "tool_execution_started (fst (observe e s)) \<longleftrightarrow> tool_execution_started (fst s) \<or> \<not> was_request e"
    "snd (observe e s) = snd s @ (case chosen e of None \<Rightarrow> [] | Some ns \<Rightarrow> ns)" for e s
    by (cases s; cases e; simp add: Let_def split: option.split)+
  show "provider_request_attempted (fst (fold observe es s)) \<longleftrightarrow>
     provider_request_attempted (fst s) \<or> list_ex was_request es"
    by (induction es arbitrary: s) (simp_all add: step)
  show "provider_response_received (fst (fold observe es s)) \<longleftrightarrow>
     provider_response_received (fst s) \<or> list_ex (\<lambda>e. chosen e \<noteq> None) es"
    by (induction es arbitrary: s) (simp_all add: step)
  show "tool_execution_started (fst (fold observe es s)) \<longleftrightarrow>
     tool_execution_started (fst s) \<or> list_ex (\<lambda>e. \<not> was_request e) es"
    by (induction es arbitrary: s) (simp_all add: step)
  show "snd (fold observe es s) = snd s @ concat (map (\<lambda>e. case chosen e of None \<Rightarrow> [] | Some ns \<Rightarrow> ns) es)"
    by (induction es arbitrary: s) (simp_all add: step)
qed

definition tools_chosen :: "observed list \<Rightarrow> string list" where
  "tools_chosen es = concat (map (\<lambda>e. case chosen e of None \<Rightarrow> [] | Some ns \<Rightarrow> ns) es)"

text \<open>
  A request counts exactly when the conversation ended by itself with a visible reply, the last tool the
  model chose is the expected one, and the last tool that ran to its end succeeded.
\<close>

definition last_result :: "observed list \<Rightarrow> bool" where
  "last_result es =
     last (False # concat (map (\<lambda>e. case e of Executed (Some ok) ms \<Rightarrow> [ok] | _ \<Rightarrow> []) es))"

lemma completed_snoc:
  "tool_execution_completed (fst (observe e s)) =
     (case e of Executed (Some ok) ms \<Rightarrow> ok | _ \<Rightarrow> tool_execution_completed (fst s))"
  by (cases s; cases e) (auto simp: Let_def split: option.split)

lemma last_result_snoc:
  "last_result (es @ [e]) = (case e of Executed (Some ok) ms \<Rightarrow> ok | _ \<Rightarrow> last_result es)"
  by (cases e) (auto simp: last_result_def split: option.split)

lemma completed_last: "tool_execution_completed (fst (fold observe es (fresh_trace, []))) = last_result es"
proof (induction es rule: rev_induct)
  case Nil
  show ?case by (simp add: last_result_def fresh_trace_def)
next
  case (snoc e es)
  then show ?case by (cases e) (auto simp: completed_snoc last_result_snoc split: option.split)
qed

lemma last_result_ran: "last_result es \<Longrightarrow> list_ex (\<lambda>e. \<not> was_request e) es"
proof (induction es rule: rev_induct)
  case (snoc e es)
  then show ?case by (cases e) (auto simp: last_result_snoc split: option.splits)
qed (simp add: last_result_def)

lemma request_succeeds:
  "succeeded (run_request B timeout (case', query, tool) i run) \<longleftrightarrow>
     ro_ending run = Finished \<and> ro_replies run \<noteq> [] \<and> strip (last (ro_replies run)) \<noteq> [] \<and>
     tools_chosen (ro_events run) \<noteq> [] \<and> last (tools_chosen (ro_events run)) = tool \<and>
     last_result (ro_events run)"
proof -
  obtain T tools where o: "fold observe (ro_events run) (fresh_trace, []) = (T, tools)" by fastforce
  note tr = observed_trace [of "ro_events run" "(fresh_trace, [])", unfolded o] and
    compl = completed_last [of "ro_events run", unfolded o]
  have tools: "tools = tools_chosen (ro_events run)" using tr(4) by (simp add: tools_chosen_def)
  have started: "tool_execution_started T" if "tool_execution_completed T"
  proof -
    have "last_result (ro_events run)" using that compl by simp
    then have "list_ex (\<lambda>e. \<not> was_request e) (ro_events run)" by (rule last_result_ran)
    then show ?thesis using tr(3) by simp
  qed
  have received: "provider_response_received T" "provider_request_attempted T" if "tools \<noteq> []"
  proof -
    from that obtain e ns where e: "e \<in> set (ro_events run)" "chosen e = Some ns"
      unfolding tools tools_chosen_def by (auto split: option.splits)
    have "was_request e" using e(2) by (cases e) simp_all
    with e tr(1,2) show "provider_response_received T" "provider_request_attempted T"
      by (auto simp: list_ex_iff)
  qed
  show ?thesis
  proof (cases "ro_ending run")
    case Finished
    have trace: "provider_request_attempted (T\<lparr>formatted_reply_generated := b\<rparr>) = provider_request_attempted T"
      "provider_response_received (T\<lparr>formatted_reply_generated := b\<rparr>) = provider_response_received T"
      "tool_execution_started (T\<lparr>formatted_reply_generated := b\<rparr>) = tool_execution_started T"
      "tool_execution_completed (T\<lparr>formatted_reply_generated := b\<rparr>) = tool_execution_completed T" for b
      by simp_all
    have "succeeded (run_request B timeout (case', query, tool) i run) \<longleftrightarrow>
        fst (judge (T\<lparr>formatted_reply_generated := (ro_replies run \<noteq> [] \<and> strip (last (ro_replies run)) \<noteq> [])\<rparr>)
               tools (ro_replies run \<noteq> [] \<and> strip (last (ro_replies run)) \<noteq> []) tool) = ''success''"
      using Finished o by (simp add: run_request_def succeeded_def Let_def split: prod.split)
    then show ?thesis
      using Finished started received compl tools unfolding judge_success trace by auto
  qed (use o in \<open>simp_all add: run_request_def succeeded_def Let_def\<close>)
qed

section \<open>The report\<close>

lemma dict_set_sum:
  "distinct (map fst d) \<Longrightarrow>
   sum_list (map snd (dict_set v (Suc (case map_of d v of None \<Rightarrow> 0 | Some n \<Rightarrow> n)) d)) = Suc (sum_list (map snd d))"
proof (induction d)
  case (Cons x d)
  obtain k n where x: "x = (k, n)" by fastforce
  show ?case
  proof (cases "k = v")
    case True
    then show ?thesis using x by simp
  next
    case False
    with Cons x show ?thesis by simp
  qed
qed simp

lemma counts_by_sum: "sum_list (map snd (counts_by f ms)) = length ms"
proof -
  let ?step = "\<lambda>m counts.
     let v = (case f m of None \<Rightarrow> ''unknown'' | Some s \<Rightarrow> if s = [] then ''unknown'' else s) in
     dict_set v (Suc (case map_of counts v of None \<Rightarrow> 0 | Some n \<Rightarrow> n)) counts"
  have "distinct (map fst (fold ?step ms c)) \<and> sum_list (map snd (fold ?step ms c)) = sum_list (map snd c) + length ms"
    if "distinct (map fst c)" for c
    using that
  proof (induction ms arbitrary: c)
    case (Cons m ms)
    have "distinct (map fst (?step m c))" using Cons.prems by (simp add: Let_def dict_set_distinct)
    from Cons.IH [OF this] dict_set_sum [OF Cons.prems] show ?case by (simp add: Let_def)
  qed simp
  from this [of "[]"] show ?thesis by (simp add: counts_by_def)
qed

lemma report_adds_up:
  "br_successful (aggregate ms) + br_failed (aggregate ms) = br_total (aggregate ms)"
  "sum_list (map snd (br_failure_stages (aggregate ms))) = br_failed (aggregate ms)"
proof -
  have "length (filter succeeded ms) + length (filter (\<lambda>m. \<not> succeeded m) ms) = length ms"
    using sum_length_filter_compl by blast
  then show "br_successful (aggregate ms) + br_failed (aggregate ms) = br_total (aggregate ms)"
    "sum_list (map snd (br_failure_stages (aggregate ms))) = br_failed (aggregate ms)"
    by (simp_all add: aggregate_def Let_def counts_by_sum)
qed

lemma safe_environment:
  "require_safe_environment B = Inr () \<longleftrightarrow>
     benchmark_allow_llm B \<and> lower (app_env B) \<notin> {''production'', ''prod''} \<and>
     test_db_url B = Some (database_url B) \<and> database_url B \<noteq> [] \<and> lower (bench_sender B) \<noteq> ''whatsapp'' \<and>
     (is_set (groq_key B) \<or> is_set (openrouter_key B))"
  by (auto simp: require_safe_environment_def is_set_def split: option.splits)

text \<open>No key of a provider is in the texts a measurement keeps of an exception.\<close>

lemma judged_keyless:
  assumes "judge T tools ready tool = (outcome, stage, category, Some t)"
  shows "keyless None t"
  using assms by (auto simp: judge_def intro!: signless_keyless split: if_splits)

lemma no_key_reported:
  assumes "m_error (run_request B timeout item i run) = Some t \<or> m_traceback (run_request B timeout item i run) = Some t"
  shows "keyless None t"
proof -
  obtain T tools where o: "fold observe (ro_events run) (fresh_trace, []) = (T, tools)" by fastforce
  show ?thesis
  proof (cases "ro_ending run")
    case Finished
    with assms o show ?thesis
      by (cases item) (auto simp: run_request_def Let_def intro: judged_keyless split: prod.splits)
  next
    case (Timed_Out msg)
    then have "\<exists>v. t = sanitize_text v" using assms o by (cases item) (auto simp: run_request_def Let_def)
    then show ?thesis using sanitized_keyless by blast
  next
    case (Failed cls msg tb)
    then have "\<exists>v. t = sanitize_text v" using assms o by (cases item) (auto simp: run_request_def Let_def split: if_splits)
    then show ?thesis using sanitized_keyless by blast
  qed
qed

section \<open>The fixture\<close>

lemma fixture_twice:
  assumes "prepare_fixture E w = (Inr (), w1)" "work w = durable w"
  shows "prepare_fixture E' w1 = (Inr (), w1)"
proof (cases "shop_by_phone BENCHMARK_PHONE (work w)")
  case (Some shop)
  then have "w1 = rollback w" using assms by (simp add: prepare_fixture_def get_db_def fixture_rows_def)
  then have "w1 = w" using assms(2) by (simp add: rollback_def)
  with Some assms(2) show ?thesis by (simp add: prepare_fixture_def get_db_def fixture_rows_def rollback_def)
next
  case None
  have shops: "shops (work w') = shops (work w)" if "bench_product E s a b c w = (Inr x, w')" for E s a b c x w w'
    using that by (auto simp: bench_product_def next_uuid_def insert_product_def and_then_def Let_def
        elim!: execute_cases split: prod.splits sum.splits)
  have shops2: "shops (work w') = shops (work w)" if "bench_stock E p q w = (Inr x, w')" for E p q x w w'
    using that by (auto simp: bench_stock_def next_uuid_def insert_inventory_def Let_def elim!: execute_cases)
  have shops3: "shops (work w') = shops (work w)" if "bench_sale E s p q w = (Inr x, w')" for E s p q x w w'
    using that by (auto simp: bench_sale_def next_uuid_def insert_sale_def Let_def elim!: execute_cases)
  have "\<exists>wf. w1 = rollback (commit wf) \<and>
      (\<exists>sh. sh_phone sh = BENCHMARK_PHONE \<and> shops (work wf) = shops (work w) @ [sh])"
  proof -
    obtain wz where wz: "fixture_rows E w = (Inr (), wz)" "w1 = rollback wz"
      using assms(1) by (auto simp: prepare_fixture_def get_db_def split: prod.splits)
    obtain u w0 where u: "next_uuid E w = (u, w0)" by fastforce
    define sh where "sh = \<lparr>sh_id = u, sh_phone = BENCHMARK_PHONE, sh_name = Some ''SokoFlow Benchmark'',
        sh_locale = ''en'', sh_created = now E\<rparr>"
    have "work w0 = work w" using u next_simps(1) [of E w] by simp
    then have ins: "shops (work v) = shops (work w) @ [sh]" if "insert_shop sh w0 = (Inr x, v)" for x v
      using that by (auto simp: insert_shop_def elim!: execute_cases)
    obtain v1 v2 v3 v4 v5 v6 v7 v8 v9 x1 x2 x3 x4 where chain: "insert_shop sh w0 = (Inr x1, v1)"
      "bench_product E u ''Sugar 1kg'' 15000 ''SUGAR'' v1 = (Inr x2, v2)"
      "bench_product E u ''Fresh Milk 500ml'' 6000 ''MILK'' v2 = (Inr x3, v3)"
      "bench_product E u ''Iodized Salt 500g'' 3500 ''SALT'' v3 = (Inr x4, v4)"
      "bench_stock E (p_id x2) 20 v4 = (Inr (), v5)" "bench_stock E (p_id x3) 2 v5 = (Inr (), v6)"
      "bench_stock E (p_id x4) 50 v6 = (Inr (), v7)" "bench_sale E u (p_id x2) 10 v7 = (Inr (), v8)"
      "bench_sale E u (p_id x2) 5 v8 = (Inr (), v9)" "wz = commit v9"
      using wz(1) None u
      by (simp add: fixture_rows_def and_then_Inr_iff Let_def flip: sh_def) blast
    from shops [OF chain(2)] shops [OF chain(3)] shops [OF chain(4)] shops2 [OF chain(5)] shops2 [OF chain(6)]
      shops2 [OF chain(7)] shops3 [OF chain(8)] shops3 [OF chain(9)] ins [OF chain(1)]
    have "shops (work v9) = shops (work w) @ [sh]" by simp
    then show ?thesis using wz(2) chain(10) by (intro exI [of _ v9] conjI exI [of _ sh]) (simp_all add: sh_def)
  qed
  then obtain wf sh where "w1 = rollback (commit wf)" "sh_phone sh = BENCHMARK_PHONE"
      "shops (work wf) = shops (work w) @ [sh]" by blast
  moreover have "find P (xs @ [y]) \<noteq> None" if "P y" for P xs and y :: shop_row
    using that by (simp add: find_None_iff_all)
  ultimately have "shop_by_phone BENCHMARK_PHONE (work w1) \<noteq> None" "work w1 = durable w1"
    by (simp_all add: shop_by_phone_def)
  then show ?thesis
    by (auto simp: prepare_fixture_def get_db_def fixture_rows_def rollback_def)
qed

end
