(* ===== verification/BenchRun.thy ===== *)
theory BenchRun
  imports Assembly Benchmark "HOL-Library.Multiset"
begin

text \<open>
  The run of \<open>tools/analytics_benchmark.py\<close>: the sender and the two observers are put in the place of
  the program's own, the warm-up and the measured requests follow one another, everything is put back,
  the connections are closed, and a complete run leaves a report in JSON and its measurements in CSV.
  Parameters: the conversation under measurement with its effect on the database and on Redis, the
  shuffle of a seed, the outcome of closing a connection and of writing a file, the clock's text and
  \<open>repr\<close> of a text. Percentiles are computed exactly and rounded to a double once.
\<close>

section \<open>The captured sender\<close>

definition capture_text :: "string \<Rightarrow> string \<Rightarrow> string list \<Rightarrow> string list" where
  "capture_text recipient message_text' replies = replies @ [message_text']"

definition capture_document :: "string \<Rightarrow> string \<Rightarrow> string \<Rightarrow> string option \<Rightarrow> string list \<Rightarrow> unit res \<times> string list" where
  "capture_document recipient document_bytes filename caption replies =
     (Inl (RuntimeError ''The analytics benchmark must not deliver documents.''), replies)"

section \<open>The files\<close>

text \<open>\<open>json.dumps(..., indent=2)\<close>.\<close>

definition new_line :: "nat \<Rightarrow> string" where
  "new_line depth = CHR 0x0A # replicate (2 * depth) (CHR '' '')"

definition in_lines :: "nat \<Rightarrow> char \<Rightarrow> char \<Rightarrow> string list \<Rightarrow> string" where
  "in_lines depth opening closing items =
     (if items = [] then [opening, closing]
      else [opening] @ new_line (Suc depth) @ str_join ('','' @ new_line (Suc depth)) items
             @ new_line depth @ [closing])"

fun dumps_indented :: "nat \<Rightarrow> json \<Rightarrow> string" where
  "dumps_indented depth (JArr js) = in_lines depth (CHR ''['') (CHR '']'') (map (dumps_indented (Suc depth)) js)"
| "dumps_indented depth (JObj d) =
     in_lines depth (CHR ''{'') (CHR ''}'')
       (map (\<lambda>(k, v). dumps_text k @ '': '' @ dumps_indented (Suc depth) v) d)"
| "dumps_indented depth j = json_dumps j"

record bench_env =
  be_settings :: bench_settings
  be_endpoint :: string
  be_model :: string
  be_timestamp :: string
  be_repr :: "string \<Rightarrow> string"
  be_shuffle :: "int \<Rightarrow> (string \<times> string \<times> string) list \<Rightarrow> (string \<times> string \<times> string) list"

definition json_number :: "rat option \<Rightarrow> json" where
  "json_number o' = (case o' of None \<Rightarrow> JNull | Some r \<Rightarrow> JNum (to_float r))"

definition json_count :: "nat \<Rightarrow> json" where
  "json_count n = JInt (int n)"

definition tool_json :: "tool_stats \<Rightarrow> json" where
  "tool_json t =
     JObj [(''requests'', json_count (ts_requests t)), (''successful'', json_count (ts_successful t)),
           (''p50_ms'', json_number (ts_p50 t)), (''p95_ms'', json_number (ts_p95 t)),
           (''valid_samples'', json_count (ts_successful t))]"

definition report_json :: "bench_env \<Rightarrow> bench_args \<Rightarrow> bench_report \<Rightarrow> json" where
  "report_json BE args r =
     JObj [(''timestamp_utc'', JStr (be_timestamp BE)),
           (''provider_endpoint'', JStr (be_endpoint BE)),
           (''model'', JStr (be_model BE)),
           (''real_dependencies'', JBool True),
           (''stubs_used'', JBool False),
           (''warmup_requests'', JInt (ba_warmup args)),
           (''total_attempted_requests'', json_count (br_total r)),
           (''measured_requests'', json_count (br_total r)),
           (''successful_requests'', json_count (br_successful r)),
           (''success_rate'', JNum (to_float (br_success_rate r))),
           (''failed_requests'', json_count (br_failed r)),
           (''wrong_tool_selections'', json_count (br_wrong_tool r)),
           (''timeouts'', json_count (br_timeouts r)),
           (''failure_stages'', JObj (map (\<lambda>(k, n). (k, json_count n)) (br_failure_stages r))),
           (''successful_response_p50_ms'', json_number (br_success_p50 r)),
           (''successful_response_p95_ms'', json_number (br_success_p95 r)),
           (''successful_response_max_ms'', json_number (br_success_max r)),
           (''successful_response_valid_samples'', json_count (br_successful r)),
           (''failed_request_p50_ms'', json_number (br_failed_p50 r)),
           (''failed_request_p95_ms'', json_number (br_failed_p95 r)),
           (''failed_request_max_ms'', json_number (br_failed_max r)),
           (''failed_request_samples'', json_count (br_failed r)),
           (''percentile_method'',
            JStr ''linear interpolation over sorted measured latencies (inclusive endpoints)''),
           (''measurement_boundary'',
            JStr (''conversation() entry through formatted reply handed to captured send_text; ''
                  @ ''excludes webhook HTTP parsing, Celery queue wait, and WhatsApp network delivery'')),
           (''per_tool'', JObj (map (\<lambda>(k, t). (k, tool_json t)) (br_per_tool r))),
           (''limitations'',
            JStr (''Small samples are diagnostic and are not statistically reliable ''
                  @ ''production p95 estimates.'')),
           (''valid_latency_result'', JBool (br_valid r)),
           (''successful_percentiles_note'',
            JStr (if \<not> br_valid r then ''No valid successful analytics responses were recorded.''
                  else ''Computed only from successful, validated analytics responses.''))]"

text \<open>\<open>csv\<close>'s default dialect: a field is quoted when it holds a separator, a quote or an end of line.\<close>

definition csv_special :: "char \<Rightarrow> bool" where
  "csv_special c \<longleftrightarrow> c \<in> {CHR '','', CHR 0x22, CHR 0x0A, CHR 0x0D}"

definition csv_field :: "string \<Rightarrow> string" where
  "csv_field s =
     (if list_ex csv_special s
      then [CHR 0x22] @ concat (map (\<lambda>c. if c = CHR 0x22 then [c, c] else [c]) s) @ [CHR 0x22]
      else s)"

definition csv_row :: "string list \<Rightarrow> string" where
  "csv_row cells = str_join '','' (map csv_field cells) @ [CHR 0x0D, CHR 0x0A]"

definition csv_columns :: "string list" where
  "csv_columns =
     [''index'', ''case'', ''query'', ''expected_tool'', ''selected_tools'', ''latency_ms'', ''outcome'',
      ''error_category'', ''error'', ''reply_ready'', ''provider_request_attempted'',
      ''provider_response_received'', ''tool_execution_started'', ''tool_execution_completed'',
      ''formatted_reply_generated'', ''failure_stage'', ''traceback'', ''provider_latency_ms'',
      ''tool_latency_ms'']"

definition text_or_empty :: "string option \<Rightarrow> string" where
  "text_or_empty o' = (case o' of None \<Rightarrow> [] | Some s \<Rightarrow> s)"

definition number_or_empty :: "rat option \<Rightarrow> string" where
  "number_or_empty o' = (case o' of None \<Rightarrow> [] | Some r \<Rightarrow> repr_float r)"

definition py_bool :: "bool \<Rightarrow> string" where
  "py_bool b = (if b then ''True'' else ''False'')"

definition csv_values :: "bench_env \<Rightarrow> measurement \<Rightarrow> string list" where
  "csv_values BE m =
     [str_nat (m_index m), m_case m, m_query m, m_expected_tool m,
      ''['' @ str_join '', '' (map (be_repr BE) (m_selected_tools m)) @ '']'', repr_float (m_latency m), m_outcome m,
      text_or_empty (m_error_category m), text_or_empty (m_error m), py_bool (m_reply_ready m),
      py_bool (provider_request_attempted (m_trace m)), py_bool (provider_response_received (m_trace m)),
      py_bool (tool_execution_started (m_trace m)), py_bool (tool_execution_completed (m_trace m)),
      py_bool (formatted_reply_generated (m_trace m)), text_or_empty (m_failure_stage m),
      text_or_empty (m_traceback m), number_or_empty (provider_latency (m_trace m)),
      number_or_empty (tool_latency (m_trace m))]"

definition measurements_csv :: "bench_env \<Rightarrow> measurement list \<Rightarrow> string" where
  "measurements_csv BE ms = csv_row csv_columns @ concat (map (\<lambda>m. csv_row (csv_values BE m)) ms)"

section \<open>The process under measurement\<close>

datatype binding = Original | Observing

text \<open>An exception, one of the operating system, or the cancellation that an interrupt of the user becomes.\<close>

datatype stop = Raised exc | OS_Error string | Cancelled

record bench_process =
  bp_world :: world
  bp_redis :: redis
  bp_script :: script
  bp_sender :: binding
  bp_generate :: binding
  bp_execute :: binding
  bp_disposed :: bool
  bp_closed :: bool
  bp_files :: "(string \<times> string) list"
  bp_printed :: "string list"

type_synonym 'a bench_step = "bench_process \<Rightarrow> (stop + 'a) \<times> bench_process"

text \<open>
  The conversation: what the observers see of it and what it leaves in the database and in Redis. It is
  cancelled when there is no run. A file system answers a directory and a file by an error or not.
\<close>

record bench_outside =
  bo_conversation :: "inbound_payload \<Rightarrow> world \<times> redis \<Rightarrow> run_of_request option \<times> world \<times> redis"
  bo_script_file :: "stop + string"
  bo_dispose :: "stop option"
  bo_close :: "stop option"
  bo_mkdir :: "string \<Rightarrow> stop option"
  bo_write :: "string \<Rightarrow> stop option"

definition failing :: "stop option \<Rightarrow> stop + unit" where
  "failing o' = (case o' of None \<Rightarrow> Inr () | Some e \<Rightarrow> Inl e)"

text \<open>\<open>try: body finally: last\<close>; an exception of the last part takes the place of the body's.\<close>

definition finally_do :: "'a bench_step \<Rightarrow> unit bench_step \<Rightarrow> 'a bench_step" where
  "finally_do body last' P =
     (let (r, P1) = body P; (r', P2) = last' P1 in
      case r' of Inl e \<Rightarrow> (Inl e, P2) | Inr _ \<Rightarrow> (r, P2))"

definition benchmark_payload :: "'z db_env_scheme \<Rightarrow> string \<Rightarrow> nat \<Rightarrow> world \<Rightarrow> inbound_payload \<times> world" where
  "benchmark_payload E query index w =
     (let (u, w1) = next_uuid E w; (v, w2) = next_uuid E w1 in
      (\<lparr>sender = BENCHMARK_PHONE, message_text = query,
        message_id = ''benchmark-'' @ uuid_str u @ ''-'' @ str_nat index, correlation_id = Some (uuid_str v)\<rparr>, w2))"

definition measured_request ::
  "'z db_env_scheme \<Rightarrow> bench_env \<Rightarrow> bench_outside \<Rightarrow> bench_args \<Rightarrow> string \<times> string \<times> string \<Rightarrow> nat \<Rightarrow> measurement bench_step" where
  "measured_request E BE O' args item index P =
     (let (pl, w) = benchmark_payload E (fst (snd item)) index (bp_world P);
          (run, w', r') = bo_conversation O' pl (w, bp_redis P);
          P' = P\<lparr>bp_world := w', bp_redis := r'\<rparr> in
      case run of
        None \<Rightarrow> (Inl Cancelled, P')
      | Some ro \<Rightarrow> (Inr (run_request (be_settings BE) (ba_timeout args) item index ro), P'))"

fun measured_requests ::
  "'z db_env_scheme \<Rightarrow> bench_env \<Rightarrow> bench_outside \<Rightarrow> bench_args \<Rightarrow> (string \<times> string \<times> string) list \<Rightarrow> nat list \<Rightarrow>
   measurement list bench_step" where
  "measured_requests E BE O' args queries [] P = (Inr [], P)"
| "measured_requests E BE O' args queries (i # is) P =
     and_then (measured_request E BE O' args (queries ! (i mod length queries)) i P) (\<lambda>m P1.
     and_then (measured_requests E BE O' args queries is P1) (\<lambda>ms P2. (Inr (m # ms), P2)))"

definition observed_run :: "'z db_env_scheme \<Rightarrow> bench_env \<Rightarrow> bench_outside \<Rightarrow> bench_args \<Rightarrow> measurement list bench_step" where
  "observed_run E BE O' args P =
     and_then (measured_requests E BE O' args DEFAULT_QUERIES [0..<nat (ba_warmup args)] P) (\<lambda>_ P1.
     measured_requests E BE O' args (be_shuffle BE (ba_seed args) DEFAULT_QUERIES) [0..<nat (ba_requests args)] P1)"

definition cleanup_resources :: "bench_outside \<Rightarrow> unit bench_step" where
  "cleanup_resources O' =
     finally_do (\<lambda>P. (failing (bo_dispose O'), P\<lparr>bp_disposed := True\<rparr>))
       (\<lambda>P. (failing (bo_close O'), P\<lparr>bp_closed := True\<rparr>))"

definition reset_benchmark_session :: "unit bench_step" where
  "reset_benchmark_session P = (Inr (), P\<lparr>bp_redis := snd (delete_session BENCHMARK_PHONE (bp_redis P))\<rparr>)"

text \<open>The three bindings are replaced, and put back however the requests end.\<close>

definition patched_run :: "'z db_env_scheme \<Rightarrow> bench_env \<Rightarrow> bench_outside \<Rightarrow> bench_args \<Rightarrow> measurement list bench_step" where
  "patched_run E BE O' args P =
     finally_do (observed_run E BE O' args)
       (\<lambda>P1. (Inr (), P1\<lparr>bp_sender := bp_sender P, bp_generate := bp_generate P, bp_execute := bp_execute P\<rparr>))
       (P\<lparr>bp_sender := Observing, bp_generate := Observing, bp_execute := Observing\<rparr>)"

definition prepared_run :: "'z db_env_scheme \<Rightarrow> bench_env \<Rightarrow> bench_outside \<Rightarrow> bench_args \<Rightarrow> measurement list bench_step" where
  "prepared_run E BE O' args P =
     (case prepare_fixture E (bp_world P) of
        (Inl e, w) \<Rightarrow> (Inl (Raised e), P\<lparr>bp_world := w\<rparr>)
      | (Inr _, w) \<Rightarrow>
          (case register_session_update_script (bo_script_file O') (bp_script P) of
             (Inl e, sc) \<Rightarrow> (Inl e, P\<lparr>bp_world := w, bp_script := sc\<rparr>)
           | (Inr _, sc) \<Rightarrow>
               and_then (reset_benchmark_session (P\<lparr>bp_world := w, bp_script := sc\<rparr>)) (\<lambda>_ P1.
                 patched_run E BE O' args P1)))"

text \<open>The outer \<open>try\<close>.\<close>

definition cleaned_run :: "'z db_env_scheme \<Rightarrow> bench_env \<Rightarrow> bench_outside \<Rightarrow> bench_args \<Rightarrow> measurement list bench_step" where
  "cleaned_run E BE O' args = finally_do (prepared_run E BE O' args) (cleanup_resources O')"

definition write_file :: "bench_outside \<Rightarrow> string \<Rightarrow> string \<Rightarrow> unit bench_step" where
  "write_file O' path text' P =
     (case bo_write O' path of
        Some e \<Rightarrow> (Inl e, P)
      | None \<Rightarrow> (Inr (), P\<lparr>bp_files := dict_set path text' (bp_files P)\<rparr>))"

definition write_outputs :: "bench_env \<Rightarrow> bench_outside \<Rightarrow> string \<Rightarrow> json \<Rightarrow> measurement list \<Rightarrow> unit bench_step" where
  "write_outputs BE O' output_dir bench_json ms P =
     (case bo_mkdir O' output_dir of
        Some e \<Rightarrow> (Inl e, P)
      | None \<Rightarrow>
          and_then (write_file O' (output_dir @ ''/analytics-benchmark-report.json'')
                      (dumps_indented 0 bench_json @ [CHR 0x0A]) P) (\<lambda>_ P1.
          write_file O' (output_dir @ ''/analytics-benchmark-measurements.csv'') (measurements_csv BE ms) P1))"

definition benchmark :: "'z db_env_scheme \<Rightarrow> bench_env \<Rightarrow> bench_outside \<Rightarrow> bench_args \<Rightarrow> int bench_step" where
  "benchmark E BE O' args P =
     (case require_safe_environment (be_settings BE) of
        Inl e \<Rightarrow> (Inl (Raised e), P)
      | Inr _ \<Rightarrow>
          and_then (cleaned_run E BE O' args P) (\<lambda>ms P1.
            let bench_json = report_json BE args (aggregate ms) in
            and_then (write_outputs BE O' (ba_output_dir args) bench_json ms P1) (\<lambda>_ P2.
              (Inr (exit_code ms), P2\<lparr>bp_printed := bp_printed P2 @ [dumps_indented 0 bench_json]\<rparr>))))"

text \<open>\<open>main\<close>: \<open>parser.error\<close> exits with 2, as do a refusal and an error of the operating system.\<close>

definition bench_main :: "'z db_env_scheme \<Rightarrow> bench_env \<Rightarrow> bench_outside \<Rightarrow> bench_args \<Rightarrow> int bench_step" where
  "bench_main E BE O' args P =
     (if \<not> arguments_ok args then (Inr 2, P)
      else case benchmark E BE O' args P of
        (Inl (Raised (RuntimeError m)), P1) \<Rightarrow> (Inr 2, P1)
      | (Inl (OS_Error m), P1) \<Rightarrow> (Inr 2, P1)
      | (r, P1) \<Rightarrow> (r, P1))"

section \<open>However it ends, nothing stays patched and nothing stays open\<close>

lemma finally_state: "snd (finally_do body last' P) = snd (last' (snd (body P)))"
  by (simp add: finally_do_def Let_def split: prod.split sum.split)

lemma measured_request_state:
  "\<exists>w r. snd (measured_request E BE O' args item i P) = P\<lparr>bp_world := w, bp_redis := r\<rparr>"
  by (auto simp: measured_request_def Let_def split: prod.splits option.splits)

lemma measured_requests_state:
  "\<exists>w r. snd (measured_requests E BE O' args queries is P) = P\<lparr>bp_world := w, bp_redis := r\<rparr>"
proof (induction "is" arbitrary: P)
  case Nil
  have "snd (measured_requests E BE O' args queries [] P) = P\<lparr>bp_world := bp_world P, bp_redis := bp_redis P\<rparr>" by simp
  then show ?case by blast
next
  case (Cons i "is")
  obtain x P1 where m: "measured_request E BE O' args (queries ! (i mod length queries)) i P = (x, P1)" by fastforce
  obtain w r where P1: "P1 = P\<lparr>bp_world := w, bp_redis := r\<rparr>"
    using measured_request_state [of E BE O' args _ i P] m by (metis snd_conv)
  obtain y P2 where ms: "measured_requests E BE O' args queries is P1 = (y, P2)" by fastforce
  obtain w' r' where P2: "P2 = P1\<lparr>bp_world := w', bp_redis := r'\<rparr>" using Cons.IH [of P1] ms by auto
  have "P2 = P\<lparr>bp_world := w', bp_redis := r'\<rparr>" using P1 P2 by simp
  note P2' = this
  show ?case
  proof (cases x)
    case Inl
    then show ?thesis using P1 by (auto simp: m)
  next
    case Inr
    then have "snd (measured_requests E BE O' args queries (i # is) P) = P2" by (cases y) (simp_all add: m ms)
    then show ?thesis using P2' by blast
  qed
qed

lemma observed_run_state:
  "\<exists>w r. snd (observed_run E BE O' args P) = P\<lparr>bp_world := w, bp_redis := r\<rparr>"
proof -
  obtain x P1 where warm: "measured_requests E BE O' args DEFAULT_QUERIES [0..<nat (ba_warmup args)] P = (x, P1)" by fastforce
  obtain w r where P1: "P1 = P\<lparr>bp_world := w, bp_redis := r\<rparr>"
    using measured_requests_state [of E BE O' args DEFAULT_QUERIES _ P] warm by (metis snd_conv)
  have "\<exists>w r. snd (measured_requests E BE O' args qs is P1) = P1\<lparr>bp_world := w, bp_redis := r\<rparr>" for qs "is"
    by (rule measured_requests_state)
  then show ?thesis using P1 by (cases x) (fastforce simp: observed_run_def warm)+
qed

text \<open>What a run may change: the database, Redis, the script it registers.\<close>

definition unpatched :: "bench_process \<Rightarrow> binding \<times> binding \<times> binding" where
  "unpatched P = (bp_sender P, bp_generate P, bp_execute P)"

lemma unpatched_others [simp]:
  "unpatched (P\<lparr>bp_world := w\<rparr>) = unpatched P" "unpatched (P\<lparr>bp_redis := r\<rparr>) = unpatched P"
  "unpatched (P\<lparr>bp_script := sc\<rparr>) = unpatched P" "unpatched (P\<lparr>bp_disposed := b\<rparr>) = unpatched P"
  "unpatched (P\<lparr>bp_closed := b\<rparr>) = unpatched P" "unpatched (P\<lparr>bp_files := fs\<rparr>) = unpatched P"
  "unpatched (P\<lparr>bp_printed := ts\<rparr>) = unpatched P"
  by (simp_all add: unpatched_def)

lemma patched_run_kept:
  "unpatched (snd (patched_run E BE O' args P)) = unpatched P"
  "bp_files (snd (patched_run E BE O' args P)) = bp_files P"
  using observed_run_state [of E BE O' args "P\<lparr>bp_sender := Observing, bp_generate := Observing, bp_execute := Observing\<rparr>"]
  by (auto simp: patched_run_def finally_state unpatched_def)

lemma prepared_run_kept:
  "unpatched (snd (prepared_run E BE O' args P)) = unpatched P"
  "bp_files (snd (prepared_run E BE O' args P)) = bp_files P"
  by (simp_all add: prepared_run_def reset_benchmark_session_def patched_run_kept split: prod.split sum.split)

lemma cleanup_state:
  "snd (cleanup_resources O' P) = P\<lparr>bp_disposed := True, bp_closed := True\<rparr>"
  by (simp add: cleanup_resources_def finally_state)

lemma cleaned_run_kept:
  "unpatched (snd (cleaned_run E BE O' args P)) = unpatched P"
  "bp_files (snd (cleaned_run E BE O' args P)) = bp_files P"
  "bp_disposed (snd (cleaned_run E BE O' args P))" "bp_closed (snd (cleaned_run E BE O' args P))"
  using prepared_run_kept [of E BE O' args P]
  by (simp_all add: cleaned_run_def finally_state cleanup_state)

lemma write_outputs_kept:
  "unpatched (snd (write_outputs BE O' d bench_json ms P)) = unpatched P"
  "bp_disposed (snd (write_outputs BE O' d bench_json ms P)) = bp_disposed P"
  "bp_closed (snd (write_outputs BE O' d bench_json ms P)) = bp_closed P"
  by (auto simp: write_outputs_def write_file_def unpatched_def and_then_def split: prod.splits sum.splits option.splits)

lemma benchmark_cases:
  assumes "require_safe_environment (be_settings BE) = Inr ()"
  obtains e P1 where "cleaned_run E BE O' args P = (Inl e, P1)" "benchmark E BE O' args P = (Inl e, P1)"
  | ms P1 e P2 where "cleaned_run E BE O' args P = (Inr ms, P1)"
      "write_outputs BE O' (ba_output_dir args) (report_json BE args (aggregate ms)) ms P1 = (Inl e, P2)"
      "benchmark E BE O' args P = (Inl e, P2)"
  | ms P1 P2 where "cleaned_run E BE O' args P = (Inr ms, P1)"
      "write_outputs BE O' (ba_output_dir args) (report_json BE args (aggregate ms)) ms P1 = (Inr (), P2)"
      "benchmark E BE O' args P =
         (Inr (exit_code ms), P2\<lparr>bp_printed := bp_printed P2 @ [dumps_indented 0 (report_json BE args (aggregate ms))]\<rparr>)"
proof -
  have b: "benchmark E BE O' args P =
      and_then (cleaned_run E BE O' args P) (\<lambda>ms P1.
        and_then (write_outputs BE O' (ba_output_dir args) (report_json BE args (aggregate ms)) ms P1) (\<lambda>_ P2.
          (Inr (exit_code ms), P2\<lparr>bp_printed := bp_printed P2 @ [dumps_indented 0 (report_json BE args (aggregate ms))]\<rparr>)))"
    using assms by (simp add: benchmark_def Let_def)
  show thesis
  proof (cases "cleaned_run E BE O' args P")
    case (Pair x P1)
    then show thesis
    proof (cases x)
      case (Inl e)
      with Pair b that(1) show thesis by simp
    next
      case (Inr ms)
      obtain y P2 where w: "write_outputs BE O' (ba_output_dir args) (report_json BE args (aggregate ms)) ms P1 = (y, P2)"
        by fastforce
      with Pair Inr b that(2,3) show thesis by (cases y) simp_all
    qed
  qed
qed

lemma benchmark_kept:
  assumes "require_safe_environment (be_settings BE) = Inr ()"
  shows "unpatched (snd (benchmark E BE O' args P)) = unpatched P"
    "bp_disposed (snd (benchmark E BE O' args P))" "bp_closed (snd (benchmark E BE O' args P))"
proof -
  note cleaned = cleaned_run_kept [of E BE O' args P] and
    written = write_outputs_kept [of BE O' "ba_output_dir args"]
  have "unpatched (snd (benchmark E BE O' args P)) = unpatched P \<and>
    bp_disposed (snd (benchmark E BE O' args P)) \<and> bp_closed (snd (benchmark E BE O' args P))"
  proof (cases rule: benchmark_cases [OF assms, of E O' args P])
    case (1 e P1)
    with cleaned show ?thesis by simp
  next
    case (2 ms P1 e P2)
    with cleaned written [of "report_json BE args (aggregate ms)" ms P1] show ?thesis by simp
  next
    case (3 ms P1 P2)
    with cleaned written [of "report_json BE args (aggregate ms)" ms P1] show ?thesis by simp
  qed
  then show "unpatched (snd (benchmark E BE O' args P)) = unpatched P"
    "bp_disposed (snd (benchmark E BE O' args P))" "bp_closed (snd (benchmark E BE O' args P))" by auto
qed

text \<open>\<open>main\<close> leaves what \<open>_benchmark\<close> leaves.\<close>

lemma bench_main_state:
  "snd (bench_main E BE O' args P) = (if arguments_ok args then snd (benchmark E BE O' args P) else P)"
  by (auto simp: bench_main_def split: prod.split sum.split stop.split exc.split)

text \<open>The process uses its own sender, client and executor afterwards, and its connections are closed.\<close>

lemma bench_restores: "unpatched (snd (bench_main E BE O' args P)) = unpatched P"
proof (cases "require_safe_environment (be_settings BE)")
  case (Inl e)
  then show ?thesis by (simp add: bench_main_state benchmark_def)
next
  case (Inr u)
  then show ?thesis using benchmark_kept(1) [of BE E O' args P] by (simp add: bench_main_state)
qed

lemma bench_closes:
  assumes "arguments_ok args" "require_safe_environment (be_settings BE) = Inr ()"
  shows "bp_disposed (snd (bench_main E BE O' args P)) \<and> bp_closed (snd (bench_main E BE O' args P))"
  using assms benchmark_kept(2,3) [OF assms(2), of E O' args P] by (simp add: bench_main_state)

section \<open>What a run measures\<close>

lemma run_request_item:
  "(m_case (run_request B t item i ro), m_query (run_request B t item i ro),
    m_expected_tool (run_request B t item i ro), m_index (run_request B t item i ro)) = (fst item, fst (snd item), snd (snd item), i)"
  by (cases item) (simp add: run_request_def Let_def split: prod.split ending.split)

definition item_of :: "measurement \<Rightarrow> string \<times> string \<times> string" where
  "item_of m = (m_case m, m_query m, m_expected_tool m)"

lemma measured_items:
  assumes "measured_requests E BE O' args queries is P = (Inr ms, P')"
  shows "map item_of ms = map (\<lambda>i. queries ! (i mod length queries)) is \<and> map m_index ms = is"
  using assms
proof (induction "is" arbitrary: P P' ms)
  case (Cons i "is")
  from Cons.prems obtain m P1 ms' P2 where
    m: "measured_request E BE O' args (queries ! (i mod length queries)) i P = (Inr m, P1)" and
    rest: "measured_requests E BE O' args queries is P1 = (Inr ms', P2)" and ms: "ms = m # ms'"
    by (auto simp: and_then_Inr_iff)
  obtain ro where "m = run_request (be_settings BE) (ba_timeout args) (queries ! (i mod length queries)) i ro"
    using m by (auto simp: measured_request_def Let_def split: prod.splits option.splits)
  with run_request_item [of "be_settings BE" "ba_timeout args" "queries ! (i mod length queries)" i ro]
  show ?case using Cons.IH [OF rest] ms by (simp add: item_of_def)
qed simp

lemma round_robin: "map (\<lambda>i. xs ! (i mod length xs)) [0..<k * length xs] = concat (replicate k xs)"
proof (induction k)
  case (Suc k)
  have split: "[0..<Suc k * length xs] = [0..<k * length xs] @ map (\<lambda>i. k * length xs + i) [0..<length xs]"
    using upt_add_eq_append [of 0 "k * length xs" "length xs"] map_add_upt [of "k * length xs" "length xs"]
    by (simp add: add.commute [of _ "k * length xs"] add.commute [of "length xs"] flip: map_add_upt)
  have "map (\<lambda>i. xs ! ((k * length xs + i) mod length xs)) [0..<length xs] = map (nth xs) [0..<length xs]"
    by (rule map_cong) simp_all
  then have "map (\<lambda>i. xs ! ((k * length xs + i) mod length xs)) [0..<length xs] = xs" by (simp only: map_nth)
  moreover have "concat (replicate (Suc k) xs) = concat (replicate k xs) @ xs"
    by (simp only: replicate_Suc concat.simps) (induction k, simp_all)
  ultimately show ?case unfolding split map_append Suc.IH [symmetric] by (simp add: o_def)
qed simp

text \<open>A finished preparation has measured every request.\<close>

lemma cleaned_run_items:
  assumes "cleaned_run E BE O' args P = (Inr ms, P')"
  shows "map item_of ms =
      map (\<lambda>i. be_shuffle BE (ba_seed args) DEFAULT_QUERIES ! (i mod length (be_shuffle BE (ba_seed args) DEFAULT_QUERIES)))
        [0..<nat (ba_requests args)] \<and> map m_index ms = [0..<nat (ba_requests args)]"
proof -
  obtain P1 P2 where p: "patched_run E BE O' args P1 = (Inr ms, P2)"
    using assms by (auto simp: cleaned_run_def finally_do_def prepared_run_def reset_benchmark_session_def Let_def
        split: prod.splits sum.splits)
  then obtain P3 P4 where o: "observed_run E BE O' args P3 = (Inr ms, P4)"
    by (auto simp: patched_run_def finally_do_def Let_def split: prod.splits sum.splits)
  then obtain P5 P6 where "measured_requests E BE O' args (be_shuffle BE (ba_seed args) DEFAULT_QUERIES)
      [0..<nat (ba_requests args)] P5 = (Inr ms, P6)"
    by (auto simp: observed_run_def and_then_Inr_iff)
  then show ?thesis by (rule measured_items)
qed

text \<open>A multiple of seven requests asks every question equally often, whatever the seed.\<close>

lemma equally_often:
  assumes "cleaned_run E BE O' args P = (Inr ms, P')" "ba_requests args = 7 * int k"
    "mset (be_shuffle BE (ba_seed args) DEFAULT_QUERIES) = mset DEFAULT_QUERIES"
  shows "mset (map item_of ms) = repeat_mset k (mset DEFAULT_QUERIES)"
proof -
  let ?qs = "be_shuffle BE (ba_seed args) DEFAULT_QUERIES"
  have "length ?qs = 7" using arg_cong [OF assms(3), of size] by (simp add: DEFAULT_QUERIES_def)
  then have "map item_of ms = concat (replicate k ?qs)"
    using cleaned_run_items [OF assms(1)] assms(2) round_robin [of ?qs k] by (simp add: nat_mult_distrib mult.commute)
  moreover have "mset (concat (replicate k ?qs)) = repeat_mset k (mset ?qs)"
    by (induction k) simp_all
  ultimately show ?thesis using assms(3) by simp
qed

section \<open>What a run leaves\<close>

text \<open>
  Files appear only after a complete run, and a run that returns has written the report of exactly the
  measurements its exit code counts.
\<close>

lemma no_files_before_the_end:
  assumes "bp_files (snd (bench_main E BE O' args P)) \<noteq> bp_files P"
  shows "\<exists>ms P1. cleaned_run E BE O' args P = (Inr ms, P1) \<and> map m_index ms = [0..<nat (ba_requests args)]"
proof -
  have ok: "arguments_ok args" "require_safe_environment (be_settings BE) = Inr ()"
    using assms by (auto simp: bench_main_state benchmark_def split: if_splits sum.splits)
  show ?thesis
  proof (cases rule: benchmark_cases [OF ok(2), of E O' args P])
    case (1 e P1)
    then have False using assms ok cleaned_run_kept(2) [of E BE O' args P] by (simp add: bench_main_state)
    then show ?thesis ..
  next
    case (2 ms P1 e P2)
    then show ?thesis using cleaned_run_items by blast
  next
    case (3 ms P1 P2)
    then show ?thesis using cleaned_run_items by blast
  qed
qed

lemma dict_set_lookup: "map_of (dict_set k v d) = (map_of d)(k \<mapsto> v)"
proof (induction d)
  case (Cons x d)
  then show ?case by (cases x) auto
qed simp

lemma benchmark_returns:
  assumes "benchmark E BE O' args P = (Inr ec, P')"
  obtains ms P1 where "cleaned_run E BE O' args P = (Inr ms, P1)" "ec = exit_code ms"
    "map_of (bp_files P') (ba_output_dir args @ ''/analytics-benchmark-report.json'') =
       Some (dumps_indented 0 (report_json BE args (aggregate ms)) @ [CHR 0x0A])"
    "map_of (bp_files P') (ba_output_dir args @ ''/analytics-benchmark-measurements.csv'') = Some (measurements_csv BE ms)"
proof -
  have ok: "require_safe_environment (be_settings BE) = Inr ()"
    using assms by (auto simp: benchmark_def split: sum.splits)
  show thesis
  proof (cases rule: benchmark_cases [OF ok, of E O' args P])
    case (3 ms P1 P2)
    have "bp_files P2 = dict_set (ba_output_dir args @ ''/analytics-benchmark-measurements.csv'') (measurements_csv BE ms)
        (dict_set (ba_output_dir args @ ''/analytics-benchmark-report.json'')
           (dumps_indented 0 (report_json BE args (aggregate ms)) @ [CHR 0x0A]) (bp_files P1))"
      using 3(2) by (auto simp: write_outputs_def write_file_def split: option.splits)
    with 3 assms show thesis by (intro that [OF 3(1)]) (auto simp: dict_set_lookup)
  qed (use assms in simp_all)
qed

text \<open>The exit code is 0 exactly when the run was allowed, came to its end and every measured request counted.\<close>

lemma bench_main_zero:
  assumes "fst (bench_main E BE O' args P) = Inr 0"
  shows "arguments_ok args \<and> require_safe_environment (be_settings BE) = Inr () \<and>
    (\<exists>ms P1. cleaned_run E BE O' args P = (Inr ms, P1) \<and> length ms = nat (ba_requests args) \<and>
       (\<forall>m \<in> set ms. succeeded m) \<and>
       map_of (bp_files (snd (bench_main E BE O' args P))) (ba_output_dir args @ ''/analytics-benchmark-measurements.csv'') =
         Some (measurements_csv BE ms))"
proof -
  obtain P' where b: "benchmark E BE O' args P = (Inr 0, P')" and a: "arguments_ok args"
    using assms by (auto simp: bench_main_def split: if_splits prod.splits sum.splits stop.splits exc.splits)
  from b obtain ms P1 where ms: "cleaned_run E BE O' args P = (Inr ms, P1)" "0 = exit_code ms"
      "map_of (bp_files P') (ba_output_dir args @ ''/analytics-benchmark-measurements.csv'') = Some (measurements_csv BE ms)"
    by (rule benchmark_returns)
  have "require_safe_environment (be_settings BE) = Inr ()"
    using b by (auto simp: benchmark_def split: sum.splits)
  moreover have "length ms = nat (ba_requests args)"
    using cleaned_run_items [OF ms(1)] by (metis length_map length_upt diff_zero)
  ultimately show ?thesis
    using a b ms by (auto simp: exit_code_def list_all_iff bench_main_state split: if_splits)
qed

text \<open>A run does return 0: nothing else is asked of the outside than that it lets the files be written.\<close>

lemma bench_main_succeeds:
  assumes "arguments_ok args" "require_safe_environment (be_settings BE) = Inr ()"
    "cleaned_run E BE O' args P = (Inr ms, P1)" "\<forall>m \<in> set ms. succeeded m"
    "bo_mkdir O' (ba_output_dir args) = None" "\<And>path. bo_write O' path = None"
  shows "fst (bench_main E BE O' args P) = Inr 0"
proof -
  obtain P2 where "write_outputs BE O' (ba_output_dir args) (report_json BE args (aggregate ms)) ms P1 = (Inr (), P2)"
    using assms(5,6) by (simp add: write_outputs_def write_file_def)
  with assms(2,3) have "fst (benchmark E BE O' args P) = Inr (exit_code ms)"
    by (simp add: benchmark_def Let_def)
  moreover have "exit_code ms = 0" using assms(4) by (simp add: exit_code_def list_all_iff)
  ultimately show ?thesis
    using assms(1) by (cases "benchmark E BE O' args P") (auto simp: bench_main_def split: sum.split)
qed

section \<open>The measurements are read back\<close>

text \<open>A reader of the default dialect.\<close>

datatype csv_mode = In_Field | In_Quotes | After_Quote | After_Return

record csv_reader =
  cr_rows :: "string list list"
  cr_row :: "string list"
  cr_cell :: string
  cr_mode :: csv_mode

definition csv_start :: csv_reader where
  "csv_start = \<lparr>cr_rows = [], cr_row = [], cr_cell = [], cr_mode = In_Field\<rparr>"

definition end_cell :: "csv_reader \<Rightarrow> csv_reader" where
  "end_cell R = R\<lparr>cr_row := cr_row R @ [cr_cell R], cr_cell := [], cr_mode := In_Field\<rparr>"

definition end_row :: "csv_reader \<Rightarrow> csv_reader" where
  "end_row R = (let R' = end_cell R in R'\<lparr>cr_rows := cr_rows R' @ [cr_row R'], cr_row := []\<rparr>)"

definition csv_char :: "char \<Rightarrow> csv_reader \<Rightarrow> csv_reader" where
  "csv_char c R =
     (if cr_mode R = In_Quotes
      then (if c = CHR 0x22 then R\<lparr>cr_mode := After_Quote\<rparr> else R\<lparr>cr_cell := cr_cell R @ [c]\<rparr>)
      else if cr_mode R = After_Quote \<and> c = CHR 0x22 then R\<lparr>cr_cell := cr_cell R @ [c], cr_mode := In_Quotes\<rparr>
      else if cr_mode R = After_Return \<and> c = CHR 0x0A then R\<lparr>cr_mode := In_Field\<rparr>
      else if c = CHR '','' then end_cell R
      else if c = CHR 0x0D then (end_row R)\<lparr>cr_mode := After_Return\<rparr>
      else if c = CHR 0x0A then end_row R
      else if c = CHR 0x22 \<and> cr_cell R = [] then R\<lparr>cr_mode := In_Quotes\<rparr>
      else R\<lparr>cr_cell := cr_cell R @ [c], cr_mode := In_Field\<rparr>)"

definition csv_read :: "string \<Rightarrow> string list list" where
  "csv_read text' =
     (let R = fold csv_char text' csv_start in
      cr_rows R @ (if cr_row R = [] \<and> cr_cell R = [] then [] else [cr_row R @ [cr_cell R]]))"

lemma read_plain:
  assumes "\<not> list_ex csv_special s" "cr_mode R = In_Field"
  shows "fold csv_char s R = R\<lparr>cr_cell := cr_cell R @ s\<rparr>"
  using assms
proof (induction s arbitrary: R)
  case (Cons c s)
  then have "csv_char c R = R\<lparr>cr_cell := cr_cell R @ [c]\<rparr>" by (auto simp: csv_char_def csv_special_def)
  with Cons show ?case by simp
qed simp

lemma read_quoted:
  assumes "cr_mode R = In_Quotes"
  shows "fold csv_char (concat (map (\<lambda>c. if c = CHR 0x22 then [c, c] else [c]) s)) R = R\<lparr>cr_cell := cr_cell R @ s\<rparr>"
  using assms
proof (induction s arbitrary: R)
  case (Cons c s)
  have step: "fold csv_char (if c = CHR 0x22 then [c, c] else [c]) R = R\<lparr>cr_cell := cr_cell R @ [c]\<rparr>"
    using Cons.prems by (simp add: csv_char_def)
  show ?case using Cons.IH [of "R\<lparr>cr_cell := cr_cell R @ [c]\<rparr>"] Cons.prems step by simp
qed simp

text \<open>A field followed by a separator or an end of line.\<close>

lemma read_field:
  assumes "cr_mode R = In_Field" "cr_cell R = []"
  shows "\<exists>mode. mode \<in> {In_Field, After_Quote} \<and> fold csv_char (csv_field s) R = R\<lparr>cr_cell := s, cr_mode := mode\<rparr>"
proof (cases "list_ex csv_special s")
  case True
  have "fold csv_char (csv_field s) R = R\<lparr>cr_cell := s, cr_mode := After_Quote\<rparr>"
    using True assms read_quoted [of "R\<lparr>cr_mode := In_Quotes\<rparr>" s]
    by (simp add: csv_field_def csv_char_def)
  then show ?thesis by blast
next
  case False
  have "fold csv_char (csv_field s) R = R\<lparr>cr_cell := s, cr_mode := In_Field\<rparr>"
    using False assms read_plain [OF False assms(1)] by (simp add: csv_field_def)
  then show ?thesis by blast
qed

lemma after_field:
  assumes "mode \<in> {In_Field, After_Quote}"
  shows "csv_char (CHR '','') (R\<lparr>cr_cell := s, cr_mode := mode\<rparr>) = R\<lparr>cr_row := cr_row R @ [s], cr_cell := [], cr_mode := In_Field\<rparr>"
    "fold csv_char [CHR 0x0D, CHR 0x0A] (R\<lparr>cr_cell := s, cr_mode := mode\<rparr>) =
       R\<lparr>cr_rows := cr_rows R @ [cr_row R @ [s]], cr_row := [], cr_cell := [], cr_mode := In_Field\<rparr>"
  using assms by (auto simp: csv_char_def end_cell_def end_row_def)

lemma read_cells:
  assumes "cells \<noteq> []" "cr_mode R = In_Field" "cr_cell R = []"
  shows "fold csv_char (csv_row cells) R = R\<lparr>cr_rows := cr_rows R @ [cr_row R @ cells], cr_row := []\<rparr>"
  using assms
proof (induction cells arbitrary: R)
  case (Cons s cells)
  obtain mode where mode: "mode \<in> {In_Field, After_Quote}"
    "fold csv_char (csv_field s) R = R\<lparr>cr_cell := s, cr_mode := mode\<rparr>"
    using read_field [OF Cons.prems(2,3)] by blast
  show ?case
  proof (cases cells)
    case Nil
    have "csv_row [s] = csv_field s @ [CHR 0x0D, CHR 0x0A]" by (simp add: csv_row_def str_join_def)
    then show ?thesis using Nil mode after_field(2) [OF mode(1), where R = R and s = s] Cons.prems by simp
  next
    case rest: (Cons t rest)
    have "csv_row (s # cells) = csv_field s @ CHR '','' # csv_row cells" by (simp add: csv_row_def str_join_Cons rest)
    then show ?thesis
      using mode after_field(1) [OF mode(1), where R = R and s = s] Cons.IH
        [of "R\<lparr>cr_row := cr_row R @ [s], cr_cell := [], cr_mode := In_Field\<rparr>"] Cons.prems rest by simp
  qed
qed simp

lemma read_rows:
  assumes "\<forall>cells \<in> set rows. cells \<noteq> []"
  shows "fold csv_char (concat (map csv_row rows)) (csv_start\<lparr>cr_rows := done'\<rparr>) = csv_start\<lparr>cr_rows := done' @ rows\<rparr>"
  using assms
proof (induction rows arbitrary: done')
  case (Cons cells rows)
  have "fold csv_char (csv_row cells) (csv_start\<lparr>cr_rows := done'\<rparr>) = csv_start\<lparr>cr_rows := done' @ [cells]\<rparr>"
    using read_cells [of cells "csv_start\<lparr>cr_rows := done'\<rparr>"] Cons.prems by (simp add: csv_start_def)
  with Cons show ?case by simp
qed simp

lemma csv_round_trip:
  assumes "\<forall>cells \<in> set rows. cells \<noteq> []"
  shows "csv_read (concat (map csv_row rows)) = rows"
  using read_rows [OF assms, of "[]"] by (simp add: csv_read_def csv_start_def)

lemma measurements_read_back: "csv_read (measurements_csv BE ms) = csv_columns # map (csv_values BE) ms"
proof -
  have "measurements_csv BE ms = concat (map csv_row (csv_columns # map (csv_values BE) ms))"
    by (simp add: measurements_csv_def o_def)
  then show ?thesis by (simp only:) (rule csv_round_trip, simp add: csv_columns_def csv_values_def)
qed

end
