(* ===== verification/Sql.thy ===== *)
theory Sql
  imports Sales "HOL-Library.Multiset"
begin

text \<open>
  The part of PostgreSQL's language the files under \<open>app/sql\<close> are written in: values with \<open>NULL\<close>,
  comparisons with a third truth value, joins, grouping, aggregates, \<open>DENSE_RANK\<close>, common table
  expressions, and what order and limit leave open. A query has many answers: the rows in any order
  its \<open>ORDER BY\<close> allows. Text is compared by its bytes.
\<close>

section \<open>Values\<close>

datatype db_value =
    SNull
  | SInt int
  | SMoney int
  | SText string
  | SUuid uuid
  | STime time
  | SScore rat

text \<open>The order of sorting: \<open>NULL\<close> comes last; an integer beside an amount is an amount.\<close>

fun value_le :: "db_value \<Rightarrow> db_value \<Rightarrow> bool" where
  "value_le _ SNull = True"
| "value_le (SInt a) (SInt b) = (a \<le> b)"
| "value_le (SInt a) (SMoney b) = (100 * a \<le> b)"
| "value_le (SMoney a) (SInt b) = (a \<le> 100 * b)"
| "value_le (SMoney a) (SMoney b) = (a \<le> b)"
| "value_le (SText a) (SText b) = (a \<le> b)"
| "value_le (SUuid a) (SUuid b) = (a \<le> b)"
| "value_le (STime a) (STime b) = (a \<le> b)"
| "value_le (SScore a) (SScore b) = (a \<le> b)"
| "value_le _ _ = False"

datatype sql_cmp = CEq | CLe | CLt | CGe

text \<open>A comparison with \<open>NULL\<close> is unknown.\<close>

definition sql_compare :: "sql_cmp \<Rightarrow> db_value \<Rightarrow> db_value \<Rightarrow> bool option" where
  "sql_compare c a b =
     (if a = SNull \<or> b = SNull then None
      else Some (case c of
          CEq \<Rightarrow> value_le a b \<and> value_le b a
        | CLe \<Rightarrow> value_le a b
        | CLt \<Rightarrow> value_le a b \<and> \<not> value_le b a
        | CGe \<Rightarrow> value_le b a))"

fun plus_values :: "db_value \<Rightarrow> db_value \<Rightarrow> db_value" where
  "plus_values (SInt a) (SInt b) = SInt (a + b)"
| "plus_values (SMoney a) (SMoney b) = SMoney (a + b)"
| "plus_values _ _ = SNull"

text \<open>\<open>SUM\<close> leaves \<open>NULL\<close> out, and is \<open>NULL\<close> when nothing is left.\<close>

fun add_up :: "db_value list \<Rightarrow> db_value" where
  "add_up [] = SNull"
| "add_up [v] = v"
| "add_up (v # vs) = plus_values v (add_up vs)"

definition sum_values :: "db_value list \<Rightarrow> db_value" where
  "sum_values vs = add_up (filter (\<lambda>v. v \<noteq> SNull) vs)"

section \<open>Statements\<close>

datatype query_expr =
    ECol string string  \<comment> \<open>qualifier, empty when there is none, and name\<close>
  | EParam string
  | ENum int
  | ENow
  | EPlus query_expr query_expr
  | ECoalesce query_expr query_expr
  | ESimilarity query_expr query_expr
  | ESum query_expr
  | ECount

type_synonym sql_cond = "(sql_cmp \<times> query_expr \<times> query_expr) list"  \<comment> \<open>a conjunction\<close>

text \<open>\<open>Rank e True\<close> is \<open>DENSE_RANK() OVER (ORDER BY e DESC)\<close>.\<close>

datatype sql_item = Item query_expr | Rank query_expr bool

datatype sql_from =
    From string string  \<comment> \<open>table and alias\<close>
  | Join sql_from string string sql_cond
  | LeftJoin sql_from string string sql_cond

record sql_select =
  q_items :: "(sql_item \<times> string) list"
  q_from :: sql_from
  q_where :: sql_cond
  q_group :: "query_expr list"
  q_having :: sql_cond
  q_order :: "(query_expr \<times> bool) list"  \<comment> \<open>True for descending\<close>
  q_limit :: "query_expr option"

record sql_query =
  q_with :: "(string \<times> sql_select) option"
  q_main :: sql_select

record sql_upsert =
  u_table :: string
  u_values :: "(string \<times> query_expr) list"
  u_conflict :: string
  u_set :: "(string \<times> query_expr) list"
  u_returning :: "(query_expr \<times> string) list"

section \<open>Meaning\<close>

type_synonym sql_row = "(string \<times> db_value) list"
type_synonym sql_scope = "((string \<times> string) \<times> db_value) list"

record sql_env =
  se_table :: "string \<Rightarrow> sql_row list"
  se_param :: "string \<Rightarrow> db_value"
  se_similarity :: "string \<Rightarrow> string \<Rightarrow> rat"
  se_now :: time

definition qualify :: "string \<Rightarrow> sql_row \<Rightarrow> sql_scope" where
  "qualify a r = map (\<lambda>(c, v). ((a, c), v)) r"

text \<open>
  A name without a qualifier is looked up in all tables. The columns of the missing side of a
  \<open>LEFT JOIN\<close> are absent from the scope, hence \<open>NULL\<close>.
\<close>

definition lookup_column :: "string \<Rightarrow> string \<Rightarrow> sql_scope \<Rightarrow> db_value" where
  "lookup_column q n r =
     (case find (\<lambda>b. snd (fst b) = n \<and> (q = [] \<or> fst (fst b) = q)) r of
        None \<Rightarrow> SNull | Some b \<Rightarrow> snd b)"

text \<open>An expression is evaluated on a group of rows; a column is that of its first row.\<close>

fun eval_expr :: "sql_env \<Rightarrow> sql_scope list \<Rightarrow> sql_scope \<Rightarrow> query_expr \<Rightarrow> db_value" where
  "eval_expr X g r (ECol q n) = lookup_column q n r"
| "eval_expr X g r (EParam n) = se_param X n"
| "eval_expr X g r (ENum n) = SInt n"
| "eval_expr X g r ENow = STime (se_now X)"
| "eval_expr X g r (EPlus a b) = plus_values (eval_expr X g r a) (eval_expr X g r b)"
| "eval_expr X g r (ECoalesce a b) =
     (if eval_expr X g r a = SNull then eval_expr X g r b else eval_expr X g r a)"
| "eval_expr X g r (ESimilarity a b) =
     (case (eval_expr X g r a, eval_expr X g r b) of
        (SText s, SText t) \<Rightarrow> SScore (se_similarity X s t) | _ \<Rightarrow> SNull)"
| "eval_expr X g r (ESum a) = sum_values (map (\<lambda>r'. eval_expr X [r'] r' a) g)"
| "eval_expr X g r ECount = SInt (int (length g))"

fun aggregates :: "query_expr \<Rightarrow> bool" where
  "aggregates (ESum _) = True"
| "aggregates ECount = True"
| "aggregates (EPlus a b) = (aggregates a \<or> aggregates b)"
| "aggregates (ECoalesce a b) = (aggregates a \<or> aggregates b)"
| "aggregates (ESimilarity a b) = (aggregates a \<or> aggregates b)"
| "aggregates _ = False"

fun item_expr :: "sql_item \<Rightarrow> query_expr" where
  "item_expr (Item e) = e"
| "item_expr (Rank e _) = e"

text \<open>A conjunction admits a row when every comparison is true, not when one is unknown.\<close>

definition passes :: "sql_env \<Rightarrow> sql_scope list \<Rightarrow> sql_scope \<Rightarrow> sql_cond \<Rightarrow> bool" where
  "passes X g r c =
     list_all (\<lambda>(cmp, a, b). sql_compare cmp (eval_expr X g r a) (eval_expr X g r b) = Some True) c"

definition join_rows :: "sql_env \<Rightarrow> sql_scope \<Rightarrow> string \<Rightarrow> string \<Rightarrow> sql_cond \<Rightarrow> sql_scope list" where
  "join_rows X l t a c = filter (\<lambda>r. passes X [r] r c) (map (\<lambda>r. l @ qualify a r) (se_table X t))"

fun from_rows :: "sql_env \<Rightarrow> sql_from \<Rightarrow> sql_scope list" where
  "from_rows X (From t a) = map (qualify a) (se_table X t)"
| "from_rows X (Join f t a c) = concat (map (\<lambda>l. join_rows X l t a c) (from_rows X f))"
| "from_rows X (LeftJoin f t a c) =
     concat (map (\<lambda>l. if join_rows X l t a c = [] then [l] else join_rows X l t a c) (from_rows X f))"

definition group_by :: "('r \<Rightarrow> 'k) \<Rightarrow> 'r list \<Rightarrow> 'r list list" where
  "group_by k rs = map (\<lambda>v. filter (\<lambda>r. k r = v) rs) (remdups (map k rs))"

text \<open>Without \<open>GROUP BY\<close> the rows are one group when something is aggregated, else one each.\<close>

definition row_groups :: "sql_env \<Rightarrow> sql_select \<Rightarrow> sql_scope list list" where
  "row_groups X s =
     (let rs = filter (\<lambda>r. passes X [r] r (q_where s)) (from_rows X (q_from s)) in
      if q_group s \<noteq> [] then group_by (\<lambda>r. map (eval_expr X [r] r) (q_group s)) rs
      else if list_ex (\<lambda>i. aggregates (item_expr (fst i))) (q_items s) then [rs]
      else map (\<lambda>r. [r]) rs)"

definition leader :: "sql_scope list \<Rightarrow> sql_scope" where
  "leader g = (case g of [] \<Rightarrow> [] | r # _ \<Rightarrow> r)"

definition group_value :: "sql_env \<Rightarrow> sql_scope list \<Rightarrow> query_expr \<Rightarrow> db_value" where
  "group_value X g e = eval_expr X g (leader g) e"

definition value_before :: "bool \<Rightarrow> db_value \<Rightarrow> db_value \<Rightarrow> bool" where
  "value_before desc a b = (if desc then value_le b a \<and> \<not> value_le a b else value_le a b \<and> \<not> value_le b a)"

text \<open>\<open>DENSE_RANK\<close>: one more than the number of different values that come before.\<close>

definition dense_rank :: "bool \<Rightarrow> db_value list \<Rightarrow> db_value \<Rightarrow> int" where
  "dense_rank desc vs v = 1 + int (length (remdups (filter (\<lambda>u. value_before desc u v) vs)))"

fun item_value :: "sql_env \<Rightarrow> sql_scope list list \<Rightarrow> sql_scope list \<Rightarrow> sql_item \<Rightarrow> db_value" where
  "item_value X gs g (Item e) = group_value X g e"
| "item_value X gs g (Rank e desc) =
     SInt (dense_rank desc (map (\<lambda>h. group_value X h e) gs) (group_value X g e))"

definition select_groups :: "sql_env \<Rightarrow> sql_select \<Rightarrow> sql_scope list list" where
  "select_groups X s = filter (\<lambda>g. passes X g (leader g) (q_having s)) (row_groups X s)"

definition out_row :: "sql_env \<Rightarrow> sql_select \<Rightarrow> sql_scope list \<Rightarrow> sql_row" where
  "out_row X s g = map (\<lambda>(i, n). (n, item_value X (select_groups X s) g i)) (q_items s)"

text \<open>A key of \<open>ORDER BY\<close> may be the name of a column of the result.\<close>

definition order_keys :: "sql_env \<Rightarrow> sql_select \<Rightarrow> sql_scope list \<Rightarrow> db_value list" where
  "order_keys X s g =
     map (\<lambda>(e, _). eval_expr X g (qualify [] (out_row X s g) @ leader g) e) (q_order s)"

definition select_rows :: "sql_env \<Rightarrow> sql_select \<Rightarrow> (db_value list \<times> sql_row) list" where
  "select_rows X s = map (\<lambda>g. (order_keys X s g, out_row X s g)) (select_groups X s)"

fun keys_le :: "bool list \<Rightarrow> db_value list \<Rightarrow> db_value list \<Rightarrow> bool" where
  "keys_le (d # ds) (a # as) (b # bs) =
     (value_before d a b \<or> (\<not> value_before d b a \<and> keys_le ds as bs))"
| "keys_le _ _ _ = True"

definition limited :: "sql_env \<Rightarrow> sql_select \<Rightarrow> 'r list \<Rightarrow> 'r list" where
  "limited X s rs =
     (case q_limit s of
        None \<Rightarrow> rs
      | Some e \<Rightarrow> (case eval_expr X [] [] e of SInt n \<Rightarrow> take (nat n) rs | _ \<Rightarrow> rs))"

text \<open>The rows a \<open>SELECT\<close> may answer with.\<close>

definition select_answer :: "sql_env \<Rightarrow> sql_select \<Rightarrow> sql_row list \<Rightarrow> bool" where
  "select_answer X s rs \<longleftrightarrow>
     (\<exists>ks. mset ks = mset (select_rows X s) \<and> sorted_wrt (keys_le (map snd (q_order s))) (map fst ks) \<and>
           rs = limited X s (map snd ks))"

definition with_table :: "string \<Rightarrow> sql_row list \<Rightarrow> sql_env \<Rightarrow> sql_env" where
  "with_table n rs X = X\<lparr>se_table := (se_table X)(n := rs)\<rparr>"

text \<open>A common table expression is a table of the main query, in whatever order it answers.\<close>

definition query_answer :: "sql_env \<Rightarrow> sql_query \<Rightarrow> sql_row list \<Rightarrow> bool" where
  "query_answer X q rs \<longleftrightarrow>
     (case q_with q of
        None \<Rightarrow> select_answer X (q_main q) rs
      | Some (n, s) \<Rightarrow> (\<exists>ts. select_answer X s ts \<and> select_answer (with_table n ts X) (q_main q) rs))"

text \<open>
  \<open>INSERT .. ON CONFLICT .. DO UPDATE\<close>: the proposed row takes the defaults of the columns it does
  not give; a row of the table that agrees with it on the lookup_column of the conflict is changed instead.
\<close>

definition update_columns :: "sql_row \<Rightarrow> sql_row \<Rightarrow> sql_row" where
  "update_columns new r = map (\<lambda>(c, v). (c, case map_of new c of None \<Rightarrow> v | Some v' \<Rightarrow> v')) r"

definition proposed_row :: "sql_env \<Rightarrow> sql_row \<Rightarrow> sql_upsert \<Rightarrow> sql_row" where
  "proposed_row X defaults u =
     update_columns (map (\<lambda>(c, e). (c, eval_expr X [] [] e)) (u_values u)) defaults"

definition updated_row :: "sql_env \<Rightarrow> sql_row \<Rightarrow> sql_upsert \<Rightarrow> sql_row \<Rightarrow> sql_row" where
  "updated_row X proposed u r =
     update_columns
       (map (\<lambda>(c, e). (c, eval_expr X [] (qualify (u_table u) r @ qualify ''EXCLUDED'' proposed) e)) (u_set u)) r"

definition upsert_rows :: "sql_env \<Rightarrow> sql_row \<Rightarrow> sql_upsert \<Rightarrow> sql_row list \<times> sql_row" where
  "upsert_rows X defaults u =
     (let p = proposed_row X defaults u;
          hit = (\<lambda>r. map_of r (u_conflict u) = map_of p (u_conflict u));
          T = se_table X (u_table u);
          returned = (\<lambda>r. map (\<lambda>(e, n). (n, eval_expr X [] (qualify (u_table u) r) e)) (u_returning u)) in
      case find hit T of
        None \<Rightarrow> (T @ [p], returned p)
      | Some r \<Rightarrow> (map (\<lambda>r. if hit r then updated_row X p u r else r) T, returned (updated_row X p u r)))"

end
