(* ===== verification/SqlReader.thy ===== *)
theory SqlReader
  imports Sql "HOL-Library.Monad_Syntax"
begin

text \<open>
  The reading of the SQL texts: a text becomes a list of tokens, the tokens a statement. Keywords
  are upper-case words, as the files have them. A parser takes tokens and returns what it read with
  the tokens that remain, or fails. What is nested or repeated is read with the number of tokens as
  fuel, which bounds both.
\<close>

section \<open>Tokens\<close>

datatype sql_token = TWord string | TNum int | TParam string | TSym string

definition sql_word_char :: "char \<Rightarrow> bool" where
  "sql_word_char c =
     (is_dig c \<or> code c = 95 \<or> 65 \<le> code c \<and> code c \<le> 90 \<or> 97 \<le> code c \<and> code c \<le> 122)"

definition two_char :: "char \<Rightarrow> string \<Rightarrow> bool" where
  "two_char c r = (c \<in> set ''<>'' \<and> startswith r ''='')"

function sql_lex :: "string \<Rightarrow> sql_token list option" where
  "sql_lex [] = Some []"
| "sql_lex (c # r) =
     (if py_space c then sql_lex r
      else if is_dig c then
        map_option (Cons (TNum (int (digits_val (map dig_val (takeWhile is_dig (c # r)))))))
          (sql_lex (dropWhile is_dig r))
      else if sql_word_char c then
        map_option (Cons (TWord (takeWhile sql_word_char (c # r)))) (sql_lex (dropWhile sql_word_char r))
      else if c = CHR '':'' then
        map_option (Cons (TParam (takeWhile sql_word_char r))) (sql_lex (dropWhile sql_word_char r))
      else if two_char c r then map_option (Cons (TSym (c # ''=''))) (sql_lex (tl r))
      else if c \<in> set ''(),.;=<>+*'' then map_option (Cons (TSym [c])) (sql_lex r)
      else None)"
  by pat_completeness auto
termination by (relation "measure length") (auto simp: le_imp_less_Suc length_dropWhile_le)

section \<open>Parsers\<close>

type_synonym 'a parser = "sql_token list \<Rightarrow> ('a \<times> sql_token list) option"

fun expect :: "sql_token list \<Rightarrow> sql_token list \<Rightarrow> sql_token list option" where
  "expect [] ts = Some ts"
| "expect (t # r) (t' # ts) = (if t = t' then expect r ts else None)"
| "expect _ _ = None"

abbreviation words :: "string list \<Rightarrow> sql_token list \<Rightarrow> sql_token list option" where
  "words ws \<equiv> expect (map TWord ws)"

abbreviation symbol :: "string \<Rightarrow> sql_token list \<Rightarrow> sql_token list option" where
  "symbol s \<equiv> expect [TSym s]"

fun sql_name :: "string parser" where
  "sql_name (TWord w # ts) = Some (w, ts)"
| "sql_name _ = None"

text \<open>A clause that begins with certain tokens, or else is absent.\<close>

definition optional :: "sql_token list \<Rightarrow> 'a \<Rightarrow> 'a parser \<Rightarrow> 'a parser" where
  "optional start none p ts = (case expect start ts of None \<Rightarrow> Some (none, ts) | Some r \<Rightarrow> p r)"

primrec sep_by :: "nat \<Rightarrow> sql_token \<Rightarrow> 'a parser \<Rightarrow> 'a list parser" where
  "sep_by 0 sep p ts = None"
| "sep_by (Suc n) sep p ts =
     do {
       (x, r) \<leftarrow> p ts;
       optional [sep] [x] (\<lambda>r. map_option (map_prod (Cons x) id) (sep_by n sep p r)) r
     }"

definition list_of :: "'a parser \<Rightarrow> 'a list parser" where
  "list_of p ts = sep_by (length ts) (TSym '','') p ts"

section \<open>Expressions\<close>

fun apply_function :: "string \<Rightarrow> query_expr list \<Rightarrow> query_expr option" where
  "apply_function f [] = (if f = ''now'' then Some ENow else None)"
| "apply_function f [a] = (if f = ''SUM'' then Some (ESum a) else None)"
| "apply_function f [a, b] =
     (if f = ''COALESCE'' then Some (ECoalesce a b)
      else if f = ''similarity'' then Some (ESimilarity a b) else None)"
| "apply_function _ _ = None"

definition function_call :: "query_expr parser \<Rightarrow> string \<Rightarrow> query_expr parser" where
  "function_call p f ts =
     (case expect [TSym ''*'', TSym '')''] ts of
        Some r \<Rightarrow> if f = ''COUNT'' then Some (ECount, r) else None
      | None \<Rightarrow>
          (case symbol '')'' ts of
             Some r \<Rightarrow> do { e \<leftarrow> apply_function f []; Some (e, r) }
           | None \<Rightarrow> do { (es, r) \<leftarrow> list_of p ts; r' \<leftarrow> symbol '')'' r; e \<leftarrow> apply_function f es; Some (e, r') }))"

definition operand :: "query_expr parser \<Rightarrow> query_expr parser" where
  "operand p ts =
     (case ts of
        TNum n # r \<Rightarrow> Some (ENum n, r)
      | TParam v # r \<Rightarrow> Some (EParam v, r)
      | TWord w # r \<Rightarrow>
          (case symbol ''('' r of
             Some r' \<Rightarrow> function_call p w r'
           | None \<Rightarrow>
               (case symbol ''.'' r of
                  Some r' \<Rightarrow> do { (c, r'') \<leftarrow> sql_name r'; Some (ECol w c, r'') }
                | None \<Rightarrow> Some (ECol [] w, r)))
      | _ \<Rightarrow> None)"

primrec parse_expr :: "nat \<Rightarrow> query_expr parser" where
  "parse_expr 0 = (\<lambda>ts. None)"
| "parse_expr (Suc n) =
     (\<lambda>ts. do {
        (a, r) \<leftarrow> operand (parse_expr n) ts;
        optional [TSym ''+''] a (\<lambda>r. do { (b, r') \<leftarrow> parse_expr n r; Some (EPlus a b, r') }) r
      })"

definition expression :: "query_expr parser" where
  "expression ts = parse_expr (length ts) ts"

fun comparison :: "sql_cmp parser" where
  "comparison (TSym s # ts) =
     (if s = ''='' then Some (CEq, ts) else if s = ''<='' then Some (CLe, ts)
      else if s = ''<'' then Some (CLt, ts) else if s = ''>='' then Some (CGe, ts) else None)"
| "comparison _ = None"

definition condition :: "sql_cond parser" where
  "condition ts =
     sep_by (length ts) (TWord ''AND'')
       (\<lambda>ts. do { (a, r) \<leftarrow> expression ts; (c, r') \<leftarrow> comparison r; (b, r'') \<leftarrow> expression r'; Some ((c, a, b), r'') }) ts"

section \<open>Statements\<close>

definition direction :: "bool parser" where
  "direction ts =
     (case words [''DESC''] ts of
        Some r \<Rightarrow> Some (True, r)
      | None \<Rightarrow> optional [TWord ''ASC''] False (\<lambda>r. Some (False, r)) ts)"

definition order_key :: "(query_expr \<times> bool) parser" where
  "order_key ts = do { (e, r) \<leftarrow> expression ts; (d, r') \<leftarrow> direction r; Some ((e, d), r') }"

text \<open>A column of the result is named by its \<open>AS\<close> or by the lookup_column it is.\<close>

definition own_name :: "sql_item \<Rightarrow> string" where
  "own_name i = (case i of Item (ECol q c) \<Rightarrow> c | _ \<Rightarrow> [])"

definition selected_item :: "sql_item parser" where
  "selected_item ts =
     (case expect [TWord ''DENSE_RANK'', TSym ''('', TSym '')'', TWord ''OVER'', TSym ''('', TWord ''ORDER'', TWord ''BY''] ts of
        Some r \<Rightarrow> do { ((e, d), r') \<leftarrow> order_key r; r'' \<leftarrow> symbol '')'' r'; Some (Rank e d, r'') }
      | None \<Rightarrow> do { (e, r) \<leftarrow> expression ts; Some (Item e, r) })"

definition result_column :: "(sql_item \<times> string) parser" where
  "result_column ts =
     do {
       (i, r) \<leftarrow> selected_item ts;
       (n, r') \<leftarrow> optional [TWord ''AS''] (own_name i) sql_name r;
       Some ((i, n), r')
     }"

definition clause_words :: "string list" where
  "clause_words = [''INNER'', ''JOIN'', ''LEFT'', ''ON'', ''WHERE'', ''GROUP'', ''HAVING'', ''ORDER'', ''LIMIT'']"

definition table_name :: "(string \<times> string) parser" where
  "table_name ts =
     do {
       (t, r) \<leftarrow> sql_name ts;
       (case r of
          TWord a # r' \<Rightarrow> if a \<in> set clause_words then Some ((t, t), r) else Some ((t, a), r')
        | _ \<Rightarrow> Some ((t, t), r))
     }"

definition join_table :: "(string \<times> string \<times> sql_cond) parser" where
  "join_table ts =
     do {
       ((t, a), r) \<leftarrow> table_name ts;
       r' \<leftarrow> words [''ON''] r;
       (c, r'') \<leftarrow> condition r';
       Some ((t, a, c), r'')
     }"

primrec joins :: "nat \<Rightarrow> sql_from \<Rightarrow> sql_from parser" where
  "joins 0 f ts = None"
| "joins (Suc n) f ts =
     (case words [''LEFT'', ''JOIN''] ts of
        Some r \<Rightarrow> do { ((t, a, c), r') \<leftarrow> join_table r; joins n (LeftJoin f t a c) r' }
      | None \<Rightarrow>
          (case (case words [''INNER'', ''JOIN''] ts of None \<Rightarrow> words [''JOIN''] ts | Some r \<Rightarrow> Some r) of
             Some r \<Rightarrow> do { ((t, a, c), r') \<leftarrow> join_table r; joins n (Join f t a c) r' }
           | None \<Rightarrow> Some (f, ts)))"

definition parse_select :: "sql_select parser" where
  "parse_select ts =
     do {
       r \<leftarrow> words [''SELECT''] ts;
       (items, r) \<leftarrow> list_of result_column r;
       r \<leftarrow> words [''FROM''] r;
       ((t, a), r) \<leftarrow> table_name r;
       (f, r) \<leftarrow> joins (Suc (length r)) (From t a) r;
       (wh, r) \<leftarrow> optional [TWord ''WHERE''] [] condition r;
       (grp, r) \<leftarrow> optional [TWord ''GROUP'', TWord ''BY''] [] (list_of expression) r;
       (hav, r) \<leftarrow> optional [TWord ''HAVING''] [] condition r;
       (ord, r) \<leftarrow> optional [TWord ''ORDER'', TWord ''BY''] [] (list_of order_key) r;
       (lim, r) \<leftarrow> optional [TWord ''LIMIT''] None (\<lambda>r. map_option (map_prod Some id) (expression r)) r;
       Some (\<lparr>q_items = items, q_from = f, q_where = wh, q_group = grp, q_having = hav, q_order = ord,
              q_limit = lim\<rparr>, r)
     }"

text \<open>The end of a statement, with or without a semicolon.\<close>

definition statement_end :: "sql_token list \<Rightarrow> bool" where
  "statement_end ts \<longleftrightarrow> ts = [] \<or> ts = [TSym '';'']"

definition common_table :: "(string \<times> sql_select) option parser" where
  "common_table ts =
     do {
       (n, r) \<leftarrow> sql_name ts;
       r \<leftarrow> expect [TWord ''AS'', TSym ''(''] r;
       (s, r) \<leftarrow> parse_select r;
       r \<leftarrow> symbol '')'' r;
       Some (Some (n, s), r)
     }"

definition parse_query :: "sql_token list \<Rightarrow> sql_query option" where
  "parse_query ts =
     do {
       (w, r) \<leftarrow> optional [TWord ''WITH''] None common_table ts;
       (s, r) \<leftarrow> parse_select r;
       if statement_end r then Some \<lparr>q_with = w, q_main = s\<rparr> else None
     }"

definition read_query :: "string \<Rightarrow> sql_query option" where
  "read_query text = do { ts \<leftarrow> sql_lex text; parse_query ts }"

definition assignment :: "(string \<times> query_expr) parser" where
  "assignment ts =
     do { (c, r) \<leftarrow> sql_name ts; r' \<leftarrow> symbol ''='' r; (e, r'') \<leftarrow> expression r'; Some ((c, e), r'') }"

definition returned_column :: "(query_expr \<times> string) parser" where
  "returned_column ts = do { (e, r) \<leftarrow> expression ts; Some ((e, own_name (Item e)), r) }"

definition bracketed :: "'a parser \<Rightarrow> 'a parser" where
  "bracketed p ts = do { r \<leftarrow> symbol ''('' ts; (x, r') \<leftarrow> p r; r'' \<leftarrow> symbol '')'' r'; Some (x, r'') }"

definition parse_upsert :: "sql_token list \<Rightarrow> sql_upsert option" where
  "parse_upsert ts =
     do {
       r \<leftarrow> words [''INSERT'', ''INTO''] ts;
       (t, r) \<leftarrow> sql_name r;
       (cs, r) \<leftarrow> bracketed (list_of sql_name) r;
       r \<leftarrow> words [''VALUES''] r;
       (es, r) \<leftarrow> bracketed (list_of expression) r;
       r \<leftarrow> words [''ON'', ''CONFLICT''] r;
       (k, r) \<leftarrow> bracketed sql_name r;
       r \<leftarrow> words [''DO'', ''UPDATE'', ''SET''] r;
       (us, r) \<leftarrow> list_of assignment r;
       r \<leftarrow> words [''RETURNING''] r;
       (rs, r) \<leftarrow> list_of returned_column r;
       if statement_end r \<and> length cs = length es
       then Some \<lparr>u_table = t, u_values = zip cs es, u_conflict = k, u_set = us, u_returning = rs\<rparr>
       else None
     }"

definition read_upsert :: "string \<Rightarrow> sql_upsert option" where
  "read_upsert text = do { ts \<leftarrow> sql_lex text; parse_upsert ts }"

section \<open>Lines\<close>

text \<open>No token goes over the end of a line, so a text is read line by line.\<close>

lemma line_end_classes [simp]:
  "\<not> is_dig (CHR 0x0A)" "\<not> sql_word_char (CHR 0x0A)" "py_space (CHR 0x0A)"
  by (simp_all add: is_dig_def sql_word_char_def py_space_def)

lemma while_line [simp]:
  assumes "\<not> P (CHR 0x0A)"
  shows "takeWhile P (a @ nl @ b) = takeWhile P a" "dropWhile P (a @ nl @ b) = dropWhile P a @ nl @ b"
  using assms by (induction a) (auto simp: nl_def)

lemma two_char_line [simp]: "two_char c (a @ nl @ b) = two_char c a"
  by (cases a) (auto simp: two_char_def startswith_def nl_def)

lemma two_char_tl: "two_char c a \<Longrightarrow> tl (a @ nl @ b) = tl a @ nl @ b"
  by (cases a) (auto simp: two_char_def startswith_def)

lemma sql_lex_line:
  "sql_lex (a @ nl @ b) = do { x \<leftarrow> sql_lex a; y \<leftarrow> sql_lex b; Some (x @ y) }"
proof (induction a rule: sql_lex.induct)
  case 1
  show ?case by (simp add: nl_def)
next
  case (2 c r)
  let ?m = "\<lambda>t a. map_option (Cons t) (sql_lex a)"
  have m: "?m t (a @ nl @ b) = do { x \<leftarrow> ?m t a; y \<leftarrow> sql_lex b; Some (x @ y) }"
    if "sql_lex (a @ nl @ b) = do { x \<leftarrow> sql_lex a; y \<leftarrow> sql_lex b; Some (x @ y) }" for t a
    using that by (cases "sql_lex a"; cases "sql_lex b") simp_all
  have run: "takeWhile P (c # r @ nl @ b) = takeWhile P (c # r)" if "\<not> P (CHR 0x0A)" for P
    using while_line(1) [of P "c # r" b, OF that] by simp
  note eq = sql_lex.simps(2) [of c "r @ nl @ b"] sql_lex.simps(2) [of c r]
  consider "py_space c" | "\<not> py_space c" "is_dig c" | "\<not> py_space c" "\<not> is_dig c" "sql_word_char c"
    | "\<not> py_space c" "\<not> is_dig c" "\<not> sql_word_char c" "c = CHR '':''"
    | "\<not> py_space c" "\<not> is_dig c" "\<not> sql_word_char c" "c \<noteq> CHR '':''" "two_char c r"
    | "\<not> py_space c" "\<not> is_dig c" "\<not> sql_word_char c" "c \<noteq> CHR '':''" "\<not> two_char c r" "c \<in> set ''(),.;=<>+*''"
    | "\<not> py_space c" "\<not> is_dig c" "\<not> sql_word_char c" "c \<noteq> CHR '':''" "\<not> two_char c r" "c \<notin> set ''(),.;=<>+*''"
    by blast
  then show ?case
  proof cases
    case 1
    with 2(1) show ?thesis by (simp only: append_Cons eq if_True)
  next
    case c: 2
    with m [OF 2(2)] show ?thesis
      by (simp only: append_Cons eq if_True if_False run while_line line_end_classes not_False_eq_True)
  next
    case c: 3
    with m [OF 2(3)] show ?thesis
      by (simp only: append_Cons eq if_True if_False run while_line line_end_classes not_False_eq_True)
  next
    case c: 4
    then show ?thesis
      unfolding append_Cons eq
      by (simp only: if_True if_False refl while_line line_end_classes not_False_eq_True m [OF 2(4) [OF c]])
  next
    case c: 5
    then show ?thesis
      unfolding append_Cons eq by (simp only: if_True if_False two_char_line two_char_tl m [OF 2(5) [OF c]])
  next
    case c: 6
    then show ?thesis
      unfolding append_Cons eq by (simp only: if_True if_False two_char_line m [OF 2(6) [OF c]])
  next
    case 7
    then show ?thesis by (simp only: append_Cons eq if_False two_char_line bind.bind_lzero)
  qed
qed

lemma sql_lex_lines:
  "ls \<noteq> [] \<Longrightarrow> sql_lex (str_join nl ls @ nl) = map_option concat (those (map sql_lex ls))"
proof (induction ls)
  case (Cons l ls)
  have "sql_lex (str_join nl (l # ls) @ nl) = do { x \<leftarrow> sql_lex l; y \<leftarrow> (if ls = [] then Some [] else sql_lex (str_join nl ls @ nl)); Some (x @ y) }"
    using sql_lex_line [of l "[]"] sql_lex_line [of l "str_join nl ls @ nl"] by (simp add: str_join_Cons)
  with Cons.IH show ?case
    by (cases "sql_lex l"; cases "ls = []"; cases "those (map sql_lex ls)") auto
qed simp

lemma read_lines:
  assumes "ls \<noteq> []"
  shows "read_query (str_join nl ls @ nl) = do { tss \<leftarrow> those (map sql_lex ls); parse_query (concat tss) }"
    "read_upsert (str_join nl ls @ nl) = do { tss \<leftarrow> those (map sql_lex ls); parse_upsert (concat tss) }"
  using sql_lex_lines [OF assms]
  by (cases "those (map sql_lex ls)"; simp add: read_query_def read_upsert_def)+

text \<open>The classes of a character by its bits, so that literal lines are read by rewriting.\<close>

lemma char_bits:
  "is_dig (Char b0 b1 b2 b3 b4 b5 b6 b7) \<longleftrightarrow> \<not> b7 \<and> \<not> b6 \<and> b5 \<and> b4 \<and> \<not> (b3 \<and> (b2 \<or> b1))"
  "py_space (Char b0 b1 b2 b3 b4 b5 b6 b7) \<longleftrightarrow> \<not> b7 \<and> \<not> b6 \<and>
     (\<not> b5 \<and> \<not> b4 \<and> b3 \<and> (b2 \<or> b1 \<or> b0) \<and> \<not> (b2 \<and> b1) \<or> \<not> b5 \<and> b4 \<and> b3 \<and> b2 \<or>
      b5 \<and> \<not> b4 \<and> \<not> b3 \<and> \<not> b2 \<and> \<not> b1 \<and> \<not> b0)"
  "sql_word_char (Char b0 b1 b2 b3 b4 b5 b6 b7) \<longleftrightarrow> \<not> b7 \<and>
     (\<not> b6 \<and> b5 \<and> b4 \<and> \<not> (b3 \<and> (b2 \<or> b1)) \<or>
      b6 \<and> (b4 \<or> b3 \<or> b2 \<or> b1 \<or> b0) \<and> \<not> (b4 \<and> b3 \<and> (b2 \<or> b1 \<and> b0)) \<or>
      b6 \<and> \<not> b5 \<and> b4 \<and> b3 \<and> b2 \<and> b1 \<and> b0)"
  by (cases b0; cases b1; cases b2; cases b3; cases b4; cases b5; cases b6; cases b7;
      simp add: is_dig_def py_space_def sql_word_char_def)+

lemmas sql_reading = char_bits two_char_def startswith_def

end
