(* ===== verification/SqlFiles.thy ===== *)
theory SqlFiles
  imports SqlReader
begin

text \<open>
  The files under \<open>app/sql\<close> as they are, their names (\<open>sql/queries.py\<close>), the loader with its cache
  (\<open>sql/loader.py\<close>), and the statements that are read from the texts.
\<close>

section \<open>Texts\<close>

definition tabs :: "nat \<Rightarrow> string \<Rightarrow> string" where
  "tabs n s = replicate n (CHR 0x09) @ s"

definition total_revenue_and_count_sql :: string where
  "total_revenue_and_count_sql = str_join nl [
      ''SELECT'',
      tabs 1 ''COALESCE(SUM(sales.total), 0) AS revenue,'',
      tabs 1 ''COUNT(*) AS transaction_count'',
      ''FROM sales'',
      ''WHERE sales.shop_id = :shop_id'',
      tabs 1 ''AND sales.created_at >= :day_start'',
      tabs 1 ''AND sales.created_at < :day_end''] @ nl"

definition products_with_low_stock_sql :: string where
  "products_with_low_stock_sql = str_join nl [
      ''SELECT'',
      tabs 1 ''products.id,'',
      tabs 1 ''products.name,'',
      tabs 1 ''inventory.quantity,'',
      tabs 1 ''inventory.low_stock_threshold'',
      ''FROM products'',
      ''INNER JOIN inventory'',
      tabs 1 ''ON inventory.product_id = products.id'',
      ''WHERE products.shop_id = :shop_id'',
      tabs 1 ''AND inventory.quantity <= inventory.low_stock_threshold''] @ nl"

definition top_moving_products_by_units_sql :: string where
  "top_moving_products_by_units_sql = str_join nl [
      ''WITH product_sales AS ('',
      ''    SELECT'',
      ''        s.product_id,'',
      ''        p.name AS product_name,'',
      ''        SUM(s.quantity) AS total_units_sold,'',
      ''        DENSE_RANK() OVER (ORDER BY SUM(s.quantity) DESC) AS rank'',
      ''    FROM sales s'',
      ''    JOIN products p ON p.id = s.product_id'',
      ''    WHERE s.shop_id = :shop_id'',
      ''      AND s.created_at >= :day_start'',
      ''      AND s.created_at < :day_end'',
      ''    GROUP BY s.product_id, p.name'',
      '')'',
      ''SELECT'',
      ''    product_id,'',
      ''    product_name AS name,'',
      ''    total_units_sold AS units_sold'',
      ''FROM product_sales'',
      ''WHERE rank = 1;''] @ nl"

definition top_moving_products_by_revenue_sql :: string where
  "top_moving_products_by_revenue_sql = str_join nl [
      ''WITH product_revenue AS ('',
      ''    SELECT'',
      ''        s.product_id,'',
      ''        p.name AS product_name,'',
      ''        SUM(s.total) AS total_revenue,'',
      ''        DENSE_RANK() OVER (ORDER BY SUM(s.total) DESC) AS rank'',
      ''    FROM sales s'',
      ''    JOIN products p ON p.id = s.product_id'',
      ''    WHERE s.shop_id = :shop_id'',
      ''      AND s.created_at >= :day_start'',
      ''      AND s.created_at < :day_end'',
      ''    GROUP BY s.product_id, p.name'',
      '')'',
      ''SELECT'',
      ''    product_id,'',
      ''    product_name AS name,'',
      ''    total_revenue AS revenue'',
      ''FROM product_revenue'',
      ''WHERE rank = 1;''] @ nl"

definition slow_moving_products_sql :: string where
  "slow_moving_products_sql = str_join nl [
      ''SELECT'',
      ''    products.id AS product_id,'',
      ''    products.name AS product_name,'',
      ''    products.price AS unit_price,'',
      ''    COALESCE(SUM(sales.quantity), 0) AS units_sold,'',
      ''    COALESCE(inventory.quantity, 0) AS current_stock'',
      ''FROM products'',
      ''LEFT JOIN sales'',
      ''    ON sales.product_id = products.id'',
      ''    AND sales.shop_id = :shop_id'',
      ''    AND sales.created_at >= :day_start'',
      ''    AND sales.created_at < :day_end'',
      ''LEFT JOIN inventory'',
      ''    ON inventory.product_id = products.id'',
      ''WHERE products.shop_id = :shop_id'',
      ''GROUP BY'',
      ''    products.id,'',
      ''    products.name,'',
      ''    products.price,'',
      ''    inventory.quantity'',
      ''HAVING COALESCE(SUM(sales.quantity), 0) <= :max_sales_count'',
      ''ORDER BY units_sold ASC, product_name ASC'',
      ''LIMIT :limit''] @ nl"

definition list_by_shop_sql :: string where
  "list_by_shop_sql = str_join nl [
      ''SELECT'',
      tabs 1 ''products.id,'',
      tabs 1 ''products.shop_id,'',
      tabs 1 ''products.name,'',
      tabs 1 ''products.name_lower,'',
      tabs 1 ''products.sku,'',
      tabs 1 ''products.price,'',
      tabs 1 ''products.created_at,'',
      tabs 1 ''products.updated_at'',
      ''FROM products'',
      ''WHERE products.shop_id = :shop_id'',
      ''ORDER BY products.created_at DESC, products.id DESC''] @ nl"

definition find_products_by_fuzzy_search_sql :: string where
  "find_products_by_fuzzy_search_sql = str_join nl [
      ''SELECT'',
      ''    products.id,'',
      ''    products.shop_id,'',
      ''    products.name,'',
      ''    products.sku,'',
      ''    products.price,'',
      ''    similarity(name_lower, :search_term) AS similarity_score'',
      ''FROM products'',
      ''WHERE shop_id = :shop_id'',
      ''  AND similarity(name_lower, :search_term) >= :min_threshold'',
      ''ORDER BY similarity(name_lower, :search_term) DESC'',
      ''LIMIT :limit;''] @ nl"

definition get_by_product_id_sql :: string where
  "get_by_product_id_sql = str_join nl [
      ''SELECT'',
      ''    inventory.id,'',
      ''    inventory.product_id,'',
      ''    inventory.quantity,'',
      ''    inventory.low_stock_threshold,'',
      ''    inventory.last_updated'',
      ''FROM inventory'',
      ''WHERE inventory.product_id = :product_id''] @ nl"

definition add_stock_sql :: string where
  "add_stock_sql = str_join nl [
      ''INSERT INTO inventory ('',
      tabs 1 ''product_id,'',
      tabs 1 ''quantity'',
      '')'',
      ''VALUES ('',
      tabs 1 '':product_id,'',
      tabs 1 '':quantity'',
      '')'',
      ''ON CONFLICT (product_id)'',
      ''DO UPDATE SET'',
      tabs 1 ''quantity = inventory.quantity + EXCLUDED.quantity,'',
      tabs 1 ''last_updated = now()'',
      ''RETURNING'',
      tabs 1 ''inventory.id,'',
      tabs 1 ''inventory.product_id,'',
      tabs 1 ''inventory.quantity,'',
      tabs 1 ''inventory.low_stock_threshold,'',
      tabs 1 ''inventory.last_updated''] @ nl"

section \<open>Names\<close>

datatype product_sql = LIST_BY_SHOP | GET_BY_FUZZY_SEARCH

datatype inventory_sql = GET_BY_PRODUCT_ID | ADD_STOCK

datatype sales_sql =
    GET_TOTAL_REVENUE_AND_COUNT
  | GET_PRODUCTS_WITH_LOW_STOCK
  | GET_TOP_MOVING_PRODUCTS_BY_UNITS
  | GET_TOP_MOVING_PRODUCTS_BY_REVENUE
  | GET_SLOW_MOVING_PRODUCTS

fun ProductSQL :: "product_sql \<Rightarrow> string" where
  "ProductSQL LIST_BY_SHOP = ''products/list_by_shop.sql''"
| "ProductSQL GET_BY_FUZZY_SEARCH = ''products/find_products_by_fuzzy_search.sql''"

fun InventorySQL :: "inventory_sql \<Rightarrow> string" where
  "InventorySQL GET_BY_PRODUCT_ID = ''inventory/get_by_product_id.sql''"
| "InventorySQL ADD_STOCK = ''inventory/add_stock.sql''"

fun SalesSQL :: "sales_sql \<Rightarrow> string" where
  "SalesSQL GET_TOTAL_REVENUE_AND_COUNT = ''sales/get_total_revenue_and_count.sql''"
| "SalesSQL GET_PRODUCTS_WITH_LOW_STOCK = ''sales/get_products_with_low_stock.sql''"
| "SalesSQL GET_TOP_MOVING_PRODUCTS_BY_UNITS = ''sales/get_top_moving_products_by_units.sql''"
| "SalesSQL GET_TOP_MOVING_PRODUCTS_BY_REVENUE = ''sales/get_top_moving_products_by_revenue.sql''"
| "SalesSQL GET_SLOW_MOVING_PRODUCTS = ''sales/get_slow_moving_products.sql''"

text \<open>The directory the loader reads from.\<close>

definition sql_files :: "string \<rightharpoonup> string" where
  "sql_files = map_of
     [(''sales/get_total_revenue_and_count.sql'', total_revenue_and_count_sql),
      (''sales/get_products_with_low_stock.sql'', products_with_low_stock_sql),
      (''sales/get_top_moving_products_by_units.sql'', top_moving_products_by_units_sql),
      (''sales/get_top_moving_products_by_revenue.sql'', top_moving_products_by_revenue_sql),
      (''sales/get_slow_moving_products.sql'', slow_moving_products_sql),
      (''products/list_by_shop.sql'', list_by_shop_sql),
      (''products/find_products_by_fuzzy_search.sql'', find_products_by_fuzzy_search_sql),
      (''inventory/get_by_product_id.sql'', get_by_product_id_sql),
      (''inventory/add_stock.sql'', add_stock_sql)]"

section \<open>Loading\<close>

text \<open>
  \<open>lru_cache(maxsize=None)\<close>: a file is read once in the life of a process; a failed reading is not
  kept. The state is the cache, the directory is what is on the disk at the moment of the call.
\<close>

definition load_sql ::
  "(string \<rightharpoonup> string) \<Rightarrow> string \<Rightarrow> (string \<rightharpoonup> string) \<Rightarrow> (string + string) \<times> (string \<rightharpoonup> string)" where
  "load_sql disk path cache =
     (case cache path of
        Some text \<Rightarrow> (Inr text, cache)
      | None \<Rightarrow>
          (case disk path of
             None \<Rightarrow> (Inl ''FileNotFoundError'', cache)
           | Some text \<Rightarrow> (Inr text, cache(path \<mapsto> text))))"

text \<open>A cache that was filled from the files of the repository.\<close>

definition cache_fresh :: "(string \<rightharpoonup> string) \<Rightarrow> bool" where
  "cache_fresh cache \<longleftrightarrow> cache \<subseteq>\<^sub>m sql_files"

lemma load_sql_fresh:
  assumes "cache_fresh cache" "sql_files path = Some text"
  shows "fst (load_sql sql_files path cache) = Inr text \<and> cache_fresh (snd (load_sql sql_files path cache))"
  using assms by (fastforce simp: load_sql_def cache_fresh_def map_le_def dom_def split: option.splits)

lemma load_sql_keeps:
  assumes "load_sql disk path cache = (Inr text, cache')"
  shows "load_sql disk' path cache' = (Inr text, cache')"
  using assms by (auto simp: load_sql_def split: option.splits)

section \<open>Statements\<close>

definition in_the_day :: "string \<Rightarrow> sql_cond" where
  "in_the_day t =
     [(CEq, ECol t ''shop_id'', EParam ''shop_id''),
      (CGe, ECol t ''created_at'', EParam ''day_start''),
      (CLt, ECol t ''created_at'', EParam ''day_end'')]"

definition plain_select :: "(sql_item \<times> string) list \<Rightarrow> sql_from \<Rightarrow> sql_cond \<Rightarrow> sql_select" where
  "plain_select items f c =
     \<lparr>q_items = items, q_from = f, q_where = c, q_group = [], q_having = [], q_order = [], q_limit = None\<rparr>"

definition select_columns :: "string \<Rightarrow> string list \<Rightarrow> (sql_item \<times> string) list" where
  "select_columns t cs = map (\<lambda>c. (Item (ECol t c), c)) cs"

definition total_revenue_and_count :: sql_select where
  "total_revenue_and_count = plain_select
     [(Item (ECoalesce (ESum (ECol ''sales'' ''total'')) (ENum 0)), ''revenue''), (Item ECount, ''transaction_count'')]
     (From ''sales'' ''sales'') (in_the_day ''sales'')"

definition products_with_low_stock :: sql_select where
  "products_with_low_stock = plain_select
     (select_columns ''products'' [''id'', ''name''] @ select_columns ''inventory'' [''quantity'', ''low_stock_threshold''])
     (Join (From ''products'' ''products'') ''inventory'' ''inventory''
        [(CEq, ECol ''inventory'' ''product_id'', ECol ''products'' ''id'')])
     [(CEq, ECol ''products'' ''shop_id'', EParam ''shop_id''),
      (CLe, ECol ''inventory'' ''quantity'', ECol ''inventory'' ''low_stock_threshold'')]"

text \<open>The products of a period ranked by the sum of a column of their sales.\<close>

definition ranked_products :: "string \<Rightarrow> string \<Rightarrow> sql_select" where
  "ranked_products c n =
     (plain_select
       [(Item (ECol ''s'' ''product_id''), ''product_id''), (Item (ECol ''p'' ''name''), ''product_name''),
        (Item (ESum (ECol ''s'' c)), n), (Rank (ESum (ECol ''s'' c)) True, ''rank'')]
       (Join (From ''sales'' ''s'') ''products'' ''p'' [(CEq, ECol ''p'' ''id'', ECol ''s'' ''product_id'')])
       (in_the_day ''s''))\<lparr>q_group := [ECol ''s'' ''product_id'', ECol ''p'' ''name'']\<rparr>"

definition top_ranked :: "string \<Rightarrow> string \<Rightarrow> string \<Rightarrow> sql_select" where
  "top_ranked t n out = plain_select
     [(Item (ECol [] ''product_id''), ''product_id''), (Item (ECol [] ''product_name''), ''name''), (Item (ECol [] n), out)]
     (From t t) [(CEq, ECol [] ''rank'', ENum 1)]"

definition top_moving_products_by_units :: sql_query where
  "top_moving_products_by_units =
     \<lparr>q_with = Some (''product_sales'', ranked_products ''quantity'' ''total_units_sold''),
      q_main = top_ranked ''product_sales'' ''total_units_sold'' ''units_sold''\<rparr>"

definition top_moving_products_by_revenue :: sql_query where
  "top_moving_products_by_revenue =
     \<lparr>q_with = Some (''product_revenue'', ranked_products ''total'' ''total_revenue''),
      q_main = top_ranked ''product_revenue'' ''total_revenue'' ''revenue''\<rparr>"

definition units_sum :: query_expr where
  "units_sum = ECoalesce (ESum (ECol ''sales'' ''quantity'')) (ENum 0)"

definition slow_moving_products :: sql_select where
  "slow_moving_products =
     \<lparr>q_items =
        [(Item (ECol ''products'' ''id''), ''product_id''), (Item (ECol ''products'' ''name''), ''product_name''),
         (Item (ECol ''products'' ''price''), ''unit_price''), (Item units_sum, ''units_sold''),
         (Item (ECoalesce (ECol ''inventory'' ''quantity'') (ENum 0)), ''current_stock'')],
      q_from =
        LeftJoin
          (LeftJoin (From ''products'' ''products'') ''sales'' ''sales''
             ((CEq, ECol ''sales'' ''product_id'', ECol ''products'' ''id'') # in_the_day ''sales''))
          ''inventory'' ''inventory'' [(CEq, ECol ''inventory'' ''product_id'', ECol ''products'' ''id'')],
      q_where = [(CEq, ECol ''products'' ''shop_id'', EParam ''shop_id'')],
      q_group = [ECol ''products'' ''id'', ECol ''products'' ''name'', ECol ''products'' ''price'', ECol ''inventory'' ''quantity''],
      q_having = [(CLe, units_sum, EParam ''max_sales_count'')],
      q_order = [(ECol [] ''units_sold'', False), (ECol [] ''product_name'', False)],
      q_limit = Some (EParam ''limit'')\<rparr>"

definition list_by_shop :: sql_select where
  "list_by_shop =
     (plain_select
        (select_columns ''products'' [''id'', ''shop_id'', ''name'', ''name_lower'', ''sku'', ''price'', ''created_at'', ''updated_at''])
        (From ''products'' ''products'') [(CEq, ECol ''products'' ''shop_id'', EParam ''shop_id'')])
     \<lparr>q_order := [(ECol ''products'' ''created_at'', True), (ECol ''products'' ''id'', True)]\<rparr>"

definition name_similarity :: query_expr where
  "name_similarity = ESimilarity (ECol [] ''name_lower'') (EParam ''search_term'')"

definition find_products_by_fuzzy_search :: sql_select where
  "find_products_by_fuzzy_search =
     (plain_select
        (select_columns ''products'' [''id'', ''shop_id'', ''name'', ''sku'', ''price''] @ [(Item name_similarity, ''similarity_score'')])
        (From ''products'' ''products'')
        [(CEq, ECol [] ''shop_id'', EParam ''shop_id''), (CGe, name_similarity, EParam ''min_threshold'')])
     \<lparr>q_order := [(name_similarity, True)], q_limit := Some (EParam ''limit'')\<rparr>"

abbreviation inventory_columns :: "string list" where
  "inventory_columns \<equiv> [''id'', ''product_id'', ''quantity'', ''low_stock_threshold'', ''last_updated'']"

definition inventory_by_product_id :: sql_select where
  "inventory_by_product_id = plain_select (select_columns ''inventory'' inventory_columns)
     (From ''inventory'' ''inventory'') [(CEq, ECol ''inventory'' ''product_id'', EParam ''product_id'')]"

definition add_stock_statement :: sql_upsert where
  "add_stock_statement =
     \<lparr>u_table = ''inventory'',
      u_values = [(''product_id'', EParam ''product_id''), (''quantity'', EParam ''quantity'')],
      u_conflict = ''product_id'',
      u_set = [(''quantity'', EPlus (ECol ''inventory'' ''quantity'') (ECol ''EXCLUDED'' ''quantity'')), (''last_updated'', ENow)],
      u_returning = map (\<lambda>c. (ECol ''inventory'' c, c)) inventory_columns\<rparr>"

section \<open>The statements are what the texts say\<close>

definition query_only :: "sql_select \<Rightarrow> sql_query" where
  "query_only s = \<lparr>q_with = None, q_main = s\<rparr>"

lemma read_slow_moving_products [simp]: "read_query slow_moving_products_sql = Some (query_only slow_moving_products)"
  unfolding slow_moving_products_sql_def read_lines [OF list.distinct(2)]
  by (simp add: sql_reading tabs_def, code_simp)

lemma read_total_revenue_and_count [simp]: "read_query total_revenue_and_count_sql = Some (query_only total_revenue_and_count)"
  unfolding total_revenue_and_count_sql_def read_lines [OF list.distinct(2)]
  by (simp add: sql_reading tabs_def, code_simp)

lemma read_products_with_low_stock [simp]: "read_query products_with_low_stock_sql = Some (query_only products_with_low_stock)"
  unfolding products_with_low_stock_sql_def read_lines [OF list.distinct(2)]
  by (simp add: sql_reading tabs_def, code_simp)

lemma read_top_moving_products_by_units [simp]: "read_query top_moving_products_by_units_sql = Some top_moving_products_by_units"
  unfolding top_moving_products_by_units_sql_def read_lines [OF list.distinct(2)]
  by (simp add: sql_reading tabs_def, code_simp)

lemma read_top_moving_products_by_revenue [simp]: "read_query top_moving_products_by_revenue_sql = Some top_moving_products_by_revenue"
  unfolding top_moving_products_by_revenue_sql_def read_lines [OF list.distinct(2)]
  by (simp add: sql_reading tabs_def, code_simp)

lemma read_list_by_shop [simp]: "read_query list_by_shop_sql = Some (query_only list_by_shop)"
  unfolding list_by_shop_sql_def read_lines [OF list.distinct(2)]
  by (simp add: sql_reading tabs_def, code_simp)

lemma read_find_products_by_fuzzy_search [simp]: "read_query find_products_by_fuzzy_search_sql = Some (query_only find_products_by_fuzzy_search)"
  unfolding find_products_by_fuzzy_search_sql_def read_lines [OF list.distinct(2)]
  by (simp add: sql_reading tabs_def, code_simp)

lemma read_get_by_product_id [simp]: "read_query get_by_product_id_sql = Some (query_only inventory_by_product_id)"
  unfolding get_by_product_id_sql_def read_lines [OF list.distinct(2)]
  by (simp add: sql_reading tabs_def, code_simp)

lemma read_add_stock [simp]: "read_upsert add_stock_sql = Some add_stock_statement"
  unfolding add_stock_sql_def read_lines [OF list.distinct(2)]
  by (simp add: sql_reading tabs_def, code_simp)

end
