(* ===== verification/SqlQueries.thy ===== *)
theory SqlQueries
  imports SqlFiles
begin

text \<open>
  The repositories' queries (\<open>app/repositories\<close>) as they are run: the text of the file is read, its
  parameters are bound, and the rows of an answer become the objects of \<open>app/dto/sales.py\<close>. What
  the theories \<open>Sales\<close>, \<open>Products\<close> and \<open>Inventory\<close> say the repositories return is shown to be an
  answer of these texts, and, where nothing is cut off, every answer up to the order of its rows.
\<close>

section \<open>Tables\<close>

text \<open>
  The rows under the names of their columns. The columns that record the last change, which no code
  reads, are a parameter: the change of the row with an identifier.
\<close>

type_synonym stamps = "uuid \<Rightarrow> db_value"

definition product_columns :: "stamps \<Rightarrow> product_row \<Rightarrow> sql_row" where
  "product_columns U p =
     [(''id'', SUuid (p_id p)), (''shop_id'', SUuid (p_shop_id p)), (''name'', SText (p_name p)),
      (''name_lower'', SText (p_name_lower p)), (''sku'', SText (p_sku p)), (''price'', SMoney (p_price p)),
      (''created_at'', STime (p_created p)), (''updated_at'', U (p_id p))]"

definition inventory_columns_of :: "stamps \<Rightarrow> inventory_row \<Rightarrow> sql_row" where
  "inventory_columns_of U i =
     [(''id'', SUuid (i_id i)), (''product_id'', SUuid (i_product_id i)), (''quantity'', SInt (i_quantity i)),
      (''low_stock_threshold'', SInt (i_threshold i)), (''last_updated'', U (i_id i))]"

definition sale_columns :: "sale_row \<Rightarrow> sql_row" where
  "sale_columns s =
     [(''id'', SUuid (s_id s)), (''shop_id'', SUuid (s_shop_id s)), (''product_id'', SUuid (s_product_id s)),
      (''quantity'', SInt (s_quantity s)), (''unit_price'', SMoney (s_unit_price s)), (''total'', SMoney (s_total s)),
      (''recorded_by'', SText (s_recorded_by s)), (''created_at'', STime (s_created s))]"

definition sql_tables :: "stamps \<Rightarrow> db \<Rightarrow> string \<Rightarrow> sql_row list" where
  "sql_tables U d t =
     (if t = ''products'' then map (product_columns U) (products d)
      else if t = ''inventory'' then map (inventory_columns_of U) (inventory d)
      else if t = ''sales'' then map sale_columns (sales d)
      else [])"

definition bound :: "(string \<times> db_value) list \<Rightarrow> string \<Rightarrow> db_value" where
  "bound ps n = (case map_of ps n of None \<Rightarrow> SNull | Some v \<Rightarrow> v)"

definition query_env :: "'z db_env_scheme \<Rightarrow> stamps \<Rightarrow> db \<Rightarrow> (string \<times> db_value) list \<Rightarrow> sql_env" where
  "query_env E U d ps =
     \<lparr>se_table = sql_tables U d, se_param = bound ps, se_similarity = similarity E, se_now = now E\<rparr>"

text \<open>\<open>db.execute(text(load_sql(path)), params)\<close>: the rows it may return.\<close>

definition execute_sql ::
  "'z db_env_scheme \<Rightarrow> stamps \<Rightarrow> db \<Rightarrow> string \<Rightarrow> (string \<times> db_value) list \<Rightarrow> sql_row list \<Rightarrow> bool" where
  "execute_sql E U d path ps rs =
     (case sql_files path of
        None \<Rightarrow> False
      | Some text \<Rightarrow>
          (case read_query text of None \<Rightarrow> False | Some q \<Rightarrow> query_answer (query_env E U d ps) q rs))"

section \<open>Values\<close>

lemma compare_values [simp]:
  "sql_compare CEq (SUuid a) (SUuid b) = Some (a = b)"
  "sql_compare CEq (SInt m) (SInt n) = Some (m = n)"
  "sql_compare CLe (SInt m) (SInt n) = Some (m \<le> n)"
  "sql_compare CGe (STime s) (STime t) = Some (t \<le> s)"
  "sql_compare CLt (STime s) (STime t) = Some (s < t)"
  "sql_compare CGe (SScore x) (SScore y) = Some (y \<le> x)"
  "sql_compare c SNull v = None" "sql_compare c v SNull = None"
  by (auto simp: sql_compare_def)

lemma passes_simps [simp]:
  "passes X g r []"
  "passes X g r ((c, a, b) # cs) \<longleftrightarrow>
     sql_compare c (eval_expr X g r a) (eval_expr X g r b) = Some True \<and> passes X g r cs"
  by (simp_all add: passes_def)

lemma column_simps [simp]:
  "lookup_column q n [] = SNull"
  "lookup_column q n (qualify a r @ R) =
     (if q = [] \<or> q = a then (case map_of r n of Some v \<Rightarrow> v | None \<Rightarrow> lookup_column q n R) else lookup_column q n R)"
  by (simp add: lookup_column_def, induction r) (auto simp: qualify_def lookup_column_def)

lemma column_alone [simp]:
  "lookup_column q n (qualify a r) = (if q = [] \<or> q = a then (case map_of r n of Some v \<Rightarrow> v | None \<Rightarrow> SNull) else SNull)"
  using column_simps(2) [of q n a r "[]"] by (simp split: option.split)

lemma sum_values_simps:
  "sum_values (map (\<lambda>x. SInt (f x)) xs) = (if xs = [] then SNull else SInt (sum_list (map f xs)))"
  "sum_values (map (\<lambda>x. SMoney (f x)) xs) = (if xs = [] then SNull else SMoney (sum_list (map f xs)))"
proof -
  have "add_up (map (\<lambda>x. SInt (f x)) xs) = (if xs = [] then SNull else SInt (sum_list (map f xs)))"
    by (induction xs rule: induct_list012) auto
  then show "sum_values (map (\<lambda>x. SInt (f x)) xs) = (if xs = [] then SNull else SInt (sum_list (map f xs)))"
    by (simp add: sum_values_def filter_map o_def)
  have "add_up (map (\<lambda>x. SMoney (f x)) xs) = (if xs = [] then SNull else SMoney (sum_list (map f xs)))"
    by (induction xs rule: induct_list012) auto
  then show "sum_values (map (\<lambda>x. SMoney (f x)) xs) = (if xs = [] then SNull else SMoney (sum_list (map f xs)))"
    by (simp add: sum_values_def filter_map o_def)
qed

lemma leader_simps [simp]: "leader [] = []" "leader (r # g) = r"
  by (simp_all add: leader_def)

section \<open>Answers\<close>

lemma query_only_answer [simp]: "query_answer X (query_only s) = select_answer X s"
  by (rule ext) (simp add: query_answer_def query_only_def)

lemma map_perm:
  assumes "mset rs = mset (map f xs)"
  shows "\<exists>ys. mset ys = mset xs \<and> map f ys = rs"
  using assms
proof (induction rs arbitrary: xs)
  case (Cons r rs)
  then obtain x where x: "x \<in> set xs" "f x = r"
    by (metis list.set_intros(1) set_map set_mset_mset image_iff)
  then have "image_mset f (mset xs) = add_mset r (image_mset f (mset xs - {#x#}))"
    by (metis image_mset_add_mset insert_DiffM set_mset_mset)
  with Cons.prems have "mset rs = mset (map f (remove1 x xs))" by simp
  from Cons.IH [OF this] obtain ys where "mset ys = mset (remove1 x xs)" "map f ys = rs" by blast
  with x show ?case by (intro exI [of _ "x # ys"]) simp
qed simp

text \<open>Without order and limit the answers are the rows in any order.\<close>

lemma unordered_answer:
  assumes "q_order s = []" "q_limit s = None"
  shows "select_answer X s rs \<longleftrightarrow> mset rs = mset (map (out_row X s) (select_groups X s))"
proof
  assume "mset rs = mset (map (out_row X s) (select_groups X s))"
  then have "mset rs = mset (map snd (select_rows X s))" by (simp add: select_rows_def o_def)
  from map_perm [OF this] obtain ks where ks: "mset ks = mset (select_rows X s)" "map snd ks = rs" by blast
  have "sorted_wrt (keys_le []) xs" for xs by (induction xs) auto
  with ks show "select_answer X s rs"
    unfolding select_answer_def by (intro exI [of _ ks]) (simp add: assms limited_def)
next
  assume "select_answer X s rs"
  then obtain ks where ks: "mset ks = mset (select_rows X s)" "rs = map snd ks"
    using assms by (auto simp: select_answer_def limited_def)
  have "mset rs = image_mset snd (mset (select_rows X s))" using ks by (metis mset_map)
  then show "mset rs = mset (map (out_row X s) (select_groups X s))"
    by (simp add: select_rows_def image_mset.compositionality o_def)
qed

text \<open>A sorted list of the rows, cut off at the limit, is an answer.\<close>

lemma ordered_answer:
  assumes "mset gs = mset (select_groups X s)" "sorted_wrt (keys_le (map snd (q_order s))) (map (order_keys X s) gs)"
  shows "select_answer X s (limited X s (map (out_row X s) gs))"
  unfolding select_answer_def
  using assms
  by (intro exI [of _ "map (\<lambda>g. (order_keys X s g, out_row X s g)) gs"]) (simp add: select_rows_def o_def)

lemma ungrouped:
  assumes "q_group s = []" "\<not> list_ex (\<lambda>i. aggregates (item_expr (fst i))) (q_items s)" "q_having s = []"
  shows "select_groups X s = map (\<lambda>r. [r]) (filter (\<lambda>r. passes X [r] r (q_where s)) (from_rows X (q_from s)))"
  by (simp add: assms select_groups_def row_groups_def Let_def)

lemma aggregated:
  assumes "q_group s = []" "list_ex (\<lambda>i. aggregates (item_expr (fst i))) (q_items s)" "q_having s = []"
  shows "select_groups X s = [filter (\<lambda>r. passes X [r] r (q_where s)) (from_rows X (q_from s))]"
  by (simp add: assms select_groups_def row_groups_def Let_def)

lemma grouped:
  assumes "q_group s \<noteq> []"
  shows "row_groups X s = group_by (\<lambda>r. map (eval_expr X [r] r) (q_group s))
    (filter (\<lambda>r. passes X [r] r (q_where s)) (from_rows X (q_from s)))"
  by (simp add: assms row_groups_def Let_def)

text \<open>The groups of a list are found by any list of its keys.\<close>

lemma group_by_keys:
  assumes "distinct ks" "set ks = k ` set rs"
  shows "mset (group_by k rs) = mset (map (\<lambda>v. filter (\<lambda>r. k r = v) rs) ks)"
proof -
  have "mset (remdups (map k rs)) = mset ks"
    using assms by (metis distinct_remdups set_eq_iff_mset_eq_distinct set_map set_remdups)
  then show ?thesis by (simp add: group_by_def)
qed

section \<open>What the queries answer\<close>

lemmas sql_rows = product_columns_def inventory_columns_of_def sale_columns_def

lemma env_simps [simp]:
  "se_table (query_env E U d ps) = sql_tables U d" "se_param (query_env E U d ps) = bound ps"
  "se_similarity (query_env E U d ps) = similarity E" "se_now (query_env E U d ps) = now E"
  by (simp_all add: query_env_def)

lemma table_simps [simp]:
  "sql_tables U d ''products'' = map (product_columns U) (products d)"
  "sql_tables U d ''inventory'' = map (inventory_columns_of U) (inventory d)"
  "sql_tables U d ''sales'' = map sale_columns (sales d)"
  by (simp_all add: sql_tables_def)

definition shop_param :: "uuid \<Rightarrow> (string \<times> db_value) list" where
  "shop_param sid = [(''shop_id'', SUuid sid)]"

definition day_params :: "uuid \<Rightarrow> time \<Rightarrow> time \<Rightarrow> (string \<times> db_value) list" where
  "day_params sid t0 t1 = [(''shop_id'', SUuid sid), (''day_start'', STime t0), (''day_end'', STime t1)]"

subsection \<open>Objects of an answer\<close>

text \<open>The driver returns an amount as \<open>Decimal\<close> also where the query writes an integer.\<close>

fun money :: "db_value option \<Rightarrow> int option" where
  "money (Some (SMoney c)) = Some c"
| "money (Some (SInt n)) = Some (100 * n)"
| "money _ = None"

fun whole :: "db_value option \<Rightarrow> int option" where
  "whole (Some (SInt n)) = Some n"
| "whole _ = None"

fun text_value :: "db_value option \<Rightarrow> string option" where
  "text_value (Some (SText s)) = Some s"
| "text_value _ = None"

fun uuid_value :: "db_value option \<Rightarrow> uuid option" where
  "uuid_value (Some (SUuid u)) = Some u"
| "uuid_value _ = None"

text \<open>A dataclass built from \<open>**row\<close> takes exactly its own fields.\<close>

definition has_fields :: "string list \<Rightarrow> sql_row \<Rightarrow> unit option" where
  "has_fields ns r = (if set (map fst r) = set ns then Some () else None)"

definition RevenueSummary :: "sql_row \<Rightarrow> revenue_summary option" where
  "RevenueSummary r =
     (case r of
        [(_, v), (_, n)] \<Rightarrow>
          do { c \<leftarrow> money (Some v); k \<leftarrow> whole (Some n); Some \<lparr>rs_revenue = c, rs_count = nat k\<rparr> }
      | _ \<Rightarrow> None)"

definition LowStockProductDTO :: "sql_row \<Rightarrow> low_stock_row option" where
  "LowStockProductDTO r =
     do {
       has_fields [''id'', ''name'', ''quantity'', ''low_stock_threshold''] r;
       u \<leftarrow> uuid_value (map_of r ''id'');
       n \<leftarrow> text_value (map_of r ''name'');
       q \<leftarrow> whole (map_of r ''quantity'');
       t \<leftarrow> whole (map_of r ''low_stock_threshold'');
       Some \<lparr>ls_id = u, ls_name = n, ls_quantity = q, ls_threshold = t\<rparr>
     }"

definition TopProductByUnits_from_row :: "sql_row \<Rightarrow> top_by_units option" where
  "TopProductByUnits_from_row r =
     do {
       u \<leftarrow> uuid_value (map_of r ''product_id'');
       n \<leftarrow> text_value (map_of r ''name'');
       k \<leftarrow> whole (map_of r ''units_sold'');
       Some \<lparr>tu_product_id = u, tu_name = n, tu_units = k\<rparr>
     }"

definition TopProductByRevenue_from_row :: "sql_row \<Rightarrow> top_by_revenue option" where
  "TopProductByRevenue_from_row r =
     do {
       u \<leftarrow> uuid_value (map_of r ''product_id'');
       n \<leftarrow> text_value (map_of r ''name'');
       c \<leftarrow> money (map_of r ''revenue'');
       Some \<lparr>tr_product_id = u, tr_name = n, tr_revenue = c\<rparr>
     }"

definition SlowMovingProductDTO :: "sql_row \<Rightarrow> slow_row option" where
  "SlowMovingProductDTO r =
     do {
       has_fields [''product_id'', ''product_name'', ''units_sold'', ''current_stock'', ''unit_price''] r;
       u \<leftarrow> uuid_value (map_of r ''product_id'');
       n \<leftarrow> text_value (map_of r ''product_name'');
       k \<leftarrow> whole (map_of r ''units_sold'');
       st \<leftarrow> whole (map_of r ''current_stock'');
       c \<leftarrow> money (map_of r ''unit_price'');
       Some \<lparr>sl_product_id = u, sl_name = n, sl_units = k, sl_stock = st, sl_price = c\<rparr>
     }"

subsection \<open>Revenue and count\<close>

lemma in_the_day_admits:
  assumes "a \<noteq> []"
  shows "passes (query_env E U d (day_params sid t0 t1)) g (qualify a (sale_columns s) @ R) (in_the_day a) \<longleftrightarrow>
    s_shop_id s = sid \<and> t0 \<le> s_created s \<and> s_created s < t1"
  using assms by (simp add: in_the_day_def sale_columns_def bound_def day_params_def)

lemmas in_the_day_alone = in_the_day_admits [where R = "[]", simplified]

text \<open>What a repository may return: the objects made of the rows of an answer, in their order.\<close>

definition fetches ::
  "'z db_env_scheme \<Rightarrow> stamps \<Rightarrow> db \<Rightarrow> string \<Rightarrow> (string \<times> db_value) list \<Rightarrow> (sql_row \<Rightarrow> 'a option) \<Rightarrow> 'a list \<Rightarrow> bool" where
  "fetches E U d path ps f xs \<longleftrightarrow> (\<exists>rs. execute_sql E U d path ps rs \<and> map f rs = map Some xs)"

lemma mset_map_Some: "mset (map Some xs) = mset (map Some ys) \<longleftrightarrow> mset xs = mset ys"
  by (metis map_perm mset_map inj_Some inj_map_eq_map)

lemma fetches_any_order:
  assumes "\<And>rs. execute_sql E U d path ps rs \<longleftrightarrow> mset rs = mset outs" "mset (map f outs) = mset (map Some ys)"
  shows "fetches E U d path ps f xs \<longleftrightarrow> mset xs = mset ys"
proof
  assume "fetches E U d path ps f xs"
  then obtain rs where "mset rs = mset outs" "map f rs = map Some xs" unfolding fetches_def assms(1) by blast
  then have "mset (map Some xs) = mset (map Some ys)" using assms(2) by (metis mset_map)
  then show "mset xs = mset ys" using mset_map_Some by blast
next
  assume "mset xs = mset ys"
  then have "mset (map Some xs) = mset (map f outs)" using assms(2) by simp
  from map_perm [OF this] show "fetches E U d path ps f xs" unfolding fetches_def assms(1) by blast
qed

lemma revenue_fetched:
  "fetches E U d (SalesSQL GET_TOTAL_REVENUE_AND_COUNT) (day_params sid t0 t1) RevenueSummary xs \<longleftrightarrow>
     xs = [get_total_revenue_and_count sid t0 t1 d]"
proof -
  let ?s = total_revenue_and_count
  let ?X = "query_env E U d (day_params sid t0 t1)"
  have g: "select_groups ?X ?s = [map (\<lambda>s. qualify ''sales'' (sale_columns s)) (sales_between sid t0 t1 d)]"
    by (subst aggregated)
      (simp_all add: total_revenue_and_count_def plain_select_def filter_map o_def in_the_day_alone sales_between_def)
  have o: "map RevenueSummary (map (out_row ?X ?s) (select_groups ?X ?s)) = map Some [get_total_revenue_and_count sid t0 t1 d]"
    unfolding g
    by (simp add: out_row_def group_value_def total_revenue_and_count_def plain_select_def RevenueSummary_def
        o_def sale_columns_def sum_values_simps get_total_revenue_and_count_def Let_def)
  have "execute_sql E U d (SalesSQL GET_TOTAL_REVENUE_AND_COUNT) (day_params sid t0 t1) rs \<longleftrightarrow>
      mset rs = mset (map (out_row ?X ?s) (select_groups ?X ?s))" for rs
    by (simp add: execute_sql_def sql_files_def unordered_answer total_revenue_and_count_def plain_select_def)
  from fetches_any_order [OF this arg_cong [OF o, of mset]] show ?thesis by simp
qed

subsection \<open>Low stock\<close>

lemma filter_map_list: "map h (filter P xs) = [h x. x \<leftarrow> xs, P x]"
  by (induction xs) auto

lemma low_stock_fetched:
  "fetches E U d (SalesSQL GET_PRODUCTS_WITH_LOW_STOCK) (shop_param sid) LowStockProductDTO xs \<longleftrightarrow>
     mset xs = mset (get_products_with_low_stock sid d)"
proof -
  let ?s = products_with_low_stock
  let ?X = "query_env E U d (shop_param sid)"
  let ?row = "\<lambda>p i. qualify ''products'' (product_columns U p) @ qualify ''inventory'' (inventory_columns_of U i)"
  let ?dto = "\<lambda>p i. \<lparr>ls_id = p_id p, ls_name = p_name p, ls_quantity = i_quantity i, ls_threshold = i_threshold i\<rparr>"
  let ?hits = "\<lambda>p. filter (\<lambda>i. i_product_id i = p_id p \<and> p_shop_id p = sid \<and> i_quantity i \<le> i_threshold i) (inventory d)"
  have g: "select_groups ?X ?s = concat (map (\<lambda>p. map (\<lambda>i. [?row p i]) (?hits p)) (products d))"
    by (subst ungrouped)
      (simp_all add: products_with_low_stock_def plain_select_def select_columns_def join_rows_def filter_concat map_concat
        filter_map o_def sql_rows bound_def shop_param_def)
  have o: "map LowStockProductDTO (map (out_row ?X ?s) (select_groups ?X ?s)) =
      concat (map (\<lambda>p. map (\<lambda>i. Some (?dto p i)) (?hits p)) (products d))"
    unfolding g
    by (simp add: out_row_def group_value_def products_with_low_stock_def plain_select_def select_columns_def
        LowStockProductDTO_def has_fields_def map_concat o_def sql_rows insert_commute)
  have "map Some (get_products_with_low_stock sid d) = concat (map (\<lambda>p. map (\<lambda>i. Some (?dto p i)) (?hits p)) (products d))"
    by (auto simp: get_products_with_low_stock_def map_concat o_def filter_map_list intro!: arg_cong [of _ _ concat] map_cong)
  with o have "map LowStockProductDTO (map (out_row ?X ?s) (select_groups ?X ?s)) = map Some (get_products_with_low_stock sid d)"
    by (rule trans [OF _ sym])
  note o = arg_cong [OF this, of mset]
  have "execute_sql E U d (SalesSQL GET_PRODUCTS_WITH_LOW_STOCK) (shop_param sid) rs \<longleftrightarrow>
      mset rs = mset (map (out_row ?X ?s) (select_groups ?X ?s))" for rs
    by (simp add: execute_sql_def sql_files_def unordered_answer products_with_low_stock_def plain_select_def)
  from fetches_any_order [OF this o] show ?thesis .
qed

subsection \<open>The stock of a product\<close>

definition InventoryObject :: "sql_row \<Rightarrow> inventory_row option" where
  "InventoryObject r =
     do {
       i \<leftarrow> uuid_value (map_of r ''id'');
       p \<leftarrow> uuid_value (map_of r ''product_id'');
       q \<leftarrow> whole (map_of r ''quantity'');
       t \<leftarrow> whole (map_of r ''low_stock_threshold'');
       Some \<lparr>i_id = i, i_product_id = p, i_quantity = q, i_threshold = t\<rparr>
     }"

definition product_param :: "uuid \<Rightarrow> (string \<times> db_value) list" where
  "product_param pid = [(''product_id'', SUuid pid)]"

lemma filter_distinct_find:
  assumes "distinct (map f xs)"
  shows "filter (\<lambda>x. f x = k) xs = (case find (\<lambda>x. f x = k) xs of None \<Rightarrow> [] | Some x \<Rightarrow> [x])"
  using assms
proof (induction xs)
  case (Cons x xs)
  have "filter (\<lambda>y. f y = f x) xs = []" using Cons.prems by (auto simp: filter_empty_conv image_iff)
  with Cons show ?case by auto
qed simp

lemma inventory_fetched:
  assumes "db_ok d"
  shows "fetches E U d (InventorySQL GET_BY_PRODUCT_ID) (product_param pid) InventoryObject xs \<longleftrightarrow>
     xs = (case get_by_product_id pid d of None \<Rightarrow> [] | Some i \<Rightarrow> [i])"
proof -
  let ?s = inventory_by_product_id
  let ?X = "query_env E U d (product_param pid)"
  let ?found = "filter (\<lambda>i. i_product_id i = pid) (inventory d)"
  have g: "select_groups ?X ?s = map (\<lambda>i. [qualify ''inventory'' (inventory_columns_of U i)]) ?found"
    by (subst ungrouped)
      (simp_all add: inventory_by_product_id_def plain_select_def select_columns_def filter_map o_def sql_rows
        bound_def product_param_def)
  have o: "map InventoryObject (map (out_row ?X ?s) (select_groups ?X ?s)) = map Some ?found"
    unfolding g
    by (simp add: out_row_def group_value_def inventory_by_product_id_def plain_select_def select_columns_def
        InventoryObject_def o_def sql_rows)
  have "execute_sql E U d (InventorySQL GET_BY_PRODUCT_ID) (product_param pid) rs \<longleftrightarrow>
      mset rs = mset (map (out_row ?X ?s) (select_groups ?X ?s))" for rs
    by (simp add: execute_sql_def sql_files_def unordered_answer inventory_by_product_id_def plain_select_def)
  note f = fetches_any_order [OF this arg_cong [OF o, of mset], of xs]
  have "distinct (map i_product_id (inventory d))"
    using assms by (simp add: db_ok_def constraints_def inventory_constraints_def)
  from f filter_distinct_find [OF this, of pid] show ?thesis
    by (auto simp: get_by_product_id_def split: option.splits)
qed

subsection \<open>Ordered answers\<close>

lemma fetches_sorted:
  assumes "\<And>rs. execute_sql E U d path ps rs \<longleftrightarrow> select_answer X s rs"
    "mset gs = mset (select_groups X s)" "sorted_wrt (keys_le (map snd (q_order s))) (map (order_keys X s) gs)"
    "map f (limited X s (map (out_row X s) gs)) = map Some xs"
  shows "fetches E U d path ps f xs"
  using ordered_answer [OF assms(2,3)] assms(1,4) unfolding fetches_def by blast

lemma sort_key_lex:
  assumes "sorted_wrt (\<lambda>x y. g x \<le> g y) ys"
  shows "sorted_wrt (\<lambda>x y. f x < f y \<or> f x = f y \<and> g x \<le> g y) (sort_key f ys)"
  using assms
proof (induction ys)
  case (Cons y ys)
  have ins: "sorted_wrt (\<lambda>x y. f x < f y \<or> f x = f y \<and> g x \<le> g y) (insort_key f y zs)"
    if "sorted_wrt (\<lambda>x y. f x < f y \<or> f x = f y \<and> g x \<le> g y) zs" "\<forall>z \<in> set zs. g y \<le> g z" for zs
    using that by (induction zs) (auto simp: set_insort_key)
  show ?case using Cons by (auto intro!: ins)
qed simp

lemma sorted_wrt_sort_key: "sorted_wrt (\<lambda>x y. f x \<le> f y) (sort_key f xs)"
  using sorted_sort_key [of f xs] unfolding sorted_map .

lemmas sort_key_twice = sort_key_lex [OF sorted_wrt_sort_key]

definition ProductObject :: "sql_row \<Rightarrow> product_row option" where
  "ProductObject r =
     do {
       u \<leftarrow> uuid_value (map_of r ''id'');
       sh \<leftarrow> uuid_value (map_of r ''shop_id'');
       n \<leftarrow> text_value (map_of r ''name'');
       sku \<leftarrow> text_value (map_of r ''sku'');
       c \<leftarrow> money (map_of r ''price'');
       t \<leftarrow> (case map_of r ''created_at'' of Some (STime t) \<Rightarrow> Some t | _ \<Rightarrow> None);
       Some \<lparr>p_id = u, p_shop_id = sh, p_name = n, p_sku = sku, p_price = c, p_created = t\<rparr>
     }"

lemma products_fetched:
  assumes "list_products sid w = (Inr ps, w')"
  shows "fetches E U (work w) (ProductSQL LIST_BY_SHOP) (shop_param sid) ProductObject ps"
proof (rule fetches_sorted)
  let ?s = list_by_shop
  let ?X = "query_env E U (work w) (shop_param sid)"
  let ?row = "\<lambda>p. [qualify ''products'' (product_columns U p)]"
  have ps: "ps = sort_key (\<lambda>p. - p_created p) (sort_key (\<lambda>p. - uint (p_id p))
      (filter (\<lambda>p. p_shop_id p = sid) (products (work w))))"
    using assms by (auto simp: list_products_def)
  show "execute_sql E U (work w) (ProductSQL LIST_BY_SHOP) (shop_param sid) rs \<longleftrightarrow> select_answer ?X ?s rs" for rs
    by (simp add: execute_sql_def sql_files_def)
  have "select_groups ?X ?s = map ?row (filter (\<lambda>p. p_shop_id p = sid) (products (work w)))"
    by (subst ungrouped)
      (simp_all add: list_by_shop_def plain_select_def select_columns_def filter_map o_def sql_rows bound_def shop_param_def)
  then show "mset (map ?row ps) = mset (select_groups ?X ?s)" by (simp add: ps)
  have k: "order_keys ?X ?s (?row p) = [STime (p_created p), SUuid (p_id p)]" for p
    by (simp add: order_keys_def list_by_shop_def plain_select_def out_row_def select_columns_def group_value_def sql_rows)
  show "sorted_wrt (keys_le (map snd (q_order ?s))) (map (order_keys ?X ?s) (map ?row ps))"
    unfolding ps sorted_wrt_map k
    by (rule sorted_wrt_mono_rel [OF _ sort_key_twice])
      (auto simp: list_by_shop_def plain_select_def value_before_def word_le_def word_less_def)
  show "map ProductObject (limited ?X ?s (map (out_row ?X ?s) (map ?row ps))) = map Some ps"
    by (simp add: limited_def list_by_shop_def plain_select_def out_row_def select_columns_def group_value_def sql_rows
        ProductObject_def o_def)
qed

subsection \<open>Products by similarity\<close>

definition search_params :: "'z db_env_scheme \<Rightarrow> uuid \<Rightarrow> string \<Rightarrow> nat \<Rightarrow> (string \<times> db_value) list" where
  "search_params E sid query lmt =
     [(''shop_id'', SUuid sid), (''search_term'', SText (lower (strip query))),
      (''min_threshold'', SScore (product_match_threshold (cfg E))), (''limit'', SInt (int lmt))]"

text \<open>The schema of a match refuses a score outside of 0 and 1.\<close>

definition ScoredProductMatch :: "sql_row \<Rightarrow> scored_match option" where
  "ScoredProductMatch r =
     do {
       u \<leftarrow> uuid_value (map_of r ''id'');
       sh \<leftarrow> uuid_value (map_of r ''shop_id'');
       n \<leftarrow> text_value (map_of r ''name'');
       sku \<leftarrow> text_value (map_of r ''sku'');
       c \<leftarrow> money (map_of r ''price'');
       v \<leftarrow> (case map_of r ''similarity_score'' of
               Some (SScore v) \<Rightarrow> if 0 \<le> v \<and> v \<le> 1 then Some v else None | _ \<Rightarrow> None);
       Some \<lparr>sm_id = u, sm_shop_id = sh, sm_name = n, sm_sku = sku, sm_price = c, similarity_score = v\<rparr>
     }"

lemma take_sorted_answer:
  assumes "\<And>rs. execute_sql E U d path ps rs \<longleftrightarrow> select_answer X s rs"
    "mset gs = mset (select_groups X s)" "sorted_wrt (keys_le (map snd (q_order s))) (map (order_keys X s) gs)"
  shows "execute_sql E U d path ps (limited X s (map (out_row X s) gs))"
  using ordered_answer [OF assms(2,3)] assms(1) by blast

lemma matches_fetched:
  "case fst (get_products_by_fuzzy_name E sid query lmt w) of
     Inr ms \<Rightarrow> fetches E U (work w) (ProductSQL GET_BY_FUZZY_SEARCH) (search_params E sid query lmt) ScoredProductMatch ms
   | Inl e \<Rightarrow> \<exists>rs. execute_sql E U (work w) (ProductSQL GET_BY_FUZZY_SEARCH) (search_params E sid query lmt) rs \<and>
       None \<in> set (map ScoredProductMatch rs)"
proof -
  let ?s = find_products_by_fuzzy_search
  let ?X = "query_env E U (work w) (search_params E sid query lmt)"
  let ?row = "\<lambda>p. [qualify ''products'' (product_columns U p)]"
  let ?score = "\<lambda>p. similarity E (p_name_lower p) (lower (strip query))"
  let ?found = "filter (\<lambda>p. p_shop_id p = sid \<and> product_match_threshold (cfg E) \<le> ?score p) (products (work w))"
  let ?best = "sort_key (\<lambda>p. - ?score p) ?found"
  have ex: "execute_sql E U (work w) (ProductSQL GET_BY_FUZZY_SEARCH) (search_params E sid query lmt) rs \<longleftrightarrow>
      select_answer ?X ?s rs" for rs
    by (simp add: execute_sql_def sql_files_def)
  note defs = find_products_by_fuzzy_search_def plain_select_def select_columns_def name_similarity_def sql_rows
    bound_def search_params_def
  have "select_groups ?X ?s = map ?row ?found"
    by (subst ungrouped) (simp_all add: defs filter_map o_def)
  then have m: "mset (map ?row ?best) = mset (select_groups ?X ?s)" by simp
  have k: "order_keys ?X ?s (?row p) = [SScore (?score p)]" for p
    by (simp add: order_keys_def out_row_def group_value_def defs)
  have "sorted_wrt (\<lambda>x y. - ?score x \<le> - ?score y) ?best" by (rule sorted_wrt_sort_key)
  then have "sorted_wrt (keys_le (map snd (q_order ?s))) (map (order_keys ?X ?s) (map ?row ?best))"
    unfolding sorted_wrt_map k
    by (rule sorted_wrt_mono_rel [rotated]) (auto simp: defs value_before_def)
  note ans = take_sorted_answer [OF ex m this]
  have "limited ?X ?s (map (out_row ?X ?s) (map ?row ?best)) = map (out_row ?X ?s \<circ> ?row) (take lmt ?best)"
    by (simp add: limited_def defs take_map)
  note ans = ans [unfolded this]
  have dto: "ScoredProductMatch (out_row ?X ?s (?row p)) =
      (if 0 \<le> ?score p \<and> ?score p \<le> 1 then Some (to_match (?score p) p) else None)" for p
    by (simp add: out_row_def group_value_def ScoredProductMatch_def to_match_def defs)
  show ?thesis
  proof (cases "list_all (\<lambda>p. 0 \<le> ?score p \<and> ?score p \<le> 1) (take lmt ?best)")
    case True
    then have "map ScoredProductMatch (map (out_row ?X ?s \<circ> ?row) (take lmt ?best)) =
        map Some (map (\<lambda>p. to_match (?score p) p) (take lmt ?best))"
      by (auto simp: dto list_all_iff)
    with ans True show ?thesis
      by (auto simp: get_products_by_fuzzy_name_def Let_def fetches_def)
  next
    case False
    then have "None \<in> set (map ScoredProductMatch (map (out_row ?X ?s \<circ> ?row) (take lmt ?best)))"
      by (auto simp: dto list_all_iff image_iff)
    with ans False show ?thesis by (auto simp: get_products_by_fuzzy_name_def Let_def)
  qed
qed

subsection \<open>Products that sell slowly\<close>

definition slow_params :: "uuid \<Rightarrow> time \<Rightarrow> time \<Rightarrow> int \<Rightarrow> nat \<Rightarrow> (string \<times> db_value) list" where
  "slow_params sid t0 t1 most lmt = day_params sid t0 t1 @ [(''max_sales_count'', SInt most), (''limit'', SInt (int lmt))]"

lemma remdups_replicate: "v \<notin> set vs \<Longrightarrow> remdups (replicate (Suc n) v @ vs) = v # remdups vs"
  by (induction n) auto

lemma group_by_concat:
  assumes "distinct (map k xs)" "\<And>x. x \<in> set xs \<Longrightarrow> f x \<noteq> []" "\<And>x r. x \<in> set xs \<Longrightarrow> r \<in> set (f x) \<Longrightarrow> key r = k x"
  shows "group_by key (concat (map f xs)) = map f xs"
proof -
  have keys: "remdups (map key (concat (map f xs))) = map k xs"
    using assms
  proof (induction xs)
    case (Cons x xs)
    have same: "map key (f x) = replicate (length (f x)) (k x)"
      using Cons.prems(3) [of x] by (intro replicate_eqI) auto
    have new: "k x \<notin> set (map key (concat (map f xs)))" using Cons.prems by (fastforce simp: image_iff)
    obtain n where "length (f x) = Suc n" using Cons.prems(2) [of x] by (cases "f x") auto
    with same new remdups_replicate [OF new, of n] Cons show ?case by simp
  qed simp
  have part: "filter (\<lambda>r. key r = k x) (concat (map f xs)) = f x" if "x \<in> set xs" for x
    using assms that
  proof (induction xs)
    case (Cons y ys)
    have no: "filter (\<lambda>r. key r = k x) (concat (map f ys)) = []" if "x = y"
      using that Cons.prems by (fastforce simp: filter_empty_conv image_iff)
    have own: "filter (\<lambda>r. key r = k x) (f y) = (if x = y then f y else [])"
      using Cons.prems by (fastforce simp: filter_empty_conv filter_id_conv)
    show ?case
    proof (cases "x = y")
      case True with no own show ?thesis by simp
    next
      case False with Cons own show ?thesis by simp
    qed
  qed simp
  show ?thesis unfolding group_by_def keys by (auto simp: part)
qed

lemma filter_list: "[x. x \<leftarrow> xs, P x] = filter P xs"
  by (induction xs) auto

lemma concat_filter_list: "concat (map (\<lambda>x. if P x then f x else []) xs) = concat (map f (filter P xs))"
  by (induction xs) auto

lemma concat_map_concat: "concat (map f (concat (map g xs))) = concat (map (\<lambda>x. concat (map f (g x))) xs)"
  by (induction xs) auto

text \<open>The rows the joins make of a product: one for each of its sales, or one without a sale.\<close>

definition stock_scope :: "stamps \<Rightarrow> db \<Rightarrow> product_row \<Rightarrow> sql_scope" where
  "stock_scope U d p =
     (case get_by_product_id (p_id p) d of
        None \<Rightarrow> [] | Some i \<Rightarrow> qualify ''inventory'' (inventory_columns_of U i))"

definition product_scopes :: "stamps \<Rightarrow> db \<Rightarrow> sale_row list \<Rightarrow> product_row \<Rightarrow> sql_scope list" where
  "product_scopes U d ss p =
     (let q = qualify ''products'' (product_columns U p) in
      if ss = [] then [q @ stock_scope U d p]
      else map (\<lambda>s. q @ qualify ''sales'' (sale_columns s) @ stock_scope U d p) ss)"

lemma slow_rows:
  assumes "db_ok d" "X = query_env E U d (slow_params sid t0 t1 most lmt)"
  shows "filter (\<lambda>r. passes X [r] r (q_where slow_moving_products)) (from_rows X (q_from slow_moving_products)) =
    concat (map (\<lambda>p. product_scopes U d (filter (\<lambda>s. s_product_id s = p_id p) (sales_between sid t0 t1 d)) p)
      (filter (\<lambda>p. p_shop_id p = sid) (products d)))"
proof -
  let ?q = "\<lambda>p. qualify ''products'' (product_columns U p)"
  let ?S = "\<lambda>p. filter (\<lambda>s. s_product_id s = p_id p) (sales_between sid t0 t1 d)"
  let ?on = "[(CEq, ECol ''inventory'' ''product_id'', ECol ''products'' ''id'')]"
  note ps = assms(2) slow_params_def day_params_def bound_def
  have sold: "join_rows X (?q p) ''sales'' ''sales'' ((CEq, ECol ''sales'' ''product_id'', ECol ''products'' ''id'') # in_the_day ''sales'') =
      map (\<lambda>s. ?q p @ qualify ''sales'' (sale_columns s)) (?S p)" for p
    by (simp add: join_rows_def filter_map o_def sql_rows in_the_day_def ps sales_between_def conj_ac)
  have "distinct (map i_product_id (inventory d))"
    using assms by (simp add: db_ok_def constraints_def inventory_constraints_def)
  note one = filter_distinct_find [OF this, folded get_by_product_id_def]
  have stocked: "(if join_rows X l ''inventory'' ''inventory'' ?on = [] then [l] else join_rows X l ''inventory'' ''inventory'' ?on) =
      [l @ stock_scope U d p]" if "l = ?q p \<or> l = ?q p @ qualify ''sales'' (sale_columns s)" for l p s
  proof -
    have "join_rows X l ''inventory'' ''inventory'' ?on =
        map (\<lambda>i. l @ qualify ''inventory'' (inventory_columns_of U i)) (filter (\<lambda>i. i_product_id i = p_id p) (inventory d))"
      using that by (auto simp: join_rows_def filter_map o_def sql_rows ps)
    then show ?thesis unfolding one by (simp add: stock_scope_def split: option.split)
  qed
  have rows: "from_rows X (q_from slow_moving_products) = concat (map (\<lambda>p. product_scopes U d (?S p) p) (products d))"
  proof -
    let ?J = "\<lambda>p. if ?S p = [] then [?q p] else map (\<lambda>s. ?q p @ qualify ''sales'' (sale_columns s)) (?S p)"
    have all: "concat (map (\<lambda>l. if join_rows X l ''inventory'' ''inventory'' ?on = [] then [l] else join_rows X l ''inventory'' ''inventory'' ?on) (?J p)) =
        product_scopes U d (?S p) p" for p
    proof -
      have "concat (map (\<lambda>l. if join_rows X l ''inventory'' ''inventory'' ?on = [] then [l] else join_rows X l ''inventory'' ''inventory'' ?on) (?J p)) =
          concat (map (\<lambda>l. [l @ stock_scope U d p]) (?J p))"
      proof (intro arg_cong [of _ _ concat] map_cong refl)
        fix l assume "l \<in> set (?J p)"
        then obtain s where "l = ?q p \<or> l = ?q p @ qualify ''sales'' (sale_columns s)" by (auto split: if_splits)
        then show "(if join_rows X l ''inventory'' ''inventory'' ?on = [] then [l] else join_rows X l ''inventory'' ''inventory'' ?on) =
            [l @ stock_scope U d p]" by (rule stocked)
      qed
      then show ?thesis by (simp add: product_scopes_def Let_def o_def)
    qed
    have tab: "se_table X ''products'' = map (product_columns U) (products d)" by (simp add: assms(2))
    have "from_rows X (q_from slow_moving_products) =
        concat (map (\<lambda>l. if join_rows X l ''inventory'' ''inventory'' ?on = [] then [l] else join_rows X l ''inventory'' ''inventory'' ?on)
          (concat (map ?J (products d))))"
      by (simp add: slow_moving_products_def sold tab o_def cong: if_cong)
    also have "\<dots> = concat (map (\<lambda>p. concat (map (\<lambda>l. if join_rows X l ''inventory'' ''inventory'' ?on = [] then [l]
        else join_rows X l ''inventory'' ''inventory'' ?on) (?J p))) (products d))"
      by (rule concat_map_concat)
    finally show ?thesis unfolding all .
  qed
  have "passes X [r] r (q_where slow_moving_products) \<longleftrightarrow> p_shop_id p = sid"
    if "r \<in> set (product_scopes U d (?S p) p)" for r p
    using that by (auto simp: product_scopes_def Let_def slow_moving_products_def sql_rows ps split: if_splits)
  then have "filter (\<lambda>r. passes X [r] r (q_where slow_moving_products)) (product_scopes U d (?S p) p) =
      (if p_shop_id p = sid then product_scopes U d (?S p) p else [])" for p
    by (cases "p_shop_id p = sid") (auto simp: filter_empty_conv filter_id_conv)
  then show ?thesis unfolding rows by (simp add: filter_concat o_def concat_filter_list)
qed

lemma sort_key_map: "sort_key f (map g xs) = map g (sort_key (\<lambda>x. f (g x)) xs)"
proof (induction xs)
  case (Cons x xs)
  have "insort_key f (g x) (map g ys) = map g (insort_key (\<lambda>x. f (g x)) x ys)" for ys
    by (induction ys) auto
  with Cons show ?case by simp
qed simp

lemma slow_fetched:
  assumes "db_ok d"
  shows "fetches E U d (SalesSQL GET_SLOW_MOVING_PRODUCTS) (slow_params sid t0 t1 most lmt) SlowMovingProductDTO
    (get_slow_moving_products sid t0 t1 most lmt d)"
proof (rule fetches_sorted)
  let ?s = slow_moving_products
  let ?X = "query_env E U d (slow_params sid t0 t1 most lmt)"
  let ?S = "\<lambda>p. filter (\<lambda>s. s_product_id s = p_id p) (sales_between sid t0 t1 d)"
  let ?G = "\<lambda>p. product_scopes U d (?S p) p"
  let ?own = "filter (\<lambda>p. p_shop_id p = sid) (products d)"
  let ?units = "\<lambda>p. sum_list (map s_quantity (?S p))"
  let ?stock = "\<lambda>p. case get_by_product_id (p_id p) d of None \<Rightarrow> 0 | Some i \<Rightarrow> i_quantity i"
  let ?dto = "\<lambda>p. \<lparr>sl_product_id = p_id p, sl_name = p_name p, sl_units = ?units p, sl_stock = ?stock p, sl_price = p_price p\<rparr>"
  let ?level = "\<lambda>p. case get_by_product_id (p_id p) d of None \<Rightarrow> SNull | Some i \<Rightarrow> SInt (i_quantity i)"
  let ?key = "\<lambda>r. map (eval_expr ?X [r] r) (q_group ?s)"
  note ps = slow_params_def day_params_def bound_def
  have level: "lookup_column ''inventory'' ''quantity'' (stock_scope U d p) = ?level p" for p
    by (simp add: stock_scope_def sql_rows split: option.split)
  have cols: "lookup_column ''products'' n (r) = (case map_of (product_columns U p) n of None \<Rightarrow> lookup_column ''products'' n (stock_scope U d p) | Some v \<Rightarrow> v)"
    "lookup_column ''inventory'' ''quantity'' r = ?level p"
    if "r \<in> set (?G p)" for r p n
    using that level by (auto simp: product_scopes_def Let_def split: if_splits option.split)
  have key: "?key r = [SUuid (p_id p), SText (p_name p), SMoney (p_price p), ?level p]" if "r \<in> set (?G p)" for r p
    using cols [OF that] by (simp add: slow_moving_products_def product_columns_def)
  have "distinct (map p_id (products d))"
    using assms by (simp add: db_ok_def constraints_def product_constraints_def)
  then have dist: "distinct (map (\<lambda>p. [SUuid (p_id p), SText (p_name p), SMoney (p_price p), ?level p]) ?own)"
    by (auto simp: distinct_map inj_on_def)
  have "row_groups ?X ?s = group_by ?key (concat (map ?G ?own))"
    by (subst grouped) (simp add: slow_moving_products_def, simp only: slow_rows [OF assms refl])
  also have "\<dots> = map ?G ?own"
    by (rule group_by_concat [OF dist _ key]) (auto simp: product_scopes_def Let_def)
  finally have groups: "row_groups ?X ?s = map ?G ?own" .
  have lead: "leader (?G p) \<in> set (?G p)" for p
    by (cases "?S p") (auto simp: product_scopes_def Let_def)
  have units: "group_value ?X (?G p) units_sum = SInt (?units p)" for p
  proof (cases "?S p = []")
    case True
    have "lookup_column ''sales'' ''quantity'' (stock_scope U d p) = SNull"
      by (simp add: stock_scope_def split: option.split)
    with True show ?thesis by (simp add: group_value_def units_sum_def product_scopes_def Let_def sum_values_def)
  next
    case False
    then show ?thesis
      by (simp add: group_value_def units_sum_def product_scopes_def Let_def o_def sale_columns_def sum_values_simps)
  qed
  have out: "out_row ?X ?s (?G p) = [(''product_id'', SUuid (p_id p)), (''product_name'', SText (p_name p)),
      (''unit_price'', SMoney (p_price p)), (''units_sold'', SInt (?units p)), (''current_stock'', SInt (?stock p))]" for p
    using cols [OF lead [of p]] units [of p]
    by (simp add: out_row_def slow_moving_products_def product_columns_def group_value_def split: option.split)
  have keys: "order_keys ?X ?s (?G p) = [SInt (?units p), SText (p_name p)]" for p
    by (simp add: order_keys_def out, simp add: slow_moving_products_def)
  let ?chosen = "sort_key ?units (sort_key p_name (filter (\<lambda>p. ?units p \<le> most) ?own))"
  have having: "passes ?X (?G p) (leader (?G p)) (q_having ?s) \<longleftrightarrow> ?units p \<le> most" for p
    using units [of p] by (simp add: slow_moving_products_def group_value_def ps)
  then have "select_groups ?X ?s = map ?G (filter (\<lambda>p. ?units p \<le> most) ?own)"
    unfolding select_groups_def groups by (simp add: filter_map o_def)
  then show "mset (map ?G ?chosen) = mset (select_groups ?X ?s)" by simp
  show "execute_sql E U d (SalesSQL GET_SLOW_MOVING_PRODUCTS) (slow_params sid t0 t1 most lmt) rs \<longleftrightarrow>
      select_answer ?X ?s rs" for rs
    by (simp add: execute_sql_def sql_files_def)
  show "sorted_wrt (keys_le (map snd (q_order ?s))) (map (order_keys ?X ?s) (map ?G ?chosen))"
    unfolding sorted_wrt_map keys
    by (rule sorted_wrt_mono_rel [OF _ sort_key_twice])
      (auto simp: slow_moving_products_def value_before_def)
  have model: "get_slow_moving_products sid t0 t1 most lmt d = take lmt (map ?dto ?chosen)"
    unfolding get_slow_moving_products_def Let_def filter_list filter_map_list [symmetric]
    by (simp add: filter_map o_def sort_key_map)
  have "limited ?X ?s xs = take lmt xs" for xs :: "sql_row list"
    by (simp add: limited_def slow_moving_products_def ps)
  then show "map SlowMovingProductDTO (limited ?X ?s (map (out_row ?X ?s) (map ?G ?chosen))) =
      map Some (get_slow_moving_products sid t0 t1 most lmt d)"
    by (simp add: model take_map out o_def SlowMovingProductDTO_def has_fields_def insert_commute)
qed

subsection \<open>Products that sell best\<close>

text \<open>The product of a sale, which the schema makes exist.\<close>

definition product_of :: "db \<Rightarrow> sale_row \<Rightarrow> product_row" where
  "product_of d s = the (product_by_id (s_product_id s) d)"

lemma product_of_sale:
  assumes "db_ok d" "s \<in> set (sales d)"
  shows "filter (\<lambda>p. p_id p = s_product_id s) (products d) = [product_of d s]"
    "p_id (product_of d s) = s_product_id s" "product_of d s \<in> set (products d)"
proof -
  have "distinct (map p_id (products d))" "s_product_id s \<in> set (map p_id (products d))"
    using assms by (auto simp: db_ok_def constraints_def product_constraints_def sale_constraints_def list_all_iff)
  moreover from this have "product_by_id (s_product_id s) d \<noteq> None"
    by (auto simp: product_by_id_def find_None_iff)
  moreover note filter_distinct_find [OF calculation(1), of "s_product_id s"]
  ultimately show f: "filter (\<lambda>p. p_id p = s_product_id s) (products d) = [product_of d s]"
    by (auto simp: product_of_def product_by_id_def split: option.splits)
  have "product_of d s \<in> set (filter (\<lambda>p. p_id p = s_product_id s) (products d))" unfolding f by simp
  then show "p_id (product_of d s) = s_product_id s" "product_of d s \<in> set (products d)" by simp_all
qed

definition sold_products :: "sale_row list \<Rightarrow> db \<Rightarrow> product_row list" where
  "sold_products ss d = filter (\<lambda>p. p_id p \<in> set (map s_product_id ss)) (products d)"

definition sale_scope :: "stamps \<Rightarrow> db \<Rightarrow> sale_row \<Rightarrow> sql_scope" where
  "sale_scope U d s = qualify ''s'' (sale_columns s) @ qualify ''p'' (product_columns U (product_of d s))"

definition sales_of :: "product_row \<Rightarrow> sale_row list \<Rightarrow> sale_row list" where
  "sales_of p ss = filter (\<lambda>s. s_product_id s = p_id p) ss"

lemma ranked_groups:
  assumes "db_ok d"
  shows "mset (row_groups (query_env E U d (day_params sid t0 t1)) (ranked_products c n)) =
    mset (map (\<lambda>p. map (sale_scope U d) (sales_of p (sales_between sid t0 t1 d))) (sold_products (sales_between sid t0 t1 d) d))"
proof -
  let ?X = "query_env E U d (day_params sid t0 t1)"
  let ?s = "ranked_products c n"
  let ?ss = "sales_between sid t0 t1 d"
  let ?sold = "sold_products ?ss d"
  let ?key = "\<lambda>r. map (eval_expr ?X [r] r) (q_group ?s)"
  let ?K = "\<lambda>p. [SUuid (p_id p), SText (p_name p)]"
  have in_table: "s \<in> set (sales d)" if "s \<in> set ?ss" for s using that by (simp add: sales_between_def)
  note own = product_of_sale [OF assms in_table]
  have "join_rows ?X (qualify ''s'' (sale_columns s)) ''products'' ''p'' [(CEq, ECol ''p'' ''id'', ECol ''s'' ''product_id'')] = [sale_scope U d s]"
    if "s \<in> set (sales d)" for s
  proof -
    have "join_rows ?X (qualify ''s'' (sale_columns s)) ''products'' ''p'' [(CEq, ECol ''p'' ''id'', ECol ''s'' ''product_id'')] =
        map (\<lambda>p. qualify ''s'' (sale_columns s) @ qualify ''p'' (product_columns U p)) (filter (\<lambda>p. p_id p = s_product_id s) (products d))"
      by (simp add: join_rows_def filter_map o_def sql_rows)
    then show ?thesis unfolding product_of_sale(1) [OF assms that] by (simp add: sale_scope_def)
  qed
  then have "from_rows ?X (q_from ?s) = map (sale_scope U d) (sales d)"
    by (simp add: ranked_products_def plain_select_def o_def cong: map_cong)
  then have rows: "filter (\<lambda>r. passes ?X [r] r (q_where ?s)) (from_rows ?X (q_from ?s)) = map (sale_scope U d) ?ss"
    by (simp add: ranked_products_def plain_select_def filter_map o_def sale_scope_def in_the_day_admits sales_between_def)
  have key: "?key (sale_scope U d s) = ?K (product_of d s)" if "s \<in> set ?ss" for s
    using own [OF that] by (simp add: ranked_products_def plain_select_def sale_scope_def sql_rows)
  have dist: "distinct (map p_id ?sold)"
    using assms by (simp add: sold_products_def db_ok_def constraints_def product_constraints_def distinct_map_filter)
  have "row_groups ?X ?s = group_by ?key (map (sale_scope U d) ?ss)"
    by (subst grouped) (simp add: ranked_products_def plain_select_def, simp only: rows)
  moreover have "mset (group_by ?key (map (sale_scope U d) ?ss)) =
      mset (map (\<lambda>v. filter (\<lambda>r. ?key r = v) (map (sale_scope U d) ?ss)) (map ?K ?sold))"
  proof (rule group_by_keys)
    show "distinct (map ?K ?sold)" using dist by (auto simp: distinct_map inj_on_def)
    have "set ?sold = product_of d ` set ?ss"
    proof (intro equalityI subsetI)
      fix p assume "p \<in> set ?sold"
      then obtain s where s: "s \<in> set ?ss" "p_id p = s_product_id s" "p \<in> set (products d)" by (auto simp: sold_products_def)
      then have "p \<in> set (filter (\<lambda>p. p_id p = s_product_id s) (products d))" by simp
      with own(1) [OF s(1)] s(1) show "p \<in> product_of d ` set ?ss" by simp
    qed (use own(2,3) in \<open>auto simp: sold_products_def\<close>)
    then show "set (map ?K ?sold) = ?key ` set (map (sale_scope U d) ?ss)"
      by (simp add: image_image key cong: image_cong)
  qed
  moreover have "filter (\<lambda>r. ?key r = ?K p) (map (sale_scope U d) ?ss) = map (sale_scope U d) (sales_of p ?ss)"
    if "p \<in> set ?sold" for p
  proof -
    have "?K (product_of d s) = ?K p \<longleftrightarrow> s_product_id s = p_id p" if s: "s \<in> set ?ss" for s
    proof
      assume "s_product_id s = p_id p"
      with \<open>p \<in> set ?sold\<close> have "p \<in> set (filter (\<lambda>p. p_id p = s_product_id s) (products d))" by (simp add: sold_products_def)
      with own(1) [OF s] show "?K (product_of d s) = ?K p" by simp
    qed (use own(2) [OF s] in simp)
    with key show ?thesis
      unfolding sales_of_def filter_map by (intro arg_cong [of _ _ "map (sale_scope U d)"] filter_cong refl) simp
  qed
  ultimately show ?thesis by (auto cong: map_cong simp: o_def intro!: arg_cong [of _ _ mset])
qed

lemma dense_rank_first: "dense_rank desc vs v = 1 \<longleftrightarrow> (\<forall>u \<in> set vs. \<not> value_before desc u v)"
  by (auto simp: dense_rank_def filter_empty_conv)

lemma dense_rank_cong: "set vs = set us \<Longrightarrow> dense_rank desc vs v = dense_rank desc us v"
  by (simp add: dense_rank_def length_remdups_card_conv)

lemma sum_amounts:
  assumes "V = SInt \<or> V = SMoney" "xs \<noteq> []"
  shows "sum_values (map (\<lambda>x. V (f x)) xs) = V (sum_list (map f xs))"
  using assms by (auto simp: sum_values_simps)

definition ranked_row :: "string \<Rightarrow> (int \<Rightarrow> db_value) \<Rightarrow> (product_row \<Rightarrow> int) \<Rightarrow> product_row list \<Rightarrow> product_row \<Rightarrow> sql_row" where
  "ranked_row n V amount ps p =
     [(''product_id'', SUuid (p_id p)), (''product_name'', SText (p_name p)), (n, V (amount p)),
      (''rank'', SInt (dense_rank True (map (\<lambda>p. V (amount p)) ps) (V (amount p))))]"

lemma ranked_answer:
  assumes "db_ok d" "V = SInt \<or> V = SMoney" "\<And>s. map_of (sale_columns s) c = Some (V (f s))"
    and ss_def: "ss = sales_between sid t0 t1 d"
  shows "select_answer (query_env E U d (day_params sid t0 t1)) (ranked_products c n) ts \<longleftrightarrow>
    mset ts = mset (map (ranked_row n V (\<lambda>p. sum_list (map f (sales_of p ss))) (sold_products ss d)) (sold_products ss d))"
proof -
  let ?X = "query_env E U d (day_params sid t0 t1)"
  let ?s = "ranked_products c n"
  let ?sold = "sold_products ss d"
  let ?G = "\<lambda>p. map (sale_scope U d) (sales_of p ss)"
  let ?total = "\<lambda>p. sum_list (map f (sales_of p ss))"
  have sel: "select_groups ?X ?s = row_groups ?X ?s"
    by (simp add: select_groups_def ranked_products_def plain_select_def)
  note groups = ranked_groups [OF assms(1), of E U sid t0 t1 c n, folded ss_def]
  have own: "p_id (product_of d s) = s_product_id s" if "s \<in> set ss" for s
    using product_of_sale(2) [OF assms(1)] that by (simp add: ss_def sales_between_def)
  have some: "sales_of p ss \<noteq> []" if "p \<in> set ?sold" for p
    using that by (auto simp: sold_products_def sales_of_def filter_empty_conv)
  have total: "group_value ?X (?G p) (ESum (ECol ''s'' c)) = V (?total p)" if "p \<in> set ?sold" for p
    using sum_amounts [OF assms(2) some [OF that], of f] assms(3)
    by (simp add: group_value_def o_def sale_scope_def)
  have named: "group_value ?X (?G p) (ECol ''s'' ''product_id'') = SUuid (p_id p)"
    "group_value ?X (?G p) (ECol ''p'' ''name'') = SText (p_name p)" if "p \<in> set ?sold" for p
  proof -
    from some [OF that] obtain s r where s: "sales_of p ss = s # r" by (cases "sales_of p ss") auto
    then have "s \<in> set (sales_of p ss)" by simp
    then have "s \<in> set ss" and "s_product_id s = p_id p" by (simp_all add: sales_of_def)
    from this(1) have "s \<in> set (sales d)" by (simp add: ss_def sales_between_def)
    note one = product_of_sale(1) [OF assms(1) this]
    have "p \<in> set (filter (\<lambda>p. p_id p = s_product_id s) (products d))"
      using that \<open>s_product_id s = p_id p\<close> by (simp add: sold_products_def)
    then have "product_of d s = p" unfolding one by simp
    with s \<open>s_product_id s = p_id p\<close>
    show "group_value ?X (?G p) (ECol ''s'' ''product_id'') = SUuid (p_id p)"
      "group_value ?X (?G p) (ECol ''p'' ''name'') = SText (p_name p)"
      by (simp_all add: group_value_def sale_scope_def sql_rows)
  qed
  have "set (row_groups ?X ?s) = ?G ` set ?sold" using groups by (metis set_map set_mset_mset)
  then have vals: "set (map (\<lambda>h. group_value ?X h (ESum (ECol ''s'' c))) (row_groups ?X ?s)) = set (map (\<lambda>p. V (?total p)) ?sold)"
    by (simp add: image_image total cong: image_cong)
  have "out_row ?X ?s (?G p) = ranked_row n V ?total ?sold p" if "p \<in> set ?sold" for p
    using total [OF that] named [OF that] dense_rank_cong [OF vals]
    by (simp add: out_row_def sel ranked_row_def, simp add: ranked_products_def plain_select_def)
  moreover have "mset (map (out_row ?X ?s) (select_groups ?X ?s)) = mset (map (\<lambda>p. out_row ?X ?s (?G p)) ?sold)"
    unfolding sel mset_map groups by (simp add: image_mset.compositionality o_def)
  ultimately have "mset (map (out_row ?X ?s) (select_groups ?X ?s)) = mset (map (ranked_row n V ?total ?sold) ?sold)"
    by (simp cong: map_cong)
  then show ?thesis by (subst unordered_answer) (simp_all add: ranked_products_def plain_select_def)
qed

definition value_of :: "sql_row \<Rightarrow> string \<Rightarrow> db_value" where
  "value_of r c = (case map_of r c of None \<Rightarrow> SNull | Some v \<Rightarrow> v)"

lemma top_answer:
  "select_answer (with_table t ts X) (top_ranked t n out) rs \<longleftrightarrow>
     mset rs = mset (map (\<lambda>r. [(''product_id'', value_of r ''product_id''), (''name'', value_of r ''product_name''), (out, value_of r n)])
       (filter (\<lambda>r. sql_compare CEq (value_of r ''rank'') (SInt 1) = Some True) ts))"
proof -
  have "select_groups (with_table t ts X) (top_ranked t n out) =
      map (\<lambda>r. [qualify t r]) (filter (\<lambda>r. sql_compare CEq (value_of r ''rank'') (SInt 1) = Some True) ts)"
    by (subst ungrouped) (simp_all add: top_ranked_def plain_select_def with_table_def filter_map o_def value_of_def)
  then show ?thesis
    by (subst unordered_answer)
      (simp_all add: top_ranked_def plain_select_def out_row_def group_value_def o_def value_of_def)
qed

lemma first_sold:
  "first_ranked (measure_sums f ss d) =
     map (\<lambda>p. (p, sum_list (map f (sales_of p ss))))
       (filter (\<lambda>p. \<forall>p' \<in> set (sold_products ss d). sum_list (map f (sales_of p' ss)) \<le> sum_list (map f (sales_of p ss)))
         (sold_products ss d))"
proof -
  have "measure_sums f ss d = map (\<lambda>p. (p, sum_list (map f (sales_of p ss)))) (sold_products ss d)"
    unfolding measure_sums_def filter_list filter_map_list [symmetric] sales_of_def sold_products_def ..
  then show ?thesis by (simp add: first_ranked_def filter_map o_def)
qed

lemma any_order:
  "(\<exists>ts. mset ts = mset us \<and> mset rs = mset (map h (filter Q ts))) \<longleftrightarrow> mset rs = mset (map h (filter Q us))"
  by auto

lemma top_fetched:
  assumes "db_ok d" "V = SInt \<or> V = SMoney" "\<And>s. map_of (sale_columns s) c = Some (V (f s))"
    "n \<notin> {''product_id'', ''product_name'', ''rank''}"
    "\<And>rs. execute_sql E U d path (day_params sid t0 t1) rs \<longleftrightarrow>
       query_answer (query_env E U d (day_params sid t0 t1)) \<lparr>q_with = Some (t, ranked_products c n), q_main = top_ranked t n out\<rparr> rs"
    "\<And>p k. dto [(''product_id'', SUuid (p_id p)), (''name'', SText (p_name p)), (out, V k)] = Some (mk p k)"
  shows "fetches E U d path (day_params sid t0 t1) dto xs \<longleftrightarrow>
    mset xs = mset (map (\<lambda>(p, k). mk p k) (first_ranked (measure_sums f (sales_between sid t0 t1 d) d)))"
proof -
  let ?ss = "sales_between sid t0 t1 d"
  let ?sold = "sold_products ?ss d"
  let ?sum = "\<lambda>p. sum_list (map f (sales_of p ?ss))"
  let ?R = "ranked_row n V ?sum ?sold"
  let ?H = "\<lambda>r. [(''product_id'', value_of r ''product_id''), (''name'', value_of r ''product_name''), (out, value_of r n)]"
  let ?P = "\<lambda>r. sql_compare CEq (value_of r ''rank'') (SInt 1) = Some True"
  let ?best = "filter (\<lambda>p. \<forall>p' \<in> set ?sold. ?sum p' \<le> ?sum p) ?sold"
  have le: "value_le (V a) (V b) \<longleftrightarrow> a \<le> b" for a b using assms(2) by auto
  have P: "?P (?R p) \<longleftrightarrow> (\<forall>p' \<in> set ?sold. ?sum p' \<le> ?sum p)" for p
    using assms(4) by (auto simp: ranked_row_def value_of_def dense_rank_first value_before_def le)
  have H: "?H (?R p) = [(''product_id'', SUuid (p_id p)), (''name'', SText (p_name p)), (out, V (?sum p))]" for p
    using assms(4) by (simp add: ranked_row_def value_of_def)
  have outs: "map ?H (filter ?P (map ?R ?sold)) =
      map (\<lambda>p. [(''product_id'', SUuid (p_id p)), (''name'', SText (p_name p)), (out, V (?sum p))]) ?best"
    by (simp add: filter_map o_def P H)
  have "execute_sql E U d path (day_params sid t0 t1) rs \<longleftrightarrow> mset rs = mset (map ?H (filter ?P (map ?R ?sold)))" for rs
    unfolding assms(5) query_answer_def
    by (simp only: sql_query.select_convs option.case prod.case ranked_answer [OF assms(1-3) refl] top_answer any_order)
  note any = fetches_any_order [OF this [unfolded outs]]
  have "fetches E U d path (day_params sid t0 t1) dto xs \<longleftrightarrow> mset xs = mset (map (\<lambda>p. mk p (?sum p)) ?best)"
    by (rule any) (simp add: assms(6) o_def image_mset.compositionality)
  then show ?thesis by (simp add: first_sold o_def)
qed

lemma top_units_fetched:
  assumes "db_ok d"
  shows "fetches E U d (SalesSQL GET_TOP_MOVING_PRODUCTS_BY_UNITS) (day_params sid t0 t1) TopProductByUnits_from_row xs \<longleftrightarrow>
    mset xs = mset (fst (get_top_moving_products sid t0 t1 d))"
proof -
  have "fetches E U d (SalesSQL GET_TOP_MOVING_PRODUCTS_BY_UNITS) (day_params sid t0 t1) TopProductByUnits_from_row xs \<longleftrightarrow>
      mset xs = mset (map (\<lambda>(p, k). \<lparr>tu_product_id = p_id p, tu_name = p_name p, tu_units = k\<rparr>)
        (first_ranked (measure_sums s_quantity (sales_between sid t0 t1 d) d)))"
    by (rule top_fetched [OF assms, where V = SInt])
      (simp_all add: sale_columns_def execute_sql_def sql_files_def top_moving_products_by_units_def TopProductByUnits_from_row_def)
  then show ?thesis by (simp add: get_top_moving_products_def Let_def)
qed

lemma top_revenue_fetched:
  assumes "db_ok d"
  shows "fetches E U d (SalesSQL GET_TOP_MOVING_PRODUCTS_BY_REVENUE) (day_params sid t0 t1) TopProductByRevenue_from_row xs \<longleftrightarrow>
    mset xs = mset (snd (get_top_moving_products sid t0 t1 d))"
proof -
  have "fetches E U d (SalesSQL GET_TOP_MOVING_PRODUCTS_BY_REVENUE) (day_params sid t0 t1) TopProductByRevenue_from_row xs \<longleftrightarrow>
      mset xs = mset (map (\<lambda>(p, k). \<lparr>tr_product_id = p_id p, tr_name = p_name p, tr_revenue = k\<rparr>)
        (first_ranked (measure_sums s_total (sales_between sid t0 t1 d) d)))"
    by (rule top_fetched [OF assms, where V = SMoney])
      (simp_all add: sale_columns_def execute_sql_def sql_files_def top_moving_products_by_revenue_def TopProductByRevenue_from_row_def)
  then show ?thesis by (simp add: get_top_moving_products_def Let_def)
qed

subsection \<open>Adding stock\<close>

text \<open>
  The row the statement proposes takes a random identifier, the threshold of the schema's default
  and the time of the statement; the check of the quantity is made before the conflict is found.
\<close>

definition stock_params :: "uuid \<Rightarrow> int \<Rightarrow> (string \<times> db_value) list" where
  "stock_params pid q = [(''product_id'', SUuid pid), (''quantity'', SInt q)]"

definition inventory_defaults :: "uuid \<Rightarrow> time \<Rightarrow> sql_row" where
  "inventory_defaults u t =
     [(''id'', SUuid u), (''product_id'', SNull), (''quantity'', SInt 0), (''low_stock_threshold'', SInt 5),
      (''last_updated'', STime t)]"

definition execute_upsert ::
  "'z db_env_scheme \<Rightarrow> stamps \<Rightarrow> db \<Rightarrow> string \<Rightarrow> (string \<times> db_value) list \<Rightarrow> sql_row \<Rightarrow> (sql_row list \<times> sql_row) option" where
  "execute_upsert E U d path ps defaults =
     (case sql_files path of
        None \<Rightarrow> None
      | Some text \<Rightarrow> map_option (upsert_rows (query_env E U d ps) defaults) (read_upsert text))"

lemma stock_added:
  assumes "db_ok (work w)" "add_stock_row E pid q w = (Inr i, w')"
  shows "\<exists>T r. execute_upsert E U (work w) (InventorySQL ADD_STOCK) (stock_params pid q)
      (inventory_defaults (fst (next_uuid E w)) (now E)) = Some (T, r) \<and>
    InventoryObject r = Some i \<and> map InventoryObject T = map Some (inventory (work w'))"
proof -
  let ?d = "work w"
  let ?X = "query_env E U ?d (stock_params pid q)"
  let ?u = add_stock_statement
  let ?p = "proposed_row ?X (inventory_defaults (fst (next_uuid E w)) (now E)) ?u"
  let ?hit = "\<lambda>r. map_of r (u_conflict ?u) = map_of ?p (u_conflict ?u)"
  have ex: "execute_upsert E U ?d (InventorySQL ADD_STOCK) (stock_params pid q)
      (inventory_defaults (fst (next_uuid E w)) (now E)) = Some (upsert_rows ?X (inventory_defaults (fst (next_uuid E w)) (now E)) ?u)"
    by (simp add: execute_upsert_def sql_files_def)
  note defs = add_stock_statement_def stock_params_def bound_def
  have p: "?p = [(''id'', SUuid (fst (next_uuid E w))), (''product_id'', SUuid pid), (''quantity'', SInt q),
      (''low_stock_threshold'', SInt 5), (''last_updated'', STime (now E))]"
    by (simp add: proposed_row_def update_columns_def inventory_defaults_def defs)
  have hit: "?hit (inventory_columns_of U k) \<longleftrightarrow> i_product_id k = pid" for k
    unfolding p by (simp add: inventory_columns_of_def add_stock_statement_def)
  have read: "InventoryObject (inventory_columns_of U k) = Some k" for k
    by (simp add: InventoryObject_def inventory_columns_of_def)
  have upd: "updated_row ?X ?p ?u (inventory_columns_of U k) =
      [(''id'', SUuid (i_id k)), (''product_id'', SUuid (i_product_id k)), (''quantity'', SInt (i_quantity k + q)),
       (''low_stock_threshold'', SInt (i_threshold k)), (''last_updated'', STime (now E))]" for k
    unfolding p by (simp add: updated_row_def update_columns_def inventory_columns_of_def add_stock_statement_def)
  have find: "find ?hit (map (inventory_columns_of U) xs) = map_option (inventory_columns_of U) (find (\<lambda>k. i_product_id k = pid) xs)" for xs
    by (induction xs) (simp_all add: hit)
  show ?thesis
  proof (cases "get_by_product_id pid ?d")
    case None
    obtain u w0 where u: "next_uuid E w = (u, w0)" by fastforce
    then have w0: "work w0 = ?d" using next_simps(1) [of E w] by simp
    have i: "i = \<lparr>i_id = u, i_product_id = pid, i_quantity = q, i_threshold = 5\<rparr>"
      "inventory (work w') = inventory ?d @ [i]"
      using assms(2) None u w0
      by (auto simp: add_stock_row_def Let_def insert_inventory_def and_then_Inr_iff elim!: execute_cases split: if_splits)
    have none: "find (\<lambda>k. i_product_id k = pid) (inventory ?d) = None" using None by (simp add: get_by_product_id_def)
    have "upsert_rows ?X (inventory_defaults (fst (next_uuid E w)) (now E)) ?u =
        (map (inventory_columns_of U) (inventory ?d) @ [?p],
         map (\<lambda>(e, n). (n, eval_expr ?X [] (qualify ''inventory'' ?p) e)) (u_returning ?u))"
      using find [of "inventory ?d"] none by (simp add: upsert_rows_def Let_def add_stock_statement_def)
    then show ?thesis
      unfolding ex p by (simp add: i u o_def inventory_columns_of_def InventoryObject_def add_stock_statement_def)
  next
    case (Some j)
    have i: "i = j\<lparr>i_quantity := i_quantity j + q\<rparr>"
      "inventory (work w') = map (\<lambda>k. if i_product_id k = pid then i else k) (inventory ?d)"
      using assms(2) Some look_ups(3) [OF Some]
      by (auto simp: add_stock_row_def Let_def update_inventory_def and_then_Inr_iff elim!: execute_cases split: if_splits)
    have some: "find (\<lambda>k. i_product_id k = pid) (inventory ?d) = Some j" using Some by (simp add: get_by_product_id_def)
    have "distinct (map i_product_id (inventory ?d))"
      using assms(1) by (simp add: db_ok_def constraints_def inventory_constraints_def)
    from filter_distinct_find [OF this, of pid] some
    have one: "filter (\<lambda>k. i_product_id k = pid) (inventory ?d) = [j]" by simp
    have only: "k = j" if "k \<in> set (inventory ?d)" "i_product_id k = pid" for k
    proof -
      have "k \<in> set (filter (\<lambda>k. i_product_id k = pid) (inventory ?d))" using that by simp
      then show ?thesis unfolding one by simp
    qed
    have "upsert_rows ?X (inventory_defaults (fst (next_uuid E w)) (now E)) ?u =
        (map (\<lambda>r. if ?hit r then updated_row ?X ?p ?u r else r) (map (inventory_columns_of U) (inventory ?d)),
         map (\<lambda>(e, n). (n, eval_expr ?X [] (qualify ''inventory'' (updated_row ?X ?p ?u (inventory_columns_of U j))) e)) (u_returning ?u))"
      using find [of "inventory ?d"] some by (simp add: upsert_rows_def Let_def add_stock_statement_def)
    moreover have "map InventoryObject (map (\<lambda>r. if ?hit r then updated_row ?X ?p ?u r else r) (map (inventory_columns_of U) (inventory ?d))) =
        map Some (inventory (work w'))"
      using only by (auto simp: i hit upd read) (auto simp: InventoryObject_def)
    moreover have "InventoryObject (map (\<lambda>(e, n). (n, eval_expr ?X [] (qualify ''inventory'' (updated_row ?X ?p ?u (inventory_columns_of U j))) e))
        (u_returning ?u)) = Some i"
      unfolding upd by (simp add: i InventoryObject_def add_stock_statement_def)
    ultimately show ?thesis unfolding ex by blast
  qed
qed

end
