(* ===== verification/TaskWire.thy ===== *)
theory TaskWire
  imports Process WebhookBody
begin

text \<open>
  A task on its way to a worker: the configuration of the serializers (\<open>celery_app/celery.py\<close>), the
  arguments the program queues a task with (\<open>webhook.py\<close>, \<open>generate_report.py\<close>, \<open>record_sale.py\<close>), the
  text they become, and the task a worker reads from it. What Celery adds to a message and pydantic's
  reading of a date are left to them; the latter is a parameter.
\<close>

section \<open>The configuration\<close>

record celery_conf =
  cc_task_serializer :: string
  cc_result_serializer :: string
  cc_accept_content :: "string list"
  cc_timezone :: string
  cc_enable_utc :: bool
  cc_task_acks_late :: bool
  cc_worker_prefetch_multiplier :: int
  cc_broker_connection_retry_on_startup :: bool

definition celery_config :: celery_conf where
  "celery_config =
     \<lparr>cc_task_serializer = ''json'', cc_result_serializer = ''json'', cc_accept_content = [''json''],
      cc_timezone = ''UTC'', cc_enable_utc = True, cc_task_acks_late = False, cc_worker_prefetch_multiplier = 1,
      cc_broker_connection_retry_on_startup = True\<rparr>"

section \<open>What is sent\<close>

definition optional_text :: "string option \<Rightarrow> json" where
  "optional_text o' = (case o' of None \<Rightarrow> JNull | Some s \<Rightarrow> JStr s)"

text \<open>\<open>InboundMessagePayload.model_dump()\<close> and \<open>ReportPayload.model_dump(mode="json")\<close>.\<close>

definition inbound_dump :: "inbound_payload \<Rightarrow> json" where
  "inbound_dump p =
     JObj [(''sender'', JStr (sender p)), (''message_text'', JStr (message_text p)),
           (''message_id'', JStr (message_id p)), (''correlation_id'', optional_text (correlation_id p))]"

definition report_dump :: "report_payload \<Rightarrow> json" where
  "report_dump p =
     JObj [(''shop_id'', JStr (uuid_str (rp_shop_id p))), (''recipient'', JStr (rp_recipient p)),
           (''date_str'', optional_text (map_option iso_date (rp_date p)))]"

text \<open>The positional and the named arguments of a task.\<close>

fun task_arguments :: "task \<Rightarrow> json list \<times> dict" where
  "task_arguments (ConversationTask p) = ([inbound_dump p], [])"
| "task_arguments (ReportTask p) = ([report_dump p], [])"
| "task_arguments (LowStockAlert ph pid n) =
     ([], [(''phone'', JStr ph), (''product_id'', JStr pid), (''remaining_stock'', JInt n)])"

record wire_message =
  wm_task :: string
  wm_content_type :: string
  wm_body :: string

definition send_task :: "celery_conf \<Rightarrow> task \<Rightarrow> wire_message" where
  "send_task C t =
     \<lparr>wm_task = task_name t, wm_content_type = cc_task_serializer C,
      wm_body = json_dumps (JArr [JArr (fst (task_arguments t)), JObj (snd (task_arguments t))])\<rparr>"

section \<open>What is read\<close>

definition optional_field :: "string \<Rightarrow> dict \<Rightarrow> string option option" where
  "optional_field k d =
     (case map_of d k of
        None \<Rightarrow> Some None
      | Some JNull \<Rightarrow> Some None
      | Some (JStr s) \<Rightarrow> Some (Some s)
      | Some _ \<Rightarrow> None)"

fun inbound_validate :: "json \<Rightarrow> inbound_payload option" where
  "inbound_validate (JObj d) =
     (case (str_field ''sender'' d, str_field ''message_text'' d, str_field ''message_id'' d,
            optional_field ''correlation_id'' d) of
        (Some s, Some t, Some i, Some c) \<Rightarrow>
          Some \<lparr>sender = s, message_text = t, message_id = i, correlation_id = c\<rparr>
      | _ \<Rightarrow> None)"
| "inbound_validate _ = None"

fun report_validate :: "(string \<Rightarrow> int option) \<Rightarrow> json \<Rightarrow> report_payload option" where
  "report_validate read_date (JObj d) =
     (case (Option.bind (str_field ''shop_id'' d) parse_uuid, str_field ''recipient'' d, optional_field ''date_str'' d) of
        (Some u, Some r, Some None) \<Rightarrow> Some \<lparr>rp_shop_id = u, rp_recipient = r, rp_date = None\<rparr>
      | (Some u, Some r, Some (Some s)) \<Rightarrow>
          map_option (\<lambda>n. \<lparr>rp_shop_id = u, rp_recipient = r, rp_date = Some n\<rparr>) (read_date s)
      | _ \<Rightarrow> None)"
| "report_validate read_date _ = None"

text \<open>The call of a task; \<open>None\<close> is a \<open>TypeError\<close> or a validation error, which the task fails with.\<close>

definition call_task :: "(string \<Rightarrow> int option) \<Rightarrow> string \<Rightarrow> json list \<Rightarrow> dict \<Rightarrow> task option" where
  "call_task read_date n args kwargs =
     (if n = ''app.workers.conversation_tasks.conversation_task''
      then (case (args, kwargs) of ([j], []) \<Rightarrow> map_option ConversationTask (inbound_validate j) | _ \<Rightarrow> None)
      else if n = ''app.workers.report_tasks.report_task''
      then (case (args, kwargs) of ([j], []) \<Rightarrow> map_option ReportTask (report_validate read_date j) | _ \<Rightarrow> None)
      else if n = ''app.workers.report_tasks.send_low_stock_alert''
      then (if args = [] \<and> set (map fst kwargs) = {''phone'', ''product_id'', ''remaining_stock''}
            then (case (str_field ''phone'' kwargs, str_field ''product_id'' kwargs, map_of kwargs ''remaining_stock'') of
                    (Some ph, Some pid, Some (JInt m)) \<Rightarrow> Some (LowStockAlert ph pid m)
                  | _ \<Rightarrow> None)
            else None)
      else None)"

definition receive_task :: "celery_conf \<Rightarrow> (string \<Rightarrow> int option) \<Rightarrow> wire_message \<Rightarrow> task option" where
  "receive_task C read_date m =
     (if wm_content_type m \<notin> set (cc_accept_content C) then None
      else case json_loads (wm_body m) of
        Inr (JArr [JArr args, JObj kwargs]) \<Rightarrow> call_task read_date (wm_task m) args kwargs
      | _ \<Rightarrow> None)"

section \<open>A task arrives as it was queued\<close>

lemma dashed_ascii:
  assumes "list_all (\<lambda>c. code c < (128 :: nat)) s"
  shows "list_all (\<lambda>c. code c < (128 :: nat)) (hyphenate s)"
  using assms by (auto simp: hyphenate_def list_all_iff dest!: in_set_takeD in_set_dropD)

lemma uuid_str_text: "unicode_text (uuid_str u)"
proof -
  have hex: "n mod 16 < 41" for n :: nat by (rule less_trans [of _ 16]) simp_all
  have "list_all (\<lambda>c. code c < (128 :: nat)) (hex_digits k n)" for k n
    by (induction k arbitrary: n) (simp_all add: code_hex_char hex)
  then show ?thesis unfolding uuid_str_def by (intro ascii_text dashed_ascii)
qed

lemma iso_date_text: "unicode_text (iso_date n)"
proof -
  have "list_all (\<lambda>c. code c < (128 :: nat)) (pad k m)" for k m
    using str_nat_digits [of "nat m"] by (auto simp: pad_def list_all_iff is_dig_def Let_def)
  then show ?thesis unfolding iso_date_def by (intro ascii_text) simp
qed

text \<open>What the texts and the number of a task must be: a phone, a message and the identifiers in Unicode.\<close>

fun task_plain :: "task \<Rightarrow> bool" where
  "task_plain (ConversationTask p) =
     (unicode_text (sender p) \<and> unicode_text (message_text p) \<and> unicode_text (message_id p) \<and>
      (case correlation_id p of None \<Rightarrow> True | Some c \<Rightarrow> unicode_text c))"
| "task_plain (ReportTask p) = unicode_text (rp_recipient p)"
| "task_plain (LowStockAlert ph pid n) = (unicode_text ph \<and> unicode_text pid \<and> int32 n)"

lemma int32_plain: "int32 n \<Longrightarrow> plain (JInt n)"
proof -
  assume "int32 n"
  then have "nat \<bar>n\<bar> < 10 ^ 10" by (auto simp: int32_def)
  then have "length (str_nat (nat \<bar>n\<bar>)) \<le> 10" by (rule length_str_nat_le) simp
  then show ?thesis by (simp add: max_int_digits_def)
qed

lemma keys_text:
  "unicode_text ''sender''" "unicode_text ''message_text''" "unicode_text ''message_id''"
  "unicode_text ''correlation_id''" "unicode_text ''shop_id''" "unicode_text ''recipient''"
  "unicode_text ''date_str''" "unicode_text ''phone''" "unicode_text ''product_id''" "unicode_text ''remaining_stock''"
  by (rule ascii_text, simp)+

lemma task_arguments_plain:
  assumes "task_plain t"
  shows "plain (JArr [JArr (fst (task_arguments t)), JObj (snd (task_arguments t))])"
  using assms int32_plain
  by (cases t) (auto simp: inbound_dump_def report_dump_def optional_text_def keys_text uuid_str_text iso_date_text
      simp del: plain.simps(3) split: option.split)

lemma task_called:
  assumes "\<And>p d. t = ReportTask p \<Longrightarrow> rp_date p = Some d \<Longrightarrow> read_date (iso_date d) = Some d"
  shows "call_task read_date (task_name t) (fst (task_arguments t)) (snd (task_arguments t)) = Some t"
  using assms
  by (cases t) (auto simp: call_task_def inbound_dump_def report_dump_def str_field_def optional_field_def
      optional_text_def split: option.split)

lemma task_arrives:
  assumes "task_plain t" "\<And>p d. t = ReportTask p \<Longrightarrow> rp_date p = Some d \<Longrightarrow> read_date (iso_date d) = Some d"
  shows "receive_task celery_config read_date (send_task celery_config t) = Some t"
  using json_loads_dumps [OF task_arguments_plain [OF assms(1)]] task_called [OF assms(2)]
  by (simp add: receive_task_def send_task_def celery_config_def del: json_dumps.simps)

text \<open>A worker that accepted another content than the program sends would refuse every task.\<close>

lemma other_content_refused:
  assumes "cc_task_serializer C \<notin> set (cc_accept_content C)"
  shows "receive_task C read_date (send_task C t) = None"
  using assms by (simp add: receive_task_def send_task_def)

end
