(* ===== verification/Examples.thy ===== *)
theory Examples
  imports Http Pool Locking SchemaCheck SimulatorMain BenchRun SqlQueries TaskWire
begin

text \<open>
  A small shop on which the properties are applied to concrete inputs: one shop, one product
  with five units in stock and a low-stock threshold of three. The services outside the program
  are given by simple functions: the language model is unreachable, the message transport and the
  broker accept everything, and every request body reads as one text message.
\<close>

definition demo_settings :: settings where
  "demo_settings = default_settings\<lparr>groq_api_key := Some ''key''\<rparr>"

definition demo_env :: fsm_env where
  "demo_env = \<lparr>cfg = demo_settings, now = 1000000000, gen_random_uuid = (\<lambda>n. word_of_nat (100 + n)),
     random_choices = (\<lambda>_. ''ABC123''),
     similarity = (\<lambda>a b. if a = [] \<or> b = [] then 0 else if a = b then 1 else 0),
     injected = True, broker = (\<lambda>_. True)\<rparr>"

definition demo_shop :: shop_row where
  "demo_shop = \<lparr>sh_id = 1, sh_phone = ''254700'', sh_name = Some ''Duka'', sh_locale = ''en'', sh_created = 0\<rparr>"

definition demo_product :: product_row where
  "demo_product = \<lparr>p_id = 2, p_shop_id = 1, p_name = ''Sugar'', p_sku = ''S-1'', p_price = 15000, p_created = 0\<rparr>"

definition demo_inventory :: inventory_row where
  "demo_inventory = \<lparr>i_id = 3, i_product_id = 2, i_quantity = 5, i_threshold = 3\<rparr>"

definition demo_db :: db where
  "demo_db = \<lparr>shops = [demo_shop], products = [demo_product], inventory = [demo_inventory], sales = []\<rparr>"

definition demo_world :: world where
  "demo_world = \<lparr>durable = demo_db, work = demo_db, ticks = 0, tasks = []\<rparr>"

lemmas demo_defs = demo_env_def demo_settings_def default_settings_def demo_shop_def demo_product_def
  demo_inventory_def demo_db_def demo_world_def

lemma demo_world_ok: "world_ok demo_world"
  by (simp add: world_ok_def db_ok_def types_ok_def constraints_def shop_constraints_def
      product_constraints_def inventory_constraints_def sale_constraints_def shop_types_def
      product_types_def inventory_types_def varchar_def py_len_def numeric_10_2_def int32_def demo_defs)

lemma demo_stock: "stock demo_world 2 = Some 5"
  by (simp add: stock_def get_by_product_id_def demo_defs)

lemma demo_trigram: "trigram_law demo_env"
  by (simp add: trigram_law_def demo_defs)


section \<open>The environments of the tasks and of the webhook\<close>

definition demo_webhook_settings :: settings where
  "demo_webhook_settings = demo_settings\<lparr>whatsapp_app_secret := Some ''secret''\<rparr>"

definition demo_post :: "nat \<Rightarrow> string \<Rightarrow> dict \<Rightarrow> dict \<Rightarrow> http_result" where
  "demo_post k url headers payload = HttpRequestError ''unreachable''"

definition demo_task_env :: report_env where
  "demo_task_env =
     \<lparr>cfg = demo_settings, now = 1000000000, gen_random_uuid = (\<lambda>n. word_of_nat (100 + n)),
      random_choices = (\<lambda>_. ''ABC123''),
      similarity = (\<lambda>a b. if a = [] \<or> b = [] then 0 else if a = b then 1 else 0),
      injected = True, broker = (\<lambda>_. True), llm = default_llm_settings, post = demo_post,
      validation = \<lparr>report = (\<lambda>m d. []), error_messages = (\<lambda>m d. [])\<rparr>, input_schema = (\<lambda>m. []),
      sender_backend = ''mock'', whatsapp_access_token = None, message_sender_url = None,
      http_post = (\<lambda>url body t. Delivered), today = 738000,
      pdf_library = \<lparr>markup_error = (\<lambda>t. if t = ''<'' then Some ''unclosed'' else None),
                     build_document = (\<lambda>d fs. ''pdf'')\<rparr>\<rparr>"

definition demo_message :: wa_message where
  "demo_message = \<lparr>wa_from = ''254700'', wa_id = ''wamid.1'', wa_type = ''text'', wa_body = ''check stock''\<rparr>"

definition demo_webhook_env :: webhook_env where
  "demo_webhook_env =
     \<lparr>cfg = demo_webhook_settings, now = 1000000000, gen_random_uuid = (\<lambda>n. word_of_nat (100 + n)),
      random_choices = (\<lambda>_. ''ABC123''),
      similarity = (\<lambda>a b. if a = [] \<or> b = [] then 0 else if a = b then 1 else 0),
      injected = True, broker = (\<lambda>_. True), llm = default_llm_settings, post = demo_post,
      validation = \<lparr>report = (\<lambda>m d. []), error_messages = (\<lambda>m d. [])\<rparr>, input_schema = (\<lambda>m. []),
      sender_backend = ''mock'', whatsapp_access_token = None, message_sender_url = None,
      http_post = (\<lambda>url body t. Delivered),
      validate_webhook = (\<lambda>body. Inr \<lparr>wa_object = ''whatsapp'', wa_entries = [[[demo_message]]]\<rparr>),
      redis_failure = None, uuid4_text = ''id-1''\<rparr>"

definition demo_request :: webhook_request where
  "demo_request =
     \<lparr>raw_body = ''{}'', x_hub_signature_256 = Some (''sha256='' @ computed_signature ''secret'' ''{}''),
      correlation_header = None\<rparr>"

definition demo_payload :: inbound_payload where
  "demo_payload = \<lparr>sender = ''254700'', message_text = ''check stock'', message_id = ''wamid.1'',
                   correlation_id = Some ''id-1''\<rparr>"

definition demo_system :: system where
  "demo_system = \<lparr>sys_redis = empty_redis, sys_world = demo_world, sys_sent = []\<rparr>"

definition demo_sender :: message_sender where
  "demo_sender = MockMessageSender ''http://localhost:8080'' 5"

text \<open>A session that is about to confirm the sale of two units.\<close>

definition demo_sale_session :: user_session where
  "demo_sale_session =
     \<lparr>phone = ''254700'', sstate = S_CONFIRM_SALE,
      ctx = empty_context\<lparr>shop_id := Some 1, product_id := Some 2, product_name := Some ''Sugar'',
                          product_price := Some 15000, product_qty := Some 2\<rparr>\<rparr>"

definition demo_confirmation :: inbound_payload where
  "demo_confirmation = demo_payload\<lparr>message_text := ''yes''\<rparr>"

lemmas demo_env_defs = demo_task_env_def demo_webhook_env_def demo_webhook_settings_def demo_settings_def
  default_settings_def demo_post_def

lemma demo_task_trigram: "trigram_law demo_task_env"
  by (simp add: trigram_law_def demo_env_defs)

lemma demo_task_ttl: "0 < session_ttl_seconds (cfg demo_task_env)"
  by (simp add: demo_env_defs)

lemma demo_system_ok: "system_ok demo_system"
  using demo_world_ok by (simp add: system_ok_def demo_system_def store_inv_def empty_redis_def)

lemma demo_sale_session_inv: "session_inv demo_sale_session"
  by (simp add: demo_sale_session_def session_inv_def fields_ok_def product_known_def encodable_def
      empty_context_def)

lemma demo_authentic: "authentic demo_webhook_env demo_request"
  by (simp add: authentic_def demo_request_def demo_env_defs computed_signature_def hexdigest_strip)

section \<open>A confirmed sale, evaluated\<close>

lemmas demo_sale_evals = process_phase_def get_worker_db_def start_session_def process_message_def
  process_with_def is_override_def demo_confirmation_def demo_sale_session_def demo_payload_def
  OVERRIDE_COMMANDS_def lower_def lower_char_def strip_def lstrip_def rstrip_def py_space_def
  handle_confirm_sale_product_def parse_confirmation_def TRUE_VALUES_def record_sale_transaction_def
  get_db_session_def persist_sale_db_with_session_def empty_context_def on_db_def record_sale_def
  begin_nested_def product_by_id_def deduct_stock_def get_by_product_id_def is_insufficient_stock_def
  finalize_inventory_def update_inventory_def insert_sale_def execute_def next_uuid_def delay_def
  should_send_low_stock_alert_def types_ok_def constraints_def shop_constraints_def
  product_constraints_def inventory_constraints_def sale_constraints_def shop_types_def
  product_types_def inventory_types_def sale_types_def varchar_def py_len_def numeric_10_2_def
  int32_def s_total_def default_recorder_def build_result_def Let_def and_then_def

lemma demo_sale_reply:
  "map_sum id (\<lambda>x. message_key (fst x))
     (fst (process_phase demo_task_env demo_confirmation (Some demo_sale_session) demo_world)) =
   Inr MK_SALE_RECORDED"
  by (simp add: demo_sale_evals demo_task_env_def demo_defs)

lemma demo_cancel_text: "render_message MK_FLOW_CANCELLED ''en'' [] = Inr ''Flow cancelled. How can I help you today?''"
  by code_simp

lemma demo_override: "is_override ''cancel''"
  by code_simp

lemma demo_month:
  obtains t0 t1 where "resolve_period_boundaries
    \<lparr>rp_type = PT_RELATIVE, rp_relative = Some RP_MONTH, rp_range = None\<rparr> 1000000000 = Inr (t0, t1)"
proof -
  have "is_ok (resolve_period_boundaries
      \<lparr>rp_type = PT_RELATIVE, rp_relative = Some RP_MONTH, rp_range = None\<rparr> 1000000000)"
    by code_simp
  with that show thesis by (auto simp: is_ok_iff)
qed

lemma demo_previous_month:
  obtains u0 u1 where "resolve_previous_period_boundaries
    \<lparr>rp_type = PT_RELATIVE, rp_relative = Some RP_MONTH, rp_range = None\<rparr> 1000000000 = Inr (u0, u1)"
proof -
  have "is_ok (resolve_previous_period_boundaries
      \<lparr>rp_type = PT_RELATIVE, rp_relative = Some RP_MONTH, rp_range = None\<rparr> 1000000000)"
    by code_simp
  with that show thesis by (auto simp: is_ok_iff)
qed

lemma demo_found:
  obtains r w' where "find_products_by_fuzzy_name demo_env 1 ''sugar'' 3 demo_world = (Inr r, w')"
    "pr_status r = RS_EXACT_MATCH"
proof -
  have "strip ''sugar'' = ''sugar''" "lower ''sugar'' = ''sugar''" "lower ''Sugar'' = ''sugar''" by code_simp+
  with that show thesis
    by (simp add: find_products_by_fuzzy_name_def get_products_by_fuzzy_name_def p_name_lower_def and_then_def Let_def
        to_match_def demo_defs)
qed

lemma one_choice: "(1 :: nat) < 10 ^ max_int_digits"
  by (rule one_less_power) (simp_all add: max_int_digits_def)

text \<open>A session with one candidate.\<close>

definition demo_match :: scored_match where
  "demo_match = \<lparr>sm_id = 2, sm_shop_id = 1, sm_name = ''Sugar'', sm_sku = ''S-1'', sm_price = 15000,
                 similarity_score = 1 / 2\<rparr>"

definition demo_choosing :: user_session where
  "demo_choosing = demo_sale_session\<lparr>ctx := empty_context\<lparr>product_candidates := [demo_match]\<rparr>\<rparr>"

text \<open>The summary of a day with one product, of an unlucky name, that is low.\<close>

definition demo_summary :: daily_summary where
  "demo_summary =
     \<lparr>ds_total_revenue = 0, ds_transaction_count = 0, ds_top_by_units = [], ds_top_by_revenue = [],
      ds_low_stock = [\<lparr>ls_id = 2, ls_name = ''<'', ls_quantity = 1, ls_threshold = 3\<rparr>]\<rparr>"

section \<open>A second shop\<close>

text \<open>The same world with a shop and a product of somebody else.\<close>

definition other_shop :: shop_row where
  "other_shop = \<lparr>sh_id = 7, sh_phone = ''254711'', sh_name = None, sh_locale = ''sw'', sh_created = 0\<rparr>"

definition other_product :: product_row where
  "other_product = \<lparr>p_id = 8, p_shop_id = 7, p_name = ''Salt'', p_sku = ''S-2'', p_price = 5000, p_created = 0\<rparr>"

definition two_shops :: world where
  "two_shops =
     (let d = demo_db\<lparr>shops := shops demo_db @ [other_shop], products := products demo_db @ [other_product]\<rparr> in
      demo_world\<lparr>durable := d, work := d\<rparr>)"

lemma two_shops_ok: "world_ok two_shops"
  by (simp add: two_shops_def other_shop_def other_product_def Let_def world_ok_def db_ok_def types_ok_def
      constraints_def shop_constraints_def product_constraints_def inventory_constraints_def
      sale_constraints_def shop_types_def product_types_def inventory_types_def varchar_def py_len_def
      numeric_10_2_def int32_def demo_defs)

lemma two_shops_view: "shop_view 1 (work two_shops) = shop_view 1 (work demo_world)"
  by (simp add: shop_view_def two_shops_def other_shop_def other_product_def Let_def demo_defs)

section \<open>Two sales that overlap\<close>

definition demo_rq :: "int \<Rightarrow> sale_request" where
  "demo_rq q = \<lparr>rq_shop = 1, rq_product = 2, rq_quantity = q, rq_by = ''254700''\<rparr>"

definition demo_new_sale :: sale_row where
  "demo_new_sale = new_sale demo_env 0 (demo_rq 2) demo_product"

definition demo_begun :: lock_state where
  "demo_begun = set_tx 1 (Checked (demo_rq 4) demo_product) (set_tx 0 (Checked (demo_rq 2) demo_product) (unlocked demo_db))"

definition demo_locked :: lock_state where
  "demo_locked = (set_tx 0 (Locked (demo_rq 2) demo_product demo_inventory) demo_begun)
     \<lparr>row_locks := (row_locks demo_begun)(2 \<mapsto> 0)\<rparr>"

definition demo_sold :: lock_state where
  "demo_sold = finish 0 (SaleEntry 0 0 (demo_rq 2)) (SaleAnswer (Inr (sale_answer demo_inventory demo_new_sale)))
     (sale_writes demo_inventory demo_new_sale demo_db)
     ((set_tx 0 (Staged (demo_rq 2) 0 demo_inventory demo_new_sale) demo_locked)\<lparr>draws := 1\<rparr>)"

lemma demo_looks:
  "product_by_id 2 demo_db = Some demo_product" "get_by_product_id 2 demo_db = Some demo_inventory"
  "p_shop_id demo_product = 1"
  by (simp_all add: product_by_id_def get_by_product_id_def demo_defs)

lemma demo_units: "i_quantity demo_inventory = 5" "s_quantity demo_new_sale = 2"
  by (simp_all add: demo_inventory_def demo_new_sale_def new_sale_def demo_rq_def)

lemma demo_rq_simps [simp]:
  "rq_product (demo_rq q) = 2" "rq_shop (demo_rq q) = 1" "rq_quantity (demo_rq q) = q"
  by (simp_all add: demo_rq_def)

lemma demo_db_ok: "db_ok demo_db"
  using demo_world_ok by (simp add: world_ok_def demo_world_def)

lemma unlocked_simps [simp]:
  "committed (unlocked d) = d" "row_locks (unlocked d) = Map.empty" "open_txs (unlocked d) = Map.empty"
  "draws (unlocked d) = 0" "journal (unlocked d) = []" "draws (set_tx t T S) = draws S"
  by (simp_all add: set_tx_def unlocked_def)

lemma demo_reaches_locked: "lock_reaches (\<lambda>_. demo_env) (unlocked demo_db) demo_locked"
proof -
  let ?E = "\<lambda>_ :: nat. demo_env"
  have c: "lock_reaches ?E S (set_tx t (Checked (demo_rq q) demo_product) S)"
    if "open_txs S t = None" "0 < q" "committed S = demo_db" for S t q
  proof -
    have "lock_step ?E S (set_tx t (Begun (demo_rq q)) S)" by (rule lock_step.begun) (use that in simp_all)
    moreover have "lock_step ?E (set_tx t (Begun (demo_rq q)) S)
        (set_tx t (Checked (demo_rq q) demo_product) (set_tx t (Begun (demo_rq q)) S))"
      by (rule lock_step.checked) (use that demo_looks in simp_all)
    moreover have "set_tx t (Checked (demo_rq q) demo_product) (set_tx t (Begun (demo_rq q)) S) =
        set_tx t (Checked (demo_rq q) demo_product) S" by (simp add: set_tx_def)
    ultimately show ?thesis by (metis converse_rtranclp_into_rtranclp r_into_rtranclp)
  qed
  have "lock_reaches ?E (unlocked demo_db) (set_tx 0 (Checked (demo_rq 2) demo_product) (unlocked demo_db))"
    by (rule c) simp_all
  also have "lock_reaches ?E \<dots> demo_begun" unfolding demo_begun_def by (rule c) simp_all
  also have "lock_step ?E demo_begun demo_locked"
    using lock_step.locked [where E = ?E, of demo_begun 0 "demo_rq 2" demo_product demo_inventory]
    by (simp add: demo_locked_def demo_begun_def demo_looks)
  finally show ?thesis .
qed

lemma demo_reaches_sold: "lock_reaches (\<lambda>_. demo_env) (unlocked demo_db) demo_sold"
proof -
  let ?E = "\<lambda>_ :: nat. demo_env"
  let ?S = "(set_tx 0 (Staged (demo_rq 2) 0 demo_inventory demo_new_sale) demo_locked)\<lparr>draws := 1\<rparr>"
  note demo_reaches_locked
  also have "lock_step ?E demo_locked ?S"
  proof -
    have ok: "db_ok (sale_writes demo_inventory demo_new_sale demo_db)"
      unfolding sale_writes_ok [OF demo_db_ok demo_looks(2), of demo_new_sale, unfolded demo_units, simplified]
      by (simp add: demo_new_sale_def new_sale_def demo_rq_def sale_types_def int32_def numeric_10_2_def
          s_total_def varchar_def py_len_def demo_defs)
    have "\<not> id_staged 0 u demo_locked" for u
      by (auto simp: id_staged_def demo_locked_def demo_begun_def split: if_splits)
    with ok lock_step.staged [where E = ?E, of demo_locked 0 "demo_rq 2" demo_product demo_inventory demo_new_sale]
    show ?thesis
      by (simp add: demo_locked_def demo_begun_def demo_new_sale_def is_insufficient_stock_def demo_inventory_def)
  qed
  also have "lock_step ?E ?S demo_sold"
  proof -
    have "committed ?S = demo_db" by (simp add: demo_locked_def demo_begun_def)
    with lock_step.sold [where E = ?E, of ?S 0 "demo_rq 2" 0 demo_inventory demo_new_sale] show ?thesis
      by (simp add: demo_sold_def)
  qed
  finally show ?thesis .
qed

lemma demo_sold_level: "level 2 (committed demo_sold) = 3" "length (journal demo_sold) = 1"
  by (simp_all add: demo_sold_def finish_def level_def sale_writes_look [OF demo_db_ok demo_looks(2)] demo_units
      close_tx_def demo_locked_def demo_begun_def)

section \<open>The tools around the program\<close>

text \<open>A simulator that talks to the webhook, and a run of the benchmark that fails.\<close>

definition demo_webhook_reader :: webhook_env where
  "demo_webhook_reader = demo_webhook_env\<lparr>validate_webhook := loads_and_validates\<rparr>"

definition demo_sim :: sim_env where
  "demo_sim =
     \<lparr>webhook_url = ''http://localhost:8000/webhook/whatsapp'', static_phone = ''254700'', sim_secret = Some ''secret'',
      deliver = (\<lambda>_. Accepted 200), patch_locale = (\<lambda>_ _. None), healthy = (\<lambda>_. True), sim_time = ''now'',
      sim_uuid = (\<lambda>_. ''1''), repr_text = (\<lambda>s. s), json_error_text = (\<lambda>_. []), static_file = (\<lambda>_. None)\<rparr>"

definition demo_failure :: run_of_request where
  "demo_failure =
     \<lparr>ro_events = [Generated None 12], ro_replies = [],
      ro_ending = Failed ''LLMError'' ''401: bad key gsk_abc'' [], ro_latency = 20\<rparr>"

definition demo_bench :: bench_settings where
  "demo_bench = \<lparr>benchmark_allow_llm = True, app_env = ''development'', test_db_url = Some ''db'', database_url = ''db'',
     bench_sender = ''mock'', groq_key = Some ''gsk_abc'', openrouter_key = None, debug_mode = False\<rparr>"

definition demo_backlog :: system where
  "demo_backlog = demo_system\<lparr>sys_world :=
     demo_world\<lparr>tasks := [ConversationTask demo_payload, LowStockAlert ''254700'' (uuid_str 2) 3]\<rparr>\<rparr>"

definition demo_http :: http_env where
  "demo_http =
     \<lparr>reporting = demo_task_env, hooks = demo_webhook_env, read_price = (\<lambda>_. None), money_json = (\<lambda>n. JInt n),
      time_json = (\<lambda>t. JInt t), test_broker_up = True, postgres_failure = None, redis_ping_failure = None\<rparr>"

definition demo_app :: app_state where
  "demo_app = \<lparr>app_redis = empty_redis, app_world = demo_world, app_examples = []\<rparr>"

lemma demo_app_ok: "app_ok demo_app"
  using demo_world_ok by (simp add: app_ok_def demo_app_def demo_world_def)

lemma demo_plain: "plain (JInt 2)" "plain (JInt 9)"
  by (simp add: max_int_digits_def, subst str_nat.simps, simp)+

lemma demo_stock_added:
  "add_stock_row demo_env 2 4 demo_world = (res, w') \<Longrightarrow> res = Inr (demo_inventory\<lparr>i_quantity := 9\<rparr>)"
proof -
  have "db_ok (demo_db\<lparr>inventory := [demo_inventory\<lparr>i_quantity := 9\<rparr>]\<rparr>)"
    by (simp add: db_ok_def types_ok_def constraints_def shop_constraints_def product_constraints_def
        inventory_constraints_def sale_constraints_def shop_types_def product_types_def inventory_types_def varchar_def
        py_len_def numeric_10_2_def int32_def demo_defs)
  then have "types_ok (demo_db\<lparr>inventory := [demo_inventory\<lparr>i_quantity := 9\<rparr>]\<rparr>)"
    "constraints (demo_db\<lparr>inventory := [demo_inventory\<lparr>i_quantity := 9\<rparr>]\<rparr>)"
    by (simp_all add: db_ok_def)
  then show "add_stock_row demo_env 2 4 demo_world = (res, w') \<Longrightarrow> res = Inr (demo_inventory\<lparr>i_quantity := 9\<rparr>)"
    by (auto simp: add_stock_row_def get_by_product_id_def update_inventory_def execute_def demo_world_def demo_db_def
        demo_inventory_def int32_def Let_def split: if_splits)
qed

section \<open>A run of the benchmark\<close>

text \<open>One measured request on a database that has the fixture; the conversation is ideal.\<close>

definition demo_bench_world :: world where
  "demo_bench_world = demo_world\<lparr>durable := demo_db\<lparr>shops := [demo_shop\<lparr>sh_phone := BENCHMARK_PHONE\<rparr>]\<rparr>,
     work := demo_db\<lparr>shops := [demo_shop\<lparr>sh_phone := BENCHMARK_PHONE\<rparr>]\<rparr>\<rparr>"

definition demo_measured :: run_of_request where
  "demo_measured =
     \<lparr>ro_events = [Generated (Some [''get_sales_summary'']) 300, Executed (Some True) 4], ro_replies = [''Sales''],
      ro_ending = Finished, ro_latency = 310\<rparr>"

definition demo_bench_env :: bench_env where
  "demo_bench_env = \<lparr>be_settings = demo_bench, be_endpoint = ''groq'', be_model = ''m'', be_timestamp = ''now'',
     be_repr = (\<lambda>s. s), be_shuffle = (\<lambda>_ qs. qs)\<rparr>"

definition demo_outside :: bench_outside where
  "demo_outside = \<lparr>bo_conversation = (\<lambda>_ s. (Some demo_measured, s)), bo_script_file = Inr ''return 1'',
     bo_dispose = None, bo_close = None, bo_mkdir = (\<lambda>_. None), bo_write = (\<lambda>_. None)\<rparr>"

definition demo_args :: bench_args where
  "demo_args = (default_args 20)\<lparr>ba_warmup := 0, ba_requests := 1\<rparr>"

definition demo_process :: bench_process where
  "demo_process = \<lparr>bp_world = demo_bench_world, bp_redis = empty_redis, bp_script = None, bp_sender = Original,
     bp_generate = Original, bp_execute = Original, bp_disposed = False, bp_closed = False, bp_files = [],
     bp_printed = []\<rparr>"

lemma demo_bench_runs: "fst (bench_main demo_env demo_bench_env demo_outside demo_args demo_process) = Inr 0"
proof (rule bench_main_succeeds)
  show "arguments_ok demo_args" by (simp add: arguments_ok_def demo_args_def default_args_def)
  show "require_safe_environment (be_settings demo_bench_env) = Inr ()"
    unfolding safe_environment by (simp add: demo_bench_env_def demo_bench_def is_set_def lower_def)
  let ?m = "run_request demo_bench 60 (''sales_summary'', ''How much did I sell today?'', ''get_sales_summary'') 0 demo_measured"
  have fixture: "prepare_fixture demo_env demo_bench_world = (Inr (), demo_bench_world)"
    by (simp add: prepare_fixture_def get_db_def fixture_rows_def shop_by_phone_def demo_bench_world_def rollback_def
        demo_world_def demo_db_def)
  show "cleaned_run demo_env demo_bench_env demo_outside demo_args demo_process =
      (Inr [?m], snd (cleaned_run demo_env demo_bench_env demo_outside demo_args demo_process))"
  proof -
    have "fst (measured_requests demo_env demo_bench_env demo_outside demo_args DEFAULT_QUERIES [0] P) = Inr [?m]" for P
      by (simp add: measured_request_def benchmark_payload_def demo_outside_def demo_bench_env_def DEFAULT_QUERIES_def
          demo_args_def default_args_def Let_def split: prod.split)
    then have "fst (observed_run demo_env demo_bench_env demo_outside demo_args P) = Inr [?m]" for P
      by (simp add: observed_run_def demo_args_def default_args_def demo_bench_env_def)
    then have "fst (patched_run demo_env demo_bench_env demo_outside demo_args P) = Inr [?m]" for P
      by (simp add: patched_run_def finally_do_def case_prod_beta)
    then have "fst (prepared_run demo_env demo_bench_env demo_outside demo_args demo_process) = Inr [?m]"
      by (simp add: prepared_run_def fixture demo_process_def demo_outside_def register_session_update_script_def
          reset_benchmark_session_def)
    then have "fst (cleaned_run demo_env demo_bench_env demo_outside demo_args demo_process) = Inr [?m]"
      by (simp add: cleaned_run_def finally_do_def cleanup_resources_def failing_def demo_outside_def case_prod_beta)
    then show ?thesis by (simp add: prod_eq_iff)
  qed
  have "succeeded ?m"
    unfolding request_succeeds
    by (simp add: demo_measured_def tools_chosen_def last_result_def strip_def lstrip_def rstrip_def py_space_def)
  then show "\<forall>m \<in> set [?m]. succeeded m" by simp
qed (simp_all add: demo_outside_def)

end
