(* ===== verification/Spec2Isabelle.thy ===== *)
theory Spec2Isabelle
  imports Examples
begin

text \<open>
  SokoFlow: the inventory and point-of-sale assistant of a shop, driven by chat messages. A message
  reaches the webhook, is checked and deduplicated and becomes a task; a worker reads the session
  of the phone, runs the conversation engine on it in one database transaction, saves the session
  by compare-and-set and sends the reply. Messages that are no command go to the analytics layer,
  where a language model proposes one tool call that is validated and run for the caller's shop.
  Paths below are relative to \<open>src/app\<close>.

  \<^bold>\<open>Ground.\<close> \<open>Prelude\<close>: fallible results and their sequencing. \<open>PyText\<close>, \<open>PyNumber\<close>, \<open>PyDecimal\<close>,
  \<open>PyFloat\<close>, \<open>PyUuid\<close>, \<open>PyJson\<close>, \<open>Regex\<close>, \<open>Calendar\<close>, \<open>Sha256\<close>: the parts of Python's library the
  code computes with. A string is the list of its UTF-8 bytes, an amount of money its cents, an
  instant its microseconds, a date its ordinal, a UUID a 128-bit word.

  \<^bold>\<open>Data and stores.\<close> \<open>Models\<close>, \<open>Errors\<close> (\<open>fsm/models.py\<close>, \<open>utils/errors.py\<close>,
  \<open>core/exception_handlers.py\<close>). \<open>Database\<close> (\<open>models/\<close>, \<open>core/database.py\<close>): tables as lists of
  rows, the types and constraints of the columns, the committed state \<open>durable\<close> beside the
  transaction's own \<open>work\<close>, savepoints, and the tasks handed to the broker. \<open>SessionCodec\<close>, \<open>Store\<close>
  (\<open>fsm/conversation_store.py\<close>, the Lua script): sessions as JSON under a key with a time to live,
  the interfaces \<open>codec\<close> and \<open>optimistic_store\<close>.

  \<^bold>\<open>Services.\<close> \<open>Inventory\<close>, \<open>Shops\<close>, \<open>Products\<close>, \<open>Sales\<close> (\<open>services/\<close>, \<open>repositories/\<close>, \<open>sql/\<close>).
  The interface \<open>stock_ledger\<close> is interpreted by the inventory and by the sales. \<open>Locking\<close>: sales,
  additions and threshold changes as transactions that overlap under row locks, simulated by the
  sequential operations. \<open>SqlFiles\<close> (\<open>sql/\<close>): the texts of the nine query files and their loader.
  \<open>Sql\<close>: the meaning of the SQL they are written in, with \<open>NULL\<close>, joins, groups, ranks, orders and
  upserts, over tables whose rows have no order; \<open>SqlReader\<close> reads a text into it. \<open>SqlQueries\<close>
  (\<open>repositories/\<close>, \<open>dto/sales.py\<close>): what the functions of the services return is what the texts mean.

  \<^bold>\<open>Schema.\<close> \<open>Ddl\<close>: a catalogue and the statements that change it. \<open>Migrations\<close>
  (\<open>../alembic/\<close>): the thirteen scripts, their order, upgrade and downgrade. \<open>SchemaCheck\<close>
  (\<open>models/\<close>): the declarations of the tables, and what rows a catalogue admits. \<open>Process\<close>
  (\<open>core/database.py\<close>, \<open>../alembic/env.py\<close>): the addresses both use, and migrations run or printed.

  \<^bold>\<open>Conversation.\<close> \<open>Parsers\<close>, \<open>Intents\<close>, \<open>Primitives\<close>, \<open>AddProduct\<close>, \<open>RecordSale\<close>, \<open>StockLookup\<close>
  (\<open>fsm/\<close> and \<open>fsm/flows/\<close>), \<open>FlowContract\<close> and \<open>FlowSteps\<close>: what every handler guarantees.
  \<open>Engine\<close> (\<open>fsm/engine.py\<close>): the dispatch, proved over the interface \<open>message_handler\<close>, and
  conversations as runs of a step relation. \<open>Localization\<close>, \<open>Replies\<close> (\<open>services/localization.py\<close>):
  every reply has a template in every language and the parameters its fields need.

  \<^bold>\<open>Analytics.\<close> \<open>AiErrors\<close>, \<open>Periods\<close>, \<open>Tools\<close>, \<open>ToolHandlers\<close>, \<open>Executor\<close>, \<open>LlmClient\<close>,
  \<open>Orchestrator\<close>, \<open>Formatter\<close> (\<open>ai/\<close>) and \<open>AnalyticsFlow\<close> (\<open>fsm/flows/analytics.py\<close>,
  \<open>fsm/routing_policy.py\<close>). The orchestrator is proved over the interface \<open>tool_surface\<close>, which the
  executor implements.

  \<^bold>\<open>Processes.\<close> \<open>Worker\<close> (\<open>workers/conversation_tasks.py\<close>, \<open>workers/message_sender.py\<close>), \<open>Pool\<close>:
  any number of workers whose steps interleave. \<open>Confirmation\<close>: the confirmation of a sale from
  the message to the committed tables. \<open>PdfReport\<close>, \<open>ReportTasks\<close> (\<open>services/pdf_service.py\<close>,
  \<open>workers/report_tasks.py\<close>), \<open>Queue\<close>: what the tasks queue and that the queue runs empty.
  \<open>Routing\<close> (\<open>workers/queues.py\<close>, \<open>../celery_app/celery.py\<close>, \<open>../docker-compose.yml\<close>): which queue a task
  goes to and which worker takes it. \<open>Webhook\<close>, \<open>Api\<close> (\<open>api/routes/\<close>), \<open>Http\<close>
  (\<open>main.py\<close>, \<open>schemas/\<close>): the routes, and the application from the text of a request to the text of
  its answer. \<open>JsonText\<close>, \<open>WebhookBody\<close>: what is printed as JSON is read back, and the body of the
  webhook as JSON. \<open>Process\<close> (\<open>main.py\<close>, \<open>../celery_app/celery.py\<close>, \<open>fsm/session_lua.py\<close>): the start
  and the end of a process, the script it registers. \<open>TaskWire\<close>: the text a task becomes and what a
  worker reads from it. \<open>Assembly\<close>: the constructors of the analytics
  layer, which without arguments build the components of the other theories.

  \<^bold>\<open>Tools.\<close> \<open>Simulator\<close> and \<open>SimulatorMain\<close> (\<open>../tools/chat_simulator.py\<close>), \<open>Redaction\<close>, \<open>Benchmark\<close>
  and \<open>BenchRun\<close> (\<open>../tools/analytics_benchmark.py\<close>). \<open>Examples\<close>: the shop the properties are applied to.

  \<^bold>\<open>Properties.\<close> C1 to C5 and C19 to C21: sales and stock, one transaction at a time and overlapping.
  C6 to C10, C24 and C32 to C36: messages, workers, the webhook, alerts, the queue and its workers.
  C11, C12: the analytics layer. C13, C37: the schema and its migrations. C14 to C18, C22 and C23:
  the conversation, its parsers and its replies. C25 to C27: the resolution of names and the texts of
  the queries. C28 to C31: the HTTP routes. C38 to C40: the tools. The facts after them are of the
  same kind and of less weight.

  \<^bold>\<open>Bounds and fuel.\<close> The orchestrator makes its two attempts by recursion on the list of them. The
  JSON scanner, the splitting of words and the redaction recurse on shorter texts. \<open>drain\<close> runs as
  many tasks as it is told; C34 gives a number that is enough. The order of the migrations is looked
  up for as many steps as there are scripts. The lists and the expressions of an SQL text are read with
  the number of its words as fuel, each of them takes at least one; that every file is read to its end
  is proved. Everything else is structural recursion.

  \<^bold>\<open>Parameters.\<close> The clock, random identifiers and suffixes, trigram similarity (\<open>pg_trgm\<close>, of which
  \<open>trigram_law\<close> states that an empty text is similar to nothing and that the threshold is
  positive), the broker, the match of a route's pattern, the HTTP requests to the model and to the
  message transport, the texts of pydantic's reports and its JSON schemas, its reading of decimals,
  the JSON of amounts and instants, the validation of the
  webhook's body, of which \<open>reads_json\<close> states that printed JSON is read as the value it came
  from, and the PDF library. The benchmark takes the conversation it measures as a parameter,
  the shuffle of a seed, which is used as a permutation, and the outcome of closing a connection and of
  writing a file. The columns that record when a row last changed, which no code reads, are one too.

  \<^bold>\<open>Not modelled.\<close> Transactions that overlap on other tables than the stock and the sales; the failure
  of a connection to the database; the settings' reading of the environment where no address or port
  depends on it, logging, the pages FastAPI generates, the parsing of
  command lines and what the tools print on a terminal: they are calls of libraries without logic of
  the program. SQL is modelled as far as the nine files use it, and
  texts are ordered by their bytes, not by a collation. The import of a module the repository
  lacks (\<open>models/__init__.py\<close>) is taken as absent.
\<close>

section \<open>Properties\<close>

text \<open>
  C1. No sequence of sale requests for a shop, whatever the products, quantities and failures in
  between, records more units of a product than were in stock; the stock that remains is exactly
  the initial stock less the units sold, and the table of sales grows by exactly those units.
\<close>

theorem sales_never_oversell:
  assumes "world_ok w" "\<forall>r \<in> set requests. 0 < snd r" "stock w pid = Some n"
  shows "let (granted, w') = sell_all E sid who requests w in
    units_granted pid granted \<le> n \<and> stock w' pid = Some (n - units_granted pid granted) \<and>
    units_sold w' pid = units_sold w pid + units_granted pid granted"
proof -
  obtain gs w' where s: "sell_all E sid who requests w = (gs, w')" by fastforce
  show ?thesis
    using sell_all_levels [OF assms(1,2) s assms(3)] sell_all_sold [OF assms(1,2) s] s by simp
qed

theorem sales_never_oversell_witness:
  "let (granted, w') = sell_all demo_env 1 ''System'' [(2, 3), (2, 4), (2, 2)] demo_world in
    units_granted 2 granted \<le> 5 \<and> stock w' 2 = Some (5 - units_granted 2 granted) \<and>
    units_sold w' 2 = units_sold demo_world 2 + units_granted 2 granted"
  by (rule sales_never_oversell [OF demo_world_ok _ demo_stock]) simp







text \<open>
  C5. However sales overlap, they never take more than there is: at every moment the committed stock
  of a product and the units sold of it together are what they were plus the units added, the sales
  that were answered account for every unit sold, and the stock is not negative.
\<close>

theorem overlapping_sales_balance:
  assumes "lock_reaches E (unlocked d) S" "db_ok d"
  shows "level pid (committed S) + sold_units pid (committed S) =
      level pid d + sold_units pid d + journal_sum (units_added_by pid) S \<and>
    sold_units pid (committed S) = sold_units pid d + journal_sum (units_sold_by pid) S \<and>
    0 \<le> level pid (committed S)"
  using lock_reaches_balance [OF assms, of pid] by simp

theorem overlapping_sales_balance_witness:
  "level 2 (committed demo_sold) = 3 \<and> sold_units 2 (committed demo_sold) = 2"
proof -
  have "level 2 demo_db = 5" "sold_units 2 demo_db = 0" "journal_sum (units_added_by 2) demo_sold = 0"
    by (simp add: level_def demo_looks demo_units, simp add: sold_units_def demo_db_def,
        simp add: journal_sum_def demo_sold_def finish_def close_tx_def demo_locked_def demo_begun_def)
  with overlapping_sales_balance [OF demo_reaches_sold demo_db_ok, of 2] demo_sold_level(1) show ?thesis by simp
qed



text \<open>
  C7. Whatever the interleaving of any number of workers over any stream of messages, the store
  holds, under every phone, only consistent sessions of that phone, and the tables keep the
  constraints of the schema.
\<close>

theorem workers_keep_stores_consistent:
  assumes "pool_reaches ok snd' (resting w) Q" "world_ok w" "\<And>E. ok E \<Longrightarrow> trigram_law E"
  shows "store_inv (sys_redis (sys Q)) \<and> world_ok (sys_world (sys Q))"
  using pool_reaches_ok [OF assms(1) resting_ok [OF assms(2)] assms(3)] by (simp add: pool_ok_def system_ok_def)

theorem workers_keep_stores_consistent_witness:
  "let Q = set_worker 0 (Processing demo_payload None) (sys (resting demo_world)) (resting demo_world) in
   store_inv (sys_redis (sys Q)) \<and> world_ok (sys_world (sys Q))"
proof -
  have "workers (resting demo_world) 0 = Free" by (simp add: resting_def)
  from pool_step.taken [OF this, of "\<lambda>E. E = demo_task_env" demo_sender demo_payload]
  have "pool_reaches (\<lambda>E. E = demo_task_env) demo_sender (resting demo_world)
      (set_worker 0 (Processing demo_payload None) (sys (resting demo_world)) (resting demo_world))"
    by (simp add: resting_def get_session_def redis_get_def empty_redis_def)
  from workers_keep_stores_consistent [OF this demo_world_ok] demo_task_trigram show ?thesis by simp
qed



text \<open>
  C9. A webhook request that does not carry the signature of its body under the configured secret
  changes no store, whatever the body: it is answered with 401, or it raises on a signature that
  is not ASCII.
\<close>

theorem unsigned_request_inert:
  assumes "\<not> authentic E req"
  shows "snd (webhook E req st) = st \<and>
    (fst (webhook E req st) = Inr (detail 401 ''Invalid or missing HMAC signature'') \<or>
     (\<exists>m. fst (webhook E req st) = Inl (TypeError m)))"
  by (rule unauthentic_rejected [OF assms])

theorem unsigned_request_inert_witness:
  "snd (webhook demo_webhook_env (demo_request\<lparr>x_hub_signature_256 := None\<rparr>) (empty_redis, demo_world)) =
     (empty_redis, demo_world)"
  using unsigned_request_inert [of demo_webhook_env "demo_request\<lparr>x_hub_signature_256 := None\<rparr>" "(empty_redis, demo_world)"]
  by (simp add: authentic_def)

text \<open>
  C10. However often a message is delivered to the webhook while its deduplication key lives, at
  most one task is queued for it.
\<close>

theorem message_queued_once:
  assumes "0 < dedup_ttl_seconds (cfg E)"
    "\<forall>x \<in> set rs. t0 \<le> fst x \<and> fst x < t0 + seconds (dedup_ttl_seconds (cfg E))"
    "webhooks E rs (rd, w) = (rd', w')"
  shows "queued m w' \<le> Suc (queued m w)"
  by (rule webhooks_at_most_once [OF assms])

theorem message_queued_once_witness:
  "queued ''wamid.1'' (snd (webhooks demo_webhook_env [(5, demo_request), (6, demo_request)] (empty_redis, demo_world))) \<le> 1"
proof -
  obtain rd' w' where s: "webhooks demo_webhook_env [(5, demo_request), (6, demo_request)] (empty_redis, demo_world) = (rd', w')"
    by fastforce
  have "queued ''wamid.1'' demo_world = 0" by (simp add: queued_def demo_world_def)
  with message_queued_once [OF _ _ s, of 0 "''wamid.1''"] s show ?thesis
    by (simp add: demo_env_defs)
qed



text \<open>
  C12. An analytics question always comes to an outcome, after at most two requests to the model.
  An answer carries the output of one of the active tools, run for the caller's shop on arguments
  that passed the tool's schema; every other outcome carries no data.
\<close>

theorem analytics_answers:
  "\<exists>o' n. run_analytics E m sid p w = (Some o', n) \<and> n \<le> 2 \<and>
    (if is_answered o'
     then \<exists>tool x out. tool \<in> set DEFAULT_ACTIVE_TOOLS \<and> oc_tool o' = Some tool \<and> oc_data o' = Some out \<and>
            map_of default_tools tool = Some (model_of x) \<and> input_ok x \<and> tool_handler E sid x w = Inr out
     else oc_data o' = None)"
proof -
  obtain o' where o': "fst (run_analytics E m sid p w) = Some o'" using run_analytics_returns by blast
  have "\<exists>tool x out. tool \<in> set DEFAULT_ACTIVE_TOOLS \<and> oc_tool o' = Some tool \<and> oc_data o' = Some out \<and>
      map_of default_tools tool = Some (model_of x) \<and> input_ok x \<and> tool_handler E sid x w = Inr out"
    if "is_answered o'"
    by (rule run_analytics_answered [OF o' that])
  moreover have "oc_data o' = None" if "\<not> is_answered o'"
    by (rule run_analytics_unanswered [OF o' that])
  ultimately show ?thesis
    using o' run_analytics_calls [of E m sid p w]
    by (intro exI [of _ o'] exI [of _ "snd (run_analytics E m sid p w)"]) (simp add: prod_eq_iff)
qed

text \<open>
  C13. The migrations, run on an empty database, end in the schema the program assumes: it admits
  exactly the tables that satisfy the constraints of the model of the database, and it admits the
  same tables as the declarations of the object-relational models.
\<close>

theorem migrated_schema_admits:
  "\<exists>D. upgrade_head blank_database = (Inr (), D) \<and>
     (\<forall>stamps d. admits (db_catalog D) (rows_of stamps d) = db_ok d) \<and>
     (\<forall>R. admits models_catalog R = admits (db_catalog D) R)"
  using upgrade_blank head_admits models_admit by (simp add: head_database_def)

text \<open>
  C14. However a conversation runs, message after message, through answers, refusals and failing
  services: the session is one the current state can be continued from, the tables keep the
  constraints of the schema, the phone is the same, and the history only grows.
\<close>

theorem conversation_invariant:
  assumes "conversation_reaches ok (s, w) (s', w')" "session_inv s" "world_ok w"
    "\<And>E. ok E \<Longrightarrow> trigram_law E"
  shows "session_inv s' \<and> world_ok w' \<and> phone s' = phone s \<and>
    (\<exists>more'. history (ctx s') = history (ctx s) @ more')"
  using conversation_inv [OF assms] .

theorem conversation_invariant_witness:
  "let s' = snd (reset_to_idle demo_task_env S_CONFIRM_SALE MK_FLOW_CANCELLED demo_sale_session) in
   session_inv s' \<and> world_ok demo_world \<and> phone s' = ''254700''"
proof -
  obtain r s' where c: "reset_to_idle demo_task_env S_CONFIRM_SALE MK_FLOW_CANCELLED demo_sale_session = (r, s')"
    by fastforce
  then have "process_message demo_task_env ''cancel'' (demo_sale_session, demo_world) = (Inr r, (s', demo_world))"
    by (simp add: process_message_def process_with_def demo_override) (simp add: demo_sale_session_def)
  from exchange.processed [of "\<lambda>E. E = demo_task_env", OF refl this]
  have "conversation_reaches (\<lambda>E. E = demo_task_env) (demo_sale_session, demo_world) (s', demo_world)"
    by (rule conversation_reaches.later [OF conversation_reaches.start])
  from conversation_invariant [OF this demo_sale_session_inv demo_world_ok] demo_task_trigram c
  show ?thesis by (simp add: demo_sale_session_def)
qed

text \<open>
  C15. One message, in any state of a session: the engine answers with a result that names the
  states before and after, the new session satisfies the invariant and its count of invalid
  inputs is below the limit; or a service raised an error, which is never an invalid input nor a
  corrupted session.
\<close>

theorem message_outcome:
  assumes "trigram_law E" "session_inv s" "world_ok w" "process_message E msg (s, w) = (res, (s', w'))"
  shows "world_ok w' \<and> phone s' = phone s \<and>
    (case res of
       Inr r \<Rightarrow> session_inv s' \<and> previous_state r = sstate s \<and> new_state r = sstate s' \<and>
                error_count (ctx s') < max 1 (max_fsm_errors (cfg E))
     | Inl e \<Rightarrow> service_error e)"
  using process_message_ok [OF assms(1-3), of msg] assms(4) by (auto simp: message_ok_def split: sum.split)

theorem message_outcome_witness:
  "let (res, s', w') = process_message demo_task_env ''sugar?'' (demo_sale_session, demo_world) in
   world_ok w' \<and> phone s' = ''254700''"
proof -
  obtain res s' w' where p: "process_message demo_task_env ''sugar?'' (demo_sale_session, demo_world) = (res, (s', w'))"
    by (rule prod_cases3)
  from message_outcome [OF demo_task_trigram demo_sale_session_inv demo_world_ok p] p show ?thesis
    by (simp add: demo_sale_session_def)
qed

text \<open>
  C16. An input that the handler of the state refuses, below the limit of refusals, keeps the
  state, is counted, and is answered with the message the error carries.
\<close>

theorem refused_input_counted:
  assumes "trigram_law E" "session_inv s" "world_ok w" "\<not> is_override msg"
    "handler_map E (sstate s) msg (s, w) = (Inl e, (s1, w1))" "is_invalid_input e"
    "error_count (ctx s) + 1 < max_fsm_errors (cfg E)"
  shows "\<exists>x s'. process_message E msg (s, w) = (Inr x, (s', w1)) \<and> sstate s' = sstate s \<and>
    error_count (ctx s') = error_count (ctx s) + 1 \<and> message_key x = fst (invalid_input_reply e)"
  by (rule process_message_refused [OF assms]) blast

theorem refused_input_counted_witness:
  "\<exists>x s' w1. process_message demo_task_env ''maybe'' (demo_sale_session, demo_world) = (Inr x, (s', w1)) \<and>
     sstate s' = S_CONFIRM_SALE \<and> error_count (ctx s') = 1"
proof -
  have h: "\<exists>e s1 w1. handler_map demo_task_env (sstate demo_sale_session) ''maybe'' (demo_sale_session, demo_world) =
      (Inl e, (s1, w1)) \<and> is_invalid_input e"
    by (simp add: demo_sale_evals FALSE_VALUES_def)
  have "\<not> is_override ''maybe''" "error_count (ctx demo_sale_session) + 1 < max_fsm_errors (cfg demo_task_env)"
    "error_count (ctx demo_sale_session) = 0" "sstate demo_sale_session = S_CONFIRM_SALE"
    by code_simp (simp_all add: demo_env_defs demo_sale_session_def empty_context_def)
  with h refused_input_counted [OF demo_task_trigram demo_sale_session_inv demo_world_ok] show ?thesis
    by fastforce
qed

text \<open>
  C17. Whatever the message and the state, the engine's reply can be rendered in every locale: its
  key has a template there and its parameters provide every field the template formats.
\<close>

theorem reply_renders:
  assumes "trigram_law E" "session_inv s" "world_ok w" "fst (process_message E msg (s, w)) = Inr r"
  shows "\<exists>text'. render_message (message_key r) loc (message_params r) = Inr text'"
proof -
  from process_message_speaks [OF assms(1-3), of msg] assms(4)
  have "presentable (message_key r) (message_params r)" by (simp add: speaks_def)
  from presentable_renders [OF this, of loc] show ?thesis by (simp add: is_ok_iff)
qed

theorem reply_renders_witness:
  "\<exists>r text'. fst (process_message demo_task_env ''cancel'' (demo_sale_session, demo_world)) = Inr r \<and>
     render_message (message_key r) ''sw'' (message_params r) = Inr text'"
proof -
  obtain r where r: "fst (process_message demo_task_env ''cancel'' (demo_sale_session, demo_world)) = Inr r"
    by (cases "reset_to_idle demo_task_env (sstate demo_sale_session) MK_FLOW_CANCELLED demo_sale_session")
       (simp add: process_message_def process_with_def demo_override)
  from reply_renders [OF demo_task_trigram demo_sale_session_inv demo_world_ok r, of "''sw''"] r
  show ?thesis by blast
qed



text \<open>
  C19. A recorded sale is of the shop's own product, at the product's price of that moment; it is
  appended to the sales, its units leave the stock of that product and of no other, and nothing
  is committed behind the caller's back.
\<close>

theorem sale_as_priced:
  assumes "world_ok w" "0 < q" "record_sale E sid pid q who w = (Inr r, w')"
  shows "\<exists>p n. product_by_id pid (work w) = Some p \<and> p_shop_id p = sid \<and> stock w pid = Some n \<and> q \<le> n \<and>
    s_shop_id (sr_sale r) = sid \<and> s_product_id (sr_sale r) = pid \<and> s_quantity (sr_sale r) = q \<and>
    s_unit_price (sr_sale r) = p_price p \<and> s_created (sr_sale r) = now E \<and>
    sr_remaining r = n - q \<and> stock w' = (stock w)(pid \<mapsto> n - q) \<and>
    sales (work w') = sales (work w) @ [sr_sale r] \<and> durable w' = durable w"
proof -
  have "0 \<le> q" using assms(2) by simp
  from assms(1) this assms(3) show ?thesis
  proof (cases rule: record_sale_Inr)
    case (1 p i)
    have "stock w pid = Some (i_quantity i)" using 1(3) by (simp add: stock_def)
    with 1 record_sale_levels [OF assms] show ?thesis
      by (intro exI [of _ p] exI [of _ "i_quantity i"]) simp
  qed
qed

theorem sale_as_priced_witness:
  "\<exists>r w'. record_sale demo_env 1 2 2 ''System'' demo_world = (Inr r, w') \<and> s_unit_price (sr_sale r) = 15000 \<and>
     stock w' 2 = Some 3"
proof -
  obtain r w' where s: "record_sale demo_env 1 2 2 ''System'' demo_world = (Inr r, w')"
    by (simp add: demo_sale_evals demo_defs)
  from sale_as_priced [OF demo_world_ok _ s] s demo_stock show ?thesis
    by (auto simp: product_by_id_def demo_defs)
qed



text \<open>
  C21. There is no deadlock among sales: whenever the stock row of a product is locked, its holder
  can go on to its answer and release the row, whatever the other transactions hold.
\<close>

theorem lock_holder_answered:
  assumes "lock_reaches E (unlocked d) S" "row_locks S k = Some t"
  shows "\<exists>S' n r x. lock_reaches E S S' \<and> open_txs S' t = Some Ended \<and> row_locks S' k = None \<and>
    last (journal S') = (SaleEntry t n r, SaleAnswer x) \<and> rq_product r = k"
  using holder_finishes [OF lock_reaches_finite lock_reaches_live, OF assms(1,1,2)]
  unfolding sale_answered_def by blast

theorem lock_holder_answered_witness:
  "\<exists>S' n r x. lock_reaches (\<lambda>_. demo_env) demo_locked S' \<and> row_locks S' 2 = None \<and>
     last (journal S') = (SaleEntry 0 n r, SaleAnswer x)"
proof -
  have "row_locks demo_locked 2 = Some 0" by (simp add: demo_locked_def)
  from lock_holder_answered [OF demo_reaches_locked this] show ?thesis by blast
qed





text \<open>
  C25. What the resolution of a product name tells: only the shop's own products are named; an
  exact match reaches the threshold of confidence; an ambiguous name comes with at most as many
  candidates as asked for, at least one, and none of them reaches the threshold.
\<close>

theorem name_resolution:
  assumes "find_products_by_fuzzy_name E sid q lmt w = (Inr r, w')"
  shows "case pr_status r of
      RS_NOT_FOUND \<Rightarrow> pr_product r = None \<and> pr_candidates r = []
    | RS_EXACT_MATCH \<Rightarrow>
        (\<exists>p row. pr_product r = Some p \<and> pr_candidates r = [] \<and> row \<in> set (products (work w)) \<and>
           p_shop_id row = sid \<and> p = to_match (similarity_score p) row \<and>
           confident_match_threshold (cfg E) \<le> similarity_score p)
    | RS_AMBIGUOUS \<Rightarrow>
        pr_product r = None \<and> pr_candidates r \<noteq> [] \<and> length (pr_candidates r) \<le> lmt \<and>
        (\<forall>m \<in> set (pr_candidates r). sm_shop_id m = sid \<and>
           similarity_score m < confident_match_threshold (cfg E))"
  using assms
proof (cases rule: resolution_cases)
  case (2 p)
  then obtain row where row: "row \<in> set (products (work w))" "p = to_match (similarity_score p) row" by blast
  have "p_shop_id row = sid" using 2(5) row(2) by (metis scored_match.select_convs(2) to_match_def)
  with 2 row show ?thesis by auto
qed simp_all

theorem name_resolution_witness:
  "\<exists>r w'. find_products_by_fuzzy_name demo_env 1 ''sugar'' 3 demo_world = (Inr r, w') \<and>
     pr_status r = RS_EXACT_MATCH \<and> (\<exists>p. pr_product r = Some p \<and> similarity_score p \<ge> 3 / 4)"
proof -
  obtain r w' where f: "find_products_by_fuzzy_name demo_env 1 ''sugar'' 3 demo_world = (Inr r, w')"
      "pr_status r = RS_EXACT_MATCH"
    by (rule demo_found)
  from name_resolution [OF f(1)] f show ?thesis by (auto simp: demo_defs)
qed

text \<open>
  C26. What the repository of sales returns is what the texts of its queries, read as SQL and run on the
  tables, mean: the revenue, the products with low stock and both rankings are the only answers, up to
  the order of rows the text leaves open, and the slow-moving products, whose number is limited, are one.
\<close>

theorem sales_queries_by_text:
  assumes "db_ok d"
  shows "(fetches E U d (SalesSQL GET_TOTAL_REVENUE_AND_COUNT) (day_params sid t0 t1) RevenueSummary rs \<longleftrightarrow>
       rs = [get_total_revenue_and_count sid t0 t1 d]) \<and>
    (fetches E U d (SalesSQL GET_PRODUCTS_WITH_LOW_STOCK) (shop_param sid) LowStockProductDTO ls \<longleftrightarrow>
       mset ls = mset (get_products_with_low_stock sid d)) \<and>
    (fetches E U d (SalesSQL GET_TOP_MOVING_PRODUCTS_BY_UNITS) (day_params sid t0 t1) TopProductByUnits_from_row us \<longleftrightarrow>
       mset us = mset (fst (get_top_moving_products sid t0 t1 d))) \<and>
    (fetches E U d (SalesSQL GET_TOP_MOVING_PRODUCTS_BY_REVENUE) (day_params sid t0 t1) TopProductByRevenue_from_row vs \<longleftrightarrow>
       mset vs = mset (snd (get_top_moving_products sid t0 t1 d))) \<and>
    fetches E U d (SalesSQL GET_SLOW_MOVING_PRODUCTS) (slow_params sid t0 t1 most lmt) SlowMovingProductDTO
      (get_slow_moving_products sid t0 t1 most lmt d)"
  by (intro conjI revenue_fetched low_stock_fetched top_units_fetched [OF assms] top_revenue_fetched [OF assms]
      slow_fetched [OF assms])

theorem sales_queries_by_text_witness:
  "fetches demo_env (\<lambda>_. SNull) demo_db (SalesSQL GET_TOTAL_REVENUE_AND_COUNT) (day_params 1 0 10) RevenueSummary
     [\<lparr>rs_revenue = 0, rs_count = 0\<rparr>] \<and>
   \<not> fetches demo_env (\<lambda>_. SNull) demo_db (SalesSQL GET_PRODUCTS_WITH_LOW_STOCK) (shop_param 1) LowStockProductDTO
     [\<lparr>ls_id = 2, ls_name = ''Sugar'', ls_quantity = 5, ls_threshold = 3\<rparr>]"
proof -
  have "get_total_revenue_and_count 1 0 10 demo_db = \<lparr>rs_revenue = 0, rs_count = 0\<rparr>"
    "get_products_with_low_stock 1 demo_db = []"
    by (simp_all add: get_total_revenue_and_count_def get_products_with_low_stock_def sales_between_def demo_db_def
        demo_product_def demo_inventory_def Let_def)
  with sales_queries_by_text [OF demo_db_ok, of demo_env "\<lambda>_. SNull" 1 0 10] show ?thesis by simp
qed

text \<open>
  C27. Adding stock is what the text of its statement means: run on the rows of the inventory, with the
  identifier and the columns the schema fills in, the statement returns the row the repository returns
  and leaves the rows the repository leaves, whether the product had a row or not.
\<close>

theorem stock_added_by_text:
  assumes "db_ok (work w)" "add_stock_row E pid q w = (Inr i, w')"
  shows "\<exists>T r. execute_upsert E U (work w) (InventorySQL ADD_STOCK) (stock_params pid q)
      (inventory_defaults (fst (next_uuid E w)) (now E)) = Some (T, r) \<and>
    InventoryObject r = Some i \<and> map InventoryObject T = map Some (inventory (work w'))"
  by (rule stock_added [OF assms])

theorem stock_added_by_text_witness:
  "\<exists>T r. execute_upsert demo_env (\<lambda>_. SNull) demo_db (InventorySQL ADD_STOCK) (stock_params 2 4)
      (inventory_defaults (fst (next_uuid demo_env demo_world)) (now demo_env)) = Some (T, r) \<and>
    InventoryObject r = Some (demo_inventory\<lparr>i_quantity := 9\<rparr>)"
proof -
  obtain res w' where a: "add_stock_row demo_env 2 4 demo_world = (res, w')" by fastforce
  then have "res = Inr (demo_inventory\<lparr>i_quantity := 9\<rparr>)" by (rule demo_stock_added)
  with a stock_added_by_text [of demo_world demo_env 2 4 _ w' "\<lambda>_. SNull"] demo_db_ok show ?thesis
    by (auto simp: demo_world_def)
qed

text \<open>
  C28. Whatever a client sends, to whichever path, the tables satisfy the schema when it is answered
  and nothing is left uncommitted; a GET changes nothing at all.
\<close>

theorem http_requests_safe:
  assumes "app_ok A"
  shows "app_ok (snd (app H q A)) \<and> (hq_method q = GET \<longrightarrow> snd (app H q A) = A)"
  using app_keeps [OF assms] gets_are_safe [OF assms] by blast

theorem http_requests_safe_witness:
  "snd (app demo_http ((deduct_request 2 1)\<lparr>hq_method := GET\<rparr>) demo_app) = demo_app \<and>
   app_ok (snd (app demo_http (deduct_request 2 1) demo_app))"
  using http_requests_safe [OF demo_app_ok] by simp



text \<open>
  C30. A sale posted to the HTTP route is answered but never committed: when the request ends, the
  tables are what they were.
\<close>

theorem posted_sale_lost:
  assumes "durable w = work w"
  shows "work (snd (api_record_sale E sid pid q who w)) = work w"
  by (rule api_sale_lost [OF assms])

theorem posted_sale_lost_witness:
  "work (snd (api_record_sale demo_env 1 2 2 ''System'' demo_world)) = demo_db"
  using posted_sale_lost [of demo_world] by (simp add: demo_world_def)

text \<open>
  C31. The request to deduct stock, from the JSON of its body to the JSON of the answer, refines the
  abstract stock level: a quantity that is not positive does not validate, a product without a
  record is 404, too few units are 422, all without a change; otherwise the answer tells the stock
  that remains, which is committed.
\<close>

theorem deduct_request_answered:
  assumes "app_ok A" "plain (JInt n)" "app H (deduct_request pid n) A = (a, A')"
  shows "if n \<le> 0 then a = Invalid \<and> stock (app_world A') = stock (app_world A)
    else case stock (app_world A) pid of
      None \<Rightarrow> status_of a = 404 \<and> stock (app_world A') = stock (app_world A)
    | Some m \<Rightarrow>
        if m < n then status_of a = 422 \<and> stock (app_world A') = stock (app_world A)
        else (\<exists>low. a = Replied 200 (JObj [(''remaining_stock'', JInt (m - n)), (''entered_low_stock'', JBool low)])) \<and>
             stock (app_world A') = (stock (app_world A))(pid \<mapsto> m - n)"
  using deduct_answered [OF assms] by (auto split: option.splits)

theorem deduct_request_answered_witness:
  "stock (app_world (snd (app demo_http (deduct_request 2 2) demo_app))) 2 = Some 3"
proof -
  obtain a A' where a: "app demo_http (deduct_request 2 2) demo_app = (a, A')" by fastforce
  have "stock (app_world demo_app) 2 = Some 5" using demo_stock by (simp add: demo_app_def)
  with deduct_request_answered [OF demo_app_ok demo_plain(1) a] a show ?thesis by simp
qed

text \<open>
  C32. When the conversation task answers that a sale was recorded, it has queued the low-stock
  alert of that product, with the stock that remains and for the seller's phone, exactly when the
  sale took the stock over the threshold, and no other task.
\<close>

theorem sale_queues_alert:
  assumes "process_phase E p (Some s) w = (Inr (r, s', loc), w')" "message_key r = MK_SALE_RECORDED"
    "world_ok w" "session_inv s" "sstate s = S_CONFIRM_SALE"
    "product_id (ctx s) = Some pid" "product_qty (ctx s) = Some q" "get_by_product_id pid (work w) = Some i"
  shows "tasks w' = tasks w @
    (if i_threshold i < i_quantity i \<and> i_quantity i - q \<le> i_threshold i
     then [LowStockAlert (phone s) (uuid_str pid) (i_quantity i - q)] else [])"
  by (rule sale_alert_queued [OF assms])

theorem sale_queues_alert_witness:
  "tasks (snd (process_phase demo_task_env demo_confirmation (Some demo_sale_session) demo_world)) =
     [LowStockAlert ''254700'' (uuid_str 2) 3]"
proof -
  obtain res w' where p: "process_phase demo_task_env demo_confirmation (Some demo_sale_session) demo_world = (res, w')"
    by fastforce
  obtain r s' loc where r: "res = Inr (r, s', loc)" "message_key r = MK_SALE_RECORDED"
    using demo_sale_reply p by (cases res) auto
  have s: "sstate demo_sale_session = S_CONFIRM_SALE" "product_id (ctx demo_sale_session) = Some 2"
    "product_qty (ctx demo_sale_session) = Some 2" "phone demo_sale_session = ''254700''"
    by (simp_all add: demo_sale_session_def)
  have "get_by_product_id 2 (work demo_world) = Some demo_inventory"
    by (simp add: get_by_product_id_def demo_defs)
  from sale_queues_alert [OF p [unfolded r] r(2) demo_world_ok demo_sale_session_inv s(1-3) this] p s(4)
  show ?thesis by (simp add: demo_inventory_def demo_world_def)
qed





text \<open>
  C35. Under the workers that are deployed, a report or an alert that has been queued waits for ever:
  whatever messages the workers run, it stays in the queue, because no worker was given its queue.
\<close>

theorem deployed_reports_wait:
  assumes "workers_reach glob compose_workers S S'" "t \<in> set (tasks (sys_world S))" "\<not> is_message t"
  shows "t \<in> set (tasks (sys_world S'))"
  by (rule compose_starves [OF assms])

theorem deployed_reports_wait_witness:
  "\<exists>S'. workers_reach prefix_glob compose_workers demo_backlog S' \<and> S' \<noteq> demo_backlog \<and>
     LowStockAlert ''254700'' (uuid_str 2) 3 \<in> set (tasks (sys_world S'))"
proof -
  let ?alert = "LowStockAlert ''254700'' (uuid_str 2) 3"
  let ?S1 = "demo_backlog\<lparr>sys_world := (sys_world demo_backlog)\<lparr>tasks := [?alert]\<rparr>\<rparr>"
  let ?S2 = "run_task demo_task_env demo_sender (ConversationTask demo_payload) ?S1"
  have q: "tasks (sys_world demo_backlog) = [ConversationTask demo_payload, ?alert]" by (simp add: demo_backlog_def)
  have step: "workers_reach prefix_glob compose_workers demo_backlog ?S2"
    using workers_reach.later [OF workers_reach.start message_step [OF q]] .
  have "load (tasks (sys_world ?S2)) < load (tasks (sys_world demo_backlog))"
    using run_task_load [of demo_task_env demo_sender "ConversationTask demo_payload" ?S1] q by simp
  then have "?S2 \<noteq> demo_backlog" by force
  with step deployed_reports_wait [OF step, of ?alert] q show ?thesis by auto
qed

text \<open>
  C36. When the broker refuses the task of a message, the message is lost: the sender is told 500,
  and the redelivery it makes within the time to live of the deduplication key is answered as a
  duplicate, although the broker would take it now.
\<close>

theorem refused_dispatch_loses_message:
  assumes "authentic E req" "validate_webhook E (raw_body req) = Inr wh"
    "from_whatsapp_webhook wh (Some (or_default (correlation_header req) (uuid4_text E))) = Some p"
    "redis_failure E = None" "\<not> broker E (ConversationTask p)" "0 < dedup_ttl_seconds (cfg E)"
    "redis_get (dedup_key (message_id p)) rd = None" "t < clock rd + seconds (dedup_ttl_seconds (cfg E))"
  shows "\<exists>rd'. webhook E req (rd, w) =
      (Inr (detail 500 ''Infrastructure error during task dispatch''), (rd', w)) \<and>
    webhook (E\<lparr>broker := (\<lambda>_. True)\<rparr>) req (rd'\<lparr>clock := t\<rparr>, w) =
      (Inr (webhook_reply \<lparr>wr_status = ''ignored'', wr_message = ''Duplicate message ignored''\<rparr>),
       (rd'\<lparr>clock := t\<rparr>, w))"
  using refused_message_lost [OF assms(1-7), of "E\<lparr>broker := (\<lambda>_. True)\<rparr>" t w] assms(4,8) by simp

theorem refused_dispatch_loses_message_witness:
  "\<exists>rd'. fst (webhook (demo_webhook_env\<lparr>broker := (\<lambda>_. True)\<rparr>) demo_request (rd', demo_world)) =
     Inr (webhook_reply \<lparr>wr_status = ''ignored'', wr_message = ''Duplicate message ignored''\<rparr>)"
proof -
  let ?E = "demo_webhook_env\<lparr>broker := (\<lambda>_. False)\<rparr>"
  have "authentic ?E demo_request" using demo_authentic by (simp add: authentic_def)
  moreover have "validate_webhook ?E (raw_body demo_request) =
      Inr \<lparr>wa_object = ''whatsapp'', wa_entries = [[[demo_message]]]\<rparr>"
    by (simp add: demo_webhook_env_def)
  moreover have "from_whatsapp_webhook \<lparr>wa_object = ''whatsapp'', wa_entries = [[[demo_message]]]\<rparr>
      (Some (or_default (correlation_header demo_request) (uuid4_text ?E))) = Some demo_payload"
    by (simp add: demo_request_def or_default_def demo_webhook_env_def demo_message_def demo_payload_def
        from_whatsapp_webhook_def)
  moreover have "redis_failure ?E = None" "\<not> broker ?E (ConversationTask demo_payload)"
    "0 < dedup_ttl_seconds (cfg ?E)" "redis_get (dedup_key (message_id demo_payload)) empty_redis = None"
    "clock empty_redis < clock empty_redis + seconds (dedup_ttl_seconds (cfg ?E))"
    by (simp_all add: demo_env_defs redis_get_def empty_redis_def)
  ultimately obtain rd' where "webhook (?E\<lparr>broker := (\<lambda>_. True)\<rparr>) demo_request (rd'\<lparr>clock := clock empty_redis\<rparr>, demo_world) =
      (Inr (webhook_reply \<lparr>wr_status = ''ignored'', wr_message = ''Duplicate message ignored''\<rparr>),
       (rd'\<lparr>clock := clock empty_redis\<rparr>, demo_world))"
    using refused_dispatch_loses_message by blast
  then show ?thesis by (intro exI [of _ "rd'\<lparr>clock := clock empty_redis\<rparr>"]) simp
qed



text \<open>
  C38. A message typed into the chat simulator reaches the worker as typed: the request it signs with
  the secret of the server is let in by the webhook, its body is read back, and a task with the
  phone, the text and the identifier of the message is queued.
\<close>

theorem simulated_message_queued:
  assumes "construct_payload ph m mid = Some w" "unicode_text ph" "unicode_text m" "unicode_text mid"
    "whatsapp_app_secret (cfg W) = Some (simulator_secret E None)" "simulator_secret E None \<noteq> []"
    "reads_json (validate_webhook W)" "redis_failure W = None" "0 < dedup_ttl_seconds (cfg W)"
    "redis_get (dedup_key mid) rd = None"
    "broker W (ConversationTask p)"
    "p = \<lparr>sender = ph, message_text = m, message_id = mid, correlation_id = Some (uuid4_text W)\<rparr>"
  shows "\<exists>rd'. webhook W (signed_request (simulator_secret E None) False w) (rd, wd) =
    (Inr (webhook_reply default_webhook_response), (rd', enqueue (ConversationTask p) wd))"
  by (rule simulated_message_accepted [OF assms])

theorem simulated_message_queued_witness:
  "\<exists>w rd'. construct_payload ''254700'' ''check stock'' ''wamid.1'' = Some w \<and>
     webhook demo_webhook_reader (signed_request (simulator_secret demo_sim None) False w) (empty_redis, demo_world) =
       (Inr (webhook_reply default_webhook_response),
        (rd', enqueue (ConversationTask (demo_payload\<lparr>correlation_id := Some ''id-1''\<rparr>)) demo_world))"
proof -
  let ?p = "\<lparr>sender = ''254700'', message_text = ''check stock'', message_id = ''wamid.1'', correlation_id = Some ''id-1''\<rparr>"
  obtain w where w: "construct_payload ''254700'' ''check stock'' ''wamid.1'' = Some w"
    by (simp add: construct_payload_eq)
  have ascii: "unicode_text ''254700''" "unicode_text ''check stock''" "unicode_text ''wamid.1''"
    by (rule ascii_text, simp)+
  have env: "whatsapp_app_secret (cfg demo_webhook_reader) = Some (simulator_secret demo_sim None)"
    "simulator_secret demo_sim None \<noteq> []" "reads_json (validate_webhook demo_webhook_reader)"
    "redis_failure demo_webhook_reader = None" "0 < dedup_ttl_seconds (cfg demo_webhook_reader)"
    "broker demo_webhook_reader (ConversationTask ?p)" "uuid4_text demo_webhook_reader = ''id-1''"
    by (simp_all add: demo_webhook_reader_def demo_sim_def simulator_secret_def or_default_def demo_env_defs loads_reads)
  have "redis_get (dedup_key ''wamid.1'') empty_redis = None" by (simp add: redis_get_def empty_redis_def)
  from simulated_message_queued [OF w ascii env(1-5) this env(6)] env(7) w show ?thesis
    by (simp add: demo_payload_def)
qed



text \<open>
  C40. A benchmark that reports success was allowed to run, came to its end and put everything back: the
  sender, the client and the executor are the program's own again and the connections are closed, every
  request asked for was measured and counted, and the file of the measurements, read as CSV, has
  their values, whatever characters the texts contain.
\<close>

theorem benchmark_accounts:
  assumes "bench_main E BE O' args P = (Inr 0, P')"
  shows "require_safe_environment (be_settings BE) = Inr () \<and> unpatched P' = unpatched P \<and>
    bp_disposed P' \<and> bp_closed P' \<and>
    (\<exists>ms text'. length ms = nat (ba_requests args) \<and> (\<forall>m \<in> set ms. succeeded m) \<and>
       map_of (bp_files P') (ba_output_dir args @ ''/analytics-benchmark-measurements.csv'') = Some text' \<and>
       csv_read text' = csv_columns # map (csv_values BE) ms)"
  using bench_main_zero [of E BE O' args P] bench_restores [of E BE O' args P] bench_closes [of args BE E O' P]
    measurements_read_back [of BE] assms
  by auto

theorem benchmark_accounts_witness:
  "\<exists>ms text'. length ms = 1 \<and> map_of (bp_files (snd (bench_main demo_env demo_bench_env demo_outside demo_args demo_process)))
      ''benchmark-results/analytics-benchmark-measurements.csv'' = Some text' \<and>
    csv_read text' = csv_columns # map (csv_values demo_bench_env) ms"
proof -
  have "bench_main demo_env demo_bench_env demo_outside demo_args demo_process =
      (Inr 0, snd (bench_main demo_env demo_bench_env demo_outside demo_args demo_process))"
    using demo_bench_runs by (simp add: prod_eq_iff)
  moreover have "ba_output_dir demo_args = ''benchmark-results''" "nat (ba_requests demo_args) = 1"
    by (simp_all add: demo_args_def default_args_def)
  ultimately show ?thesis using benchmark_accounts by fastforce
qed

section \<open>Further facts\<close>

text \<open>
  A price typed back in the form the assistant prints it is read as that price, to the cent,
  thousands separators and currency included.
\<close>

theorem printed_price_accepted:
  assumes "0 < n" "n < 10 ^ 28"
  shows "parse_price (''KES '' @ fmt_c2f n) = Inr n"
  by (rule parse_price_printed [OF assms])

theorem printed_price_accepted_witness: "parse_price (''KES '' @ fmt_c2f 123456789) = Inr 123456789"
  by (rule printed_price_accepted) simp_all

text \<open>
  A message is taken as the wish to add a product exactly when a verb of adding and a noun for
  a product occur in it as whole words, in either order.
\<close>

theorem add_product_intent:
  "(resolve t = I_ADD_PRODUCT) =
     (mentions product_verbs product_nouns (normalize_text t) \<or>
      mentions product_nouns product_verbs (normalize_text t))"
  using resolve_add_product_iff by blast

text \<open>
  The commands cancel, menu, exit and stop, in any case and with any white space around them,
  leave every flow from every state: the session is idle with its context cleared but for the
  shop and the history, which gains the state that was left, and no table changes.
\<close>

theorem override_leaves_flow:
  assumes "lower (strip msg) \<in> {''cancel'', ''menu'', ''exit'', ''stop''}"
  shows "\<exists>r s'. process_message E msg (s, w) = (Inr r, (s', w)) \<and>
    message_key r = MK_FLOW_CANCELLED \<and> sstate s' = S_IDLE \<and> phone s' = phone s \<and>
    ctx s' = empty_context\<lparr>shop_id := shop_id (ctx s), history := history (ctx s) @ (if sstate s = S_IDLE then [] else [sstate s]),
                          last_activity := Some (now E)\<rparr>"
  using assms
  by (simp add: process_message_def process_with_def is_override_def OVERRIDE_COMMANDS_def reset_to_idle_def
      clear_context_preserving_history_def transition_def build_result_def Let_def)

theorem override_leaves_flow_witness:
  "\<exists>r s'. process_message demo_task_env '' Cancel '' (demo_sale_session, demo_world) = (Inr r, (s', demo_world)) \<and>
     sstate s' = S_IDLE"
proof -
  have "lower (strip '' Cancel '') \<in> {''cancel'', ''menu'', ''exit'', ''stop''}" by code_simp
  from override_leaves_flow [OF this, of demo_task_env demo_sale_session demo_world] show ?thesis by blast
qed

text \<open>
  The daily report of a shop with a low-stock product whose name the PDF library cannot read
  as markup fails: product names are put into paragraphs unescaped.
\<close>

theorem report_fails_on_markup:
  assumes "r \<in> set (ds_low_stock summary)" "markup_error L (ls_name r) = Some m"
  shows "\<exists>m'. generate_daily_summary_pdf L today' summary nm d = Inl (ValueError m')"
  by (rule unescaped_name_fails [OF assms])

theorem report_fails_on_markup_witness:
  "\<exists>m'. generate_daily_summary_pdf (pdf_library demo_task_env) 738000 demo_summary ''Duka'' None = Inl (ValueError m')"
proof (rule report_fails_on_markup)
  let ?r = "\<lparr>ls_id = 2, ls_name = ''<'', ls_quantity = 1, ls_threshold = 3\<rparr>"
  show "?r \<in> set (ds_low_stock demo_summary)" by (simp add: demo_summary_def)
  show "markup_error (pdf_library demo_task_env) (ls_name ?r) = Some ''unclosed''"
    by (simp add: demo_task_env_def)
qed

text \<open>
  The previous period ends exactly where the period begins and is never empty: a trend
  compares two intervals without a gap and without an overlap.
\<close>

theorem previous_period_meets:
  assumes "resolve_period_boundaries p t = Inr (t0, t1)"
    "resolve_previous_period_boundaries p t = Inr (u0, u1)"
    "rp_type p = PT_DATE_RANGE \<Longrightarrow> \<forall>dr. rp_range p = Some dr \<longrightarrow> dr_start dr < dr_end dr"
  shows "u1 = t0 \<and> u0 < u1"
  by (rule previous_period_adjacent [OF assms])

theorem previous_period_meets_witness:
  "\<exists>t0 t1 u0. resolve_period_boundaries \<lparr>rp_type = PT_RELATIVE, rp_relative = Some RP_MONTH, rp_range = None\<rparr>
      1000000000 = Inr (t0, t1) \<and>
    resolve_previous_period_boundaries \<lparr>rp_type = PT_RELATIVE, rp_relative = Some RP_MONTH, rp_range = None\<rparr>
      1000000000 = Inr (u0, t0)"
proof -
  let ?p = "\<lparr>rp_type = PT_RELATIVE, rp_relative = Some RP_MONTH, rp_range = None\<rparr>"
  obtain t0 t1 where r: "resolve_period_boundaries ?p 1000000000 = Inr (t0, t1)" by (rule demo_month)
  obtain u0 u1 where u: "resolve_previous_period_boundaries ?p 1000000000 = Inr (u0, u1)"
    by (rule demo_previous_month)
  from previous_period_meets [OF r u] r u show ?thesis by simp
qed

text \<open>
  The route that deducts stock answers by the stock there is: 404 without a record, 422 when
  it is too low, both without any change, else 200 with the stock that remains, committed.
\<close>

theorem deduct_route_answers:
  assumes "world_ok w" "durable w = work w" "0 < q" "api_deduct_stock pid q w = (a, w')"
  shows "case stock w pid of
      None \<Rightarrow> (\<exists>h. a = Refused h \<and> he_status h = 404) \<and> stock w' = stock w
    | Some n \<Rightarrow>
        if n < q then (\<exists>h. a = Refused h \<and> he_status h = 422) \<and> stock w' = stock w
        else (\<exists>low. a = Answer 200 \<lparr>remaining_stock = n - q, entered_low_stock = low\<rparr>) \<and>
             stock w' = (stock w)(pid \<mapsto> n - q)"
  by (rule api_deduct_answers [OF assms])

theorem deduct_route_answers_witness: "stock (snd (api_deduct_stock 2 2 demo_world)) 2 = Some 3"
proof -
  obtain a w' where a: "api_deduct_stock 2 2 demo_world = (a, w')" by fastforce
  from deduct_route_answers [OF demo_world_ok _ _ a] a demo_stock show ?thesis by (simp add: demo_world_def)
qed

text \<open>
  The percentiles of the benchmark lie between the least and the greatest latency and grow with
  the percentage.
\<close>

theorem percentile_bounds:
  assumes "values \<noteq> []" "0 \<le> p" "p \<le> q" "q \<le> 100"
  shows "\<exists>a b. percentile values p = Some a \<and> percentile values q = Some b \<and> a \<le> b \<and>
    Min (set values) \<le> a \<and> b \<le> Max (set values)"
  by (rule percentile_monotone(1) [OF assms])

theorem percentile_bounds_witness:
  "\<exists>a b. percentile [30, 10, 20] 50 = Some a \<and> percentile [30, 10, 20] 95 = Some b \<and> a \<le> b \<and> 10 \<le> a \<and> b \<le> 30"
  using percentile_bounds [of "[30, 10, 20]" 50 95] by simp

text \<open>
  A deduction that is covered by the stock succeeds, leaves the stock less by the quantity,
  and reports low stock exactly when the level crosses the threshold with it: not when it stays
  above, and not again when it was low already.
\<close>

theorem low_stock_on_crossing:
  assumes "world_ok w" "get_by_product_id pid (work w) = Some i" "0 \<le> q" "q \<le> i_quantity i"
  shows "\<exists>w'. deduct_stock pid q c w =
      (Inr \<lparr>remaining_stock = i_quantity i - q,
            entered_low_stock = (i_threshold i < i_quantity i \<and> i_quantity i - q \<le> i_threshold i)\<rparr>, w') \<and>
    stock w' = (stock w)(pid \<mapsto> i_quantity i - q)"
  using deduct_succeeds [OF assms, of c] stock_after_deduct [OF assms(1,3)] assms(2)
  by (fastforce simp: stock_def)

theorem low_stock_on_crossing_witness:
  "\<exists>w'. deduct_stock 2 2 True demo_world = (Inr \<lparr>remaining_stock = 3, entered_low_stock = True\<rparr>, w')"
proof -
  have "get_by_product_id 2 (work demo_world) = Some demo_inventory"
    by (simp add: get_by_product_id_def demo_defs)
  from low_stock_on_crossing [OF demo_world_ok this, of 2 True] show ?thesis
    by (auto simp: demo_inventory_def)
qed

text \<open>
  The number shown beside a candidate chooses that candidate, for every list that can be
  shown.
\<close>

theorem shown_number_chooses:
  assumes "i < length (product_candidates (ctx s))"
    "length (product_candidates (ctx s)) < 10 ^ max_int_digits"
  shows "resolve_product_choice s (str_int (int i + 1)) = Inr (product_candidates (ctx s) ! i)"
  by (rule resolve_product_choice_number [OF assms])

theorem shown_number_chooses_witness: "resolve_product_choice demo_choosing (str_int 1) = Inr demo_match"
proof -
  have "product_candidates (ctx demo_choosing) = [demo_match]"
    by (simp add: demo_choosing_def)
  with shown_number_chooses [of 0 demo_choosing] one_choice show ?thesis by simp
qed

text \<open>
  The intent of a message depends on its words alone: neither the case of the letters nor the
  white space between and around them matters.
\<close>

theorem intent_of_words:
  assumes "map lower (py_split t) = map lower (py_split u)"
  shows "resolve t = resolve u"
  by (rule resolve_cong [OF assms])

theorem intent_of_words_witness: "resolve ''  Record   SALE '' = resolve ''record sale''"
proof -
  have "map lower (py_split ''  Record   SALE '') = map lower (py_split ''record sale'')" by code_simp
  then show ?thesis by (rule intent_of_words)
qed

text \<open>
  The interval of a relative period, the current day, week, month or year in the shop's time
  zone, contains the instant it is asked for.
\<close>

theorem relative_period_is_current:
  assumes "rp_type p = PT_RELATIVE" "resolve_period_boundaries p t = Inr (t0, t1)"
  shows "t0 \<le> t \<and> t < t1"
  by (rule period_contains_now [OF assms])

theorem relative_period_is_current_witness:
  "\<exists>t0 t1. resolve_period_boundaries \<lparr>rp_type = PT_RELATIVE, rp_relative = Some RP_MONTH, rp_range = None\<rparr>
     1000000000 = Inr (t0, t1) \<and> t0 \<le> 1000000000 \<and> 1000000000 < t1"
proof -
  let ?p = "\<lparr>rp_type = PT_RELATIVE, rp_relative = Some RP_MONTH, rp_range = None\<rparr>"
  obtain t0 t1 where r: "resolve_period_boundaries ?p 1000000000 = Inr (t0, t1)" by (rule demo_month)
  from relative_period_is_current [OF _ r] r show ?thesis by auto
qed

text \<open>
  The arguments a tool was run with, as they are remembered for the next question, pass the
  tool's schema again and give the same input.
\<close>

theorem remembered_arguments_revalidate:
  assumes "input_ok x"
  shows "model_validate (model_of x) (model_dump x) = VOk x"
  by (rule model_validate_dump [OF assms])

theorem remembered_arguments_revalidate_witness:
  "model_validate IM_StockLevel (model_dump (GetStockLevelInput None (Some ''Sugar''))) =
     VOk (GetStockLevelInput None (Some ''Sugar''))"
proof -
  have "input_ok (GetStockLevelInput None (Some ''Sugar''))" by code_simp
  from remembered_arguments_revalidate [OF this] show ?thesis by simp
qed

text \<open>
  The executor refines the registry: its envelope reports success exactly when the registry's
  own execution returns an output, and then carries that output and the validated arguments;
  every failure carries an error and no data.
\<close>

theorem executor_refines_registry:
  "case execute_tool P tools n sid args w of
     Inr out \<Rightarrow> is_success (execute_call P tools n args sid w) \<and> xr_data (execute_call P tools n args sid w) = Some out
   | Inl e \<Rightarrow> \<not> is_success (execute_call P tools n args sid w) \<and> xr_error (execute_call P tools n args sid w) \<noteq> None"
proof -
  have "\<not> is_success (execute_call P tools n args sid w) \<Longrightarrow> xr_error (execute_call P tools n args sid w) \<noteq> None"
    by (rule executor.error)
  with execute_refines [where P = P and tools = tools and n = n and args = args and sid = sid and w = w] show ?thesis
    by (cases "execute_tool P tools n sid args w") simp_all
qed

text \<open>
  A call that names a shop among its arguments is never run, whatever the tool: the shop is
  the caller's alone.
\<close>

theorem shop_argument_refused:
  assumes "''shop_id'' \<in> set (map fst args)"
  shows "\<not> is_success (execute_call P tools n args sid w)"
  using executor.scope [OF assms] .

theorem shop_argument_refused_witness:
  "\<not> is_success (execute_call (validation demo_task_env) (build_default_registry demo_task_env) ''get_stock_level''
     [(''shop_id'', JStr ''7''), (''product_name'', JStr ''Salt'')] 1 two_shops)"
  by (rule shop_argument_refused) simp

text \<open>
  Revenue and number of sales add up over adjacent intervals: a sale on the boundary is
  counted once.
\<close>

theorem revenue_adds_up:
  assumes "t0 \<le> t1" "t1 \<le> t2"
  shows "rs_revenue (get_total_revenue_and_count sid t0 t2 d) =
      rs_revenue (get_total_revenue_and_count sid t0 t1 d) + rs_revenue (get_total_revenue_and_count sid t1 t2 d) \<and>
    rs_count (get_total_revenue_and_count sid t0 t2 d) =
      rs_count (get_total_revenue_and_count sid t0 t1 d) + rs_count (get_total_revenue_and_count sid t1 t2 d)"
  using revenue_adjacent [OF assms] by blast

theorem revenue_adds_up_witness:
  "rs_count (get_total_revenue_and_count 1 0 20 demo_db) =
     rs_count (get_total_revenue_and_count 1 0 10 demo_db) + rs_count (get_total_revenue_and_count 1 10 20 demo_db)"
  using revenue_adds_up [of 0 10 20] by simp

text \<open>
  A phone keeps its shop: the first request registers it, and every later one, whatever the
  settings and the random identifiers then, answers the same shop and changes nothing.
\<close>

theorem shop_registered_once:
  assumes "get_shop_id E ph w = (Inr u, w')"
  shows "get_shop_id E' ph w' = (Inr u, w')"
  by (rule get_shop_id_again [OF assms])

theorem shop_registered_once_witness: "get_shop_id demo_task_env ''254700'' demo_world = (Inr 1, demo_world)"
proof -
  have "get_shop_id demo_env ''254700'' demo_world = (Inr 1, demo_world)"
    by (simp add: get_shop_id_def shop_by_phone_def demo_defs)
  then show ?thesis by (rule shop_registered_once)
qed

end
